(* ===== verification/Py_Prelude.thy ===== *)
theory Py_Prelude
  imports Complex_Main "HOL-Library.Word" "HOL-Library.Char_ord" "HOL-Library.List_Lexorder"
    "HOL-Library.Product_Lexorder"
begin

text \<open>
  What the components share: Python's bytes, slices and integer conversions, results that
  carry an exception as a value, text, and the bit-level facts on unbounded integers that the
  masks and shifts of the code need.

  Python's \<open>int\<close> is \<^typ>\<open>int\<close>, \<open>bytes\<close> is a list of 8-bit words. A Python \<open>str\<close> is the list
  of the bytes of its UTF-8 encoding, as \<^typ>\<open>string\<close>: the order of code points and the
  bytewise order agree on UTF-8, so comparing and sorting are the code's.
\<close>

unbundle bit_operations_syntax

named_theorems result_elims \<open>what a successful result says of its parts\<close>
named_theorems bytes_simps \<open>slices and integers read from bytes\<close>
named_theorems mask_simps \<open>masks and shifts as division and remainder\<close>

section \<open>Results\<close>

text \<open>An exception is \<open>Inl\<close>, a returned value \<open>Inr\<close>.\<close>

type_synonym ('e, 'a) result = "'e + 'a"

definition bindE :: "('e, 'a) result \<Rightarrow> ('a \<Rightarrow> ('e, 'b) result) \<Rightarrow> ('e, 'b) result" where
  "bindE m f = (case m of Inl e \<Rightarrow> Inl e | Inr x \<Rightarrow> f x)"

lemma bindE_simps [simp]:
  "bindE (Inl e) f = Inl e" "bindE (Inr x) f = f x"
  by (simp_all add: bindE_def)

lemma bindE_Inr_iff [result_elims]:
  "bindE m f = Inr y \<longleftrightarrow> (\<exists>x. m = Inr x \<and> f x = Inr y)"
  by (cases m) auto

lemma bindE_cong [fundef_cong]:
  "m = m' \<Longrightarrow> (\<And>x. m' = Inr x \<Longrightarrow> f x = g x) \<Longrightarrow> bindE m f = bindE m' g"
  by (cases m') auto

lemma bindE_Inl_iff:
  "bindE m f = Inl e \<longleftrightarrow> m = Inl e \<or> (\<exists>x. m = Inr x \<and> f x = Inl e)"
  by (cases m) auto

text \<open>A check that raises when its condition fails.\<close>

definition ensure :: "bool \<Rightarrow> 'e \<Rightarrow> ('e, unit) result" where
  "ensure c e = (if c then Inr () else Inl e)"

lemma ensure_Inr_iff [simp]: "ensure c e = Inr u \<longleftrightarrow> c"
  by (simp add: ensure_def)

lemma ensure_True [simp]: "c \<Longrightarrow> ensure c e = Inr ()"
  and ensure_False [simp]: "\<not> c \<Longrightarrow> ensure c e = Inl e"
  by (simp_all add: ensure_def)

text \<open>A list comprehension or loop body that may raise, from left to right.\<close>

fun mapE :: "('a \<Rightarrow> ('e, 'b) result) \<Rightarrow> 'a list \<Rightarrow> ('e, 'b list) result" where
  "mapE f [] = Inr []"
| "mapE f (x # xs) = bindE (f x) (\<lambda>y. bindE (mapE f xs) (\<lambda>ys. Inr (y # ys)))"

lemma mapE_Inr_iff:
  "mapE f xs = Inr ys \<longleftrightarrow>
     length ys = length xs \<and> (\<forall>i < length xs. f (xs ! i) = Inr (ys ! i))"
proof (induction xs arbitrary: ys)
  case Nil
  then show ?case by auto
next
  case (Cons x xs)
  show ?case
  proof (cases ys)
    case Nil
    then show ?thesis by (auto simp: bindE_Inr_iff)
  next
    case (Cons y ys')
    then show ?thesis
      by (auto simp: bindE_Inr_iff Cons.IH nth_Cons split: nat.splits)
  qed
qed

lemma mapE_length: "mapE f xs = Inr ys \<Longrightarrow> length ys = length xs"
  by (simp add: mapE_Inr_iff)

lemma mapE_set: "mapE f xs = Inr ys \<Longrightarrow> y \<in> set ys \<Longrightarrow> \<exists>x \<in> set xs. f x = Inr y"
  unfolding mapE_Inr_iff in_set_conv_nth by (metis nth_mem)

lemma mapE_no_error: "\<forall>x \<in> set xs. f x \<noteq> Inl e \<Longrightarrow> mapE f xs \<noteq> Inl e"
  by (induction xs) (auto simp: bindE_Inl_iff)

lemma mapE_total: "\<forall>x \<in> set xs. f x = Inr (g x) \<Longrightarrow> mapE f xs = Inr (map g xs)"
  by (induction xs) auto

lemma mapE_cong [fundef_cong]:
  "xs = ys \<Longrightarrow> (\<And>x. x \<in> set ys \<Longrightarrow> f x = g x) \<Longrightarrow> mapE f xs = mapE g ys"
  by (induction ys arbitrary: xs) auto

text \<open>A loop that threads a state and may raise.\<close>

fun foldE :: "('a \<Rightarrow> 's \<Rightarrow> ('e, 's) result) \<Rightarrow> 'a list \<Rightarrow> 's \<Rightarrow> ('e, 's) result" where
  "foldE f [] s = Inr s"
| "foldE f (x # xs) s = bindE (f x s) (foldE f xs)"

lemma foldE_append: "foldE f (xs @ ys) s = bindE (foldE f xs s) (foldE f ys)"
  by (induction xs arbitrary: s) (auto simp: bindE_def split: sum.splits)

lemma foldE_invariant:
  assumes "foldE f xs s = Inr t" "P s"
    and "\<And>x s s'. x \<in> set xs \<Longrightarrow> P s \<Longrightarrow> f x s = Inr s' \<Longrightarrow> P s'"
  shows "P t"
  using assms
proof (induction xs arbitrary: s)
  case Nil
  then show ?case by simp
next
  case (Cons x xs)
  then obtain s' where "f x s = Inr s'" "foldE f xs s' = Inr t"
    by (auto simp: bindE_Inr_iff)
  with Cons show ?case by (metis list.set_intros)
qed

section \<open>Bytes\<close>

type_synonym byte = "8 word"
type_synonym bytes = "byte list"

abbreviation blen :: "'a list \<Rightarrow> int" where
  "blen xs \<equiv> int (length xs)"

definition str_bytes :: "string \<Rightarrow> bytes" where
  "str_bytes s = map of_char s"

text \<open>
  \<open>xs[i:j]\<close>: negative bounds count from the end and both are clamped to the sequence.
\<close>

definition slice_bound :: "int \<Rightarrow> int \<Rightarrow> int" where
  "slice_bound n i = (if i < 0 then max 0 (i + n) else min i n)"

definition py_slice :: "'a list \<Rightarrow> int \<Rightarrow> int \<Rightarrow> 'a list" where
  "py_slice xs i j =
     (let a = slice_bound (blen xs) i; b = slice_bound (blen xs) j
      in take (nat (b - a)) (drop (nat a) xs))"

lemma py_slice_in [bytes_simps]:
  "0 \<le> i \<Longrightarrow> i \<le> j \<Longrightarrow> j \<le> blen xs \<Longrightarrow> py_slice xs i j = take (nat (j - i)) (drop (nat i) xs)"
  by (simp add: py_slice_def slice_bound_def)

lemma length_py_slice [bytes_simps]:
  "0 \<le> i \<Longrightarrow> i \<le> j \<Longrightarrow> j \<le> blen xs \<Longrightarrow> blen (py_slice xs i j) = j - i"
  by (simp add: py_slice_in)

lemma length_py_slice_le: "0 \<le> i \<Longrightarrow> 0 \<le> j \<Longrightarrow> blen (py_slice xs i j) \<le> max 0 (j - i)"
  by (auto simp: py_slice_def slice_bound_def Let_def)

lemma set_py_slice: "set (py_slice xs i j) \<subseteq> set xs"
  unfolding py_slice_def Let_def using set_take_subset set_drop_subset by fast

lemma py_slice_nth:
  "0 \<le> i \<Longrightarrow> j \<le> blen xs \<Longrightarrow> k < nat (j - i) \<Longrightarrow> py_slice xs i j ! k = xs ! (nat i + k)"
  by (auto simp: py_slice_def slice_bound_def)

lemma py_slice_py_slice:
  assumes "0 \<le> a" "b \<le> blen xs" "0 \<le> i" "i \<le> j" "j \<le> b - a"
  shows "py_slice (py_slice xs a b) i j = py_slice xs (a + i) (a + j)"
proof -
  have "length (py_slice xs a b) = nat (b - a)"
    using assms by (simp add: py_slice_in)
  with assms have "py_slice (py_slice xs a b) i j = take (nat (j - i)) (drop (nat i) (py_slice xs a b))"
    by (simp add: py_slice_in)
  also have "\<dots> = take (nat (j - i)) (drop (nat i) (take (nat (b - a)) (drop (nat a) xs)))"
    using assms by (simp add: py_slice_in)
  also have "\<dots> = take (nat (j - i)) (drop (nat (a + i)) xs)"
  proof -
    have "nat (a + i) = nat i + nat a" "min (nat (j - i)) (nat (b - a) - nat i) = nat (j - i)" using assms by linarith+
    then show ?thesis by (simp only: drop_take take_take drop_drop)
  qed
  also have "\<dots> = py_slice xs (a + i) (a + j)"
    using assms by (subst py_slice_in) simp_all
  finally show ?thesis .
qed

lemma py_slice_prefix:
  "0 \<le> i \<Longrightarrow> i + int k \<le> j \<Longrightarrow> i + int k \<le> blen xs \<Longrightarrow> take k (py_slice xs i j) = py_slice xs i (i + int k)"
  by (auto simp: py_slice_def slice_bound_def Let_def min_def)

lemma py_slice_self: "py_slice xs 0 (blen xs) = xs"
  by (simp add: py_slice_in)

lemma py_slice_append_left:
  "0 \<le> i \<Longrightarrow> i \<le> j \<Longrightarrow> j \<le> blen xs \<Longrightarrow> py_slice (xs @ ys) i j = py_slice xs i j"
  by (simp add: py_slice_in)

lemma py_slice_append_right:
  "blen xs \<le> i \<Longrightarrow> i \<le> j \<Longrightarrow> j \<le> blen xs + blen ys \<Longrightarrow>
     py_slice (xs @ ys) i j = py_slice ys (i - blen xs) (j - blen xs)"
  by (simp add: py_slice_in nat_diff_distrib)

lemma py_slice_take_drop:
  "0 \<le> i \<Longrightarrow> i \<le> j \<Longrightarrow> py_slice xs i j = take (nat (j - i)) (drop (nat i) xs)"
  by (auto simp: py_slice_def slice_bound_def Let_def min_def)

lemma py_slice_shift:
  "0 \<le> i \<Longrightarrow> i \<le> j \<Longrightarrow> py_slice (xs @ ys) (blen xs + i) (blen xs + j) = py_slice ys i j"
  by (simp add: py_slice_take_drop nat_add_distrib)

lemma py_slice_shift_0: "0 \<le> j \<Longrightarrow> py_slice (xs @ ys) (blen xs) (blen xs + j) = py_slice ys 0 j"
  using py_slice_shift [of 0 j xs ys] by simp

text \<open>Assigning a range of a \<open>bytearray\<close> its own length of bytes.\<close>

definition put_range :: "int \<Rightarrow> bytes \<Rightarrow> bytes \<Rightarrow> bytes" where
  "put_range off bs data = take (nat off) data @ bs @ drop (nat off + length bs) data"

lemma put_range_fill:
  "blen pre = off \<Longrightarrow> put_range off bs (pre @ replicate k 0) = pre @ bs @ replicate (k - length bs) 0"
  by (auto simp: put_range_def drop_replicate)

text \<open>\<open>data.startswith(prefix, start)\<close> for a start that is not negative.\<close>

definition py_startswith :: "'a list \<Rightarrow> 'a list \<Rightarrow> int \<Rightarrow> bool" where
  "py_startswith xs pre i = (i \<le> blen xs \<and> py_slice xs i (i + blen pre) = pre)"

text \<open>\<open>data.find(byte, start, end)\<close> for bounds that are not negative; \<open>-1\<close> when absent.\<close>

definition find_byte :: "bytes \<Rightarrow> byte \<Rightarrow> int \<Rightarrow> int \<Rightarrow> int" where
  "find_byte xs b i j =
     (let seg = py_slice xs i j; k = length (takeWhile (\<lambda>x. x \<noteq> b) seg)
      in if k < length seg then i + int k else -1)"

lemma find_byte_range:
  assumes "0 \<le> i" "0 \<le> j" "0 \<le> find_byte xs b i j"
  shows "i \<le> find_byte xs b i j" "find_byte xs b i j < j" "find_byte xs b i j < blen xs"
proof -
  let ?k = "length (takeWhile (\<lambda>x. x \<noteq> b) (py_slice xs i j))"
  from assms(3) have lt: "?k < length (py_slice xs i j)" and eq: "find_byte xs b i j = i + int ?k"
    by (auto simp: find_byte_def Let_def split: if_splits)
  show "i \<le> find_byte xs b i j" by (simp add: eq)
  from lt assms(1,2) have "int ?k < max 0 (j - i)"
    using length_py_slice_le [of i j xs] by linarith
  then show "find_byte xs b i j < j" by (simp add: eq)
  have "length (py_slice xs i j) \<le> length xs - nat i"
    using assms(1) by (auto simp: py_slice_def slice_bound_def Let_def)
  with lt assms(1) show "find_byte xs b i j < blen xs" by (simp add: eq)
qed

lemma find_byte_no_byte:
  assumes "0 \<le> i" "0 \<le> j" "0 \<le> find_byte xs b i j"
  shows "b \<notin> set (py_slice xs i (find_byte xs b i j))"
proof -
  let ?seg = "py_slice xs i j" and ?k = "length (takeWhile (\<lambda>x. x \<noteq> b) (py_slice xs i j))"
  note rng = find_byte_range [OF assms]
  have eq: "find_byte xs b i j = i + int ?k"
    using assms(3) by (auto simp: find_byte_def Let_def split: if_splits)
  have "py_slice xs i (i + int ?k) = take ?k ?seg"
    using rng assms(1) by (intro py_slice_prefix [symmetric]) (simp_all only: eq)
  also have "\<dots> = takeWhile (\<lambda>x. x \<noteq> b) ?seg" by (rule takeWhile_eq_take [symmetric])
  finally show ?thesis unfolding eq by (auto dest: set_takeWhileD)
qed

text \<open>\<open>raw.split(b"\0", 1)[0]\<close>.\<close>

definition before_nul :: "bytes \<Rightarrow> bytes" where
  "before_nul bs = takeWhile (\<lambda>b. b \<noteq> 0) bs"

section \<open>Integers in bytes\<close>

datatype endianness = Little | Big

text \<open>\<open>int.from_bytes(bs, "little")\<close>, and the \<open>struct\<close> codes \<open>B\<close>, \<open>H\<close>, \<open>I\<close>, \<open>Q\<close>.\<close>

fun le_int :: "bytes \<Rightarrow> int" where
  "le_int [] = 0"
| "le_int (b # bs) = uint b + 256 * le_int bs"

definition be_int :: "bytes \<Rightarrow> int" where
  "be_int bs = le_int (rev bs)"

definition endian_int :: "endianness \<Rightarrow> bytes \<Rightarrow> int" where
  "endian_int e bs = (case e of Little \<Rightarrow> le_int bs | Big \<Rightarrow> be_int bs)"

text \<open>\<open>v.to_bytes(n, "little")\<close> for a value in range.\<close>

fun le_bytes :: "nat \<Rightarrow> int \<Rightarrow> bytes" where
  "le_bytes 0 v = []"
| "le_bytes (Suc n) v = word_of_int v # le_bytes n (v div 256)"

lemma uint_byte_bounds: "0 \<le> uint (b :: byte)" "uint (b :: byte) < 256"
  using uint_bounded [of b] by simp_all

lemma le_int_nonneg [simp]: "0 \<le> le_int bs"
  by (induction bs) (auto simp: uint_byte_bounds)

lemma le_int_less: "le_int bs < 256 ^ length bs"
proof (induction bs)
  case Nil
  then show ?case by simp
next
  case (Cons b bs)
  then show ?case using uint_byte_bounds(2) [of b] by simp
qed

lemma endian_int_bounds: "0 \<le> endian_int e bs" "endian_int e bs < 256 ^ length bs"
  using le_int_less [of bs] le_int_less [of "rev bs"]
  by (auto simp: endian_int_def be_int_def split: endianness.splits)

lemma be_int_bounds: "0 \<le> be_int bs" "be_int bs < 256 ^ length bs"
  using le_int_less [of "rev bs"] by (auto simp: be_int_def)

lemma length_le_bytes [simp]: "length (le_bytes n v) = n"
  by (induction n arbitrary: v) auto

lemma uint_word_of_int_byte: "uint (word_of_int v :: byte) = v mod 256"
  by (simp add: uint_word_of_int)

lemma le_int_le_bytes_mod: "le_int (le_bytes n v) = v mod 256 ^ n"
proof (induction n arbitrary: v)
  case 0
  then show ?case by simp
next
  case (Suc n)
  have "v mod 256 + 256 * ((v div 256) mod 256 ^ n) = v mod (256 * 256 ^ n)"
    by (simp add: mod_mult2_eq' zmod_zmult2_eq)
  with Suc show ?case by (simp add: uint_word_of_int_byte)
qed

lemma le_int_le_bytes: "0 \<le> v \<Longrightarrow> v < 256 ^ n \<Longrightarrow> le_int (le_bytes n v) = v"
  by (simp add: le_int_le_bytes_mod)

lemma le_bytes_le_int: "le_bytes (length bs) (le_int bs) = bs"
proof (induction bs)
  case Nil
  then show ?case by simp
next
  case (Cons b bs)
  have "(uint b + 256 * le_int bs) div 256 = le_int bs"
    using uint_byte_bounds [of b] by simp
  moreover have "word_of_int (uint b + 256 * le_int bs) = b"
    by (rule word_uint_eqI, unfold uint_word_of_int_byte)
      (use uint_byte_bounds [of b] in simp)
  ultimately show ?case using Cons by simp
qed

text \<open>The same in network order.\<close>

definition be_bytes :: "nat \<Rightarrow> int \<Rightarrow> bytes" where
  "be_bytes n v = rev (le_bytes n v)"

lemma length_be_bytes [simp]: "length (be_bytes n v) = n"
  by (simp add: be_bytes_def)

lemma be_int_be_bytes: "0 \<le> v \<Longrightarrow> v < 256 ^ n \<Longrightarrow> be_int (be_bytes n v) = v"
  by (simp add: be_int_def be_bytes_def le_int_le_bytes)

text \<open>
  \<open>struct.unpack_from\<close> reads \<open>size\<close> bytes at \<open>off\<close>, counting a negative offset from the end,
  and raises \<open>struct.error\<close> (here \<open>None\<close>) when they are not all there.
\<close>

definition unpack_from :: "bytes \<Rightarrow> int \<Rightarrow> int \<Rightarrow> bytes option" where
  "unpack_from xs off sz =
     (let n = blen xs; o' = (if off < 0 then off + n else off)
      in if (off < 0 \<and> off + sz > 0) \<or> o' < 0 \<or> n - o' < sz then None
         else Some (py_slice xs o' (o' + sz)))"

lemma unpack_from_in [bytes_simps]:
  "0 \<le> off \<Longrightarrow> off + sz \<le> blen xs \<Longrightarrow> unpack_from xs off sz = Some (py_slice xs off (off + sz))"
  by (simp add: unpack_from_def)

lemma unpack_from_length:
  "unpack_from xs off sz = Some bs \<Longrightarrow> 0 \<le> sz \<Longrightarrow> blen bs = sz"
  by (auto simp: unpack_from_def Let_def length_py_slice split: if_splits)

definition read_int :: "endianness \<Rightarrow> bytes \<Rightarrow> int \<Rightarrow> int \<Rightarrow> int" where
  "read_int e xs off sz = endian_int e (py_slice xs off (off + sz))"

lemma read_int_nonneg [simp]: "0 \<le> read_int e xs off sz"
  by (simp add: read_int_def endian_int_bounds)

lemma read_int_less:
  assumes "0 \<le> off" "0 \<le> sz"
  shows "read_int e xs off sz < 256 ^ nat sz"
proof -
  have "length (py_slice xs off (off + sz)) \<le> nat sz"
    using length_py_slice_le [of off "off + sz" xs] assms by simp
  then have "(256 :: int) ^ length (py_slice xs off (off + sz)) \<le> 256 ^ nat sz"
    by (intro power_increasing) auto
  with endian_int_bounds(2) show ?thesis
    unfolding read_int_def by (rule order.strict_trans2)
qed

lemma read_int_u32: "0 \<le> off \<Longrightarrow> read_int e xs off 4 < 4294967296"
  using read_int_less [of off 4 e xs] by simp

lemma read_int_u16: "0 \<le> off \<Longrightarrow> read_int e xs off 2 < 65536"
  using read_int_less [of off 2 e xs] by simp

lemma read_int_u8: "0 \<le> off \<Longrightarrow> read_int e xs off 1 < 256"
  using read_int_less [of off 1 e xs] by simp


section \<open>Masks and shifts of unbounded integers\<close>

lemma and_mask_mod: "(x :: int) AND mask n = x mod 2 ^ n"
  by (simp add: take_bit_eq_mask [symmetric] take_bit_eq_mod)

lemma and_0xFF [mask_simps]: "(x :: int) AND 0xFF = x mod 256"
  using and_mask_mod [of x 8] by (simp add: mask_eq_exp_minus_1)

lemma and_0xFFFF [mask_simps]: "(x :: int) AND 0xFFFF = x mod 65536"
  using and_mask_mod [of x 16] by (simp add: mask_eq_exp_minus_1)

lemma and_0x03FFFFFF [mask_simps]: "(x :: int) AND 0x03FFFFFF = x mod 67108864"
  using and_mask_mod [of x 26] by (simp add: mask_eq_exp_minus_1)

lemma and_0x7FFFFFFF [mask_simps]: "(x :: int) AND 0x7FFFFFFF = x mod 2147483648"
  using and_mask_mod [of x 31] by (simp add: mask_eq_exp_minus_1)

lemma and_0xFFFFFFFF [mask_simps]: "(x :: int) AND 0xFFFFFFFF = x mod 4294967296"
  using and_mask_mod [of x 32] by (simp add: mask_eq_exp_minus_1)

lemma shr_div [mask_simps]: "drop_bit n (x :: int) = x div 2 ^ n"
  by (simp add: drop_bit_eq_div)

lemma shl_mult [mask_simps]: "push_bit n (x :: int) = x * 2 ^ n"
  by (simp add: push_bit_eq_mult)

text \<open>Testing one bit: \<open>x & (1 << n)\<close> as a condition.\<close>

lemma and_bit_nonzero: "(x :: int) AND 2 ^ n \<noteq> 0 \<longleftrightarrow> odd (x div 2 ^ n)"
proof -
  have "x AND 2 ^ n = push_bit n (of_bool (bit x n))"
    by (rule bit_eqI) (auto simp: bit_simps)
  then have "x AND 2 ^ n \<noteq> 0 \<longleftrightarrow> bit x n"
    by (simp add: push_bit_eq_mult)
  then show ?thesis by (simp add: bit_iff_odd)
qed

lemma and_0x8000_mod: "((x :: int) AND 0x8000 \<noteq> 0) \<longleftrightarrow> 32768 \<le> x mod 65536"
proof -
  have "x mod 65536 = 32768 * (x div 32768 mod 2) + x mod 32768"
    using zmod_zmult2_eq [of 2 x 32768] by simp
  moreover have "0 \<le> x mod 32768" "x mod 32768 < 32768" by simp_all
  moreover have "x div 32768 mod 2 = (if odd (x div 32768) then 1 else 0)"
    by (simp add: odd_iff_mod_2_eq_one)
  ultimately have "odd (x div 32768) \<longleftrightarrow> 32768 \<le> x mod 65536"
    by (cases "odd (x div 32768)") auto
  with and_bit_nonzero [of x 15] show ?thesis by simp
qed

lemma and_0x8000_sign:
  "0 \<le> x \<Longrightarrow> x < 65536 \<Longrightarrow> ((x :: int) AND 0x8000 \<noteq> 0) \<longleftrightarrow> 32768 \<le> x"
  by (simp add: and_0x8000_mod)

text \<open>Putting disjoint bit fields together.\<close>

lemma or_low_field:
  assumes "0 \<le> l" "l < 2 ^ n"
  shows "(push_bit n h :: int) OR l = h * 2 ^ n + l"
proof -
  have "take_bit n l = l" using assms by (simp add: take_bit_int_eq_self)
  then have "push_bit n h OR l = concat_bit n l h"
    by (simp add: concat_bit_def or.commute)
  also have "\<dots> = l + push_bit n h"
    by (simp add: concat_bit_eq \<open>take_bit n l = l\<close>)
  finally show ?thesis by (simp add: push_bit_eq_mult)
qed

lemma and_high_field: "(w :: int) AND push_bit n (mask k) = push_bit n (w div 2 ^ n mod 2 ^ k)"
proof -
  have "w AND push_bit n (mask k) = push_bit n (take_bit k (drop_bit n w))"
    by (rule bit_eqI) (auto simp: bit_simps)
  then show ?thesis by (simp add: take_bit_eq_mod drop_bit_eq_div)
qed

lemma and_0xFFFF0000: "(w :: int) AND 0xFFFF0000 = push_bit 16 (w div 65536 mod 65536)"
  using and_high_field [of w 16 16] by (simp add: mask_eq_exp_minus_1 push_bit_eq_mult)

lemma and_0xFC000000: "(w :: int) AND 0xFC000000 = push_bit 26 (w div 67108864 mod 64)"
  using and_high_field [of w 26 6] by (simp add: mask_eq_exp_minus_1 push_bit_eq_mult)

lemma replace_low_half [mask_simps]:
  assumes "0 \<le> l" "l < 65536"
  shows "((w :: int) AND 0xFFFF0000) OR l = (w div 65536 mod 65536) * 65536 + l"
  using assms by (simp add: and_0xFFFF0000 or_low_field)

lemma replace_jump_field [mask_simps]:
  assumes "0 \<le> l" "l < 67108864"
  shows "((w :: int) AND 0xFC000000) OR l = (w div 67108864 mod 64) * 67108864 + l"
  using assms by (simp add: and_0xFC000000 or_low_field)

section \<open>Text\<close>

text \<open>
  \<open>bytes.decode("ascii", errors="replace")\<close>: a byte above 0x7F becomes U+FFFD, whose UTF-8
  encoding is EF BF BD.
\<close>

definition replacement_char :: string where
  "replacement_char = [CHR 0xEF, CHR 0xBF, CHR 0xBD]"

definition byte_char :: "byte \<Rightarrow> char" where
  "byte_char b = char_of (nat (uint b))"

lemma length_str_bytes [simp]: "length (str_bytes s) = length s"
  by (simp add: str_bytes_def)

lemma uint_of_char [simp]: "uint (of_char c :: byte) = int (of_char c)"
proof -
  have "(of_char c :: byte) = of_nat (of_char c)"
    by (simp only: of_nat_of_char)
  moreover have "uint (of_nat (of_char c) :: byte) = int (of_char c)"
    by (simp add: unsigned_of_nat take_bit_nat_eq_self_iff)
  ultimately show ?thesis by simp
qed

lemma byte_char_of_char [simp]: "byte_char (of_char c) = c"
  by (simp add: byte_char_def)

lemma str_bytes_byte_char [simp]: "str_bytes (map byte_char bs) = bs"
proof -
  have "of_char (char_of (nat (uint b))) = b" for b :: byte
  proof -
    have "(of_char (char_of (nat (uint b))) :: byte) = of_nat (of_char (char_of (nat (uint b))))"
      by (simp only: of_nat_of_char)
    also have "of_char (char_of (nat (uint b))) = nat (uint b)"
      using unsigned_less [of b, where 'a = nat] by (simp add: of_char_of)
    finally show ?thesis by simp
  qed
  then show ?thesis by (induction bs) (simp_all add: str_bytes_def byte_char_def)
qed

lemma map_byte_char_str_bytes [simp]: "map byte_char (str_bytes s) = s"
  by (induction s) (simp_all add: str_bytes_def)

lemma byte_char_eq_0 [simp]: "byte_char b = CHR 0x00 \<longleftrightarrow> b = 0"
proof
  assume "byte_char b = CHR 0x00"
  with str_bytes_byte_char [of "[b]"] show "b = 0" by (simp add: str_bytes_def of_char_def)
next
  assume "b = 0"
  then show "byte_char b = CHR 0x00" by (simp add: byte_char_def char_of_def)
qed

lemma nul_eq_byte_char [simp]: "CHR 0x00 = byte_char b \<longleftrightarrow> b = 0"
  using byte_char_eq_0 [of b] by metis

definition ascii_replace :: "bytes \<Rightarrow> string" where
  "ascii_replace bs =
     concat (map (\<lambda>b. if uint b < 128 then [byte_char b] else replacement_char) bs)"

text \<open>
  One step of CPython's UTF-8 decoder: how many bytes the next character or the next maximal
  ill-formed prefix takes, and whether it is well formed.
\<close>

fun utf8_cont :: "int \<Rightarrow> int \<Rightarrow> bytes \<Rightarrow> bool" where
  "utf8_cont lo hi [] = False"
| "utf8_cont lo hi (b # bs) = (lo \<le> uint b \<and> uint b \<le> hi)"

definition utf8_head :: "bytes \<Rightarrow> nat \<times> bool" where
  "utf8_head bs = (case bs of [] \<Rightarrow> (1, True) | b0 # r1 \<Rightarrow>
     let c = uint b0 in
     if c < 0x80 then (1, True)
     else if 0xC2 \<le> c \<and> c \<le> 0xDF then
       (if utf8_cont 0x80 0xBF r1 then (2, True) else (1, False))
     else if 0xE0 \<le> c \<and> c \<le> 0xEF then
       (if utf8_cont (if c = 0xE0 then 0xA0 else 0x80) (if c = 0xED then 0x9F else 0xBF) r1
        then (if utf8_cont 0x80 0xBF (drop 1 r1) then (3, True) else (2, False))
        else (1, False))
     else if 0xF0 \<le> c \<and> c \<le> 0xF4 then
       (if utf8_cont (if c = 0xF0 then 0x90 else 0x80) (if c = 0xF4 then 0x8F else 0xBF) r1
        then (if utf8_cont 0x80 0xBF (drop 1 r1)
              then (if utf8_cont 0x80 0xBF (drop 2 r1) then (4, True) else (3, False))
              else (2, False))
        else (1, False))
     else (1, False))"

lemma utf8_head_pos: "0 < fst (utf8_head bs)"
  by (auto simp: utf8_head_def Let_def split: list.splits)

text \<open>\<open>decode("utf-8")\<close> raises unless every character is well formed.\<close>

function utf8_valid :: "bytes \<Rightarrow> bool" where
  "utf8_valid bs = (if bs = [] then True
     else if snd (utf8_head bs) then utf8_valid (drop (fst (utf8_head bs)) bs) else False)"
  by pat_completeness auto
termination
  by (relation "measure length") (auto simp: utf8_head_pos)

declare utf8_valid.simps [simp del]

function utf8_replace :: "bytes \<Rightarrow> string" where
  "utf8_replace bs = (if bs = [] then []
     else (if snd (utf8_head bs) then map byte_char (take (fst (utf8_head bs)) bs)
           else replacement_char) @ utf8_replace (drop (fst (utf8_head bs)) bs))"
  by pat_completeness auto
termination
  by (relation "measure length") (auto simp: utf8_head_pos)

declare utf8_replace.simps [simp del]

lemma utf8_replace_valid: "utf8_valid bs \<Longrightarrow> utf8_replace bs = map byte_char bs"
proof (induction bs rule: utf8_valid.induct)
  case (1 bs)
  show ?case
  proof (cases "bs = []")
    case True
    then show ?thesis by (simp add: utf8_replace.simps)
  next
    case False
    let ?n = "fst (utf8_head bs)"
    from False 1 have "snd (utf8_head bs)" and "utf8_replace (drop ?n bs) = map byte_char (drop ?n bs)"
      by (auto simp: utf8_valid.simps [of bs] split: if_splits)
    with False show ?thesis
      by (simp add: utf8_replace.simps [of bs] map_append [symmetric] del: map_append)
  qed
qed

text \<open>
  \<open>str.casefold\<close> and \<open>str.lower\<close> on ASCII letters; other characters are left alone.
\<close>

definition lower_char :: "char \<Rightarrow> char" where
  "lower_char c = (if CHR ''A'' \<le> c \<and> c \<le> CHR ''Z'' then char_of (of_char c + 32 :: nat) else c)"

text \<open>The same on the bits of the character, and sorting by insertion, for evaluation.\<close>

lemma lower_char_bits [code]:
  "lower_char (Char b0 b1 b2 b3 b4 b5 b6 b7) =
     (if \<not> b7 \<and> b6 \<and> \<not> b5 \<and> (b0 \<or> b1 \<or> b2 \<or> b3 \<or> b4) \<and> \<not> (b4 \<and> b3 \<and> (b2 \<or> b1 \<and> b0))
      then Char b0 b1 b2 b3 b4 True b6 b7 else Char b0 b1 b2 b3 b4 b5 b6 b7)"
  by (cases b0; cases b1; cases b2; cases b3; cases b4; cases b5; cases b6; cases b7)
    (simp_all add: lower_char_def less_eq_char_def char_of_def bit_0)

lemma sort_key_insertion [code]:
  "sort_key f [] = []" "sort_key f (x # xs) = insort_key f x (sort_key f xs)"
  by simp_all

definition casefold :: "string \<Rightarrow> string" where
  "casefold s = map lower_char s"

definition is_space :: "char \<Rightarrow> bool" where
  "is_space c = (c \<in> {CHR '' '', CHR 0x09, CHR 0x0A, CHR 0x0B, CHR 0x0C, CHR 0x0D,
                       CHR 0x1C, CHR 0x1D, CHR 0x1E, CHR 0x1F})"

definition lstrip :: "string \<Rightarrow> string" where
  "lstrip s = dropWhile is_space s"

definition strip :: "string \<Rightarrow> string" where
  "strip s = rev (dropWhile is_space (rev (dropWhile is_space s)))"

text \<open>\<open>pattern in text\<close>.\<close>

fun contains_text :: "string \<Rightarrow> string \<Rightarrow> bool" where
  "contains_text pat [] = (pat = [])"
| "contains_text pat (c # cs) = (take (length pat) (c # cs) = pat \<or> contains_text pat cs)"

text \<open>Upper-case hexadecimal digits, as in \<open>{v:X}\<close> and \<open>{v:08X}\<close> for a value that is not negative.\<close>

definition hex_digit :: "nat \<Rightarrow> char" where
  "hex_digit d = ''0123456789ABCDEF'' ! d"

function hex_digits :: "int \<Rightarrow> string" where
  "hex_digits n =
     (if n < 16 then [hex_digit (nat n)] else hex_digits (n div 16) @ [hex_digit (nat (n mod 16))])"
  by pat_completeness auto
termination
  by (relation "measure nat") auto

declare hex_digits.simps [simp del]

definition hex_upper :: "nat \<Rightarrow> int \<Rightarrow> string" where
  "hex_upper width v = (let s = hex_digits v in replicate (width - length s) (CHR ''0'') @ s)"

text \<open>Decimal digits, as in \<open>{v}\<close>.\<close>

function dec_digits :: "int \<Rightarrow> string" where
  "dec_digits n =
     (if n < 10 then [hex_digit (nat n)] else dec_digits (n div 10) @ [hex_digit (nat (n mod 10))])"
  by pat_completeness auto
termination
  by (relation "measure nat") auto

declare dec_digits.simps [simp del]

definition dec_str :: "int \<Rightarrow> string" where
  "dec_str v = (if v < 0 then CHR ''-'' # dec_digits (- v) else dec_digits v)"

section \<open>Sorting\<close>

text \<open>
  \<open>sorted(xs, key=f)\<close> is stable, as \<^const>\<open>sort_key\<close> is.
\<close>

lemma sort_key_set [simp]: "set (sort_key f xs) = set xs"
  by simp

lemma sorted_sort_key_map: "sorted (map f (sort_key f xs))"
  by simp

lemma sort_key_filter_stable: "filter (\<lambda>x. f x = k) (sort_key f xs) = filter (\<lambda>x. f x = k) xs"
  by (rule sort_key_stable)

lemma hd_sort_key_le:
  assumes "x \<in> set xs"
  shows "f (hd (sort_key f xs)) \<le> f x"
proof -
  have "sorted (map f (sort_key f xs))" "x \<in> set (sort_key f xs)" using assms by simp_all
  then show ?thesis by (cases "sort_key f xs") auto
qed

lemma distinct_map_sort_key: "distinct (map f (sort_key g xs)) \<longleftrightarrow> distinct (map f xs)"
  by (metis distinct_map distinct_sort set_sort)

lemma set_map_filter_member: "y \<in> set (List.map_filter f xs) \<longleftrightarrow> (\<exists>x \<in> set xs. f x = Some y)"
  by (force simp: List.map_filter_def)

lemma fold_invariant: "(\<And>x s. x \<in> set xs \<Longrightarrow> P s \<Longrightarrow> P (f x s)) \<Longrightarrow> P s \<Longrightarrow> P (fold f xs s)"
  by (induction xs arbitrary: s) auto

section \<open>Dictionaries\<close>

text \<open>
  A \<open>dict\<close> whose order matters is an association list in insertion order: a key that is set
  again keeps its place and takes the new value.
\<close>

fun dict_set :: "('k \<times> 'v) list \<Rightarrow> 'k \<Rightarrow> 'v \<Rightarrow> ('k \<times> 'v) list" where
  "dict_set [] k v = [(k, v)]"
| "dict_set ((k', v') # kvs) k v = (if k' = k then (k, v) # kvs else (k', v') # dict_set kvs k v)"

lemma dict_set_keys: "fst ` set (dict_set kvs k v) = insert k (fst ` set kvs)"
  by (induction kvs k v rule: dict_set.induct) auto

lemma dict_set_map_of [simp]: "map_of (dict_set kvs k v) = (map_of kvs)(k \<mapsto> v)"
  by (induction kvs k v rule: dict_set.induct) auto

lemma dict_set_distinct: "distinct (map fst kvs) \<Longrightarrow> distinct (map fst (dict_set kvs k v))"
proof (induction kvs k v rule: dict_set.induct)
  case (2 k' v' kvs k v)
  then show ?case using dict_set_keys [of kvs k v] by (auto simp flip: set_map)
qed simp

lemma dict_set_entries: "set (dict_set u k v) \<subseteq> insert (k, v) (set u)"
  by (induction u k v rule: dict_set.induct) auto

lemma fold_dict_set_entries:
  "set (fold (\<lambda>r unique. dict_set unique (f r) r) records u) \<subseteq> set u \<union> (\<lambda>r. (f r, r)) ` set records"
proof (induction records arbitrary: u)
  case (Cons r records)
  then show ?case using Cons.IH [of "dict_set u (f r) r"] dict_set_entries [of u "f r" r] by auto
qed simp

lemma fold_dict_set_keys:
  "fst ` set (fold (\<lambda>r unique. dict_set unique (f r) r) records u) = fst ` set u \<union> f ` set records"
  by (induction records arbitrary: u) (auto simp: dict_set_keys)

lemma fold_dict_set_distinct:
  "distinct (map fst u) \<Longrightarrow> distinct (map fst (fold (\<lambda>r unique. dict_set unique (f r) r) records u))"
  by (induction records arbitrary: u) (auto simp: dict_set_distinct)

text \<open>\<open>sep.join(parts)\<close>.\<close>

fun join_with :: "string \<Rightarrow> string list \<Rightarrow> string" where
  "join_with sep [] = []"
| "join_with sep [x] = x"
| "join_with sep (x # y # xs) = x @ sep @ join_with sep (y # xs)"

text \<open>\<open>setdefault(k, []).append(v)\<close>.\<close>

definition dict_append :: "('k \<times> 'v list) list \<Rightarrow> 'k \<Rightarrow> 'v \<Rightarrow> ('k \<times> 'v list) list" where
  "dict_append kvs k v =
     dict_set kvs k ((case map_of kvs k of None \<Rightarrow> [] | Some vs \<Rightarrow> vs) @ [v])"

definition dict_get_list :: "('k \<times> 'v list) list \<Rightarrow> 'k \<Rightarrow> 'v list" where
  "dict_get_list kvs k = (case map_of kvs k of None \<Rightarrow> [] | Some vs \<Rightarrow> vs)"

lemma dict_get_list_append [simp]:
  "dict_get_list (dict_append kvs k v) k' = dict_get_list kvs k' @ (if k' = k then [v] else [])"
  by (auto simp: dict_get_list_def dict_append_def split: option.splits)

lemma dict_get_list_Nil [simp]: "dict_get_list [] k = []"
  by (simp add: dict_get_list_def)

section \<open>Paths\<close>

text \<open>
  \<open>Path(s).name\<close> and \<open>Path(s).stem\<close> on POSIX: empty and \<open>.\<close> components do not count.
\<close>

fun split_on :: "char \<Rightarrow> string \<Rightarrow> string list" where
  "split_on c [] = [[]]"
| "split_on c (x # xs) =
     (if x = c then [] # split_on c xs
      else (case split_on c xs of [] \<Rightarrow> [[x]] | y # ys \<Rightarrow> (x # y) # ys))"

definition path_parts :: "string \<Rightarrow> string list" where
  "path_parts s = filter (\<lambda>p. p \<noteq> [] \<and> p \<noteq> ''.'') (split_on (CHR ''/'') s)"

definition path_name :: "string \<Rightarrow> string" where
  "path_name s = (if path_parts s = [] then [] else last (path_parts s))"

text \<open>The suffix starts at the last dot, unless it is the first or the last character.\<close>

definition suffix_length :: "string \<Rightarrow> nat" where
  "suffix_length nm =
     (let k = length (takeWhile (\<lambda>c. c \<noteq> CHR ''.'') (rev nm))
      in if 0 < k \<and> Suc k < length nm then Suc k else 0)"

definition path_stem :: "string \<Rightarrow> string" where
  "path_stem s = (let nm = path_name s in take (length nm - suffix_length nm) nm)"

definition path_suffix :: "string \<Rightarrow> string" where
  "path_suffix s = (let nm = path_name s in drop (length nm - suffix_length nm) nm)"

section \<open>Integers in text\<close>

definition digit_value :: "char \<Rightarrow> nat option" where
  "digit_value c =
     (let n = of_char c :: nat in
      if 48 \<le> n \<and> n \<le> 57 then Some (n - 48)
      else if 65 \<le> n \<and> n \<le> 90 then Some (n - 55)
      else if 97 \<le> n \<and> n \<le> 122 then Some (n - 87)
      else None)"

definition is_digit :: "nat \<Rightarrow> char \<Rightarrow> bool" where
  "is_digit base c = (case digit_value c of None \<Rightarrow> False | Some d \<Rightarrow> d < base)"

text \<open>
  \<open>int(text, base)\<close> on ASCII: an optional sign, for base 16 an optional \<open>0x\<close>, and digits with
  single underscores between them; \<open>None\<close> is \<open>ValueError\<close>. The flag says that a digit came last.
\<close>

fun digits_value :: "nat \<Rightarrow> bool \<Rightarrow> int \<Rightarrow> string \<Rightarrow> int option" where
  "digits_value base prev acc [] = (if prev then Some acc else None)"
| "digits_value base prev acc (c # cs) =
     (if c = CHR ''_'' then (if prev then digits_value base False acc cs else None)
      else if is_digit base c then digits_value base True (acc * int base + int (the (digit_value c))) cs
      else None)"

definition py_int :: "nat \<Rightarrow> string \<Rightarrow> int option" where
  "py_int base text =
     (let s = strip text;
          (neg, s1) = (case s of c # r \<Rightarrow> if c = CHR ''-'' then (True, r) else if c = CHR ''+'' then (False, r)
                                        else (False, s) | [] \<Rightarrow> (False, s));
          hex = (base = 16 \<and> casefold (take 2 s1) = ''0x'');
          s2 = (if hex then drop 2 s1 else s1)
      in map_option (\<lambda>n. if neg then - n else n)
           (digits_value base False 0 (if hex \<and> take 1 s2 = ''_'' then drop 1 s2 else s2)))"

lemma hex_digit_table:
  "d < 16 \<Longrightarrow> digit_value (hex_digit d) = Some d \<and> hex_digit d \<noteq> CHR ''_'' \<and> hex_digit d \<noteq> CHR ''-'' \<and>
     hex_digit d \<noteq> CHR ''+'' \<and> \<not> is_space (hex_digit d) \<and> lower_char (hex_digit d) \<noteq> CHR ''x''"
proof -
  assume "d < 16"
  then have "d \<in> set [0..<16]" by simp
  moreover have "list_all (\<lambda>d. digit_value (hex_digit d) = Some d \<and> hex_digit d \<noteq> CHR ''_'' \<and> hex_digit d \<noteq> CHR ''-'' \<and>
     hex_digit d \<noteq> CHR ''+'' \<and> \<not> is_space (hex_digit d) \<and> lower_char (hex_digit d) \<noteq> CHR ''x'') [0..<16]"
    by code_simp
  ultimately show ?thesis unfolding list_all_iff by blast
qed

lemma digits_value_append_hex:
  "digits_value 16 b acc s = Some m \<Longrightarrow> d < 16 \<Longrightarrow>
     digits_value 16 b acc (s @ [hex_digit d]) = Some (m * 16 + int d)"
  by (induction "16 :: nat" b acc s rule: digits_value.induct)
    (auto simp: is_digit_def hex_digit_table split: if_splits)

lemma digits_value_zeroes: "digits_value 16 b 0 (replicate k (CHR ''0'') @ s) = digits_value 16 (b \<or> 0 < k) 0 s"
  by (induction k arbitrary: b) (auto simp: is_digit_def digit_value_def of_char_def)

lemma digits_value_start: "s \<noteq> [] \<Longrightarrow> hd s \<noteq> CHR ''_'' \<Longrightarrow> digits_value 16 b acc s = digits_value 16 b' acc s"
  by (cases s) auto

lemma hex_digits_chars: "c \<in> set (hex_digits n) \<Longrightarrow> \<exists>d < 16. c = hex_digit d"
proof (induction n rule: hex_digits.induct)
  case (1 n)
  show ?case
  proof (cases "n < 16")
    case True
    moreover have "nat n < 16" using True by simp
    ultimately show ?thesis using "1.prems" by (auto simp: hex_digits.simps [of n])
  next
    case False
    with "1.prems" have "c \<in> set (hex_digits (n div 16)) \<or> c = hex_digit (nat (n mod 16))"
      by (auto simp: hex_digits.simps [of n])
    moreover have "nat (n mod 16) < 16" by (simp add: nat_less_iff)
    ultimately show ?thesis using "1.IH" [OF False] by auto
  qed
qed

lemma hex_digits_nonempty [simp]: "hex_digits n \<noteq> []"
  by (subst hex_digits.simps) simp

lemma digits_value_hex_digits: "0 \<le> n \<Longrightarrow> digits_value 16 b 0 (hex_digits n) = Some n"
proof (induction n arbitrary: b rule: hex_digits.induct)
  case (1 n)
  show ?case
  proof (cases "n < 16")
    case True
    then have "nat n < 16" by simp
    then show ?thesis
      using "1.prems" True by (subst hex_digits.simps) (simp add: is_digit_def hex_digit_table)
  next
    case False
    then have "digits_value 16 b 0 (hex_digits (n div 16) @ [hex_digit (nat (n mod 16))]) =
        Some (n div 16 * 16 + int (nat (n mod 16)))"
      using "1.IH" by (intro digits_value_append_hex) (auto simp: nat_less_iff)
    with False show ?thesis by (subst hex_digits.simps) simp
  qed
qed

lemma digits_value_hex_upper: "0 \<le> v \<Longrightarrow> digits_value 16 False 0 (hex_upper w v) = Some v"
  by (simp add: hex_upper_def Let_def digits_value_zeroes digits_value_hex_digits)

lemma length_hex_digits: "n < 16 ^ Suc k \<Longrightarrow> length (hex_digits n) \<le> Suc k"
proof (induction n arbitrary: k rule: hex_digits.induct)
  case (1 n)
  show ?case
  proof (cases "n < 16")
    case True
    then show ?thesis by (simp add: hex_digits.simps [of n])
  next
    case False
    with "1.prems" obtain j where k: "k = Suc j" by (cases k) auto
    have "n div 16 < 16 ^ Suc j" using "1.prems" by (simp add: k)
    from "1.IH" [OF False this] False k show ?thesis by (simp add: hex_digits.simps [of n])
  qed
qed

lemma length_hex_upper: "v < 16 ^ Suc k \<Longrightarrow> length (hex_upper (Suc k) v) = Suc k"
  using length_hex_digits [of v k] by (simp add: hex_upper_def Let_def)

lemma hex_upper_chars: "c \<in> set (hex_upper w v) \<Longrightarrow> \<exists>d < 16. c = hex_digit d"
proof -
  have "CHR ''0'' = hex_digit 0" by (simp add: hex_digit_def)
  moreover assume "c \<in> set (hex_upper w v)"
  ultimately show ?thesis
    using hex_digits_chars [of c v] by (auto simp: hex_upper_def Let_def) (metis zero_less_numeral)
qed

lemma strip_id: "list_all (\<lambda>c. \<not> is_space c) s \<Longrightarrow> strip s = s"
proof -
  assume "list_all (\<lambda>c. \<not> is_space c) s"
  then have "dropWhile is_space s = s" "dropWhile is_space (rev s) = rev s"
    by (auto simp: list_all_iff dropWhile_eq_self_iff hd_rev)
  then show ?thesis by (simp add: strip_def)
qed

text \<open>Reading back a number that was printed in hexadecimal.\<close>

lemma py_int_hex_upper:
  assumes "0 \<le> v" "0 < w"
  shows "py_int 16 (hex_upper w v) = Some v" "py_int 16 (''0x'' @ hex_upper w v) = Some v"
proof -
  let ?s = "hex_upper w v"
  have chars: "\<exists>d < 16. c = hex_digit d" if "c \<in> set ?s" for c using that by (rule hex_upper_chars)
  have ne: "?s \<noteq> []" by (simp add: hex_upper_def Let_def)
  have space: "\<not> is_space c" if "c \<in> set ?s" for c using chars [OF that] hex_digit_table by auto
  have sign: "c \<noteq> CHR ''-'' \<and> c \<noteq> CHR ''+'' \<and> c \<noteq> CHR ''_'' \<and> lower_char c \<noteq> CHR ''x''" if "c \<in> set ?s" for c
    using chars [OF that] hex_digit_table by auto
  have strip1: "strip ?s = ?s" by (rule strip_id) (use space in \<open>auto simp: list_all_iff\<close>)
  have hx: "is_space (CHR ''0'') = False" "is_space (CHR ''x'') = False" by (simp_all add: is_space_def)
  have strip2: "strip (''0x'' @ ?s) = ''0x'' @ ?s" by (rule strip_id) (use space hx in \<open>auto simp: list_all_iff\<close>)
  obtain c cs where s: "?s = c # cs" using ne by (cases ?s) auto
  have no_prefix: "casefold (take 2 ?s) \<noteq> ''0x''"
    using sign by (cases cs) (auto simp: s casefold_def)
  show "py_int 16 ?s = Some v"
    using sign [of c] no_prefix strip1 digits_value_hex_upper [of v w] assms
    by (simp add: py_int_def s)
  have pre: "casefold ''0x'' = ''0x''" by code_simp
  show "py_int 16 (''0x'' @ ?s) = Some v"
    using sign [of c] strip2 digits_value_hex_upper [of v w] assms pre
    by (simp add: py_int_def s numeral_2_eq_2)
qed

end
