(* ===== verification/Psp_Model.thy ===== *)
theory Psp_Model
  imports Py_Prelude
begin

text \<open>
  The data of \<open>model.py\<close>: one record per dataclass, its fields in the source's order and
  prefixed with the class they belong to. A Python attribute that may be \<open>None\<close> is an
  \<^typ>\<open>'a option\<close>; an attribute that ranges over fixed strings is a datatype.
\<close>

record container_header =
  ch_module_attribute :: int
  ch_compression_attribute :: int
  ch_module_version :: "int \<times> int"
  ch_module_name :: string
  ch_module_version_byte :: int
  ch_segment_count :: int
  ch_elf_size :: int
  ch_psp_size :: int
  ch_boot_entry :: int
  ch_module_info_offset :: int
  ch_bss_size :: int
  ch_segment_alignments :: "int list"
  ch_segment_addresses :: "int list"
  ch_segment_sizes :: "int list"
  ch_devkit_version :: int
  ch_decrypt_mode :: int
  ch_overlap_size :: int
  ch_compressed_size :: int
  ch_subtype :: int

record elf_header =
  eh_file_type :: int
  eh_machine :: int
  eh_version :: int
  eh_entry :: int
  eh_phoff :: int
  eh_shoff :: int
  eh_flags :: int
  eh_ehsize :: int
  eh_phentsize :: int
  eh_phnum :: int
  eh_shentsize :: int
  eh_shnum :: int
  eh_shstrndx :: int

record program_header =
  ph_index :: int
  ph_type :: int
  ph_offset :: int
  ph_vaddr :: int
  ph_paddr :: int
  ph_filesz :: int
  ph_memsz :: int
  ph_flags :: int
  ph_align :: int

datatype section_kind = Bss | Executable | Writable | Readonly | Metadata

record elf_section =
  se_index :: int
  se_name :: string
  se_type :: int
  se_flags :: int
  se_addr :: int
  se_offset :: int
  se_size :: int
  se_link :: int
  se_info :: int
  se_addralign :: int
  se_entsize :: int
  se_kind :: section_kind

record elf_image =
  el_header :: elf_header
  el_endianness :: endianness
  el_program_headers :: "program_header list"
  el_sections :: "elf_section list"
  el_raw_data :: bytes

text \<open>
  \<open>ElfImage.vaddr_to_offset\<close>: the first file-backed \<open>PT_LOAD\<close> segment that holds the
  address, then the first section that is not \<open>SHT_NOBITS\<close>.
\<close>

fun segment_offset :: "program_header list \<Rightarrow> int \<Rightarrow> int option" where
  "segment_offset [] a = None"
| "segment_offset (ph # phs) a =
     (if ph_type ph = 1 \<and> ph_vaddr ph \<le> a \<and> a < ph_vaddr ph + ph_filesz ph
      then Some (ph_offset ph + (a - ph_vaddr ph)) else segment_offset phs a)"

fun section_offset :: "elf_section list \<Rightarrow> int \<Rightarrow> int option" where
  "section_offset [] a = None"
| "section_offset (s # ss) a =
     (if se_type s \<noteq> 8 \<and> se_addr s \<le> a \<and> a < se_addr s + se_size s
      then Some (se_offset s + (a - se_addr s)) else section_offset ss a)"

definition vaddr_to_offset :: "elf_image \<Rightarrow> int \<Rightarrow> int option" where
  "vaddr_to_offset elf a =
     (case segment_offset (el_program_headers elf) a of
        Some off \<Rightarrow> Some off
      | None \<Rightarrow> section_offset (el_sections elf) a)"

lemma segment_offset_Some:
  "segment_offset phs a = Some off \<Longrightarrow>
     \<exists>ph \<in> set phs. ph_type ph = 1 \<and> ph_vaddr ph \<le> a \<and> a < ph_vaddr ph + ph_filesz ph
       \<and> off = ph_offset ph + (a - ph_vaddr ph)"
  by (induction phs) (auto split: if_splits)

lemma section_offset_Some:
  "section_offset ss a = Some off \<Longrightarrow>
     \<exists>s \<in> set ss. se_type s \<noteq> 8 \<and> se_addr s \<le> a \<and> a < se_addr s + se_size s
       \<and> off = se_offset s + (a - se_addr s)"
  by (induction ss) (auto split: if_splits)

lemma segment_offset_None:
  "segment_offset phs a = None \<longleftrightarrow>
     (\<forall>ph \<in> set phs. \<not> (ph_type ph = 1 \<and> ph_vaddr ph \<le> a \<and> a < ph_vaddr ph + ph_filesz ph))"
  by (induction phs) auto

datatype module_location = Named_Section | Program_Header_Fallback

record module_info =
  mi_attributes :: int
  mi_version :: "int \<times> int"
  mi_name :: string
  mi_gp_value :: int
  mi_exports_start :: int
  mi_exports_end :: int
  mi_imports_start :: int
  mi_imports_end :: int
  mi_address :: int
  mi_location :: module_location

datatype nid_kind = Function | Variable

record nid_entry =
  ne_nid :: int
  ne_address :: int
  ne_kind :: nid_kind
  ne_nid_address :: int

record nid_symbol =
  ns_library :: string
  ns_nid :: int
  ns_name :: string
  ns_kind :: nid_kind
  ns_source :: string

text \<open>\<open>LibraryImport\<close> and \<open>LibraryExport\<close> have the same fields.\<close>

record library =
  li_name :: string
  li_flags :: int
  li_entry_length :: int
  li_function_count :: int
  li_variable_count :: int
  li_address :: int
  li_functions :: "nid_entry list"
  li_variables :: "nid_entry list"

datatype reloc_source = From_Section | From_Program_Header | From_Rel2

record relocation =
  re_section :: string
  re_offset :: int
  re_info :: int
  re_type :: int
  re_type_name :: string
  re_symbol_index :: int
  re_target_section_index :: "int option"
  re_source :: reloc_source
  re_source_segment_index :: "int option"
  re_target_segment_index :: "int option"
  re_stream_offset :: "int option"
  re_addend :: "int option"
  re_encoding_flags :: "int option"

text \<open>
  \<open>PrxAnalysis\<close> and \<open>ExecutableModel\<close>. The warnings are a type parameter: the components that
  fill them say what they carry.
\<close>

record 'w prx_analysis =
  pa_module_info :: "module_info option"
  pa_imports :: "library list"
  pa_exports :: "library list"
  pa_relocations :: "relocation list"
  pa_warnings :: "'w list"

record recovery_provenance =
  rp_outcome :: string
  rp_original_sha256 :: "string option"
  rp_recovered_sha256 :: "string option"
  rp_recovery_backend :: "string option"
  rp_backend_version :: "string option"
  rp_verification :: "string option"
  rp_warnings :: "string list"

datatype input_kind = Elf32_Input | Psp_Container_Input

datatype executable_kind = Encrypted_Container | Prx_Executable | Elf_Executable

record 'w executable_model =
  xm_source_name :: string
  xm_input_kind :: input_kind
  xm_executable_kind :: executable_kind
  xm_needs_decryption :: bool
  xm_endianness :: "endianness option"
  xm_elf_header :: "elf_header option"
  xm_program_headers :: "program_header list"
  xm_sections :: "elf_section list"
  xm_container_header :: "container_header option"
  xm_module_info :: "module_info option"
  xm_imports :: "library list"
  xm_exports :: "library list"
  xm_relocations :: "relocation list"
  xm_warnings :: "'w list"
  xm_recovery :: "recovery_provenance option"

section \<open>Linking\<close>

datatype link_direction = Export_Direction | Import_Direction

record nid_resolution =
  nr_module :: string
  nr_library :: string
  nr_nid :: int
  nr_name :: string
  nr_kind :: nid_kind
  nr_address :: int
  nr_direction :: link_direction
  nr_source :: string

record module_link =
  ml_importing_module :: string
  ml_exporting_module :: string
  ml_library :: string
  ml_nid :: int
  ml_name :: string
  ml_kind :: nid_kind
  ml_import_address :: int
  ml_export_address :: int
  ml_name_source :: string

record propagated_symbol =
  pg_module :: string
  pg_address :: int
  pg_name :: string
  pg_kind :: nid_kind
  pg_library :: string
  pg_nid :: int
  pg_source :: string
  pg_confidence :: rat

record 'w link_analysis =
  la_modules :: "string list"
  la_resolutions :: "nid_resolution list"
  la_links :: "module_link list"
  la_propagated_symbols :: "propagated_symbol list"
  la_warnings :: "'w list"

text \<open>
  The strings \<open>function\<close>/\<open>variable\<close> and \<open>export\<close>/\<open>import\<close> order as their first letters do, and
  they are sort keys.
\<close>

instantiation nid_kind :: linorder
begin

fun kind_rank :: "nid_kind \<Rightarrow> nat" where
  "kind_rank Function = 0"
| "kind_rank Variable = 1"

definition less_eq_nid_kind :: "nid_kind \<Rightarrow> nid_kind \<Rightarrow> bool" where
  "less_eq_nid_kind a b \<longleftrightarrow> kind_rank a \<le> kind_rank b"

definition less_nid_kind :: "nid_kind \<Rightarrow> nid_kind \<Rightarrow> bool" where
  "less_nid_kind a b \<longleftrightarrow> kind_rank a < kind_rank b"

instance
proof
  fix x y z :: nid_kind
  show "(x < y) = (x \<le> y \<and> \<not> y \<le> x)" by (auto simp: less_eq_nid_kind_def less_nid_kind_def)
  show "x \<le> x" by (simp add: less_eq_nid_kind_def)
  show "x \<le> y \<Longrightarrow> y \<le> z \<Longrightarrow> x \<le> z" by (simp add: less_eq_nid_kind_def)
  show "x \<le> y \<Longrightarrow> y \<le> x \<Longrightarrow> x = y" by (cases x; cases y) (simp_all add: less_eq_nid_kind_def)
  show "x \<le> y \<or> y \<le> x" by (auto simp: less_eq_nid_kind_def)
qed

end

instantiation link_direction :: linorder
begin

fun direction_rank :: "link_direction \<Rightarrow> nat" where
  "direction_rank Export_Direction = 0"
| "direction_rank Import_Direction = 1"

definition less_eq_link_direction :: "link_direction \<Rightarrow> link_direction \<Rightarrow> bool" where
  "less_eq_link_direction a b \<longleftrightarrow> direction_rank a \<le> direction_rank b"

definition less_link_direction :: "link_direction \<Rightarrow> link_direction \<Rightarrow> bool" where
  "less_link_direction a b \<longleftrightarrow> direction_rank a < direction_rank b"

instance
proof
  fix x y z :: link_direction
  show "(x < y) = (x \<le> y \<and> \<not> y \<le> x)" by (auto simp: less_eq_link_direction_def less_link_direction_def)
  show "x \<le> x" by (simp add: less_eq_link_direction_def)
  show "x \<le> y \<Longrightarrow> y \<le> z \<Longrightarrow> x \<le> z" by (simp add: less_eq_link_direction_def)
  show "x \<le> y \<Longrightarrow> y \<le> x \<Longrightarrow> x = y" by (cases x; cases y) (simp_all add: less_eq_link_direction_def)
  show "x \<le> y \<or> y \<le> x" by (auto simp: less_eq_link_direction_def)
qed

end

section \<open>Disassembly\<close>

record engine_info =
  en_name :: string
  en_version :: string

record instruction_record =
  in_address :: int
  in_word :: int
  in_text :: string
  in_valid :: bool
  in_implemented :: bool

record function_record =
  fn_name :: string
  fn_address :: int
  fn_size :: int
  fn_section :: string
  fn_assembly :: string
  fn_instruction_count :: int
  fn_instructions :: "instruction_record list"

record symbol_record =
  sy_name :: string
  sy_address :: int
  sy_section :: "string option"
  sy_kind :: string
  sy_source :: string

record reference_record =
  rf_source_address :: int
  rf_target_address :: int
  rf_kind :: string
  rf_source_function :: "string option"
  rf_target_section :: "string option"

record string_record =
  sg_address :: int
  sg_value :: string
  sg_section :: string
  sg_referenced_by :: "int list"

record jump_table_record =
  jt_address :: int
  jt_source_function :: string
  jt_source_address :: int
  jt_targets :: "int list"

record assembly_section =
  as_name :: string
  as_address :: int
  as_size :: int
  as_assembly :: string

record disassembly_result =
  ds_source_name :: string
  ds_engines :: "engine_info list"
  ds_functions :: "function_record list"
  ds_symbols :: "symbol_record list"
  ds_references :: "reference_record list"
  ds_strings :: "string_record list"
  ds_jump_tables :: "jump_table_record list"
  ds_assembly_sections :: "assembly_section list"
  ds_warnings :: "string list"

end
