(* ===== verification/Elf_Parser.thy ===== *)
theory Elf_Parser
  imports Psp_Model
begin

text \<open>
  \<open>elf32.py\<close>: the ELF32 header, the program headers and the sections of a file in memory.
  Every raise of \<open>ParseError\<close> is a value of \<open>elf_error\<close> with the data its message prints;
  \<open>Elf_struct_error\<close> is the \<open>struct.error\<close> of an unpack that runs past the end.
\<close>

datatype elf_subject =
    Elf_Header_Bytes
  | Program_Header_Table
  | Section_Header_Table
  | Program_Header_Data int
  | Section_Data int

datatype elf_error =
    Out_Of_File elf_subject int int int
  | Invalid_Elf_Magic
  | Unsupported_Class
  | Unsupported_Encoding int
  | Invalid_Ehsize int
  | Invalid_Phentsize int
  | Invalid_Shentsize int
  | Shstrndx_Out_Of_Range int
  | Shstrtab_Is_Nobits
  | Elf_struct_error

definition SHT_NOBITS :: int where "SHT_NOBITS = 8"
definition SHF_WRITE :: int where "SHF_WRITE = 1"
definition SHF_ALLOC :: int where "SHF_ALLOC = 2"
definition SHF_EXECINSTR :: int where "SHF_EXECINSTR = 4"

definition require_range :: "bytes \<Rightarrow> int \<Rightarrow> int \<Rightarrow> elf_subject \<Rightarrow> (elf_error, unit) result" where
  "require_range data off sz what =
     (if off < 0 \<or> sz < 0 \<or> off > blen data \<or> sz > blen data - off
      then Inl (Out_Of_File what off sz (blen data)) else Inr ())"

definition section_kind_of :: "int \<Rightarrow> int \<Rightarrow> section_kind" where
  "section_kind_of ty flags =
     (if ty = SHT_NOBITS then Bss
      else if flags AND SHF_EXECINSTR \<noteq> 0 then Executable
      else if flags AND SHF_WRITE \<noteq> 0 then Writable
      else if flags AND SHF_ALLOC \<noteq> 0 then Readonly
      else Metadata)"

definition read_cstring :: "bytes \<Rightarrow> int \<Rightarrow> string" where
  "read_cstring table off =
     (if off < 0 \<or> off \<ge> blen table then []
      else let e = find_byte table 0 off (blen table);
               e' = (if e < 0 then blen table else e)
           in utf8_replace (py_slice table off e'))"

text \<open>\<open>struct.unpack_from\<close> as a step that may raise, and its 32-bit fields.\<close>

definition elf_unpack :: "bytes \<Rightarrow> int \<Rightarrow> int \<Rightarrow> (elf_error, bytes) result" where
  "elf_unpack data off sz =
     (case unpack_from data off sz of None \<Rightarrow> Inl Elf_struct_error | Some raw \<Rightarrow> Inr raw)"

definition u32_fields :: "endianness \<Rightarrow> bytes \<Rightarrow> nat \<Rightarrow> int list" where
  "u32_fields e raw n = map (\<lambda>k. read_int e raw (4 * int k) 4) [0..<n]"

text \<open>\<open>ElfHeader(*struct.unpack_from(prefix + "HHIIIIIHHHHHH", data, 0x10))\<close>.\<close>

definition header_of_bytes :: "endianness \<Rightarrow> bytes \<Rightarrow> elf_header" where
  "header_of_bytes e raw =
     \<lparr> eh_file_type = read_int e raw 0 2,
       eh_machine = read_int e raw 2 2,
       eh_version = read_int e raw 4 4,
       eh_entry = read_int e raw 8 4,
       eh_phoff = read_int e raw 12 4,
       eh_shoff = read_int e raw 16 4,
       eh_flags = read_int e raw 20 4,
       eh_ehsize = read_int e raw 24 2,
       eh_phentsize = read_int e raw 26 2,
       eh_phnum = read_int e raw 28 2,
       eh_shentsize = read_int e raw 30 2,
       eh_shnum = read_int e raw 32 2,
       eh_shstrndx = read_int e raw 34 2 \<rparr>"

definition parse_elf_encoding :: "bytes \<Rightarrow> (elf_error, endianness) result" where
  "parse_elf_encoding data =
     bindE (require_range data 0 0x34 Elf_Header_Bytes) (\<lambda>_.
     if take 4 data \<noteq> [0x7F, 0x45, 0x4C, 0x46] then Inl Invalid_Elf_Magic
     else if data ! 4 \<noteq> 1 then Inl Unsupported_Class
     else if data ! 5 = 1 then Inr Little
     else if data ! 5 = 2 then Inr Big
     else Inl (Unsupported_Encoding (uint (data ! 5))))"

definition check_elf_tables :: "bytes \<Rightarrow> elf_header \<Rightarrow> (elf_error, unit) result" where
  "check_elf_tables data h =
     (if eh_ehsize h \<noteq> 0 \<and> eh_ehsize h < 0x34 then Inl (Invalid_Ehsize (eh_ehsize h)) else
      bindE (if eh_phnum h = 0 then Inr ()
             else if eh_phentsize h < 0x20 then Inl (Invalid_Phentsize (eh_phentsize h))
             else require_range data (eh_phoff h) (eh_phentsize h * eh_phnum h) Program_Header_Table)
        (\<lambda>_. if eh_shnum h = 0 then Inr ()
             else if eh_shentsize h < 0x28 then Inl (Invalid_Shentsize (eh_shentsize h))
             else require_range data (eh_shoff h) (eh_shentsize h * eh_shnum h) Section_Header_Table))"

definition program_header_of :: "int \<Rightarrow> int list \<Rightarrow> program_header" where
  "program_header_of i v =
     \<lparr> ph_index = i, ph_type = v ! 0, ph_offset = v ! 1, ph_vaddr = v ! 2, ph_paddr = v ! 3,
       ph_filesz = v ! 4, ph_memsz = v ! 5, ph_flags = v ! 6, ph_align = v ! 7 \<rparr>"

definition parse_program_header ::
    "endianness \<Rightarrow> bytes \<Rightarrow> elf_header \<Rightarrow> nat \<Rightarrow> (elf_error, program_header) result" where
  "parse_program_header e data h i =
     bindE (elf_unpack data (eh_phoff h + int i * eh_phentsize h) 0x20) (\<lambda>raw.
     let ph = program_header_of (int i) (u32_fields e raw 8)
     in if ph_filesz ph \<noteq> 0
        then bindE (require_range data (ph_offset ph) (ph_filesz ph) (Program_Header_Data (int i)))
               (\<lambda>_. Inr ph)
        else Inr ph)"

text \<open>A raw section is the ten words of its header.\<close>

definition parse_raw_section ::
    "endianness \<Rightarrow> bytes \<Rightarrow> elf_header \<Rightarrow> nat \<Rightarrow> (elf_error, int list) result" where
  "parse_raw_section e data h i =
     bindE (elf_unpack data (eh_shoff h + int i * eh_shentsize h) 0x28) (\<lambda>raw.
     let v = u32_fields e raw 10
     in if v ! 5 \<noteq> 0 \<and> v ! 1 \<noteq> SHT_NOBITS
        then bindE (require_range data (v ! 4) (v ! 5) (Section_Data (int i))) (\<lambda>_. Inr v)
        else Inr v)"

definition section_names :: "bytes \<Rightarrow> elf_header \<Rightarrow> int list list \<Rightarrow> (elf_error, bytes) result" where
  "section_names data h raws =
     (if raws \<noteq> [] \<and> eh_shstrndx h \<noteq> 0 then
        (if eh_shstrndx h \<ge> blen raws then Inl (Shstrndx_Out_Of_Range (eh_shstrndx h))
         else let v = raws ! nat (eh_shstrndx h)
              in if v ! 1 = SHT_NOBITS then Inl Shstrtab_Is_Nobits
                 else Inr (py_slice data (v ! 4) (v ! 4 + v ! 5)))
      else Inr [])"

definition section_of :: "bytes \<Rightarrow> nat \<Rightarrow> int list \<Rightarrow> elf_section" where
  "section_of shstr i v =
     \<lparr> se_index = int i,
       se_name = (if shstr \<noteq> [] then read_cstring shstr (v ! 0) else []),
       se_type = v ! 1, se_flags = v ! 2, se_addr = v ! 3, se_offset = v ! 4, se_size = v ! 5,
       se_link = v ! 6, se_info = v ! 7, se_addralign = v ! 8, se_entsize = v ! 9,
       se_kind = section_kind_of (v ! 1) (v ! 2) \<rparr>"

definition parse_elf32 :: "bytes \<Rightarrow> (elf_error, elf_image) result" where
  "parse_elf32 data =
     bindE (parse_elf_encoding data) (\<lambda>e.
     bindE (elf_unpack data 0x10 36) (\<lambda>raw.
     let h = header_of_bytes e raw in
     bindE (check_elf_tables data h) (\<lambda>_.
     bindE (mapE (parse_program_header e data h) [0..<nat (eh_phnum h)]) (\<lambda>phs.
     bindE (mapE (parse_raw_section e data h) [0..<nat (eh_shnum h)]) (\<lambda>raws.
     bindE (section_names data h raws) (\<lambda>shstr.
     Inr \<lparr> el_header = h, el_endianness = e, el_program_headers = phs,
           el_sections = map (\<lambda>i. section_of shstr i (raws ! i)) [0..<length raws],
           el_raw_data = data \<rparr>))))))"

section \<open>Properties\<close>

text \<open>What the parser promises: every offset it hands out lies in the file.\<close>

definition in_file :: "bytes \<Rightarrow> int \<Rightarrow> int \<Rightarrow> bool" where
  "in_file data off sz \<longleftrightarrow> 0 \<le> off \<and> 0 \<le> sz \<and> off + sz \<le> blen data"

definition elf_wf :: "elf_image \<Rightarrow> bool" where
  "elf_wf elf \<longleftrightarrow>
     (\<forall>ph \<in> set (el_program_headers elf).
        ph_filesz ph \<noteq> 0 \<longrightarrow> in_file (el_raw_data elf) (ph_offset ph) (ph_filesz ph)) \<and>
     (\<forall>s \<in> set (el_sections elf).
        se_size s \<noteq> 0 \<longrightarrow> se_type s \<noteq> SHT_NOBITS \<longrightarrow> in_file (el_raw_data elf) (se_offset s) (se_size s))"

lemma require_range_iff [simp]:
  "require_range data off sz what = Inr u \<longleftrightarrow> in_file data off sz"
  by (auto simp: require_range_def in_file_def)

lemma require_range_Inl [simp]: "require_range data off sz what \<noteq> Inl Elf_struct_error"
  by (simp add: require_range_def)

lemma elf_unpack_Inr: "elf_unpack data off sz = Inr raw \<longleftrightarrow> unpack_from data off sz = Some raw"
  by (simp add: elf_unpack_def split: option.splits)

lemma u32_fields_nth: "k < n \<Longrightarrow> u32_fields e raw n ! k = read_int e raw (4 * int k) 4"
  by (simp add: u32_fields_def)

lemma length_u32_fields [simp]: "length (u32_fields e raw n) = n"
  by (simp add: u32_fields_def)

lemma parse_program_header_in_file:
  "parse_program_header e data h i = Inr ph \<Longrightarrow> ph_filesz ph \<noteq> 0 \<Longrightarrow>
     in_file data (ph_offset ph) (ph_filesz ph)"
  by (auto simp: parse_program_header_def bindE_Inr_iff Let_def split: if_splits)

lemma parse_program_header_index: "parse_program_header e data h i = Inr ph \<Longrightarrow> ph_index ph = int i"
  by (auto simp: parse_program_header_def bindE_Inr_iff Let_def program_header_of_def split: if_splits)

lemma parse_raw_section_in_file:
  "parse_raw_section e data h i = Inr v \<Longrightarrow> v ! 5 \<noteq> 0 \<Longrightarrow> v ! 1 \<noteq> SHT_NOBITS \<Longrightarrow>
     in_file data (v ! 4) (v ! 5)"
  by (auto simp: parse_raw_section_def bindE_Inr_iff Let_def split: if_splits)

lemma parse_elf32_parts:
  assumes "parse_elf32 data = Inr elf"
  obtains e raw phs raws shstr where
    "parse_elf_encoding data = Inr e"
    "elf_unpack data 0x10 36 = Inr raw"
    "el_header elf = header_of_bytes e raw"
    "check_elf_tables data (el_header elf) = Inr ()"
    "mapE (parse_program_header e data (el_header elf)) [0..<nat (eh_phnum (el_header elf))] = Inr phs"
    "mapE (parse_raw_section e data (el_header elf)) [0..<nat (eh_shnum (el_header elf))] = Inr raws"
    "section_names data (el_header elf) raws = Inr shstr"
    "el_endianness elf = e" "el_program_headers elf = phs" "el_raw_data elf = data"
    "el_sections elf = map (\<lambda>i. section_of shstr i (raws ! i)) [0..<length raws]"
  using assms that by (auto simp: parse_elf32_def bindE_Inr_iff Let_def)

lemma parse_elf32_wf:
  assumes "parse_elf32 data = Inr elf"
  shows "elf_wf elf"
proof -
  from assms obtain e raw phs raws shstr where
    phs: "mapE (parse_program_header e data (el_header elf)) [0..<nat (eh_phnum (el_header elf))] = Inr phs"
    and raws: "mapE (parse_raw_section e data (el_header elf)) [0..<nat (eh_shnum (el_header elf))] = Inr raws"
    and eqs: "el_program_headers elf = phs" "el_raw_data elf = data"
      "el_sections elf = map (\<lambda>i. section_of shstr i (raws ! i)) [0..<length raws]"
    by (rule parse_elf32_parts)
  have "\<forall>ph \<in> set phs. ph_filesz ph \<noteq> 0 \<longrightarrow> in_file data (ph_offset ph) (ph_filesz ph)"
    using mapE_set [OF phs] by (blast intro: parse_program_header_in_file)
  moreover have "\<forall>v \<in> set raws. v ! 5 \<noteq> 0 \<longrightarrow> v ! 1 \<noteq> SHT_NOBITS \<longrightarrow> in_file data (v ! 4) (v ! 5)"
    using mapE_set [OF raws] by (blast intro: parse_raw_section_in_file)
  ultimately show ?thesis
    by (auto simp: elf_wf_def eqs section_of_def)
qed

lemma elf_wf_vaddr_to_offset:
  assumes "elf_wf elf" "vaddr_to_offset elf a = Some off"
  shows "0 \<le> off \<and> off < blen (el_raw_data elf)"
proof (cases "segment_offset (el_program_headers elf) a")
  case None
  with assms(2) have "section_offset (el_sections elf) a = Some off"
    by (simp add: vaddr_to_offset_def)
  then obtain s where "s \<in> set (el_sections elf)" "se_type s \<noteq> 8" "se_addr s \<le> a"
    "a < se_addr s + se_size s" "off = se_offset s + (a - se_addr s)"
    using section_offset_Some by blast
  moreover from this assms(1) have "in_file (el_raw_data elf) (se_offset s) (se_size s)"
    by (auto simp: elf_wf_def SHT_NOBITS_def)
  ultimately show ?thesis by (auto simp: in_file_def)
next
  case (Some o')
  with assms(2) have "segment_offset (el_program_headers elf) a = Some off"
    by (simp add: vaddr_to_offset_def)
  then obtain ph where "ph \<in> set (el_program_headers elf)" "ph_vaddr ph \<le> a"
    "a < ph_vaddr ph + ph_filesz ph" "off = ph_offset ph + (a - ph_vaddr ph)"
    using segment_offset_Some by blast
  moreover from this assms(1) have "in_file (el_raw_data elf) (ph_offset ph) (ph_filesz ph)"
    by (auto simp: elf_wf_def)
  ultimately show ?thesis by (auto simp: in_file_def)
qed


lemma elf_unpack_in: "in_file data off sz \<Longrightarrow> elf_unpack data off sz \<noteq> Inl err"
  by (auto simp: elf_unpack_def in_file_def unpack_from_in)

lemma parse_elf_encoding_len: "parse_elf_encoding data = Inr e \<Longrightarrow> 0x34 \<le> blen data"
  by (auto simp: parse_elf_encoding_def bindE_Inr_iff in_file_def)

lemma check_elf_tables_phdr:
  assumes "check_elf_tables data h = Inr ()" "i < nat (eh_phnum h)"
    and "0 \<le> eh_phoff h"
  shows "in_file data (eh_phoff h + int i * eh_phentsize h) 0x20"
proof -
  from assms have ent: "0x20 \<le> eh_phentsize h"
    and tab: "in_file data (eh_phoff h) (eh_phentsize h * eh_phnum h)"
    by (auto simp: check_elf_tables_def bindE_Inr_iff split: if_splits)
  have "int i + 1 \<le> eh_phnum h" using assms(2) by linarith
  then have "(int i + 1) * eh_phentsize h \<le> eh_phnum h * eh_phentsize h"
    using ent by (intro mult_right_mono) auto
  with ent tab assms(3) show ?thesis by (auto simp: in_file_def algebra_simps)
qed

lemma check_elf_tables_shdr:
  assumes "check_elf_tables data h = Inr ()" "i < nat (eh_shnum h)"
    and "0 \<le> eh_shoff h"
  shows "in_file data (eh_shoff h + int i * eh_shentsize h) 0x28"
proof -
  from assms have ent: "0x28 \<le> eh_shentsize h"
    and tab: "in_file data (eh_shoff h) (eh_shentsize h * eh_shnum h)"
    by (auto simp: check_elf_tables_def bindE_Inr_iff split: if_splits)
  have "int i + 1 \<le> eh_shnum h" using assms(2) by linarith
  then have "(int i + 1) * eh_shentsize h \<le> eh_shnum h * eh_shentsize h"
    using ent by (intro mult_right_mono) auto
  with ent tab assms(3) show ?thesis by (auto simp: in_file_def algebra_simps)
qed

lemma header_of_bytes_nonneg [simp]:
  "0 \<le> eh_phoff (header_of_bytes e raw)" "0 \<le> eh_shoff (header_of_bytes e raw)"
  "0 \<le> eh_phnum (header_of_bytes e raw)" "0 \<le> eh_shnum (header_of_bytes e raw)"
  "0 \<le> eh_entry (header_of_bytes e raw)" "0 \<le> eh_shstrndx (header_of_bytes e raw)"
  by (simp_all add: header_of_bytes_def)

lemma parse_program_header_no_struct_error:
  "in_file data (eh_phoff h + int i * eh_phentsize h) 0x20 \<Longrightarrow>
     parse_program_header e data h i \<noteq> Inl Elf_struct_error"
  by (auto simp: parse_program_header_def bindE_Inl_iff Let_def elf_unpack_in)

lemma parse_raw_section_no_struct_error:
  "in_file data (eh_shoff h + int i * eh_shentsize h) 0x28 \<Longrightarrow>
     parse_raw_section e data h i \<noteq> Inl Elf_struct_error"
  by (auto simp: parse_raw_section_def bindE_Inl_iff Let_def elf_unpack_in)

lemma check_elf_tables_no_struct_error: "check_elf_tables data h \<noteq> Inl Elf_struct_error"
  by (auto simp: check_elf_tables_def bindE_Inl_iff)

lemma section_names_no_struct_error: "section_names data h raws \<noteq> Inl Elf_struct_error"
  by (auto simp: section_names_def Let_def)

lemma parse_elf_encoding_no_struct_error: "parse_elf_encoding data \<noteq> Inl Elf_struct_error"
  by (auto simp: parse_elf_encoding_def bindE_Inl_iff)

lemma parse_elf32_no_struct_error: "parse_elf32 data \<noteq> Inl Elf_struct_error"
proof
  assume bad: "parse_elf32 data = Inl Elf_struct_error"
  then obtain e where e: "parse_elf_encoding data = Inr e"
    by (auto simp: parse_elf32_def bindE_Inl_iff parse_elf_encoding_no_struct_error)
  then have "in_file data 0x10 36"
    using parse_elf_encoding_len by (auto simp: in_file_def)
  with bad e obtain raw where raw: "elf_unpack data 0x10 36 = Inr raw"
    by (auto simp: parse_elf32_def bindE_Inl_iff elf_unpack_in)
  let ?h = "header_of_bytes e raw"
  from bad e raw have tabs: "check_elf_tables data ?h = Inr ()"
    by (auto simp: parse_elf32_def bindE_Inl_iff Let_def check_elf_tables_no_struct_error)
  have "mapE (parse_program_header e data ?h) [0..<nat (eh_phnum ?h)] \<noteq> Inl Elf_struct_error"
    by (rule mapE_no_error)
      (use check_elf_tables_phdr [OF tabs] in \<open>auto intro!: parse_program_header_no_struct_error\<close>)
  moreover have "mapE (parse_raw_section e data ?h) [0..<nat (eh_shnum ?h)] \<noteq> Inl Elf_struct_error"
    by (rule mapE_no_error)
      (use check_elf_tables_shdr [OF tabs] in \<open>auto intro!: parse_raw_section_no_struct_error\<close>)
  ultimately show False
    using bad e raw tabs
    by (auto simp: parse_elf32_def bindE_Inl_iff Let_def section_names_no_struct_error)
qed

text \<open>
  The ELF32 parser never reads past the end of its input: whatever the bytes are,
  it returns an image or one of its own parse errors, never the \<open>struct.error\<close> of an unpack
  out of range. The checks made before each table is read are enough.
\<close>

theorem parse_elf32_never_struct_error: "parse_elf32 data \<noteq> Inl Elf_struct_error"
  by (rule parse_elf32_no_struct_error)

text \<open>
  Property C8. Address translation stays inside the file: in an image that was parsed from
  \<open>data\<close>, every virtual address that translates at all translates to an offset of a byte of
  \<open>data\<close>, whichever program header or section backs it.
\<close>

theorem parse_elf32_translates_in_file:
  assumes "parse_elf32 data = Inr elf" "vaddr_to_offset elf a = Some off"
  shows "0 \<le> off \<and> off < blen data \<and> el_raw_data elf = data"
proof -
  from assms(1) have "el_raw_data elf = data" by (rule parse_elf32_parts)
  with elf_wf_vaddr_to_offset [OF parse_elf32_wf [OF assms(1)] assms(2)] show ?thesis by simp
qed

text \<open>A file of 84 bytes: the header and one loadable segment that covers it.\<close>

definition sample_elf_bytes :: bytes where
  "sample_elf_bytes =
     [0x7F, 0x45, 0x4C, 0x46, 1, 1, 1, 0, 0, 0, 0, 0, 0, 0, 0, 0] @
     le_bytes 2 2 @ le_bytes 2 8 @ le_bytes 4 1 @ le_bytes 4 0 @ le_bytes 4 0x34 @ le_bytes 4 0 @
     le_bytes 4 0 @ le_bytes 2 0x34 @ le_bytes 2 0x20 @ le_bytes 2 1 @ le_bytes 2 0x28 @ le_bytes 2 0 @
     le_bytes 2 0 @
     le_bytes 4 1 @ le_bytes 4 0 @ le_bytes 4 0x1000 @ le_bytes 4 0x1000 @ le_bytes 4 84 @ le_bytes 4 96 @
     le_bytes 4 5 @ le_bytes 4 16"

definition sample_elf :: elf_image where
  "sample_elf =
     \<lparr> el_header = \<lparr> eh_file_type = 2, eh_machine = 8, eh_version = 1, eh_entry = 0, eh_phoff = 0x34,
         eh_shoff = 0, eh_flags = 0, eh_ehsize = 0x34, eh_phentsize = 0x20, eh_phnum = 1,
         eh_shentsize = 0x28, eh_shnum = 0, eh_shstrndx = 0 \<rparr>,
       el_endianness = Little,
       el_program_headers =
         [\<lparr> ph_index = 0, ph_type = 1, ph_offset = 0, ph_vaddr = 0x1000, ph_paddr = 0x1000,
            ph_filesz = 84, ph_memsz = 96, ph_flags = 5, ph_align = 16 \<rparr>],
       el_sections = [],
       el_raw_data = sample_elf_bytes \<rparr>"

lemma sample_elf_parses: "parse_elf32 sample_elf_bytes = Inr sample_elf"
  by code_simp

theorem parse_elf32_translates_in_file_witness:
  "0 \<le> (83 :: int) \<and> 83 < blen sample_elf_bytes \<and> el_raw_data sample_elf = sample_elf_bytes"
  using parse_elf32_translates_in_file [OF sample_elf_parses, of "0x1053" 83]
  by (simp add: sample_elf_def vaddr_to_offset_def)

text \<open>The parsed image has as many headers as the file declares, each at its own index.\<close>

lemma parse_elf32_counts:
  assumes "parse_elf32 data = Inr elf"
  shows "blen (el_program_headers elf) = eh_phnum (el_header elf)"
    and "blen (el_sections elf) = eh_shnum (el_header elf)"
    and "i < length (el_program_headers elf) \<Longrightarrow> ph_index (el_program_headers elf ! i) = int i"
    and "i < length (el_sections elf) \<Longrightarrow> se_index (el_sections elf ! i) = int i"
proof -
  from assms obtain e raw phs raws shstr where
    h: "el_header elf = header_of_bytes e raw"
    and phs: "mapE (parse_program_header e data (el_header elf)) [0..<nat (eh_phnum (el_header elf))] = Inr phs"
    and raws: "mapE (parse_raw_section e data (el_header elf)) [0..<nat (eh_shnum (el_header elf))] = Inr raws"
    and eqs: "el_program_headers elf = phs"
      "el_sections elf = map (\<lambda>i. section_of shstr i (raws ! i)) [0..<length raws]"
    by (rule parse_elf32_parts)
  show "blen (el_program_headers elf) = eh_phnum (el_header elf)"
    using mapE_length [OF phs] by (simp add: eqs h)
  show "blen (el_sections elf) = eh_shnum (el_header elf)"
    using mapE_length [OF raws] by (simp add: eqs h)
  show "ph_index (el_program_headers elf ! i) = int i" if "i < length (el_program_headers elf)"
    using that phs by (auto simp: mapE_Inr_iff eqs intro: parse_program_header_index)
  show "se_index (el_sections elf ! i) = int i" if "i < length (el_sections elf)"
    using that by (simp add: eqs section_of_def)
qed

end
