(* ===== verification/Prx_Reloc2.thy ===== *)
theory Prx_Reloc2
  imports Elf_Parser
begin

text \<open>
  \<open>prxreloc2.py\<close>: the bounded reader of a \<open>PT_PRXRELOC2\<close> segment, the decoder of its
  compressed relocation stream, and the relocation of one 32-bit word.
\<close>

definition PT_LOAD :: int where "PT_LOAD = 1"
definition PT_PRXRELOC2 :: int where "PT_PRXRELOC2 = 0x700000A1"
definition MAX_DECODED_RELOCATIONS :: int where "MAX_DECODED_RELOCATIONS = 1000000"

datatype reloc2_table = Flag_Table | Type_Table
datatype segment_role = Source_Segment | Target_Segment

datatype reloc2_error =
    Segment_Beyond_Input
  | Truncated string
  | Table_Size_Zero reloc2_table
  | Segment_Index_Out_Of_Range segment_role int
  | Segment_Not_Load segment_role int
  | Table_Index_Out_Of_Range reloc2_table int int
  | Hi16_Unresolved
  | Unsupported_Relocation_Type int
  | Not_Little_Endian
  | Program_Header_Out_Of_Range int
  | Not_Prxreloc2 int
  | Command_Widths_Exceed_16 nat nat nat
  | Unsupported_State_Mode int
  | Unsupported_Compact_Type int
  | Unsupported_Offset_Mode int
  | Source_Word_Out_Of_Segment int int int
  | Unsupported_Lo16_Mode int
  | Too_Many_Relocations

definition reloc2_type_name :: "int \<Rightarrow> string option" where
  "reloc2_type_name = map_of
     [(0, ''R_MIPS_NONE''), (1, ''R_MIPS_16''), (2, ''R_MIPS_32''), (4, ''R_MIPS_26''),
      (5, ''R_MIPS_HI16''), (6, ''R_MIPS_LO16''), (7, ''R_MIPS_GPREL16''),
      (13, ''R_MIPS_X_HI16''), (14, ''R_MIPS_X_J26''), (15, ''R_MIPS_X_JAL26'')]"

definition compact_type_map :: "int \<Rightarrow> int option" where
  "compact_type_map = map_of
     [(0, 0), (1, 1), (2, 2), (3, 4), (4, 5), (5, 6), (6, 14), (7, 15)]"

section \<open>The stream reader\<close>

record stream_reader =
  sr_data :: bytes
  sr_start :: int
  sr_end :: int
  sr_pos :: int

definition reader_bounded :: "bytes \<Rightarrow> int \<Rightarrow> int \<Rightarrow> (reloc2_error, stream_reader) result" where
  "reader_bounded data start sz =
     (if start < 0 \<or> sz < 0 \<or> start + sz > blen data then Inl Segment_Beyond_Input
      else Inr \<lparr> sr_data = data, sr_start = start, sr_end = start + sz, sr_pos = start \<rparr>)"

definition reader_remaining :: "stream_reader \<Rightarrow> int" where
  "reader_remaining r = sr_end r - sr_pos r"

definition reader_require :: "stream_reader \<Rightarrow> int \<Rightarrow> string \<Rightarrow> (reloc2_error, unit) result" where
  "reader_require r sz what =
     (if sz < 0 \<or> sr_pos r + sz > sr_end r then Inl (Truncated what) else Inr ())"

text \<open>The integers are little-endian and the position moves past them.\<close>

definition reader_int :: "nat \<Rightarrow> string \<Rightarrow> stream_reader \<Rightarrow> (reloc2_error, int \<times> stream_reader) result" where
  "reader_int n what r =
     bindE (reader_require r (int n) what) (\<lambda>_.
     Inr (le_int (py_slice (sr_data r) (sr_pos r) (sr_pos r + int n)),
          r\<lparr>sr_pos := sr_pos r + int n\<rparr>))"

definition read_u8 :: "string \<Rightarrow> stream_reader \<Rightarrow> (reloc2_error, int \<times> stream_reader) result" where
  "read_u8 = reader_int 1"

definition read_u16 :: "string \<Rightarrow> stream_reader \<Rightarrow> (reloc2_error, int \<times> stream_reader) result" where
  "read_u16 = reader_int 2"

definition read_u32 :: "string \<Rightarrow> stream_reader \<Rightarrow> (reloc2_error, int \<times> stream_reader) result" where
  "read_u32 = reader_int 4"

definition read_table ::
    "reloc2_table \<Rightarrow> stream_reader \<Rightarrow> (reloc2_error, bytes \<times> stream_reader) result" where
  "read_table t r =
     (let what = (case t of Flag_Table \<Rightarrow> ''flag table'' | Type_Table \<Rightarrow> ''type table'') in
      bindE (reader_require r 1 what) (\<lambda>_.
      let sz = uint (sr_data r ! nat (sr_pos r)) in
      if sz < 1 then Inl (Table_Size_Zero t)
      else bindE (reader_require r sz what) (\<lambda>_.
           Inr (py_slice (sr_data r) (sr_pos r) (sr_pos r + sz), r\<lparr>sr_pos := sr_pos r + sz\<rparr>))))"

section \<open>The decoder's helpers\<close>

definition reloc2_segment ::
    "elf_image \<Rightarrow> int \<Rightarrow> segment_role \<Rightarrow> (reloc2_error, program_header) result" where
  "reloc2_segment elf i role =
     (if i < 0 \<or> i \<ge> blen (el_program_headers elf) then Inl (Segment_Index_Out_Of_Range role i)
      else let seg = el_program_headers elf ! nat i
           in if ph_type seg \<noteq> PT_LOAD then Inl (Segment_Not_Load role i) else Inr seg)"

definition table_lookup :: "bytes \<Rightarrow> int \<Rightarrow> reloc2_table \<Rightarrow> (reloc2_error, int) result" where
  "table_lookup table i t =
     (if i < 0 \<or> i \<ge> blen table then Inl (Table_Index_Out_Of_Range t i (blen table))
      else Inr (uint (table ! nat i)))"

definition bit_mask :: "nat \<Rightarrow> int" where
  "bit_mask bits = (if bits \<noteq> 0 then push_bit bits 1 - 1 else 0)"

definition signed_compact_delta :: "int \<Rightarrow> nat \<Rightarrow> int" where
  "signed_compact_delta command shift =
     drop_bit shift (if command AND 0x8000 \<noteq> 0 then command - 0x10000 else command)"

definition signed_extended_delta :: "int \<Rightarrow> nat \<Rightarrow> int \<Rightarrow> int" where
  "signed_extended_delta command shift low_half =
     push_bit 16 (signed_compact_delta command shift) OR low_half"

definition signed_u16 :: "int \<Rightarrow> int" where
  "signed_u16 v = (if v AND 0x8000 \<noteq> 0 then v - 0x10000 else v)"

section \<open>Relocating one word\<close>

definition apply_psp_relocation_word ::
    "int \<Rightarrow> relocation \<Rightarrow> int \<Rightarrow> int option \<Rightarrow> (reloc2_error, int) result" where
  "apply_psp_relocation_word word0 rel base0 lo16 =
     (let word = word0 AND 0xFFFFFFFF;
          target_base = base0 AND 0xFFFFFFFF;
          ty = re_type rel in
      if ty \<in> {0, 7} then Inr word
      else if ty = 2 then Inr ((word + target_base) AND 0xFFFFFFFF)
      else if ty \<in> {1, 6} then
        (let low_half = ((word AND 0xFFFF) + target_base) AND 0xFFFF
         in Inr ((word AND 0xFFFF0000) OR low_half))
      else if ty \<in> {4, 14, 15} then
        (let jump_field = ((word AND 0x03FFFFFF) + drop_bit 2 target_base) AND 0x03FFFFFF
         in if ty = 14 then Inr (0x08000000 OR jump_field)
            else if ty = 15 then Inr (0x0C000000 OR jump_field)
            else Inr ((word AND 0xFC000000) OR jump_field))
      else if ty = 5 then
        (case (case lo16 of Some l \<Rightarrow> Some l | None \<Rightarrow> re_addend rel) of
           None \<Rightarrow> Inl Hi16_Unresolved
         | Some low \<Rightarrow>
             (let address = (push_bit 16 (word AND 0xFFFF) + low + target_base) AND 0xFFFFFFFF;
                  address' = (if address AND 0x8000 \<noteq> 0
                              then (address + 0x10000) AND 0xFFFFFFFF else address)
              in Inr ((word AND 0xFFFF0000) OR (drop_bit 16 address' AND 0xFFFF))))
      else Inl (Unsupported_Relocation_Type ty))"

section \<open>The decoder\<close>

text \<open>What is fixed once the stream's header and tables are read.\<close>

record reloc2_context =
  rc_elf :: elf_image
  rc_index :: int
  rc_offset :: int
  rc_flag_bits :: nat
  rc_seg_bits :: nat
  rc_type_bits :: nat
  rc_flag_table :: bytes
  rc_type_table :: bytes

text \<open>The variables of the decoding loop.\<close>

record reloc2_state =
  rs_reader :: stream_reader
  rs_source_index :: int
  rs_base :: int
  rs_relocations :: "relocation list"

text \<open>The loop \<open>while (1 << seg_bits) < index: seg_bits += 1\<close>.\<close>

function grow_seg_bits :: "nat \<Rightarrow> int \<Rightarrow> nat" where
  "grow_seg_bits b i = (if push_bit b 1 < i then grow_seg_bits (Suc b) i else b)"
  by pat_completeness auto
termination
  by (relation "measure (\<lambda>(b, i). nat (i - push_bit b 1))") (auto simp: push_bit_eq_mult)

declare grow_seg_bits.simps [simp del]

text \<open>A command whose flag has bit 0 clear sets the source segment and the base.\<close>

definition state_command ::
    "reloc2_context \<Rightarrow> int \<Rightarrow> int \<Rightarrow> int \<Rightarrow> reloc2_state \<Rightarrow> (reloc2_error, reloc2_state) result" where
  "state_command cx command flag segment_index st =
     (let offset_mode = flag AND 0x06 in
      if offset_mode = 0 then
        Inr (st\<lparr>rs_source_index := segment_index,
                rs_base := drop_bit (rc_flag_bits cx + rc_seg_bits cx) command\<rparr>)
      else if offset_mode = 4 then
        bindE (read_u32 ''absolute state base'' (rs_reader st)) (\<lambda>(base, r).
        Inr (st\<lparr>rs_source_index := segment_index, rs_base := base, rs_reader := r\<rparr>))
      else Inl (Unsupported_State_Mode offset_mode))"

definition next_base ::
    "reloc2_context \<Rightarrow> int \<Rightarrow> int \<Rightarrow> int \<Rightarrow> stream_reader \<Rightarrow> (reloc2_error, int \<times> stream_reader) result" where
  "next_base cx command flag base r =
     (let offset_mode = flag AND 0x06;
          payload_shift = rc_flag_bits cx + rc_seg_bits cx + rc_type_bits cx in
      if offset_mode = 0 then Inr (base + signed_compact_delta command payload_shift, r)
      else if offset_mode = 2 then
        bindE (read_u16 ''extended relocation delta'' r) (\<lambda>(low_half, r').
        Inr (base + signed_extended_delta command payload_shift low_half, r'))
      else if offset_mode = 4 then read_u32 ''absolute relocation offset'' r
      else Inl (Unsupported_Offset_Mode offset_mode))"

definition read_addend ::
    "int \<Rightarrow> stream_reader \<Rightarrow> (reloc2_error, int option \<times> stream_reader) result" where
  "read_addend flag r =
     (let lo16_mode = flag AND 0x38 in
      if lo16_mode = 0 then Inr (Some 0, r)
      else if lo16_mode = 0x10 then
        bindE (read_u16 ''HI16 low-half addend'' r) (\<lambda>(v, r'). Inr (Some (signed_u16 v), r'))
      else if lo16_mode = 0x08 then Inr (None, r)
      else Inl (Unsupported_Lo16_Mode lo16_mode))"

definition decoded_relocation ::
    "reloc2_context \<Rightarrow> int \<Rightarrow> int \<Rightarrow> int \<Rightarrow> int \<Rightarrow> int \<Rightarrow> int option \<Rightarrow> int \<Rightarrow> relocation" where
  "decoded_relocation cx ty source_index segment_index base stream_offset addend flag =
     (let info = ty OR push_bit 8 source_index OR push_bit 16 segment_index in
      \<lparr> re_section = ''PT_PRXRELOC2['' @ dec_str (rc_index cx) @ '']'',
        re_offset = base,
        re_info = info,
        re_type = ty,
        re_type_name = (case reloc2_type_name ty of Some nm \<Rightarrow> nm | None \<Rightarrow> []),
        re_symbol_index = drop_bit 8 info,
        re_target_section_index = None,
        re_source = From_Rel2,
        re_source_segment_index = Some source_index,
        re_target_segment_index = Some segment_index,
        re_stream_offset = Some stream_offset,
        re_addend = addend,
        re_encoding_flags = Some flag \<rparr>)"

definition relocation_command ::
    "reloc2_context \<Rightarrow> int \<Rightarrow> int \<Rightarrow> int \<Rightarrow> int \<Rightarrow> int \<Rightarrow> reloc2_state \<Rightarrow>
       (reloc2_error, reloc2_state) result" where
  "relocation_command cx stream_offset command flag segment_index compact_type st =
     (case compact_type_map compact_type of
        None \<Rightarrow> Inl (Unsupported_Compact_Type compact_type)
      | Some ty \<Rightarrow>
          bindE (reloc2_segment (rc_elf cx) (rs_source_index st) Source_Segment) (\<lambda>source_segment.
          bindE (reloc2_segment (rc_elf cx) segment_index Target_Segment) (\<lambda>_.
          bindE (next_base cx command flag (rs_base st) (rs_reader st)) (\<lambda>(base, r).
          if base < 0 \<or> base + 4 > ph_memsz source_segment
          then Inl (Source_Word_Out_Of_Segment base (rs_source_index st) (ph_memsz source_segment))
          else bindE (read_addend flag r) (\<lambda>(addend, r').
          let rel = decoded_relocation cx ty (rs_source_index st) segment_index base stream_offset addend flag;
              rels = rs_relocations st @ [rel] in
          if blen rels > MAX_DECODED_RELOCATIONS then Inl Too_Many_Relocations
          else Inr (st\<lparr>rs_reader := r', rs_base := base, rs_relocations := rels\<rparr>))))))"

definition reloc2_step :: "reloc2_context \<Rightarrow> reloc2_state \<Rightarrow> (reloc2_error, reloc2_state) result" where
  "reloc2_step cx st =
     (let stream_offset = sr_pos (rs_reader st) - rc_offset cx in
      bindE (read_u16 ''command'' (rs_reader st)) (\<lambda>(command, r).
      let st' = st\<lparr>rs_reader := r\<rparr>;
          flag_index = command AND bit_mask (rc_flag_bits cx);
          segment_index = drop_bit (rc_flag_bits cx) command AND bit_mask (rc_seg_bits cx);
          type_index = drop_bit (rc_flag_bits cx + rc_seg_bits cx) command AND bit_mask (rc_type_bits cx) in
      bindE (table_lookup (rc_flag_table cx) flag_index Flag_Table) (\<lambda>flag.
      bindE (table_lookup (rc_type_table cx) type_index Type_Table) (\<lambda>compact_type.
      if flag AND 0x01 = 0 then state_command cx command flag segment_index st'
      else relocation_command cx stream_offset command flag segment_index compact_type st'))))"

section \<open>Every command moves the reader forward\<close>

lemma reader_int_pos:
  "reader_int n what r = Inr (v, r') \<Longrightarrow>
     sr_pos r' = sr_pos r + int n \<and> sr_end r' = sr_end r \<and> sr_data r' = sr_data r \<and>
     sr_start r' = sr_start r \<and> sr_pos r' \<le> sr_end r"
  by (auto simp: reader_int_def reader_require_def bindE_Inr_iff split: if_splits)

lemmas read_pos = reader_int_pos [of 1, folded read_u8_def] reader_int_pos [of 2, folded read_u16_def]
  reader_int_pos [of 4, folded read_u32_def]

lemma next_base_pos:
  "next_base cx command flag base r = Inr (b, r') \<Longrightarrow>
     sr_pos r \<le> sr_pos r' \<and> sr_end r' = sr_end r \<and> (sr_pos r \<le> sr_end r \<longrightarrow> sr_pos r' \<le> sr_end r)"
  by (auto simp: next_base_def Let_def bindE_Inr_iff dest!: read_pos split: if_splits)

lemma read_addend_pos:
  "read_addend flag r = Inr (a, r') \<Longrightarrow>
     sr_pos r \<le> sr_pos r' \<and> sr_end r' = sr_end r \<and> (sr_pos r \<le> sr_end r \<longrightarrow> sr_pos r' \<le> sr_end r)"
  by (auto simp: read_addend_def Let_def bindE_Inr_iff dest!: read_pos split: if_splits)

lemma state_command_pos:
  "state_command cx c f s st = Inr st' \<Longrightarrow>
     sr_pos (rs_reader st) \<le> sr_pos (rs_reader st') \<and> sr_end (rs_reader st') = sr_end (rs_reader st) \<and>
     (sr_pos (rs_reader st) \<le> sr_end (rs_reader st) \<longrightarrow> sr_pos (rs_reader st') \<le> sr_end (rs_reader st))"
  by (auto simp: state_command_def Let_def bindE_Inr_iff dest!: read_pos split: if_splits)

lemma relocation_command_pos:
  "relocation_command cx so c f s ct st = Inr st' \<Longrightarrow>
     sr_pos (rs_reader st) \<le> sr_pos (rs_reader st') \<and> sr_end (rs_reader st') = sr_end (rs_reader st) \<and>
     (sr_pos (rs_reader st) \<le> sr_end (rs_reader st) \<longrightarrow> sr_pos (rs_reader st') \<le> sr_end (rs_reader st))"
  by (auto simp: relocation_command_def Let_def bindE_Inr_iff dest!: next_base_pos read_addend_pos
      split: if_splits option.splits)

lemma reloc2_step_pos:
  assumes "reloc2_step cx st = Inr st'"
  shows "sr_pos (rs_reader st) + 2 \<le> sr_pos (rs_reader st')"
    and "sr_end (rs_reader st') = sr_end (rs_reader st)"
    and "sr_pos (rs_reader st') \<le> sr_end (rs_reader st')"
  using assms
  by (auto simp: reloc2_step_def Let_def bindE_Inr_iff dest!: read_pos state_command_pos
      relocation_command_pos split: if_splits)

text \<open>The loop \<open>while reader.pos < reader.end\<close>.\<close>

function reloc2_loop :: "reloc2_context \<Rightarrow> reloc2_state \<Rightarrow> (reloc2_error, reloc2_state) result" where
  "reloc2_loop cx st =
     (if sr_pos (rs_reader st) < sr_end (rs_reader st)
      then bindE (reloc2_step cx st) (reloc2_loop cx) else Inr st)"
  by pat_completeness auto
termination
proof (relation "measure (\<lambda>(cx, st). nat (sr_end (rs_reader st) - sr_pos (rs_reader st)))", goal_cases)
  case 1
  then show ?case by simp
next
  case (2 cx st st')
  then show ?case using reloc2_step_pos [of cx st st'] by simp
qed

declare reloc2_loop.simps [simp del]

definition decode_prxreloc2 :: "bytes \<Rightarrow> elf_image \<Rightarrow> int \<Rightarrow> (reloc2_error, relocation list) result" where
  "decode_prxreloc2 data elf idx =
     (if el_endianness elf \<noteq> Little then Inl Not_Little_Endian
      else if idx < 0 \<or> idx \<ge> blen (el_program_headers elf) then Inl (Program_Header_Out_Of_Range idx)
      else let seg = el_program_headers elf ! nat idx in
      if ph_type seg \<noteq> PT_PRXRELOC2 then Inl (Not_Prxreloc2 idx)
      else
        bindE (reader_bounded data (ph_offset seg) (ph_filesz seg)) (\<lambda>r0.
        bindE (reader_require r0 4 ''header'') (\<lambda>_.
        bindE (read_u8 ''header reserved byte 0'' r0) (\<lambda>(_, r1).
        bindE (read_u8 ''header reserved byte 1'' r1) (\<lambda>(_, r2).
        bindE (read_u8 ''flag-bit count'' r2) (\<lambda>(fb, r3).
        bindE (read_u8 ''type-bit count'' r3) (\<lambda>(tb, r4).
        let flag_bits = nat fb; type_bits = nat tb; seg_bits = grow_seg_bits 1 idx in
        if flag_bits + seg_bits + type_bits > 16
        then Inl (Command_Widths_Exceed_16 flag_bits seg_bits type_bits)
        else
          bindE (read_table Flag_Table r4) (\<lambda>(flag_table, r5).
          bindE (read_table Type_Table r5) (\<lambda>(type_table, r6).
          let cx = \<lparr> rc_elf = elf, rc_index = idx, rc_offset = ph_offset seg,
                     rc_flag_bits = flag_bits, rc_seg_bits = seg_bits, rc_type_bits = type_bits,
                     rc_flag_table = flag_table, rc_type_table = type_table \<rparr>
          in bindE (reloc2_loop cx \<lparr> rs_reader = r6, rs_source_index = 0, rs_base = 0,
                                     rs_relocations = [] \<rparr>)
               (\<lambda>st. Inr (rs_relocations st)))))))))))"


section \<open>What a decoded relocation satisfies\<close>

definition reloc2_types :: "int list" where
  "reloc2_types = [0, 1, 2, 4, 5, 6, 14, 15]"

definition load_segment_at :: "elf_image \<Rightarrow> int \<Rightarrow> bool" where
  "load_segment_at elf i \<longleftrightarrow> 0 \<le> i \<and> i < blen (el_program_headers elf) \<and>
     ph_type (el_program_headers elf ! nat i) = PT_LOAD"

text \<open>
  Both segments exist and are loadable, the whole word lies in the source segment's memory,
  and the type is one the relocator knows.
\<close>

definition reloc2_sound :: "elf_image \<Rightarrow> relocation \<Rightarrow> bool" where
  "reloc2_sound elf rel \<longleftrightarrow>
     (\<exists>s t. re_source_segment_index rel = Some s \<and> re_target_segment_index rel = Some t \<and>
        load_segment_at elf s \<and> load_segment_at elf t \<and>
        0 \<le> re_offset rel \<and> re_offset rel + 4 \<le> ph_memsz (el_program_headers elf ! nat s)) \<and>
     re_type rel \<in> set reloc2_types \<and> re_source rel = From_Rel2"

definition stream_offset_of :: "relocation \<Rightarrow> int" where
  "stream_offset_of rel = (case re_stream_offset rel of Some k \<Rightarrow> k | None \<Rightarrow> -1)"

definition reloc2_inv :: "reloc2_context \<Rightarrow> reloc2_state \<Rightarrow> bool" where
  "reloc2_inv cx st \<longleftrightarrow>
     (\<forall>rel \<in> set (rs_relocations st). reloc2_sound (rc_elf cx) rel \<and>
        stream_offset_of rel < sr_pos (rs_reader st) - rc_offset cx) \<and>
     sorted_wrt (<) (map stream_offset_of (rs_relocations st)) \<and>
     blen (rs_relocations st) \<le> MAX_DECODED_RELOCATIONS"

lemma reloc2_segment_load:
  "reloc2_segment elf i role = Inr seg \<Longrightarrow>
     load_segment_at elf i \<and> seg = el_program_headers elf ! nat i"
  by (auto simp: reloc2_segment_def load_segment_at_def Let_def split: if_splits)

lemma compact_type_map_types: "compact_type_map c = Some ty \<Longrightarrow> ty \<in> set reloc2_types"
  by (auto simp: compact_type_map_def reloc2_types_def split: if_splits)

lemma state_command_relocations:
  "state_command cx c f s st = Inr st' \<Longrightarrow> rs_relocations st' = rs_relocations st"
  by (auto simp: state_command_def Let_def bindE_Inr_iff split: if_splits)

lemma relocation_command_appends:
  assumes "relocation_command cx so c f s ct st = Inr st'"
  obtains rel where "rs_relocations st' = rs_relocations st @ [rel]"
    "reloc2_sound (rc_elf cx) rel" "stream_offset_of rel = so"
    "blen (rs_relocations st') \<le> MAX_DECODED_RELOCATIONS"
proof -
  from assms obtain ty where ty: "compact_type_map ct = Some ty"
    by (auto simp: relocation_command_def split: option.splits)
  from assms ty obtain seg seg' where src: "reloc2_segment (rc_elf cx) (rs_source_index st) Source_Segment = Inr seg"
    and tgt: "reloc2_segment (rc_elf cx) s Target_Segment = Inr seg'"
    by (auto simp: relocation_command_def bindE_Inr_iff)
  from assms ty src tgt obtain base r where nb: "next_base cx c f (rs_base st) (rs_reader st) = Inr (base, r)"
    and rng: "0 \<le> base" "base + 4 \<le> ph_memsz seg"
    by (auto simp: relocation_command_def bindE_Inr_iff split: if_splits)
  from assms ty src tgt nb rng obtain addend r' where "read_addend f r = Inr (addend, r')"
    by (auto simp: relocation_command_def bindE_Inr_iff)
  with assms ty src tgt nb rng have len: "blen (rs_relocations st) + 1 \<le> MAX_DECODED_RELOCATIONS"
    and st': "rs_relocations st' = rs_relocations st @
      [decoded_relocation cx ty (rs_source_index st) s base so addend f]"
    by (auto simp: relocation_command_def Let_def split: if_splits)
  show ?thesis
  proof (rule that)
    show "rs_relocations st' = rs_relocations st @
      [decoded_relocation cx ty (rs_source_index st) s base so addend f]" by (rule st')
    show "reloc2_sound (rc_elf cx) (decoded_relocation cx ty (rs_source_index st) s base so addend f)"
      using reloc2_segment_load [OF src] tgt reloc2_segment_load rng compact_type_map_types [OF ty]
      by (auto simp: reloc2_sound_def decoded_relocation_def Let_def)
    show "stream_offset_of (decoded_relocation cx ty (rs_source_index st) s base so addend f) = so"
      by (simp add: stream_offset_of_def decoded_relocation_def Let_def)
    show "blen (rs_relocations st') \<le> MAX_DECODED_RELOCATIONS"
      using len by (simp add: st')
  qed
qed

lemma reloc2_step_inv:
  assumes inv: "reloc2_inv cx st" and step: "reloc2_step cx st = Inr st'"
  shows "reloc2_inv cx st'"
proof -
  let ?so = "sr_pos (rs_reader st) - rc_offset cx"
  have pos: "sr_pos (rs_reader st) + 2 \<le> sr_pos (rs_reader st')"
    by (rule reloc2_step_pos [OF step])
  from step consider
    (state) "rs_relocations st' = rs_relocations st"
  | (rel) rel where "rs_relocations st' = rs_relocations st @ [rel]"
      "reloc2_sound (rc_elf cx) rel" "stream_offset_of rel = ?so"
      "blen (rs_relocations st') \<le> MAX_DECODED_RELOCATIONS"
    by (auto simp: reloc2_step_def Let_def bindE_Inr_iff dest: state_command_relocations
        elim!: relocation_command_appends split: if_splits)
  then show ?thesis
  proof cases
    case state
    with inv pos show ?thesis by (force simp: reloc2_inv_def)
  next
    case rel
    with inv pos show ?thesis by (force simp: reloc2_inv_def sorted_wrt_append)
  qed
qed

lemma reloc2_loop_inv:
  "reloc2_loop cx st = Inr st' \<Longrightarrow> reloc2_inv cx st \<Longrightarrow> reloc2_inv cx st'"
proof (induction cx st rule: reloc2_loop.induct)
  case (1 cx st)
  show ?case
  proof (cases "sr_pos (rs_reader st) < sr_end (rs_reader st)")
    case True
    with 1 show ?thesis
      by (auto simp: reloc2_loop.simps [of cx st] bindE_Inr_iff dest: reloc2_step_inv)
  next
    case False
    with 1 show ?thesis by (simp add: reloc2_loop.simps [of cx st])
  qed
qed

lemma decode_prxreloc2_parts:
  assumes "decode_prxreloc2 data elf idx = Inr rels"
  obtains cx st st' where "reloc2_loop cx st = Inr st'" "rels = rs_relocations st'"
    "rs_relocations st = []" "rc_elf cx = elf" "rc_index cx = idx"
  using assms that by (auto simp: decode_prxreloc2_def Let_def bindE_Inr_iff split: if_splits)

text \<open>
  Property C12. Soundness of the Type-B decoder: every relocation that
  \<open>decode_prxreloc2\<close> returns names a source and a target program header that exist and are
  \<open>PT_LOAD\<close>, addresses a complete 32-bit word of the source segment's memory and has one of
  the eight normalized types; the relocations come in strictly increasing order of their
  position in the stream, and there are at most 1,000,000 of them.
\<close>

theorem decode_prxreloc2_sound:
  assumes "decode_prxreloc2 data elf idx = Inr rels"
  shows "list_all (reloc2_sound elf) rels \<and>
    sorted_wrt (<) (map stream_offset_of rels) \<and> blen rels \<le> 1000000"
proof -
  from assms obtain cx st st' where loop: "reloc2_loop cx st = Inr st'"
    and eqs: "rels = rs_relocations st'" "rs_relocations st = []" "rc_elf cx = elf"
    by (rule decode_prxreloc2_parts)
  have "reloc2_inv cx st" by (simp add: reloc2_inv_def eqs MAX_DECODED_RELOCATIONS_def)
  with loop have "reloc2_inv cx st'" by (rule reloc2_loop_inv)
  then show ?thesis
    by (auto simp: reloc2_inv_def eqs list_all_iff MAX_DECODED_RELOCATIONS_def)
qed

text \<open>
  A segment of eleven bytes: the header, a flag table, a type table and one command that
  relocates the word at offset 4 of the first segment.
\<close>

definition sample_load_segment :: program_header where
  "sample_load_segment = \<lparr> ph_index = 0, ph_type = 1, ph_offset = 0, ph_vaddr = 0, ph_paddr = 0,
     ph_filesz = 11, ph_memsz = 16, ph_flags = 7, ph_align = 16 \<rparr>"

definition sample_rel2_elf :: elf_image where
  "sample_rel2_elf = \<lparr>
     el_header = \<lparr> eh_file_type = 0xFFA0, eh_machine = 8, eh_version = 1, eh_entry = 0, eh_phoff = 0,
       eh_shoff = 0, eh_flags = 0, eh_ehsize = 0x34, eh_phentsize = 0x20, eh_phnum = 2,
       eh_shentsize = 0, eh_shnum = 0, eh_shstrndx = 0 \<rparr>,
     el_endianness = Little,
     el_program_headers =
       [sample_load_segment, sample_load_segment\<lparr>ph_index := 1, ph_type := 0x700000A1\<rparr>],
     el_sections = [],
     el_raw_data = [0, 0, 2, 2, 3, 0, 1, 2, 2, 0x8A, 0] \<rparr>"

definition sample_rel2 :: "int \<Rightarrow> relocation" where
  "sample_rel2 ty =
     \<lparr> re_section = ''PT_PRXRELOC2[1]'', re_offset = 4, re_info = ty, re_type = ty,
       re_type_name = ''R_MIPS_32'', re_symbol_index = 0, re_target_section_index = None,
       re_source = From_Rel2, re_source_segment_index = Some 0, re_target_segment_index = Some 0,
       re_stream_offset = Some 9, re_addend = Some 0, re_encoding_flags = Some 1 \<rparr>"

lemma sample_rel2_decodes:
  "decode_prxreloc2 (el_raw_data sample_rel2_elf) sample_rel2_elf 1 = Inr [sample_rel2 2]"
  by code_simp

theorem decode_prxreloc2_sound_witness:
  "list_all (reloc2_sound sample_rel2_elf) [sample_rel2 2] \<and>
   sorted_wrt (<) (map stream_offset_of [sample_rel2 2]) \<and> blen [sample_rel2 2] \<le> 1000000"
  by (rule decode_prxreloc2_sound [OF sample_rel2_decodes])

text \<open>The loop only stops at the end of the segment: no trailing byte is ignored.\<close>

lemma reloc2_loop_consumes_all:
  "reloc2_loop cx st = Inr st' \<Longrightarrow> sr_pos (rs_reader st) \<le> sr_end (rs_reader st) \<Longrightarrow>
     sr_pos (rs_reader st') = sr_end (rs_reader st)"
proof (induction cx st rule: reloc2_loop.induct)
  case (1 cx st)
  show ?case
  proof (cases "sr_pos (rs_reader st) < sr_end (rs_reader st)")
    case True
    with "1.prems" obtain x where x: "reloc2_step cx st = Inr x" "reloc2_loop cx x = Inr st'"
      by (auto simp: reloc2_loop.simps [of cx st] bindE_Inr_iff)
    with True "1.IH" [of x] reloc2_step_pos [OF x(1)] show ?thesis by simp
  next
    case False
    with 1 show ?thesis by (simp add: reloc2_loop.simps [of cx st])
  qed
qed

section \<open>Relocating a word\<close>

lemma mod_u32_low: "((x :: int) mod 4294967296) mod 65536 = x mod 65536"
  by (simp add: mod_mod_cancel)

lemma mod_u32_high: "((x :: int) mod 4294967296) div 65536 mod 65536 = x div 65536 mod 65536"
  using zmod_zmult2_eq [of 65536 x 65536] by (simp add: div_mult2_eq)

lemma mod_u32_jump: "((x :: int) mod 4294967296) mod 67108864 = x mod 67108864"
  by (simp add: mod_mod_cancel)

lemma mod_u32_opcode: "((x :: int) mod 4294967296) div 67108864 mod 64 = x div 67108864 mod 64"
  using zmod_zmult2_eq [of 64 x 67108864] by (simp add: div_mult2_eq)


lemma low_half_range:
  "0 \<le> ((w :: int) div 65536 mod 65536) * 65536 + x mod 65536"
  "((w :: int) div 65536 mod 65536) * 65536 + x mod 65536 < 4294967296"
proof -
  have "w div 65536 mod 65536 \<le> 65535" "x mod 65536 < 65536"
    using pos_mod_bound [of 65536 "w div 65536"] by simp_all
  then have "(w div 65536 mod 65536) * 65536 + x mod 65536 < 65536 * 65536" by linarith
  then show "((w :: int) div 65536 mod 65536) * 65536 + x mod 65536 < 4294967296" by simp
qed simp

lemma jump_range:
  "0 \<le> ((w :: int) div 67108864 mod 64) * 67108864 + x mod 67108864"
  "((w :: int) div 67108864 mod 64) * 67108864 + x mod 67108864 < 4294967296"
proof -
  have "w div 67108864 mod 64 \<le> 63" "x mod 67108864 < 67108864"
    using pos_mod_bound [of 64 "w div 67108864"] by simp_all
  then have "(w div 67108864 mod 64) * 67108864 + x mod 67108864 < 64 * 67108864" by linarith
  then show "((w :: int) div 67108864 mod 64) * 67108864 + x mod 67108864 < 4294967296" by simp
qed simp

lemma or_jump_opcode: "0 \<le> (f :: int) \<Longrightarrow> f < 67108864 \<Longrightarrow> 0x08000000 OR f = 0x08000000 + f"
  "0 \<le> (f :: int) \<Longrightarrow> f < 67108864 \<Longrightarrow> 0x0C000000 OR f = 0x0C000000 + f"
  using or_low_field [of f 26 2] or_low_field [of f 26 3] by (simp_all add: push_bit_eq_mult)

text \<open>The word each relocation type produces, as arithmetic.\<close>

lemma apply_word_32:
  "re_type rel = 2 \<Longrightarrow>
     apply_psp_relocation_word w rel b lo = Inr ((w + b) mod 4294967296)"
  by (simp add: apply_psp_relocation_word_def mask_simps mod_add_eq)

lemma apply_word_low:
  assumes "re_type rel \<in> {1, 6}"
  shows "apply_psp_relocation_word w rel b lo =
    Inr ((w div 65536 mod 65536) * 65536 + (w + b) mod 65536)"
proof -
  have low: "(w mod 65536 + b mod 4294967296) mod 65536 = (w + b) mod 65536"
    by (subst mod_add_left_eq, subst mod_add_right_eq [symmetric], subst mod_u32_low, subst mod_add_right_eq) simp
  have "re_type rel \<noteq> 0" "re_type rel \<noteq> 7" "re_type rel \<noteq> 2" using assms by auto
  then have "apply_psp_relocation_word w rel b lo =
      Inr ((w mod 4294967296 AND 0xFFFF0000) OR ((w mod 65536 + b mod 4294967296) mod 65536))"
    using assms
    by (simp only: apply_psp_relocation_word_def Let_def and_0xFFFFFFFF and_0xFFFF mod_u32_low if_True if_False insert_iff
      empty_iff simp_thms)
  also have "\<dots> = Inr ((w div 65536 mod 65536) * 65536 + (w + b) mod 65536)"
    by (subst replace_low_half) (simp, simp, simp only: mod_u32_high low)
  finally show ?thesis .
qed

lemma apply_word_26:
  assumes "re_type rel = 4"
  shows "apply_psp_relocation_word w rel b lo =
    Inr ((w div 67108864 mod 64) * 67108864 + (w + b mod 4294967296 div 4) mod 67108864)"
proof -
  let ?f = "(w mod 67108864 + b mod 4294967296 div 4) mod 67108864"
  have f: "?f = (w + b mod 4294967296 div 4) mod 67108864"
    by (rule mod_add_left_eq)
  have d: "drop_bit 2 (b mod 4294967296) = b mod 4294967296 div 4"
    by (simp add: drop_bit_eq_div)
  have "apply_psp_relocation_word w rel b lo = Inr ((w mod 4294967296 AND 0xFC000000) OR ?f)"
    using assms by (simp only: apply_psp_relocation_word_def Let_def and_0xFFFFFFFF and_0x03FFFFFF d mod_u32_jump) simp
  also have "(w mod 4294967296 AND 0xFC000000) OR ?f = (w div 67108864 mod 64) * 67108864 + ?f"
    by (subst replace_jump_field) (simp_all add: mod_u32_opcode del: mod_add_left_eq)
  finally show ?thesis by (simp only: f)
qed

lemma apply_word_link:
  "re_type rel = 14 \<Longrightarrow> apply_psp_relocation_word w rel b lo =
     Inr (0x08000000 + (w + b mod 4294967296 div 4) mod 67108864)"
  "re_type rel = 15 \<Longrightarrow> apply_psp_relocation_word w rel b lo =
     Inr (0x0C000000 + (w + b mod 4294967296 div 4) mod 67108864)"
proof -
  let ?f = "(w mod 67108864 + b mod 4294967296 div 4) mod 67108864"
  have f: "?f = (w + b mod 4294967296 div 4) mod 67108864"
    by (rule mod_add_left_eq)
  have d: "drop_bit 2 (b mod 4294967296) = b mod 4294967296 div 4"
    by (simp add: drop_bit_eq_div)
  show "re_type rel = 14 \<Longrightarrow> apply_psp_relocation_word w rel b lo =
     Inr (0x08000000 + (w + b mod 4294967296 div 4) mod 67108864)"
    by (simp only: apply_psp_relocation_word_def Let_def and_0xFFFFFFFF and_0x03FFFFFF d mod_u32_jump f)
      (simp add: or_jump_opcode)
  show "re_type rel = 15 \<Longrightarrow> apply_psp_relocation_word w rel b lo =
     Inr (0x0C000000 + (w + b mod 4294967296 div 4) mod 67108864)"
    by (simp only: apply_psp_relocation_word_def Let_def and_0xFFFFFFFF and_0x03FFFFFF d mod_u32_jump f)
      (simp add: or_jump_opcode)
qed

lemma apply_word_hi:
  fixes w b low :: int
  defines "A \<equiv> (w mod 65536) * 65536 + low + b"
  assumes "re_type rel = 5" "(case lo of Some l \<Rightarrow> Some l | None \<Rightarrow> re_addend rel) = Some low"
  shows "apply_psp_relocation_word w rel b lo =
    Inr ((w div 65536 mod 65536) * 65536 +
         (A + (if 32768 \<le> A mod 65536 then 65536 else 0)) div 65536 mod 65536)"
proof -
  let ?a = "A mod 4294967296"
  let ?c = "if 32768 \<le> A mod 65536 then 65536 else 0 :: int"
  have a: "(push_bit 16 (w mod 4294967296 mod 65536) + low + b mod 4294967296) mod 4294967296 = ?a"
    by (simp only: A_def shl_mult mod_u32_low mod_add_right_eq) simp
  have c: "(if ?a AND 0x8000 \<noteq> 0 then (?a + 0x10000) mod 4294967296 else ?a) = (A + ?c) mod 4294967296"
    by (simp only: and_0x8000_mod mod_u32_low) (simp add: mod_add_left_eq)
  have h: "drop_bit 16 ((A + ?c) mod 4294967296) mod 65536 = (A + ?c) div 65536 mod 65536"
  proof -
    have "(2 :: int) ^ 16 = 65536" by simp
    then show ?thesis by (simp only: drop_bit_eq_div mod_u32_high)
  qed
  have "apply_psp_relocation_word w rel b lo =
    Inr ((w mod 4294967296 AND 0xFFFF0000) OR ((A + ?c) div 65536 mod 65536))"
    using assms(2,3)
    by (simp only: apply_psp_relocation_word_def Let_def and_0xFFFFFFFF and_0xFFFF a c h option.case) simp
  also have "(w mod 4294967296 AND 0xFFFF0000) OR ((A + ?c) div 65536 mod 65536) =
      (w div 65536 mod 65536) * 65536 + (A + ?c) div 65536 mod 65536"
    by (subst replace_low_half) (simp, simp, simp only: mod_u32_high)
  finally show ?thesis .
qed

lemma apply_word_id: "re_type rel \<in> {0, 7} \<Longrightarrow> apply_psp_relocation_word w rel b lo = Inr (w mod 4294967296)"
  by (auto simp: apply_psp_relocation_word_def and_0xFFFFFFFF)

lemmas apply_word_eqs = apply_word_32 apply_word_low apply_word_26 apply_word_link apply_word_hi apply_word_id

lemma apply_word_range:
  assumes "apply_psp_relocation_word w rel b lo = Inr w'"
  shows "0 \<le> w' \<and> w' < 4294967296"
proof -
  from assms have "re_type rel \<in> {0, 1, 2, 4, 5, 6, 7, 14, 15}"
    by (auto simp: apply_psp_relocation_word_def Let_def split: if_splits)
  then consider "re_type rel \<in> {0, 7}" | "re_type rel = 2" | "re_type rel \<in> {1, 6}" | "re_type rel = 4"
    | "re_type rel = 14" | "re_type rel = 15" | "re_type rel = 5" by blast
  then show ?thesis
  proof cases
    case 3 with assms show ?thesis by (auto simp only: apply_word_low low_half_range sum.inject)
  next
    case 4 with assms show ?thesis by (auto simp only: apply_word_26 jump_range sum.inject)
  next
    case 5
    have "(w + b mod 4294967296 div 4) mod 67108864 < 67108864" by simp
    with assms 5 show ?thesis by (auto simp only: apply_word_link sum.inject)
  next
    case 6
    have "(w + b mod 4294967296 div 4) mod 67108864 < 67108864" by simp
    with assms 6 show ?thesis by (auto simp only: apply_word_link sum.inject)
  next
    case 7
    with assms obtain low where "(case lo of Some l \<Rightarrow> Some l | None \<Rightarrow> re_addend rel) = Some low"
      by (auto simp: apply_psp_relocation_word_def Let_def split: option.splits)
    with assms 7 show ?thesis by (auto simp only: apply_word_hi low_half_range sum.inject)
  qed (use assms in \<open>auto simp: apply_word_id apply_word_32\<close>)
qed

section \<open>Relocation as an action\<close>

lemma low_half_again:
  "(((w :: int) div 65536 mod 65536) * 65536 + (w + b) mod 65536) div 65536 mod 65536 = w div 65536 mod 65536"
  "(((w :: int) div 65536 mod 65536) * 65536 + (w + b) mod 65536 + c) mod 65536 = (w + (b + c)) mod 65536"
proof -
  show "((w div 65536 mod 65536) * 65536 + (w + b) mod 65536) div 65536 mod 65536 = w div 65536 mod 65536"
    by simp
  have "((w div 65536 mod 65536) * 65536 + (w + b) mod 65536 + c) mod 65536
      = ((w + b) mod 65536 + c + (w div 65536 mod 65536) * 65536) mod 65536" by (simp only: add.commute add.left_commute add.assoc)
  also have "\<dots> = ((w + b) mod 65536 + c) mod 65536" by (rule mod_mult_self1)
  also have "\<dots> = (w + b + c) mod 65536" by (rule mod_add_left_eq)
  finally show "((w div 65536 mod 65536) * 65536 + (w + b) mod 65536 + c) mod 65536 = (w + (b + c)) mod 65536"
    by (simp only: add.assoc)
qed

lemma div4_u32_add:
  assumes "4 dvd (a :: int)" "4 dvd b"
  shows "(x + a mod 4294967296 div 4 + b mod 4294967296 div 4) mod 67108864 = (x + (a + b) mod 4294967296 div 4) mod 67108864"
proof -
  obtain p q where pq: "a = 4 * p" "b = 4 * q" using assms by (auto elim!: dvdE)
  have e: "(4 * p) mod 4294967296 div 4 = p mod 1073741824" for p :: int
    using mult_mod_right [of 4 p 1073741824] by simp
  have m: "(y + p mod 1073741824) mod 67108864 = (y + p) mod 67108864" for y p :: int
    by (subst mod_add_right_eq [symmetric], subst mod_mod_cancel) (simp, rule mod_add_right_eq)
  have "(x + p mod 1073741824 + q mod 1073741824) mod 67108864 = (x + p mod 1073741824 + q) mod 67108864"
    by (rule m)
  also have "\<dots> = (x + q + p mod 1073741824) mod 67108864" by (simp only: add.commute add.left_commute add.assoc)
  also have "\<dots> = (x + q + p) mod 67108864" by (rule m)
  also have "\<dots> = (x + (p + q)) mod 67108864" by (simp only: add.commute add.left_commute add.assoc)
  also have "\<dots> = (x + (p + q) mod 1073741824) mod 67108864" by (rule m [symmetric])
  finally show ?thesis by (simp only: pq distrib_left [symmetric] e)
qed

lemma jump_again:
  "((w div 67108864 mod 64) * 67108864 + (w + x) mod 67108864) div 67108864 mod 64 = w div 67108864 mod (64 :: int)"
  by simp

lemma jump_field_again:
  "((w div 67108864 mod 64) * 67108864 + (w + x) mod 67108864 + y) mod 67108864 = (w + x + y) mod (67108864 :: int)"
proof -
  have "((w div 67108864 mod 64) * 67108864 + (w + x) mod 67108864 + y) mod 67108864
      = ((w + x) mod 67108864 + y + (w div 67108864 mod 64) * 67108864) mod 67108864" by (simp only: add.commute add.left_commute add.assoc)
  also have "\<dots> = ((w + x) mod 67108864 + y) mod 67108864" by (rule mod_mult_self1)
  also have "\<dots> = (w + x + y) mod 67108864" by (rule mod_add_left_eq)
  finally show ?thesis .
qed

text \<open>
  Relocating a word whose type is \<open>R_MIPS_16\<close>, \<open>R_MIPS_32\<close> or \<open>R_MIPS_LO16\<close>
  (or \<open>R_MIPS_26\<close>, when the bases are word-aligned addresses) by one base and then by another
  is relocating it once by their sum: rebasing twice and rebasing once agree, wrap-around
  included.
\<close>

theorem apply_psp_relocation_word_action:
  assumes "re_type rel \<in> {1, 2, 6} \<or> (re_type rel = 4 \<and> 4 dvd b1 \<and> 4 dvd b2)"
  shows "bindE (apply_psp_relocation_word w rel b1 lo) (\<lambda>w'. apply_psp_relocation_word w' rel b2 lo')
    = apply_psp_relocation_word w rel (b1 + b2) lo"
proof -
  from assms consider "re_type rel = 2" | "re_type rel \<in> {1, 6}" | "re_type rel = 4" "4 dvd b1" "4 dvd b2"
    by blast
  then show ?thesis
  proof cases
    case 1 then show ?thesis by (simp add: apply_word_32 mod_add_left_eq add.assoc)
  next
    case 2 then show ?thesis by (simp only: apply_word_low bindE_simps low_half_again)
  next
    case 3 then show ?thesis
      by (simp only: apply_word_26 bindE_simps jump_again jump_field_again div4_u32_add)
  qed
qed

theorem apply_psp_relocation_word_action_witness:
  "bindE (apply_psp_relocation_word 0x0C000004 (sample_rel2 4) 0x08804000 None)
     (\<lambda>w'. apply_psp_relocation_word w' (sample_rel2 4) 0x100 None)
   = apply_psp_relocation_word 0x0C000004 (sample_rel2 4) 0x08804100 None"
  using apply_psp_relocation_word_action [of "sample_rel2 4" "0x08804000" "0x100" "0x0C000004" None None]
  by (simp add: sample_rel2_def)

section \<open>A high and a low half make an address\<close>

text \<open>The address \<open>(hi << 16) + sext(lo)\<close> that a \<open>lui\<close> and an \<open>addiu\<close> build.\<close>

definition hi_lo_address :: "int \<Rightarrow> int \<Rightarrow> int" where
  "hi_lo_address wh wl = (push_bit 16 (wh AND 0xFFFF) + signed_u16 (wl AND 0xFFFF)) AND 0xFFFFFFFF"

lemma signed_u16_low: "signed_u16 (wl AND 0xFFFF) = (if 32768 \<le> wl mod 65536 then wl mod 65536 - 65536 else wl mod 65536)"
  by (simp add: signed_u16_def and_0xFFFF and_0x8000_mod)

lemma hi_lo_address_eq: "hi_lo_address wh wl = ((wh mod 65536) * 65536 +
    (if 32768 \<le> wl mod 65536 then wl mod 65536 - 65536 else wl mod 65536)) mod 4294967296"
  by (simp only: hi_lo_address_def signed_u16_low and_0xFFFF [of wh] and_0xFFFFFFFF shl_mult) simp

lemma hi_carry:
  fixes A :: int
  shows "((A + (if 32768 \<le> A mod 65536 then 65536 else 0)) div 65536 mod 65536 * 65536
     + (if 32768 \<le> A mod 65536 then A mod 65536 - 65536 else A mod 65536)) mod 4294967296 = A mod 4294967296"
proof -
  have split: "A mod 4294967296 = 65536 * (A div 65536 mod 65536) + A mod 65536"
    using zmod_zmult2_eq [of 65536 A 65536] by simp
  show ?thesis
  proof (cases "32768 \<le> A mod 65536")
    case True
    have "((A div 65536 + 1) mod 65536 * 65536 + (A mod 65536 - 65536)) mod 4294967296
        = ((A div 65536 + 1) * 65536 + (A mod 65536 - 65536)) mod 4294967296"
      by (subst mod_add_left_eq [symmetric], subst mult_mod_left [of _ 65536 65536, simplified], simp add: mod_add_left_eq)
    also have "(A div 65536 + 1) * 65536 + (A mod 65536 - 65536) = A"
      by (simp add: algebra_simps)
    finally show ?thesis using True by simp
  next
    case False
    have "(A div 65536 mod 65536 * 65536 + A mod 65536) = A mod 4294967296"
      by (simp add: split)
    with False show ?thesis by simp
  qed
qed

text \<open>
  A \<open>HI16\<close>/\<open>LO16\<close> pair is relocated as one 32-bit address: patching the high word
  with the sign-extended low half of its companion, and patching the companion, yields two
  words whose combined address is the old combined address plus the base, modulo \<open>2^32\<close>; the
  opcode halves of both words are kept.
\<close>

theorem hi16_lo16_pair_relocates_address:
  assumes "re_type hi = 5" "re_type lo = 6"
  shows "\<exists>wh' wl'.
    apply_psp_relocation_word wh hi b (Some (signed_u16 (wl AND 0xFFFF))) = Inr wh' \<and>
    apply_psp_relocation_word wl lo b lx = Inr wl' \<and>
    hi_lo_address wh' wl' = (hi_lo_address wh wl + b) mod 4294967296 \<and>
    wh' div 65536 = wh div 65536 mod 65536 \<and> wl' div 65536 = wl div 65536 mod 65536"
proof -
  let ?s = "signed_u16 (wl AND 0xFFFF)"
  let ?A = "(wh mod 65536) * 65536 + ?s + b"
  let ?H = "(?A + (if 32768 \<le> ?A mod 65536 then 65536 else 0)) div 65536 mod 65536"
  let ?wh = "(wh div 65536 mod 65536) * 65536 + ?H"
  let ?wl = "(wl div 65536 mod 65536) * 65536 + (wl + b) mod 65536"
  have hi: "apply_psp_relocation_word wh hi b (Some ?s) = Inr ?wh"
    by (rule apply_word_hi [OF assms(1)]) simp
  have lo: "apply_psp_relocation_word wl lo b lx = Inr ?wl"
    by (rule apply_word_low) (simp add: assms)
  have A: "?A mod 65536 = (wl + b) mod 65536"
  proof -
    have "?s mod 65536 = wl mod 65536"
      by (simp add: signed_u16_low)
    then have "(?s + b) mod 65536 = (wl + b) mod 65536" by (metis mod_add_left_eq)
    then show ?thesis by (simp add: add.assoc)
  qed
  have low: "(k * 65536 + h mod 65536) mod 65536 = h mod 65536" for k h :: int
    by simp
  have addr: "hi_lo_address ?wh ?wl = ?A mod 4294967296"
  proof -
    have "hi_lo_address ?wh ?wl = (?H * 65536 + (if 32768 \<le> ?A mod 65536 then ?A mod 65536 - 65536 else ?A mod 65536)) mod 4294967296"
      proof -
      have "?wh mod 65536 = ?H" "?wl mod 65536 = ?A mod 65536" by (simp_all only: A low)
      then show ?thesis
        by (simp only: hi_lo_address_eq)
    qed
    then show ?thesis by (simp only: hi_carry)
  qed
  have shl: "push_bit 16 (wh AND 0xFFFF) = (wh mod 65536) * 65536"
    by (simp add: and_0xFFFF shl_mult)
  have rhs: "(hi_lo_address wh wl + b) mod 4294967296 = ?A mod 4294967296"
    by (simp only: hi_lo_address_def shl and_0xFFFFFFFF mod_add_left_eq)
  have opc: "(k mod 65536 * 65536 + h mod 65536) div 65536 = k mod 65536" for k h :: int
    by simp
  show ?thesis
    by (intro exI [of _ ?wh] exI [of _ ?wl] conjI hi lo opc) (simp only: addr rhs)
qed
theorem hi16_lo16_pair_relocates_address_witness:
  "\<exists>wh' wl'.
    apply_psp_relocation_word 0x3C040001 (sample_rel2 5) 0x08804000 (Some (signed_u16 (0x24848000 AND 0xFFFF))) = Inr wh' \<and>
    apply_psp_relocation_word 0x24848000 (sample_rel2 6) 0x08804000 None = Inr wl' \<and>
    hi_lo_address wh' wl' = (hi_lo_address 0x3C040001 0x24848000 + 0x08804000) mod 4294967296 \<and>
    wh' div 65536 = 0x3C040001 div 65536 mod 65536 \<and> wl' div 65536 = 0x24848000 div 65536 mod 65536"
  by (rule hi16_lo16_pair_relocates_address) (simp_all add: sample_rel2_def)

end
