(* ===== verification/Prx.thy ===== *)
theory Prx
  imports Prx_Reloc2
begin

text \<open>
  \<open>prx.py\<close>: the module info of a PSP module, its export and import tables, and the relocations
  of its sections and program headers. A \<open>ParseError\<close> that the code catches is a value of
  \<open>prx_error\<close> inside the warning that records it; the one exception that is not caught, the
  \<open>struct.error\<close> of an unpack past the end, is \<open>None\<close>.
\<close>

definition ET_SCE_PSPRELEXEC :: int where "ET_SCE_PSPRELEXEC = 0xFFA0"
definition SHT_REL :: int where "SHT_REL = 9"
definition SHT_PRXRELOC :: int where "SHT_PRXRELOC = 0x700000A0"
definition PT_PRXRELOC :: int where "PT_PRXRELOC = 0x700000A0"
definition MODULE_INFO_SECTION :: string where "MODULE_INFO_SECTION = ''.rodata.sceModuleInfo''"
definition MODULE_INFO_SIZE :: int where "MODULE_INFO_SIZE = 0x34"

datatype prx_subject =
    Export_Library | Export_Library_Name | Export_Function_Nid | Export_Function_Address
  | Export_Variable_Nid | Export_Variable_Address
  | Import_Library | Import_Library_Name | Import_Variable_Table | Import_Function_Nid
  | Import_Variable_Address | Import_Variable_Nid

datatype prx_error = Invalid_Vaddr prx_subject int | Module_Info_Past_End

datatype prx_warning =
    Module_Info_Error prx_error
  | No_Module_Info
  | Fallback_Unmapped int
  | Export_Entry_Length int int
  | Export_Past_End int
  | Export_Stopped int prx_error
  | Import_Entry_Length int int
  | Import_Past_End int
  | Import_No_Name int
  | Import_Variables_Without_Table string int
  | Import_Stopped int prx_error
  | Reloc_Section_Size string int
  | Prxreloc_Size
  | Prxreloc2_Error int reloc2_error

definition reloc_type_name :: "int \<Rightarrow> string" where
  "reloc_type_name ty =
     (case map_of
        [(0, ''R_MIPS_NONE''), (1, ''R_MIPS_16''), (2, ''R_MIPS_32''), (3, ''R_MIPS_REL32''),
         (4, ''R_MIPS_26''), (5, ''R_MIPS_HI16''), (6, ''R_MIPS_LO16''), (7, ''R_MIPS_GPREL16''),
         (8, ''R_MIPS_LITERAL''), (9, ''R_MIPS_GOT16''), (10, ''R_MIPS_PC16''),
         (11, ''R_MIPS_CALL16''), (12, ''R_MIPS_GPREL32''), (13, ''R_MIPS_X_HI16''),
         (14, ''R_MIPS_X_J26''), (15, ''R_MIPS_X_JAL26'')] ty of
        Some nm \<Rightarrow> nm | None \<Rightarrow> ''R_MIPS_'' @ dec_str ty)"

section \<open>Reading at virtual addresses\<close>

definition read_at_vaddr ::
    "bytes \<Rightarrow> elf_image \<Rightarrow> int \<Rightarrow> int \<Rightarrow> prx_subject \<Rightarrow> (prx_error, bytes) result" where
  "read_at_vaddr data elf a sz what =
     (case vaddr_to_offset elf a of
        None \<Rightarrow> Inl (Invalid_Vaddr what a)
      | Some off \<Rightarrow>
          if off < 0 \<or> sz < 0 \<or> off > blen data \<or> sz > blen data - off
          then Inl (Invalid_Vaddr what a) else Inr (py_slice data off (off + sz)))"

definition u32_at_vaddr ::
    "bytes \<Rightarrow> elf_image \<Rightarrow> int \<Rightarrow> prx_subject \<Rightarrow> (prx_error, int) result" where
  "u32_at_vaddr data elf a what =
     bindE (read_at_vaddr data elf a 4 what) (\<lambda>raw. Inr (read_int (el_endianness elf) raw 0 4))"

definition cstring_at_vaddr ::
    "bytes \<Rightarrow> elf_image \<Rightarrow> int \<Rightarrow> prx_subject \<Rightarrow> (prx_error, string) result" where
  "cstring_at_vaddr data elf a what =
     (case vaddr_to_offset elf a of
        None \<Rightarrow> Inl (Invalid_Vaddr what a)
      | Some off \<Rightarrow>
          let end_limit = min (blen data) (off + 128);
              e = find_byte data 0 off end_limit;
              e' = (if e < 0 then end_limit else e)
          in Inr (ascii_replace (py_slice data off e')))"

section \<open>Module info\<close>

text \<open>
  \<open>_parse_module_info_at\<close>: the check covers the \<open>0x34\<close> bytes that the unpacks read.
\<close>

definition parse_module_info_at ::
    "bytes \<Rightarrow> elf_image \<Rightarrow> int \<Rightarrow> int \<Rightarrow> module_location \<Rightarrow> (prx_error, module_info) result" where
  "parse_module_info_at data elf off a location =
     (if off < 0 \<or> off + MODULE_INFO_SIZE > blen data then Inl Module_Info_Past_End
      else let e = el_endianness elf in Inr
        \<lparr> mi_attributes = read_int e data off 2,
          mi_version = (read_int e data (off + 3) 1, read_int e data (off + 2) 1),
          mi_name = ascii_replace (before_nul (py_slice data (off + 4) (off + 0x20))),
          mi_gp_value = read_int e data (off + 0x20) 4,
          mi_exports_start = read_int e data (off + 0x24) 4,
          mi_exports_end = read_int e data (off + 0x28) 4,
          mi_imports_start = read_int e data (off + 0x2C) 4,
          mi_imports_end = read_int e data (off + 0x30) 4,
          mi_address = a,
          mi_location = location \<rparr>)"

definition module_info_or_warning ::
    "(prx_error, module_info) result \<Rightarrow> module_info option \<times> prx_warning list" where
  "module_info_or_warning r =
     (case r of Inl e \<Rightarrow> (None, [Module_Info_Error e]) | Inr m \<Rightarrow> (Some m, []))"

definition find_module_info :: "bytes \<Rightarrow> elf_image \<Rightarrow> module_info option \<times> prx_warning list" where
  "find_module_info data elf =
     (case find (\<lambda>s. se_name s = MODULE_INFO_SECTION) (el_sections elf) of
        Some s \<Rightarrow>
          module_info_or_warning (parse_module_info_at data elf (se_offset s) (se_addr s) Named_Section)
      | None \<Rightarrow>
          (case find (\<lambda>ph. ph_type ph = PT_LOAD) (el_program_headers elf) of
             None \<Rightarrow> (None, [No_Module_Info])
           | Some first_load \<Rightarrow>
               let a = (ph_paddr first_load AND 0x7FFFFFFF) - ph_offset first_load in
               (case vaddr_to_offset elf a of
                  None \<Rightarrow> (None, [Fallback_Unmapped a])
                | Some off \<Rightarrow>
                    module_info_or_warning (parse_module_info_at data elf off a Program_Header_Fallback))))"

section \<open>Export and import tables\<close>

text \<open>
  One turn of a table walk: stop with a warning, or go on with a library and the warnings it
  caused. A \<open>ParseError\<close> ends the walk with the warning that quotes it.
\<close>

datatype walk_turn = Stop_Walk prx_warning | Next_Library library "prx_warning list"

definition nid_entry_of :: "int \<Rightarrow> int \<Rightarrow> nid_kind \<Rightarrow> int \<Rightarrow> nid_entry" where
  "nid_entry_of nid a k nid_address =
     \<lparr> ne_nid = nid, ne_address = a, ne_kind = k, ne_nid_address = nid_address \<rparr>"

text \<open>\<open>entry_length\<close>, \<open>var_count\<close> and \<open>func_count\<close> are packed into one word.\<close>

definition entry_length_of :: "int \<Rightarrow> int" where "entry_length_of counts = counts AND 0xFF"
definition var_count_of :: "int \<Rightarrow> int" where "var_count_of counts = drop_bit 8 counts AND 0xFF"
definition func_count_of :: "int \<Rightarrow> int" where "func_count_of counts = drop_bit 16 counts AND 0xFFFF"

definition export_entry ::
    "bytes \<Rightarrow> elf_image \<Rightarrow> nid_kind \<Rightarrow> int \<Rightarrow> int \<Rightarrow> nat \<Rightarrow> (prx_error, nid_entry) result" where
  "export_entry data elf k exports_ptr n_total index =
     (let nid_address = exports_ptr + int index * 4 in
      bindE (u32_at_vaddr data elf nid_address
               (case k of Function \<Rightarrow> Export_Function_Nid | Variable \<Rightarrow> Export_Variable_Nid)) (\<lambda>nid.
      bindE (u32_at_vaddr data elf (exports_ptr + (n_total + int index) * 4)
               (case k of Function \<Rightarrow> Export_Function_Address | Variable \<Rightarrow> Export_Variable_Address)) (\<lambda>a.
      Inr (nid_entry_of nid a k nid_address))))"

definition export_turn :: "bytes \<Rightarrow> elf_image \<Rightarrow> int \<Rightarrow> int \<Rightarrow> (prx_error, walk_turn) result" where
  "export_turn data elf table_end cursor =
     bindE (read_at_vaddr data elf cursor 16 Export_Library) (\<lambda>raw.
     let v = u32_fields (el_endianness elf) raw 4;
         name_ptr = v ! 0; flags = v ! 1; counts = v ! 2; exports_ptr = v ! 3;
         entry_length = entry_length_of counts; var_count = var_count_of counts;
         func_count = func_count_of counts in
     if entry_length < 4 then Inr (Stop_Walk (Export_Entry_Length entry_length cursor))
     else if cursor + entry_length * 4 > table_end then Inr (Stop_Walk (Export_Past_End cursor))
     else
       bindE (if name_ptr = 0 then Inr ''syslib''
              else cstring_at_vaddr data elf name_ptr Export_Library_Name) (\<lambda>name.
       let n_total = func_count + var_count in
       bindE (mapE (export_entry data elf Function exports_ptr n_total) [0..<nat func_count]) (\<lambda>functions.
       bindE (mapE (export_entry data elf Variable exports_ptr n_total)
                [nat func_count..<nat func_count + nat var_count]) (\<lambda>variables.
       Inr (Next_Library
         \<lparr> li_name = name, li_flags = flags, li_entry_length = entry_length,
           li_function_count = func_count, li_variable_count = var_count, li_address = cursor,
           li_functions = functions, li_variables = variables \<rparr> [])))))"

definition import_function ::
    "bytes \<Rightarrow> elf_image \<Rightarrow> int \<Rightarrow> int \<Rightarrow> nat \<Rightarrow> (prx_error, nid_entry) result" where
  "import_function data elf nids_ptr funcs_ptr i =
     (let nid_address = nids_ptr + int i * 4 in
      bindE (u32_at_vaddr data elf nid_address Import_Function_Nid) (\<lambda>nid.
      Inr (nid_entry_of nid (funcs_ptr + int i * 8) Function nid_address)))"

definition import_variable ::
    "bytes \<Rightarrow> elf_image \<Rightarrow> int \<Rightarrow> nat \<Rightarrow> (prx_error, nid_entry) result" where
  "import_variable data elf vars_ptr i =
     (let pair = vars_ptr + int i * 8 in
      bindE (u32_at_vaddr data elf pair Import_Variable_Address) (\<lambda>a.
      bindE (u32_at_vaddr data elf (pair + 4) Import_Variable_Nid) (\<lambda>nid.
      Inr (nid_entry_of nid a Variable (pair + 4)))))"

definition import_turn :: "bytes \<Rightarrow> elf_image \<Rightarrow> int \<Rightarrow> int \<Rightarrow> (prx_error, walk_turn) result" where
  "import_turn data elf table_end cursor =
     bindE (read_at_vaddr data elf cursor 20 Import_Library) (\<lambda>raw.
     let v = u32_fields (el_endianness elf) raw 5;
         name_ptr = v ! 0; flags = v ! 1; counts = v ! 2; nids_ptr = v ! 3; funcs_ptr = v ! 4;
         entry_length = entry_length_of counts; var_count = var_count_of counts;
         func_count = func_count_of counts in
     if entry_length < 5 then Inr (Stop_Walk (Import_Entry_Length entry_length cursor))
     else if cursor + entry_length * 4 > table_end then Inr (Stop_Walk (Import_Past_End cursor))
     else
       bindE (if entry_length \<ge> 6 then u32_at_vaddr data elf (cursor + 20) Import_Variable_Table
              else Inr 0) (\<lambda>vars_ptr.
       if name_ptr = 0 then Inr (Stop_Walk (Import_No_Name cursor)) else
       bindE (cstring_at_vaddr data elf name_ptr Import_Library_Name) (\<lambda>name.
       bindE (mapE (import_function data elf nids_ptr funcs_ptr) [0..<nat func_count]) (\<lambda>functions.
       bindE (if vars_ptr \<noteq> 0 then mapE (import_variable data elf vars_ptr) [0..<nat var_count]
              else Inr []) (\<lambda>variables.
       Inr (Next_Library
         \<lparr> li_name = name, li_flags = flags, li_entry_length = entry_length,
           li_function_count = func_count, li_variable_count = var_count, li_address = cursor,
           li_functions = functions, li_variables = variables \<rparr>
         (if var_count \<noteq> 0 \<and> vars_ptr = 0
          then [Import_Variables_Without_Table name var_count] else [])))))))"

text \<open>
  The walk itself, shared by both tables: \<open>cursor\<close> moves by the entry's own length, which is at
  least one word here, until it reaches the end of the table or is zero.
\<close>

function walk_table ::
    "(int \<Rightarrow> (prx_error, walk_turn) result) \<Rightarrow> (int \<Rightarrow> prx_error \<Rightarrow> prx_warning) \<Rightarrow> int \<Rightarrow> int \<Rightarrow>
       library list \<times> prx_warning list" where
  "walk_table turn stopped table_end cursor =
     (if cursor \<noteq> 0 \<and> cursor < table_end then
        (case turn cursor of
           Inl e \<Rightarrow> ([], [stopped cursor e])
         | Inr (Stop_Walk w) \<Rightarrow> ([], [w])
         | Inr (Next_Library lib ws) \<Rightarrow>
             if 0 < li_entry_length lib then
               (let (libs, ws') = walk_table turn stopped table_end (cursor + li_entry_length lib * 4)
                in (lib # libs, ws @ ws'))
             else ([lib], ws))
      else ([], []))"
  by pat_completeness auto
termination
  by (relation "measure (\<lambda>(turn, stopped, table_end, cursor). nat (table_end - cursor))") auto

declare walk_table.simps [simp del]

definition walk_exports ::
    "bytes \<Rightarrow> elf_image \<Rightarrow> module_info \<Rightarrow> library list \<times> prx_warning list" where
  "walk_exports data elf m =
     walk_table (export_turn data elf (mi_exports_end m)) Export_Stopped (mi_exports_end m) (mi_exports_start m)"

definition walk_imports ::
    "bytes \<Rightarrow> elf_image \<Rightarrow> module_info \<Rightarrow> library list \<times> prx_warning list" where
  "walk_imports data elf m =
     walk_table (import_turn data elf (mi_imports_end m)) Import_Stopped (mi_imports_end m) (mi_imports_start m)"

section \<open>Relocations\<close>

definition type_a_relocation ::
    "elf_image \<Rightarrow> bytes \<Rightarrow> int \<Rightarrow> string \<Rightarrow> int option \<Rightarrow> reloc_source \<Rightarrow> nat \<Rightarrow> (unit, relocation) result" where
  "type_a_relocation elf data table name target source i =
     (case unpack_from data (table + int i * 8) 8 of
        None \<Rightarrow> Inl ()
      | Some raw \<Rightarrow>
          let v = u32_fields (el_endianness elf) raw 2; info = v ! 1; ty = info AND 0xFF
          in Inr \<lparr> re_section = name, re_offset = v ! 0, re_info = info, re_type = ty,
               re_type_name = reloc_type_name ty, re_symbol_index = drop_bit 8 info,
               re_target_section_index = target, re_source = source,
               re_source_segment_index = None, re_target_segment_index = None,
               re_stream_offset = None, re_addend = None, re_encoding_flags = None \<rparr>)"

definition is_reloc_section :: "elf_section \<Rightarrow> bool" where
  "is_reloc_section s = (se_type s \<in> {SHT_REL, SHT_PRXRELOC})"

definition section_relocations ::
    "bytes \<Rightarrow> elf_image \<Rightarrow> elf_section \<Rightarrow> (unit, relocation list \<times> prx_warning list) result" where
  "section_relocations data elf s =
     (if is_reloc_section s then
        bindE (mapE (type_a_relocation elf data (se_offset s) (se_name s)
                 (if se_info s < blen (el_sections elf) then Some (se_info s) else None) From_Section)
               [0..<nat (se_size s div 8)]) (\<lambda>rels.
        Inr (rels, if se_size s mod 8 \<noteq> 0 then [Reloc_Section_Size (se_name s) (se_index s)] else []))
      else Inr ([], []))"

definition section_ranges :: "elf_image \<Rightarrow> (int \<times> int) list" where
  "section_ranges elf = map (\<lambda>s. (se_offset s, se_size s)) (filter is_reloc_section (el_sections elf))"

definition header_relocations ::
    "bytes \<Rightarrow> elf_image \<Rightarrow> program_header \<Rightarrow> (unit, relocation list \<times> prx_warning list) result" where
  "header_relocations data elf ph =
     (if ph_type ph = PT_PRXRELOC \<and> (ph_offset ph, ph_filesz ph) \<notin> set (section_ranges elf) then
        bindE (mapE (type_a_relocation elf data (ph_offset ph) [] None From_Program_Header)
               [0..<nat (ph_filesz ph div 8)]) (\<lambda>rels.
        Inr (rels, if ph_filesz ph mod 8 \<noteq> 0 then [Prxreloc_Size] else []))
      else if ph_type ph = PT_PRXRELOC2 then
        (case decode_prxreloc2 data elf (ph_index ph) of
           Inl e \<Rightarrow> Inr ([], [Prxreloc2_Error (ph_index ph) e])
         | Inr rels \<Rightarrow> Inr (rels, []))
      else Inr ([], []))"

definition parse_relocations ::
    "bytes \<Rightarrow> elf_image \<Rightarrow> (unit, relocation list \<times> prx_warning list) result" where
  "parse_relocations data elf =
     bindE (mapE (section_relocations data elf) (el_sections elf)) (\<lambda>a.
     bindE (mapE (header_relocations data elf) (el_program_headers elf)) (\<lambda>b.
     Inr (concat (map fst (a @ b)), concat (map snd (a @ b)))))"

definition analyze_prx :: "bytes \<Rightarrow> elf_image \<Rightarrow> prx_warning prx_analysis option" where
  "analyze_prx data elf =
     (let (m, ws1) = find_module_info data elf;
          (exports, ws2) = (case m of None \<Rightarrow> ([], []) | Some mi \<Rightarrow> walk_exports data elf mi);
          (imports, ws3) = (case m of None \<Rightarrow> ([], []) | Some mi \<Rightarrow> walk_imports data elf mi)
      in case parse_relocations data elf of
           Inl _ \<Rightarrow> None
         | Inr (rels, ws4) \<Rightarrow>
             Some \<lparr> pa_module_info = m, pa_imports = imports, pa_exports = exports,
                    pa_relocations = rels, pa_warnings = ws1 @ ws2 @ ws3 @ ws4 \<rparr>)"

section \<open>What a table walk promises\<close>

text \<open>
  The entries of a table follow one another: each starts where the one before it ends, has at
  least four words and ends inside the table.
\<close>

fun table_chain :: "int \<Rightarrow> int \<Rightarrow> library list \<Rightarrow> bool" where
  "table_chain a table_end [] = True"
| "table_chain a table_end (lib # libs) =
     (li_address lib = a \<and> a \<noteq> 0 \<and> 4 \<le> li_entry_length lib \<and>
      a + li_entry_length lib * 4 \<le> table_end \<and>
      table_chain (a + li_entry_length lib * 4) table_end libs)"

locale table_turn =
  fixes turn :: "int \<Rightarrow> (prx_error, walk_turn) result"
    and table_end :: int
    and sound :: "library \<Rightarrow> bool"
  assumes turn_entry:
    "turn c = Inr (Next_Library lib ws) \<Longrightarrow>
       li_address lib = c \<and> 4 \<le> li_entry_length lib \<and> c + li_entry_length lib * 4 \<le> table_end"
    and turn_sound: "turn c = Inr (Next_Library lib ws) \<Longrightarrow> sound lib"
begin

lemma walk_unfold:
  "walk_table turn stopped table_end c =
     (if c \<noteq> 0 \<and> c < table_end then
        (case turn c of
           Inl e \<Rightarrow> ([], [stopped c e])
         | Inr (Stop_Walk w) \<Rightarrow> ([], [w])
         | Inr (Next_Library lib ws) \<Rightarrow>
             (let (libs, ws') = walk_table turn stopped table_end (c + li_entry_length lib * 4)
              in (lib # libs, ws @ ws')))
      else ([], []))"
  by (subst walk_table.simps) (auto split: sum.splits walk_turn.splits dest: turn_entry)

lemma walk_sound:
  "fst (walk_table turn stopped table_end c) = libs \<Longrightarrow>
     table_chain c table_end libs \<and> list_all sound libs"
proof (induction libs arbitrary: c)
  case Nil
  then show ?case by simp
next
  case (Cons lib libs)
  then obtain ws where c: "c \<noteq> 0" "turn c = Inr (Next_Library lib ws)"
    and rest: "fst (walk_table turn stopped table_end (c + li_entry_length lib * 4)) = libs"
    by (subst (asm) walk_unfold) (auto split: if_splits sum.splits walk_turn.splits prod.splits)
  from Cons.IH [OF rest] turn_entry [OF c(2)] turn_sound [OF c(2)] c(1) show ?case by simp
qed

end

text \<open>The word of the file at a virtual address, as both tables read it.\<close>

definition vaddr_word :: "bytes \<Rightarrow> elf_image \<Rightarrow> int \<Rightarrow> int option" where
  "vaddr_word data elf a =
     (case u32_at_vaddr data elf a Export_Library of Inr v \<Rightarrow> Some v | Inl _ \<Rightarrow> None)"

lemma u32_at_vaddr_word: "u32_at_vaddr data elf a what = Inr v \<longleftrightarrow> vaddr_word data elf a = Some v"
  by (auto simp: vaddr_word_def u32_at_vaddr_def read_at_vaddr_def split: option.splits sum.splits if_splits)

definition entry_sound :: "bytes \<Rightarrow> elf_image \<Rightarrow> nid_kind \<Rightarrow> nid_entry \<Rightarrow> bool" where
  "entry_sound data elf k ne \<longleftrightarrow>
     ne_kind ne = k \<and> vaddr_word data elf (ne_nid_address ne) = Some (ne_nid ne)"

text \<open>
  An export library lists its functions first and its variables after them; the address of
  entry \<open>i\<close> is the word \<open>total\<close> places after its NID.
\<close>

definition export_library_sound :: "bytes \<Rightarrow> elf_image \<Rightarrow> library \<Rightarrow> bool" where
  "export_library_sound data elf lib \<longleftrightarrow>
     blen (li_functions lib) = li_function_count lib \<and>
     blen (li_variables lib) = li_variable_count lib \<and>
     list_all (entry_sound data elf Function) (li_functions lib) \<and>
     list_all (entry_sound data elf Variable) (li_variables lib) \<and>
     list_all (\<lambda>ne. vaddr_word data elf
         (ne_nid_address ne + (li_function_count lib + li_variable_count lib) * 4) = Some (ne_address ne))
       (li_functions lib @ li_variables lib)"

text \<open>
  An import library's functions are stubs of eight bytes in a row, its variables pairs of an
  address and a NID; a variable count without a variable table yields no variables.
\<close>

definition import_library_sound :: "bytes \<Rightarrow> elf_image \<Rightarrow> library \<Rightarrow> bool" where
  "import_library_sound data elf lib \<longleftrightarrow>
     blen (li_functions lib) = li_function_count lib \<and>
     (li_variables lib = [] \<or> blen (li_variables lib) = li_variable_count lib) \<and>
     list_all (entry_sound data elf Function) (li_functions lib) \<and>
     list_all (entry_sound data elf Variable) (li_variables lib) \<and>
     (\<exists>stubs. map ne_address (li_functions lib) =
        map (\<lambda>i. stubs + int i * 8) [0..<length (li_functions lib)]) \<and>
     list_all (\<lambda>ne. vaddr_word data elf (ne_nid_address ne - 4) = Some (ne_address ne))
       (li_variables lib)"

lemma and_mask_nonneg [simp]: "0 \<le> entry_length_of c" "0 \<le> var_count_of c" "0 \<le> func_count_of c"
  by (simp_all add: entry_length_of_def var_count_of_def func_count_of_def mask_simps)

lemma export_entry_sound:
  "export_entry data elf k p t i = Inr ne \<Longrightarrow>
     entry_sound data elf k ne \<and> vaddr_word data elf (ne_nid_address ne + t * 4) = Some (ne_address ne)"
  by (auto simp: export_entry_def Let_def bindE_Inr_iff entry_sound_def nid_entry_of_def u32_at_vaddr_word algebra_simps
      split: nid_kind.splits)

lemma export_turn_parts:
  assumes "export_turn data elf table_end c = Inr (Next_Library lib ws)"
  obtains v name fs vs where
    "4 \<le> entry_length_of (v ! 2)" "c + entry_length_of (v ! 2) * 4 \<le> table_end"
    "mapE (export_entry data elf Function (v ! 3) (func_count_of (v ! 2) + var_count_of (v ! 2)))
       [0..<nat (func_count_of (v ! 2))] = Inr fs"
    "mapE (export_entry data elf Variable (v ! 3) (func_count_of (v ! 2) + var_count_of (v ! 2)))
       [nat (func_count_of (v ! 2))..<nat (func_count_of (v ! 2)) + nat (var_count_of (v ! 2))] = Inr vs"
    "lib = \<lparr> li_name = name, li_flags = v ! 1, li_entry_length = entry_length_of (v ! 2),
       li_function_count = func_count_of (v ! 2), li_variable_count = var_count_of (v ! 2),
       li_address = c, li_functions = fs, li_variables = vs \<rparr>"
  using assms unfolding export_turn_def Let_def bindE_Inr_iff
  by (auto simp: bindE_Inr_iff split: if_splits intro: that)

lemma export_turn_sound:
  assumes "export_turn data elf table_end c = Inr (Next_Library lib ws)"
  shows "li_address lib = c \<and> 4 \<le> li_entry_length lib \<and> c + li_entry_length lib * 4 \<le> table_end"
    and "export_library_sound data elf lib"
proof -
  from assms obtain v name fs vs where p:
    "4 \<le> entry_length_of (v ! 2)" "c + entry_length_of (v ! 2) * 4 \<le> table_end"
    "mapE (export_entry data elf Function (v ! 3) (func_count_of (v ! 2) + var_count_of (v ! 2)))
       [0..<nat (func_count_of (v ! 2))] = Inr fs"
    "mapE (export_entry data elf Variable (v ! 3) (func_count_of (v ! 2) + var_count_of (v ! 2)))
       [nat (func_count_of (v ! 2))..<nat (func_count_of (v ! 2)) + nat (var_count_of (v ! 2))] = Inr vs"
    "lib = \<lparr> li_name = name, li_flags = v ! 1, li_entry_length = entry_length_of (v ! 2),
       li_function_count = func_count_of (v ! 2), li_variable_count = var_count_of (v ! 2),
       li_address = c, li_functions = fs, li_variables = vs \<rparr>"
    by (rule export_turn_parts)
  then show "li_address lib = c \<and> 4 \<le> li_entry_length lib \<and> c + li_entry_length lib * 4 \<le> table_end"
    by simp
  show "export_library_sound data elf lib"
    using mapE_length [OF p(3)] mapE_length [OF p(4)] export_entry_sound
      mapE_set [OF p(3)] mapE_set [OF p(4)]
    by (simp add: export_library_sound_def p(5) list_all_iff del: distrib_right_numeral) blast
qed

interpretation export_table: table_turn "export_turn data elf table_end" table_end "export_library_sound data elf"
  for data elf table_end
  by unfold_locales (auto dest: export_turn_sound)

lemma import_function_sound:
  "import_function data elf p q i = Inr ne \<Longrightarrow>
     entry_sound data elf Function ne \<and> ne_address ne = q + int i * 8"
  by (auto simp: import_function_def Let_def bindE_Inr_iff entry_sound_def nid_entry_of_def u32_at_vaddr_word)

lemma import_variable_sound:
  "import_variable data elf p i = Inr ne \<Longrightarrow>
     entry_sound data elf Variable ne \<and> vaddr_word data elf (ne_nid_address ne - 4) = Some (ne_address ne)"
  by (auto simp: import_variable_def Let_def bindE_Inr_iff entry_sound_def nid_entry_of_def u32_at_vaddr_word)

lemma import_turn_parts:
  assumes "import_turn data elf table_end c = Inr (Next_Library lib ws)"
  obtains v name fs vs vp where
    "5 \<le> entry_length_of (v ! 2)" "c + entry_length_of (v ! 2) * 4 \<le> table_end"
    "mapE (import_function data elf (v ! 3) (v ! 4)) [0..<nat (func_count_of (v ! 2))] = Inr fs"
    "(if vp \<noteq> 0 then mapE (import_variable data elf vp) [0..<nat (var_count_of (v ! 2))] else Inr []) = Inr vs"
    "lib = \<lparr> li_name = name, li_flags = v ! 1, li_entry_length = entry_length_of (v ! 2),
       li_function_count = func_count_of (v ! 2), li_variable_count = var_count_of (v ! 2),
       li_address = c, li_functions = fs, li_variables = vs \<rparr>"
proof -
  from assms obtain raw where raw: "read_at_vaddr data elf c 20 Import_Library = Inr raw"
    by (auto simp: import_turn_def bindE_Inr_iff)
  define v where "v = u32_fields (el_endianness elf) raw 5"
  from assms raw have len: "5 \<le> entry_length_of (v ! 2)" "c + entry_length_of (v ! 2) * 4 \<le> table_end"
    by (auto simp: import_turn_def v_def Let_def split: if_splits)
  with assms raw obtain vp where vp: "(if entry_length_of (v ! 2) \<ge> 6 then u32_at_vaddr data elf (c + 20) Import_Variable_Table
       else Inr 0) = Inr vp"
    by (auto simp: import_turn_def v_def Let_def bindE_Inr_iff)
  from assms raw len vp obtain name fs vs where
    "mapE (import_function data elf (v ! 3) (v ! 4)) [0..<nat (func_count_of (v ! 2))] = Inr fs"
    "(if vp \<noteq> 0 then mapE (import_variable data elf vp) [0..<nat (var_count_of (v ! 2))] else Inr []) = Inr vs"
    "lib = \<lparr> li_name = name, li_flags = v ! 1, li_entry_length = entry_length_of (v ! 2),
       li_function_count = func_count_of (v ! 2), li_variable_count = var_count_of (v ! 2),
       li_address = c, li_functions = fs, li_variables = vs \<rparr>"
    unfolding import_turn_def v_def [symmetric]
    by (simp add: Let_def v_def [symmetric] bindE_Inr_iff split: if_split_asm) blast+
  with len that show thesis by blast
qed

lemma import_turn_sound:
  assumes "import_turn data elf table_end c = Inr (Next_Library lib ws)"
  shows "li_address lib = c \<and> 4 \<le> li_entry_length lib \<and> c + li_entry_length lib * 4 \<le> table_end"
    and "import_library_sound data elf lib"
proof -
  from assms obtain v name fs vs vp where p:
    "5 \<le> entry_length_of (v ! 2)" "c + entry_length_of (v ! 2) * 4 \<le> table_end"
    "mapE (import_function data elf (v ! 3) (v ! 4)) [0..<nat (func_count_of (v ! 2))] = Inr fs"
    "(if vp \<noteq> 0 then mapE (import_variable data elf vp) [0..<nat (var_count_of (v ! 2))] else Inr []) = Inr vs"
    "lib = \<lparr> li_name = name, li_flags = v ! 1, li_entry_length = entry_length_of (v ! 2),
       li_function_count = func_count_of (v ! 2), li_variable_count = var_count_of (v ! 2),
       li_address = c, li_functions = fs, li_variables = vs \<rparr>"
    by (rule import_turn_parts)
  then show "li_address lib = c \<and> 4 \<le> li_entry_length lib \<and> c + li_entry_length lib * 4 \<le> table_end"
    by simp
  have fs: "entry_sound data elf Function ne" if "ne \<in> set fs" for ne
    using mapE_set [OF p(3) that] by (auto dest: import_function_sound)
  have stubs: "map ne_address fs = map (\<lambda>i. v ! 4 + int i * 8) [0..<length fs]"
  proof (rule nth_equalityI)
    fix i assume "i < length (map ne_address fs)"
    then have "import_function data elf (v ! 3) (v ! 4) i = Inr (fs ! i)" and "i < length fs"
      using p(3) by (auto simp: mapE_Inr_iff)
    then show "map ne_address fs ! i = map (\<lambda>i. v ! 4 + int i * 8) [0..<length fs] ! i"
      by (simp add: import_function_sound [THEN conjunct2])
  qed simp
  have vs: "entry_sound data elf Variable ne \<and> vaddr_word data elf (ne_nid_address ne - 4) = Some (ne_address ne)"
    if "ne \<in> set vs" for ne
    using p(4) that by (auto split: if_splits dest!: mapE_set import_variable_sound)
  have lens: "blen fs = func_count_of (v ! 2)" "vs = [] \<or> blen vs = var_count_of (v ! 2)"
    using p(3,4) by (auto split: if_splits dest!: mapE_length)
  have "\<exists>b. map ne_address fs = map (\<lambda>i. b + int i * 8) [0..<length fs]"
    using stubs by blast
  with fs vs lens show "import_library_sound data elf lib"
    by (simp add: import_library_sound_def p(5) list_all_iff)
qed

interpretation import_table: table_turn "import_turn data elf table_end" table_end "import_library_sound data elf"
  for data elf table_end
  by unfold_locales (auto dest: import_turn_sound)

text \<open>
  Property C29. What the table walks return, for any bytes: the libraries of
  \<open>_walk_exports\<close> and \<open>_walk_imports\<close> follow one another from the start address the module
  info gives and stay inside the table; a library has exactly as many entries as it declares
  (an import library may have no variable at all), every NID is the word at its own address,
  an export's address is the word \<open>total\<close> entries after its NID, an import function's address
  is its eight-byte stub and an import variable's address is the word before its NID.
\<close>

theorem prx_walks_sound:
  "table_chain (mi_exports_start m) (mi_exports_end m) (fst (walk_exports data elf m)) \<and>
   list_all (export_library_sound data elf) (fst (walk_exports data elf m)) \<and>
   table_chain (mi_imports_start m) (mi_imports_end m) (fst (walk_imports data elf m)) \<and>
   list_all (import_library_sound data elf) (fst (walk_imports data elf m))"
  unfolding walk_exports_def walk_imports_def
  using export_table.walk_sound [OF refl] import_table.walk_sound [OF refl] by blast

section \<open>Relocations are never read past the end\<close>

lemma type_a_relocation_in_file:
  assumes "sz \<noteq> 0 \<longrightarrow> in_file data off sz" "0 \<le> sz" "i < nat (sz div 8)"
  shows "\<exists>rel. type_a_relocation elf data off nm t src i = Inr rel"
proof -
  have "int i + 1 \<le> sz div 8" using assms(3) by linarith
  then have "(int i + 1) * 8 \<le> sz div 8 * 8" by (intro mult_right_mono) auto
  also have "\<dots> \<le> sz" using assms(2) by simp
  finally have "(int i + 1) * 8 \<le> sz" .
  with assms have "0 \<le> off + int i * 8" "off + int i * 8 + 8 \<le> blen data"
    by (auto simp: in_file_def)
  then show ?thesis by (simp add: type_a_relocation_def unpack_from_in Let_def)
qed

lemma mapE_succeeds: "(\<And>x. x \<in> set xs \<Longrightarrow> \<exists>y. f x = Inr y) \<Longrightarrow> \<exists>ys. mapE f xs = Inr ys"
  by (induction xs) (auto, metis bindE_simps(2))

text \<open>An image whose sizes are not negative, as every parsed one.\<close>

definition sizes_nonneg :: "elf_image \<Rightarrow> bool" where
  "sizes_nonneg elf \<longleftrightarrow>
     (\<forall>ph \<in> set (el_program_headers elf). 0 \<le> ph_filesz ph) \<and> (\<forall>s \<in> set (el_sections elf). 0 \<le> se_size s)"

lemma section_relocations_total:
  assumes "elf_wf elf" "sizes_nonneg elf" "el_raw_data elf = data" "s \<in> set (el_sections elf)"
  shows "\<exists>y. section_relocations data elf s = Inr y"
proof (cases "is_reloc_section s")
  case True
  then have "se_type s \<noteq> SHT_NOBITS"
    by (auto simp: is_reloc_section_def SHT_REL_def SHT_PRXRELOC_def SHT_NOBITS_def)
  with assms have "se_size s \<noteq> 0 \<longrightarrow> in_file data (se_offset s) (se_size s)" "0 \<le> se_size s"
    by (auto simp: elf_wf_def sizes_nonneg_def)
  then have "\<exists>ys. mapE (type_a_relocation elf data (se_offset s) (se_name s)
      (if se_info s < blen (el_sections elf) then Some (se_info s) else None) From_Section)
      [0..<nat (se_size s div 8)] = Inr ys"
    by (intro mapE_succeeds type_a_relocation_in_file) auto
  with True show ?thesis by (auto simp: section_relocations_def)
qed (simp add: section_relocations_def)

lemma header_relocations_total:
  assumes "elf_wf elf" "sizes_nonneg elf" "el_raw_data elf = data" "ph \<in> set (el_program_headers elf)"
  shows "\<exists>y. header_relocations data elf ph = Inr y"
proof -
  from assms have "ph_filesz ph \<noteq> 0 \<longrightarrow> in_file data (ph_offset ph) (ph_filesz ph)" "0 \<le> ph_filesz ph"
    by (auto simp: elf_wf_def sizes_nonneg_def)
  then have "\<exists>ys. mapE (type_a_relocation elf data (ph_offset ph) [] None From_Program_Header)
      [0..<nat (ph_filesz ph div 8)] = Inr ys"
    by (intro mapE_succeeds type_a_relocation_in_file) auto
  then show ?thesis by (auto simp: header_relocations_def split: sum.splits)
qed

lemma analyze_prx_total:
  assumes "elf_wf elf" "sizes_nonneg elf" "el_raw_data elf = data"
  shows "\<exists>a. analyze_prx data elf = Some a"
proof -
  obtain xs where "mapE (section_relocations data elf) (el_sections elf) = Inr xs"
    using mapE_succeeds section_relocations_total [OF assms] by metis
  moreover obtain ys where "mapE (header_relocations data elf) (el_program_headers elf) = Inr ys"
    using mapE_succeeds header_relocations_total [OF assms] by metis
  ultimately show ?thesis
    by (auto simp: analyze_prx_def parse_relocations_def split: prod.splits)
qed

end
