(* ===== verification/Psp_Header.thy ===== *)
theory Psp_Header
  imports Psp_Model
begin

text \<open>
  \<open>detect.py\<close> and \<open>psp_container.py\<close>: which kind of executable an input is, and the header of
  an encrypted \<open>~PSP\<close> container.
\<close>

section \<open>Input detection\<close>

datatype detect_error = Unsupported_Input

definition detect_input :: "bytes \<Rightarrow> (detect_error, input_kind) result" where
  "detect_input data =
     (if py_startswith data [0x7F, 0x45, 0x4C, 0x46] 0 then Inr Elf32_Input
      else if py_startswith data (str_bytes ''~PSP'') 0 then Inr Psp_Container_Input
      else Inl Unsupported_Input)"

section \<open>The container header\<close>

definition PSP_HEADER_SIZE :: int where "PSP_HEADER_SIZE = 0x150"

datatype container_error = Header_Too_Short int | Invalid_Container_Magic

definition cstring :: "bytes \<Rightarrow> string" where
  "cstring raw = ascii_replace (before_nul raw)"

text \<open>The \<open>struct\<close> code \<open>i\<close>: two's complement in 32 bits.\<close>

definition signed_i32 :: "int \<Rightarrow> int" where
  "signed_i32 v = (if v \<ge> 0x80000000 then v - 0x100000000 else v)"

definition u16_at :: "bytes \<Rightarrow> int \<Rightarrow> int" where
  "u16_at data off = read_int Little data off 2"

definition u32_at :: "bytes \<Rightarrow> int \<Rightarrow> int" where
  "u32_at data off = read_int Little data off 4"

definition parse_psp_container_header :: "bytes \<Rightarrow> (container_error, container_header) result" where
  "parse_psp_container_header data =
     (if blen data < PSP_HEADER_SIZE then Inl (Header_Too_Short (blen data))
      else if py_slice data 0 4 \<noteq> str_bytes ''~PSP'' then Inl Invalid_Container_Magic
      else Inr
        \<lparr> ch_module_attribute = u16_at data 0x04,
          ch_compression_attribute = u16_at data 0x06,
          ch_module_version = (uint (data ! 0x09), uint (data ! 0x08)),
          ch_module_name = cstring (py_slice data 0x0A 0x26),
          ch_module_version_byte = uint (data ! 0x26),
          ch_segment_count = uint (data ! 0x27),
          ch_elf_size = u32_at data 0x28,
          ch_psp_size = u32_at data 0x2C,
          ch_boot_entry = u32_at data 0x30,
          ch_module_info_offset = signed_i32 (u32_at data 0x34),
          ch_bss_size = u32_at data 0x38,
          ch_segment_alignments = map (u16_at data) [0x3C, 0x3E, 0x40, 0x42],
          ch_segment_addresses = map (u32_at data) [0x44, 0x48, 0x4C, 0x50],
          ch_segment_sizes = map (u32_at data) [0x54, 0x58, 0x5C, 0x60],
          ch_devkit_version = u32_at data 0x78,
          ch_decrypt_mode = uint (data ! 0x7C),
          ch_overlap_size = u16_at data 0x7E,
          ch_compressed_size = u32_at data 0xB0,
          ch_subtype = u32_at data 0xD0 \<rparr>)"

section \<open>Round trip with the format\<close>

text \<open>
  The layout of the header as the code's offsets imply it, field after field, with zeroes in
  the bytes that are not read.
\<close>

definition container_header_bytes :: "container_header \<Rightarrow> bytes" where
  "container_header_bytes h =
     str_bytes ''~PSP'' @
     le_bytes 2 (ch_module_attribute h) @ le_bytes 2 (ch_compression_attribute h) @
     le_bytes 1 (snd (ch_module_version h)) @ le_bytes 1 (fst (ch_module_version h)) @
     (str_bytes (ch_module_name h) @ replicate (28 - length (ch_module_name h)) 0) @
     le_bytes 1 (ch_module_version_byte h) @ le_bytes 1 (ch_segment_count h) @
     le_bytes 4 (ch_elf_size h) @ le_bytes 4 (ch_psp_size h) @ le_bytes 4 (ch_boot_entry h) @
     le_bytes 4 (ch_module_info_offset h) @ le_bytes 4 (ch_bss_size h) @
     concat (map (le_bytes 2) (ch_segment_alignments h)) @
     concat (map (le_bytes 4) (ch_segment_addresses h)) @
     concat (map (le_bytes 4) (ch_segment_sizes h)) @
     replicate 0x14 0 @
     le_bytes 4 (ch_devkit_version h) @ le_bytes 1 (ch_decrypt_mode h) @ le_bytes 1 0 @
     le_bytes 2 (ch_overlap_size h) @ replicate 0x30 0 @
     le_bytes 4 (ch_compressed_size h) @ replicate 0x1C 0 @
     le_bytes 4 (ch_subtype h) @ replicate 0x7C 0"

definition in_width :: "nat \<Rightarrow> int \<Rightarrow> bool" where
  "in_width n v \<longleftrightarrow> 0 \<le> v \<and> v < 256 ^ n"

definition container_header_fits :: "container_header \<Rightarrow> bool" where
  "container_header_fits h \<longleftrightarrow>
     list_all (in_width 2) [ch_module_attribute h, ch_compression_attribute h, ch_overlap_size h] \<and>
     list_all (in_width 1) [fst (ch_module_version h), snd (ch_module_version h),
       ch_module_version_byte h, ch_segment_count h, ch_decrypt_mode h] \<and>
     list_all (in_width 4) [ch_elf_size h, ch_psp_size h, ch_boot_entry h, ch_bss_size h,
       ch_devkit_version h, ch_compressed_size h, ch_subtype h] \<and>
     - 0x80000000 \<le> ch_module_info_offset h \<and> ch_module_info_offset h < 0x80000000 \<and>
     length (ch_module_name h) \<le> 28 \<and>
     list_all (\<lambda>c. of_char c \<noteq> (0 :: nat) \<and> of_char c < (128 :: nat)) (ch_module_name h) \<and>
     length (ch_segment_alignments h) = 4 \<and> list_all (in_width 2) (ch_segment_alignments h) \<and>
     length (ch_segment_addresses h) = 4 \<and> list_all (in_width 4) (ch_segment_addresses h) \<and>
     length (ch_segment_sizes h) = 4 \<and> list_all (in_width 4) (ch_segment_sizes h)"

lemma read_int_skip [simp]:
  "blen xs \<le> off \<Longrightarrow> 0 \<le> sz \<Longrightarrow> off + sz \<le> blen xs + blen ys \<Longrightarrow>
     read_int e (xs @ ys) off sz = read_int e ys (off - blen xs) sz"
  by (simp add: read_int_def py_slice_append_right algebra_simps)

lemma read_int_le_bytes [simp]:
  "n = nat sz \<Longrightarrow> 0 < sz \<Longrightarrow> read_int Little (le_bytes n v @ ys) 0 sz = v mod 256 ^ n"
  by (simp add: read_int_def py_slice_in endian_int_def le_int_le_bytes_mod)

lemma length_concat_map_const: "(\<And>x. length (f x) = n) \<Longrightarrow> length (concat (map f xs)) = n * length xs"
  by (induction xs) auto

lemma cstring_padded:
  assumes "list_all (\<lambda>c. of_char c \<noteq> (0 :: nat) \<and> of_char c < (128 :: nat)) s"
  shows "cstring (str_bytes s @ replicate k 0) = s"
proof -
  have nonzero: "(of_char c :: byte) = 0 \<Longrightarrow> of_char c = (0 :: nat)" for c
    using uint_of_char [of c] by simp
  have "before_nul (str_bytes s @ replicate k 0) = str_bytes s"
    using assms by (induction s) (auto simp: before_nul_def str_bytes_def takeWhile_replicate dest: nonzero)
  moreover have "ascii_replace (str_bytes s) = s"
    using assms by (induction s) (auto simp: ascii_replace_def str_bytes_def uint_of_char)
  ultimately show ?thesis by (simp add: cstring_def)
qed

lemma length_container_header_bytes:
  assumes "container_header_fits h"
  shows "length (container_header_bytes h) = 0x150"
  using assms
  by (simp add: container_header_fits_def container_header_bytes_def length_concat_map_const)

lemma uint_nth: "k < length data \<Longrightarrow> uint (data ! k) = read_int Little data (int k) 1"
  by (simp add: read_int_def py_slice_in endian_int_def take_Suc_conv_app_nth [of 0, simplified] Cons_nth_drop_Suc [symmetric])

lemma signed_i32_mod: "- 0x80000000 \<le> v \<Longrightarrow> v < 0x80000000 \<Longrightarrow> signed_i32 (v mod 4294967296) = v"
proof (cases "0 \<le> v")
  case True
  moreover assume "v < 0x80000000"
  ultimately show ?thesis by (simp add: signed_i32_def)
next
  case False
  moreover assume "- 0x80000000 \<le> v"
  ultimately have "v mod 4294967296 = v + 4294967296"
    using mod_pos_pos_trivial [of "v + 4294967296" 4294967296] by simp
  with \<open>- 0x80000000 \<le> v\<close> show ?thesis by (simp add: signed_i32_def)
qed

lemma list4: "length xs = 4 \<Longrightarrow> \<exists>a b c d. xs = [a, b, c, d]"
  by (auto simp: numeral_eq_Suc length_Suc_conv)

definition header_fields :: "container_header \<Rightarrow> container_header" where
  "header_fields h = \<lparr> ch_module_attribute = ch_module_attribute h, ch_compression_attribute = ch_compression_attribute h,
     ch_module_version = ch_module_version h, ch_module_name = ch_module_name h,
     ch_module_version_byte = ch_module_version_byte h, ch_segment_count = ch_segment_count h,
     ch_elf_size = ch_elf_size h, ch_psp_size = ch_psp_size h, ch_boot_entry = ch_boot_entry h,
     ch_module_info_offset = ch_module_info_offset h, ch_bss_size = ch_bss_size h,
     ch_segment_alignments = ch_segment_alignments h, ch_segment_addresses = ch_segment_addresses h,
     ch_segment_sizes = ch_segment_sizes h, ch_devkit_version = ch_devkit_version h,
     ch_decrypt_mode = ch_decrypt_mode h, ch_overlap_size = ch_overlap_size h,
     ch_compressed_size = ch_compressed_size h, ch_subtype = ch_subtype h \<rparr>"

lemma parse_container_header_bytes:
  assumes "container_header_fits h"
  shows "parse_psp_container_header (container_header_bytes h) = Inr h"
proof -
  note fits = assms [unfolded container_header_fits_def]
  obtain a1 a2 a3 a4 where a: "ch_segment_alignments h = [a1, a2, a3, a4]"
    using list4 fits by blast
  obtain b1 b2 b3 b4 where b: "ch_segment_addresses h = [b1, b2, b3, b4]"
    using list4 fits by blast
  obtain c1 c2 c3 c4 where c: "ch_segment_sizes h = [c1, c2, c3, c4]"
    using list4 fits by blast
  note len = length_container_header_bytes [OF assms]
  have name: "py_slice (container_header_bytes h) 0x0A 0x26 =
      str_bytes (ch_module_name h) @ replicate (28 - length (ch_module_name h)) 0"
    using fits by (simp add: container_header_bytes_def py_slice_append_right py_slice_append_left py_slice_in)
  have magic: "py_slice (container_header_bytes h) 0 4 = str_bytes ''~PSP''"
    by (simp add: container_header_bytes_def py_slice_append_left py_slice_in)
  have signed: "signed_i32 (ch_module_info_offset h mod 4294967296) = ch_module_info_offset h"
    using fits by (intro signed_i32_mod) auto
  have "parse_psp_container_header (container_header_bytes h) = Inr (header_fields h)"
    unfolding parse_psp_container_header_def PSP_HEADER_SIZE_def magic name header_fields_def
    using fits
    by (simp add: len uint_nth u16_at_def u32_at_def container_header_bytes_def a b c in_width_def
        cstring_padded signed del: le_bytes.simps One_nat_def)
  then show ?thesis by (simp add: header_fields_def)
qed

text \<open>
  Property C28. The container header parser is a left inverse of the format: every header whose
  fields fit their widths and whose name is at most 28 ASCII characters without NUL is read
  back field for field from its \<open>0x150\<close> bytes, and the input is detected as a \<open>~PSP\<close> container.
\<close>

theorem psp_container_round_trip:
  assumes "container_header_fits h"
  shows "parse_psp_container_header (container_header_bytes h) = Inr h \<and>
    detect_input (container_header_bytes h) = Inr Psp_Container_Input"
proof -
  have "take 4 (container_header_bytes h) = str_bytes ''~PSP''"
    by (simp add: container_header_bytes_def)
  moreover have "take 4 (container_header_bytes h) \<noteq> [0x7F, 0x45, 0x4C, 0x46]"
    by (simp add: calculation str_bytes_def of_char_def)
  ultimately have "detect_input (container_header_bytes h) = Inr Psp_Container_Input"
    using length_container_header_bytes [OF assms]
    by (simp add: detect_input_def py_startswith_def py_slice_in)
  with parse_container_header_bytes [OF assms] show ?thesis by simp
qed

definition sample_container_header :: container_header where
  "sample_container_header =
     \<lparr> ch_module_attribute = 0x1006, ch_compression_attribute = 1, ch_module_version = (1, 2),
       ch_module_name = ''boot'', ch_module_version_byte = 1, ch_segment_count = 2,
       ch_elf_size = 0x12345678, ch_psp_size = 0x2000, ch_boot_entry = 0x100,
       ch_module_info_offset = -16, ch_bss_size = 64, ch_segment_alignments = [16, 64, 0, 0],
       ch_segment_addresses = [0, 0x8000, 0, 0], ch_segment_sizes = [0x8000, 0x100, 0, 0],
       ch_devkit_version = 0x06060110, ch_decrypt_mode = 9, ch_overlap_size = 3,
       ch_compressed_size = 0x1FF0, ch_subtype = 0xD91613F0 \<rparr>"

theorem psp_container_round_trip_witness:
  "parse_psp_container_header (container_header_bytes sample_container_header) = Inr sample_container_header \<and>
   detect_input (container_header_bytes sample_container_header) = Inr Psp_Container_Input"
  by (rule psp_container_round_trip)
    (simp add: container_header_fits_def sample_container_header_def in_width_def of_char_def)

end
