(* ===== verification/Analyzer.thy ===== *)
theory Analyzer
  imports Prx Psp_Header
begin

text \<open>
  \<open>analyzer.py\<close>: the normalized model of an executable held in memory. The warnings of the
  module analysis are kept as values.
\<close>

datatype analyze_error =
    Detection_Failed detect_error
  | Container_Failed container_error
  | Elf_Failed elf_error
  | Analyze_struct_error

datatype analyze_warning =
    Container_Needs_Decryption
  | Machine_Not_Mips int
  | Elf_Not_Little_Endian
  | Prx_Warning prx_warning

definition container_model :: "string \<Rightarrow> container_header \<Rightarrow> analyze_warning executable_model" where
  "container_model nm h =
     \<lparr> xm_source_name = nm, xm_input_kind = Psp_Container_Input,
       xm_executable_kind = Encrypted_Container, xm_needs_decryption = True, xm_endianness = None,
       xm_elf_header = None, xm_program_headers = [], xm_sections = [],
       xm_container_header = Some h, xm_module_info = None, xm_imports = [], xm_exports = [],
       xm_relocations = [], xm_warnings = [Container_Needs_Decryption], xm_recovery = None \<rparr>"

definition is_prx_image :: "elf_image \<Rightarrow> bool" where
  "is_prx_image elf = (eh_file_type (el_header elf) = ET_SCE_PSPRELEXEC)"

definition has_module_section :: "elf_image \<Rightarrow> bool" where
  "has_module_section elf = list_ex (\<lambda>s. se_name s = MODULE_INFO_SECTION) (el_sections elf)"

definition elf_warnings :: "elf_image \<Rightarrow> analyze_warning list" where
  "elf_warnings elf =
     (if eh_machine (el_header elf) \<noteq> 8 then [Machine_Not_Mips (eh_machine (el_header elf))] else []) @
     (if el_endianness elf \<noteq> Little then [Elf_Not_Little_Endian] else [])"

definition elf_model ::
    "string \<Rightarrow> elf_image \<Rightarrow> prx_warning prx_analysis \<Rightarrow> analyze_warning executable_model" where
  "elf_model nm elf a =
     \<lparr> xm_source_name = nm, xm_input_kind = Elf32_Input,
       xm_executable_kind = (if is_prx_image elf then Prx_Executable else Elf_Executable),
       xm_needs_decryption = False, xm_endianness = Some (el_endianness elf),
       xm_elf_header = Some (el_header elf), xm_program_headers = el_program_headers elf,
       xm_sections = el_sections elf, xm_container_header = None,
       xm_module_info = pa_module_info a, xm_imports = pa_imports a, xm_exports = pa_exports a,
       xm_relocations = pa_relocations a,
       xm_warnings = elf_warnings elf @ map Prx_Warning (pa_warnings a), xm_recovery = None \<rparr>"

definition no_prx_analysis :: "prx_warning prx_analysis" where
  "no_prx_analysis =
     \<lparr> pa_module_info = None, pa_imports = [], pa_exports = [], pa_relocations = [], pa_warnings = [] \<rparr>"

definition analyze_bytes :: "bytes \<Rightarrow> string \<Rightarrow> (analyze_error, analyze_warning executable_model) result" where
  "analyze_bytes data nm =
     (case detect_input data of
        Inl e \<Rightarrow> Inl (Detection_Failed e)
      | Inr Psp_Container_Input \<Rightarrow>
          (case parse_psp_container_header data of
             Inl e \<Rightarrow> Inl (Container_Failed e)
           | Inr h \<Rightarrow> Inr (container_model nm h))
      | Inr Elf32_Input \<Rightarrow>
          (case parse_elf32 data of
             Inl e \<Rightarrow> Inl (Elf_Failed e)
           | Inr elf \<Rightarrow>
               if is_prx_image elf \<or> has_module_section elf then
                 (case analyze_prx data elf of
                    None \<Rightarrow> Inl Analyze_struct_error
                  | Some a \<Rightarrow> Inr (elf_model nm elf a))
               else Inr (elf_model nm elf no_prx_analysis)))"

section \<open>Properties\<close>

lemma program_header_of_nonneg: "v ! 4 \<ge> 0 \<Longrightarrow> 0 \<le> ph_filesz (program_header_of i v)"
  by (simp add: program_header_of_def)

lemma parse_elf32_sizes_nonneg:
  assumes "parse_elf32 data = Inr elf"
  shows "sizes_nonneg elf"
proof -
  from assms obtain e raw phs raws shstr where
    phs: "mapE (parse_program_header e data (el_header elf)) [0..<nat (eh_phnum (el_header elf))] = Inr phs"
    and raws: "mapE (parse_raw_section e data (el_header elf)) [0..<nat (eh_shnum (el_header elf))] = Inr raws"
    and eqs: "el_program_headers elf = phs"
      "el_sections elf = map (\<lambda>i. section_of shstr i (raws ! i)) [0..<length raws]"
    by (rule parse_elf32_parts)
  have "0 \<le> ph_filesz ph" if "parse_program_header e data (el_header elf) i = Inr ph" for ph i
    using that by (auto simp: parse_program_header_def bindE_Inr_iff Let_def program_header_of_def
        u32_fields_nth split: if_splits)
  moreover have "0 \<le> v ! 5" if "parse_raw_section e data (el_header elf) i = Inr v" for v i
    using that by (auto simp: parse_raw_section_def bindE_Inr_iff Let_def u32_fields_nth split: if_splits)
  moreover have "raws ! i \<in> set raws" if "i < length raws" for i using that by simp
  ultimately have "\<forall>ph \<in> set phs. 0 \<le> ph_filesz ph" "\<forall>i < length raws. 0 \<le> raws ! i ! 5"
    using mapE_set [OF phs] mapE_set [OF raws] by metis+
  then show ?thesis by (simp add: sizes_nonneg_def eqs section_of_def)
qed

lemma analyze_bytes_outcome:
  "(case analyze_bytes data nm of
      Inl e \<Rightarrow> e \<noteq> Analyze_struct_error \<and> e \<noteq> Elf_Failed Elf_struct_error
    | Inr m \<Rightarrow>
        (case detect_input data of
           Inr Psp_Container_Input \<Rightarrow>
             xm_needs_decryption m \<and> Inr (the (xm_container_header m)) = parse_psp_container_header data
         | Inr Elf32_Input \<Rightarrow>
             \<not> xm_needs_decryption m \<and>
             (case parse_elf32 data of
                Inr elf \<Rightarrow> xm_elf_header m = Some (el_header elf) \<and>
                  xm_program_headers m = el_program_headers elf \<and> xm_sections m = el_sections elf
              | Inl _ \<Rightarrow> False)
         | Inl _ \<Rightarrow> False))"
proof (cases "detect_input data = Inr Elf32_Input")
  case True
  show ?thesis
  proof (cases "parse_elf32 data")
    case (Inl e)
    with True parse_elf32_no_struct_error [of data] show ?thesis
      by (auto simp: analyze_bytes_def)
  next
    case (Inr elf)
    then have "elf_wf elf" "sizes_nonneg elf" "el_raw_data elf = data"
      by (auto intro: parse_elf32_wf parse_elf32_sizes_nonneg elim: parse_elf32_parts)
    then obtain a where "analyze_prx data elf = Some a" using analyze_prx_total by blast
    with True Inr show ?thesis by (simp add: analyze_bytes_def elf_model_def)
  qed
next
  case False
  then show ?thesis
    by (auto simp: analyze_bytes_def container_model_def split: sum.splits input_kind.splits)
qed

text \<open>
  \<open>analyze_bytes\<close> has no exception of its own: for every input it returns a model
  or one of the parse errors of the three parsers, and neither the ELF parser nor the module
  analysis ever unpacks past the end of the input. When it returns the model of an ELF image, the image's
  headers and sections are the ones that were parsed, and \<open>needs_decryption\<close> is set exactly for
  a container.
\<close>

theorem analyze_bytes_total:
  "(case analyze_bytes data nm of
      Inl e \<Rightarrow> e \<noteq> Analyze_struct_error \<and> e \<noteq> Elf_Failed Elf_struct_error
    | Inr m \<Rightarrow>
        (case detect_input data of
           Inr Psp_Container_Input \<Rightarrow>
             xm_needs_decryption m \<and> Inr (the (xm_container_header m)) = parse_psp_container_header data
         | Inr Elf32_Input \<Rightarrow>
             \<not> xm_needs_decryption m \<and>
             (case parse_elf32 data of
                Inr elf \<Rightarrow> xm_elf_header m = Some (el_header elf) \<and>
                  xm_program_headers m = el_program_headers elf \<and> xm_sections m = el_sections elf
              | Inl _ \<Rightarrow> False)
         | Inl _ \<Rightarrow> False))"
  by (rule analyze_bytes_outcome)

end
