(* ===== verification/Sfo.thy ===== *)
theory Sfo
  imports Psp_Model
begin

text \<open>
  \<open>sfo.py\<close>: the \<open>PARAM.SFO\<close> key/value file. Every raise is a value of \<open>sfo_error\<close>;
  \<open>Sfo_struct_error\<close> is the \<open>struct.error\<close> of an unpack that runs past the end.
\<close>

datatype sfo_value = Sfo_Text string | Sfo_Int int | Sfo_Bytes bytes

datatype sfo_error =
    Truncated_Psf_Header
  | Invalid_Psf_Magic
  | Index_Table_Exceeds
  | Invalid_Key_Table
  | Invalid_Data_Table
  | Invalid_Key_Offset int
  | Key_Not_Terminated int
  | Key_Not_Utf8 int
  | Empty_Key int
  | Data_Longer_Than_Maximum string
  | Data_Exceeds_File string
  | Value_Not_Utf8 string
  | Integer_Truncated string
  | Sfo_struct_error

definition FMT_UTF8 :: int where "FMT_UTF8 = 0x0204"
definition FMT_UINT32 :: int where "FMT_UINT32 = 0x0404"
definition PSF_HEADER_SIZE :: int where "PSF_HEADER_SIZE = 20"
definition PSF_ENTRY_SIZE :: int where "PSF_ENTRY_SIZE = 16"

definition sfo_unpack :: "bytes \<Rightarrow> int \<Rightarrow> int \<Rightarrow> (sfo_error, bytes) result" where
  "sfo_unpack data off sz =
     (case unpack_from data off sz of None \<Rightarrow> Inl Sfo_struct_error | Some raw \<Rightarrow> Inr raw)"

text \<open>The value of an entry from its format and its bytes.\<close>

definition sfo_entry_value :: "string \<Rightarrow> int \<Rightarrow> bytes \<Rightarrow> (sfo_error, sfo_value) result" where
  "sfo_entry_value key fmt raw =
     (if fmt = FMT_UTF8 then
        (let text = before_nul raw
         in if utf8_valid text then Inr (Sfo_Text (map byte_char text)) else Inl (Value_Not_Utf8 key))
      else if fmt = FMT_UINT32 then
        (if blen raw < 4 then Inl (Integer_Truncated key)
         else bindE (sfo_unpack raw 0 4) (\<lambda>b. Inr (Sfo_Int (le_int b))))
      else Inr (Sfo_Bytes raw))"

definition sfo_entry_key :: "bytes \<Rightarrow> int \<Rightarrow> int \<Rightarrow> int \<Rightarrow> int \<Rightarrow> (sfo_error, string) result" where
  "sfo_entry_key data key_table data_table key_offset index =
     (let key_start = key_table + key_offset in
      if key_start < key_table \<or> key_start \<ge> data_table then Inl (Invalid_Key_Offset index) else
      let key_end = find_byte data 0 key_start data_table in
      if key_end < 0 then Inl (Key_Not_Terminated index) else
      let raw = py_slice data key_start key_end in
      if \<not> utf8_valid raw then Inl (Key_Not_Utf8 index)
      else if raw = [] then Inl (Empty_Key index)
      else Inr (map byte_char raw))"

definition parse_sfo_entry ::
    "bytes \<Rightarrow> int \<Rightarrow> int \<Rightarrow> nat \<Rightarrow> (sfo_error, string \<times> sfo_value) result" where
  "parse_sfo_entry data key_table data_table i =
     bindE (sfo_unpack data (PSF_HEADER_SIZE + int i * PSF_ENTRY_SIZE) PSF_ENTRY_SIZE) (\<lambda>raw.
     let key_offset = read_int Little raw 0 2; fmt = read_int Little raw 2 2;
         data_len = read_int Little raw 4 4; data_max_len = read_int Little raw 8 4;
         data_offset = read_int Little raw 12 4 in
     bindE (sfo_entry_key data key_table data_table key_offset (int i)) (\<lambda>key.
     if data_len > data_max_len then Inl (Data_Longer_Than_Maximum key) else
     let value_start = data_table + data_offset; value_end = value_start + data_len in
     if value_start < data_table \<or> value_end < value_start \<or> value_end > blen data
     then Inl (Data_Exceeds_File key)
     else bindE (sfo_entry_value key fmt (py_slice data value_start value_end)) (\<lambda>v. Inr (key, v))))"

text \<open>\<open>result[key] = value\<close> for one entry after the other.\<close>

definition sfo_dict :: "(string \<times> sfo_value) list \<Rightarrow> (string \<rightharpoonup> sfo_value)" where
  "sfo_dict kvs = foldl (\<lambda>m (k, v). m(k \<mapsto> v)) Map.empty kvs"

definition sfo_header :: "bytes \<Rightarrow> (sfo_error, int \<times> int \<times> int) result" where
  "sfo_header data =
     (if blen data < PSF_HEADER_SIZE then Inl Truncated_Psf_Header else
      bindE (sfo_unpack data 0 PSF_HEADER_SIZE) (\<lambda>raw.
      if py_slice raw 0 4 \<noteq> 0 # str_bytes ''PSF'' then Inl Invalid_Psf_Magic else
      let key_table = read_int Little raw 8 4; data_table = read_int Little raw 12 4;
          entry_count = read_int Little raw 16 4;
          index_end = PSF_HEADER_SIZE + entry_count * PSF_ENTRY_SIZE in
      if index_end > blen data then Inl Index_Table_Exceeds
      else if key_table < index_end \<or> key_table > blen data then Inl Invalid_Key_Table
      else if data_table < key_table \<or> data_table > blen data then Inl Invalid_Data_Table
      else Inr (key_table, data_table, entry_count)))"

text \<open>The entries in the order of the file, and the dictionary they make.\<close>

definition parse_sfo_items :: "bytes \<Rightarrow> (sfo_error, (string \<times> sfo_value) list) result" where
  "parse_sfo_items data =
     bindE (sfo_header data) (\<lambda>(key_table, data_table, entry_count).
     mapE (parse_sfo_entry data key_table data_table) [0..<nat entry_count])"

definition parse_param_sfo :: "bytes \<Rightarrow> (sfo_error, string \<rightharpoonup> sfo_value) result" where
  "parse_param_sfo data = bindE (parse_sfo_items data) (\<lambda>kvs. Inr (sfo_dict kvs))"

section \<open>Properties\<close>

lemma sfo_unpack_in:
  "0 \<le> off \<Longrightarrow> off + sz \<le> blen data \<Longrightarrow> sfo_unpack data off sz = Inr (py_slice data off (off + sz))"
  by (simp add: sfo_unpack_def unpack_from_in)

lemma sfo_header_bounds:
  assumes "sfo_header data = Inr (kt, dt, n)"
  shows "20 + n * 16 \<le> kt" "kt \<le> dt" "dt \<le> blen data" "0 \<le> n"
  using assms
  by (auto simp: sfo_header_def bindE_Inr_iff Let_def PSF_HEADER_SIZE_def PSF_ENTRY_SIZE_def
      split: if_splits)

lemma sfo_entry_value_no_struct_error: "sfo_entry_value key fmt raw \<noteq> Inl Sfo_struct_error"
  by (auto simp: sfo_entry_value_def Let_def sfo_unpack_in bindE_Inl_iff)

lemma sfo_entry_key_no_struct_error: "sfo_entry_key data kt dt ko i \<noteq> Inl Sfo_struct_error"
  by (auto simp: sfo_entry_key_def Let_def)

lemma parse_sfo_entry_no_struct_error:
  assumes "20 + n * 16 \<le> blen data" "i < nat n"
  shows "parse_sfo_entry data kt dt i \<noteq> Inl Sfo_struct_error"
proof -
  have "20 + int i * 16 + 16 \<le> blen data" using assms by linarith
  then show ?thesis
    by (auto simp: parse_sfo_entry_def PSF_HEADER_SIZE_def PSF_ENTRY_SIZE_def sfo_unpack_in Let_def
        bindE_Inl_iff sfo_entry_value_no_struct_error sfo_entry_key_no_struct_error)
qed

lemma parse_param_sfo_no_struct_error: "parse_param_sfo data \<noteq> Inl Sfo_struct_error"
proof (cases "sfo_header data")
  case (Inl e)
  then have "e \<noteq> Sfo_struct_error"
    by (auto simp: sfo_header_def sfo_unpack_in PSF_HEADER_SIZE_def Let_def split: if_splits)
  with Inl show ?thesis by (simp add: parse_param_sfo_def parse_sfo_items_def)
next
  case (Inr t)
  obtain kt dt n where t: "t = (kt, dt, n)" by (cases t)
  with Inr have "20 + n * 16 \<le> blen data" using sfo_header_bounds [of data kt dt n] by simp
  then have "mapE (parse_sfo_entry data kt dt) [0..<nat n] \<noteq> Inl Sfo_struct_error"
    by (intro mapE_no_error ballI parse_sfo_entry_no_struct_error) auto
  with Inr t show ?thesis by (simp add: parse_param_sfo_def parse_sfo_items_def bindE_Inl_iff)
qed

text \<open>What an entry's value may be, given the bytes it was cut from.\<close>

definition sfo_key_ok :: "string \<Rightarrow> bool" where
  "sfo_key_ok k \<longleftrightarrow> k \<noteq> [] \<and> CHR 0x00 \<notin> set k \<and> utf8_valid (str_bytes k)"

definition sfo_value_in :: "bytes \<Rightarrow> sfo_value \<Rightarrow> bool" where
  "sfo_value_in data v \<longleftrightarrow>
     (\<exists>a b. 0 \<le> a \<and> a \<le> b \<and> b \<le> blen data \<and>
        (case v of
           Sfo_Text s \<Rightarrow> CHR 0x00 \<notin> set s \<and> utf8_valid (str_bytes s) \<and>
             str_bytes s = before_nul (py_slice data a b)
         | Sfo_Int n \<Rightarrow> b - a \<ge> 4 \<and> n = le_int (py_slice data a (a + 4))
         | Sfo_Bytes bs \<Rightarrow> bs = py_slice data a b))"

definition sfo_sound :: "bytes \<Rightarrow> (string \<rightharpoonup> sfo_value) \<Rightarrow> bool" where
  "sfo_sound data m \<longleftrightarrow> (\<forall>k v. m k = Some v \<longrightarrow> sfo_key_ok k \<and> sfo_value_in data v)"

lemma before_nul_no_nul: "0 \<notin> set (before_nul bs)"
  unfolding before_nul_def by (auto dest: set_takeWhileD)

lemma sfo_entry_value_in:
  assumes "sfo_entry_value key fmt (py_slice data a b) = Inr v" "0 \<le> a" "a \<le> b" "b \<le> blen data"
  shows "sfo_value_in data v"
proof -
  have "py_slice (py_slice data a b) 0 4 = py_slice data a (a + 4)" if "4 \<le> b - a"
    using that assms(2-4) by (simp add: py_slice_py_slice)
  with assms show ?thesis
    unfolding sfo_value_in_def
    by (intro exI [of _ a] exI [of _ b])
      (auto simp: sfo_entry_value_def Let_def sfo_unpack_in bindE_Inr_iff length_py_slice
        before_nul_no_nul image_iff split: if_splits)
qed

lemma sfo_entry_key_ok: "sfo_entry_key data kt dt ko i = Inr k \<Longrightarrow> 0 \<le> kt \<Longrightarrow> sfo_key_ok k"
  using find_byte_no_byte [of "kt + ko" dt data 0]
  by (auto simp: sfo_entry_key_def sfo_key_ok_def Let_def image_iff split: if_splits)

lemma parse_sfo_entry_ok:
  assumes "parse_sfo_entry data kt dt i = Inr (k, v)" "0 \<le> kt" "kt \<le> dt"
  shows "sfo_key_ok k \<and> sfo_value_in data v"
  using assms
  by (auto simp: parse_sfo_entry_def Let_def bindE_Inr_iff intro: sfo_entry_key_ok sfo_entry_value_in
      split: if_splits)

text \<open>A key that occurs twice keeps the value of its last entry.\<close>

lemma sfo_dict_map_of: "sfo_dict kvs = map_of (rev kvs)"
  by (induction kvs rule: rev_induct) (auto simp: sfo_dict_def)

text \<open>
  Soundness of the \<open>PARAM.SFO\<close> parser, and its only errors: every key of a
  returned dictionary is a non-empty NUL-free UTF-8 string, every value is exactly the decoding
  of a range of the file (text up to its first NUL, a little-endian 32-bit word of a range that
  holds one, or the range itself), and no input makes an unpack run past the end of the file.
\<close>

theorem parse_param_sfo_sound:
  "(case parse_param_sfo data of
      Inr m \<Rightarrow> sfo_sound data m
    | Inl e \<Rightarrow> e \<noteq> Sfo_struct_error)"
proof (cases "parse_param_sfo data")
  case (Inl e)
  then show ?thesis using parse_param_sfo_no_struct_error [of data] by auto
next
  case (Inr m)
  then obtain kt dt n kvs where hdr: "sfo_header data = Inr (kt, dt, n)"
    and kvs: "mapE (parse_sfo_entry data kt dt) [0..<nat n] = Inr kvs" and m: "m = sfo_dict kvs"
    by (auto simp: parse_param_sfo_def parse_sfo_items_def bindE_Inr_iff)
  have "sfo_key_ok k \<and> sfo_value_in data v" if "(k, v) \<in> set kvs" for k v
    using mapE_set [OF kvs that] sfo_header_bounds [OF hdr] parse_sfo_entry_ok [of data kt dt _ k v] by auto
  with Inr show ?thesis
    by (fastforce simp: m sfo_sound_def sfo_dict_map_of dest: map_of_SomeD)
qed

end
