(* ===== verification/Load_View.thy ===== *)
theory Load_View
  imports Prx
begin

text \<open>
  \<open>load_view.py\<close>: a copy of a module as the PSP loader would place it, its relocations applied
  to the bytes and its addresses moved by the load delta. A \<open>ParseError\<close> is a value of
  \<open>view_error\<close>; \<open>View_key_error\<close> is the \<open>KeyError\<close> of the dictionary of segment bases and
  \<open>View_overflow\<close> the \<open>OverflowError\<close> of \<open>to_bytes\<close>.
\<close>

definition UINT32_MAX :: int where "UINT32_MAX = 0xFFFFFFFF"
definition UINT32_LIMIT :: int where "UINT32_LIMIT = 0x100000000"

datatype view_subject =
    View_Segment int | View_Segment_Physical int | View_Section elf_section
  | View_Loaded_Address | View_Range_End

datatype view_error =
    View_Segment_Range segment_role int
  | View_Segment_Not_Load segment_role int
  | View_Source_Offset int int
  | View_Companion_Beyond_Input
  | View_Address_Outside view_subject
  | View_Extends_Outside view_subject
  | View_Not_Little_Endian
  | View_Bad_Load_Address
  | View_No_Load_Segment
  | View_Delta_Range
  | View_Word_Beyond_Input
  | View_Relocation reloc2_error
  | View_key_error int
  | View_overflow

record 'w load_view =
  lv_load_address :: int
  lv_original_image_base :: int
  lv_address_delta :: int
  lv_segment_bases :: "int \<rightharpoonup> int"
  lv_applied_relocations :: int
  lv_elf :: elf_image
  lv_model :: "'w executable_model"

definition loaded_segments :: "elf_image \<Rightarrow> program_header list" where
  "loaded_segments elf = filter (\<lambda>s. ph_type s = PT_LOAD \<and> ph_memsz s > 0) (el_program_headers elf)"

definition segment_index :: "relocation \<Rightarrow> nat \<Rightarrow> int option \<Rightarrow> int" where
  "segment_index rel shift explicit =
     (case explicit of Some i \<Rightarrow> i | None \<Rightarrow> drop_bit shift (re_info rel) AND 0xFF)"

definition relocation_segments :: "relocation \<Rightarrow> int \<times> int" where
  "relocation_segments rel =
     (segment_index rel 8 (re_source_segment_index rel), segment_index rel 16 (re_target_segment_index rel))"

definition view_segment :: "elf_image \<Rightarrow> int \<Rightarrow> segment_role \<Rightarrow> (view_error, program_header) result" where
  "view_segment elf i role =
     (if i < 0 \<or> i \<ge> blen (el_program_headers elf) then Inl (View_Segment_Range role i)
      else let s = el_program_headers elf ! nat i
           in if ph_type s \<noteq> PT_LOAD then Inl (View_Segment_Not_Load role i) else Inr s)"

definition source_file_offset :: "elf_image \<Rightarrow> relocation \<Rightarrow> (view_error, int \<times> int) result" where
  "source_file_offset elf rel =
     (let source_index = fst (relocation_segments rel) in
      bindE (view_segment elf source_index Source_Segment) (\<lambda>source.
      if re_offset rel < 0 \<or> re_offset rel + 4 > ph_filesz source
      then Inl (View_Source_Offset (re_offset rel) source_index)
      else Inr (source_index, ph_offset source + re_offset rel)))"

definition signed_low_half :: "int \<Rightarrow> int" where
  "signed_low_half word = signed_u16 (word AND 0xFFFF)"

text \<open>
  The low half a Type-A \<open>HI16\<close> relocation is completed with: the first later 16-bit relocation
  of the same segments, read from the unpatched input.
\<close>

fun companion_low_half ::
    "bytes \<Rightarrow> elf_image \<Rightarrow> int \<times> int \<Rightarrow> relocation list \<Rightarrow> (view_error, int option) result" where
  "companion_low_half data elf segs [] = Inr None"
| "companion_low_half data elf segs (cand # rest) =
     (if re_type cand = 5 then companion_low_half data elf segs rest
      else if re_type cand \<notin> {1, 6} then companion_low_half data elf segs rest
      else if relocation_segments cand \<noteq> segs then companion_low_half data elf segs rest
      else bindE (source_file_offset elf cand) (\<lambda>(_, off).
        if off < 0 \<or> off + 4 > blen data then Inl View_Companion_Beyond_Input
        else Inr (Some (signed_low_half (le_int (py_slice data off (off + 4)))))))"

definition type_a_hi16_low_half ::
    "bytes \<Rightarrow> elf_image \<Rightarrow> relocation list \<Rightarrow> nat \<Rightarrow> (view_error, int option) result" where
  "type_a_hi16_low_half data elf rels i =
     (let rel = rels ! i in
      if re_type rel \<noteq> 5 \<or> re_source rel = From_Rel2 then Inr None
      else companion_low_half data elf (relocation_segments rel) (drop (Suc i) rels))"

definition contains_address :: "program_header \<Rightarrow> int \<Rightarrow> bool" where
  "contains_address s a \<longleftrightarrow> ph_vaddr s \<le> a \<and> a < ph_vaddr s + ph_memsz s"

definition contains_range_end :: "program_header \<Rightarrow> int \<Rightarrow> bool" where
  "contains_range_end s a \<longleftrightarrow> ph_vaddr s \<le> a \<and> a \<le> ph_vaddr s + ph_memsz s"

definition require_u32_address :: "int \<Rightarrow> view_subject \<Rightarrow> (view_error, unit) result" where
  "require_u32_address v what =
     (if v < 0 \<or> v > UINT32_MAX then Inl (View_Address_Outside what) else Inr ())"

definition require_u32_range :: "int \<Rightarrow> int \<Rightarrow> view_subject \<Rightarrow> (view_error, unit) result" where
  "require_u32_range start sz what =
     bindE (require_u32_address start what) (\<lambda>_.
     if sz < 0 \<or> start + sz > UINT32_LIMIT then Inl (View_Extends_Outside what) else Inr ())"

definition validate_segment :: "int \<Rightarrow> program_header \<Rightarrow> (view_error, unit) result" where
  "validate_segment delta s =
     bindE (require_u32_range (ph_vaddr s + delta) (ph_memsz s) (View_Segment (ph_index s))) (\<lambda>_.
     require_u32_address (ph_paddr s + delta) (View_Segment_Physical (ph_index s)))"

definition allocated_section :: "elf_section \<Rightarrow> bool" where
  "allocated_section s \<longleftrightarrow> se_flags s AND SHF_ALLOC \<noteq> 0 \<and> se_size s > 0"

definition validate_section :: "int \<Rightarrow> elf_section \<Rightarrow> (view_error, unit) result" where
  "validate_section delta s =
     (if allocated_section s then require_u32_range (se_addr s + delta) (se_size s) (View_Section s)
      else Inr ())"

definition validate_rebased_layout :: "elf_image \<Rightarrow> int \<Rightarrow> (view_error, unit) result" where
  "validate_rebased_layout elf delta =
     bindE (mapE (validate_segment delta) (loaded_segments elf)) (\<lambda>_.
     bindE (mapE (validate_section delta) (el_sections elf)) (\<lambda>_. Inr ()))"

section \<open>Rebasing the model\<close>

definition rebase_loaded_address :: "elf_image \<Rightarrow> int \<Rightarrow> int \<Rightarrow> (view_error, int) result" where
  "rebase_loaded_address elf a delta =
     (if list_ex (\<lambda>s. contains_address s a) (loaded_segments elf)
      then bindE (require_u32_address (a + delta) View_Loaded_Address) (\<lambda>_. Inr (a + delta))
      else Inr a)"

definition rebase_nonzero_loaded_address :: "elf_image \<Rightarrow> int \<Rightarrow> int \<Rightarrow> (view_error, int) result" where
  "rebase_nonzero_loaded_address elf a delta =
     (if a = 0 then Inr 0 else rebase_loaded_address elf a delta)"

definition rebase_nonzero_loaded_range_end :: "elf_image \<Rightarrow> int \<Rightarrow> int \<Rightarrow> (view_error, int) result" where
  "rebase_nonzero_loaded_range_end elf a delta =
     (if a = 0 then Inr 0
      else if list_ex (\<lambda>s. contains_range_end s a) (loaded_segments elf)
      then bindE (require_u32_address (a + delta) View_Range_End) (\<lambda>_. Inr (a + delta))
      else Inr a)"

definition rebase_segment :: "int \<Rightarrow> program_header \<Rightarrow> program_header" where
  "rebase_segment delta s =
     (if ph_type s = PT_LOAD then s\<lparr>ph_vaddr := ph_vaddr s + delta, ph_paddr := ph_paddr s + delta\<rparr> else s)"

definition rebase_section :: "int \<Rightarrow> elf_section \<Rightarrow> elf_section" where
  "rebase_section delta s = (if allocated_section s then s\<lparr>se_addr := se_addr s + delta\<rparr> else s)"

definition rebase_elf :: "elf_image \<Rightarrow> bytes \<Rightarrow> int \<Rightarrow> elf_image" where
  "rebase_elf elf data delta =
     (let entry = eh_entry (el_header elf);
          entry' = (if list_ex (\<lambda>s. contains_address s entry) (loaded_segments elf) then entry + delta else entry)
      in \<lparr> el_header = (el_header elf)\<lparr>eh_entry := entry'\<rparr>,
           el_endianness = el_endianness elf,
           el_program_headers = map (rebase_segment delta) (el_program_headers elf),
           el_sections = map (rebase_section delta) (el_sections elf),
           el_raw_data = data \<rparr>)"

definition rebase_nid_entry :: "elf_image \<Rightarrow> int \<Rightarrow> nid_entry \<Rightarrow> (view_error, nid_entry) result" where
  "rebase_nid_entry elf delta ne =
     bindE (rebase_nonzero_loaded_address elf (ne_address ne) delta) (\<lambda>a.
     bindE (rebase_nonzero_loaded_address elf (ne_nid_address ne) delta) (\<lambda>n.
     Inr (ne\<lparr>ne_address := a, ne_nid_address := n\<rparr>)))"

definition rebase_library :: "elf_image \<Rightarrow> int \<Rightarrow> library \<Rightarrow> (view_error, library) result" where
  "rebase_library elf delta lib =
     bindE (rebase_loaded_address elf (li_address lib) delta) (\<lambda>a.
     bindE (mapE (rebase_nid_entry elf delta) (li_functions lib)) (\<lambda>fs.
     bindE (mapE (rebase_nid_entry elf delta) (li_variables lib)) (\<lambda>vs.
     Inr (lib\<lparr>li_address := a, li_functions := fs, li_variables := vs\<rparr>))))"

definition rebase_module_info :: "elf_image \<Rightarrow> int \<Rightarrow> module_info \<Rightarrow> (view_error, module_info) result" where
  "rebase_module_info elf delta m =
     bindE (rebase_nonzero_loaded_address elf (mi_gp_value m) delta) (\<lambda>gp.
     bindE (rebase_nonzero_loaded_address elf (mi_exports_start m) delta) (\<lambda>xs.
     bindE (rebase_nonzero_loaded_range_end elf (mi_exports_end m) delta) (\<lambda>xe.
     bindE (rebase_nonzero_loaded_address elf (mi_imports_start m) delta) (\<lambda>is.
     bindE (rebase_nonzero_loaded_range_end elf (mi_imports_end m) delta) (\<lambda>ie.
     bindE (rebase_loaded_address elf (mi_address m) delta) (\<lambda>a.
     Inr (m\<lparr>mi_gp_value := gp, mi_exports_start := xs, mi_exports_end := xe,
            mi_imports_start := is, mi_imports_end := ie, mi_address := a\<rparr>)))))))"

definition rebase_model ::
    "'w executable_model \<Rightarrow> elf_image \<Rightarrow> elf_image \<Rightarrow> int \<Rightarrow> (view_error, 'w executable_model) result" where
  "rebase_model m elf elf' delta =
     bindE (case xm_module_info m of None \<Rightarrow> Inr None
            | Some mi \<Rightarrow> bindE (rebase_module_info elf delta mi) (\<lambda>mi'. Inr (Some mi'))) (\<lambda>mi.
     bindE (mapE (rebase_library elf delta) (xm_imports m)) (\<lambda>imports.
     bindE (mapE (rebase_library elf delta) (xm_exports m)) (\<lambda>exports.
     Inr (m\<lparr>xm_elf_header := Some (el_header elf'), xm_program_headers := el_program_headers elf',
            xm_sections := el_sections elf', xm_module_info := mi, xm_imports := imports,
            xm_exports := exports\<rparr>))))"

section \<open>Applying the relocations\<close>

definition segment_bases :: "elf_image \<Rightarrow> int \<Rightarrow> (int \<rightharpoonup> int)" where
  "segment_bases elf delta =
     foldl (\<lambda>m s. m(ph_index s \<mapsto> ph_vaddr s + delta)) Map.empty (loaded_segments elf)"

text \<open>\<open>int.from_bytes(patched[off:off + 4], "little")\<close>.\<close>

definition word_at :: "bytes \<Rightarrow> int \<Rightarrow> int" where
  "word_at xs off = le_int (py_slice xs off (off + 4))"

text \<open>\<open>patched[off:off + 4] = word.to_bytes(4, "little")\<close>.\<close>

definition patch_word :: "bytes \<Rightarrow> int \<Rightarrow> int \<Rightarrow> bytes" where
  "patch_word xs off word = take (nat off) xs @ le_bytes 4 word @ drop (nat (off + 4)) xs"

definition apply_relocation ::
    "bytes \<Rightarrow> elf_image \<Rightarrow> (int \<rightharpoonup> int) \<Rightarrow> relocation list \<Rightarrow> nat \<Rightarrow> bytes \<Rightarrow> (view_error, bytes) result" where
  "apply_relocation data elf bases rels i patched =
     (let rel = rels ! i; target_index = snd (relocation_segments rel) in
      bindE (view_segment elf target_index Target_Segment) (\<lambda>_.
      bindE (source_file_offset elf rel) (\<lambda>(_, off).
      if off < 0 \<or> off + 4 > blen patched then Inl View_Word_Beyond_Input else
      let word = word_at patched off in
      bindE (if re_type rel = 5 \<and> re_addend rel = None then type_a_hi16_low_half data elf rels i
             else Inr None) (\<lambda>lo16.
      case bases target_index of
        None \<Rightarrow> Inl (View_key_error target_index)
      | Some base \<Rightarrow>
          (case apply_psp_relocation_word word rel base lo16 of
             Inl e \<Rightarrow> Inl (View_Relocation e)
           | Inr w \<Rightarrow> if 0 \<le> w \<and> w < 2 ^ 32 then Inr (patch_word patched off w) else Inl View_overflow)))))"

definition apply_relocations ::
    "bytes \<Rightarrow> elf_image \<Rightarrow> (int \<rightharpoonup> int) \<Rightarrow> relocation list \<Rightarrow> (view_error, bytes) result" where
  "apply_relocations data elf bases rels =
     foldE (apply_relocation data elf bases rels) [0..<length rels] data"

definition build_relocated_load_view ::
    "bytes \<Rightarrow> elf_image \<Rightarrow> 'w executable_model \<Rightarrow> int \<Rightarrow> (view_error, 'w load_view) result" where
  "build_relocated_load_view data elf m load_address =
     (if el_endianness elf \<noteq> Little then Inl View_Not_Little_Endian
      else if load_address < 0 \<or> load_address > UINT32_MAX then Inl View_Bad_Load_Address
      else if loaded_segments elf = [] then Inl View_No_Load_Segment
      else
        let base = Min (set (map ph_vaddr (loaded_segments elf)));
            delta = load_address - base in
        if \<not> (- UINT32_LIMIT < delta \<and> delta < UINT32_LIMIT) then Inl View_Delta_Range else
        bindE (validate_rebased_layout elf delta) (\<lambda>_.
        let bases = segment_bases elf delta; rels = xm_relocations m in
        bindE (apply_relocations data elf bases rels) (\<lambda>patched.
        let elf' = rebase_elf elf patched delta in
        bindE (rebase_model m elf elf' delta) (\<lambda>m'.
        Inr \<lparr> lv_load_address = load_address, lv_original_image_base = base, lv_address_delta = delta,
              lv_segment_bases = bases, lv_applied_relocations = blen rels, lv_elf = elf',
              lv_model = m' \<rparr>))))"

section \<open>Writing words\<close>

lemma length_patch_word [simp]:
  "0 \<le> off \<Longrightarrow> off + 4 \<le> blen xs \<Longrightarrow> length (patch_word xs off w) = length xs"
  by (simp add: patch_word_def nat_add_distrib)

lemma patch_word_nth:
  assumes "0 \<le> off" "off + 4 \<le> blen xs" "k < length xs" "int k < off \<or> off + 4 \<le> int k"
  shows "patch_word xs off w ! k = xs ! k"
proof -
  have [simp]: "nat (off + 4) = nat off + 4" using assms(1) by simp
  show ?thesis using assms by (auto simp: patch_word_def nth_append min_def)
qed

lemma word_at_patch_same:
  assumes "0 \<le> off" "off + 4 \<le> blen xs" "0 \<le> w" "w < 2 ^ 32"
  shows "word_at (patch_word xs off w) off = w"
proof -
  have "py_slice (patch_word xs off w) off (off + 4) = le_bytes 4 w"
    using assms by (simp add: patch_word_def py_slice_append_right py_slice_append_left py_slice_in)
  then show ?thesis using assms by (simp add: word_at_def le_int_le_bytes)
qed

lemma word_at_cong:
  assumes "length ys = length xs" "0 \<le> off" "off + 4 \<le> blen xs"
    and "\<And>k. k < length xs \<Longrightarrow> off \<le> int k \<Longrightarrow> int k < off + 4 \<Longrightarrow> ys ! k = xs ! k"
  shows "word_at ys off = word_at xs off"
proof -
  have "py_slice ys off (off + 4) = py_slice xs off (off + 4)"
  proof (rule nth_equalityI)
    show "length (py_slice ys off (off + 4)) = length (py_slice xs off (off + 4))"
      using assms by (simp add: py_slice_in)
    fix i assume "i < length (py_slice ys off (off + 4))"
    then have "i < 4" "nat off + i < length xs"
      using assms(1-3) by (auto simp: py_slice_in)
    with assms show "py_slice ys off (off + 4) ! i = py_slice xs off (off + 4) ! i"
      by (simp add: py_slice_nth)
  qed
  then show ?thesis by (simp add: word_at_def)
qed

text \<open>
  A loop that rewrites one word of the bytes at every turn: \<open>off i\<close> is where turn \<open>i\<close> writes and
  \<open>val i\<close> the new word as a function of the old one.
\<close>

locale word_patches =
  fixes step :: "nat \<Rightarrow> bytes \<Rightarrow> ('e, bytes) result"
    and off :: "nat \<Rightarrow> int"
    and val :: "nat \<Rightarrow> int \<Rightarrow> int option"
  assumes step_patches:
    "step i xs = Inr ys \<Longrightarrow> 0 \<le> off i \<and> off i + 4 \<le> blen xs \<and>
       (\<exists>w. val i (word_at xs (off i)) = Some w \<and> 0 \<le> w \<and> w < 2 ^ 32 \<and> ys = patch_word xs (off i) w)"
begin

lemma step_length: "step i xs = Inr ys \<Longrightarrow> length ys = length xs"
  using step_patches by fastforce

lemma fold_length: "foldE step is xs = Inr ys \<Longrightarrow> length ys = length xs"
  by (erule foldE_invariant [where P = "\<lambda>zs. length zs = length xs"]) (simp_all add: step_length)

lemma fold_in_range:
  "foldE step is xs = Inr ys \<Longrightarrow> i \<in> set is \<Longrightarrow> 0 \<le> off i \<and> off i + 4 \<le> blen xs"
proof (induction "is" arbitrary: xs)
  case (Cons j js)
  then obtain zs where "step j xs = Inr zs" "foldE step js zs = Inr ys"
    by (auto simp: bindE_Inr_iff)
  with Cons.IH [of zs] Cons.prems(2) step_patches [of j xs zs] step_length [of j xs zs] show ?case
    by (cases "i = j") simp_all
qed simp

lemma fold_untouched:
  "foldE step is xs = Inr ys \<Longrightarrow> k < length xs \<Longrightarrow>
     (\<forall>i \<in> set is. int k < off i \<or> off i + 4 \<le> int k) \<Longrightarrow> ys ! k = xs ! k"
proof (induction "is" arbitrary: xs)
  case (Cons j js)
  then obtain zs where z: "step j xs = Inr zs" "foldE step js zs = Inr ys"
    by (auto simp: bindE_Inr_iff)
  then have "ys ! k = zs ! k" using Cons.prems step_length [of j xs zs] by (intro Cons.IH) auto
  also have "zs ! k = xs ! k"
    using step_patches [OF z(1)] Cons.prems by (auto intro: patch_word_nth)
  finally show ?case .
qed simp

lemma fold_disjoint_words:
  assumes "foldE step is xs = Inr ys" "distinct is" "i \<in> set is"
    and "\<And>i j. i \<in> set is \<Longrightarrow> j \<in> set is \<Longrightarrow> i \<noteq> j \<Longrightarrow> off i + 4 \<le> off j \<or> off j + 4 \<le> off i"
  shows "val i (word_at xs (off i)) = Some (word_at ys (off i))"
  using assms
proof (induction "is" arbitrary: xs)
  case (Cons j js)
  then obtain zs where z: "step j xs = Inr zs" "foldE step js zs = Inr ys"
    by (auto simp: bindE_Inr_iff)
  from step_patches [OF z(1)] obtain w where w: "0 \<le> off j" "off j + 4 \<le> blen xs"
    "val j (word_at xs (off j)) = Some w" "0 \<le> w" "w < 2 ^ 32" "zs = patch_word xs (off j) w" by blast
  show ?case
  proof (cases "i = j")
    case True
    have "word_at ys (off j) = word_at zs (off j)"
    proof (rule word_at_cong)
      show "length ys = length zs" using z(2) by (rule fold_length)
      show "ys ! k = zs ! k" if "k < length zs" "off j \<le> int k" "int k < off j + 4" for k
      proof (rule fold_untouched [OF z(2) that(1)], intro ballI)
        fix i assume "i \<in> set js"
        with Cons.prems(2) have "off i + 4 \<le> off j \<or> off j + 4 \<le> off i"
          by (intro Cons.prems(4)) auto
        with that show "int k < off i \<or> off i + 4 \<le> int k" by auto
      qed
    qed (use w in auto)
    with True w show ?thesis by (simp add: word_at_patch_same)
  next
    case False
    with Cons.prems(3) have i: "i \<in> set js" by simp
    have "val i (word_at zs (off i)) = Some (word_at ys (off i))"
      using Cons.prems(2,4) i by (intro Cons.IH [OF z(2)]) auto
    moreover have "word_at zs (off i) = word_at xs (off i)"
    proof (rule word_at_cong)
      show "0 \<le> off i" "off i + 4 \<le> blen xs"
        using fold_in_range [OF z(2) i] step_length [OF z(1)] by auto
      show "zs ! k = xs ! k" if "k < length xs" "off i \<le> int k" "int k < off i + 4" for k
        using that Cons.prems(4) [of i j] i False w by (auto intro!: patch_word_nth)
    qed (use w in simp)
    ultimately show ?thesis by simp
  qed
qed simp

end

section \<open>What a load view promises\<close>

text \<open>
  Where relocation \<open>i\<close> writes, and the word it writes: the base of its target segment and, for
  a Type-A \<open>HI16\<close>, its companion's low half in the input.
\<close>

definition relocation_offset :: "elf_image \<Rightarrow> relocation \<Rightarrow> int" where
  "relocation_offset elf rel =
     ph_offset (el_program_headers elf ! nat (fst (relocation_segments rel))) + re_offset rel"

definition relocated_word ::
    "bytes \<Rightarrow> elf_image \<Rightarrow> (int \<rightharpoonup> int) \<Rightarrow> relocation list \<Rightarrow> nat \<Rightarrow> int \<Rightarrow> int option" where
  "relocated_word data elf bases rels i word =
     (case (if re_type (rels ! i) = 5 \<and> re_addend (rels ! i) = None
            then type_a_hi16_low_half data elf rels i else Inr None) of
        Inl _ \<Rightarrow> None
      | Inr lo16 \<Rightarrow>
          (case bases (snd (relocation_segments (rels ! i))) of
             None \<Rightarrow> None
           | Some base \<Rightarrow>
               (case apply_psp_relocation_word word (rels ! i) base lo16 of Inl _ \<Rightarrow> None | Inr w \<Rightarrow> Some w)))"

lemma source_file_offset_eq:
  "source_file_offset elf rel = Inr (s, off) \<Longrightarrow> off = relocation_offset elf rel"
  by (auto simp: source_file_offset_def relocation_offset_def view_segment_def Let_def bindE_Inr_iff
      split: if_splits)

lemma apply_relocation_patches:
  assumes "apply_relocation data elf bases rels i xs = Inr ys"
  shows "0 \<le> relocation_offset elf (rels ! i) \<and> relocation_offset elf (rels ! i) + 4 \<le> blen xs \<and>
    (\<exists>w. relocated_word data elf bases rels i (word_at xs (relocation_offset elf (rels ! i))) = Some w \<and>
       0 \<le> w \<and> w < 2 ^ 32 \<and> ys = patch_word xs (relocation_offset elf (rels ! i)) w)"
proof -
  let ?rel = "rels ! i" and ?t = "snd (relocation_segments (rels ! i))"
  from assms obtain seg where seg: "view_segment elf ?t Target_Segment = Inr seg"
    by (auto simp: apply_relocation_def Let_def bindE_Inr_iff)
  from assms seg obtain s off where off: "source_file_offset elf ?rel = Inr (s, off)"
    by (auto simp: apply_relocation_def Let_def bindE_Inr_iff)
  note o = source_file_offset_eq [OF off]
  from assms seg off have rng: "0 \<le> off" "off + 4 \<le> blen xs"
    by (auto simp: apply_relocation_def Let_def split: if_splits)
  from assms seg off rng obtain lo where lo: "(if re_type ?rel = 5 \<and> re_addend ?rel = None
      then type_a_hi16_low_half data elf rels i else Inr None) = Inr lo"
    by (auto simp: apply_relocation_def Let_def bindE_Inr_iff)
  from assms seg off rng lo obtain base where base: "bases ?t = Some base"
    by (auto simp: apply_relocation_def Let_def split: option.splits)
  from assms seg off rng lo base obtain w where w: "apply_psp_relocation_word (word_at xs off) ?rel base lo = Inr w"
    by (auto simp: apply_relocation_def Let_def split: sum.splits)
  from assms seg off rng lo base w have "0 \<le> w" "w < 2 ^ 32" "ys = patch_word xs off w"
    by (auto simp: apply_relocation_def Let_def split: if_splits)
  then show ?thesis using rng lo base w by (simp add: relocated_word_def o [symmetric])
qed

interpretation load_patches: word_patches "apply_relocation data elf bases rels"
    "\<lambda>i. relocation_offset elf (rels ! i)" "relocated_word data elf bases rels"
  for data elf bases rels
proof (unfold_locales, goal_cases)
  case (1 i xs ys)
  then show ?case by (rule apply_relocation_patches)
qed

lemmas apply_relocations_facts = load_patches.fold_length load_patches.fold_untouched
  load_patches.fold_disjoint_words

lemma build_view_parts:
  assumes "build_relocated_load_view data elf m load_address = Inr v"
  obtains patched m' where
    "lv_original_image_base v = Min (set (map ph_vaddr (loaded_segments elf)))"
    "lv_address_delta v = load_address - lv_original_image_base v"
    "validate_rebased_layout elf (lv_address_delta v) = Inr ()"
    "lv_segment_bases v = segment_bases elf (lv_address_delta v)"
    "apply_relocations data elf (lv_segment_bases v) (xm_relocations m) = Inr patched"
    "lv_elf v = rebase_elf elf patched (lv_address_delta v)"
    "rebase_model m elf (lv_elf v) (lv_address_delta v) = Inr m'" "lv_model v = m'"
    "loaded_segments elf \<noteq> []" "lv_load_address v = load_address"
    "lv_applied_relocations v = blen (xm_relocations m)"
  using assms that
  by (auto simp: build_relocated_load_view_def Let_def bindE_Inr_iff split: if_splits)

lemma load_view_bytes:
  assumes "build_relocated_load_view data elf m load_address = Inr v"
  shows "foldE (apply_relocation data elf (lv_segment_bases v) (xm_relocations m))
           [0..<length (xm_relocations m)] data = Inr (el_raw_data (lv_elf v))"
  using assms by (rule build_view_parts) (simp add: apply_relocations_def rebase_elf_def Let_def)

text \<open>
  A load view changes only the words its relocations name: the patched image has
  the length of the input, and a byte that no relocated word covers is the input's byte.
\<close>

theorem load_view_touches_only_relocated_words:
  assumes "build_relocated_load_view data elf m load_address = Inr v"
  shows "length (el_raw_data (lv_elf v)) = length data \<and>
    (\<forall>k < length data.
       list_all (\<lambda>rel. int k < relocation_offset elf rel \<or> relocation_offset elf rel + 4 \<le> int k)
         (xm_relocations m) \<longrightarrow> el_raw_data (lv_elf v) ! k = data ! k)"
proof (intro conjI allI impI)
  note fold = load_view_bytes [OF assms]
  show "length (el_raw_data (lv_elf v)) = length data"
    by (rule load_patches.fold_length [OF fold])
  fix k
  assume k: "k < length data" and free: "list_all (\<lambda>rel. int k < relocation_offset elf rel \<or>
    relocation_offset elf rel + 4 \<le> int k) (xm_relocations m)"
  show "el_raw_data (lv_elf v) ! k = data ! k"
    by (rule load_patches.fold_untouched [OF fold k]) (use free in \<open>simp add: list_all_length\<close>)
qed

text \<open>
  Property C9. Each relocation is applied once, to the input's word: when no two relocated
  words overlap, the word a load view holds where relocation \<open>i\<close> points is
  \<open>apply_psp_relocation_word\<close> of the word the input holds there, with the new base of its
  target segment, whatever the order and number of the other relocations.
\<close>

theorem load_view_relocates_each_word:
  assumes "build_relocated_load_view data elf m load_address = Inr v"
    and "sorted_wrt (\<lambda>r s. relocation_offset elf r + 4 \<le> relocation_offset elf s \<or>
           relocation_offset elf s + 4 \<le> relocation_offset elf r) (xm_relocations m)"
    and "i < length (xm_relocations m)"
  shows "relocated_word data elf (lv_segment_bases v) (xm_relocations m) i
      (word_at data (relocation_offset elf (xm_relocations m ! i)))
    = Some (word_at (el_raw_data (lv_elf v)) (relocation_offset elf (xm_relocations m ! i)))"
proof (rule load_patches.fold_disjoint_words [OF load_view_bytes [OF assms(1)]])
  fix a b
  assume "a \<in> set [0..<length (xm_relocations m)]" "b \<in> set [0..<length (xm_relocations m)]" "a \<noteq> b"
  then show "relocation_offset elf (xm_relocations m ! a) + 4 \<le> relocation_offset elf (xm_relocations m ! b) \<or>
    relocation_offset elf (xm_relocations m ! b) + 4 \<le> relocation_offset elf (xm_relocations m ! a)"
    using assms(2) unfolding sorted_wrt_iff_nth_less by (metis atLeastLessThan_iff linorder_neqE_nat set_upt)
qed (use assms(3) in simp_all)

lemma segment_offset_rebased:
  "segment_offset phs a = Some off \<Longrightarrow> segment_offset (map (rebase_segment delta) phs) (a + delta) = Some off"
  by (induction phs) (auto simp: rebase_segment_def PT_LOAD_def split: if_splits)

lemma validate_segment_range:
  "validate_segment d s = Inr () \<Longrightarrow> 0 \<le> ph_vaddr s + d \<and> ph_vaddr s + d + ph_memsz s \<le> 2 ^ 32"
  by (auto simp: validate_segment_def require_u32_range_def require_u32_address_def
      UINT32_LIMIT_def bindE_Inr_iff split: if_splits)

text \<open>
  The view is the module moved as a whole: its lowest loaded segment starts at the
  load address, every loaded segment lies in the 32-bit address space, and an address backed by
  a file segment of the original translates, moved by the delta, to the same file offset.
\<close>

theorem load_view_moves_addresses:
  assumes "build_relocated_load_view data elf m load_address = Inr v"
    and "segment_offset (el_program_headers elf) a = Some off"
  shows "vaddr_to_offset (lv_elf v) (a + lv_address_delta v) = Some off \<and>
    Min (set (map ph_vaddr (loaded_segments (lv_elf v)))) = load_address \<and>
    list_all (\<lambda>s. 0 \<le> ph_vaddr s \<and> ph_vaddr s + ph_memsz s \<le> 2 ^ 32) (loaded_segments (lv_elf v))"
proof -
  let ?d = "lv_address_delta v"
  from assms(1) obtain patched where
    base: "lv_original_image_base v = Min (set (map ph_vaddr (loaded_segments elf)))"
    and d: "?d = load_address - lv_original_image_base v"
    and valid: "validate_rebased_layout elf ?d = Inr ()"
    and elf: "lv_elf v = rebase_elf elf patched ?d" and ne: "loaded_segments elf \<noteq> []"
    by (rule build_view_parts)
  have phs: "el_program_headers (lv_elf v) = map (rebase_segment ?d) (el_program_headers elf)"
    by (simp add: elf rebase_elf_def Let_def)
  have loads: "loaded_segments (lv_elf v) = map (rebase_segment ?d) (loaded_segments elf)"
    by (simp add: loaded_segments_def phs filter_map comp_def rebase_segment_def cong: filter_cong)
      (auto simp: rebase_segment_def intro!: arg_cong [where f = "map _"] filter_cong)
  have tr: "vaddr_to_offset (lv_elf v) (a + ?d) = Some off"
    using segment_offset_rebased [OF assms(2), of ?d] by (simp add: vaddr_to_offset_def phs)
  have shifted: "ph_vaddr (rebase_segment ?d s) = ph_vaddr s + ?d" if "s \<in> set (loaded_segments elf)" for s
    using that by (auto simp: loaded_segments_def rebase_segment_def)
  have "set (map ph_vaddr (loaded_segments (lv_elf v))) = (\<lambda>x. x + ?d) ` set (map ph_vaddr (loaded_segments elf))"
    unfolding loads using shifted by (force simp: image_iff)
  then have mn: "Min (set (map ph_vaddr (loaded_segments (lv_elf v)))) = load_address"
    using mono_Min_commute [of "\<lambda>x. x + ?d" "set (map ph_vaddr (loaded_segments elf))"] ne base d
    by (simp add: mono_def)
  have ok: "validate_segment ?d s = Inr ()" if "s \<in> set (loaded_segments elf)" for s
  proof -
    from valid obtain us where "mapE (validate_segment ?d) (loaded_segments elf) = Inr us"
      by (auto simp: validate_rebased_layout_def bindE_Inr_iff)
    then show ?thesis using that by (auto simp: mapE_Inr_iff in_set_conv_nth)
  qed
  have "0 \<le> ph_vaddr s + ?d \<and> ph_vaddr s + ?d + ph_memsz s \<le> 2 ^ 32"
    if "s \<in> set (loaded_segments elf)" for s
    by (rule validate_segment_range [OF ok [OF that]])
  moreover have "ph_memsz (rebase_segment ?d s) = ph_memsz s" for s by (simp add: rebase_segment_def)
  ultimately have "list_all (\<lambda>s. 0 \<le> ph_vaddr s \<and> ph_vaddr s + ph_memsz s \<le> 2 ^ 32) (loaded_segments (lv_elf v))"
    unfolding loads by (auto simp: list_all_iff shifted)
  with tr mn show ?thesis by blast
qed

section \<open>A sample module\<close>

text \<open>
  Eight bytes in one loadable segment, the first word relocated by \<open>R_MIPS_32\<close>; a second
  loadable segment has no memory.
\<close>

definition sample_view_elf :: elf_image where
  "sample_view_elf = sample_rel2_elf\<lparr>
     el_program_headers :=
       [sample_load_segment\<lparr>ph_filesz := 8\<rparr>,
        sample_load_segment\<lparr>ph_index := 1, ph_vaddr := 64, ph_filesz := 0, ph_memsz := 0\<rparr>],
     el_raw_data := [0x10, 0, 0, 0, 1, 2, 3, 4]\<rparr>"

definition sample_view_relocation :: "int \<Rightarrow> relocation" where
  "sample_view_relocation target =
     (sample_rel2 2)\<lparr>re_source := From_Program_Header, re_offset := 0, re_info := 2 + 0x10000 * target,
       re_source_segment_index := None, re_target_segment_index := None, re_addend := None\<rparr>"

definition sample_view_model :: "int \<Rightarrow> unit executable_model" where
  "sample_view_model target =
     \<lparr> xm_source_name = ''sample.prx'', xm_input_kind = Elf32_Input,
       xm_executable_kind = Prx_Executable, xm_needs_decryption = False, xm_endianness = Some Little,
       xm_elf_header = Some (el_header sample_view_elf),
       xm_program_headers = el_program_headers sample_view_elf, xm_sections = [],
       xm_container_header = None, xm_module_info = None, xm_imports = [], xm_exports = [],
       xm_relocations = [sample_view_relocation target], xm_warnings = [], xm_recovery = None \<rparr>"

definition sample_view :: "unit load_view" where
  "sample_view = projr (build_relocated_load_view (el_raw_data sample_view_elf) sample_view_elf
     (sample_view_model 0) 0x08804000)"

lemma sample_view_builds:
  "build_relocated_load_view (el_raw_data sample_view_elf) sample_view_elf (sample_view_model 0) 0x08804000
    = Inr sample_view"
proof -
  have "\<not> isl (build_relocated_load_view (el_raw_data sample_view_elf) sample_view_elf
      (sample_view_model 0) 0x08804000)" by code_simp
  then show ?thesis by (simp add: sample_view_def)
qed

lemma sample_view_facts:
  "el_raw_data (lv_elf sample_view) = [0x10, 0x40, 0x80, 0x08, 1, 2, 3, 4]"
  "lv_address_delta sample_view = 0x08804000"
  by code_simp+

theorem load_view_touches_only_relocated_words_witness:
  "length (el_raw_data (lv_elf sample_view)) = length (el_raw_data sample_view_elf) \<and>
   el_raw_data (lv_elf sample_view) ! 5 = el_raw_data sample_view_elf ! 5"
  using load_view_touches_only_relocated_words [OF sample_view_builds]
  by (simp add: sample_view_elf_def sample_view_model_def sample_view_relocation_def relocation_offset_def
      relocation_segments_def segment_index_def sample_load_segment_def)

theorem load_view_relocates_each_word_witness:
  "relocated_word (el_raw_data sample_view_elf) sample_view_elf (lv_segment_bases sample_view)
      (xm_relocations (sample_view_model 0)) 0
      (word_at (el_raw_data sample_view_elf) (relocation_offset sample_view_elf (sample_view_relocation 0)))
    = Some (word_at (el_raw_data (lv_elf sample_view)) (relocation_offset sample_view_elf (sample_view_relocation 0)))"
  using load_view_relocates_each_word [OF sample_view_builds, of 0]
  by (simp add: sample_view_model_def)

theorem load_view_moves_addresses_witness:
  "vaddr_to_offset (lv_elf sample_view) (5 + lv_address_delta sample_view) = Some 5 \<and>
   Min (set (map ph_vaddr (loaded_segments (lv_elf sample_view)))) = 0x08804000 \<and>
   list_all (\<lambda>s. 0 \<le> ph_vaddr s \<and> ph_vaddr s + ph_memsz s \<le> 2 ^ 32) (loaded_segments (lv_elf sample_view))"
  by (rule load_view_moves_addresses [OF sample_view_builds])
    (simp add: sample_view_elf_def sample_load_segment_def)

text \<open>
  The segment-base dictionary holds the loadable segments with memory, but the
  check of a relocation's target asks only for a loadable one: a relocation against a
  \<open>PT_LOAD\<close> segment of no memory passes the checks and ends in a \<open>KeyError\<close>, not in a
  \<open>ParseError\<close>.
\<close>

lemma load_view_zero_memory_target_key_error:
  "(case build_relocated_load_view (el_raw_data sample_view_elf) sample_view_elf (sample_view_model 1) 0x08804000 of
      Inl e \<Rightarrow> e = View_key_error 1 | Inr _ \<Rightarrow> False)"
  by code_simp

end
