(* ===== verification/Placement.thy ===== *)
theory Placement
  imports Psp_Model
begin

text \<open>
  \<open>placement.py\<close>: the addresses at which the modules of a disc are analysed. A loop that may
  not return is a partial function into \<^typ>\<open>'a option\<close>: \<open>None\<close> is a search that goes on for
  ever, \<open>Some (Inl e)\<close> a \<open>ParseError\<close>, \<open>Some (Inr a)\<close> a returned value.
\<close>

definition ET_EXEC :: int where "ET_EXEC = 2"
definition PSP_USER_MEMORY_BASE :: int where "PSP_USER_MEMORY_BASE = 0x08800000"
definition PSP_USER_RESERVED_PREFIX :: int where "PSP_USER_RESERVED_PREFIX = 0x4000"
definition PSP_FIRST_USER_ALLOCATION :: int where
  "PSP_FIRST_USER_ALLOCATION = PSP_USER_MEMORY_BASE + PSP_USER_RESERVED_PREFIX"
definition PSP_ALLOCATOR_GRAIN :: int where "PSP_ALLOCATOR_GRAIN = 0x10"
definition ADDRESS_LIMIT :: int where "ADDRESS_LIMIT = 2 ^ 32"

datatype placement_error =
    No_Load_Segment | Image_Outside_Space | No_Range_Remains | Boot_Outside_Space
  | No_Elf_Header string

datatype placement_kind = Fixed_Kind | Boot_Kind | Analysis_Kind

datatype placement_evidence =
    Fixed_Addresses | Boot_First_Allocation | Boot_Aligned_Allocation int
  | Additional_Boot | Secondary_Analysis_Only

record 'w placement_input =
  pi_path :: string
  pi_is_boot :: bool
  pi_model :: "'w executable_model"

record module_placement =
  mp_path :: string
  mp_load_address :: int
  mp_original_image_base :: int
  mp_image_size :: int
  mp_image_end :: int
  mp_alignment :: int
  mp_placement_kind :: placement_kind
  mp_placement_confidence :: rat
  mp_runtime_address_claim :: bool
  mp_requires_relocation :: bool
  mp_placement_evidence :: "placement_evidence list"

type_synonym address_range = "int \<times> int"

section \<open>Layout of one module\<close>

definition placed_segments :: "'w executable_model \<Rightarrow> program_header list" where
  "placed_segments m =
     sort_key (\<lambda>s. (ph_vaddr s, ph_index s))
       (filter (\<lambda>s. ph_type s = 1 \<and> ph_memsz s > 0) (xm_program_headers m))"

definition requested_alignment :: "program_header \<Rightarrow> int" where
  "requested_alignment s =
     (if ph_align s \<le> 1 \<or> ph_align s AND (ph_align s - 1) \<noteq> 0 then PSP_ALLOCATOR_GRAIN else ph_align s)"

definition layout :: "'w executable_model \<Rightarrow> (placement_error, int \<times> int \<times> int) result" where
  "layout m =
     (let segments = placed_segments m in
      if segments = [] then Inl No_Load_Segment
      else
        let image_base = Min (set (map ph_vaddr segments));
            image_end = Max (set (map (\<lambda>s. ph_vaddr s + ph_memsz s) segments));
            image_size = image_end - image_base in
        if image_size \<le> 0 \<or> image_end > ADDRESS_LIMIT then Inl Image_Outside_Space
        else Inr (image_base, image_size,
               foldl (\<lambda>al s. max al (requested_alignment s)) PSP_ALLOCATOR_GRAIN segments))"

section \<open>Searching for a free range\<close>

definition align_up :: "int \<Rightarrow> int \<Rightarrow> int" where
  "align_up v al = (v + al - 1) AND NOT (al - 1)"

definition overlap :: "int \<Rightarrow> int \<Rightarrow> address_range list \<Rightarrow> address_range option" where
  "overlap start e occupied = find (\<lambda>(s, t). start < t \<and> s < e) (sort occupied)"

partial_function (option) find_free_from ::
    "int \<Rightarrow> int \<Rightarrow> int \<Rightarrow> address_range list \<Rightarrow> (placement_error, int) result option" where
  "find_free_from candidate sz al occupied =
     (if candidate < 0 \<or> candidate + sz > ADDRESS_LIMIT then Some (Inl No_Range_Remains)
      else case overlap candidate (candidate + sz) occupied of
             None \<Rightarrow> Some (Inr candidate)
           | Some r \<Rightarrow> find_free_from (align_up (snd r) al) sz al occupied)"

declare find_free_from.simps [code]

definition find_free ::
    "int \<Rightarrow> int \<Rightarrow> int \<Rightarrow> address_range list \<Rightarrow> (placement_error, int) result option" where
  "find_free start sz al occupied = find_free_from (align_up start al) sz al occupied"

section \<open>Planning\<close>

definition fixed_placement :: "'w placement_input \<Rightarrow> (placement_error, module_placement) result" where
  "fixed_placement item =
     bindE (layout (pi_model item)) (\<lambda>(base, sz, al).
     Inr \<lparr> mp_path = pi_path item, mp_load_address = base, mp_original_image_base = base,
           mp_image_size = sz, mp_image_end = base + sz, mp_alignment = al,
           mp_placement_kind = Fixed_Kind, mp_placement_confidence = 1,
           mp_runtime_address_claim = True, mp_requires_relocation = False,
           mp_placement_evidence = [Fixed_Addresses] \<rparr>)"

definition boot_placement :: "'w placement_input \<Rightarrow> (placement_error, module_placement) result" where
  "boot_placement item =
     bindE (layout (pi_model item)) (\<lambda>(base, sz, al).
     let a = align_up PSP_FIRST_USER_ALLOCATION al in
     if a + sz > ADDRESS_LIMIT then Inl Boot_Outside_Space
     else Inr \<lparr> mp_path = pi_path item, mp_load_address = a, mp_original_image_base = base,
           mp_image_size = sz, mp_image_end = a + sz, mp_alignment = al,
           mp_placement_kind = Boot_Kind, mp_placement_confidence = 19 / 20,
           mp_runtime_address_claim = True, mp_requires_relocation = True,
           mp_placement_evidence =
             [if a = PSP_FIRST_USER_ALLOCATION then Boot_First_Allocation else Boot_Aligned_Allocation a] \<rparr>)"

definition analysis_placement ::
    "'w placement_input \<Rightarrow> int \<Rightarrow> address_range list \<Rightarrow> placement_evidence \<Rightarrow>
       (placement_error, module_placement) result option" where
  "analysis_placement item cursor occupied ev =
     (case layout (pi_model item) of
        Inl e \<Rightarrow> Some (Inl e)
      | Inr (base, sz, al) \<Rightarrow>
          (case find_free cursor sz al occupied of
             None \<Rightarrow> None
           | Some (Inl e) \<Rightarrow> Some (Inl e)
           | Some (Inr a) \<Rightarrow> Some (Inr
               \<lparr> mp_path = pi_path item, mp_load_address = a, mp_original_image_base = base,
                 mp_image_size = sz, mp_image_end = a + sz, mp_alignment = al,
                 mp_placement_kind = Analysis_Kind, mp_placement_confidence = 1 / 2,
                 mp_runtime_address_claim = False, mp_requires_relocation = True,
                 mp_placement_evidence = [ev] \<rparr>)))"

text \<open>What the two planning loops thread: the plan, the ranges in use and the cursor.\<close>

record plan_state =
  ps_planned :: "string \<rightharpoonup> module_placement"
  ps_ranges :: "address_range list"
  ps_cursor :: int

definition record_placement :: "module_placement \<Rightarrow> int \<Rightarrow> plan_state \<Rightarrow> plan_state" where
  "record_placement p cursor st =
     \<lparr> ps_planned = (ps_planned st)(mp_path p \<mapsto> p),
       ps_ranges = ps_ranges st @ [(mp_load_address p, mp_image_end p)],
       ps_cursor = cursor \<rparr>"

definition place_boot ::
    "bool \<Rightarrow> 'w placement_input \<Rightarrow> plan_state \<Rightarrow> (placement_error, plan_state) result option" where
  "place_boot first item st =
     (case (if first then Some (boot_placement item)
            else analysis_placement item (ps_cursor st) (ps_ranges st) Additional_Boot) of
        None \<Rightarrow> None
      | Some (Inl e) \<Rightarrow> Some (Inl e)
      | Some (Inr p) \<Rightarrow> Some (Inr (record_placement p (max (ps_cursor st) (mp_image_end p)) st)))"

text \<open>A planning loop: one placement after the other, until one raises.\<close>

fun place_all ::
    "('i \<Rightarrow> plan_state \<Rightarrow> (placement_error, plan_state) result option) \<Rightarrow> 'i list \<Rightarrow> plan_state \<Rightarrow>
       (placement_error, plan_state) result option" where
  "place_all place [] st = Some (Inr st)"
| "place_all place (item # items) st =
     (case place item st of
        None \<Rightarrow> None | Some (Inl e) \<Rightarrow> Some (Inl e) | Some (Inr st') \<Rightarrow> place_all place items st')"

definition place_boots ::
    "'w placement_input list \<Rightarrow> plan_state \<Rightarrow> (placement_error, plan_state) result option" where
  "place_boots items st =
     (case items of
        [] \<Rightarrow> Some (Inr st)
      | item # rest \<Rightarrow>
          (case place_boot True item st of
             None \<Rightarrow> None | Some (Inl e) \<Rightarrow> Some (Inl e)
           | Some (Inr st') \<Rightarrow> place_all (place_boot False) rest st'))"

definition place_secondary ::
    "'w placement_input \<Rightarrow> plan_state \<Rightarrow> (placement_error, plan_state) result option" where
  "place_secondary item st =
     (case analysis_placement item (ps_cursor st) (ps_ranges st) Secondary_Analysis_Only of
        None \<Rightarrow> None
      | Some (Inl e) \<Rightarrow> Some (Inl e)
      | Some (Inr p) \<Rightarrow> Some (Inr (record_placement p (mp_image_end p) st)))"

text \<open>The fixed placements are an insertion-ordered dictionary.\<close>

definition place_fixed ::
    "'w placement_input \<Rightarrow> (string \<times> module_placement) list \<Rightarrow>
       (placement_error, (string \<times> module_placement) list) result" where
  "place_fixed item fixed =
     (case xm_elf_header (pi_model item) of
        None \<Rightarrow> Inl (No_Elf_Header (pi_path item))
      | Some h \<Rightarrow>
          if eh_file_type h = ET_EXEC
          then bindE (fixed_placement item) (\<lambda>p. Inr (dict_set fixed (pi_path item) p))
          else Inr fixed)"

definition placement_order :: "'w placement_input list \<Rightarrow> 'w placement_input list" where
  "placement_order inputs = sort_key (\<lambda>item. casefold (pi_path item)) inputs"

definition plan_module_placements ::
    "'w placement_input list \<Rightarrow> (placement_error, module_placement list) result option" where
  "plan_module_placements inputs =
     (let ordered = placement_order inputs in
      case foldE place_fixed ordered [] of
        Inl e \<Rightarrow> Some (Inl e)
      | Inr fixed \<Rightarrow>
          let relocatable = filter (\<lambda>item. pi_path item \<notin> fst ` set fixed) ordered;
              boots = placement_order (filter pi_is_boot relocatable);
              secondaries = placement_order (filter (\<lambda>item. \<not> pi_is_boot item) relocatable)
          in (case place_boots boots
                     \<lparr> ps_planned = map_of fixed, ps_ranges = [], ps_cursor = PSP_FIRST_USER_ALLOCATION \<rparr> of
                None \<Rightarrow> None
              | Some (Inl e) \<Rightarrow> Some (Inl e)
              | Some (Inr st) \<Rightarrow>
                  let occupied = map (\<lambda>(_, p). (mp_load_address p, mp_image_end p)) fixed @ ps_ranges st
                  in (case place_all place_secondary secondaries (st\<lparr>ps_ranges := occupied\<rparr>) of
                        None \<Rightarrow> None
                      | Some (Inl e) \<Rightarrow> Some (Inl e)
                      | Some (Inr st') \<Rightarrow>
                          Some (Inr (map (\<lambda>item. the (ps_planned st' (pi_path item))) ordered)))))"

section \<open>Powers of two\<close>

definition pow2 :: "int \<Rightarrow> bool" where
  "pow2 al \<longleftrightarrow> (\<exists>n. al = 2 ^ n)"

lemma pow2_pos: "pow2 al \<Longrightarrow> 0 < al"
  by (auto simp: pow2_def)

lemma and_pred_pow2:
  "0 < x \<Longrightarrow> x AND (x - 1) = 0 \<Longrightarrow> pow2 x"
proof (induction "nat x" arbitrary: x rule: less_induct)
  case less
  show ?case
  proof (cases "even x")
    case True
    then obtain y where y: "x = 2 * y" by (auto elim: evenE)
    have "(2 * y - 1) div 2 = y - 1" by presburger
    then have "x AND (x - 1) = 2 * (y AND (y - 1))"
      by (subst and_int_rec) (simp add: y)
    with less.prems y less.hyps [of y] have "pow2 y" by simp
    then show ?thesis by (metis pow2_def power_Suc y)
  next
    case False
    then obtain z where z: "x = 2 * z + 1" by (auto elim: oddE)
    have "x AND (x - 1) = x - 1" by (subst and_int_rec) (simp add: z)
    with less.prems show ?thesis by (auto simp: pow2_def intro: exI [of _ 0])
  qed
qed

lemma align_up_pow2:
  assumes "pow2 al"
  shows "align_up v al = (v + al - 1) div al * al"
proof -
  from assms obtain n where n: "al = 2 ^ n" by (auto simp: pow2_def)
  have "x AND NOT (mask n) = push_bit n (drop_bit n x)" for x :: int
    by (rule bit_eqI) (auto simp: bit_simps)
  then show ?thesis
    by (simp add: align_up_def n mask_eq_exp_minus_1 [symmetric] push_bit_eq_mult drop_bit_eq_div)
qed

lemma align_up_bounds:
  assumes "pow2 al"
  shows "v \<le> align_up v al" "align_up v al < v + al" "al dvd align_up v al"
proof -
  have e: "align_up v al = v + al - 1 - (v + al - 1) mod al"
    by (simp add: align_up_pow2 [OF assms] minus_mod_eq_div_mult)
  have "0 \<le> (v + al - 1) mod al" "(v + al - 1) mod al < al" using pow2_pos [OF assms] by simp_all
  with e show "v \<le> align_up v al" "align_up v al < v + al" by linarith+
  show "al dvd align_up v al" by (simp add: align_up_pow2 [OF assms])
qed

text \<open>\<open>align_up v al\<close> is the least multiple of \<open>al\<close> from \<open>v\<close> on.\<close>

lemma align_up_least:
  assumes "pow2 al" "al dvd b" "v \<le> b"
  shows "align_up v al \<le> b"
proof (rule ccontr)
  assume "\<not> align_up v al \<le> b"
  moreover have "al dvd align_up v al - b"
    using align_up_bounds(3) [OF assms(1)] assms(2) by (rule dvd_diff)
  ultimately have "al \<le> align_up v al - b" by (intro zdvd_imp_le) auto
  with align_up_bounds(2) [OF assms(1), of v] assms(3) show False by linarith
qed

lemma requested_alignment_pow2: "pow2 (requested_alignment s)"
proof (cases "ph_align s \<le> 1 \<or> ph_align s AND (ph_align s - 1) \<noteq> 0")
  case True
  then show ?thesis by (auto simp: requested_alignment_def pow2_def PSP_ALLOCATOR_GRAIN_def intro: exI [of _ 4])
next
  case False
  then show ?thesis using and_pred_pow2 [of "ph_align s"] by (simp add: requested_alignment_def)
qed

lemma pow2_max: "pow2 a \<Longrightarrow> pow2 b \<Longrightarrow> pow2 (max a b)"
  by (simp add: max_def)

lemma layout_facts:
  assumes "layout m = Inr (base, sz, al)"
  shows "0 < sz" "pow2 al" "PSP_ALLOCATOR_GRAIN \<le> al"
proof -
  have g: "pow2 PSP_ALLOCATOR_GRAIN" by (auto simp: pow2_def PSP_ALLOCATOR_GRAIN_def intro: exI [of _ 4])
  have "pow2 a0 \<Longrightarrow> pow2 (foldl (\<lambda>al s. max al (requested_alignment s)) a0 segs) \<and>
      a0 \<le> foldl (\<lambda>al s. max al (requested_alignment s)) a0 segs" for a0 segs
  proof (induction segs arbitrary: a0)
    case (Cons s segs)
    from Cons.IH [of "max a0 (requested_alignment s)"] Cons.prems show ?case
      by (simp add: pow2_max requested_alignment_pow2)
  qed simp
  note al = this [OF g]
  have shape: "(if c then Inl e1 else if s \<le> 0 \<or> q then Inl e2 else Inr (b, s, a)) = Inr (base, sz, al) \<Longrightarrow>
      0 < sz \<and> al = a" for c q e1 e2 b and s a :: int by (simp split: if_splits)
  from assms have "0 < sz \<and> al = foldl (\<lambda>al s. max al (requested_alignment s)) PSP_ALLOCATOR_GRAIN (placed_segments m)"
    unfolding layout_def Let_def by (rule shape)
  with al show "0 < sz" "pow2 al" "PSP_ALLOCATOR_GRAIN \<le> al" by blast+
qed

section \<open>The search\<close>

definition ranges_meet :: "int \<Rightarrow> int \<Rightarrow> address_range \<Rightarrow> bool" where
  "ranges_meet a e r \<longleftrightarrow> a < snd r \<and> fst r < e"

definition range_free :: "int \<Rightarrow> int \<Rightarrow> address_range list \<Rightarrow> bool" where
  "range_free a e occupied \<longleftrightarrow> list_all (\<lambda>r. \<not> ranges_meet a e r) occupied"

lemma overlap_None: "overlap a e occupied = None \<longleftrightarrow> range_free a e occupied"
  by (auto simp: overlap_def range_free_def ranges_meet_def find_None_iff list_all_iff)

lemma overlap_Some: "overlap a e occupied = Some r \<Longrightarrow> r \<in> set occupied \<and> ranges_meet a e r"
proof -
  assume "overlap a e occupied = Some r"
  then obtain i where "i < length (sort occupied)" "r = sort occupied ! i" "a < snd r" "fst r < e"
    by (auto simp: overlap_def find_Some_iff)
  then show ?thesis using nth_mem [of i "sort occupied"] by (simp add: ranges_meet_def)
qed

text \<open>
  What the search may answer: exhaustion, or the first fit from the start on.
\<close>

definition search_result ::
    "int \<Rightarrow> int \<Rightarrow> int \<Rightarrow> address_range list \<Rightarrow> (placement_error, int) result \<Rightarrow> bool" where
  "search_result start sz al occupied r \<longleftrightarrow>
     (case r of
        Inl e \<Rightarrow> e = No_Range_Remains
      | Inr a \<Rightarrow> start \<le> a \<and> al dvd a \<and> 0 \<le> a \<and> a + sz \<le> ADDRESS_LIMIT \<and>
          range_free a (a + sz) occupied \<and>
          (\<forall>b. start \<le> b \<longrightarrow> b < a \<longrightarrow> al dvd b \<longrightarrow> \<not> range_free b (b + sz) occupied))"

lemma search_result_lower:
  assumes "search_result c' sz al occupied r" "c \<le> c'"
    and "\<And>b. c \<le> b \<Longrightarrow> b < c' \<Longrightarrow> al dvd b \<Longrightarrow> \<not> range_free b (b + sz) occupied"
  shows "search_result c sz al occupied r"
proof (cases r)
  case (Inl e)
  with assms(1) show ?thesis by (simp add: search_result_def)
next
  case (Inr a)
  have "\<not> range_free b (b + sz) occupied" if "c \<le> b" "b < a" "al dvd b" for b
    using assms(1,3) that Inr by (cases "b < c'") (auto simp: search_result_def)
  with assms(1,2) Inr show ?thesis by (auto simp: search_result_def)
qed

text \<open>Every turn of the search moves the candidate up by at least one, and the space is bounded.\<close>

lemma find_free_from_first_fit:
  assumes "pow2 al" "0 < sz" "al dvd c"
  shows "\<exists>r. find_free_from c sz al occupied = Some r \<and>
    search_result c sz al occupied r"
  using assms(3)
proof (induction "nat (ADDRESS_LIMIT - c)" arbitrary: c rule: less_induct)
  case less
  show ?case
  proof (cases "c < 0 \<or> c + sz > ADDRESS_LIMIT")
    case True
    then have "find_free_from c sz al occupied = Some (Inl No_Range_Remains)"
      by (subst find_free_from.simps) simp
    then show ?thesis by (simp add: search_result_def)
  next
    case False
    show ?thesis
    proof (cases "overlap c (c + sz) occupied")
      case None
      then have "find_free_from c sz al occupied = Some (Inr c)"
        using False by (subst find_free_from.simps) simp
      moreover have "range_free c (c + sz) occupied" using None by (simp add: overlap_None)
      ultimately show ?thesis using False less.prems by (auto simp: search_result_def)
    next
      case (Some rg)
      let ?c = "align_up (snd rg) al"
      from overlap_Some [OF Some] have rg: "rg \<in> set occupied" "c < snd rg" "fst rg < c + sz"
        by (auto simp: ranges_meet_def)
      then have up: "c < ?c" using align_up_bounds(1) [OF assms(1), of "snd rg"] by simp
      have below: "\<not> range_free b (b + sz) occupied" if "c \<le> b" "b < ?c" "al dvd b" for b
      proof -
        have "b < snd rg" using align_up_least [OF assms(1) that(3), of "snd rg"] that(2) by linarith
        with rg that(1) show ?thesis by (auto simp: range_free_def ranges_meet_def list_all_iff)
      qed
      have "nat (ADDRESS_LIMIT - ?c) < nat (ADDRESS_LIMIT - c)" using up False assms(2) by simp
      from less.hyps [OF this align_up_bounds(3) [OF assms(1)]]
      obtain r where r: "find_free_from ?c sz al occupied = Some r" "search_result ?c sz al occupied r" by blast
      have "find_free_from c sz al occupied = Some r"
        using False Some r by (subst find_free_from.simps) simp
      moreover have "search_result c sz al occupied r"
        by (rule search_result_lower [OF r(2)]) (use up below in auto)
      ultimately show ?thesis by blast
    qed
  qed
qed

lemma find_free_first_fit:
  assumes "pow2 al" "0 < sz"
  shows "\<exists>r. find_free start sz al occupied = Some r \<and>
    search_result start sz al occupied r"
proof -
  let ?c = "align_up start al"
  obtain r where r: "find_free start sz al occupied = Some r" "search_result ?c sz al occupied r"
    using find_free_from_first_fit [OF assms align_up_bounds(3) [OF assms(1)]]
    unfolding find_free_def by blast
  have "search_result start sz al occupied r"
  proof (rule search_result_lower [OF r(2) align_up_bounds(1) [OF assms(1)]])
    show "\<not> range_free b (b + sz) occupied" if "start \<le> b" "b < ?c" "al dvd b" for b
      using align_up_least [OF assms(1) that(3,1)] that(2) by simp
  qed
  with r(1) show ?thesis by blast
qed

text \<open>
  Property C30. The allocator's search always ends: for an alignment that is a power of two and a
  positive size, \<open>_find_free\<close> returns, whatever the ranges in use; it reports exhaustion or the
  first fit: an aligned range of the 32-bit space from the start on that meets no range in use,
  such that every lower aligned candidate meets one.
\<close>

theorem find_free_returns_first_fit:
  assumes "pow2 al" "0 < sz"
  shows "\<exists>r. find_free start sz al occupied = Some r \<and>
    search_result start sz al occupied r"
  by (rule find_free_first_fit [OF assms])

theorem find_free_returns_first_fit_witness:
  "\<exists>r. find_free 0x08804000 0x300 0x100 [(0x08804000, 0x08805010), (0x08805200, 0x08806000)] = Some r \<and>
     search_result 0x08804000 0x300 0x100 [(0x08804000, 0x08805010), (0x08805200, 0x08806000)] r"
  by (rule find_free_returns_first_fit) (auto simp: pow2_def intro: exI [of _ 8])

section \<open>The plan\<close>

definition placed_range :: "module_placement \<Rightarrow> address_range" where
  "placed_range p = (mp_load_address p, mp_image_end p)"

definition apart :: "module_placement \<Rightarrow> module_placement \<Rightarrow> bool" where
  "apart p q \<longleftrightarrow> mp_image_end p \<le> mp_load_address q \<or> mp_image_end q \<le> mp_load_address p"

definition well_placed :: "module_placement \<Rightarrow> bool" where
  "well_placed p \<longleftrightarrow> 0 \<le> mp_load_address p \<and> 0 < mp_image_size p \<and>
     mp_image_end p = mp_load_address p + mp_image_size p \<and> mp_image_end p \<le> ADDRESS_LIMIT \<and>
     mp_alignment p dvd mp_load_address p"

lemma apart_sym: "apart p q = apart q p"
  by (auto simp: apart_def)

lemma range_free_apart:
  "range_free (mp_load_address p) (mp_image_end p) occ \<Longrightarrow> placed_range q \<in> set occ \<Longrightarrow> apart p q"
  by (auto simp: range_free_def ranges_meet_def list_all_iff placed_range_def apart_def)

definition path_map :: "module_placement list \<Rightarrow> (string \<rightharpoonup> module_placement)" where
  "path_map ps = map_of (rev (map (\<lambda>p. (mp_path p, p)) ps))"

lemma path_map_Some: "path_map ps k = Some p \<Longrightarrow> p \<in> set ps \<and> mp_path p = k"
  unfolding path_map_def by (auto dest!: map_of_SomeD)

lemma path_map_None: "path_map ps k = None \<longleftrightarrow> k \<notin> set (map mp_path ps)"
  unfolding path_map_def by (force simp: map_of_eq_None_iff)

lemma path_map_Nil [simp]: "path_map [] = Map.empty"
  by (simp add: path_map_def)

lemma path_map_Cons: "path_map (p # ps) = [mp_path p \<mapsto> p] ++ path_map ps"
  by (simp add: path_map_def)

text \<open>
  A loop whose turn records one placement: it is apart from every range in use, in particular
  from the placements recorded before it.
\<close>

locale placement_loop =
  fixes place :: "'i \<Rightarrow> plan_state \<Rightarrow> (placement_error, plan_state) result option"
    and path :: "'i \<Rightarrow> string"
  assumes place_returns: "place i st \<noteq> None"
    and place_records: "place i st = Some (Inr st') \<Longrightarrow>
      \<exists>p cursor. st' = record_placement p cursor st \<and> mp_path p = path i \<and> well_placed p \<and>
        mp_placement_kind p = Analysis_Kind \<and>
        range_free (mp_load_address p) (mp_image_end p) (ps_ranges st)"
begin

lemma all_return: "place_all place xs st \<noteq> None"
  by (induction xs arbitrary: st) (auto simp: place_returns split: option.splits sum.splits)

lemma all_recorded:
  "place_all place xs st = Some (Inr st') \<Longrightarrow>
     \<exists>ps. map mp_path ps = map path xs \<and> ps_ranges st' = ps_ranges st @ map placed_range ps \<and>
       ps_planned st' = ps_planned st ++ path_map ps \<and>
       list_all (\<lambda>p. well_placed p \<and> mp_placement_kind p = Analysis_Kind \<and>
         range_free (mp_load_address p) (mp_image_end p) (ps_ranges st)) ps \<and>
       sorted_wrt apart ps"
proof (induction xs arbitrary: st)
  case Nil
  then show ?case by simp
next
  case (Cons i xs)
  then obtain st1 where st1: "place i st = Some (Inr st1)" "place_all place xs st1 = Some (Inr st')"
    by (auto split: option.splits sum.splits)
  from place_records [OF st1(1)] obtain p cursor where p: "st1 = record_placement p cursor st"
    "mp_path p = path i" "well_placed p" "mp_placement_kind p = Analysis_Kind"
    "range_free (mp_load_address p) (mp_image_end p) (ps_ranges st)" by blast
  from Cons.IH [OF st1(2)] obtain ps where ps: "map mp_path ps = map path xs"
    "ps_ranges st' = ps_ranges st1 @ map placed_range ps"
    "ps_planned st' = ps_planned st1 ++ path_map ps"
    "list_all (\<lambda>p. well_placed p \<and> mp_placement_kind p = Analysis_Kind \<and>
         range_free (mp_load_address p) (mp_image_end p) (ps_ranges st1)) ps"
    "sorted_wrt apart ps" by blast
  have "apart p q" if "q \<in> set ps" for q
    using ps(4) that range_free_apart [of q "ps_ranges st1" p]
    by (auto simp: list_all_iff p(1) record_placement_def placed_range_def apart_sym)
  with ps p show ?case
    by (intro exI [of _ "p # ps"])
      (auto simp: record_placement_def placed_range_def range_free_def list_all_iff path_map_Cons map_add_assoc [symmetric])
qed

end

lemma analysis_placement_returns: "analysis_placement item cursor occ ev \<noteq> None"
proof (cases "layout (pi_model item)")
  case (Inr t)
  then obtain base sz al where t: "layout (pi_model item) = Inr (base, sz, al)" by (cases t) auto
  from find_free_first_fit [OF layout_facts(2,1) [OF t], of cursor occ] t show ?thesis
    by (auto simp: analysis_placement_def split: sum.splits)
qed (simp add: analysis_placement_def)

lemma analysis_placement_sound:
  assumes "analysis_placement item cursor occ ev = Some (Inr p)"
  shows "mp_path p = pi_path item \<and> well_placed p \<and> mp_placement_kind p = Analysis_Kind \<and>
    range_free (mp_load_address p) (mp_image_end p) occ"
proof -
  from assms obtain base sz al where t: "layout (pi_model item) = Inr (base, sz, al)"
    by (auto simp: analysis_placement_def split: sum.splits)
  from find_free_first_fit [OF layout_facts(2,1) [OF t], of cursor occ] obtain r where
    r: "find_free cursor sz al occ = Some r" "search_result cursor sz al occ r" by blast
  with assms t show ?thesis
    using layout_facts(1) [OF t]
    by (auto simp: analysis_placement_def well_placed_def search_result_def split: sum.splits)
qed

interpretation boot_loop: placement_loop "place_boot False" pi_path
  by unfold_locales
    (fastforce simp: place_boot_def analysis_placement_returns dest: analysis_placement_sound
      split: option.splits sum.splits)+

interpretation secondary_loop: placement_loop place_secondary pi_path
  by unfold_locales
    (fastforce simp: place_secondary_def analysis_placement_returns dest: analysis_placement_sound
      split: option.splits sum.splits)+

lemma place_boots_recorded:
  assumes "place_boots items st = Some (Inr st')"
  shows "\<exists>ps. map mp_path ps = map pi_path items \<and> ps_ranges st' = ps_ranges st @ map placed_range ps \<and>
    ps_planned st' = ps_planned st ++ path_map ps"
proof (cases items)
  case Nil
  with assms show ?thesis by (simp add: place_boots_def)
next
  case (Cons item rest)
  with assms obtain st1 where st1: "place_boot True item st = Some (Inr st1)"
    "place_all (place_boot False) rest st1 = Some (Inr st')"
    by (auto simp: place_boots_def split: option.splits sum.splits)
  from st1(1) obtain p where bp: "boot_placement item = Inr p"
    and rec: "st1 = record_placement p (max (ps_cursor st) (mp_image_end p)) st"
    by (auto simp: place_boot_def split: sum.splits)
  from bp have "mp_path p = pi_path item"
    by (auto simp: boot_placement_def bindE_Inr_iff Let_def split: if_splits)
  with rec have p: "mp_path p = pi_path item" "ps_ranges st1 = ps_ranges st @ [placed_range p]"
    "ps_planned st1 = (ps_planned st)(mp_path p \<mapsto> p)"
    by (simp_all add: record_placement_def placed_range_def)
  from boot_loop.all_recorded [OF st1(2)] obtain ps where "map mp_path ps = map pi_path rest"
    "ps_ranges st' = ps_ranges st1 @ map placed_range ps"
    "ps_planned st' = ps_planned st1 ++ path_map ps" by blast
  with p Cons show ?thesis
    by (intro exI [of _ "p # ps"]) (auto simp: path_map_Cons map_add_assoc [symmetric])
qed

lemma place_boots_returns: "place_boots items st \<noteq> None"
  using boot_loop.all_return
  by (auto simp: place_boots_def place_boot_def split: list.splits option.splits sum.splits)

text \<open>A module that is placed for analysis only: neither fixed nor marked as boot.\<close>

definition fixed_item :: "'w placement_input \<Rightarrow> bool" where
  "fixed_item item \<longleftrightarrow> (case xm_elf_header (pi_model item) of None \<Rightarrow> False | Some h \<Rightarrow> eh_file_type h = ET_EXEC)"

lemma place_fixed_keys:
  "foldE place_fixed items fixed0 = Inr fixed \<Longrightarrow>
     fst ` set fixed = fst ` set fixed0 \<union> pi_path ` set (filter fixed_item items)"
proof (induction items arbitrary: fixed0)
  case (Cons item items)
  then obtain fixed1 where f: "place_fixed item fixed0 = Inr fixed1" "foldE place_fixed items fixed1 = Inr fixed"
    by (auto simp: bindE_Inr_iff)
  have "fst ` set fixed1 = fst ` set fixed0 \<union> pi_path ` set (filter fixed_item [item])"
  proof (cases "fixed_item item")
    case True
    with f(1) obtain p where "fixed1 = dict_set fixed0 (pi_path item) p"
      by (auto simp: place_fixed_def fixed_item_def bindE_Inr_iff split: option.splits)
    with True show ?thesis by (simp add: dict_set_keys)
  next
    case False
    with f(1) have "fixed1 = fixed0"
      by (auto simp: place_fixed_def fixed_item_def split: option.splits if_splits)
    with False show ?thesis by simp
  qed
  with Cons.IH [OF f(2)] show ?case by auto
qed simp

lemma place_fixed_paths:
  "foldE place_fixed items fixed0 = Inr fixed \<Longrightarrow> \<forall>(k, p) \<in> set fixed0. mp_path p = k \<Longrightarrow> \<forall>(k, p) \<in> set fixed. mp_path p = k"
proof (induction items arbitrary: fixed0)
  case (Cons item items)
  then obtain fixed1 where f: "place_fixed item fixed0 = Inr fixed1" "foldE place_fixed items fixed1 = Inr fixed"
    by (auto simp: bindE_Inr_iff)
  have "\<forall>(k, p) \<in> set fixed1. mp_path p = k"
  proof (cases "fixed_item item")
    case True
    with f(1) obtain p where p: "fixed_placement item = Inr p" "fixed1 = dict_set fixed0 (pi_path item) p"
      by (auto simp: place_fixed_def fixed_item_def bindE_Inr_iff split: option.splits)
    from p(1) have "mp_path p = pi_path item" by (auto simp: fixed_placement_def bindE_Inr_iff)
    with p(2) Cons.prems(2) dict_set_entries [of fixed0 "pi_path item" p] show ?thesis by auto
  next
    case False
    with f(1) have "fixed1 = fixed0"
      by (auto simp: place_fixed_def fixed_item_def split: option.splits if_splits)
    with Cons.prems(2) show ?thesis by simp
  qed
  from Cons.IH [OF f(2) this] show ?case .
qed simp

lemma plan_parts:
  assumes "plan_module_placements inputs = Some (Inr ps)"
  obtains fixed boots secs where
    "fst ` set fixed = pi_path ` set (filter fixed_item inputs)"
    "map mp_path boots = map pi_path (placement_order (filter pi_is_boot
       (filter (\<lambda>item. pi_path item \<notin> fst ` set fixed) (placement_order inputs))))"
    "map mp_path secs = map pi_path (placement_order (filter (\<lambda>item. \<not> pi_is_boot item)
       (filter (\<lambda>item. pi_path item \<notin> fst ` set fixed) (placement_order inputs))))"
    "list_all (\<lambda>p. well_placed p \<and> mp_placement_kind p = Analysis_Kind \<and>
       range_free (mp_load_address p) (mp_image_end p)
         (map (\<lambda>(_, p). placed_range p) fixed @ map placed_range boots)) secs"
    "sorted_wrt apart secs"
    "ps = map (\<lambda>item. the ((map_of fixed ++ path_map boots ++
       path_map secs) (pi_path item))) (placement_order inputs)"
    "\<forall>(k, p) \<in> set fixed. mp_path p = k"
proof -
  let ?st0 = "\<lambda>fixed. \<lparr> ps_planned = map_of fixed, ps_ranges = [], ps_cursor = PSP_FIRST_USER_ALLOCATION \<rparr>"
  let ?rel = "\<lambda>fixed. filter (\<lambda>item. pi_path item \<notin> fst ` set fixed) (placement_order inputs)"
  from assms obtain fixed where fixed: "foldE place_fixed (placement_order inputs) [] = Inr fixed"
    by (auto simp: plan_module_placements_def Let_def split: sum.splits)
  with assms obtain st where st: "place_boots (placement_order (filter pi_is_boot (?rel fixed))) (?st0 fixed) = Some (Inr st)"
    by (auto simp: plan_module_placements_def Let_def split: option.splits sum.splits)
  let ?occ = "map (\<lambda>(_, p). (mp_load_address p, mp_image_end p)) fixed @ ps_ranges st"
  from assms fixed st obtain st' where
    st': "place_all place_secondary (placement_order (filter (\<lambda>item. \<not> pi_is_boot item) (?rel fixed)))
       (st\<lparr>ps_ranges := ?occ\<rparr>) = Some (Inr st')"
    and ps: "ps = map (\<lambda>item. the (ps_planned st' (pi_path item))) (placement_order inputs)"
    by (auto simp: plan_module_placements_def Let_def split: option.splits sum.splits)
  from place_boots_recorded [OF st] obtain boots where
    b: "map mp_path boots = map pi_path (placement_order (filter pi_is_boot (?rel fixed)))"
    "ps_ranges st = map placed_range boots"
    "ps_planned st = map_of fixed ++ path_map boots" by auto
  from secondary_loop.all_recorded [OF st'] obtain secs where
    s: "map mp_path secs = map pi_path (placement_order (filter (\<lambda>item. \<not> pi_is_boot item) (?rel fixed)))"
    "ps_planned st' = ps_planned st ++ path_map secs"
    "list_all (\<lambda>p. well_placed p \<and> mp_placement_kind p = Analysis_Kind \<and>
       range_free (mp_load_address p) (mp_image_end p) ?occ) secs"
    "sorted_wrt apart secs" by auto
  have "fst ` set fixed = pi_path ` set (filter fixed_item inputs)"
    using place_fixed_keys [OF fixed] by (simp add: placement_order_def)
  then show thesis using b s ps place_fixed_paths [OF fixed]
    by (intro that [of fixed boots secs]) (simp_all add: placed_range_def)
qed

text \<open>Every module of a plan has a placement under its path.\<close>

lemma plan_covers:
  assumes plan: "plan_module_placements inputs = Some (Inr ps)" and item: "item \<in> set inputs"
  shows "\<exists>p \<in> set ps. mp_path p = pi_path item"
proof -
  from plan obtain fixed boots secs where
    keys: "fst ` set fixed = pi_path ` set (filter fixed_item inputs)"
    and b: "map mp_path boots = map pi_path (placement_order (filter pi_is_boot
       (filter (\<lambda>item. pi_path item \<notin> fst ` set fixed) (placement_order inputs))))"
    and s: "map mp_path secs = map pi_path (placement_order (filter (\<lambda>item. \<not> pi_is_boot item)
       (filter (\<lambda>item. pi_path item \<notin> fst ` set fixed) (placement_order inputs))))"
    and ps: "ps = map (\<lambda>item. the ((map_of fixed ++ path_map boots ++ path_map secs) (pi_path item))) (placement_order inputs)"
    and paths: "\<forall>(k, p) \<in> set fixed. mp_path p = k"
    by (rule plan_parts)
  let ?m = "map_of fixed ++ path_map boots ++ path_map secs"
  from item have order: "item \<in> set (placement_order inputs)" by (simp add: placement_order_def)
  have "?m (pi_path item) \<noteq> None"
  proof (cases "pi_path item \<in> fst ` set fixed")
    case True
    then have "map_of fixed (pi_path item) \<noteq> None" by (simp add: map_of_eq_None_iff)
    then show ?thesis by (auto simp: map_add_def split: option.splits)
  next
    case False
    with order have "pi_path item \<in> set (map mp_path boots) \<or> pi_path item \<in> set (map mp_path secs)"
      unfolding b s by (cases "pi_is_boot item") (auto simp: placement_order_def)
    then have "path_map boots (pi_path item) \<noteq> None \<or> path_map secs (pi_path item) \<noteq> None"
      by (simp add: path_map_None)
    then show ?thesis by (auto simp: map_add_def split: option.splits)
  qed
  then obtain p where p: "?m (pi_path item) = Some p" by (cases "?m (pi_path item)") auto
  then have "mp_path p = pi_path item"
    using paths path_map_Some [of boots] path_map_Some [of secs] by (fastforce simp: map_add_Some_iff dest: map_of_SomeD)
  moreover have "p \<in> set ps" unfolding ps set_map using order p by (intro image_eqI [where x = item]) simp_all
  ultimately show ?thesis by blast
qed

lemma plan_returns_lemma: "plan_module_placements inputs \<noteq> None"
proof (cases "foldE place_fixed (placement_order inputs) []")
  case (Inr fixed)
  let ?rel = "filter (\<lambda>item. pi_path item \<notin> fst ` set fixed) (placement_order inputs)"
  let ?st = "\<lparr> ps_planned = map_of fixed, ps_ranges = [], ps_cursor = PSP_FIRST_USER_ALLOCATION \<rparr>"
  obtain r where "place_boots (placement_order (filter pi_is_boot ?rel)) ?st = Some r"
    using place_boots_returns by blast
  then show ?thesis
    using Inr secondary_loop.all_return
    by (cases r) (auto simp: plan_module_placements_def Let_def split: option.splits sum.splits)
qed (simp add: plan_module_placements_def Let_def)

text \<open>
  Planning always ends: for every list of modules, whatever their segments and
  alignments, \<open>plan_module_placements\<close> returns a plan or raises a \<open>ParseError\<close>.
\<close>

theorem plan_module_placements_returns: "plan_module_placements inputs \<noteq> None"
  by (rule plan_returns_lemma)

lemma sorted_wrt_apart_nth:
  assumes "sorted_wrt apart ps" "p \<in> set ps" "q \<in> set ps" "p \<noteq> q"
  shows "apart p q"
  using assms
proof (induction ps)
  case (Cons r rs)
  then show ?case by (auto simp: apart_sym)
qed simp

lemma plan_secondary_lemma:
  assumes plan: "plan_module_placements inputs = Some (Inr ps)"
    and dist: "distinct (map pi_path inputs)"
    and ij: "i < length ps" "j < length ps" "i \<noteq> j"
    and sec: "\<not> pi_is_boot (placement_order inputs ! i)" "\<not> fixed_item (placement_order inputs ! i)"
  shows "apart (ps ! i) (ps ! j) \<and> well_placed (ps ! i) \<and> mp_placement_kind (ps ! i) = Analysis_Kind \<and>
    mp_path (ps ! i) = pi_path (placement_order inputs ! i)"
proof -
  let ?ord = "placement_order inputs"
  from plan obtain fixed boots secs where
    keys: "fst ` set fixed = pi_path ` set (filter fixed_item inputs)"
    and b: "map mp_path boots = map pi_path (placement_order (filter pi_is_boot
       (filter (\<lambda>item. pi_path item \<notin> fst ` set fixed) ?ord)))"
    and s: "map mp_path secs = map pi_path (placement_order (filter (\<lambda>item. \<not> pi_is_boot item)
       (filter (\<lambda>item. pi_path item \<notin> fst ` set fixed) ?ord)))"
    and good: "list_all (\<lambda>p. well_placed p \<and> mp_placement_kind p = Analysis_Kind \<and>
       range_free (mp_load_address p) (mp_image_end p)
         (map (\<lambda>(_, p). placed_range p) fixed @ map placed_range boots)) secs"
    and sorted: "sorted_wrt apart secs"
    and ps: "ps = map (\<lambda>item. the ((map_of fixed ++ path_map boots ++
       path_map secs) (pi_path item))) ?ord"
    by (rule plan_parts)
  let ?m = "map_of fixed ++ path_map boots ++ path_map secs"
  have set_ord: "set ?ord = set inputs" by (simp add: placement_order_def)
  have dord: "distinct (map pi_path ?ord)"
    using dist by (simp add: placement_order_def distinct_map)
  have inj: "a = c" if "a \<in> set inputs" "c \<in> set inputs" "pi_path a = pi_path c" for a c
    using dist that by (auto simp: distinct_map inj_on_def)
  have fpaths: "pi_path z \<in> fst ` set fixed \<longleftrightarrow> fixed_item z" if "z \<in> set inputs" for z
    using that inj by (auto simp: keys)
  let ?x = "?ord ! i" and ?y = "?ord ! j"
  have len: "i < length ?ord" "j < length ?ord" using ij by (simp_all add: ps)
  then have xy: "?x \<in> set inputs" "?y \<in> set inputs" using set_ord nth_mem by blast+
  have ne: "pi_path ?x \<noteq> pi_path ?y"
    using nth_eq_iff_index_eq [OF dord, of i j] len ij(3) by simp
  have spaths: "pi_path z \<in> set (map mp_path secs) \<longleftrightarrow> \<not> pi_is_boot z \<and> \<not> fixed_item z" if "z \<in> set inputs" for z
    unfolding s using that inj fpaths by (auto simp: placement_order_def)
  have bpaths: "pi_path z \<in> set (map mp_path boots) \<longleftrightarrow> pi_is_boot z \<and> \<not> fixed_item z" if "z \<in> set inputs" for z
    unfolding b using that inj fpaths by (auto simp: placement_order_def)
  from spaths [OF xy(1)] sec have "path_map secs (pi_path ?x) \<noteq> None"
    by (simp add: path_map_None)
  then obtain p where p: "path_map secs (pi_path ?x) = Some p" by blast
  then have pi: "ps ! i = p" using len by (simp add: ps)
  note p_sec = path_map_Some [OF p]
  have "apart p (ps ! j)"
  proof (cases "path_map secs (pi_path ?y)")
    case (Some q)
    then have "ps ! j = q" using len by (simp add: ps)
    with path_map_Some [OF Some] p_sec ne show ?thesis
      by (auto intro: sorted_wrt_apart_nth [OF sorted])
  next
    case None
    then have y: "pi_is_boot ?y \<or> fixed_item ?y" using spaths [OF xy(2)] by (simp add: path_map_None)
    have "\<exists>q. ?m (pi_path ?y) = Some q \<and> placed_range q \<in>
        set (map (\<lambda>(_, p). placed_range p) fixed @ map placed_range boots)"
    proof (cases "path_map boots (pi_path ?y)")
      case (Some q)
      with None path_map_Some [OF Some] show ?thesis by (auto simp: map_add_def)
    next
      case bnone: None
      then have "fixed_item ?y" using y bpaths [OF xy(2)] by (auto simp: path_map_None)
      then have "pi_path ?y \<in> dom (map_of fixed)" using fpaths [OF xy(2)] by (simp add: dom_map_of_conv_image_fst)
      then obtain q where "map_of fixed (pi_path ?y) = Some q" by blast
      with None bnone show ?thesis by (force simp: map_add_def dest: map_of_SomeD)
    qed
    then obtain q where m: "?m (pi_path ?y) = Some q" and q: "placed_range q \<in>
        set (map (\<lambda>(_, p). placed_range p) fixed @ map placed_range boots)" by (elim exE conjE)
    have "ps ! j = q" using len m by (simp only: ps nth_map option.sel)
    have "range_free (mp_load_address p) (mp_image_end p)
        (map (\<lambda>(_, p). placed_range p) fixed @ map placed_range boots)"
      using good p_sec by (auto simp: list_all_iff)
    from range_free_apart [OF this q] \<open>ps ! j = q\<close> show ?thesis by simp
  qed
  with pi p_sec good show ?thesis by (auto simp: list_all_iff)
qed

text \<open>
  Property C11. The analysis-only placements never collide: in a plan for modules of distinct
  paths, a module that is neither fixed nor marked as boot keeps its path, gets an
  \<open>analysis\<close> placement that is aligned and inside the 32-bit space, and its range meets the range
  of no other module of the plan, fixed, boot or secondary.
\<close>

theorem plan_secondary_placements_disjoint:
  assumes "plan_module_placements inputs = Some (Inr ps)" "distinct (map pi_path inputs)"
    and "i < length ps" "j < length ps" "i \<noteq> j"
    and "\<not> pi_is_boot (placement_order inputs ! i)" "\<not> fixed_item (placement_order inputs ! i)"
  shows "apart (ps ! i) (ps ! j) \<and> well_placed (ps ! i) \<and> mp_placement_kind (ps ! i) = Analysis_Kind \<and>
    mp_path (ps ! i) = pi_path (placement_order inputs ! i)"
  by (rule plan_secondary_lemma [OF assms])

section \<open>A sample disc\<close>

definition sample_module :: "int \<Rightarrow> int \<Rightarrow> int \<Rightarrow> int \<Rightarrow> unit executable_model" where
  "sample_module ty vaddr msize al =
     \<lparr> xm_source_name = ''m'', xm_input_kind = Elf32_Input, xm_executable_kind = Prx_Executable,
       xm_needs_decryption = False, xm_endianness = Some Little,
       xm_elf_header = Some \<lparr> eh_file_type = ty, eh_machine = 8, eh_version = 1, eh_entry = 0,
         eh_phoff = 0x34, eh_shoff = 0, eh_flags = 0, eh_ehsize = 0x34, eh_phentsize = 0x20, eh_phnum = 1,
         eh_shentsize = 0, eh_shnum = 0, eh_shstrndx = 0 \<rparr>,
       xm_program_headers = [\<lparr> ph_index = 0, ph_type = 1, ph_offset = 0, ph_vaddr = vaddr,
         ph_paddr = vaddr, ph_filesz = msize, ph_memsz = msize, ph_flags = 7, ph_align = al \<rparr>],
       xm_sections = [], xm_container_header = None, xm_module_info = None, xm_imports = [],
       xm_exports = [], xm_relocations = [], xm_warnings = [], xm_recovery = None \<rparr>"

definition sample_inputs :: "unit placement_input list" where
  "sample_inputs =
     [\<lparr> pi_path = ''b.prx'', pi_is_boot = False, pi_model = sample_module 0xFFA0 0 0x300 0x100 \<rparr>,
      \<lparr> pi_path = ''EBOOT'', pi_is_boot = True, pi_model = sample_module 0xFFA0 0 0x1010 0x10 \<rparr>,
      \<lparr> pi_path = ''a.elf'', pi_is_boot = False, pi_model = sample_module 2 0x08805000 0x200 0x10 \<rparr>]"

definition sample_plan :: "module_placement list" where
  "sample_plan = projr (the (plan_module_placements sample_inputs))"

lemma sample_plan_eq: "plan_module_placements sample_inputs = Some (Inr sample_plan)"
proof -
  have "(case plan_module_placements sample_inputs of Some r \<Rightarrow> \<not> isl r | None \<Rightarrow> False)" by code_simp
  then show ?thesis by (auto simp: sample_plan_def split: option.splits)
qed

theorem plan_secondary_placements_disjoint_witness:
  "apart (sample_plan ! 1) (sample_plan ! 2) \<and> well_placed (sample_plan ! 1) \<and>
   mp_placement_kind (sample_plan ! 1) = Analysis_Kind \<and>
   mp_path (sample_plan ! 1) = pi_path (placement_order sample_inputs ! 1)"
proof (rule plan_secondary_placements_disjoint [OF sample_plan_eq])
  show "distinct (map pi_path sample_inputs)" by code_simp
  show "1 < length sample_plan" "2 < length sample_plan" by code_simp+
  show "\<not> pi_is_boot (placement_order sample_inputs ! 1)" "\<not> fixed_item (placement_order sample_inputs ! 1)"
    by code_simp+
qed simp

end
