(* ===== verification/Cso_Image.thy ===== *)
theory Cso_Image
  imports Py_Prelude
begin

text \<open>
  \<open>disc_image.py\<close>: the detection of a disc image and the reader that presents a compressed CISO
  file as a seekable stream. The two decompressors are not part of the source and are
  parameters (\<open>codecs\<close>): \<open>None\<close> is \<open>zlib.error\<close>, or any exception of \<open>lz4\<close>; a missing \<open>lz4\<close>
  package is a missing function. An operation of the reader returns its result together with
  the reader it leaves behind, also when it raises.
\<close>

definition CSO_HEADER_SIZE :: int where "CSO_HEADER_SIZE = 24"
definition ISO_PVD_OFFSET :: int where "ISO_PVD_OFFSET = 16 * 2048"
definition ISO_PVD_MAGIC :: bytes where "ISO_PVD_MAGIC = [1] @ str_bytes ''CD001'' @ [1]"
definition CSO_MAGIC :: bytes where "CSO_MAGIC = str_bytes ''CISO''"
definition INDEX_MASK :: int where "INDEX_MASK = 0x7FFFFFFF"
definition INDEX_FLAG :: int where "INDEX_FLAG = 0x80000000"
definition CACHE_BLOCKS :: nat where "CACHE_BLOCKS = 8"

datatype disc_format = Iso_Format | Cso_Format

datatype cso_error =
    Unsupported_Disc
  | Truncated_Cso_Header
  | Invalid_Cso_Magic
  | Unsupported_Cso_Version int
  | Block_Size_Not_Positive
  | Size_Not_Positive
  | Index_Shift_Range
  | Bad_V2_Header_Size
  | Bad_V2_Reserved
  | Header_Exceeds_File
  | Truncated_Index
  | First_Block_Overlap
  | Index_Not_Monotonic
  | Index_Beyond_File
  | V2_Final_Flag
  | Plain_Block_Span int int int
  | Negative_Stored_Size int
  | Block_Length int int int
  | Block_Shorter int
  | Deflate_Invalid int
  | Lz4_Unavailable
  | Lz4_Invalid int
  | Reader_Closed
  | Invalid_Whence int
  | Negative_Seek

record cso_header =
  cs_header_size :: int
  cs_uncompressed_size :: int
  cs_block_size :: int
  cs_version :: int
  cs_index_shift :: nat

record codecs =
  inflate :: "bytes \<Rightarrow> bytes option"
  lz4_block :: "(bytes \<Rightarrow> int \<Rightarrow> bytes option) option"

text \<open>
  The cache is an \<open>OrderedDict\<close>: the least recently used block is first.
\<close>

record cso_reader =
  cr_file :: bytes
  cr_header :: cso_header
  cr_indexes :: "int list"
  cr_position :: int
  cr_cache :: "(int \<times> bytes) list"
  cr_closed :: bool

definition detect_disc_format :: "bytes \<Rightarrow> (cso_error, disc_format) result" where
  "detect_disc_format data =
     (if py_startswith data CSO_MAGIC 0 then Inr Cso_Format
      else if blen data \<ge> ISO_PVD_OFFSET + blen ISO_PVD_MAGIC \<and>
              py_slice data ISO_PVD_OFFSET (ISO_PVD_OFFSET + blen ISO_PVD_MAGIC) = ISO_PVD_MAGIC
      then Inr Iso_Format
      else Inl Unsupported_Disc)"

section \<open>The header and the index table\<close>

definition block_count_of :: "int \<Rightarrow> int \<Rightarrow> int" where
  "block_count_of sz bs = (sz + bs - 1) div bs"

definition index_offset_of :: "nat \<Rightarrow> int \<Rightarrow> int" where
  "index_offset_of shift v = push_bit shift (v AND INDEX_MASK)"

definition cso_header_of :: "bytes \<Rightarrow> (cso_error, cso_header) result" where
  "cso_header_of file =
     (let raw = py_slice file 0 CSO_HEADER_SIZE in
      if blen raw \<noteq> CSO_HEADER_SIZE then Inl Truncated_Cso_Header else
      let header_size = read_int Little raw 4 4; uncompressed_size = read_int Little raw 8 8;
          block_size = read_int Little raw 16 4; version = uint (raw ! 20);
          index_shift = uint (raw ! 21); unused = py_slice raw 22 24 in
      if py_slice raw 0 4 \<noteq> CSO_MAGIC then Inl Invalid_Cso_Magic
      else if version \<notin> {0, 1, 2} then Inl (Unsupported_Cso_Version version)
      else if block_size \<le> 0 then Inl Block_Size_Not_Positive
      else if uncompressed_size \<le> 0 then Inl Size_Not_Positive
      else if index_shift > 31 then Inl Index_Shift_Range
      else if version = 2 \<and> header_size \<noteq> CSO_HEADER_SIZE then Inl Bad_V2_Header_Size
      else if version = 2 \<and> unused \<noteq> [0, 0] then Inl Bad_V2_Reserved
      else Inr \<lparr> cs_header_size = header_size, cs_uncompressed_size = uncompressed_size,
                  cs_block_size = block_size, cs_version = version,
                 cs_index_shift = nat index_shift \<rparr>)"

fun monotonic :: "int list \<Rightarrow> bool" where
  "monotonic (a # b # xs) = (a \<le> b \<and> monotonic (b # xs))"
| "monotonic _ = True"

definition read_header_and_indexes :: "bytes \<Rightarrow> (cso_error, cso_header \<times> int list) result" where
  "read_header_and_indexes file =
     bindE (cso_header_of file) (\<lambda>h.
     let file_size = blen file;
         index_offset = (if cs_version h \<le> 1 then CSO_HEADER_SIZE else cs_header_size h) in
     if index_offset > file_size then Inl Header_Exceeds_File else
     let index_count = block_count_of (cs_uncompressed_size h) (cs_block_size h) + 1;
         index_bytes = index_count * 4 in
     if index_offset + index_bytes > file_size then Inl Truncated_Index else
     let indexes = map (\<lambda>k. read_int Little file (index_offset + 4 * int k) 4) [0..<nat index_count];
         offsets = map (index_offset_of (cs_index_shift h)) indexes in
     if offsets ! 0 < index_offset + index_bytes then Inl First_Block_Overlap
     else if \<not> monotonic offsets then Inl Index_Not_Monotonic
     else if list_ex (\<lambda>off. off > file_size) offsets then Inl Index_Beyond_File
     else if cs_version h = 2 \<and> last indexes AND INDEX_FLAG \<noteq> 0 then Inl V2_Final_Flag
     else Inr (h, indexes))"

definition open_cso :: "bytes \<Rightarrow> (cso_error, cso_reader) result" where
  "open_cso file =
     bindE (read_header_and_indexes file) (\<lambda>(h, indexes).
     Inr \<lparr> cr_file = file, cr_header = h, cr_indexes = indexes, cr_position = 0, cr_cache = [],
           cr_closed = False \<rparr>)"

section \<open>One block\<close>

fun lz4_search :: "(bytes \<Rightarrow> int \<Rightarrow> bytes option) \<Rightarrow> bytes \<Rightarrow> int \<Rightarrow> nat list \<Rightarrow> bytes option" where
  "lz4_search f data expected [] = None"
| "lz4_search f data expected (padding # ps) =
     (case f (take (length data - padding) data) expected of
        Some block \<Rightarrow> if blen block = expected then Some block else lz4_search f data expected ps
      | None \<Rightarrow> lz4_search f data expected ps)"

definition decompress_lz4 ::
    "codecs \<Rightarrow> bytes \<Rightarrow> int \<Rightarrow> int \<Rightarrow> nat \<Rightarrow> (cso_error, bytes) result" where
  "decompress_lz4 cd data expected block_index index_shift =
     (case lz4_block cd of
        None \<Rightarrow> Inl Lz4_Unavailable
      | Some f \<Rightarrow>
          let max_padding = min (if index_shift \<noteq> 0 then push_bit index_shift 1 - 1 else 0) (max 0 (blen data - 1))
          in (case lz4_search f data expected [0..<nat (max_padding + 1)] of
                Some block \<Rightarrow> Inr block | None \<Rightarrow> Inl (Lz4_Invalid block_index)))"

definition inflate_block :: "codecs \<Rightarrow> bytes \<Rightarrow> int \<Rightarrow> (cso_error, bytes) result" where
  "inflate_block cd data block_index =
     (case inflate cd data of None \<Rightarrow> Inl (Deflate_Invalid block_index) | Some b \<Rightarrow> Inr b)"

definition expected_block_size :: "cso_header \<Rightarrow> int \<Rightarrow> int" where
  "expected_block_size h i = min (cs_block_size h) (cs_uncompressed_size h - i * cs_block_size h)"

text \<open>The block as the file stores it, without the cache.\<close>

definition fetch_block :: "codecs \<Rightarrow> bytes \<Rightarrow> cso_header \<Rightarrow> int list \<Rightarrow> int \<Rightarrow> (cso_error, bytes) result" where
  "fetch_block cd file h indexes i =
     (let current = indexes ! nat i; following = indexes ! nat (i + 1);
          offset = index_offset_of (cs_index_shift h) current;
          stored_size = index_offset_of (cs_index_shift h) following - offset;
          expected = expected_block_size h i in
      if stored_size < 0 then Inl (Negative_Stored_Size i) else
      bindE (if cs_version h \<le> 1 then
               (if current AND INDEX_FLAG \<noteq> 0 then
                  (if stored_size < expected then Inl (Plain_Block_Span i stored_size expected)
                   else Inr (py_slice file offset (offset + expected)))
                else inflate_block cd (py_slice file offset (offset + stored_size)) i)
             else if stored_size \<ge> cs_block_size h then Inr (py_slice file offset (offset + expected))
             else if current AND INDEX_FLAG \<noteq> 0
             then decompress_lz4 cd (py_slice file offset (offset + stored_size)) expected i (cs_index_shift h)
             else inflate_block cd (py_slice file offset (offset + stored_size)) i) (\<lambda>block.
      if blen block \<noteq> expected then Inl (Block_Length i (blen block) expected) else Inr block))"

text \<open>\<open>move_to_end\<close>, and the insertion of a block with the eviction of the oldest ones.\<close>

definition move_to_end :: "(int \<times> bytes) list \<Rightarrow> int \<Rightarrow> (int \<times> bytes) list" where
  "move_to_end cache i = filter (\<lambda>kv. fst kv \<noteq> i) cache @ filter (\<lambda>kv. fst kv = i) cache"

definition cache_insert :: "(int \<times> bytes) list \<Rightarrow> int \<Rightarrow> bytes \<Rightarrow> (int \<times> bytes) list" where
  "cache_insert cache i block =
     (let c = filter (\<lambda>kv. fst kv \<noteq> i) cache @ [(i, block)] in drop (length c - CACHE_BLOCKS) c)"

definition read_block :: "codecs \<Rightarrow> cso_reader \<Rightarrow> int \<Rightarrow> (cso_error, bytes) result \<times> cso_reader" where
  "read_block cd r i =
     (case map_of (cr_cache r) i of
        Some block \<Rightarrow> (Inr block, r\<lparr>cr_cache := move_to_end (cr_cache r) i\<rparr>)
      | None \<Rightarrow>
          if i < 0 \<or> i \<ge> blen (cr_indexes r) - 1 then (Inr [], r)
          else (case fetch_block cd (cr_file r) (cr_header r) (cr_indexes r) i of
                  Inl e \<Rightarrow> (Inl e, r)
                | Inr block \<Rightarrow> (Inr block, r\<lparr>cr_cache := cache_insert (cr_cache r) i block\<rparr>)))"

section \<open>The stream\<close>

definition cso_tell :: "cso_reader \<Rightarrow> (cso_error, int) result" where
  "cso_tell r = (if cr_closed r then Inl Reader_Closed else Inr (cr_position r))"

definition cso_seek :: "cso_reader \<Rightarrow> int \<Rightarrow> int \<Rightarrow> (cso_error, int) result \<times> cso_reader" where
  "cso_seek r offset whence =
     (if cr_closed r then (Inl Reader_Closed, r)
      else if whence \<notin> {0, 1, 2} then (Inl (Invalid_Whence whence), r)
      else let p = (if whence = 0 then offset else if whence = 1 then cr_position r + offset
                    else cs_uncompressed_size (cr_header r) + offset)
           in if p < 0 then (Inl Negative_Seek, r) else (Inr p, r\<lparr>cr_position := p\<rparr>))"

function read_loop ::
    "codecs \<Rightarrow> cso_reader \<Rightarrow> int \<Rightarrow> bytes \<Rightarrow> (cso_error, bytes) result \<times> cso_reader" where
  "read_loop cd r n out =
     (if n > 0 \<and> cr_position r < cs_uncompressed_size (cr_header r) then
        (let block_index = cr_position r div cs_block_size (cr_header r);
             block_offset = cr_position r mod cs_block_size (cr_header r) in
         case read_block cd r block_index of
           (Inl e, r') \<Rightarrow> (Inl e, r')
         | (Inr block, r') \<Rightarrow>
             let available = blen block - block_offset in
             if available \<le> 0 then (Inl (Block_Shorter block_index), r')
             else let k = min n available
                  in read_loop cd (r'\<lparr>cr_position := cr_position r + k\<rparr>) (n - k)
                       (out @ py_slice block block_offset (block_offset + k)))
      else (Inr out, r))"
  by pat_completeness auto
termination
  by (relation "measure (\<lambda>(cd, r, n, out). nat n)") auto

declare read_loop.simps [simp del]

definition cso_read :: "codecs \<Rightarrow> cso_reader \<Rightarrow> int option \<Rightarrow> (cso_error, bytes) result \<times> cso_reader" where
  "cso_read cd r n =
     (if cr_closed r then (Inl Reader_Closed, r)
      else
        let total = cs_uncompressed_size (cr_header r) in
        if cr_position r \<ge> total then (Inr [], r)
        else
          let k = (case n of
                     None \<Rightarrow> total - cr_position r
                   | Some m \<Rightarrow> if m < 0 then total - cr_position r else min m (total - cr_position r))
          in if k = 0 then (Inr [], r) else read_loop cd r k [])"

text \<open>\<open>readinto(buffer)\<close> overwrites the front of the buffer.\<close>

definition cso_readinto ::
    "codecs \<Rightarrow> cso_reader \<Rightarrow> bytes \<Rightarrow> (cso_error, int \<times> bytes) result \<times> cso_reader" where
  "cso_readinto cd r buffer =
     (case cso_read cd r (Some (blen buffer)) of
        (Inl e, r') \<Rightarrow> (Inl e, r')
      | (Inr data, r') \<Rightarrow> (Inr (blen data, data @ drop (length data) buffer), r'))"

definition cso_close :: "cso_reader \<Rightarrow> cso_reader" where
  "cso_close r = r\<lparr>cr_closed := True\<rparr>"

section \<open>The stream as a list of bytes\<close>

text \<open>
  A sequence of blocks, all but the last of the same size: byte \<open>o\<close> of block \<open>i\<close> is byte
  \<open>i * bs + o\<close> of their concatenation.
\<close>

locale block_sequence =
  fixes blk :: "nat \<Rightarrow> bytes" and bs :: nat and n :: nat
  assumes full: "Suc i < n \<Longrightarrow> length (blk i) = bs"
begin

lemma prefix_length: "i < n \<Longrightarrow> length (concat (map blk [0..<i])) = i * bs"
  by (induction i) (auto simp: full)

lemma block_slice:
  assumes "i < n" "0 \<le> a" "a \<le> b" "b \<le> blen (blk i)"
  shows "py_slice (concat (map blk [0..<n])) (int (i * bs) + a) (int (i * bs) + b) = py_slice (blk i) a b"
proof -
  have "[0..<n] = [0..<i] @ i # [Suc i..<n]"
    using upt_add_eq_append [of 0 i "n - i"] upt_conv_Cons [OF assms(1)] assms(1) by simp
  then have "concat (map blk [0..<n]) =
      concat (map blk [0..<i]) @ blk i @ concat (map blk [Suc i..<n])" by simp
  then show ?thesis
    using assms prefix_length [OF assms(1)]
    by (simp add: py_slice_append_right py_slice_append_left)
qed

end

text \<open>The block as a reader sees it; an unreadable one counts as zeroes.\<close>

definition block_or_zeroes :: "codecs \<Rightarrow> cso_reader \<Rightarrow> nat \<Rightarrow> bytes" where
  "block_or_zeroes cd r k =
     (case fetch_block cd (cr_file r) (cr_header r) (cr_indexes r) (int k) of
        Inr block \<Rightarrow> block | Inl _ \<Rightarrow> replicate (nat (expected_block_size (cr_header r) (int k))) 0)"

definition cso_blocks :: "cso_reader \<Rightarrow> int" where
  "cso_blocks r = block_count_of (cs_uncompressed_size (cr_header r)) (cs_block_size (cr_header r))"

definition cso_content :: "codecs \<Rightarrow> cso_reader \<Rightarrow> bytes" where
  "cso_content cd r = concat (map (block_or_zeroes cd r) [0..<nat (cso_blocks r)])"

lemma fetch_block_length:
  "fetch_block cd file h indexes i = Inr block \<Longrightarrow> blen block = expected_block_size h i"
  by (auto simp: fetch_block_def Let_def bindE_Inr_iff split: if_splits)

lemma length_block_or_zeroes:
  "length (block_or_zeroes cd r k) = nat (expected_block_size (cr_header r) (int k))"
  using fetch_block_length [of cd "cr_file r" "cr_header r" "cr_indexes r" "int k"]
  by (auto simp: block_or_zeroes_def split: sum.splits)

text \<open>
  The reader's invariant: the header's sizes are positive, there is an index after every block,
  and the cache holds at most eight blocks, each the one the file stores.
\<close>

definition header_ok :: "cso_reader \<Rightarrow> bool" where
  "header_ok r \<longleftrightarrow> 0 < cs_block_size (cr_header r) \<and> 0 < cs_uncompressed_size (cr_header r) \<and>
     blen (cr_indexes r) = cso_blocks r + 1"

definition cache_ok :: "codecs \<Rightarrow> cso_reader \<Rightarrow> bool" where
  "cache_ok cd r \<longleftrightarrow> length (cr_cache r) \<le> CACHE_BLOCKS \<and> distinct (map fst (cr_cache r)) \<and>
     (\<forall>(i, block) \<in> set (cr_cache r).
        fetch_block cd (cr_file r) (cr_header r) (cr_indexes r) i = Inr block)"

lemma int_div_mult_le: "0 < (b :: int) \<Longrightarrow> a div b * b \<le> a"
  using pos_mod_sign [of b a] minus_mod_eq_div_mult [of a b] by linarith

lemma block_count_eq: "0 < bs \<Longrightarrow> block_count_of sz bs = (sz - 1) div bs + 1"
proof -
  assume "0 < bs"
  then have "(sz - 1 + bs) div bs = (sz - 1) div bs + 1" by (simp add: div_add_self2)
  moreover have "sz - 1 + bs = sz + bs - 1" by simp
  ultimately show ?thesis by (simp only: block_count_of_def)
qed

lemma block_index_bounds:
  assumes "0 < bs" "0 \<le> p" "p < (sz :: int)"
  shows "0 \<le> p div bs" "p div bs < block_count_of sz bs" "p mod bs < min bs (sz - p div bs * bs)"
proof -
  show "0 \<le> p div bs" using assms by (simp add: pos_imp_zdiv_nonneg_iff)
  have "p div bs \<le> (sz - 1) div bs" using assms by (intro zdiv_mono1) auto
  then show "p div bs < block_count_of sz bs" using block_count_eq [OF assms(1)] by simp
  have "p mod bs = p - p div bs * bs" by (simp add: minus_div_mult_eq_mod)
  then show "p mod bs < min bs (sz - p div bs * bs)" using assms pos_mod_bound [OF assms(1), of p] by simp
qed

interpretation cso_content_blocks: block_sequence "block_or_zeroes cd r" "nat (cs_block_size (cr_header r))"
    "nat (cso_blocks r)" for cd r
proof unfold_locales
  fix i
  let ?bs = "cs_block_size (cr_header r)" and ?sz = "cs_uncompressed_size (cr_header r)"
  assume i: "Suc i < nat (cso_blocks r)"
  have exp: "expected_block_size (cr_header r) (int i) = ?bs \<or> ?bs \<le> 0"
  proof (cases "0 < ?bs")
    case True
    have "int i + 1 \<le> (?sz - 1) div ?bs"
      using i by (simp add: cso_blocks_def block_count_eq [OF True])
    then have "(int i + 1) * ?bs \<le> (?sz - 1) div ?bs * ?bs"
      using True by (intro mult_right_mono) auto
    also have "\<dots> \<le> ?sz - 1" by (rule int_div_mult_le [OF True])
    finally have "(int i + 1) * ?bs \<le> ?sz - 1" .
    then show ?thesis by (simp add: expected_block_size_def algebra_simps)
  qed simp
  show "length (block_or_zeroes cd r i) = nat ?bs"
    using exp by (auto simp: length_block_or_zeroes) (simp add: expected_block_size_def)
qed

lemma cache_insert_keys:
  "distinct (map fst cache) \<Longrightarrow> distinct (map fst (cache_insert cache i block))"
proof -
  assume "distinct (map fst cache)"
  then have "distinct (map fst (filter (\<lambda>kv. fst kv \<noteq> i) cache @ [(i, block)]))"
    by (auto simp: distinct_map_filter)
  then show ?thesis
    unfolding cache_insert_def Let_def drop_map [symmetric] by (rule distinct_drop)
qed

lemma cache_insert_set: "set (cache_insert cache i block) \<subseteq> insert (i, block) (set cache)"
  using set_drop_subset by (fastforce simp: cache_insert_def Let_def)

lemma cache_insert_length: "length (cache_insert cache i block) \<le> CACHE_BLOCKS"
  by (simp add: cache_insert_def Let_def)

lemma move_to_end_facts:
  "set (move_to_end cache i) = set cache"
  "length (move_to_end cache i) = length cache"
  "distinct (map fst cache) \<Longrightarrow> distinct (map fst (move_to_end cache i))"
proof -
  show "set (move_to_end cache i) = set cache" by (auto simp: move_to_end_def)
  show "length (move_to_end cache i) = length cache"
    unfolding move_to_end_def by (induction cache) auto
  show "distinct (map fst cache) \<Longrightarrow> distinct (map fst (move_to_end cache i))"
    by (auto simp: move_to_end_def distinct_map_filter)
qed

text \<open>A block comes out as the file stores it, whatever the cache holds, and the invariant is kept.\<close>

lemma read_block_spec:
  assumes "header_ok r" "cache_ok cd r" "0 \<le> i" "i < cso_blocks r"
  shows "\<exists>c. read_block cd r i =
    (fetch_block cd (cr_file r) (cr_header r) (cr_indexes r) i, r\<lparr>cr_cache := c\<rparr>) \<and>
    cache_ok cd (r\<lparr>cr_cache := c\<rparr>)"
proof (cases "map_of (cr_cache r) i")
  case None
  show ?thesis
  proof (cases "fetch_block cd (cr_file r) (cr_header r) (cr_indexes r) i")
    case (Inl e)
    with None assms show ?thesis
      by (intro exI [of _ "cr_cache r"]) (auto simp: read_block_def header_ok_def)
  next
    case (Inr block)
    let ?c = "cache_insert (cr_cache r) i block"
    have "cache_ok cd (r\<lparr>cr_cache := ?c\<rparr>)"
      using assms(2) Inr cache_insert_set [of "cr_cache r" i block]
      by (auto simp: cache_ok_def cache_insert_length cache_insert_keys)
    with None assms Inr show ?thesis
      by (intro exI [of _ ?c]) (auto simp: read_block_def header_ok_def)
  qed
next
  case (Some block)
  then have "(i, block) \<in> set (cr_cache r)" by (rule map_of_SomeD)
  with assms(2) have "fetch_block cd (cr_file r) (cr_header r) (cr_indexes r) i = Inr block"
    by (auto simp: cache_ok_def)
  with Some assms(2) show ?thesis
    by (intro exI [of _ "move_to_end (cr_cache r) i"])
      (simp add: read_block_def cache_ok_def move_to_end_facts)
qed

text \<open>What a read promises of its result and of the reader it leaves.\<close>

definition read_promise ::
    "codecs \<Rightarrow> cso_reader \<Rightarrow> int \<Rightarrow> (cso_error, bytes) result \<times> cso_reader \<Rightarrow> bool" where
  "read_promise cd r n out \<longleftrightarrow>
     cr_file (snd out) = cr_file r \<and> cr_header (snd out) = cr_header r \<and>
     cr_indexes (snd out) = cr_indexes r \<and> cr_closed (snd out) = cr_closed r \<and>
     cache_ok cd (snd out) \<and>
     (case fst out of
        Inr data \<Rightarrow> data = py_slice (cso_content cd r) (cr_position r) (cr_position r + n) \<and>
          cr_position (snd out) = cr_position r + n
      | Inl e \<Rightarrow> cr_position r \<le> cr_position (snd out) \<and> (\<exists>i. 0 \<le> i \<and> i < cso_blocks r \<and>
          fetch_block cd (cr_file r) (cr_header r) (cr_indexes r) i = Inl e))"

lemma take_drop_join:
  assumes "l \<le> m" "m \<le> k"
  shows "take (m - l) (drop l xs) @ take (k - m) (drop m xs) = take (k - l) (drop l xs)"
proof -
  have "k - l = (m - l) + (k - m)" "drop m xs = drop (m - l) (drop l xs)" using assms by simp_all
  then show ?thesis by (simp only: take_add)
qed

lemma cso_content_length:
  assumes "header_ok r"
  shows "blen (cso_content cd r) = cs_uncompressed_size (cr_header r)"
proof -
  let ?bs = "cs_block_size (cr_header r)" and ?sz = "cs_uncompressed_size (cr_header r)"
  from assms have pos: "0 < ?bs" "0 < ?sz" by (simp_all add: header_ok_def)
  define k where "k = nat ((?sz - 1) div ?bs)"
  have n: "nat (cso_blocks r) = Suc k" and k: "int k = (?sz - 1) div ?bs"
    using pos by (simp_all add: cso_blocks_def block_count_eq k_def pos_imp_zdiv_nonneg_iff nat_add_distrib)
  have "length (concat (map (block_or_zeroes cd r) [0..<k])) = k * nat ?bs"
    by (rule cso_content_blocks.prefix_length) (simp add: n)
  then have "length (cso_content cd r) = k * nat ?bs + nat (expected_block_size (cr_header r) (int k))"
    by (simp add: cso_content_def n length_block_or_zeroes)
  moreover have "int k * ?bs \<le> ?sz - 1" "?sz - 1 < (int k + 1) * ?bs"
    using pos pos_mod_bound [of ?bs "?sz - 1"] minus_mod_eq_div_mult [of "?sz - 1" ?bs] pos_mod_sign [of ?bs "?sz - 1"]
    unfolding k distrib_right by linarith+
  ultimately show ?thesis using pos by (simp add: expected_block_size_def min_def algebra_simps)
qed

lemma py_slice_join:
  "0 \<le> a \<Longrightarrow> a \<le> b \<Longrightarrow> b \<le> c \<Longrightarrow> c \<le> blen xs \<Longrightarrow> py_slice xs a b @ py_slice xs b c = py_slice xs a c"
  by (simp add: py_slice_in nat_diff_distrib take_drop_join)

text \<open>One turn of the read: the part of the content that the block at the position covers.\<close>

lemma content_in_block:
  assumes "header_ok r" "0 \<le> p" "p < cs_uncompressed_size (cr_header r)"
    and "fetch_block cd (cr_file r) (cr_header r) (cr_indexes r) (p div cs_block_size (cr_header r)) = Inr block"
  defines "bo \<equiv> p mod cs_block_size (cr_header r)"
  shows "0 \<le> p div cs_block_size (cr_header r)" "p div cs_block_size (cr_header r) < cso_blocks r"
    "0 < blen block - bo"
    "0 \<le> k \<Longrightarrow> k \<le> blen block - bo \<Longrightarrow> py_slice (cso_content cd r) p (p + k) = py_slice block bo (bo + k)"
    "p + (blen block - bo) \<le> cs_uncompressed_size (cr_header r)"
proof -
  let ?bs = "cs_block_size (cr_header r)" and ?sz = "cs_uncompressed_size (cr_header r)"
  let ?i = "p div ?bs"
  from assms(1) have pos: "0 < ?bs" by (simp add: header_ok_def)
  note b = block_index_bounds [OF pos assms(2,3)]
  show i: "0 \<le> ?i" "?i < cso_blocks r" using b(1,2) by (simp_all add: cso_blocks_def)
  have len: "blen block = min ?bs (?sz - ?i * ?bs)"
    using fetch_block_length [OF assms(4)] by (simp add: expected_block_size_def)
  then show "0 < blen block - bo" using b(3) by (simp add: bo_def)
  have p: "p = ?i * ?bs + bo" by (simp add: bo_def)
  have bo: "0 \<le> bo" using pos by (simp add: bo_def)
  show "p + (blen block - bo) \<le> ?sz" using len p by linarith
  have blk: "block_or_zeroes cd r (nat ?i) = block"
    using assms(4) i(1) by (simp add: block_or_zeroes_def)
  show "py_slice (cso_content cd r) p (p + k) = py_slice block bo (bo + k)"
    if "0 \<le> k" "k \<le> blen block - bo" for k
  proof -
    have e: "int (nat ?i * nat ?bs) = ?i * ?bs" using i(1) pos by simp
    have "py_slice (cso_content cd r) (int (nat ?i * nat ?bs) + bo) (int (nat ?i * nat ?bs) + (bo + k)) =
        py_slice (block_or_zeroes cd r (nat ?i)) bo (bo + k)"
      unfolding cso_content_def
      by (rule cso_content_blocks.block_slice) (use i bo that in \<open>simp_all add: blk\<close>)
    moreover have "?i * ?bs + (bo + k) = p + k" using p by simp
    ultimately show ?thesis using p by (simp only: e blk)
  qed
qed

lemma cso_content_cong:
  "cr_file r' = cr_file r \<Longrightarrow> cr_header r' = cr_header r \<Longrightarrow> cr_indexes r' = cr_indexes r \<Longrightarrow>
     cso_content cd r' = cso_content cd r"
proof -
  assume eqs: "cr_file r' = cr_file r" "cr_header r' = cr_header r" "cr_indexes r' = cr_indexes r"
  then have "block_or_zeroes cd r' = block_or_zeroes cd r"
    by (intro ext) (simp add: block_or_zeroes_def split: sum.split)
  with eqs show ?thesis by (simp add: cso_content_def cso_blocks_def)
qed

lemma read_promise_step:
  assumes "read_promise cd r' (n - k) (res, r'')" "0 \<le> k" "k \<le> n" "0 \<le> cr_position r"
    and "cr_file r' = cr_file r" "cr_header r' = cr_header r" "cr_indexes r' = cr_indexes r"
    and "cr_closed r' = cr_closed r" "cr_position r' = cr_position r + k"
    and "cr_position r + n \<le> blen (cso_content cd r)"
  shows "read_promise cd r n (map_sum id (\<lambda>data. py_slice (cso_content cd r) (cr_position r) (cr_position r + k) @ data) res, r'')"
proof (cases res)
  case (Inl e)
  with assms show ?thesis by (auto simp: read_promise_def cso_blocks_def)
next
  case (Inr data)
  have "data = py_slice (cso_content cd r) (cr_position r + k) (cr_position r + k + (n - k))"
    using assms Inr cso_content_cong [of r' r cd] by (simp add: read_promise_def)
  then have "py_slice (cso_content cd r) (cr_position r) (cr_position r + k) @ data
      = py_slice (cso_content cd r) (cr_position r) (cr_position r + n)"
    using assms(2-4,10) by (simp add: py_slice_join)
  with assms Inr show ?thesis by (auto simp: read_promise_def)
qed

lemma read_loop_promise:
  assumes "header_ok r" "cache_ok cd r" "0 \<le> cr_position r" "0 \<le> n"
    and "cr_position r + n \<le> cs_uncompressed_size (cr_header r)"
  shows "\<exists>res r'. read_loop cd r n out = (map_sum id (\<lambda>data. out @ data) res, r') \<and> read_promise cd r n (res, r')"
  using assms
proof (induction cd r n out rule: read_loop.induct)
  case (1 cd r n out)
  let ?h = "cr_header r" and ?p = "cr_position r"
  let ?i = "?p div cs_block_size ?h" and ?o = "?p mod cs_block_size ?h"
  show ?case
  proof (cases "0 < n")
    case False
    then have "read_loop cd r n out = (Inr (out @ []), r)" using "1.prems" by (simp add: read_loop.simps)
    then show ?thesis
      using False "1.prems"
      by (intro exI [of _ "Inr []"] exI [of _ r]) (simp add: read_promise_def py_slice_def)
  next
    case True
    then have p: "?p < cs_uncompressed_size ?h" using "1.prems" by simp
    have bnd: "0 \<le> ?i" "?i < cso_blocks r"
      using block_index_bounds [OF _ "1.prems"(3) p] "1.prems"(1) by (simp_all add: header_ok_def cso_blocks_def)
    obtain c where rb: "read_block cd r ?i =
        (fetch_block cd (cr_file r) (cr_header r) (cr_indexes r) ?i, r\<lparr>cr_cache := c\<rparr>)"
      and c: "cache_ok cd (r\<lparr>cr_cache := c\<rparr>)"
      using read_block_spec [OF "1.prems"(1,2) bnd] by blast
    show ?thesis
    proof (cases "fetch_block cd (cr_file r) (cr_header r) (cr_indexes r) ?i")
      case (Inl e)
      then have "read_loop cd r n out = (Inl e, r\<lparr>cr_cache := c\<rparr>)"
        using True p rb by (subst read_loop.simps) simp
      then show ?thesis
        using Inl c bnd
        by (intro exI [of _ "Inl e"] exI [of _ "r\<lparr>cr_cache := c\<rparr>"])
          (auto simp: read_promise_def)
    next
      case (Inr block)
      note blk = content_in_block [OF "1.prems"(1,3) p Inr]
      let ?k = "min n (blen block - ?o)"
      let ?r = "r\<lparr>cr_cache := c, cr_position := ?p + ?k\<rparr>"
      let ?s = "py_slice block ?o (?o + ?k)"
      have k: "0 \<le> ?k" "?k \<le> n" "?k \<le> blen block - ?o" using True blk(3) by auto
      have step: "read_loop cd r n out = read_loop cd ?r (n - ?k) (out @ ?s)"
        using True p rb Inr blk(3) by (subst read_loop.simps) (simp add: Let_def)
      have s: "?s = py_slice (cso_content cd r) ?p (?p + ?k)"
        using blk(4) [OF k(1,3)] by simp
      have "\<exists>res r'. read_loop cd ?r (n - ?k) (out @ ?s) = (map_sum id (\<lambda>data. (out @ ?s) @ data) res, r') \<and>
          read_promise cd ?r (n - ?k) (res, r')"
      proof (rule "1.IH")
        show "0 < n \<and> ?p < cs_uncompressed_size ?h" using True p ..
        show "header_ok ?r" using "1.prems"(1) by (simp add: header_ok_def cso_blocks_def)
        show "cache_ok cd ?r" using c by (simp add: cache_ok_def)
        show "\<not> blen block - ?o \<le> 0" using blk(3) by simp
      qed (use rb Inr k "1.prems"(3,5) in auto)
      then obtain res r' where res: "read_loop cd ?r (n - ?k) (out @ ?s) = (map_sum id (\<lambda>data. (out @ ?s) @ data) res, r')"
        "read_promise cd ?r (n - ?k) (res, r')" by blast
      have "read_promise cd r n (map_sum id (\<lambda>data. ?s @ data) res, r')"
        unfolding s
        by (rule read_promise_step [OF res(2) k(1,2) "1.prems"(3)])
          (use "1.prems"(1,5) in \<open>simp_all add: cso_content_length\<close>)
      then show ?thesis
        using step res(1)
        by (intro exI [of _ "map_sum id (\<lambda>data. ?s @ data) res"] exI [of _ r'])
          (cases res; simp)
    qed
  qed
qed

section \<open>The reader as a state machine\<close>

text \<open>The readers that a sequence of operations on an opened file can lead to.\<close>

inductive cso_reachable :: "codecs \<Rightarrow> bytes \<Rightarrow> cso_reader \<Rightarrow> bool" for cd img where
  opened: "open_cso img = Inr r \<Longrightarrow> cso_reachable cd img r"
| seeked: "cso_reachable cd img r \<Longrightarrow> cso_reachable cd img (snd (cso_seek r offset whence))"
| did_read: "cso_reachable cd img r \<Longrightarrow> cso_reachable cd img (snd (cso_read cd r n))"
| did_readinto: "cso_reachable cd img r \<Longrightarrow> cso_reachable cd img (snd (cso_readinto cd r buffer))"
| closed: "cso_reachable cd img r \<Longrightarrow> cso_reachable cd img (cso_close r)"

definition reader_inv :: "codecs \<Rightarrow> cso_reader \<Rightarrow> cso_reader \<Rightarrow> bool" where
  "reader_inv cd r0 r \<longleftrightarrow> header_ok r \<and> cache_ok cd r \<and> 0 \<le> cr_position r \<and>
     cr_file r = cr_file r0 \<and> cr_header r = cr_header r0 \<and> cr_indexes r = cr_indexes r0"

lemma cso_header_of_positive:
  "cso_header_of file = Inr h \<Longrightarrow> 0 < cs_block_size h \<and> 0 < cs_uncompressed_size h"
  by (auto simp: cso_header_of_def Let_def split: if_splits)

lemma open_cso_inv:
  assumes "open_cso file = Inr r"
  shows "reader_inv cd r r"
proof -
  from assms obtain h indexes where hi: "read_header_and_indexes file = Inr (h, indexes)"
    and r: "r = \<lparr> cr_file = file, cr_header = h, cr_indexes = indexes, cr_position = 0, cr_cache = [],
      cr_closed = False \<rparr>"
    by (auto simp: open_cso_def bindE_Inr_iff)
  from hi have h: "cso_header_of file = Inr h"
    by (auto simp: read_header_and_indexes_def bindE_Inr_iff Let_def split: if_splits)
  note pos = cso_header_of_positive [OF h]
  have len: "length indexes = nat (block_count_of (cs_uncompressed_size h) (cs_block_size h) + 1)"
    using hi h by (auto simp: read_header_and_indexes_def Let_def split: if_splits)
  have "0 \<le> block_count_of (cs_uncompressed_size h) (cs_block_size h)"
    using pos by (simp add: block_count_of_def pos_imp_zdiv_nonneg_iff)
  with pos len show ?thesis
    by (simp add: reader_inv_def header_ok_def cache_ok_def r cso_blocks_def)
qed

text \<open>How many bytes a read asks for: the rest of the stream, or at most that.\<close>

definition read_length :: "cso_reader \<Rightarrow> int option \<Rightarrow> int" where
  "read_length r n =
     (let left = max 0 (cs_uncompressed_size (cr_header r) - cr_position r)
      in case n of None \<Rightarrow> left | Some m \<Rightarrow> if m < 0 then left else min m left)"

lemma cso_read_promise:
  assumes "reader_inv cd r0 r" "\<not> cr_closed r"
  shows "read_promise cd r (read_length r n) (cso_read cd r n)"
proof -
  let ?left = "cs_uncompressed_size (cr_header r) - cr_position r"
  from assms(1) have inv: "header_ok r" "cache_ok cd r" "0 \<le> cr_position r"
    by (simp_all add: reader_inv_def)
  show ?thesis
  proof (cases "0 < ?left \<and> 0 < read_length r n")
    case False
    then have "cso_read cd r n = (Inr [], r)" and "read_length r n = 0"
      using assms(2) by (auto simp: cso_read_def read_length_def Let_def max_def min_def split: option.splits if_splits)
    then show ?thesis using inv by (simp add: read_promise_def py_slice_def)
  next
    case True
    then have eq: "cso_read cd r n = read_loop cd r (read_length r n) []"
      using assms(2) by (auto simp: cso_read_def read_length_def Let_def max_def min_def split: option.splits if_splits)
    have "cr_position r + read_length r n \<le> cs_uncompressed_size (cr_header r)"
      using True by (auto simp: read_length_def Let_def split: option.splits)
    from read_loop_promise [OF inv _ this, of "[]"] True
    obtain res r' where "read_loop cd r (read_length r n) [] = (map_sum id (\<lambda>data. [] @ data) res, r')"
      "read_promise cd r (read_length r n) (res, r')" by auto
    moreover have "map_sum id (\<lambda>data. [] @ data) res = res" for res :: "(cso_error, bytes) result"
      by (cases res) simp_all
    ultimately show ?thesis by (simp add: eq)
  qed
qed

lemma cso_read_inv: "reader_inv cd r0 r \<Longrightarrow> reader_inv cd r0 (snd (cso_read cd r n))"
proof (cases "cr_closed r")
  case True
  then show "reader_inv cd r0 r \<Longrightarrow> ?thesis" by (simp add: cso_read_def)
next
  case False
  assume inv: "reader_inv cd r0 r"
  have "0 \<le> read_length r n" by (auto simp: read_length_def Let_def split: option.splits)
  with cso_read_promise [OF inv False, of n] inv show ?thesis
    by (auto simp: reader_inv_def read_promise_def header_ok_def cso_blocks_def split: sum.splits)
qed

lemma cso_readinto_reader: "snd (cso_readinto cd r buffer) = snd (cso_read cd r (Some (blen buffer)))"
  by (auto simp: cso_readinto_def split: prod.splits sum.splits)

lemma cso_reachable_inv: "cso_reachable cd file r \<Longrightarrow> \<exists>r0. open_cso file = Inr r0 \<and> reader_inv cd r0 r"
proof (induction rule: cso_reachable.induct)
  case (opened r)
  then show ?case using open_cso_inv by blast
next
  case (seeked r offset whence)
  then show ?case by (auto simp: reader_inv_def cso_seek_def Let_def header_ok_def cso_blocks_def cache_ok_def)
next
  case (did_read r n)
  then show ?case using cso_read_inv by blast
next
  case (did_readinto r buffer)
  then show ?case using cso_read_inv by (auto simp: cso_readinto_reader)
next
  case (closed r)
  then show ?case by (auto simp: reader_inv_def cso_close_def header_ok_def cso_blocks_def cache_ok_def)
qed

text \<open>
  Property C10. The CISO reader is a window on a fixed sequence of bytes: after any sequence of
  opens, seeks and reads, failing ones included, a read of an open reader either returns
  exactly the next bytes of the content (at most what was asked for, all of it up to the end of
  the stream) and moves the position past them, or raises the error of a block that the file
  does not store readably. What the cache holds never shows, and it never exceeds eight blocks.
\<close>

theorem cso_read_is_slice:
  assumes "cso_reachable cd file r" "\<not> cr_closed r"
  shows "read_promise cd r (read_length r n) (cso_read cd r n) \<and>
    cso_content cd r = cso_content cd (projr (open_cso file)) \<and> length (cr_cache r) \<le> 8"
proof -
  from cso_reachable_inv [OF assms(1)] obtain r0 where r0: "open_cso file = Inr r0" "reader_inv cd r0 r"
    by blast
  then have "cso_content cd r = cso_content cd r0"
    by (intro cso_content_cong) (simp_all add: reader_inv_def)
  with cso_read_promise [OF r0(2) assms(2)] r0 show ?thesis
    by (simp add: reader_inv_def cache_ok_def CACHE_BLOCKS_def)
qed

text \<open>Three bytes in two plain blocks of two bytes and one.\<close>

definition sample_cso :: bytes where
  "sample_cso =
     str_bytes ''CISO'' @ le_bytes 4 24 @ le_bytes 8 3 @ le_bytes 4 2 @ [1, 0, 0, 0] @
     le_bytes 4 (0x80000000 + 36) @ le_bytes 4 (0x80000000 + 38) @ le_bytes 4 39 @ [7, 8, 9]"

definition sample_codecs :: codecs where
  "sample_codecs = \<lparr> inflate = (\<lambda>_. None), lz4_block = None \<rparr>"

lemma sample_cso_reachable:
  "cso_reachable sample_codecs sample_cso (snd (cso_seek (projr (open_cso sample_cso)) 1 0))"
proof (rule cso_reachable.seeked, rule cso_reachable.opened)
  have "\<not> isl (open_cso sample_cso)" by code_simp
  then show "open_cso sample_cso = Inr (projr (open_cso sample_cso))" by simp
qed

theorem cso_read_is_slice_witness:
  "read_promise sample_codecs (snd (cso_seek (projr (open_cso sample_cso)) 1 0))
     (read_length (snd (cso_seek (projr (open_cso sample_cso)) 1 0)) None)
     (cso_read sample_codecs (snd (cso_seek (projr (open_cso sample_cso)) 1 0)) None) \<and>
   cso_content sample_codecs (snd (cso_seek (projr (open_cso sample_cso)) 1 0)) =
     cso_content sample_codecs (projr (open_cso sample_cso)) \<and>
   length (cr_cache (snd (cso_seek (projr (open_cso sample_cso)) 1 0))) \<le> 8"
proof (rule cso_read_is_slice [OF sample_cso_reachable])
  show "\<not> cr_closed (snd (cso_seek (projr (open_cso sample_cso)) 1 0))" by code_simp
qed

lemma sample_cso_reads:
  "fst (cso_read sample_codecs (snd (cso_seek (projr (open_cso sample_cso)) 1 0)) None) = Inr [8, 9]"
  by code_simp

end
