(* ===== verification/Json.thy ===== *)
theory Json
  imports Py_Prelude
begin

text \<open>
  JSON values as Python holds them after \<open>json.loads\<close>: an object is a dictionary in insertion
  order, a number with a fraction is a rational. \<open>isinstance(x, int)\<close> holds of booleans too.
\<close>

datatype json =
    JNull
  | JBool bool
  | JInt int
  | JFloat rat
  | JStr string
  | JList "json list"
  | JObj "(string \<times> json) list"

text \<open>\<open>d.get(key)\<close> with the default \<open>None\<close>, which is also what a null is.\<close>

definition json_get :: "(string \<times> json) list \<Rightarrow> string \<Rightarrow> json" where
  "json_get d k = (case map_of d k of None \<Rightarrow> JNull | Some v \<Rightarrow> v)"

fun json_int :: "json \<Rightarrow> int option" where
  "json_int (JInt n) = Some n"
| "json_int (JBool b) = Some (of_bool b)"
| "json_int _ = None"

fun json_str :: "json \<Rightarrow> string option" where
  "json_str (JStr s) = Some s"
| "json_str _ = None"

fun json_list :: "json \<Rightarrow> json list option" where
  "json_list (JList xs) = Some xs"
| "json_list _ = None"

fun json_obj :: "json \<Rightarrow> (string \<times> json) list option" where
  "json_obj (JObj d) = Some d"
| "json_obj _ = None"

text \<open>\<open>x == n\<close> for an integer \<open>n\<close>: a boolean or a float may equal it.\<close>

fun json_equals_int :: "json \<Rightarrow> int \<Rightarrow> bool" where
  "json_equals_int (JInt m) n = (m = n)"
| "json_equals_int (JBool b) n = (of_bool b = n)"
| "json_equals_int (JFloat q) n = (q = of_int n)"
| "json_equals_int _ n = False"

lemma json_get_set [simp]: "json_get (dict_set d k v) k' = (if k' = k then v else json_get d k')"
  by (simp add: json_get_def)

end
