(* ===== verification/Effects.thy ===== *)
theory Effects
  imports Py_Prelude
begin

text \<open>
  Stateful code that may raise: an action takes a state to a result and the state it leaves,
  whether it returns or raises. \<open>preserves\<close> says that an action keeps an invariant on every
  path; its rules are collected in \<open>preserves_intros\<close>.
\<close>

type_synonym ('s, 'e, 'a) action = "'s \<Rightarrow> ('e, 'a) result \<times> 's"

named_theorems preserves_intros \<open>invariants through the control structure of actions\<close>

definition returnS :: "'a \<Rightarrow> ('s, 'e, 'a) action" where
  "returnS x s = (Inr x, s)"

definition raiseS :: "'e \<Rightarrow> ('s, 'e, 'a) action" where
  "raiseS e s = (Inl e, s)"

definition bindS :: "('s, 'e, 'a) action \<Rightarrow> ('a \<Rightarrow> ('s, 'e, 'b) action) \<Rightarrow> ('s, 'e, 'b) action" where
  "bindS m f s = (case m s of (Inl e, t) \<Rightarrow> (Inl e, t) | (Inr x, t) \<Rightarrow> f x t)"

definition thenS :: "('s, 'e, 'a) action \<Rightarrow> ('s, 'e, 'b) action \<Rightarrow> ('s, 'e, 'b) action" where
  "thenS m n = bindS m (\<lambda>_. n)"

definition updateS :: "('s \<Rightarrow> 's) \<Rightarrow> ('s, 'e, unit) action" where
  "updateS f s = (Inr (), f s)"

definition readS :: "('s \<Rightarrow> 'a) \<Rightarrow> ('s, 'e, 'a) action" where
  "readS f s = (Inr (f s), s)"

definition ensureS :: "bool \<Rightarrow> 'e \<Rightarrow> ('s, 'e, unit) action" where
  "ensureS c e = (if c then returnS () else raiseS e)"

definition liftS :: "('e, 'a) result \<Rightarrow> ('s, 'e, 'a) action" where
  "liftS r s = (r, s)"

text \<open>The state after \<open>with suppress(...)\<close>; \<open>try/except\<close> that converts errors, and \<open>finally\<close> with a clean-up that does not raise.\<close>

definition attempt :: "('s, 'e, 'a) action \<Rightarrow> 's \<Rightarrow> 's" where
  "attempt m s = snd (m s)"

definition convertS :: "('e \<Rightarrow> 'f) \<Rightarrow> ('s, 'e, 'a) action \<Rightarrow> ('s, 'f, 'a) action" where
  "convertS f m s = (case m s of (Inl e, t) \<Rightarrow> (Inl (f e), t) | (Inr x, t) \<Rightarrow> (Inr x, t))"

definition finallyS :: "('s, 'e, 'a) action \<Rightarrow> ('s \<Rightarrow> 's) \<Rightarrow> ('s, 'e, 'a) action" where
  "finallyS m c s = (case m s of (r, t) \<Rightarrow> (r, c t))"

text \<open>A loop over a list, in order, that collects the results.\<close>

fun mapS :: "('a \<Rightarrow> ('s, 'e, 'b) action) \<Rightarrow> 'a list \<Rightarrow> ('s, 'e, 'b list) action" where
  "mapS f [] = returnS []"
| "mapS f (x # xs) = bindS (f x) (\<lambda>y. bindS (mapS f xs) (\<lambda>ys. returnS (y # ys)))"

lemma bindS_run:
  "m s = (Inr x, t) \<Longrightarrow> bindS m f s = f x t"
  "m s = (Inl e, t) \<Longrightarrow> bindS m f s = (Inl e, t)"
  by (simp_all add: bindS_def)

lemma bindS_Inr:
  "bindS m f s = (Inr y, u) \<longleftrightarrow> (\<exists>x t. m s = (Inr x, t) \<and> f x t = (Inr y, u))"
  by (auto simp: bindS_def split: prod.splits sum.splits)

lemma action_simps [simp]:
  "returnS x s = (Inr x, s)" "raiseS e s = (Inl e, s)" "updateS g s = (Inr (), g s)"
  "readS h s = (Inr (h s), s)" "liftS r s = (r, s)"
  by (simp_all add: returnS_def raiseS_def updateS_def readS_def liftS_def)

definition preserves :: "('s \<Rightarrow> bool) \<Rightarrow> ('s, 'e, 'a) action \<Rightarrow> bool" where
  "preserves P m \<longleftrightarrow> (\<forall>s. P s \<longrightarrow> P (snd (m s)))"

lemma preservesI: "(\<And>s. P s \<Longrightarrow> P (snd (m s))) \<Longrightarrow> preserves P m"
  by (simp add: preserves_def)

lemma preservesD: "preserves P m \<Longrightarrow> P s \<Longrightarrow> m s = (r, t) \<Longrightarrow> P t"
  by (metis preserves_def snd_conv)

lemma preserves_return [preserves_intros]: "preserves P (returnS x)"
  and preserves_raise [preserves_intros]: "preserves P (raiseS e)"
  and preserves_read [preserves_intros]: "preserves P (readS f)"
  and preserves_lift [preserves_intros]: "preserves P (liftS r)"
  by (simp_all add: preserves_def)

lemma preserves_ensure [preserves_intros]: "preserves P (ensureS c e)"
  by (simp add: preserves_def ensureS_def)

lemma preserves_update: "(\<And>s. P s \<Longrightarrow> P (f s)) \<Longrightarrow> preserves P (updateS f)"
  by (simp add: preserves_def)

lemma preserves_bind [preserves_intros]:
  "preserves P m \<Longrightarrow> (\<And>x. preserves P (f x)) \<Longrightarrow> preserves P (bindS m f)"
  unfolding preserves_def bindS_def by (auto split: prod.splits sum.splits)

lemma preserves_then [preserves_intros]: "preserves P m \<Longrightarrow> preserves P n \<Longrightarrow> preserves P (thenS m n)"
  unfolding thenS_def by (intro preserves_intros)

lemma preserves_attempt: "preserves P m \<Longrightarrow> P s \<Longrightarrow> P (attempt m s)"
  by (simp add: preserves_def attempt_def)

lemma preserves_convert [preserves_intros]: "preserves P m \<Longrightarrow> preserves P (convertS f m)"
  unfolding preserves_def convertS_def by (auto split: prod.splits sum.splits)

lemma preserves_finally: "preserves P m \<Longrightarrow> (\<And>s. P s \<Longrightarrow> P (c s)) \<Longrightarrow> preserves P (finallyS m c)"
  unfolding preserves_def finallyS_def by (auto split: prod.splits)

lemma preserves_if [preserves_intros]: "preserves P m \<Longrightarrow> preserves P n \<Longrightarrow> preserves P (if b then m else n)"
  by simp

lemma preserves_map [preserves_intros]: "(\<And>x. preserves P (f x)) \<Longrightarrow> preserves P (mapS f xs)"
  by (induction xs) (auto intro!: preserves_intros)

end
