(* ===== verification/Host_Model.thy ===== *)
theory Host_Model
  imports Json Effects
begin

text \<open>
  What the program sees of its host: integers typed by the user, JSON files that may be missing
  or broken, POSIX paths, and processes that exit, time out or cannot be started.
\<close>

section \<open>Integers with their own base\<close>

text \<open>
  \<open>int(text, 0)\<close> on ASCII: the prefix chooses the base, and without one a number that is not zero
  has no leading zero.
\<close>

definition base_prefix :: "string \<Rightarrow> nat option" where
  "base_prefix s =
     (if casefold (take 2 s) = ''0x'' then Some 16
      else if casefold (take 2 s) = ''0o'' then Some 8
      else if casefold (take 2 s) = ''0b'' then Some 2
      else None)"

definition signed_text :: "string \<Rightarrow> bool \<times> string" where
  "signed_text s =
     (case s of [] \<Rightarrow> (False, s)
      | c # r \<Rightarrow> if c = CHR ''-'' then (True, r) else if c = CHR ''+'' then (False, r) else (False, s))"

definition py_int_auto :: "string \<Rightarrow> int option" where
  "py_int_auto text =
     (let (neg, s) = signed_text (strip text);
          value = (case base_prefix s of
             Some base \<Rightarrow>
               let s' = drop 2 s in digits_value base False 0 (if take 1 s' = ''_'' then drop 1 s' else s')
           | None \<Rightarrow>
               case digits_value 10 False 0 s of
                 None \<Rightarrow> None
               | Some n \<Rightarrow> if take 1 s = ''0'' \<and> n \<noteq> 0 then None else Some n)
      in map_option (\<lambda>n. if neg then - n else n) value)"

text \<open>\<open>text.isdecimal()\<close> on ASCII.\<close>

definition is_decimal :: "string \<Rightarrow> bool" where
  "is_decimal s \<longleftrightarrow> s \<noteq> [] \<and> list_all (is_digit 10) s"

section \<open>Characters\<close>

text \<open>A character is a byte that continues no other; lengths and cuts of texts count characters.\<close>

definition continues_char :: "char \<Rightarrow> bool" where
  "continues_char c \<longleftrightarrow> 0x80 \<le> (of_char c :: nat) \<and> (of_char c :: nat) < 0xC0"

definition text_length :: "string \<Rightarrow> nat" where
  "text_length s = length (filter (\<lambda>c. \<not> continues_char c) s)"

fun take_text :: "nat \<Rightarrow> string \<Rightarrow> string" where
  "take_text n [] = []"
| "take_text n (c # cs) =
     (if continues_char c then c # take_text n cs else if n = 0 then [] else c # take_text (n - 1) cs)"

text \<open>\<open>s.strip(chars)\<close>.\<close>

definition strip_chars :: "char set \<Rightarrow> string \<Rightarrow> string" where
  "strip_chars cs s = rev (dropWhile (\<lambda>c. c \<in> cs) (rev (dropWhile (\<lambda>c. c \<in> cs) s)))"

section \<open>JSON files\<close>

text \<open>
  \<open>json.loads(path.read_text(encoding="utf-8"))\<close>: the file is missing, is not UTF-8 (a
  \<open>UnicodeDecodeError\<close>, which is neither an \<open>OSError\<close> nor a \<open>JSONDecodeError\<close>), is not JSON, or is.
\<close>

datatype json_file = Missing_File | Unreadable_File | Undecodable_File | Json_File json

text \<open>Lookups that raise \<open>KeyError\<close>, and the two readings of \<open>isinstance(x, int)\<close>.\<close>

definition json_key :: "'e \<Rightarrow> (string \<times> json) list \<Rightarrow> string \<Rightarrow> ('e, json) result" where
  "json_key err d k = (case map_of d k of None \<Rightarrow> Inl err | Some v \<Rightarrow> Inr v)"

fun strict_int :: "json \<Rightarrow> int option" where
  "strict_int (JInt n) = Some n"
| "strict_int _ = None"

fun json_bool :: "json \<Rightarrow> bool option" where
  "json_bool (JBool b) = Some b"
| "json_bool _ = None"

fun json_of_option :: "('a \<Rightarrow> json) \<Rightarrow> 'a option \<Rightarrow> json" where
  "json_of_option f None = JNull"
| "json_of_option f (Some x) = f x"

definition from_option :: "'e \<Rightarrow> 'a option \<Rightarrow> ('e, 'a) result" where
  "from_option err x = (case x of None \<Rightarrow> Inl err | Some v \<Rightarrow> Inr v)"

lemma from_option_Inr [simp]: "from_option err x = Inr v \<longleftrightarrow> x = Some v"
  by (cases x) (simp_all add: from_option_def)

lemma json_key_Inr [simp]: "json_key err d k = Inr v \<longleftrightarrow> map_of d k = Some v"
  by (cases "map_of d k") (simp_all add: json_key_def)

section \<open>Paths and files\<close>

text \<open>\<open>PurePosixPath(s).is_absolute()\<close> and its check against escaping names.\<close>

definition path_absolute :: "string \<Rightarrow> bool" where
  "path_absolute s \<longleftrightarrow> take 1 s = ''/''"

definition path_escapes :: "string \<Rightarrow> bool" where
  "path_escapes s \<longleftrightarrow> path_absolute s \<or> ''..'' \<in> set (path_parts s)"

text \<open>\<open>a / b\<close>, \<open>path.parent\<close> and \<open>path.relative_to(root)\<close> of normalized POSIX paths.\<close>

definition path_join :: "string \<Rightarrow> string \<Rightarrow> string" where
  "path_join a b = (if path_absolute b \<or> a = [] then b else if last a = CHR ''/'' then a @ b else a @ ''/'' @ b)"

definition path_parent :: "string \<Rightarrow> string" where
  "path_parent s =
     (let p = join_with ''/'' (butlast (split_on (CHR ''/'') s)) in if p = [] \<and> path_absolute s then ''/'' else p)"

definition relative_to :: "string \<Rightarrow> string \<Rightarrow> string option" where
  "relative_to path dir =
     (if path = dir then Some ''.''
      else let pre = path_join dir [] in
        if take (length pre) path = pre \<and> pre \<noteq> [] then Some (drop (length pre) path) else None)"

text \<open>The regular files by their resolved paths.\<close>

type_synonym file_store = "string \<rightharpoonup> bytes"

definition read_json :: "(bytes \<Rightarrow> json option) \<Rightarrow> file_store \<Rightarrow> string \<Rightarrow> json_file" where
  "read_json loads fs path =
     (case fs path of
        None \<Rightarrow> Missing_File
      | Some bs \<Rightarrow> if \<not> utf8_valid bs then Undecodable_File
                  else case loads bs of None \<Rightarrow> Unreadable_File | Some j \<Rightarrow> Json_File j)"

section \<open>Processes\<close>

datatype process_end = Timed_Out | Not_Started | Exited int

end
