(* ===== verification/Selection.thy ===== *)
theory Selection
  imports Host_Model
begin

text \<open>
  Choosing among plug-ins by their probe confidence, as \<open>resource_containers.py\<close> does for container
  parsers and \<open>recovery.py\<close> for recovery backends: a probe that raises or whose confidence is no
  number between 0 and 1 is reported and passed over, the best of the rest wins, and ties go to the
  smaller name and then to the earlier plug-in.
\<close>

datatype score_value = Finite_Score rat | Not_Finite string

datatype probe_outcome = Probe_Raised string | Probe_Scored score_value

datatype probe_warning = Probe_Failed string string | Invalid_Confidence string score_value

definition valid_score :: "score_value \<Rightarrow> rat option" where
  "valid_score v = (case v of Finite_Score q \<Rightarrow> if q < 0 \<or> q > 1 then None else Some q | Not_Finite _ \<Rightarrow> None)"

definition judge_probe :: "rat \<Rightarrow> nat \<times> string \<times> probe_outcome \<Rightarrow> (rat \<times> string \<times> nat) option \<times> probe_warning option" where
  "judge_probe threshold entry =
     (case entry of (index, name, outcome) \<Rightarrow>
        case outcome of
          Probe_Raised exc \<Rightarrow> (None, Some (Probe_Failed name exc))
        | Probe_Scored v \<Rightarrow>
            (case valid_score v of
               None \<Rightarrow> (None, Some (Invalid_Confidence name v))
             | Some q \<Rightarrow> (if q \<ge> threshold then Some (q, name, index) else None, None)))"

definition accepted_order :: "rat \<times> string \<times> nat \<Rightarrow> rat \<times> string \<times> string \<times> nat" where
  "accepted_order a = (case a of (q, name, index) \<Rightarrow> (- q, casefold name, name, index))"

definition select_probed ::
    "rat \<Rightarrow> (string \<times> probe_outcome) list \<Rightarrow> (nat \<times> rat) option \<times> probe_warning list" where
  "select_probed threshold probes =
     (let judged = map (judge_probe threshold) (enumerate 0 probes);
          accepted = List.map_filter fst judged
      in (if accepted = [] then None
          else let (q, _, index) = hd (sort_key accepted_order accepted) in Some (index, q),
          List.map_filter snd judged))"

text \<open>A plug-in that is a contender: its probe answered a valid confidence at the threshold or above.\<close>

definition contender :: "rat \<Rightarrow> (string \<times> probe_outcome) list \<Rightarrow> nat \<Rightarrow> rat \<Rightarrow> bool" where
  "contender threshold probes i q \<longleftrightarrow>
     i < length probes \<and> snd (probes ! i) = Probe_Scored (Finite_Score q) \<and> 0 \<le> q \<and> q \<le> 1 \<and> threshold \<le> q"

definition is_selection :: "rat \<Rightarrow> (string \<times> probe_outcome) list \<Rightarrow> (nat \<times> rat) option \<Rightarrow> bool" where
  "is_selection threshold probes choice \<longleftrightarrow>
     (case choice of
        None \<Rightarrow> \<forall>i q. \<not> contender threshold probes i q
      | Some (i, q) \<Rightarrow>
          contender threshold probes i q \<and>
          (\<forall>j p. contender threshold probes j p \<longrightarrow>
             p < q \<or>
             p = q \<and> (casefold (fst (probes ! i)), fst (probes ! i), i) \<le> (casefold (fst (probes ! j)), fst (probes ! j), j)))"

lemma valid_score_Some: "valid_score v = Some q \<longleftrightarrow> v = Finite_Score q \<and> 0 \<le> q \<and> q \<le> 1"
  by (cases v) (auto simp: valid_score_def)

lemma judge_probe_Some:
  "fst (judge_probe threshold (i, n, outcome)) = Some a \<longleftrightarrow>
     (\<exists>q. outcome = Probe_Scored (Finite_Score q) \<and> 0 \<le> q \<and> q \<le> 1 \<and> threshold \<le> q \<and> a = (q, n, i))"
proof (cases outcome)
  case (Probe_Scored v)
  then show ?thesis by (cases "valid_score v") (auto simp: judge_probe_def valid_score_Some, auto simp: valid_score_def split: score_value.splits if_splits)
qed (simp add: judge_probe_def)

lemma judged_contender:
  "(q, name, i) \<in> set (List.map_filter fst (map (judge_probe threshold) (enumerate 0 probes))) \<longleftrightarrow>
     contender threshold probes i q \<and> name = fst (probes ! i)"
proof -
  have "(q, name, i) \<in> set (List.map_filter fst (map (judge_probe threshold) (enumerate 0 probes))) \<longleftrightarrow>
      (\<exists>x \<in> set (enumerate 0 probes). fst (judge_probe threshold x) = Some (q, name, i))"
    by (auto simp: set_map_filter_member)
  also have "\<dots> \<longleftrightarrow> (\<exists>k < length probes. fst (judge_probe threshold (k, probes ! k)) = Some (q, name, i))"
    by (auto simp: in_set_enumerate_eq intro!: bexI)
  also have "\<dots> \<longleftrightarrow> contender threshold probes i q \<and> name = fst (probes ! i)"
  proof -
    have "fst (judge_probe threshold (k, probes ! k)) = Some (q, name, i) \<longleftrightarrow>
        snd (probes ! k) = Probe_Scored (Finite_Score q) \<and> 0 \<le> q \<and> q \<le> 1 \<and> threshold \<le> q \<and> name = fst (probes ! k) \<and> i = k" for k
      using judge_probe_Some [of threshold k "fst (probes ! k)" "snd (probes ! k)" "(q, name, i)"] by auto
    then show ?thesis by (auto simp: contender_def)
  qed
  finally show ?thesis .
qed

lemma select_probed_best: "is_selection threshold probes (fst (select_probed threshold probes))"
proof -
  let ?accepted = "List.map_filter fst (map (judge_probe threshold) (enumerate 0 probes))"
  show ?thesis
  proof (cases "?accepted = []")
    case True
    then have "\<not> contender threshold probes i q" for i q
      using judged_contender [of q "fst (probes ! i)" i threshold probes] by simp
    then show ?thesis using True by (simp add: select_probed_def is_selection_def)
  next
    case False
    obtain q name i where h: "hd (sort_key accepted_order ?accepted) = (q, name, i)" by (cases "hd (sort_key accepted_order ?accepted)")
    have "sort_key accepted_order ?accepted \<noteq> []" using False by (metis length_0_conv length_sort)
    then have "hd (sort_key accepted_order ?accepted) \<in> set ?accepted" using hd_in_set by fastforce
    then have i: "contender threshold probes i q" "name = fst (probes ! i)"
      using judged_contender [of q name i threshold probes] by (simp_all add: h)
    have least: "accepted_order (hd (sort_key accepted_order ?accepted)) \<le> accepted_order a" if "a \<in> set ?accepted" for a
      using that by (rule hd_sort_key_le)
    have "p < q \<or> p = q \<and> (casefold (fst (probes ! i)), fst (probes ! i), i) \<le> (casefold (fst (probes ! j)), fst (probes ! j), j)"
      if "contender threshold probes j p" for j p
      using least [of "(p, fst (probes ! j), j)"] that judged_contender [of p "fst (probes ! j)" j threshold probes]
      by (auto simp: h i(2) accepted_order_def less_eq_prod_def)
    then show ?thesis using False i by (simp add: select_probed_def is_selection_def h)
  qed
qed

text \<open>
  Property C33. Selecting a plug-in by its probe takes a contender of the highest confidence, breaking
  ties by the name without regard to case, then the name, then the position; no plug-in is selected
  exactly when no probe answered a number between the threshold and 1.
\<close>

theorem select_probed_picks_best: "is_selection threshold probes (fst (select_probed threshold probes))"
  by (rule select_probed_best)

end
