(* ===== verification/Containers.thy ===== *)
theory Containers
  imports Selection "HOL-Library.Multiset"
begin

text \<open>
  \<open>resource_containers.py\<close>: profiles of files that may be containers, their families, and the choice
  of a parser. The logarithm of the entropy estimate is a parameter.
\<close>

definition PREFIX_FINGERPRINT_BYTES :: nat where "PREFIX_FINGERPRINT_BYTES = 16"
definition FAMILY_PREFIX_BYTES :: nat where "FAMILY_PREFIX_BYTES = 4"
definition ENTROPY_SAMPLE_BYTES :: nat where "ENTROPY_SAMPLE_BYTES = 64 * 1024"
definition DEFAULT_PARSER_THRESHOLD :: rat where "DEFAULT_PARSER_THRESHOLD = 90 / 100"

record container_profile =
  cp_path :: string
  cp_size :: int
  cp_suffix :: string
  cp_prefix_hex :: string
  cp_prefix_ascii :: string
  cp_sample_entropy :: rat
  cp_embedded_count :: int
  cp_bounded_embedded_bytes :: int
  cp_family_key :: string

record container_family =
  cf_family_key :: string
  cf_suffix :: string
  cf_prefix_hex :: string
  cf_member_paths :: "string list"
  cf_member_count :: int
  cf_total_size :: int

text \<open>\<open>bytes.hex()\<close>: two lower-case digits for each byte.\<close>

definition hex_pair :: "byte \<Rightarrow> string" where
  "hex_pair b = casefold (hex_upper 2 (uint b))"

definition bytes_hex :: "bytes \<Rightarrow> string" where
  "bytes_hex bs = concat (map hex_pair bs)"

definition ascii_view :: "bytes \<Rightarrow> string" where
  "ascii_view bs = map (\<lambda>b. if 0x20 \<le> b \<and> b \<le> 0x7E then byte_char b else CHR ''.'') bs"

text \<open>The entropy of the sample in bits, from the counts of the byte values.\<close>

definition shannon_entropy :: "(rat \<Rightarrow> rat) \<Rightarrow> bytes \<Rightarrow> rat" where
  "shannon_entropy log2 data =
     (if data = [] then 0
      else - sum_list (map (\<lambda>b. let p = of_nat (count_list data b) / of_nat (length data) in p * log2 p) (remdups data)))"

definition family_key :: "string \<Rightarrow> bytes \<Rightarrow> string \<times> string \<times> string" where
  "family_key logical_path prefix =
     (let suffix = casefold (path_suffix logical_path); family_prefix = bytes_hex (take FAMILY_PREFIX_BYTES prefix)
      in ((if suffix \<noteq> [] then suffix else ''<none>'') @ '':'' @ family_prefix, suffix, family_prefix))"

definition profile_container_candidate ::
    "(rat \<Rightarrow> rat) \<Rightarrow> bytes \<Rightarrow> string \<Rightarrow> int \<Rightarrow> int \<Rightarrow> container_profile" where
  "profile_container_candidate log2 content logical_path embedded_count bounded_embedded_bytes =
     (let sample = take ENTROPY_SAMPLE_BYTES content; prefix = take PREFIX_FINGERPRINT_BYTES sample;
          (key, suffix, _) = family_key logical_path prefix
      in \<lparr> cp_path = logical_path, cp_size = blen content, cp_suffix = suffix, cp_prefix_hex = bytes_hex prefix,
           cp_prefix_ascii = ascii_view prefix, cp_sample_entropy = shannon_entropy log2 sample,
           cp_embedded_count = max 0 embedded_count, cp_bounded_embedded_bytes = max 0 bounded_embedded_bytes,
           cp_family_key = key \<rparr>)"

definition family_of :: "container_profile list \<Rightarrow> string \<Rightarrow> container_family" where
  "family_of profiles key =
     (let members = sort_key (\<lambda>p. casefold (cp_path p)) (filter (\<lambda>p. cp_family_key p = key) profiles); first = hd members
      in \<lparr> cf_family_key = key, cf_suffix = cp_suffix first,
           cf_prefix_hex = take (FAMILY_PREFIX_BYTES * 2) (cp_prefix_hex first), cf_member_paths = map cp_path members,
           cf_member_count = blen members, cf_total_size = sum_list (map cp_size members) \<rparr>)"

text \<open>The keys in the order of their first member, then sorted stably without regard to case.\<close>

definition family_keys :: "container_profile list \<Rightarrow> string list" where
  "family_keys profiles = sort_key casefold (rev (remdups (rev (map cp_family_key profiles))))"

definition group_container_families :: "container_profile list \<Rightarrow> container_family list" where
  "group_container_families profiles = map (family_of profiles) (family_keys profiles)"

definition select_container_parser ::
    "rat \<Rightarrow> (string \<times> probe_outcome) list \<Rightarrow> (nat \<times> rat) option \<times> probe_warning list" where
  "select_container_parser threshold probes = select_probed threshold probes"

text \<open>The families are a partition of the profiles: every profile is counted in exactly one.\<close>

lemma family_of_members:
  "mset (cf_member_paths (family_of profiles key)) = mset (map cp_path (filter (\<lambda>p. cp_family_key p = key) profiles))"
  by (simp add: family_of_def Let_def)

lemma sum_list_sort_key: "sum_list (map f (sort_key g xs)) = sum_list (map (f :: 'a \<Rightarrow> int) xs)"
proof -
  have "sum_mset (mset (map f (sort_key g xs))) = sum_mset (mset (map f xs))" by simp
  then show ?thesis by (simp only: sum_mset_sum_list)
qed

lemma sum_over_keys:
  "distinct keys \<Longrightarrow> cp_family_key ` set profiles \<subseteq> set keys \<Longrightarrow>
     sum_list (map (\<lambda>k. sum_list (map g (filter (\<lambda>p. cp_family_key p = k) profiles))) keys) = sum_list (map g profiles)"
  for g :: "container_profile \<Rightarrow> int"
proof (induction profiles)
  case (Cons p profiles)
  let ?total = "\<lambda>ps. sum_list (map (\<lambda>k. sum_list (map g (filter (\<lambda>p. cp_family_key p = k) ps))) keys)"
  have "?total (p # profiles) = sum_list (map (\<lambda>k. if k = cp_family_key p then g p else 0) keys) + ?total profiles"
    by (auto simp: sum_list_addf [symmetric] intro!: arg_cong [where f = sum_list])
  also have "sum_list (map (\<lambda>k. if k = cp_family_key p then g p else 0) keys) = g p"
    using Cons.prems by (simp add: sum_list_distinct_conv_sum_set)
  finally show ?case using Cons by simp
qed (simp add: sum_list_triv)

lemma group_container_families_sizes:
  "sum_list (map cf_total_size (group_container_families profiles)) = sum_list (map cp_size profiles)"
proof -
  have total: "cf_total_size (family_of profiles k) = sum_list (map cp_size (filter (\<lambda>p. cp_family_key p = k) profiles))" for k
    by (simp add: family_of_def Let_def sum_list_sort_key)
  show ?thesis
    using sum_over_keys [of "family_keys profiles" profiles cp_size]
    by (simp add: group_container_families_def comp_def total family_keys_def)
qed

end
