(* ===== verification/Spim_Engine.thy ===== *)
theory Spim_Engine
  imports Psp_Model Effects Elf_Parser
begin

text \<open>
  \<open>engines/spim.py\<close>: the adapter around spimdisasm and rabbitizer. The engine is a parameter: its
  context is a state it owns, an analyzed section is the data the adapter reads from it. The
  process-wide \<open>GlobalConfig\<close> of the engine is the state of the analysis. Everything the adapter
  computes itself (seeds, references, strings, jump tables, symbols) is defined here.
\<close>

section \<open>The engine\<close>

record engine_function =
  ef_name :: string
  ef_vram :: int
  ef_sizew :: int
  ef_assembly :: string
  ef_instructions :: "instruction_record list"
  ef_calls :: "(int \<times> int) list"
  ef_branches :: "(int \<times> int) list"
  ef_symbols :: "(int \<times> int) list"
  ef_indirect_calls :: "(int \<times> int) list"
  ef_jump_registers :: "(int \<times> int) list"
  ef_referenced_tables :: "int list"

record engine_text =
  et_assembly :: string
  et_functions :: "engine_function list"

record engine_symbol =
  es_name :: string
  es_special :: bool
  es_type :: string

record text_request =
  tx_start :: int
  tx_end :: int
  tx_vram :: int
  tx_name :: string

record 'v global_config =
  gc_endian :: 'v
  gc_abi :: 'v

record ('c, 'v) engine =
  eg_spimdisasm_version :: "string option"
  eg_rabbitizer_version :: "string option"
  eg_little :: 'v
  eg_o32 :: 'v
  eg_context :: "int \<Rightarrow> int \<Rightarrow> int \<Rightarrow> 'c"
  eg_add_function :: "int \<Rightarrow> int option \<Rightarrow> 'c \<Rightarrow> 'c"
  eg_analyze :: "'v global_config \<Rightarrow> bytes \<Rightarrow> text_request \<Rightarrow> 'c \<Rightarrow> (string + engine_text) \<times> 'c"
  eg_global_symbols :: "'c \<Rightarrow> (int \<times> engine_symbol) list"

datatype engine_error = Engine_Unavailable | Engine_Failed string int string

definition load_engines :: "('c, 'v) engine option \<Rightarrow> (engine_error, ('c, 'v) engine) result" where
  "load_engines installed = (case installed of None \<Rightarrow> Inl Engine_Unavailable | Some eg \<Rightarrow> Inr eg)"

definition engine_info :: "('c, 'v) engine \<Rightarrow> engine_info list" where
  "engine_info eg =
     (let version = \<lambda>v. (case v of None \<Rightarrow> ''unknown'' | Some s \<Rightarrow> s) in
      [\<lparr> en_name = ''spimdisasm'', en_version = version (eg_spimdisasm_version eg) \<rparr>,
       \<lparr> en_name = ''rabbitizer'', en_version = version (eg_rabbitizer_version eg) \<rparr>])"

section \<open>Sections and addresses\<close>

definition find_section :: "elf_image \<Rightarrow> int \<Rightarrow> elf_section option" where
  "find_section elf address = find (\<lambda>s. se_addr s \<le> address \<and> address < se_addr s + se_size s) (el_sections elf)"

definition section_label :: "elf_section \<Rightarrow> string" where
  "section_label s = (if se_name s \<noteq> [] then se_name s else dec_str (se_index s))"

definition section_name :: "elf_section \<Rightarrow> string" where
  "section_name s = (if se_name s \<noteq> [] then se_name s else ''section_'' @ dec_str (se_index s))"

definition in_executable_section :: "elf_image \<Rightarrow> int \<Rightarrow> bool" where
  "in_executable_section elf address =
     (case find_section elf address of None \<Rightarrow> False | Some s \<Rightarrow> se_kind s = Executable)"

text \<open>The functions the parsers found are given to the engine before it runs.\<close>

definition seed_function ::
    "('c, 'v) engine \<Rightarrow> elf_image \<Rightarrow> int \<Rightarrow> 'c \<times> int set \<Rightarrow> 'c \<times> int set" where
  "seed_function eg elf address st =
     (case st of (context, seeded) \<Rightarrow>
        (eg_add_function eg address (vaddr_to_offset elf address) context, insert address seeded))"

definition seed_known_functions ::
    "('c, 'v) engine \<Rightarrow> 'c \<Rightarrow> elf_image \<Rightarrow> 'w executable_model \<Rightarrow> 'c \<times> int set" where
  "seed_known_functions eg context elf m =
     (let entry = eh_entry (el_header elf);
          start = (if entry \<noteq> 0 \<and> find_section elf entry \<noteq> None then seed_function eg elf entry (context, {})
                   else (context, {}))
      in fold (\<lambda>e st. if in_executable_section elf (ne_address e) then seed_function eg elf (ne_address e) st else st)
           (concat (map li_functions (xm_imports m @ xm_exports m))) start)"

section \<open>References\<close>

definition make_reference :: "elf_image \<Rightarrow> string \<Rightarrow> string \<Rightarrow> int \<Rightarrow> int \<Rightarrow> reference_record" where
  "make_reference elf kind source_function source_address target_address =
     \<lparr> rf_source_address = source_address, rf_target_address = target_address, rf_kind = kind,
       rf_source_function = Some source_function,
       rf_target_section = map_option section_name (find_section elf target_address) \<rparr>"

definition function_references ::
    "elf_image \<Rightarrow> engine_function \<Rightarrow> string \<Rightarrow> (int \<times> int) list \<Rightarrow> reference_record list" where
  "function_references elf f kind offsets =
     map (\<lambda>(off, target). make_reference elf kind (ef_name f) (ef_vram f + off) target) offsets"

definition normalize_references :: "engine_text \<Rightarrow> elf_image \<Rightarrow> reference_record list" where
  "normalize_references txt elf =
     concat (map (\<lambda>f. function_references elf f ''call'' (ef_calls f) @
                       function_references elf f ''branch'' (ef_branches f) @
                       function_references elf f ''data'' (ef_symbols f)) (et_functions txt))"

definition normalize_indirect_references :: "engine_text \<Rightarrow> elf_image \<Rightarrow> reference_record list" where
  "normalize_indirect_references txt elf =
     concat (map (\<lambda>f. function_references elf f ''indirect_call'' (ef_indirect_calls f)) (et_functions txt))"

definition reference_identity :: "reference_record \<Rightarrow> int \<times> int \<times> string \<times> string option" where
  "reference_identity r = (rf_source_address r, rf_target_address r, rf_kind r, rf_source_function r)"

definition deduplicate_references :: "reference_record list \<Rightarrow> reference_record list" where
  "deduplicate_references records =
     sort_key (\<lambda>r. (rf_source_address r, rf_target_address r, rf_kind r))
       (map snd (fold (\<lambda>r unique. dict_set unique (reference_identity r) r) records []))"

section \<open>Jump tables\<close>

definition MAX_TABLE_ENTRIES :: nat where "MAX_TABLE_ENTRIES = 256"

text \<open>At most \<open>n\<close> more words from an offset, up to the first that is no code address.\<close>

fun table_targets :: "elf_image \<Rightarrow> int \<Rightarrow> nat \<Rightarrow> int \<Rightarrow> int list" where
  "table_targets elf section_end 0 off = []"
| "table_targets elf section_end (Suc n) off =
     (if off + 4 > section_end then []
      else
        let target = le_int (py_slice (el_raw_data elf) off (off + 4)) in
        if in_executable_section elf target then target # table_targets elf section_end n (off + 4) else [])"

definition decode_jump_table_targets :: "elf_image \<Rightarrow> int \<Rightarrow> int list" where
  "decode_jump_table_targets elf address =
     (case find_section elf address of
        None \<Rightarrow> []
      | Some s \<Rightarrow>
          if se_type s = 8 \<or> se_kind s = Executable then []
          else case vaddr_to_offset elf address of
            None \<Rightarrow> []
          | Some off \<Rightarrow> table_targets elf (min (se_offset s + se_size s) (blen (el_raw_data elf))) MAX_TABLE_ENTRIES off)"

definition function_jump_tables :: "elf_image \<Rightarrow> engine_function \<Rightarrow> jump_table_record list" where
  "function_jump_tables elf f =
     List.map_filter
       (\<lambda>(off, table). 
          if table \<notin> set (ef_referenced_tables f) then None
          else
            let targets = decode_jump_table_targets elf table in
            if length targets < 2 then None
            else Some \<lparr> jt_address = table, jt_source_function = ef_name f, jt_source_address = ef_vram f + off,
                         jt_targets = targets \<rparr>)
       (ef_jump_registers f)"

definition normalize_jump_tables :: "engine_text \<Rightarrow> elf_image \<Rightarrow> jump_table_record list" where
  "normalize_jump_tables txt elf = concat (map (function_jump_tables elf) (et_functions txt))"

definition deduplicate_jump_tables :: "jump_table_record list \<Rightarrow> jump_table_record list" where
  "deduplicate_jump_tables records =
     sort_key (\<lambda>r. (jt_address r, jt_source_address r, jt_source_function r))
       (map snd (fold (\<lambda>r unique. dict_set unique (jt_address r, jt_source_function r, jt_source_address r) r) records []))"

section \<open>Strings\<close>

text \<open>
  \<open>str.isprintable\<close> on ASCII; the Unicode table decides on the other characters, given by their
  UTF-8 encodings.
\<close>

fun printable_text :: "(string \<Rightarrow> bool) \<Rightarrow> string \<Rightarrow> string \<Rightarrow> bool" where
  "printable_text unicode pending [] = (pending = [] \<or> unicode (rev pending))"
| "printable_text unicode pending (c # cs) =
     (if (of_char c :: nat) < 0x80
      then (pending = [] \<or> unicode (rev pending)) \<and> CHR '' '' \<le> c \<and> c \<noteq> CHR 0x7F \<and> printable_text unicode [] cs
      else if pending \<noteq> [] \<and> 0x80 \<le> (of_char c :: nat) \<and> (of_char c :: nat) < 0xC0
      then printable_text unicode (c # pending) cs
      else (pending = [] \<or> unicode (rev pending)) \<and> printable_text unicode [c] cs)"

definition decode_referenced_string :: "(string \<Rightarrow> bool) \<Rightarrow> elf_image \<Rightarrow> elf_section \<Rightarrow> int \<Rightarrow> string option" where
  "decode_referenced_string unicode elf s address =
     (case vaddr_to_offset elf address of
        None \<Rightarrow> None
      | Some off \<Rightarrow>
          let end_limit = min (se_offset s + se_size s) (off + 256);
              terminator = find_byte (el_raw_data elf) 0 off end_limit
          in if terminator < 0 \<or> terminator - off < 4 then None
             else
               let raw = py_slice (el_raw_data elf) off terminator; v = map byte_char raw in
               if \<not> utf8_valid raw then None
               else if v = [] \<or> \<not> printable_text unicode [] v then None else Some v)"

definition add_string_reference ::
    "(string \<Rightarrow> bool) \<Rightarrow> elf_image \<Rightarrow> reference_record \<Rightarrow> (int \<times> string_record) list \<Rightarrow> (int \<times> string_record) list" where
  "add_string_reference unicode elf r by_address =
     (if rf_kind r \<notin> {''data'', ''pointer''} then by_address
      else case find_section elf (rf_target_address r) of
        None \<Rightarrow> by_address
      | Some s \<Rightarrow>
          if se_kind s = Executable \<or> se_type s = 8 then by_address
          else case decode_referenced_string unicode elf s (rf_target_address r) of
            None \<Rightarrow> by_address
          | Some v \<Rightarrow>
              let existing = (case map_of by_address (rf_target_address r) of
                    Some x \<Rightarrow> x
                  | None \<Rightarrow> \<lparr> sg_address = rf_target_address r, sg_value = v, sg_section = section_name s,
                             sg_referenced_by = [] \<rparr>)
              in dict_set by_address (rf_target_address r)
                   (existing\<lparr> sg_referenced_by := sg_referenced_by existing @ [rf_source_address r] \<rparr>))"

definition detect_strings ::
    "(string \<Rightarrow> bool) \<Rightarrow> elf_image \<Rightarrow> reference_record list \<Rightarrow> string_record list" where
  "detect_strings unicode elf references =
     sort_key (\<lambda>r. (sg_address r, sg_value r))
       (map (\<lambda>(a, r). r\<lparr> sg_referenced_by := sorted_list_of_set (set (sg_referenced_by r)) \<rparr>)
          (fold (add_string_reference unicode elf) references []))"

section \<open>Functions and symbols\<close>

definition normalize_functions :: "engine_text \<Rightarrow> elf_section \<Rightarrow> function_record list" where
  "normalize_functions txt s =
     map (\<lambda>f. \<lparr> fn_name = ef_name f, fn_address = ef_vram f, fn_size = ef_sizew f * 4, fn_section = section_name s,
                fn_assembly = ef_assembly f, fn_instruction_count = blen (ef_instructions f),
                fn_instructions = ef_instructions f \<rparr>) (et_functions txt)"

definition symbol_kind :: "elf_image \<Rightarrow> int \<Rightarrow> engine_symbol \<Rightarrow> string" where
  "symbol_kind elf address s =
     (let t = (if es_special s then dropWhile (\<lambda>c. c = CHR ''@'') (es_type s)
               else if in_executable_section elf address then ''code'' else ''data'');
          t' = (if t = ''branchlabel'' then ''label'' else t)
      in if t' \<noteq> [] then t' else ''symbol'')"

definition normalize_symbols ::
    "(int \<times> engine_symbol) list \<Rightarrow> elf_image \<Rightarrow> int set \<Rightarrow> symbol_record list" where
  "normalize_symbols symbols elf seeded =
     sort_key (\<lambda>r. (sy_address r, sy_name r, sy_kind r))
       (map (\<lambda>(address, s).
          \<lparr> sy_name = es_name s, sy_address = address, sy_section = map_option section_name (find_section elf address),
            sy_kind = symbol_kind elf address s,
            sy_source = (if address \<in> seeded then ''phase1'' else ''spimdisasm'') \<rparr>) symbols)"

section \<open>The analysis\<close>

record 'c spim_state =
  sp_context :: 'c
  sp_functions :: "function_record list"
  sp_references :: "reference_record list"
  sp_jump_tables :: "jump_table_record list"
  sp_assembly_sections :: "assembly_section list"
  sp_warnings :: "string list"

definition trailing_warning :: "elf_section \<Rightarrow> string" where
  "trailing_warning s =
     ''Executable section '' @ section_label s @ '' has '' @ dec_str (se_size s mod 4) @
     '' trailing byte(s) that are not complete instructions.''"

definition analyze_section ::
    "('c, 'v) engine \<Rightarrow> 'v global_config \<Rightarrow> elf_image \<Rightarrow> elf_section \<Rightarrow> 'c spim_state \<Rightarrow>
       (engine_error, 'c spim_state) result" where
  "analyze_section eg config elf s st =
     (if se_kind s \<noteq> Executable \<or> se_size s = 0 then Inr st
      else
        let analyzed = se_size s - se_size s mod 4;
            st1 = (if analyzed \<noteq> se_size s then st\<lparr> sp_warnings := sp_warnings st @ [trailing_warning s] \<rparr> else st)
        in if analyzed = 0 then Inr st1
           else
             case eg_analyze eg config (el_raw_data elf)
                    \<lparr> tx_start = se_offset s, tx_end = se_offset s + analyzed, tx_vram = se_addr s,
                      tx_name = section_name s \<rparr> (sp_context st1) of
               (Inl message, context) \<Rightarrow> Inl (Engine_Failed (section_label s) (se_addr s) message)
             | (Inr txt, context) \<Rightarrow>
                 Inr (st1\<lparr> sp_context := context,
                   sp_assembly_sections := sp_assembly_sections st1 @
                     [\<lparr> as_name = section_name s, as_address = se_addr s, as_size = analyzed,
                        as_assembly = et_assembly txt \<rparr>],
                   sp_functions := sp_functions st1 @ normalize_functions txt s,
                   sp_references := sp_references st1 @ normalize_references txt elf @
                     normalize_indirect_references txt elf,
                   sp_jump_tables := sp_jump_tables st1 @ normalize_jump_tables txt elf \<rparr>))"

definition spim_result ::
    "(string \<Rightarrow> bool) \<Rightarrow> ('c, 'v) engine \<Rightarrow> elf_image \<Rightarrow> string \<Rightarrow> int set \<Rightarrow> 'c spim_state \<Rightarrow> disassembly_result" where
  "spim_result unicode eg elf source_name seeded st =
     (let references = deduplicate_references (sp_references st) in
      \<lparr> ds_source_name = source_name, ds_engines = engine_info eg,
        ds_functions = sort_key (\<lambda>f. (fn_address f, fn_name f)) (sp_functions st),
        ds_symbols = normalize_symbols (eg_global_symbols eg (sp_context st)) elf seeded,
        ds_references = references, ds_strings = detect_strings unicode elf references,
        ds_jump_tables = deduplicate_jump_tables (sp_jump_tables st),
        ds_assembly_sections = sort_key (\<lambda>a. (as_address a, as_name a)) (sp_assembly_sections st),
        ds_warnings = sp_warnings st \<rparr>)"

definition no_sections_result :: "('c, 'v) engine \<Rightarrow> string \<Rightarrow> disassembly_result" where
  "no_sections_result eg source_name =
     \<lparr> ds_source_name = source_name, ds_engines = engine_info eg, ds_functions = [], ds_symbols = [], ds_references = [],
       ds_strings = [], ds_jump_tables = [], ds_assembly_sections = [],
       ds_warnings = [''ELF contains no mapped sections to analyze.''] \<rparr>"

text \<open>
  \<open>SpimdisasmAdapter.analyze\<close>: the configuration is set for the sections and put back whatever
  happens.
\<close>

definition spim_analyze ::
    "(string \<Rightarrow> bool) \<Rightarrow> ('c, 'v) engine \<Rightarrow> elf_image \<Rightarrow> 'w executable_model \<Rightarrow>
       ('v global_config, engine_error, disassembly_result) action" where
  "spim_analyze unicode eg elf m =
     (let mapped = filter (\<lambda>s. se_addr s \<noteq> 0 \<and> se_size s \<noteq> 0) (el_sections elf) in
      if mapped = [] then returnS (no_sections_result eg (xm_source_name m))
      else
        let context0 = eg_context eg (blen (el_raw_data elf)) (Min (set (map se_addr mapped)))
              (Max (set (map (\<lambda>s. se_addr s + se_size s) mapped)));
            (context, seeded) = seed_known_functions eg context0 elf m;
            st0 = \<lparr> sp_context = context, sp_functions = [], sp_references = [], sp_jump_tables = [],
                    sp_assembly_sections = [], sp_warnings = [] \<rparr>
        in bindS (readS (\<lambda>config. config)) (\<lambda>old.
           bindS (finallyS
             (thenS (updateS (\<lambda>config. config\<lparr> gc_endian := eg_little eg, gc_abi := eg_o32 eg \<rparr>))
                (bindS (readS (\<lambda>config. config)) (\<lambda>config.
                   liftS (foldE (analyze_section eg config elf) (el_sections elf) st0))))
             (\<lambda>config. config\<lparr> gc_endian := gc_endian old, gc_abi := gc_abi old \<rparr>))
           (\<lambda>st. returnS (spim_result unicode eg elf (xm_source_name m) seeded st))))"

section \<open>The configuration of the engine is put back\<close>

lemma spim_analyze_config: "snd (spim_analyze unicode eg elf m config) = (config :: 'v global_config)"
proof -
  have [simp]: "foldE f xs s = r \<Longrightarrow> snd (finallyS (thenS (updateS u) (bindS (readS h) (\<lambda>c. liftS (g c)))) k config) = k (u config)"
    for f xs s r u h g k by (simp add: finallyS_def thenS_def bindS_def split: sum.split)
  show ?thesis
    by (auto simp: spim_analyze_def Let_def bindS_def thenS_def finallyS_def split: prod.splits sum.splits)
qed

text \<open>
  The analysis puts the process-wide configuration of the engine back to what it was,
  whether it succeeds, finds nothing to analyze, or the engine fails in any section.
\<close>

theorem engine_config_restored: "snd (spim_analyze unicode eg elf m config) = config"
  by (rule spim_analyze_config)

section \<open>What the analysis reports is in the file\<close>

definition string_in_file :: "elf_image \<Rightarrow> string_record \<Rightarrow> bool" where
  "string_in_file elf r \<longleftrightarrow>
     (case vaddr_to_offset elf (sg_address r) of
        None \<Rightarrow> False
      | Some off \<Rightarrow>
          let n = blen (sg_value r) in
          4 \<le> n \<and> n < 256 \<and> off + n < blen (el_raw_data elf) \<and>
          str_bytes (sg_value r) = py_slice (el_raw_data elf) off (off + n) \<and>
          el_raw_data elf ! nat (off + n) = 0 \<and> 0 \<notin> set (str_bytes (sg_value r)) \<and> utf8_valid (str_bytes (sg_value r)))"

definition table_in_file :: "elf_image \<Rightarrow> jump_table_record \<Rightarrow> bool" where
  "table_in_file elf t \<longleftrightarrow>
     2 \<le> length (jt_targets t) \<and> length (jt_targets t) \<le> 256 \<and>
     (case vaddr_to_offset elf (jt_address t) of
        None \<Rightarrow> False
      | Some off \<Rightarrow>
          off + 4 * blen (jt_targets t) \<le> blen (el_raw_data elf) \<and>
          (\<forall>k < length (jt_targets t).
             jt_targets t ! k = le_int (py_slice (el_raw_data elf) (off + 4 * int k) (off + 4 * int k + 4)) \<and>
             in_executable_section elf (jt_targets t ! k)))"

definition disassembly_sound :: "elf_image \<Rightarrow> disassembly_result \<Rightarrow> bool" where
  "disassembly_sound elf d \<longleftrightarrow>
     distinct (map sg_address (ds_strings d)) \<and>
     (\<forall>r \<in> set (ds_strings d). string_in_file elf r \<and> sg_referenced_by r \<noteq> [] \<and>
        set (sg_referenced_by r) =
          rf_source_address ` {x \<in> set (ds_references d). rf_target_address x = sg_address r \<and> rf_kind x \<in> {''data'', ''pointer''}}) \<and>
     (\<forall>t \<in> set (ds_jump_tables d). table_in_file elf t) \<and>
     distinct (map reference_identity (ds_references d)) \<and>
     (\<forall>r \<in> set (ds_references d). rf_target_section r = map_option section_name (find_section elf (rf_target_address r)))"

lemma find_byte_hit:
  assumes "0 \<le> i" "0 \<le> j" "0 \<le> find_byte xs b i j"
  shows "xs ! nat (find_byte xs b i j) = b"
proof -
  let ?seg = "py_slice xs i j"
  let ?k = "length (takeWhile (\<lambda>x. x \<noteq> b) ?seg)"
  from assms(3) have lt: "?k < length ?seg" and eq: "find_byte xs b i j = i + int ?k"
    by (auto simp: find_byte_def Let_def split: if_splits)
  have "?seg ! ?k = b" using nth_length_takeWhile [OF lt] by simp
  moreover have "?seg ! ?k = xs ! (nat i + ?k)"
  proof -
    have "i \<le> j" using lt assms(1,2) by (auto simp: py_slice_def slice_bound_def Let_def)
    then have "?seg = take (nat (j - i)) (drop (nat i) xs)" using assms(1) by (intro py_slice_take_drop) simp_all
    then show ?thesis using lt by (simp only: length_take length_drop nth_take min_less_iff_conj) (subst nth_drop, auto)
  qed
  ultimately show ?thesis using assms(1) by (simp add: eq nat_add_distrib)
qed

lemma found_section:
  "find_section elf a = Some s \<Longrightarrow> s \<in> set (el_sections elf) \<and> se_addr s \<le> a \<and> a < se_addr s + se_size s"
  by (auto simp: find_section_def find_Some_iff)

lemma decoded_string_in_file:
  assumes "elf_wf elf" "find_section elf a = Some s" "se_type s \<noteq> 8"
    and "decode_referenced_string unicode elf s a = Some v"
  shows "string_in_file elf (\<lparr> sg_address = a, sg_value = v, sg_section = n, sg_referenced_by = rs \<rparr>)"
proof -
  from assms(4) obtain off where off: "vaddr_to_offset elf a = Some off"
    by (auto simp: decode_referenced_string_def split: option.splits)
  define z where "z = find_byte (el_raw_data elf) 0 off (min (se_offset s + se_size s) (off + 256))"
  from assms(4) off have z: "0 \<le> z" "4 \<le> z - off" and v: "v = map byte_char (py_slice (el_raw_data elf) off z)"
    and valid: "utf8_valid (py_slice (el_raw_data elf) off z)"
    by (auto simp: decode_referenced_string_def Let_def z_def split: if_splits)
  from elf_wf_vaddr_to_offset [OF assms(1) off] have o0: "0 \<le> off" by simp
  have j0: "0 \<le> min (se_offset s + se_size s) (off + 256)"
    using assms(1,3) found_section [OF assms(2)] o0 by (auto simp: elf_wf_def in_file_def SHT_NOBITS_def)
  note z' = z(1) [unfolded z_def]
  have rng: "off \<le> z" "z < off + 256" "z < blen (el_raw_data elf)"
    using find_byte_range [OF o0 j0 z'] by (auto simp: z_def)
  have n: "blen v = z - off" using rng o0 by (simp add: v length_py_slice)
  show ?thesis
    unfolding string_in_file_def
    using off rng z n valid find_byte_hit [OF o0 j0 z'] find_byte_no_byte [OF o0 j0 z']
    by (simp add: Let_def v z_def [symmetric])
qed

text \<open>The string a target holds, before its references are counted.\<close>

definition string_at :: "(string \<Rightarrow> bool) \<Rightarrow> elf_image \<Rightarrow> int \<Rightarrow> string_record option" where
  "string_at unicode elf a =
     (case find_section elf a of
        None \<Rightarrow> None
      | Some s \<Rightarrow>
          if se_kind s = Executable \<or> se_type s = 8 then None
          else map_option (\<lambda>v. \<lparr> sg_address = a, sg_value = v, sg_section = section_name s, sg_referenced_by = [] \<rparr>)
                 (decode_referenced_string unicode elf s a))"

lemma string_at_in_file:
  "elf_wf elf \<Longrightarrow> string_at unicode elf a = Some r \<Longrightarrow>
     sg_address r = a \<and> string_in_file elf (r\<lparr> sg_referenced_by := rs \<rparr>) \<and> sg_referenced_by r = []"
  by (auto simp: string_at_def decoded_string_in_file split: option.splits if_splits)

definition counts_for :: "int \<Rightarrow> reference_record \<Rightarrow> bool" where
  "counts_for a r \<longleftrightarrow> rf_target_address r = a \<and> rf_kind r \<in> {''data'', ''pointer''}"

lemma add_string_reference_step:
  "add_string_reference unicode elf r d =
     (if rf_kind r \<notin> {''data'', ''pointer''} then d
      else case string_at unicode elf (rf_target_address r) of
        None \<Rightarrow> d
      | Some new \<Rightarrow>
          let x = (case map_of d (rf_target_address r) of Some x \<Rightarrow> x | None \<Rightarrow> new) in
          dict_set d (rf_target_address r) (x\<lparr> sg_referenced_by := sg_referenced_by x @ [rf_source_address r] \<rparr>))"
  by (simp add: add_string_reference_def string_at_def Let_def split: option.split)

definition strings_found ::
    "(string \<Rightarrow> bool) \<Rightarrow> elf_image \<Rightarrow> reference_record list \<Rightarrow> (int \<times> string_record) list \<Rightarrow> bool" where
  "strings_found unicode elf refs d \<longleftrightarrow>
     distinct (map fst d) \<and>
     (\<forall>a. map_of d a =
        (if \<exists>r \<in> set refs. counts_for a r
         then map_option (\<lambda>x. x\<lparr> sg_referenced_by := map rf_source_address (filter (counts_for a) refs) \<rparr>)
                (string_at unicode elf a)
         else None))"

lemma strings_found_fold: "strings_found unicode elf refs (fold (add_string_reference unicode elf) refs [])"
proof (induction refs rule: rev_induct)
  case Nil
  show ?case by (simp add: strings_found_def)
next
  case (snoc r refs)
  define d where "d = fold (add_string_reference unicode elf) refs []"
  let ?a = "rf_target_address r"
  have dist: "distinct (map fst d)" and m: "map_of d a =
        (if \<exists>r \<in> set refs. counts_for a r
         then map_option (\<lambda>x. x\<lparr> sg_referenced_by := map rf_source_address (filter (counts_for a) refs) \<rparr>)
                (string_at unicode elf a)
         else None)" for a
    using snoc.IH by (simp_all add: strings_found_def d_def)
  note step = add_string_reference_step [of unicode elf r]
  have none: "\<not> (\<exists>r \<in> set refs. counts_for a r) \<Longrightarrow> filter (counts_for a) refs = []" for a
    by (simp add: filter_empty_conv)
  show ?case
  proof (cases "rf_kind r \<in> {''data'', ''pointer''}")
    case False
    then have "\<not> counts_for a r" for a by (simp add: counts_for_def)
    with False dist m show ?thesis by (simp add: strings_found_def step d_def [symmetric])
  next
    case True
    then have c: "counts_for a r \<longleftrightarrow> a = ?a" for a by (auto simp: counts_for_def)
    show ?thesis
    proof (cases "string_at unicode elf ?a")
      case None
      with True dist m show ?thesis
        by (simp add: strings_found_def step d_def [symmetric] c)
    next
      case (Some new)
      have "map_of d ?a = None \<longrightarrow> filter (counts_for ?a) refs = []"
        using m [of ?a] none [of ?a] Some by auto
      moreover have "sg_referenced_by new = []" using Some by (auto simp: string_at_def split: option.splits if_splits)
      ultimately show ?thesis using True Some dist m none [of ?a]
        by (auto simp: strings_found_def step d_def [symmetric] c Let_def dict_set_distinct
            fun_eq_iff split: option.split)
    qed
  qed
qed

lemma map_of_entry: "distinct (map fst d) \<Longrightarrow> (a, x) \<in> set d \<Longrightarrow> map_of d a = Some x"
  by simp

lemma detected_strings_sound:
  assumes "elf_wf elf"
  shows "distinct (map sg_address (detect_strings unicode elf refs))"
    and "r \<in> set (detect_strings unicode elf refs) \<Longrightarrow> string_in_file elf r \<and> sg_referenced_by r \<noteq> [] \<and>
      set (sg_referenced_by r) = rf_source_address ` {x \<in> set refs. counts_for (sg_address r) x}"
proof -
  define d where "d = fold (add_string_reference unicode elf) refs []"
  have found: "strings_found unicode elf refs d" unfolding d_def by (rule strings_found_fold)
  then have dist: "distinct (map fst d)" by (simp add: strings_found_def)
  have entry: "sg_address x = a \<and> (\<forall>rs. string_in_file elf (x\<lparr> sg_referenced_by := rs \<rparr>)) \<and>
      sg_referenced_by x = map rf_source_address (filter (counts_for a) refs) \<and> (\<exists>r \<in> set refs. counts_for a r)"
    if "(a, x) \<in> set d" for a x
  proof -
    have "map_of d a = Some x" by (rule map_of_entry [OF dist that])
    with found obtain y where "string_at unicode elf a = Some y" "\<exists>r \<in> set refs. counts_for a r"
        "x = y\<lparr> sg_referenced_by := map rf_source_address (filter (counts_for a) refs) \<rparr>"
      by (auto simp: strings_found_def split: if_splits)
    with string_at_in_file [OF assms] show ?thesis by auto
  qed
  have ds: "detect_strings unicode elf refs = sort_key (\<lambda>r. (sg_address r, sg_value r))
      (map (\<lambda>(a, r). r\<lparr> sg_referenced_by := sorted_list_of_set (set (sg_referenced_by r)) \<rparr>) d)"
    by (simp add: detect_strings_def d_def)
  have addr: "map sg_address (map (\<lambda>(a, r). r\<lparr> sg_referenced_by := sorted_list_of_set (set (sg_referenced_by r)) \<rparr>) d) = map fst d"
    using entry by (auto simp: comp_def case_prod_unfold)
  show "distinct (map sg_address (detect_strings unicode elf refs))"
    unfolding ds distinct_map_sort_key addr by (rule dist)
  assume "r \<in> set (detect_strings unicode elf refs)"
  then obtain a x where "(a, x) \<in> set d" "r = x\<lparr> sg_referenced_by := sorted_list_of_set (set (sg_referenced_by x)) \<rparr>"
    by (auto simp: ds)
  with entry [of a x] show "string_in_file elf r \<and> sg_referenced_by r \<noteq> [] \<and>
      set (sg_referenced_by r) = rf_source_address ` {x \<in> set refs. counts_for (sg_address r) x}"
    by (auto simp: filter_empty_conv)
qed

lemma table_targets_words:
  assumes "0 \<le> off" "section_end \<le> blen (el_raw_data elf)"
  shows "length (table_targets elf section_end n off) \<le> n \<and>
    (table_targets elf section_end n off \<noteq> [] \<longrightarrow>
       off + 4 * blen (table_targets elf section_end n off) \<le> blen (el_raw_data elf)) \<and>
    (\<forall>k < length (table_targets elf section_end n off).
       table_targets elf section_end n off ! k = le_int (py_slice (el_raw_data elf) (off + 4 * int k) (off + 4 * int k + 4)) \<and>
       in_executable_section elf (table_targets elf section_end n off ! k))"
  using assms
proof (induction elf section_end n off rule: table_targets.induct)
  case (2 elf section_end n off)
  define t where "t = le_int (py_slice (el_raw_data elf) off (off + 4))"
  show ?case
  proof (cases "off + 4 > section_end \<or> \<not> in_executable_section elf t")
    case True
    then have "table_targets elf section_end (Suc n) off = []" by (auto simp: t_def)
    then show ?thesis by simp
  next
    case False
    then have eq: "table_targets elf section_end (Suc n) off = t # table_targets elf section_end n (off + 4)"
      by (auto simp: t_def Let_def)
    have ih: "length (table_targets elf section_end n (off + 4)) \<le> n \<and>
      (table_targets elf section_end n (off + 4) \<noteq> [] \<longrightarrow>
         off + 4 + 4 * blen (table_targets elf section_end n (off + 4)) \<le> blen (el_raw_data elf)) \<and>
      (\<forall>k < length (table_targets elf section_end n (off + 4)).
         table_targets elf section_end n (off + 4) ! k = le_int (py_slice (el_raw_data elf) (off + 4 + 4 * int k) (off + 4 + 4 * int k + 4)) \<and>
         in_executable_section elf (table_targets elf section_end n (off + 4) ! k))"
      by (rule 2(1) [OF _ t_def]) (use False 2(2,3) in auto)
    have words: "(t # table_targets elf section_end n (off + 4)) ! k =
          le_int (py_slice (el_raw_data elf) (off + 4 * int k) (off + 4 * int k + 4)) \<and>
        in_executable_section elf ((t # table_targets elf section_end n (off + 4)) ! k)"
      if "k < Suc (length (table_targets elf section_end n (off + 4)))" for k
    proof (cases k)
      case 0
      with False show ?thesis by (simp add: t_def)
    next
      case (Suc j)
      with that have j: "j < length (table_targets elf section_end n (off + 4))" by simp
      have at: "off + 4 * int (Suc j) = off + 4 + 4 * int j" by simp
      show ?thesis unfolding Suc nth_Cons_Suc at using ih j by blast
    qed
    have "off + 4 * blen (t # table_targets elf section_end n (off + 4)) \<le> blen (el_raw_data elf)"
      using ih False 2(3) by (cases "table_targets elf section_end n (off + 4) = []") auto
    moreover have "length (t # table_targets elf section_end n (off + 4)) \<le> Suc n" using ih by simp
    ultimately show ?thesis unfolding eq using words by (simp only: length_Cons) blast
  qed
qed simp

lemma decoded_table_in_file:
  assumes "elf_wf elf" "2 \<le> length (decode_jump_table_targets elf a)"
  shows "table_in_file elf \<lparr> jt_address = a, jt_source_function = f, jt_source_address = sa,
           jt_targets = decode_jump_table_targets elf a \<rparr>"
proof -
  from assms(2) obtain s where s: "find_section elf a = Some s" "se_type s \<noteq> 8" "se_kind s \<noteq> Executable"
    by (cases "find_section elf a") (auto simp: decode_jump_table_targets_def split: if_splits)
  with assms(2) obtain off where off: "vaddr_to_offset elf a = Some off"
    by (cases "vaddr_to_offset elf a") (auto simp: decode_jump_table_targets_def)
  have eq: "decode_jump_table_targets elf a =
      table_targets elf (min (se_offset s + se_size s) (blen (el_raw_data elf))) MAX_TABLE_ENTRIES off"
    by (simp add: decode_jump_table_targets_def s off)
  from elf_wf_vaddr_to_offset [OF assms(1) off] have "0 \<le> off" by simp
  from table_targets_words [OF this, of "min (se_offset s + se_size s) (blen (el_raw_data elf))" elf MAX_TABLE_ENTRIES] assms(2)
  show ?thesis by (auto simp: table_in_file_def off eq MAX_TABLE_ENTRIES_def simp del: table_targets.simps)
qed

lemma function_jump_tables_in_file:
  "elf_wf elf \<Longrightarrow> t \<in> set (function_jump_tables elf f) \<Longrightarrow> table_in_file elf t"
  by (auto simp: function_jump_tables_def set_map_filter_member Let_def decoded_table_in_file split: if_splits)

definition state_sound :: "elf_image \<Rightarrow> 'c spim_state \<Rightarrow> bool" where
  "state_sound elf st \<longleftrightarrow>
     (\<forall>t \<in> set (sp_jump_tables st). table_in_file elf t) \<and>
     (\<forall>r \<in> set (sp_references st). rf_target_section r = map_option section_name (find_section elf (rf_target_address r)))"

lemma normalized_references_targets:
  "r \<in> set (normalize_references txt elf @ normalize_indirect_references txt elf) \<Longrightarrow>
     rf_target_section r = map_option section_name (find_section elf (rf_target_address r))"
  by (auto simp: normalize_references_def normalize_indirect_references_def function_references_def make_reference_def)

lemma analyze_section_sound:
  "elf_wf elf \<Longrightarrow> state_sound elf st \<Longrightarrow> analyze_section eg config elf s st = Inr st' \<Longrightarrow> state_sound elf st'"
  using normalized_references_targets
  by (auto simp: analyze_section_def Let_def state_sound_def normalize_jump_tables_def function_jump_tables_in_file
      split: if_splits prod.splits sum.splits)

lemma deduplicated_references:
  "distinct (map reference_identity (deduplicate_references rs))"
  "set (deduplicate_references rs) \<subseteq> set rs"
proof -
  let ?u = "fold (\<lambda>r unique. dict_set unique (reference_identity r) r) rs []"
  have entries: "set ?u \<subseteq> (\<lambda>r. (reference_identity r, r)) ` set rs"
    using fold_dict_set_entries [of reference_identity rs "[]"] by simp
  have eq: "map reference_identity (map snd ?u) = map fst ?u"
    unfolding map_map by (rule map_cong) (use entries in auto)
  show "distinct (map reference_identity (deduplicate_references rs))"
    unfolding deduplicate_references_def distinct_map_sort_key eq by (rule fold_dict_set_distinct) simp
  show "set (deduplicate_references rs) \<subseteq> set rs" using entries by (auto simp: deduplicate_references_def)
qed

lemma deduplicated_tables: "set (deduplicate_jump_tables ts) \<subseteq> set ts"
  using fold_dict_set_entries [of "\<lambda>r. (jt_address r, jt_source_function r, jt_source_address r)" ts "[]"]
  by (auto simp: deduplicate_jump_tables_def)

lemma spim_result_sound:
  assumes "elf_wf elf" "state_sound elf st"
  shows "disassembly_sound elf (spim_result unicode eg elf nm seeded st)"
proof -
  let ?refs = "deduplicate_references (sp_references st)"
  have refs: "rf_target_section r = map_option section_name (find_section elf (rf_target_address r))" if "r \<in> set ?refs" for r
    using deduplicated_references(2) assms(2) that by (auto simp: state_sound_def)
  have tables: "table_in_file elf t" if "t \<in> set (deduplicate_jump_tables (sp_jump_tables st))" for t
    using deduplicated_tables assms(2) that by (auto simp: state_sound_def)
  have strings: "string_in_file elf r \<and> sg_referenced_by r \<noteq> [] \<and> set (sg_referenced_by r) =
      rf_source_address ` {x \<in> set ?refs. rf_target_address x = sg_address r \<and> rf_kind x \<in> {''data'', ''pointer''}}"
    if "r \<in> set (detect_strings unicode elf ?refs)" for r
    using detected_strings_sound(2) [OF assms(1) that] unfolding counts_for_def .
  show ?thesis
    unfolding disassembly_sound_def spim_result_def Let_def
    using refs tables strings detected_strings_sound(1) [OF assms(1)] deduplicated_references(1) by simp
qed

lemma spim_analyze_sound:
  assumes "elf_wf elf" "fst (spim_analyze unicode eg elf m config) = Inr d"
  shows "disassembly_sound elf d"
proof -
  have empty: "disassembly_sound elf (no_sections_result eg (xm_source_name m))"
    by (simp add: disassembly_sound_def no_sections_result_def)
  have run: "d = no_sections_result eg (xm_source_name m) \<or>
      (\<exists>config cx seeded st. d = spim_result unicode eg elf (xm_source_name m) seeded st \<and>
         foldE (analyze_section eg config elf) (el_sections elf)
           \<lparr> sp_context = cx, sp_functions = [], sp_references = [], sp_jump_tables = [],
             sp_assembly_sections = [], sp_warnings = [] \<rparr> = Inr st)"
    using assms(2)
    by (fastforce simp: spim_analyze_def Let_def bindS_def thenS_def finallyS_def split: if_splits prod.splits sum.splits)
  moreover have "state_sound elf st" if "foldE (analyze_section eg config elf) (el_sections elf)
           \<lparr> sp_context = cx, sp_functions = [], sp_references = [], sp_jump_tables = [],
             sp_assembly_sections = [], sp_warnings = [] \<rparr> = Inr st" for config cx st
    by (rule foldE_invariant [OF that]) (simp add: state_sound_def, rule analyze_section_sound [OF assms(1)])
  ultimately show ?thesis using empty spim_result_sound [OF assms(1)] by blast
qed

end
