(* ===== verification/Disassembler.thy ===== *)
theory Disassembler
  imports Spim_Engine Analyzer Load_View
begin

text \<open>
  \<open>disassembler.py\<close>: the disassembly of an executable held in memory. \<open>load_module\<close> is the part
  \<open>project.py\<close> has in common with it: the parsed image and its model, moved to the load address
  when one is given.
\<close>

datatype disassemble_error =
    Input_Rejected analyze_error
  | Requires_Decryption
  | Image_Rejected elf_error
  | View_Rejected view_error
  | Engine_Error engine_error

definition load_module ::
    "bytes \<Rightarrow> string \<Rightarrow> int option \<Rightarrow>
       (disassemble_error, elf_image \<times> analyze_warning executable_model) result" where
  "load_module data source_name load_address =
     (case analyze_bytes data source_name of
        Inl e \<Rightarrow> Inl (Input_Rejected e)
      | Inr m \<Rightarrow>
          if xm_needs_decryption m then Inl Requires_Decryption
          else
            (case parse_elf32 data of
               Inl e \<Rightarrow> Inl (Image_Rejected e)
             | Inr elf \<Rightarrow>
                 (case load_address of
                    None \<Rightarrow> Inr (elf, m)
                  | Some address \<Rightarrow>
                      (case build_relocated_load_view data elf m address of
                         Inl e \<Rightarrow> Inl (View_Rejected e)
                       | Inr view \<Rightarrow> Inr (lv_elf view, lv_model view)))))"

definition disassemble_bytes ::
    "(string \<Rightarrow> bool) \<Rightarrow> ('c, 'v) engine option \<Rightarrow> bytes \<Rightarrow> string \<Rightarrow> int option \<Rightarrow>
       ('v global_config, disassemble_error, disassembly_result) action" where
  "disassemble_bytes unicode installed data source_name load_address =
     bindS (liftS (load_module data source_name load_address)) (\<lambda>(elf, m).
     convertS Engine_Error
       (bindS (liftS (load_engines installed)) (\<lambda>eg. spim_analyze unicode eg elf m)))"

section \<open>A disassembly is grounded in the loaded image\<close>

lemma rebase_elf_wf:
  assumes "elf_wf elf" "length patched = length (el_raw_data elf)"
  shows "elf_wf (rebase_elf elf patched delta)"
  using assms by (auto simp: elf_wf_def rebase_elf_def Let_def in_file_def rebase_segment_def rebase_section_def)

lemma load_module_wf:
  assumes "load_module data nm la = Inr (elf, m)"
  shows "elf_wf elf"
proof -
  from assms obtain m0 elf0 where elf0: "parse_elf32 data = Inr elf0"
    and placed: "(case la of None \<Rightarrow> Inr (elf0, m0)
       | Some address \<Rightarrow> (case build_relocated_load_view data elf0 m0 address of
            Inl e \<Rightarrow> Inl (View_Rejected e) | Inr view \<Rightarrow> Inr (lv_elf view, lv_model view))) = Inr (elf, m)"
    by (auto simp: load_module_def split: sum.splits if_splits)
  then have image: "elf = elf0 \<or> (\<exists>address view. build_relocated_load_view data elf0 m0 address = Inr view \<and> elf = lv_elf view)"
    by (auto split: option.splits sum.splits)
  have raw: "el_raw_data elf0 = data" using elf0 by (rule parse_elf32_parts)
  show ?thesis
  proof (cases "elf = elf0")
    case True
    with parse_elf32_wf [OF elf0] show ?thesis by simp
  next
    case False
    with image obtain address view where view: "build_relocated_load_view data elf0 m0 address = Inr view" "elf = lv_elf view"
      by blast
    have "length (el_raw_data elf) = length data"
      using apply_relocations_facts(1) [OF load_view_bytes [OF view(1)]] view(2) by simp
    moreover obtain patched delta where "elf = rebase_elf elf0 patched delta"
      using build_view_parts [OF view(1)] view(2) by metis
    moreover have "el_raw_data (rebase_elf elf0 patched delta) = patched" by (simp add: rebase_elf_def Let_def)
    ultimately show ?thesis using rebase_elf_wf [OF parse_elf32_wf [OF elf0]] raw by simp
  qed
qed

text \<open>
  Property C4. Everything a disassembly reports about the data of the image is there: a string is
  the NUL-terminated UTF-8 text at its address, with the references to it; a jump table is a run of
  words of the file that all point into executable sections; references are reported once, with
  the section they hit. This holds with and without a load address, for every engine.
\<close>

theorem disassembly_is_grounded:
  assumes "fst (disassemble_bytes unicode installed data nm la config) = Inr d"
  shows "\<exists>elf m. load_module data nm la = Inr (elf, m) \<and> disassembly_sound elf d"
proof -
  from assms obtain elf m where lm: "load_module data nm la = Inr (elf, m)"
    by (cases "load_module data nm la") (auto simp: disassemble_bytes_def bindS_def)
  with assms obtain eg where "load_engines installed = Inr eg"
    by (cases "load_engines installed") (auto simp: disassemble_bytes_def bindS_def convertS_def)
  with assms lm have "fst (spim_analyze unicode eg elf m config) = Inr d"
    by (auto simp: disassemble_bytes_def bindS_def convertS_def split: sum.splits prod.splits)
  with lm show ?thesis using spim_analyze_sound load_module_wf by blast
qed

text \<open>
  An image with a code section of two words and a data section that holds a jump table and a string,
  and an engine that reports one function using both.
\<close>

definition sample_section_header :: "int \<Rightarrow> int \<Rightarrow> int \<Rightarrow> int \<Rightarrow> int \<Rightarrow> bytes" where
  "sample_section_header t flags addr off n =
     concat (map (le_bytes 4) [0, t, flags, addr, off, n, 0, 0, 4, 0])"

definition sample_image_bytes :: bytes where
  "sample_image_bytes =
     [0x7F, 0x45, 0x4C, 0x46, 1, 1, 1, 0, 0, 0, 0, 0, 0, 0, 0, 0] @
     le_bytes 2 2 @ le_bytes 2 8 @ concat (map (le_bytes 4) [1, 0x1000, 0, 76, 0]) @
     concat (map (le_bytes 2) [52, 32, 0, 40, 3, 0]) @
     concat (map (le_bytes 4) [0, 0, 0x1000, 0x1004]) @ str_bytes ''abcd'' @ [0, 0, 0, 0] @
     sample_section_header 0 0 0 0 0 @ sample_section_header 1 6 0x1000 52 8 @ sample_section_header 1 2 0x1010 60 16"

definition sample_engine :: "(unit, nat) engine" where
  "sample_engine =
     \<lparr> eg_spimdisasm_version = Some ''1'', eg_rabbitizer_version = None, eg_little = 1, eg_o32 = 1,
       eg_context = (\<lambda>n s e. ()), eg_add_function = (\<lambda>a v c. c),
       eg_analyze = (\<lambda>config raw request c.
         (Inr \<lparr> et_assembly = ''nop'', et_functions =
            [\<lparr> ef_name = ''f'', ef_vram = tx_vram request, ef_sizew = 2, ef_assembly = ''nop'', ef_instructions = [],
               ef_calls = [], ef_branches = [], ef_symbols = [(0, 0x1018)], ef_indirect_calls = [],
               ef_jump_registers = [(4, 0x1010)], ef_referenced_tables = [0x1010] \<rparr>] \<rparr>, c)),
       eg_global_symbols = (\<lambda>c. [(0x1000, \<lparr> es_name = ''f'', es_special = False, es_type = [] \<rparr>)]) \<rparr>"

definition sample_disassembly :: disassembly_result where
  "sample_disassembly =
     projr (fst (disassemble_bytes (\<lambda>c. True) (Some sample_engine) sample_image_bytes ''a.prx'' None
       \<lparr> gc_endian = 0, gc_abi = 0 \<rparr>))"

lemma sample_disassembles:
  "fst (disassemble_bytes (\<lambda>c. True) (Some sample_engine) sample_image_bytes ''a.prx'' None
     \<lparr> gc_endian = 0, gc_abi = 0 \<rparr>) = Inr sample_disassembly"
  "map sg_value (ds_strings sample_disassembly) = [''abcd''] \<and>
   map jt_targets (ds_jump_tables sample_disassembly) = [[0x1000, 0x1004]]"
proof -
  have "case fst (disassemble_bytes (\<lambda>c. True) (Some sample_engine) sample_image_bytes ''a.prx'' None
     \<lparr> gc_endian = 0, gc_abi = 0 \<rparr>) of
       Inr d \<Rightarrow> map sg_value (ds_strings d) = [''abcd''] \<and> map jt_targets (ds_jump_tables d) = [[0x1000, 0x1004]]
     | Inl _ \<Rightarrow> False" by code_simp
  then obtain d where d: "fst (disassemble_bytes (\<lambda>c. True) (Some sample_engine) sample_image_bytes ''a.prx'' None
     \<lparr> gc_endian = 0, gc_abi = 0 \<rparr>) = Inr d"
    "map sg_value (ds_strings d) = [''abcd''] \<and> map jt_targets (ds_jump_tables d) = [[0x1000, 0x1004]]"
    by (auto split: sum.splits)
  from d(1) have "sample_disassembly = d" by (simp add: sample_disassembly_def)
  with d show "fst (disassemble_bytes (\<lambda>c. True) (Some sample_engine) sample_image_bytes ''a.prx'' None
     \<lparr> gc_endian = 0, gc_abi = 0 \<rparr>) = Inr sample_disassembly"
    "map sg_value (ds_strings sample_disassembly) = [''abcd''] \<and>
     map jt_targets (ds_jump_tables sample_disassembly) = [[0x1000, 0x1004]]"
    by simp_all
qed

theorem disassembly_is_grounded_witness:
  "(\<exists>elf m. load_module sample_image_bytes ''a.prx'' None = Inr (elf, m) \<and> disassembly_sound elf sample_disassembly) \<and>
   map sg_value (ds_strings sample_disassembly) = [''abcd''] \<and>
   map jt_targets (ds_jump_tables sample_disassembly) = [[0x1000, 0x1004]]"
  using disassembly_is_grounded [OF sample_disassembles(1)] sample_disassembles(2) by blast

end
