(* ===== verification/Nids.thy ===== *)
theory Nids
  imports Psp_Model
begin

text \<open>
  \<open>nids.py\<close>: the database of NID symbols, keyed by library, kind and NID, where a later symbol
  wins. A \<open>ValueError\<close> is a value of \<open>nid_error\<close>. Text is ASCII where it is stripped or folded.
\<close>

datatype nid_value = Nid_Bool bool | Nid_Int int | Nid_Text string

datatype nid_error =
    Unsupported_Kind string
  | Nid_Not_Integer
  | Nid_Empty
  | Nid_Syntax string
  | Nid_Out_Of_Range int
  | Library_Empty
  | Name_Empty
  | Csv_Columns nat

text \<open>A symbol as it is handed to the database, before its fields are normalized.\<close>

record raw_symbol =
  rw_library :: string
  rw_nid :: nid_value
  rw_name :: string
  rw_kind :: string
  rw_source :: string

text \<open>The warning of a name that changes: the key, the old and the new name and their sources.\<close>

datatype nid_warning = Conflicting_Names string nid_kind int string string string string

type_synonym nid_key = "string \<times> nid_kind \<times> int"

record nid_database =
  nd_symbols :: "(nid_key \<times> nid_symbol) list"
  nd_warnings :: "nid_warning list"

definition empty_database :: nid_database where
  "empty_database = \<lparr> nd_symbols = [], nd_warnings = [] \<rparr>"

definition kind_alias :: "string \<rightharpoonup> nid_kind" where
  "kind_alias = map_of
     [(''fun'', Function), (''func'', Function), (''function'', Function),
      (''var'', Variable), (''variable'', Variable)]"

definition normalize_kind :: "string \<Rightarrow> (nid_error, nid_kind) result" where
  "normalize_kind k =
     (case kind_alias (casefold (strip k)) of None \<Rightarrow> Inl (Unsupported_Kind k) | Some x \<Rightarrow> Inr x)"

definition text_nid :: "string \<Rightarrow> (nid_error, int) result" where
  "text_nid value =
     (let text = strip value;
          int_of = (\<lambda>base. case py_int base text of None \<Rightarrow> Inl (Nid_Syntax text) | Some n \<Rightarrow> Inr n) in
      if text = [] then Inl Nid_Empty
      else if take 2 (casefold text) = ''0x'' then int_of 16
      else if length text = 8 \<and> list_all (is_digit 16) text then int_of 16
      else int_of 10)"

definition parse_nid :: "nid_value \<Rightarrow> (nid_error, int) result" where
  "parse_nid value =
     bindE (case value of Nid_Bool _ \<Rightarrow> Inl Nid_Not_Integer | Nid_Int n \<Rightarrow> Inr n | Nid_Text t \<Rightarrow> text_nid t) (\<lambda>nid.
     if 0 \<le> nid \<and> nid \<le> 0xFFFFFFFF then Inr nid else Inl (Nid_Out_Of_Range nid))"

text \<open>\<open>f"{library}_{nid:08X}"\<close>, and the test for such a name.\<close>

definition fallback_name :: "string \<Rightarrow> int \<Rightarrow> string" where
  "fallback_name lib nid = lib @ ''_'' @ hex_upper 8 nid"

definition is_placeholder_name :: "string \<Rightarrow> int \<Rightarrow> string \<Rightarrow> bool" where
  "is_placeholder_name lib nid nm = (casefold (strip nm) = casefold (fallback_name (strip lib) nid))"

definition symbol_key :: "nid_symbol \<Rightarrow> nid_key" where
  "symbol_key s = (ns_library s, ns_kind s, ns_nid s)"

definition normalize_symbol :: "raw_symbol \<Rightarrow> (nid_error, nid_symbol) result" where
  "normalize_symbol raw =
     bindE (normalize_kind (rw_kind raw)) (\<lambda>k.
     bindE (parse_nid (rw_nid raw)) (\<lambda>nid.
     let s = \<lparr> ns_library = strip (rw_library raw), ns_nid = nid, ns_name = strip (rw_name raw),
               ns_kind = k, ns_source = strip (rw_source raw) \<rparr> in
     if ns_library s = [] then Inl Library_Empty
     else if ns_name s = [] then Inl Name_Empty
     else Inr s))"

definition name_conflict :: "nid_symbol \<Rightarrow> nid_symbol \<Rightarrow> bool" where
  "name_conflict previous s \<longleftrightarrow>
     ns_name previous \<noteq> ns_name s \<and>
     \<not> is_placeholder_name (ns_library previous) (ns_nid previous) (ns_name previous) \<and>
     \<not> is_placeholder_name (ns_library s) (ns_nid s) (ns_name s)"

definition store_symbol :: "nid_symbol \<Rightarrow> nid_database \<Rightarrow> nid_database" where
  "store_symbol s db =
     (let ws = (case map_of (nd_symbols db) (symbol_key s) of
                  None \<Rightarrow> []
                | Some previous \<Rightarrow>
                    if name_conflict previous s
                    then [Conflicting_Names (ns_library s) (ns_kind s) (ns_nid s) (ns_name previous)
                            (ns_source previous) (ns_name s) (ns_source s)]
                    else [])
      in \<lparr> nd_symbols = dict_set (nd_symbols db) (symbol_key s) s, nd_warnings = nd_warnings db @ ws \<rparr>)"

definition add_symbol :: "raw_symbol \<Rightarrow> nid_database \<Rightarrow> (nid_error, nid_database) result" where
  "add_symbol raw db = bindE (normalize_symbol raw) (\<lambda>s. Inr (store_symbol s db))"

definition resolve_nid ::
    "nid_database \<Rightarrow> string \<Rightarrow> nid_value \<Rightarrow> string \<Rightarrow> (nid_error, nid_symbol option) result" where
  "resolve_nid db lib nid k =
     bindE (normalize_kind k) (\<lambda>k'.
     bindE (parse_nid nid) (\<lambda>n. Inr (map_of (nd_symbols db) (strip lib, k', n))))"

definition database_symbols :: "nid_database \<Rightarrow> nid_symbol list" where
  "database_symbols db =
     sort_key (\<lambda>s. (ns_library s, ns_kind s, ns_nid s, ns_name s, ns_source s)) (map snd (nd_symbols db))"

section \<open>CSV databases\<close>

definition looks_like_csv_header :: "string list \<Rightarrow> bool" where
  "looks_like_csv_header row =
     (case row of
        [] \<Rightarrow> False
      | first # _ \<Rightarrow>
          contains_text ''library'' (casefold (strip first)) \<or>
          (length row > 2 \<and> casefold (strip (row ! 2)) = ''nid''))"

text \<open>
  One row of a file: skipped, or a symbol. The rows are what the \<open>csv\<close> module yields.
\<close>

definition csv_row :: "string \<Rightarrow> nat \<Rightarrow> string list \<Rightarrow> (nid_error, raw_symbol list) result" where
  "csv_row file_name row_number row =
     (if row = [] \<or> list_all (\<lambda>c. strip c = []) row then Inr []
      else if take 1 (lstrip (row ! 0)) = ''#'' then Inr []
      else if row_number = 1 \<and> looks_like_csv_header row then Inr []
      else if length row < 4 then Inl (Csv_Columns row_number)
      else
        let source = (if length row \<ge> 5 \<and> strip (row ! 4) \<noteq> [] then strip (row ! 4) else file_name) in
        bindE (normalize_kind (row ! 1)) (\<lambda>k.
        bindE (parse_nid (Nid_Text (row ! 2))) (\<lambda>nid.
        Inr [\<lparr> rw_library = strip (row ! 0), rw_nid = Nid_Int nid, rw_name = strip (row ! 3),
               rw_kind = (case k of Function \<Rightarrow> ''function'' | Variable \<Rightarrow> ''variable''),
               rw_source = source \<rparr>])))"

definition load_csv :: "string \<Rightarrow> string list list \<Rightarrow> (nid_error, raw_symbol list) result" where
  "load_csv file_name rows =
     bindE (mapE (\<lambda>i. csv_row file_name (Suc i) (rows ! i)) [0..<length rows]) (\<lambda>xs. Inr (concat xs))"

definition load_csv_databases :: "(string \<times> string list list) list \<Rightarrow> (nid_error, nid_database) result" where
  "load_csv_databases files =
     foldE (\<lambda>(file_name, rows) db. bindE (load_csv file_name rows) (\<lambda>raws. foldE add_symbol raws db))
       files empty_database"

section \<open>Properties\<close>

text \<open>
  A store of symbols under normalized keys: what is looked up after an insertion. The linker
  only relies on this.
\<close>

locale symbol_store =
  fixes lookup :: "'db \<Rightarrow> nid_key \<Rightarrow> nid_symbol option"
    and store :: "nid_symbol \<Rightarrow> 'db \<Rightarrow> 'db"
    and empty :: 'db
  assumes lookup_empty: "lookup empty k = None"
    and lookup_store: "lookup (store s db) k = (if k = symbol_key s then Some s else lookup db k)"
begin

lemma lookup_stores: "lookup (fold store ss db) k =
    (case find (\<lambda>s. symbol_key s = k) (rev ss) of Some s \<Rightarrow> Some s | None \<Rightarrow> lookup db k)"
  by (induction ss rule: rev_induct) (auto simp: lookup_store)

lemma lookup_key: "lookup (fold store ss empty) k = Some s \<Longrightarrow> symbol_key s = k"
  by (auto simp: lookup_stores lookup_empty find_Some_iff split: option.splits)

end

interpretation database: symbol_store "\<lambda>db. map_of (nd_symbols db)" store_symbol empty_database
  by unfold_locales (auto simp: empty_database_def store_symbol_def Let_def)

lemma add_symbol_Inr: "add_symbol raw db = Inr db' \<longleftrightarrow> (\<exists>s. normalize_symbol raw = Inr s \<and> db' = store_symbol s db)"
  by (auto simp: add_symbol_def bindE_Inr_iff)

lemma fold_add_symbol:
  "foldE add_symbol raws db = Inr db' \<Longrightarrow>
     \<exists>ss. mapE normalize_symbol raws = Inr ss \<and> db' = fold store_symbol ss db"
proof (induction raws arbitrary: db)
  case (Cons raw raws)
  then obtain s where s: "normalize_symbol raw = Inr s" "foldE add_symbol raws (store_symbol s db) = Inr db'"
    by (auto simp: bindE_Inr_iff add_symbol_Inr)
  from Cons.IH [OF s(2)] s(1) show ?case by (auto simp: bindE_Inr_iff)
qed simp

text \<open>
  The later symbol wins: after any sequence of symbols is added to an empty
  database without an error, resolving a library, kind and NID finds the last added symbol
  whose normalized key they denote, and nothing when there is none.
\<close>

theorem resolve_finds_last_added:
  assumes "foldE add_symbol raws empty_database = Inr db" "mapE normalize_symbol raws = Inr ss"
    and "normalize_kind k = Inr k'" "parse_nid nid = Inr n"
  shows "resolve_nid db lib nid k = Inr (find (\<lambda>s. symbol_key s = (strip lib, k', n)) (rev ss))"
proof -
  from fold_add_symbol [OF assms(1)] assms(2) have "db = fold store_symbol ss empty_database" by simp
  then have "map_of (nd_symbols db) (strip lib, k', n) = find (\<lambda>s. symbol_key s = (strip lib, k', n)) (rev ss)"
    by (simp add: database.lookup_stores database.lookup_empty split: option.split)
  with assms(3,4) show ?thesis by (simp add: resolve_nid_def)
qed

definition sample_raws :: "raw_symbol list" where
  "sample_raws =
     [\<lparr> rw_library = ''sceIo '', rw_nid = Nid_Text ''0x109F50BC'', rw_name = ''open'', rw_kind = ''func'', rw_source = ''a'' \<rparr>,
      \<lparr> rw_library = ''sceIo'', rw_nid = Nid_Text ''109f50bc'', rw_name = ''sceIoOpen'', rw_kind = ''FUNCTION'', rw_source = ''b'' \<rparr>]"

theorem resolve_finds_last_added_witness:
  "resolve_nid (projr (foldE add_symbol sample_raws empty_database)) '' sceIo'' (Nid_Int 0x109F50BC) ''fun''
    = Inr (find (\<lambda>s. symbol_key s = (strip '' sceIo'', Function, 0x109F50BC))
        (rev (projr (mapE normalize_symbol sample_raws))))"
proof (rule resolve_finds_last_added)
  have "\<not> isl (foldE add_symbol sample_raws empty_database)" by code_simp
  then show "foldE add_symbol sample_raws empty_database = Inr (projr (foldE add_symbol sample_raws empty_database))"
    by simp
  have "\<not> isl (mapE normalize_symbol sample_raws)" by code_simp
  then show "mapE normalize_symbol sample_raws = Inr (projr (mapE normalize_symbol sample_raws))" by simp
  show "normalize_kind ''fun'' = Inr Function" by code_simp
  show "parse_nid (Nid_Int 0x109F50BC) = Inr 0x109F50BC" by code_simp
qed

text \<open>
  A NID survives its printed forms: the eight hexadecimal digits of a fallback
  name, with or without \<open>0x\<close> in front, read back as the same NID, also when the digits look
  decimal.
\<close>

lemma nid_text_round_trip:
  assumes "0 \<le> n" "n \<le> 0xFFFFFFFF"
  shows "parse_nid (Nid_Text (hex_upper 8 n)) = Inr n \<and> parse_nid (Nid_Text (''0x'' @ hex_upper 8 n)) = Inr n"
proof -
  let ?s = "hex_upper 8 n"
  have len: "length ?s = 8" using length_hex_upper [of n 7] assms by simp
  have "c \<in> set ?s \<Longrightarrow> is_digit 16 c \<and> \<not> is_space c \<and> lower_char c \<noteq> CHR ''x''" for c
    using hex_upper_chars [of c 8 n] hex_digit_table by (auto simp: is_digit_def)
  then have chars: "list_all (is_digit 16) ?s" "list_all (\<lambda>c. \<not> is_space c) ?s"
    "\<And>c. c \<in> set ?s \<Longrightarrow> lower_char c \<noteq> CHR ''x''" by (auto simp: list_all_iff)
  obtain a b cs where s: "?s = a # b # cs" using len by (auto simp: numeral_eq_Suc length_Suc_conv)
  have nox: "take 2 (casefold ?s) \<noteq> ''0x''" using chars(3) [of b] by (simp add: s casefold_def)
  have st: "strip ?s = ?s" by (rule strip_id [OF chars(2)])
  have "is_space (CHR ''0'') = False" "is_space (CHR ''x'') = False" by (simp_all add: is_space_def)
  then have st2: "strip (''0x'' @ ?s) = ''0x'' @ ?s" using chars(2) by (intro strip_id) auto
  have pre: "take 2 (casefold (''0x'' @ ?s)) = ''0x''"
    by (simp add: casefold_def lower_char_def less_eq_char_def numeral_2_eq_2)
  have p: "py_int 16 ?s = Some n" "py_int 16 (''0x'' @ ?s) = Some n"
    using py_int_hex_upper [of n 8] assms by simp_all
  have "text_nid ?s = Inr n"
    using nox len chars(1) p(1) s unfolding text_nid_def st by simp
  moreover have "text_nid (''0x'' @ ?s) = Inr n"
    using pre p(2) unfolding text_nid_def st2 by simp
  ultimately show ?thesis using assms by (simp add: parse_nid_def)
qed

end
