(* ===== verification/Linker.thy ===== *)
theory Linker
  imports Nids
begin

text \<open>
  \<open>linker.py\<close>: labels for modules, the resolution of every import and export against the NID
  database, links from imports to the only module that exports them, and the names that
  propagate. A \<open>ValueError\<close> of the database is a value of \<open>nid_error\<close>.
\<close>

record 'w link_unit =
  lu_model :: "'w executable_model"
  lu_disassembly :: "disassembly_result option"

datatype link_warning =
    Database_Warning nid_warning
  | Duplicate_Module_Name string "string list"
  | Ambiguous_Export string string nid_kind int "string list"

section \<open>Module labels\<close>

definition name_of_module :: "'w executable_model \<Rightarrow> string" where
  "name_of_module m =
     (let from_path = (let stem = path_stem (xm_source_name m)
                       in if stem \<noteq> [] then stem else xm_source_name m)
      in case xm_module_info m of
           Some mi \<Rightarrow> if strip (mi_name mi) \<noteq> [] then strip (mi_name mi) else from_path
         | None \<Rightarrow> from_path)"

text \<open>The variables of the labelling loop.\<close>

record label_state =
  ls_counts :: "string \<Rightarrow> nat"
  ls_duplicates :: "(string \<times> string list) list"
  ls_labels :: "string list"

definition base_label :: "string \<Rightarrow> 'w executable_model \<Rightarrow> string" where
  "base_label raw m =
     raw @ ''@'' @ (let nm = path_name (xm_source_name m) in if nm \<noteq> [] then nm else ''module'')"

definition label_unit :: "string list \<Rightarrow> 'w link_unit \<Rightarrow> label_state \<Rightarrow> label_state" where
  "label_unit raw_names u st =
     (let raw = name_of_module (lu_model u) in
      if count_list raw_names raw = 1 then st\<lparr>ls_labels := ls_labels st @ [raw]\<rparr>
      else
        let base = base_label raw (lu_model u);
            ordinal = Suc (ls_counts st base);
            label = (if ordinal = 1 then base else base @ ''#'' @ dec_str (int ordinal))
        in st\<lparr>ls_counts := (ls_counts st)(base := ordinal),
              ls_duplicates := dict_append (ls_duplicates st) raw label,
              ls_labels := ls_labels st @ [label]\<rparr>)"

definition label_units :: "'w link_unit list \<Rightarrow> label_state" where
  "label_units units =
     fold (label_unit (map (\<lambda>u. name_of_module (lu_model u)) units)) units
       \<lparr> ls_counts = (\<lambda>_. 0), ls_duplicates = [], ls_labels = [] \<rparr>"

definition module_labels :: "'w link_unit list \<Rightarrow> string list \<times> link_warning list" where
  "module_labels units =
     (let st = label_units units
      in (ls_labels st, map (\<lambda>(raw, names). Duplicate_Module_Name raw names) (sort_key fst (ls_duplicates st))))"

section \<open>Resolutions\<close>

type_synonym link_entry = "string \<times> nid_kind \<times> nid_entry"

definition iter_entries :: "'w executable_model \<Rightarrow> link_direction \<Rightarrow> link_entry list" where
  "iter_entries m direction =
     concat (map (\<lambda>lib. map (\<lambda>e. (li_name lib, Function, e)) (li_functions lib) @
                       map (\<lambda>e. (li_name lib, Variable, e)) (li_variables lib))
       (case direction of Import_Direction \<Rightarrow> xm_imports m | Export_Direction \<Rightarrow> xm_exports m))"

definition kind_string :: "nid_kind \<Rightarrow> string" where
  "kind_string k = (case k of Function \<Rightarrow> ''function'' | Variable \<Rightarrow> ''variable'')"

definition resolution_of ::
    "string \<Rightarrow> nid_database \<Rightarrow> link_direction \<Rightarrow> link_entry \<Rightarrow> (nid_error, nid_resolution) result" where
  "resolution_of module_label db direction entry =
     (case entry of (lib, k, e) \<Rightarrow>
      bindE (resolve_nid db lib (Nid_Int (ne_nid e)) (kind_string k)) (\<lambda>sym.
      let (nm, source) = (case sym of
             None \<Rightarrow> (fallback_name lib (ne_nid e), ''unresolved'')
           | Some s \<Rightarrow> (ns_name s, ns_source s))
      in Inr \<lparr> nr_module = module_label, nr_library = lib, nr_nid = ne_nid e, nr_name = nm, nr_kind = k,
               nr_address = ne_address e, nr_direction = direction, nr_source = source \<rparr>))"

definition is_strong_resolution :: "nid_resolution \<Rightarrow> bool" where
  "is_strong_resolution r \<longleftrightarrow>
     nr_source r \<noteq> ''unresolved'' \<and> \<not> is_placeholder_name (nr_library r) (nr_nid r) (nr_name r)"

definition is_autogenerated_name :: "string \<Rightarrow> bool" where
  "is_autogenerated_name nm =
     list_ex (\<lambda>pre. take (length pre) (strip nm) = pre \<and> length pre < length (strip nm) \<and>
                  list_all (is_digit 16) (drop (length pre) (strip nm)))
       [''func_'', ''D_'', ''L'', ''label_'', ''jtbl_'']"

definition local_name :: "'w link_unit \<Rightarrow> nid_kind \<Rightarrow> int \<Rightarrow> string option" where
  "local_name u k a =
     (case lu_disassembly u of
        None \<Rightarrow> None
      | Some d \<Rightarrow>
          (case (if k = Function
                 then find (\<lambda>f. fn_address f = a \<and> \<not> is_autogenerated_name (fn_name f)) (ds_functions d)
                 else None) of
             Some f \<Rightarrow> Some (fn_name f)
           | None \<Rightarrow>
               map_option sy_name
                 (find (\<lambda>s. sy_address s = a \<and> sy_kind s \<notin> {''label'', ''branchlabel''} \<and>
                        \<not> is_autogenerated_name (sy_name s)) (ds_symbols d))))"

definition proposal_from_resolution :: "nid_resolution \<Rightarrow> propagated_symbol" where
  "proposal_from_resolution r =
     \<lparr> pg_module = nr_module r, pg_address = nr_address r, pg_name = nr_name r, pg_kind = nr_kind r,
       pg_library = nr_library r, pg_nid = nr_nid r, pg_source = nr_source r,
       pg_confidence = (if is_strong_resolution r then 1 else 1 / 2) \<rparr>"

section \<open>Deduplication\<close>

definition proposal_order :: "propagated_symbol \<Rightarrow> string \<times> string \<times> string \<times> int" where
  "proposal_order p = (pg_name p, pg_source p, pg_library p, pg_nid p)"

text \<open>Whether a record replaces the one selected for its module and address.\<close>

definition replaces :: "propagated_symbol \<Rightarrow> propagated_symbol \<Rightarrow> bool" where
  "replaces p current \<longleftrightarrow>
     pg_confidence p > pg_confidence current \<or>
     (pg_confidence p = pg_confidence current \<and> proposal_order p < proposal_order current)"

definition select_proposal ::
    "propagated_symbol \<Rightarrow> ((string \<times> int) \<times> propagated_symbol) list \<Rightarrow>
       ((string \<times> int) \<times> propagated_symbol) list" where
  "select_proposal p selected =
     (let key = (pg_module p, pg_address p) in
      case map_of selected key of
        None \<Rightarrow> dict_set selected key p
      | Some current \<Rightarrow> if replaces p current then dict_set selected key p else selected)"

definition deduplicate_proposals :: "propagated_symbol list \<Rightarrow> propagated_symbol list" where
  "deduplicate_proposals records =
     sort_key (\<lambda>p. (pg_module p, pg_address p, pg_name p)) (map snd (fold select_proposal records []))"

section \<open>Links\<close>

text \<open>An entry with the index and the label of its module.\<close>

record 'w located_entry =
  le_index :: nat
  le_unit :: "'w link_unit"
  le_label :: string
  le_library :: string
  le_kind :: nid_kind
  le_entry :: nid_entry

definition located_entries ::
    "link_direction \<Rightarrow> 'w link_unit list \<Rightarrow> string list \<Rightarrow> nat \<Rightarrow> 'w located_entry list" where
  "located_entries direction units labels i =
     map (\<lambda>(lib, k, e). \<lparr> le_index = i, le_unit = units ! i, le_label = labels ! i, le_library = lib,
            le_kind = k, le_entry = e \<rparr>)
       (iter_entries (lu_model (units ! i)) direction)"

definition all_entries ::
    "'w link_unit list \<Rightarrow> string list \<Rightarrow> (link_direction \<times> 'w located_entry) list" where
  "all_entries units labels =
     concat (map (\<lambda>i. map (Pair Import_Direction) (located_entries Import_Direction units labels i) @
                     map (Pair Export_Direction) (located_entries Export_Direction units labels i))
       [0..<length units])"

type_synonym resolution_identity = "nat \<times> link_direction \<times> string \<times> int \<times> int"

definition identity_of :: "link_direction \<Rightarrow> 'w located_entry \<Rightarrow> resolution_identity" where
  "identity_of direction l =
     (le_index l, direction, le_library l, ne_nid (le_entry l), ne_address (le_entry l))"

definition resolve_entry ::
    "nid_database \<Rightarrow> link_direction \<times> 'w located_entry \<Rightarrow> (nid_error, nid_resolution) result" where
  "resolve_entry db de =
     (case de of (direction, l) \<Rightarrow>
        resolution_of (le_label l) db direction (le_library l, le_kind l, le_entry l))"

definition export_key :: "'w located_entry \<Rightarrow> nid_key" where
  "export_key l = (le_library l, le_kind l, ne_nid (le_entry l))"

definition exporters ::
    "(link_direction \<times> 'w located_entry) list \<Rightarrow> (nid_key \<times> 'w located_entry list) list" where
  "exporters entries =
     fold (\<lambda>(direction, l) d. if direction = Export_Direction then dict_append d (export_key l) l else d)
       entries []"

definition link_name ::
    "nid_resolution \<Rightarrow> nid_resolution \<Rightarrow> 'w located_entry \<Rightarrow> 'w located_entry \<Rightarrow> string \<times> string" where
  "link_name import_resolution export_resolution l ex =
     (if is_strong_resolution import_resolution
      then (nr_name import_resolution, nr_source import_resolution)
      else if is_strong_resolution export_resolution
      then (nr_name export_resolution, nr_source export_resolution)
      else case local_name (le_unit ex) (le_kind l) (ne_address (le_entry ex)) of
             Some nm \<Rightarrow> (nm, ''module:'' @ le_label ex)
           | None \<Rightarrow> (fallback_name (le_library l) (ne_nid (le_entry l)), ''unresolved''))"

text \<open>What one import yields: links, warnings and proposals.\<close>

definition link_import ::
    "(nid_key \<times> 'w located_entry list) list \<Rightarrow> (resolution_identity \<rightharpoonup> nid_resolution) \<Rightarrow>
       'w located_entry \<Rightarrow> module_link list \<times> link_warning list \<times> propagated_symbol list" where
  "link_import exps identities l =
     (let candidates = filter (\<lambda>c. le_index c \<noteq> le_index l) (dict_get_list exps (export_key l)) in
      case candidates of
        [] \<Rightarrow> ([], [], [])
      | [ex] \<Rightarrow>
          (let (nm, source) = link_name (the (identities (identity_of Import_Direction l)))
                 (the (identities (identity_of Export_Direction ex))) l ex
           in ([\<lparr> ml_importing_module = le_label l, ml_exporting_module = le_label ex,
                  ml_library = le_library l, ml_nid = ne_nid (le_entry l), ml_name = nm,
                  ml_kind = le_kind l, ml_import_address = ne_address (le_entry l),
                  ml_export_address = ne_address (le_entry ex), ml_name_source = source \<rparr>], [],
               if take 7 source = ''module:''
               then [\<lparr> pg_module = le_label l, pg_address = ne_address (le_entry l), pg_name = nm,
                       pg_kind = le_kind l, pg_library = le_library l, pg_nid = ne_nid (le_entry l),
                       pg_source = source, pg_confidence = 19 / 20 \<rparr>]
               else []))
      | _ \<Rightarrow> ([], [Ambiguous_Export (le_label l) (le_library l) (le_kind l) (ne_nid (le_entry l))
                     (sort (map le_label candidates))], []))"

definition link_order :: "module_link \<Rightarrow> string \<times> string \<times> string \<times> nid_kind \<times> int \<times> int" where
  "link_order l = (ml_importing_module l, ml_exporting_module l, ml_library l, ml_kind l, ml_nid l,
     ml_import_address l)"

definition resolution_order ::
    "nid_resolution \<Rightarrow> string \<times> link_direction \<times> string \<times> nid_kind \<times> int \<times> int" where
  "resolution_order r = (nr_module r, nr_direction r, nr_library r, nr_kind r, nr_nid r, nr_address r)"

definition link_modules ::
    "'w link_unit list \<Rightarrow> nid_database \<Rightarrow> (nid_error, link_warning link_analysis) result" where
  "link_modules units db =
     (let (labels, identity_warnings) = module_labels units; entries = all_entries units labels in
      bindE (mapE (resolve_entry db) entries) (\<lambda>resolutions.
      let identities = foldl (\<lambda>m ((direction, l), r). m(identity_of direction l \<mapsto> r)) Map.empty
                         (zip entries resolutions);
          exps = exporters entries;
          outs = map (link_import exps identities)
                   (concat (map (located_entries Import_Direction units labels) [0..<length units]))
      in Inr
        \<lparr> la_modules = labels,
          la_resolutions = sort_key resolution_order resolutions,
          la_links = sort_key link_order (concat (map fst outs)),
          la_propagated_symbols =
            deduplicate_proposals (map proposal_from_resolution resolutions @ concat (map (snd \<circ> snd) outs)),
          la_warnings = map Database_Warning (nd_warnings db) @ identity_warnings @
            concat (map (fst \<circ> snd) outs) \<rparr>))"

section \<open>Which links there are\<close>

definition unit_labels :: "'w link_unit list \<Rightarrow> string list" where
  "unit_labels units = fst (module_labels units)"

definition unit_imports :: "'w link_unit list \<Rightarrow> 'w located_entry list" where
  "unit_imports units =
     concat (map (located_entries Import_Direction units (unit_labels units)) [0..<length units])"

definition unit_exports :: "'w link_unit list \<Rightarrow> 'w located_entry list" where
  "unit_exports units =
     concat (map (located_entries Export_Direction units (unit_labels units)) [0..<length units])"

text \<open>The exports of other modules with the library, kind and NID of an import.\<close>

definition providers :: "'w link_unit list \<Rightarrow> 'w located_entry \<Rightarrow> 'w located_entry list" where
  "providers units l =
     filter (\<lambda>c. le_index c \<noteq> le_index l) (filter (\<lambda>c. export_key c = export_key l) (unit_exports units))"

definition link_facts :: "module_link \<Rightarrow> string \<times> string \<times> string \<times> nid_kind \<times> int \<times> int \<times> int" where
  "link_facts lk = (ml_importing_module lk, ml_exporting_module lk, ml_library lk, ml_kind lk, ml_nid lk,
     ml_import_address lk, ml_export_address lk)"

definition import_facts ::
    "'w located_entry \<Rightarrow> 'w located_entry \<Rightarrow> string \<times> string \<times> string \<times> nid_kind \<times> int \<times> int \<times> int" where
  "import_facts l ex = (le_label l, le_label ex, le_library l, le_kind l, ne_nid (le_entry l),
     ne_address (le_entry l), ne_address (le_entry ex))"

lemma exporters_get:
  "dict_get_list (exporters entries) key =
     map snd (filter (\<lambda>(direction, l). direction = Export_Direction \<and> export_key l = key) entries)"
  unfolding exporters_def
  by (induction entries rule: rev_induct) (auto split: prod.splits)

lemma exporters_all:
  "dict_get_list (exporters (all_entries units (unit_labels units))) key =
     filter (\<lambda>c. export_key c = key) (unit_exports units)"
proof -
  have "map snd (filter (\<lambda>(direction, l). direction = Export_Direction \<and> export_key l = key)
      (concat (map (\<lambda>i. map (Pair Import_Direction) (located_entries Import_Direction units labels i) @
         map (Pair Export_Direction) (located_entries Export_Direction units labels i)) is)))
    = filter (\<lambda>c. export_key c = key) (concat (map (located_entries Export_Direction units labels) is))"
    for labels "is"
    by (induction "is") (simp_all add: filter_map comp_def)
  then show ?thesis by (simp add: exporters_get all_entries_def unit_exports_def)
qed

lemma link_modules_parts:
  assumes "link_modules units db = Inr la"
  obtains resolutions identities outs where
    "mapE (resolve_entry db) (all_entries units (unit_labels units)) = Inr resolutions"
    "identities = foldl (\<lambda>m ((direction, l), r). m(identity_of direction l \<mapsto> r)) Map.empty
       (zip (all_entries units (unit_labels units)) resolutions)"
    "outs = map (link_import (exporters (all_entries units (unit_labels units))) identities) (unit_imports units)"
    "la_links la = sort_key link_order (concat (map fst outs))"
    "la_warnings la = map Database_Warning (nd_warnings db) @ snd (module_labels units) @
       concat (map (fst \<circ> snd) outs)"
    "la_propagated_symbols la =
       deduplicate_proposals (map proposal_from_resolution resolutions @ concat (map (snd \<circ> snd) outs))"
    "la_resolutions la = sort_key resolution_order resolutions"
  using assms that
  by (auto simp: link_modules_def unit_labels_def unit_imports_def bindE_Inr_iff Let_def split: prod.splits)

lemma link_import_links:
  "link_facts ` set (fst (link_import exps identities l)) =
     {import_facts l ex | ex. filter (\<lambda>c. le_index c \<noteq> le_index l) (dict_get_list exps (export_key l)) = [ex]}"
  by (auto simp: link_import_def Let_def link_facts_def import_facts_def split: list.splits prod.splits)

lemma link_import_ambiguous:
  "filter (\<lambda>c. le_index c \<noteq> le_index l) (dict_get_list exps (export_key l)) = a # b # cs \<Longrightarrow>
     Ambiguous_Export (le_label l) (le_library l) (le_kind l) (ne_nid (le_entry l))
       (sort (map le_label (a # b # cs))) \<in> set (fst (snd (link_import exps identities l)))"
  by (simp add: link_import_def Let_def)

text \<open>
  Property C19. A link is exactly an import with a single provider: the links of the analysis
  are, for every import entry of every module, the one export of another module with the same
  library, kind and NID when there is exactly one such export, and nothing when there is none
  or more than one; an import with several providers is reported as ambiguous with their labels.
\<close>

theorem links_are_sole_providers:
  assumes "link_modules units db = Inr la"
  shows "link_facts ` set (la_links la) =
      {import_facts l ex | l ex. l \<in> set (unit_imports units) \<and> providers units l = [ex]} \<and>
    (\<forall>l \<in> set (unit_imports units). 2 \<le> length (providers units l) \<longrightarrow>
      Ambiguous_Export (le_label l) (le_library l) (le_kind l) (ne_nid (le_entry l))
        (sort (map le_label (providers units l))) \<in> set (la_warnings la))"
proof
  from assms obtain identities outs where
    outs: "outs = map (link_import (exporters (all_entries units (unit_labels units))) identities) (unit_imports units)"
    and links: "la_links la = sort_key link_order (concat (map fst outs))"
    and ws: "la_warnings la = map Database_Warning (nd_warnings db) @ snd (module_labels units) @
       concat (map (fst \<circ> snd) outs)"
    by (rule link_modules_parts)
  have cand: "filter (\<lambda>c. le_index c \<noteq> le_index l) (dict_get_list (exporters (all_entries units (unit_labels units))) (export_key l))
      = providers units l" for l
    by (simp add: providers_def exporters_all)
  have "link_facts ` set (la_links la) = (\<Union>l \<in> set (unit_imports units). link_facts ` set (fst
      (link_import (exporters (all_entries units (unit_labels units))) identities l)))"
    by (auto simp: links outs image_iff)
  also have "\<dots> = (\<Union>l \<in> set (unit_imports units). {import_facts l ex | ex. providers units l = [ex]})"
    by (simp only: link_import_links cand)
  also have "\<dots> = {import_facts l ex | l ex. l \<in> set (unit_imports units) \<and> providers units l = [ex]}"
    by blast
  finally show "link_facts ` set (la_links la) = \<dots>" .
  show "\<forall>l \<in> set (unit_imports units). 2 \<le> length (providers units l) \<longrightarrow>
      Ambiguous_Export (le_label l) (le_library l) (le_kind l) (ne_nid (le_entry l))
        (sort (map le_label (providers units l))) \<in> set (la_warnings la)"
  proof (intro ballI impI)
    fix l
    assume l: "l \<in> set (unit_imports units)" "2 \<le> length (providers units l)"
    then obtain a b cs where abc: "providers units l = a # b # cs"
      by (cases "providers units l"; cases "tl (providers units l)") auto
    have "Ambiguous_Export (le_label l) (le_library l) (le_kind l) (ne_nid (le_entry l))
        (sort (map le_label (a # b # cs))) \<in> set (fst (snd (link_import (exporters (all_entries units (unit_labels units))) identities l)))"
      by (rule link_import_ambiguous) (simp only: cand abc)
    with l show "Ambiguous_Export (le_label l) (le_library l) (le_kind l) (ne_nid (le_entry l))
        (sort (map le_label (providers units l))) \<in> set (la_warnings la)"
      by (auto simp: ws outs abc)
  qed
qed

section \<open>Deduplicated proposals\<close>

definition proposal_key :: "propagated_symbol \<Rightarrow> string \<times> int" where
  "proposal_key p = (pg_module p, pg_address p)"

text \<open>
  What deduplication promises: at most one record for a module and address, each one of the
  records, and none of the records of that module and address would replace it.
\<close>

definition selected_ok :: "propagated_symbol list \<Rightarrow> ((string \<times> int) \<times> propagated_symbol) list \<Rightarrow> bool" where
  "selected_ok records selected \<longleftrightarrow>
     distinct (map fst selected) \<and>
     (\<forall>(k, p) \<in> set selected. k = proposal_key p \<and> p \<in> set records) \<and>
     (\<forall>r \<in> set records. \<exists>p. map_of selected (proposal_key r) = Some p \<and> \<not> replaces r p)"

lemma replaces_irrefl: "\<not> replaces p p"
  by (simp add: replaces_def)

lemma replaces_mono: "\<not> replaces r p \<Longrightarrow> replaces q p \<Longrightarrow> \<not> replaces r q"
  by (auto simp: replaces_def)

lemma dict_set_in: "(k', v') \<in> set (dict_set kvs k v) \<Longrightarrow> (k', v') = (k, v) \<or> (k', v') \<in> set kvs"
  by (induction kvs k v rule: dict_set.induct) (auto split: if_splits)

lemma selected_ok_set:
  assumes ok: "selected_ok records selected"
    and current: "\<And>c. map_of selected (proposal_key p) = Some c \<Longrightarrow> replaces p c"
  shows "selected_ok (records @ [p]) (dict_set selected (proposal_key p) p)"
  unfolding selected_ok_def
proof (intro conjI)
  show "distinct (map fst (dict_set selected (proposal_key p) p))"
    using ok by (simp add: selected_ok_def dict_set_distinct)
  show "\<forall>(k, q) \<in> set (dict_set selected (proposal_key p) p). k = proposal_key q \<and> q \<in> set (records @ [p])"
    using ok by (auto simp: selected_ok_def dest!: dict_set_in)
  show "\<forall>r \<in> set (records @ [p]). \<exists>q. map_of (dict_set selected (proposal_key p) p) (proposal_key r) = Some q \<and>
      \<not> replaces r q"
  proof
    fix r assume r: "r \<in> set (records @ [p])"
    show "\<exists>q. map_of (dict_set selected (proposal_key p) p) (proposal_key r) = Some q \<and> \<not> replaces r q"
    proof (cases "r = p")
      case True
      then show ?thesis by (simp add: replaces_irrefl)
    next
      case False
      with r ok obtain q where q: "map_of selected (proposal_key r) = Some q" "\<not> replaces r q"
        by (auto simp: selected_ok_def)
      then show ?thesis using current [of q] replaces_mono [OF q(2)] by (cases "proposal_key r = proposal_key p") auto
    qed
  qed
qed

lemma select_proposal_ok:
  assumes "selected_ok records selected"
  shows "selected_ok (records @ [p]) (select_proposal p selected)"
proof -
  have key: "(pg_module p, pg_address p) = proposal_key p" by (simp add: proposal_key_def)
  show ?thesis
  proof (cases "\<exists>c. map_of selected (proposal_key p) = Some c \<and> \<not> replaces p c")
    case True
    then obtain c where c: "map_of selected (proposal_key p) = Some c" "\<not> replaces p c" by blast
    then have "select_proposal p selected = selected" by (simp add: select_proposal_def key)
    with assms c show ?thesis by (auto simp: selected_ok_def)
  next
    case False
    then have "select_proposal p selected = dict_set selected (proposal_key p) p"
      by (auto simp: select_proposal_def key Let_def split: option.splits)
    with False assms show ?thesis by (auto intro: selected_ok_set)
  qed
qed

lemma fold_select_ok: "selected_ok records (fold select_proposal records [])"
proof (induction records rule: rev_induct)
  case Nil
  then show ?case by (simp add: selected_ok_def)
next
  case (snoc p records)
  then show ?case using select_proposal_ok by simp
qed

definition best_proposals :: "propagated_symbol list \<Rightarrow> propagated_symbol list \<Rightarrow> bool" where
  "best_proposals records out \<longleftrightarrow>
     distinct (map proposal_key out) \<and> set out \<subseteq> set records \<and>
     (\<forall>r \<in> set records. \<exists>p \<in> set out. proposal_key p = proposal_key r \<and> \<not> replaces r p) \<and>
     sorted (map proposal_key out)"

lemma deduplicate_best: "best_proposals records (deduplicate_proposals records)"
proof -
  let ?sel = "fold select_proposal records []"
  let ?ps = "map snd ?sel"
  let ?f = "\<lambda>p. (pg_module p, pg_address p, pg_name p)"
  have ok: "selected_ok records ?sel" by (rule fold_select_ok)
  have out: "deduplicate_proposals records = sort_key ?f ?ps" by (simp add: deduplicate_proposals_def)
  have mf: "map fst ?sel = map proposal_key ?ps"
    using ok by (auto simp: selected_ok_def)
  have "distinct (map fst ?sel)" using ok by (simp add: selected_ok_def)
  then have "distinct (map proposal_key ?ps)" unfolding mf .
  then have "distinct (map proposal_key (sort_key ?f ?ps))" by (simp only: distinct_map_sort_key)
  moreover have "set (sort_key ?f ?ps) \<subseteq> set records" using ok by (auto simp: selected_ok_def)
  moreover have "\<exists>p \<in> set (sort_key ?f ?ps). proposal_key p = proposal_key r \<and> \<not> replaces r p"
    if "r \<in> set records" for r
  proof -
    from ok that obtain p where "map_of ?sel (proposal_key r) = Some p" "\<not> replaces r p"
      by (auto simp: selected_ok_def)
    with ok show ?thesis by (force simp: selected_ok_def dest: map_of_SomeD)
  qed
  moreover have "sorted (map proposal_key (sort_key ?f ?ps))"
  proof -
    have "sorted (map ?f (sort_key ?f ?ps))" by simp
    then show ?thesis
      unfolding sorted_map by (rule sorted_wrt_mono_rel [rotated]) (auto simp: proposal_key_def less_eq_prod_def)
  qed
  ultimately show ?thesis by (simp add: best_proposals_def out)
qed

text \<open>
  Propagated symbols are the best proposals: for every module and address that a
  proposal names there is exactly one symbol, taken from the proposals, and no proposal for the
  same place has a higher confidence, or the same confidence and an earlier name; the symbols
  come sorted by module and address.
\<close>

theorem deduplicate_proposals_best: "best_proposals records (deduplicate_proposals records)"
  by (rule deduplicate_best)

section \<open>Names and labels\<close>

text \<open>
  The resolutions are kept by module, direction, library, NID and address. When no two entries
  share all five, the resolution found for an entry is its own.
\<close>

definition identities_of ::
    "(link_direction \<times> 'w located_entry) list \<Rightarrow> nid_resolution list \<Rightarrow> (resolution_identity \<rightharpoonup> nid_resolution)" where
  "identities_of entries resolutions =
     foldl (\<lambda>m ((direction, l), r). m(identity_of direction l \<mapsto> r)) Map.empty (zip entries resolutions)"

lemma foldl_upd_map_of:
  "foldl (\<lambda>m x. m(f x \<mapsto> g x)) m xs = m ++ map_of (rev (map (\<lambda>x. (f x, g x)) xs))"
  by (induction xs arbitrary: m) (auto simp: map_add_def fun_eq_iff split: option.splits)

lemma identities_lookup:
  assumes "mapE (resolve_entry db) entries = Inr resolutions"
    and "distinct (map (\<lambda>(direction, l). identity_of direction l) entries)"
    and "(direction, l) \<in> set entries"
  shows "\<exists>r. identities_of entries resolutions (identity_of direction l) = Some r \<and>
    resolve_entry db (direction, l) = Inr r"
proof -
  from assms(3) obtain i where i: "i < length entries" "entries ! i = (direction, l)"
    by (auto simp: in_set_conv_nth)
  with assms(1) have r: "resolve_entry db (direction, l) = Inr (resolutions ! i)"
    and len: "length resolutions = length entries" by (auto simp: mapE_Inr_iff)
  let ?f = "\<lambda>((direction, l), r). identity_of direction l" and ?g = "\<lambda>((direction, l), r :: nid_resolution). r"
  have eq: "identities_of entries resolutions =
      map_of (rev (map (\<lambda>x. (?f x, ?g x)) (zip entries resolutions)))"
    unfolding identities_of_def
    using foldl_upd_map_of [of ?f ?g Map.empty "zip entries resolutions"] by (simp add: case_prod_unfold)
  have "map fst (map (\<lambda>x. (?f x, ?g x)) (zip entries resolutions)) =
      map (\<lambda>(direction, l). identity_of direction l) (map fst (zip entries resolutions))"
    by (simp add: case_prod_unfold)
  also have "map fst (zip entries resolutions) = entries" using len by simp
  finally have "distinct (map fst (rev (map (\<lambda>x. (?f x, ?g x)) (zip entries resolutions))))"
    using assms(2) by (simp only: rev_map [symmetric] distinct_rev)
  moreover have "((direction, l), resolutions ! i) \<in> set (zip entries resolutions)"
    using i len by (force simp: in_set_zip)
  ultimately have "identities_of entries resolutions (identity_of direction l) = Some (resolutions ! i)"
    unfolding eq by (intro map_of_is_SomeI) (force simp: image_iff)+
  with r show ?thesis by blast
qed

text \<open>
  The database names links: when no two import or export entries of the analysis
  share module, direction, library, NID and address, every import with a single provider whose
  NID the database resolves to a real name, not a placeholder, has a link with that name and
  the source of that symbol.
\<close>

theorem database_names_links:
  assumes "link_modules units db = Inr la"
    and "distinct (map (\<lambda>(direction, l). identity_of direction l) (all_entries units (unit_labels units)))"
    and "l \<in> set (unit_imports units)" "providers units l = [ex]"
    and "resolve_nid db (le_library l) (Nid_Int (ne_nid (le_entry l))) (kind_string (le_kind l)) = Inr (Some s)"
    and "ns_source s \<noteq> ''unresolved''" "\<not> is_placeholder_name (le_library l) (ne_nid (le_entry l)) (ns_name s)"
  shows "\<exists>lk \<in> set (la_links la). link_facts lk = import_facts l ex \<and> ml_name lk = ns_name s \<and>
    ml_name_source lk = ns_source s"
proof -
  let ?entries = "all_entries units (unit_labels units)"
  from assms(1) obtain resolutions identities outs where
    res: "mapE (resolve_entry db) ?entries = Inr resolutions"
    and ids: "identities = foldl (\<lambda>m ((direction, l), r). m(identity_of direction l \<mapsto> r)) Map.empty (zip ?entries resolutions)"
    and outs: "outs = map (link_import (exporters ?entries) identities) (unit_imports units)"
    and links: "la_links la = sort_key link_order (concat (map fst outs))"
    by (rule link_modules_parts)
  have "(Import_Direction, l) \<in> set ?entries"
    using assms(3) by (auto simp: all_entries_def unit_imports_def)
  from identities_lookup [OF res assms(2) this] obtain r where
    r: "identities (identity_of Import_Direction l) = Some r" "resolve_entry db (Import_Direction, l) = Inr r"
    unfolding identities_of_def ids by blast
  from r(2) assms(5) have r_eq: "nr_name r = ns_name s" "nr_source r = ns_source s" "nr_library r = le_library l"
    "nr_nid r = ne_nid (le_entry l)"
    by (auto simp: resolve_entry_def resolution_of_def)
  with assms(6,7) have strong: "is_strong_resolution r" by (simp add: is_strong_resolution_def)
  have cand: "filter (\<lambda>c. le_index c \<noteq> le_index l) (dict_get_list (exporters ?entries) (export_key l)) = [ex]"
    using assms(4) by (simp add: providers_def exporters_all)
  let ?lk = "\<lparr> ml_importing_module = le_label l, ml_exporting_module = le_label ex,
     ml_library = le_library l, ml_nid = ne_nid (le_entry l), ml_name = ns_name s,
     ml_kind = le_kind l, ml_import_address = ne_address (le_entry l),
     ml_export_address = ne_address (le_entry ex), ml_name_source = ns_source s \<rparr>"
  have "fst (link_import (exporters ?entries) identities l) = [?lk]"
    using cand strong r r_eq by (simp add: link_import_def link_name_def)
  then have "?lk \<in> set (la_links la)"
    using assms(3) by (auto simp: links outs intro!: bexI [of _ l])
  then show ?thesis by (intro bexI [of _ ?lk]) (simp_all add: link_facts_def import_facts_def)
qed

section \<open>Samples\<close>

definition sample_entry :: "int \<Rightarrow> int \<Rightarrow> nid_kind \<Rightarrow> nid_entry" where
  "sample_entry nid a k = \<lparr> ne_nid = nid, ne_address = a, ne_kind = k, ne_nid_address = 0 \<rparr>"

definition sample_library :: "nid_entry list \<Rightarrow> nid_entry list \<Rightarrow> library" where
  "sample_library fs vs =
     \<lparr> li_name = ''lib'', li_flags = 0, li_entry_length = 5, li_function_count = blen fs,
       li_variable_count = blen vs, li_address = 0, li_functions = fs, li_variables = vs \<rparr>"

definition sample_unit :: "string \<Rightarrow> string \<Rightarrow> library list \<Rightarrow> library list \<Rightarrow> unit link_unit" where
  "sample_unit nm path imports exports =
     \<lparr> lu_model =
         \<lparr> xm_source_name = path, xm_input_kind = Elf32_Input, xm_executable_kind = Prx_Executable,
           xm_needs_decryption = False, xm_endianness = Some Little, xm_elf_header = None,
           xm_program_headers = [], xm_sections = [], xm_container_header = None,
           xm_module_info = Some \<lparr> mi_attributes = 0, mi_version = (1, 1), mi_name = nm, mi_gp_value = 0,
             mi_exports_start = 0, mi_exports_end = 0, mi_imports_start = 0, mi_imports_end = 0,
             mi_address = 0, mi_location = Named_Section \<rparr>,
           xm_imports = imports, xm_exports = exports, xm_relocations = [], xm_warnings = [],
           xm_recovery = None \<rparr>,
       lu_disassembly = None \<rparr>"

definition sample_units :: "unit link_unit list" where
  "sample_units =
     [sample_unit ''game'' ''/d/game.prx'' [sample_library [sample_entry 7 64 Function] []] [],
      sample_unit ''kernel'' ''/d/kernel.prx'' [] [sample_library [sample_entry 7 128 Function] []]]"

definition sample_database :: nid_database where
  "sample_database = \<lparr> nd_symbols =
     [((''lib'', Function, 7), \<lparr> ns_library = ''lib'', ns_nid = 7, ns_name = ''libOpen'', ns_kind = Function, ns_source = ''db'' \<rparr>),
      ((''lib'', Variable, 7), \<lparr> ns_library = ''lib'', ns_nid = 7, ns_name = ''libTable'', ns_kind = Variable, ns_source = ''db'' \<rparr>)],
     nd_warnings = [] \<rparr>"

definition sample_links :: "link_warning link_analysis" where
  "sample_links = projr (link_modules sample_units sample_database)"

lemma sample_links_eq: "link_modules sample_units sample_database = Inr sample_links"
proof -
  have "\<not> isl (link_modules sample_units sample_database)" by code_simp
  then show ?thesis by (simp add: sample_links_def)
qed

lemma sample_providers:
  "unit_imports sample_units ! 0 \<in> set (unit_imports sample_units)"
  "providers sample_units (unit_imports sample_units ! 0) = [unit_exports sample_units ! 0]"
proof -
  have "unit_imports sample_units \<noteq> []" by code_simp
  then show "unit_imports sample_units ! 0 \<in> set (unit_imports sample_units)" by simp
  show "providers sample_units (unit_imports sample_units ! 0) = [unit_exports sample_units ! 0]" by code_simp
qed

theorem links_are_sole_providers_witness:
  "import_facts (unit_imports sample_units ! 0) (unit_exports sample_units ! 0) \<in> link_facts ` set (la_links sample_links)"
proof -
  have "link_facts ` set (la_links sample_links) =
      {import_facts l ex | l ex. l \<in> set (unit_imports sample_units) \<and> providers sample_units l = [ex]}"
    using links_are_sole_providers [OF sample_links_eq] by blast
  with sample_providers show ?thesis by blast
qed

theorem database_names_links_witness:
  "\<exists>lk \<in> set (la_links sample_links).
     link_facts lk = import_facts (unit_imports sample_units ! 0) (unit_exports sample_units ! 0) \<and>
     ml_name lk = ''libOpen'' \<and> ml_name_source lk = ''db''"
proof -
  let ?s = "\<lparr> ns_library = ''lib'', ns_nid = 7, ns_name = ''libOpen'', ns_kind = Function, ns_source = ''db'' \<rparr>"
  have "\<exists>lk \<in> set (la_links sample_links).
     link_facts lk = import_facts (unit_imports sample_units ! 0) (unit_exports sample_units ! 0) \<and>
     ml_name lk = ns_name ?s \<and> ml_name_source lk = ns_source ?s"
  proof (rule database_names_links [OF sample_links_eq])
    show "distinct (map (\<lambda>(direction, l). identity_of direction l)
        (all_entries sample_units (unit_labels sample_units)))" by code_simp
    show "unit_imports sample_units ! 0 \<in> set (unit_imports sample_units)"
      "providers sample_units (unit_imports sample_units ! 0) = [unit_exports sample_units ! 0]"
      by (rule sample_providers)+
    show "resolve_nid sample_database (le_library (unit_imports sample_units ! 0))
        (Nid_Int (ne_nid (le_entry (unit_imports sample_units ! 0))))
        (kind_string (le_kind (unit_imports sample_units ! 0))) = Inr (Some ?s)" by code_simp
    show "\<not> is_placeholder_name (le_library (unit_imports sample_units ! 0))
        (ne_nid (le_entry (unit_imports sample_units ! 0))) (ns_name ?s)" by code_simp
  qed simp
  then show ?thesis by simp
qed

text \<open>
  The kind is missing from the identity of a resolution: when a module imports a
  function and a variable of one library, NID and address, the function's link takes the
  variable's name.
\<close>

lemma resolution_identity_ignores_kind:
  "(case link_modules
      [sample_unit ''game'' ''/d/game.prx''
         [sample_library [sample_entry 7 64 Function] [sample_entry 7 64 Variable]] [],
       sample_unit ''kernel'' ''/d/kernel.prx'' [] [sample_library [sample_entry 7 128 Function] []]]
      sample_database of
      Inr la \<Rightarrow> map (\<lambda>lk. (ml_kind lk, ml_name lk)) (la_links la) = [(Function, ''libTable'')]
    | Inl _ \<Rightarrow> False)"
  by code_simp

text \<open>
  Labels may collide: a module whose own name looks like a disambiguated one gets
  the label of another module.
\<close>

lemma module_labels_collide:
  "fst (module_labels
     [sample_unit ''m@a.prx'' ''/d/x.prx'' [] [], sample_unit ''m'' ''/1/a.prx'' [] [],
      sample_unit ''m'' ''/2/b.prx'' [] []])
   = [''m@a.prx'', ''m@a.prx'', ''m@b.prx'']"
  by code_simp

end
