(* ===== verification/Advanced.thy ===== *)
theory Advanced
  imports Psp_Model
begin

text \<open>
  \<open>advanced.py\<close>: the call graph of the normalized disassembly and a confidence for each function.
\<close>

record call_edge =
  ce_source_function :: string
  ce_target_function :: string
  ce_source_address :: int
  ce_target_address :: int
  ce_kind :: string

record function_confidence =
  fc_name :: string
  fc_address :: int
  fc_score :: rat
  fc_evidence :: "string list"

record advanced_result =
  ad_source_name :: string
  ad_call_edges :: "call_edge list"
  ad_function_confidence :: "function_confidence list"
  ad_jump_tables :: "jump_table_record list"

definition seeded_function_addresses :: "'w executable_model \<Rightarrow> int set" where
  "seeded_function_addresses m =
     set (concat (map (\<lambda>l. map ne_address (li_functions l)) (xm_imports m @ xm_exports m)))"

text \<open>\<open>{f.address: f for f in functions}\<close>: the last function of an address counts.\<close>

definition function_at :: "disassembly_result \<Rightarrow> int \<Rightarrow> function_record option" where
  "function_at d = map_of (rev (map (\<lambda>f. (fn_address f, f)) (ds_functions d)))"

definition call_edge_of :: "disassembly_result \<Rightarrow> reference_record \<Rightarrow> call_edge option" where
  "call_edge_of d r =
     (if rf_kind r \<notin> {''call'', ''indirect_call''} then None
      else case (rf_source_function r, function_at d (rf_target_address r)) of
        (Some source, Some target) \<Rightarrow>
          Some \<lparr> ce_source_function = source, ce_target_function = fn_name target,
                 ce_source_address = rf_source_address r, ce_target_address = rf_target_address r,
                 ce_kind = (if rf_kind r = ''indirect_call'' then ''indirect'' else ''direct'') \<rparr>
      | _ \<Rightarrow> None)"

text \<open>The key of an edge is all of it, so equal edges collapse and the sort order decides everything.\<close>

definition edge_order :: "call_edge \<Rightarrow> int \<times> int \<times> string \<times> string \<times> string" where
  "edge_order e = (ce_source_address e, ce_target_address e, ce_source_function e, ce_target_function e, ce_kind e)"

definition build_call_edges :: "disassembly_result \<Rightarrow> call_edge list" where
  "build_call_edges d = sort_key edge_order (remdups (List.map_filter (call_edge_of d) (ds_references d)))"

definition score_evidence :: "'w executable_model \<Rightarrow> int set \<Rightarrow> function_record \<Rightarrow> (rat \<times> string) list" where
  "score_evidence m incoming f =
     (let ins = fn_instructions f in
      (if map_option eh_entry (xm_elf_header m) = Some (fn_address f) then [(25 / 100, ''ELF entry point'')] else []) @
      (if fn_address f \<in> seeded_function_addresses m then [(20 / 100, ''PSP import/export seed'')] else []) @
      (if fn_address f \<in> incoming then [(10 / 100, ''incoming call'')] else []) @
      (if length ins \<ge> 2 \<and> list_all in_valid ins then [(5 / 100, ''valid multi-instruction body'')] else []) @
      (if ins \<noteq> [] \<and> list_all in_implemented ins then [(5 / 100, ''all instructions implemented'')] else []) @
      (if list_ex (\<lambda>i. \<not> in_valid i) ins then [(- 20 / 100, ''invalid instruction'')] else []) @
      (if list_ex (\<lambda>i. \<not> in_implemented i) ins then [(- 10 / 100, ''unimplemented instruction'')] else []))"

definition score_function :: "'w executable_model \<Rightarrow> int set \<Rightarrow> function_record \<Rightarrow> function_confidence" where
  "score_function m incoming f =
     (let evidence = score_evidence m incoming f in
      \<lparr> fc_name = fn_name f, fc_address = fn_address f,
        fc_score = of_int (round (100 * max 0 (min 1 (50 / 100 + sum_list (map fst evidence))))) / 100,
        fc_evidence = map snd evidence \<rparr>)"

definition score_functions ::
    "'w executable_model \<Rightarrow> disassembly_result \<Rightarrow> call_edge list \<Rightarrow> function_confidence list" where
  "score_functions m d edges =
     sort_key (\<lambda>c. (fc_address c, fc_name c))
       (map (score_function m (set (map ce_target_address edges))) (ds_functions d))"

definition analyze_advanced :: "'w executable_model \<Rightarrow> disassembly_result \<Rightarrow> advanced_result" where
  "analyze_advanced m d =
     (let edges = build_call_edges d in
      \<lparr> ad_source_name = ds_source_name d, ad_call_edges = edges,
        ad_function_confidence = score_functions m d edges, ad_jump_tables = ds_jump_tables d \<rparr>)"

lemma score_function_bounds: "0 \<le> fc_score (score_function m incoming f)" "fc_score (score_function m incoming f) \<le> 1"
proof -
  let ?x = "100 * max 0 (min 1 (50 / 100 + sum_list (map fst (score_evidence m incoming f)))) :: rat"
  have "round (0 :: rat) \<le> round ?x" "round ?x \<le> round (100 :: rat)"
    by (intro round_mono; simp)+
  then have "0 \<le> (of_int (round ?x) :: rat)" "(of_int (round ?x) :: rat) \<le> 100" by simp_all
  then show "0 \<le> fc_score (score_function m incoming f)" "fc_score (score_function m incoming f) \<le> 1"
    by (simp_all add: score_function_def Let_def)
qed

text \<open>An edge is reported exactly for a call that has a known caller and a known target, once, in order.\<close>

lemma function_at_Some: "function_at d a = Some f \<Longrightarrow> f \<in> set (ds_functions d) \<and> fn_address f = a"
  unfolding function_at_def by (drule map_of_SomeD) auto

lemma edge_order_inj: "edge_order e = edge_order e' \<Longrightarrow> e = e'"
  by (cases e; cases e') (simp add: edge_order_def)

lemma build_call_edges_exact:
  "e \<in> set (build_call_edges d) \<longleftrightarrow> (\<exists>r \<in> set (ds_references d). call_edge_of d r = Some e)"
  by (force simp: build_call_edges_def List.map_filter_def)

lemma build_call_edges_ordered: "sorted (map edge_order (build_call_edges d)) \<and> distinct (build_call_edges d)"
  by (simp add: build_call_edges_def)

end
