(* ===== verification/Data_Typing.thy ===== *)
theory Data_Typing
  imports Psp_Model
begin

text \<open>
  \<open>data_typing.py\<close>: inferring data types from the image, the relocations and the normalized
  disassembly. One definition per pass; the dictionaries that later passes extend are association
  lists, the sets of addresses are sets. Confidences are the decimal numbers of the source, as
  rationals.
\<close>

section \<open>Records\<close>

datatype type_name =
    String_Type | Jump_Table_Type | Function_Pointer_Table | Pointer_Table | Array_Candidate
  | Struct_Candidate | Function_Pointer_Type | Pointer_Type

fun type_label :: "type_name \<Rightarrow> string" where
  "type_label String_Type = ''string''"
| "type_label Jump_Table_Type = ''jump_table''"
| "type_label Function_Pointer_Table = ''function_pointer_table''"
| "type_label Pointer_Table = ''pointer_table''"
| "type_label Array_Candidate = ''array_candidate''"
| "type_label Struct_Candidate = ''struct_candidate''"
| "type_label Function_Pointer_Type = ''function_pointer''"
| "type_label Pointer_Type = ''pointer''"

fun type_precedence :: "type_name \<Rightarrow> int" where
  "type_precedence String_Type = 1"
| "type_precedence Jump_Table_Type = 2"
| "type_precedence Function_Pointer_Table = 3"
| "type_precedence Pointer_Table = 4"
| "type_precedence Array_Candidate = 5"
| "type_precedence Struct_Candidate = 6"
| "type_precedence Function_Pointer_Type = 7"
| "type_precedence Pointer_Type = 8"

record typed_field =
  tf_offset :: int
  tf_type_name :: type_name
  tf_target_address :: "int option"
  tf_confidence :: rat
  tf_evidence :: "string list"

record data_type =
  dt_address :: int
  dt_section :: string
  dt_type_name :: type_name
  dt_size :: int
  dt_target_address :: "int option"
  dt_count :: "int option"
  dt_element_type :: "type_name option"
  dt_element_size :: "int option"
  dt_confidence :: rat
  dt_evidence :: "string list"
  dt_fields :: "typed_field list"

record typed_reference =
  tr_source_address :: int
  tr_target_address :: int
  tr_kind :: string
  tr_source_function :: "string option"
  tr_target_section :: "string option"
  tr_target_type :: "type_name option"
  tr_confidence :: rat
  tr_evidence :: "string list"

record typed_call_edge =
  te_source_function :: string
  te_target_function :: string
  te_source_address :: int
  te_target_address :: int
  te_kind :: string
  te_evidence :: "string list"

record data_typing_result =
  dy_source_name :: string
  dy_data_types :: "data_type list"
  dy_typed_references :: "typed_reference list"
  dy_call_edges :: "typed_call_edge list"
  dy_warnings :: "string list"

record leaf =
  lf_record :: data_type
  lf_relocation_backed :: bool

type_synonym leaf_map = "(int \<times> leaf) list"
type_synonym ranges = "(int \<times> int) list"

definition SHF_ALLOC :: int where "SHF_ALLOC = 0x2"
definition SHF_EXECINSTR :: int where "SHF_EXECINSTR = 0x4"
definition SHT_NOBITS :: int where "SHT_NOBITS = 8"
definition PT_LOAD :: int where "PT_LOAD = 1"
definition STRUCT_LIMIT :: int where "STRUCT_LIMIT = 64"
definition ARRAY_SIZES :: "int list" where "ARRAY_SIZES = [8, 12, 16, 20, 24, 32, 48, 64]"

definition STRONG_RANGE_TYPES :: "type_name list" where
  "STRONG_RANGE_TYPES = [String_Type, Jump_Table_Type, Function_Pointer_Table, Pointer_Table]"

definition LEAF_TYPES :: "type_name list" where
  "LEAF_TYPES = [Pointer_Type, Function_Pointer_Type]"

text \<open>The formats \<open>0x{v:08X}\<close>, also of a negative number, and \<open>round(q, 2)\<close>.\<close>

definition hex08 :: "int \<Rightarrow> string" where
  "hex08 v = ''0x'' @ (if v < 0 then CHR ''-'' # hex_upper 7 (- v) else hex_upper 8 v)"

definition round2 :: "rat \<Rightarrow> rat" where
  "round2 q = of_int (round (q * 100)) / 100"

text \<open>\<open>range(start, stop, step)\<close> for a positive step.\<close>

definition py_range :: "int \<Rightarrow> int \<Rightarrow> int \<Rightarrow> int list" where
  "py_range start stop step = map (\<lambda>k. start + int k * step) [0..<nat ((stop - start + step - 1) div step)]"

section \<open>The image\<close>

definition allocated_section :: "elf_image \<Rightarrow> int \<Rightarrow> bool \<Rightarrow> elf_section option" where
  "allocated_section elf address file_backed =
     find (\<lambda>s. \<not> (se_size s \<le> 0 \<or> se_flags s AND SHF_ALLOC = 0) \<and> \<not> (file_backed \<and> se_type s = SHT_NOBITS) \<and>
               se_addr s \<le> address \<and> address < se_addr s + se_size s)
       (el_sections elf)"

definition storage_section :: "elf_image \<Rightarrow> int \<Rightarrow> elf_section option" where
  "storage_section elf address =
     (case allocated_section elf address True of
        None \<Rightarrow> None
      | Some s \<Rightarrow> if se_flags s AND SHF_EXECINSTR \<noteq> 0 then None else Some s)"

definition storage_sections :: "elf_image \<Rightarrow> elf_section list" where
  "storage_sections elf =
     sort_key (\<lambda>s. (se_addr s, se_index s, se_name s))
       (filter (\<lambda>s. se_size s > 0 \<and> se_flags s AND SHF_ALLOC \<noteq> 0 \<and> \<not> se_flags s AND SHF_EXECINSTR \<noteq> 0 \<and>
                  se_type s \<noteq> SHT_NOBITS) (el_sections elf))"

definition safe_word :: "elf_image \<Rightarrow> elf_section \<Rightarrow> int \<Rightarrow> int option" where
  "safe_word elf s address =
     (if address AND 3 \<noteq> 0 then None
      else if address < se_addr s \<or> address + 4 > se_addr s + se_size s then None
      else let offset = se_offset s + address - se_addr s in
        if offset < 0 \<or> offset + 4 > blen (el_raw_data elf) then None
        else Some (le_int (py_slice (el_raw_data elf) offset (offset + 4))))"

definition range_of :: "data_type \<Rightarrow> int \<times> int" where
  "range_of r = (dt_address r, dt_address r + max 1 (dt_size r))"

definition inside_ranges :: "int \<Rightarrow> ranges \<Rightarrow> bool" where
  "inside_ranges address rs = list_ex (\<lambda>(start, e). start \<le> address \<and> address < e) rs"

definition overlaps_ranges :: "int \<Rightarrow> int \<Rightarrow> ranges \<Rightarrow> bool" where
  "overlaps_ranges start e rs = list_ex (\<lambda>(reserved_start, reserved_end). start < reserved_end \<and> reserved_start < e) rs"

section \<open>Relocation slots\<close>

fun source_label :: "reloc_source \<Rightarrow> string" where
  "source_label From_Section = ''section''"
| "source_label From_Program_Header = ''program_header''"
| "source_label From_Rel2 = ''program_header_rel2''"

definition resolved_relocation_slot :: "'w executable_model \<Rightarrow> elf_image \<Rightarrow> relocation \<Rightarrow> int option" where
  "resolved_relocation_slot m elf rel =
     (let source_index = (case re_source_segment_index rel of Some i \<Rightarrow> i | None \<Rightarrow> drop_bit 8 (re_info rel) AND 0xFF);
          source = el_program_headers elf ! nat source_index
      in if (xm_executable_kind m = Prx_Executable \<or> re_source_segment_index rel \<noteq> None \<or>
             re_source rel \<in> {From_Program_Header, From_Rel2}) \<and>
            0 \<le> source_index \<and> source_index < blen (el_program_headers elf) \<and> ph_type source = PT_LOAD
         then (if re_offset rel < 0 \<or> re_offset rel + 4 > ph_filesz source then None
               else let address = ph_vaddr source + re_offset rel in
                 if 0 \<le> address \<and> address \<le> 0xFFFFFFFF then Some address else None)
         else Some (re_offset rel))"

definition slot_of_relocation :: "'w executable_model \<Rightarrow> elf_image \<Rightarrow> relocation \<Rightarrow> int option" where
  "slot_of_relocation m elf rel =
     (case resolved_relocation_slot m elf rel of
        None \<Rightarrow> None
      | Some slot \<Rightarrow>
          if allocated_section elf slot True = None then None
          else (case vaddr_to_offset elf slot of
                  None \<Rightarrow> None
                | Some mapped \<Rightarrow> if mapped < 0 \<or> mapped + 4 > blen (el_raw_data elf) then None else Some slot))"

definition relocation_warning :: "'w executable_model \<Rightarrow> elf_image \<Rightarrow> relocation \<Rightarrow> string" where
  "relocation_warning m elf rel =
     ''Skipped unmappable relocation source='' @ source_label (re_source rel) @ '' type='' @ re_type_name rel @
     '' offset='' @ hex08 (case resolved_relocation_slot m elf rel of None \<Rightarrow> re_offset rel | Some a \<Rightarrow> a)"

text \<open>A warning is given once for each source, type and address, which is what its text is made of.\<close>

definition safe_relocation_slots :: "'w executable_model \<Rightarrow> elf_image \<Rightarrow> int set \<times> string list" where
  "safe_relocation_slots m elf =
     (let rels = sort_key (\<lambda>r. (re_offset r, source_label (re_source r), re_type_name r, re_type r, re_section r)) (xm_relocations m)
      in (set (List.map_filter (slot_of_relocation m elf) rels),
          map snd (fold (\<lambda>r keyed.
              if slot_of_relocation m elf r \<noteq> None then keyed
              else let key = (re_source r, re_type_name r,
                              (case resolved_relocation_slot m elf r of None \<Rightarrow> re_offset r | Some a \<Rightarrow> a))
                   in if key \<in> fst ` set keyed then keyed else keyed @ [(key, relocation_warning m elf r)]) rels [])))"

section \<open>Seeds and anchors\<close>

definition string_type :: "string_record \<Rightarrow> data_type" where
  "string_type s =
     \<lparr> dt_address = sg_address s, dt_section = sg_section s, dt_type_name = String_Type,
       dt_size = max 1 (blen (sg_value s) + 1), dt_target_address = None, dt_count = None,
       dt_element_type = None, dt_element_size = None, dt_confidence = 1,
       dt_evidence = [''existing referenced string''], dt_fields = [] \<rparr>"

definition jump_table_type :: "elf_image \<Rightarrow> jump_table_record \<Rightarrow> data_type" where
  "jump_table_type elf j =
     \<lparr> dt_address = jt_address j,
       dt_section = (case allocated_section elf (jt_address j) False of None \<Rightarrow> [] | Some s \<Rightarrow> se_name s),
       dt_type_name = Jump_Table_Type, dt_size = blen (jt_targets j) * 4, dt_target_address = None,
       dt_count = Some (blen (jt_targets j)), dt_element_type = Some Pointer_Type, dt_element_size = Some 4,
       dt_confidence = 1, dt_evidence = [''accepted Phase 6A jump table''], dt_fields = [] \<rparr>"

definition seed_existing_types :: "disassembly_result \<Rightarrow> elf_image \<Rightarrow> data_type list" where
  "seed_existing_types d elf =
     map string_type (sort_key (\<lambda>s. (sg_address s, sg_section s, sg_value s)) (ds_strings d)) @
     map (jump_table_type elf)
       (sort_key (\<lambda>j. (jt_address j, jt_source_address j, jt_source_function j)) (ds_jump_tables d))"

definition function_targets :: "'w executable_model \<Rightarrow> disassembly_result \<Rightarrow> int set" where
  "function_targets m d =
     set (map fn_address (ds_functions d) @ concat (map (\<lambda>l. map ne_address (li_functions l)) (xm_exports m)))"

definition variable_addresses :: "'w executable_model \<Rightarrow> int set" where
  "variable_addresses m = set (concat (map (\<lambda>l. map ne_address (li_variables l)) (xm_imports m @ xm_exports m)))"

definition data_symbol_addresses :: "disassembly_result \<Rightarrow> elf_image \<Rightarrow> int set" where
  "data_symbol_addresses d elf =
     set (filter (\<lambda>a. storage_section elf a \<noteq> None) (map sy_address (ds_symbols d)))"

definition reference_slot_anchors :: "disassembly_result \<Rightarrow> elf_image \<Rightarrow> int set" where
  "reference_slot_anchors d elf =
     set (filter (\<lambda>a. storage_section elf a \<noteq> None) (map rf_target_address (ds_references d)))"

definition struct_anchors :: "'w executable_model \<Rightarrow> disassembly_result \<Rightarrow> int set \<Rightarrow> int set \<Rightarrow> int set" where
  "struct_anchors m d data_symbols table_starts =
     data_symbols \<union> variable_addresses m \<union> table_starts \<union>
     set (map rf_target_address (filter (\<lambda>r. rf_kind r \<in> {''data'', ''pointer''}) (ds_references d)))"

section \<open>Pointer leaves\<close>

definition pattern_text :: string where
  "pattern_text = ''accepted repeated pointer-table pattern''"

definition function_pointer_leaf :: "int \<Rightarrow> int \<Rightarrow> elf_section \<Rightarrow> bool \<Rightarrow> bool \<Rightarrow> bool \<Rightarrow> leaf" where
  "function_pointer_leaf address target s relocation_backed anchor_backed table_backed =
     (let first = ''exact function target '' @ hex08 target;
          (evidence, confidence) =
            (if relocation_backed then ([first, ''safe relocation at '' @ hex08 address], 1)
             else if anchor_backed then ([first, ''normalized symbol/reference anchor at '' @ hex08 address], 95 / 100)
             else ([first, pattern_text], 90 / 100));
          evidence' = (if table_backed \<and> pattern_text \<notin> set evidence then evidence @ [pattern_text] else evidence)
      in \<lparr> lf_record =
             \<lparr> dt_address = address, dt_section = se_name s, dt_type_name = Function_Pointer_Type, dt_size = 4,
               dt_target_address = Some target, dt_count = None, dt_element_type = None, dt_element_size = None,
               dt_confidence = confidence, dt_evidence = evidence', dt_fields = [] \<rparr>,
           lf_relocation_backed = relocation_backed \<rparr>)"

definition data_pointer_leaf :: "int \<Rightarrow> int \<Rightarrow> elf_section \<Rightarrow> bool \<Rightarrow> bool \<Rightarrow> bool \<Rightarrow> bool \<Rightarrow> leaf" where
  "data_pointer_leaf address target s relocation_backed anchor_backed identity_backed table_backed =
     \<lparr> lf_record =
         \<lparr> dt_address = address, dt_section = se_name s, dt_type_name = Pointer_Type, dt_size = 4,
           dt_target_address = Some target, dt_count = None, dt_element_type = None, dt_element_size = None,
           dt_confidence = (if relocation_backed \<and> identity_backed then 1
                            else if anchor_backed \<and> identity_backed then 95 / 100 else 90 / 100),
           dt_evidence = [''mapped target '' @ hex08 target] @
             (if relocation_backed then [''safe relocation at '' @ hex08 address] else []) @
             (if anchor_backed then [''normalized symbol/reference anchor at '' @ hex08 address] else []) @
             (if identity_backed then [''exact known data identity '' @ hex08 target] else []) @
             (if table_backed then [pattern_text] else []),
           dt_fields = [] \<rparr>,
       lf_relocation_backed = relocation_backed \<rparr>"

section \<open>Pointer tables\<close>

text \<open>The run of mapped pointer-like words from a cursor on: slots with their values.\<close>

function pointer_run :: "elf_image \<Rightarrow> elf_section \<Rightarrow> ranges \<Rightarrow> int \<Rightarrow> (int \<times> int) list" where
  "pointer_run elf s reserved cursor =
     (if cursor + 4 \<le> se_addr s + se_size s \<and> \<not> inside_ranges cursor reserved then
        (case safe_word elf s cursor of
           None \<Rightarrow> []
         | Some v \<Rightarrow> if allocated_section elf v False = None then []
                     else (cursor, v) # pointer_run elf s reserved (cursor + 4))
      else [])"
  by pat_completeness auto
termination
  by (relation "measure (\<lambda>(_, s, _, cursor). nat (se_addr s + se_size s - cursor))") auto

declare pointer_run.simps [simp del]

record typing_context =
  tc_relocation_slots :: "int set"
  tc_function_targets :: "int set"
  tc_known_data_targets :: "int set"

record table_state =
  ts_tables :: "data_type list"
  ts_leaves :: leaf_map
  ts_reserved :: ranges

definition relocation_count :: "typing_context \<Rightarrow> (int \<times> int) list \<Rightarrow> int" where
  "relocation_count cx run = blen (filter (\<lambda>(slot, _). slot \<in> tc_relocation_slots cx) run)"

definition identity_count :: "typing_context \<Rightarrow> (int \<times> int) list \<Rightarrow> int" where
  "identity_count cx run =
     blen (filter (\<lambda>(_, v). v \<in> tc_function_targets cx \<or> v \<in> tc_known_data_targets cx) run)"

definition run_qualifies :: "typing_context \<Rightarrow> (int \<times> int) list \<Rightarrow> bool" where
  "run_qualifies cx run \<longleftrightarrow>
     (blen run \<ge> 3 \<and> (relocation_count cx run \<ge> 1 \<or> identity_count cx run \<ge> 2)) \<or>
     (blen run \<ge> 2 \<and> relocation_count cx run = blen run)"

definition table_leaf :: "typing_context \<Rightarrow> elf_section \<Rightarrow> int \<times> int \<Rightarrow> leaf" where
  "table_leaf cx s entry =
     (case entry of (slot, v) \<Rightarrow>
        let relocation_backed = slot \<in> tc_relocation_slots cx in
        if v \<in> tc_function_targets cx then function_pointer_leaf slot v s relocation_backed False True
        else data_pointer_leaf slot v s relocation_backed False (v \<in> tc_known_data_targets cx) True)"

definition table_of_run :: "typing_context \<Rightarrow> elf_section \<Rightarrow> (int \<times> int) list \<Rightarrow> data_type" where
  "table_of_run cx s run =
     (let all_functions = list_all (\<lambda>(_, v). v \<in> tc_function_targets cx) run;
          lowest = Min (set (map (\<lambda>e. dt_confidence (lf_record (table_leaf cx s e))) run));
          confidence = (if relocation_count cx run \<noteq> blen run then min lowest (95 / 100) else lowest)
      in \<lparr> dt_address = fst (hd run), dt_section = se_name s,
           dt_type_name = (if all_functions then Function_Pointer_Table else Pointer_Table),
           dt_size = blen run * 4, dt_target_address = None, dt_count = Some (blen run),
           dt_element_type = Some (if all_functions then Function_Pointer_Type else Pointer_Type),
           dt_element_size = Some 4, dt_confidence = round2 confidence,
           dt_evidence =
             [dec_str (blen run) @ '' consecutive mapped aligned pointer-like entries'',
              dec_str (relocation_count cx run) @ '' relocation-backed entries'',
              dec_str (identity_count cx run) @ '' exact known target identities''],
           dt_fields = [] \<rparr>)"

definition add_table :: "typing_context \<Rightarrow> elf_section \<Rightarrow> (int \<times> int) list \<Rightarrow> table_state \<Rightarrow> table_state" where
  "add_table cx s run st =
     (let table = table_of_run cx s run in
      st\<lparr>ts_tables := ts_tables st @ [table],
         ts_leaves := fold (\<lambda>e leaves. dict_set leaves (fst e) (table_leaf cx s e)) run (ts_leaves st),
         ts_reserved := ts_reserved st @ [range_of table]\<rparr>)"

function scan_table_section :: "elf_image \<Rightarrow> typing_context \<Rightarrow> elf_section \<Rightarrow> int \<Rightarrow> table_state \<Rightarrow> table_state" where
  "scan_table_section elf cx s address st =
     (if address + 4 \<le> se_addr s + se_size s then
        (if inside_ranges address (ts_reserved st) then scan_table_section elf cx s (address + 4) st
         else let run = pointer_run elf s (ts_reserved st) address; cursor = address + 4 * blen run in
           if run = [] then scan_table_section elf cx s (address + 4) st
           else if \<not> run_qualifies cx run then scan_table_section elf cx s (max (address + 4) cursor) st
           else scan_table_section elf cx s cursor (add_table cx s run st))
      else st)"
  by pat_completeness auto
termination
  by (relation "measure (\<lambda>(_, _, s, address, _). nat (se_addr s + se_size s - address))") auto

declare scan_table_section.simps [simp del]

definition align_word :: "int \<Rightarrow> int" where
  "align_word a = (a + 3) AND (NOT 3)"

definition scan_pointer_tables :: "elf_image \<Rightarrow> typing_context \<Rightarrow> ranges \<Rightarrow> table_state" where
  "scan_pointer_tables elf cx reserved =
     fold (\<lambda>s. scan_table_section elf cx s (align_word (se_addr s))) (storage_sections elf)
       \<lparr> ts_tables = [], ts_leaves = [], ts_reserved = reserved \<rparr>"

section \<open>Standalone pointers\<close>

definition standalone_leaf ::
    "elf_image \<Rightarrow> typing_context \<Rightarrow> int set \<Rightarrow> elf_section \<Rightarrow> int \<Rightarrow> leaf option" where
  "standalone_leaf elf cx slot_anchors s address =
     (case safe_word elf s address of
        None \<Rightarrow> None
      | Some v \<Rightarrow>
          let relocation_backed = address \<in> tc_relocation_slots cx;
              anchor_backed = address \<in> slot_anchors;
              identity_backed = v \<in> tc_known_data_targets cx
          in if v \<in> tc_function_targets cx \<and> (relocation_backed \<or> anchor_backed)
             then Some (function_pointer_leaf address v s relocation_backed anchor_backed False)
             else if allocated_section elf v False = None \<or> \<not> (relocation_backed \<or> (identity_backed \<and> anchor_backed))
             then None
             else Some (data_pointer_leaf address v s relocation_backed anchor_backed identity_backed False))"

definition standalone_turn ::
    "elf_image \<Rightarrow> typing_context \<Rightarrow> int set \<Rightarrow> ranges \<Rightarrow> elf_section \<Rightarrow> int \<Rightarrow>
       data_type list \<times> leaf_map \<Rightarrow> data_type list \<times> leaf_map" where
  "standalone_turn elf cx slot_anchors reserved s address st =
     (case st of (records, leaves) \<Rightarrow>
        if map_of leaves address \<noteq> None \<or> inside_ranges address reserved then st
        else case standalone_leaf elf cx slot_anchors s address of
               None \<Rightarrow> st
             | Some lf \<Rightarrow> (records @ [lf_record lf], dict_set leaves address lf))"

definition scan_standalone_leaves ::
    "elf_image \<Rightarrow> typing_context \<Rightarrow> int set \<Rightarrow> ranges \<Rightarrow> leaf_map \<Rightarrow> data_type list \<times> leaf_map" where
  "scan_standalone_leaves elf cx slot_anchors reserved leaves =
     fold (\<lambda>s st. fold (standalone_turn elf cx slot_anchors reserved s)
                    (py_range (align_word (se_addr s)) (se_addr s + se_size s - 3) 4) st)
       (storage_sections elf) ([], leaves)"

section \<open>Structures and arrays\<close>

definition strong_object_ranges :: "data_type list \<Rightarrow> ranges" where
  "strong_object_ranges records = sort (map range_of (filter (\<lambda>r. dt_type_name r \<in> set STRONG_RANGE_TYPES) records))"

definition field_of_leaf :: "int \<Rightarrow> int \<Rightarrow> leaf \<Rightarrow> typed_field" where
  "field_of_leaf anchor address lf =
     \<lparr> tf_offset = address - anchor, tf_type_name = dt_type_name (lf_record lf),
       tf_target_address = dt_target_address (lf_record lf), tf_confidence = dt_confidence (lf_record lf),
       tf_evidence = dt_evidence (lf_record lf) \<rparr>"

definition leaf_at :: "leaf_map \<Rightarrow> int \<Rightarrow> leaf" where
  "leaf_at leaves address = the (map_of leaves address)"

definition struct_fields :: "leaf_map \<Rightarrow> int \<Rightarrow> int \<Rightarrow> typed_field list" where
  "struct_fields leaves anchor upper =
     map (\<lambda>a. field_of_leaf anchor a (leaf_at leaves a))
       (filter (\<lambda>a. \<not> (a < anchor \<or> a + 4 > upper) \<and> dt_type_name (lf_record (leaf_at leaves a)) \<in> set LEAF_TYPES)
          (sort (map fst leaves)))"

definition backed_confidence :: "int \<Rightarrow> rat" where
  "backed_confidence n = (if n \<ge> 2 then 80 / 100 else if n = 1 then 75 / 100 else 65 / 100)"

definition struct_candidate ::
    "elf_image \<Rightarrow> leaf_map \<Rightarrow> ranges \<Rightarrow> int list \<Rightarrow> int \<Rightarrow> data_type option" where
  "struct_candidate elf leaves strong_ranges strong_starts anchor =
     (case storage_section elf anchor of
        None \<Rightarrow> None
      | Some s \<Rightarrow>
          if inside_ranges anchor strong_ranges then None
          else let bound = min (anchor + STRUCT_LIMIT) (se_addr s + se_size s);
                   upper = (case find (\<lambda>start. anchor < start \<and> start < bound) strong_starts of
                              None \<Rightarrow> bound | Some start \<Rightarrow> start);
                   fields = struct_fields leaves anchor upper;
                   backed = blen (filter (\<lambda>f. lf_relocation_backed (leaf_at leaves (anchor + tf_offset f))) fields)
               in if blen fields < 2 then None
                  else Some
                    \<lparr> dt_address = anchor, dt_section = se_name s, dt_type_name = Struct_Candidate,
                      dt_size = min STRUCT_LIMIT (Max (set (map (\<lambda>f. tf_offset f + 4) fields))),
                      dt_target_address = None, dt_count = None, dt_element_type = None, dt_element_size = None,
                      dt_confidence = backed_confidence backed,
                      dt_evidence =
                        [''anchored data object with '' @ dec_str (blen fields) @ '' accepted typed fields'',
                         dec_str backed @ '' relocation-backed fields''],
                      dt_fields = fields \<rparr>)"

definition infer_struct_candidates :: "elf_image \<Rightarrow> int set \<Rightarrow> leaf_map \<Rightarrow> data_type list \<Rightarrow> data_type list" where
  "infer_struct_candidates elf anchors leaves strong_records =
     (let strong_ranges = strong_object_ranges strong_records;
          strong_starts = sort (map dt_address (filter (\<lambda>r. dt_type_name r \<in> set STRONG_RANGE_TYPES) strong_records))
      in List.map_filter (struct_candidate elf leaves strong_ranges strong_starts) (sorted_list_of_set anchors))"

type_synonym signature = "(int \<times> type_name) list"

definition record_signature :: "int \<Rightarrow> int \<Rightarrow> leaf_map \<Rightarrow> signature" where
  "record_signature start sz leaves =
     map (\<lambda>a. (a - start, dt_type_name (lf_record (leaf_at leaves a))))
       (filter (\<lambda>a. start \<le> a \<and> a < start + sz \<and> dt_type_name (lf_record (leaf_at leaves a)) \<in> set LEAF_TYPES)
          (sort (map fst leaves)))"

definition signature_confidence :: "leaf_map \<Rightarrow> int \<Rightarrow> signature \<Rightarrow> rat" where
  "signature_confidence leaves start sig =
     backed_confidence (blen (filter (\<lambda>(offset, _). lf_relocation_backed (leaf_at leaves (start + offset))) sig))"

text \<open>How many records from the anchor on share the signature, with their confidences.\<close>

function array_records ::
    "leaf_map \<Rightarrow> ranges \<Rightarrow> elf_section \<Rightarrow> int \<Rightarrow> int \<Rightarrow> signature \<Rightarrow> int \<Rightarrow> rat list \<Rightarrow> int \<times> rat list" where
  "array_records leaves strong_ranges s anchor element_size sig count confidences =
     (let record_start = anchor + count * element_size; record_end = record_start + element_size in
      if element_size \<le> 0 \<or> record_end > se_addr s + se_size s \<or> overlaps_ranges record_start record_end strong_ranges \<or>
         record_signature record_start element_size leaves \<noteq> sig
      then (count, confidences)
      else array_records leaves strong_ranges s anchor element_size sig (count + 1)
             (confidences @ [signature_confidence leaves record_start sig]))"
  by pat_completeness auto
termination
proof (relation "measure (\<lambda>(_, _, s, anchor, element_size, _, count, _).
    nat (se_addr s + se_size s - (anchor + count * element_size)))", goal_cases)
  case (2 leaves strong_ranges s anchor element_size sig count confidences record_start record_end)
  then show ?case by (simp add: algebra_simps)
qed simp

declare array_records.simps [simp del]

definition array_candidate ::
    "elf_image \<Rightarrow> leaf_map \<Rightarrow> ranges \<Rightarrow> elf_section \<Rightarrow> int \<Rightarrow> int \<Rightarrow> data_type option" where
  "array_candidate elf leaves strong_ranges s anchor element_size =
     (if anchor + element_size * 2 > se_addr s + se_size s then None
      else let first_signature = record_signature anchor element_size leaves in
        if blen first_signature < 2 then None
        else let (count, confidences) = array_records leaves strong_ranges s anchor element_size first_signature 1
                   [signature_confidence leaves anchor first_signature]
             in if count < 2 then None
                else Some
                  \<lparr> dt_address = anchor, dt_section = se_name s, dt_type_name = Array_Candidate,
                    dt_size = element_size * count, dt_target_address = None, dt_count = Some count,
                    dt_element_type = Some Struct_Candidate, dt_element_size = Some element_size,
                    dt_confidence = round2 (max (60 / 100) (min (75 / 100) (Min (set confidences) - 5 / 100))),
                    dt_evidence =
                      [dec_str count @ '' consecutive records share typed-field signature'',
                       ''fixed element size '' @ dec_str element_size],
                    dt_fields = map (\<lambda>(offset, _). field_of_leaf anchor (anchor + offset) (leaf_at leaves (anchor + offset)))
                      first_signature \<rparr>)"

definition infer_array_candidates ::
    "elf_image \<Rightarrow> data_type list \<Rightarrow> leaf_map \<Rightarrow> data_type list \<Rightarrow> data_type list" where
  "infer_array_candidates elf structs leaves strong_records =
     (let strong_ranges = strong_object_ranges strong_records in
      concat (map (\<lambda>r. case storage_section elf (dt_address r) of
            None \<Rightarrow> []
          | Some s \<Rightarrow> List.map_filter (array_candidate elf leaves strong_ranges s (dt_address r)) ARRAY_SIZES) structs))"

section \<open>Conflicts\<close>

definition candidate_key :: "data_type \<Rightarrow> int \<times> rat \<times> string \<times> int \<times> string list" where
  "candidate_key r =
     (type_precedence (dt_type_name r), - dt_confidence r, type_label (dt_type_name r), dt_size r, dt_evidence r)"

type_synonym fingerprint =
  "type_name \<times> int \<times> int option \<times> int option \<times> type_name option \<times> int option \<times> rat \<times> string list \<times>
     (int \<times> type_name \<times> int option \<times> rat) list"

definition fingerprint_of :: "data_type \<Rightarrow> fingerprint" where
  "fingerprint_of r =
     (dt_type_name r, dt_size r, dt_target_address r, dt_count r, dt_element_type r, dt_element_size r, dt_confidence r,
      dt_evidence r, map (\<lambda>f. (tf_offset f, tf_type_name f, tf_target_address f, tf_confidence f)) (dt_fields r))"

definition conflict_warning :: "int \<Rightarrow> data_type list \<Rightarrow> string" where
  "conflict_warning address tied =
     ''Resolved same-precedence type conflict at '' @ hex08 address @ '': '' @
     join_with '', '' (map (\<lambda>r. type_label (dt_type_name r) @ ''/0x'' @
       (if dt_size r < 0 then CHR ''-'' # hex_upper 1 (- dt_size r) else hex_upper 1 (dt_size r))) tied)"

text \<open>The records of one address: the distinct ones, those of the best precedence and confidence, the chosen one.\<close>

definition distinct_candidates :: "data_type list \<Rightarrow> data_type list" where
  "distinct_candidates records =
     sort_key candidate_key (map snd (fold (\<lambda>r unique. dict_set unique (fingerprint_of r) r) records []))"

definition tied_candidates :: "data_type list \<Rightarrow> data_type list" where
  "tied_candidates records =
     (let same_precedence = filter (\<lambda>r. type_precedence (dt_type_name r) = type_precedence (dt_type_name (hd records))) records;
          highest = Max (set (map dt_confidence same_precedence))
      in sort_key (\<lambda>r. (type_label (dt_type_name r), dt_size r, dt_evidence r))
           (filter (\<lambda>r. dt_confidence r = highest) same_precedence))"

definition choose_at :: "data_type list \<Rightarrow> int \<Rightarrow> data_type \<times> string list" where
  "choose_at candidates address =
     (let tied = tied_candidates (distinct_candidates (filter (\<lambda>r. dt_address r = address) candidates))
      in (hd tied, if length tied > 1 then [conflict_warning address tied] else []))"

definition resolve_conflicts :: "data_type list \<Rightarrow> data_type list \<times> string list" where
  "resolve_conflicts candidates =
     (let choices = map (choose_at candidates) (sorted_list_of_set (set (map dt_address candidates)));
          chosen = map fst choices;
          reserved = strong_object_ranges chosen;
          final = filter (\<lambda>r. dt_type_name r \<in> set STRONG_RANGE_TYPES \<or> \<not> inside_ranges (dt_address r) reserved) chosen
      in (sort_key (\<lambda>r. (dt_address r, type_precedence (dt_type_name r), type_label (dt_type_name r), dt_size r)) final,
          concat (map snd choices)))"

section \<open>References and call edges\<close>

text \<open>The type \<open>unknown\<close> of a reference to no typed object is \<open>None\<close>.\<close>

definition typed_references :: "disassembly_result \<Rightarrow> data_type list \<Rightarrow> typed_reference list" where
  "typed_references d data_types =
     (let types = map_of (rev (map (\<lambda>r. (dt_address r, r)) data_types)) in
      map (\<lambda>r. let target = types (rf_target_address r) in
        \<lparr> tr_source_address = rf_source_address r, tr_target_address = rf_target_address r, tr_kind = rf_kind r,
          tr_source_function = rf_source_function r, tr_target_section = rf_target_section r,
          tr_target_type = map_option dt_type_name target,
          tr_confidence = (case target of None \<Rightarrow> 0 | Some t \<Rightarrow> dt_confidence t),
          tr_evidence = (case target of None \<Rightarrow> [] | Some t \<Rightarrow> dt_evidence t) \<rparr>) (ds_references d))"

definition typed_call_edge_of :: "disassembly_result \<Rightarrow> leaf_map \<Rightarrow> reference_record \<Rightarrow> typed_call_edge option" where
  "typed_call_edge_of d leaves r =
     (case (rf_kind r = ''indirect_call'', rf_source_function r, map_of leaves (rf_target_address r)) of
        (True, Some source, Some lf) \<Rightarrow>
          (if dt_type_name (lf_record lf) \<noteq> Function_Pointer_Type then None
           else case dt_target_address (lf_record lf) of
             None \<Rightarrow> None
           | Some target \<Rightarrow>
               map_option (\<lambda>f.
                   \<lparr> te_source_function = source, te_target_function = fn_name f, te_source_address = rf_source_address r,
                     te_target_address = target, te_kind = ''typed_indirect'',
                     te_evidence =
                       [''existing indirect_call reference targets slot '' @ hex08 (rf_target_address r),
                        ''slot classified as function_pointer to '' @ hex08 target] \<rparr>)
                 (map_of (rev (map (\<lambda>f. (fn_address f, f)) (ds_functions d))) target))
      | _ \<Rightarrow> None)"

definition call_edge_key :: "typed_call_edge \<Rightarrow> string \<times> string \<times> int \<times> int \<times> string" where
  "call_edge_key e = (te_source_function e, te_target_function e, te_source_address e, te_target_address e, te_kind e)"

definition typed_call_edges :: "disassembly_result \<Rightarrow> leaf_map \<Rightarrow> typed_call_edge list" where
  "typed_call_edges d leaves =
     sort_key (\<lambda>e. (te_source_address e, te_target_address e, te_source_function e, te_target_function e, te_kind e))
       (map snd (fold (\<lambda>e edges. dict_set edges (call_edge_key e) e)
          (List.map_filter (typed_call_edge_of d leaves) (ds_references d)) []))"

section \<open>The analysis\<close>

text \<open>
  The table scan sees the known targets without the tables, the scan of single pointers sees them
  with the tables and with the ranges the tables reserve.
\<close>

definition first_context :: "'w executable_model \<Rightarrow> disassembly_result \<Rightarrow> elf_image \<Rightarrow> typing_context" where
  "first_context m d elf =
     \<lparr> tc_relocation_slots = fst (safe_relocation_slots m elf), tc_function_targets = function_targets m d,
       tc_known_data_targets =
         set (map sg_address (ds_strings d)) \<union> set (map jt_address (ds_jump_tables d)) \<union>
         data_symbol_addresses d elf \<union> variable_addresses m \<rparr>"

definition slot_anchors_of :: "'w executable_model \<Rightarrow> disassembly_result \<Rightarrow> elf_image \<Rightarrow> int set" where
  "slot_anchors_of m d elf = reference_slot_anchors d elf \<union> data_symbol_addresses d elf \<union> variable_addresses m"

definition tables_of :: "'w executable_model \<Rightarrow> disassembly_result \<Rightarrow> elf_image \<Rightarrow> table_state" where
  "tables_of m d elf =
     scan_pointer_tables elf (first_context m d elf)
       (map range_of (filter (\<lambda>r. dt_type_name r \<in> {String_Type, Jump_Table_Type}) (seed_existing_types d elf)))"

definition standalone_of ::
    "'w executable_model \<Rightarrow> disassembly_result \<Rightarrow> elf_image \<Rightarrow> data_type list \<times> leaf_map" where
  "standalone_of m d elf =
     (let st = tables_of m d elf; cx = first_context m d elf;
          cx' = cx\<lparr>tc_known_data_targets := tc_known_data_targets cx \<union> set (map dt_address (ts_tables st))\<rparr>
      in scan_standalone_leaves elf cx' (slot_anchors_of m d elf) (ts_reserved st) (ts_leaves st))"

definition all_candidates :: "'w executable_model \<Rightarrow> disassembly_result \<Rightarrow> elf_image \<Rightarrow> data_type list" where
  "all_candidates m d elf =
     (let seeded = seed_existing_types d elf;
          tables = ts_tables (tables_of m d elf);
          (standalone, leaves) = standalone_of m d elf;
          anchors = struct_anchors m d (data_symbol_addresses d elf) (set (map dt_address tables));
          structs = infer_struct_candidates elf anchors leaves (seeded @ tables)
      in seeded @ tables @ standalone @ structs @ infer_array_candidates elf structs leaves (seeded @ tables))"

definition analyze_data_types ::
    "'w executable_model \<Rightarrow> disassembly_result \<Rightarrow> elf_image \<Rightarrow> data_typing_result" where
  "analyze_data_types m d elf =
     (let (data_types, conflicts) = resolve_conflicts (all_candidates m d elf) in
      \<lparr> dy_source_name = ds_source_name d, dy_data_types = data_types,
        dy_typed_references = typed_references d data_types,
        dy_call_edges = typed_call_edges d (snd (standalone_of m d elf)),
        dy_warnings = sorted_list_of_set (set (snd (safe_relocation_slots m elf) @ conflicts)) \<rparr>)"

section \<open>Resolution is one best record per address\<close>

definition strong_type :: "data_type \<Rightarrow> bool" where
  "strong_type r \<longleftrightarrow> dt_type_name r \<in> set STRONG_RANGE_TYPES"

text \<open>What a resolution of candidates promises.\<close>

definition better_or_equal :: "data_type \<Rightarrow> data_type \<Rightarrow> bool" where
  "better_or_equal r c \<longleftrightarrow>
     type_precedence (dt_type_name r) < type_precedence (dt_type_name c) \<or>
     type_precedence (dt_type_name r) = type_precedence (dt_type_name c) \<and> dt_confidence c \<le> dt_confidence r"

definition inside_strong :: "int \<Rightarrow> data_type list \<Rightarrow> bool" where
  "inside_strong a records \<longleftrightarrow>
     (\<exists>s \<in> set records. strong_type s \<and> dt_address s \<le> a \<and> a < dt_address s + max 1 (dt_size s))"

definition is_resolution :: "data_type list \<Rightarrow> data_type list \<Rightarrow> bool" where
  "is_resolution candidates records \<longleftrightarrow>
     sorted_wrt (<) (map dt_address records) \<and>
     set records \<subseteq> set candidates \<and>
     (\<forall>r \<in> set records. \<forall>c \<in> set candidates. dt_address c = dt_address r \<longrightarrow> better_or_equal r c) \<and>
     (\<forall>r \<in> set records. \<not> strong_type r \<longrightarrow> \<not> inside_strong (dt_address r) records) \<and>
     (\<forall>c \<in> set candidates. dt_address c \<notin> dt_address ` set records \<longrightarrow> inside_strong (dt_address c) records)"

lemma inside_strong_ranges:
  "inside_ranges a (strong_object_ranges records) = inside_strong a records"
  by (auto simp: inside_ranges_def strong_object_ranges_def inside_strong_def strong_type_def range_of_def list_ex_iff)

lemma distinct_candidates_set:
  shows "set (distinct_candidates records) \<subseteq> set records"
    and "fingerprint_of ` set (distinct_candidates records) = fingerprint_of ` set records"
proof -
  let ?u = "fold (\<lambda>r unique. dict_set unique (fingerprint_of r) r) records []"
  have entries: "set ?u \<subseteq> (\<lambda>r. (fingerprint_of r, r)) ` set records"
    using fold_dict_set_entries [of fingerprint_of records "[]"] by simp
  then show "set (distinct_candidates records) \<subseteq> set records" by (auto simp: distinct_candidates_def)
  have "fingerprint_of ` snd ` set ?u = fst ` set ?u"
    unfolding image_image by (rule image_cong) (use entries in auto)
  then show "fingerprint_of ` set (distinct_candidates records) = fingerprint_of ` set records"
    using fold_dict_set_keys [of fingerprint_of records "[]"] by (simp add: distinct_candidates_def)
qed

lemma tied_candidates_best:
  assumes "records \<noteq> []" and first: "\<And>c. c \<in> set records \<Longrightarrow> candidate_key (hd records) \<le> candidate_key c"
  shows "tied_candidates records \<noteq> []" and "set (tied_candidates records) \<subseteq> set records"
    and "r \<in> set (tied_candidates records) \<Longrightarrow> c \<in> set records \<Longrightarrow> better_or_equal r c"
proof -
  let ?p = "\<lambda>r. type_precedence (dt_type_name r)"
  let ?same = "filter (\<lambda>r. ?p r = ?p (hd records)) records"
  let ?top = "Max (set (map dt_confidence ?same))"
  have tied: "set (tied_candidates records) = {r \<in> set ?same. dt_confidence r = ?top}"
    by (auto simp: tied_candidates_def Let_def)
  have "hd records \<in> set ?same" using assms(1) by simp
  then have "?top \<in> set (map dt_confidence ?same)" by (intro Max_in) auto
  then show "tied_candidates records \<noteq> []" using tied by fastforce
  show "set (tied_candidates records) \<subseteq> set records" using tied by auto
  assume r: "r \<in> set (tied_candidates records)" and c: "c \<in> set records"
  have "?p r \<le> ?p c" using first [OF c] r tied by (auto simp: candidate_key_def less_eq_prod_def)
  moreover have "dt_confidence c \<le> dt_confidence r" if "?p r = ?p c"
  proof -
    have "c \<in> set ?same" using that c r tied by auto
    then have "dt_confidence c \<le> ?top" by (intro Max_ge) auto
    then show ?thesis using r tied by auto
  qed
  ultimately show "better_or_equal r c" by (auto simp: better_or_equal_def)
qed

lemma choose_at_best:
  assumes "c0 \<in> set candidates" "dt_address c0 = a"
  shows "fst (choose_at candidates a) \<in> set candidates" and "dt_address (fst (choose_at candidates a)) = a"
    and "c \<in> set candidates \<Longrightarrow> dt_address c = a \<Longrightarrow> better_or_equal (fst (choose_at candidates a)) c"
proof -
  let ?here = "filter (\<lambda>r. dt_address r = a) candidates" let ?u = "distinct_candidates ?here"
  have prints: "fingerprint_of ` set ?u = fingerprint_of ` set ?here" by (rule distinct_candidates_set(2))
  have "?u \<noteq> []" using prints assms by auto
  have first: "candidate_key (hd ?u) \<le> candidate_key c" if "c \<in> set ?u" for c
    using that unfolding distinct_candidates_def by (intro hd_sort_key_le) simp
  have best: "tied_candidates ?u \<noteq> []" "set (tied_candidates ?u) \<subseteq> set ?u"
      "\<And>r c. r \<in> set (tied_candidates ?u) \<Longrightarrow> c \<in> set ?u \<Longrightarrow> better_or_equal r c"
    using tied_candidates_best [OF \<open>?u \<noteq> []\<close>] first by blast+
  have chosen: "fst (choose_at candidates a) \<in> set (tied_candidates ?u)"
    using best(1) by (simp add: choose_at_def Let_def)
  have "fst (choose_at candidates a) \<in> set ?here" using chosen best(2) distinct_candidates_set(1) by blast
  then show "fst (choose_at candidates a) \<in> set candidates" "dt_address (fst (choose_at candidates a)) = a" by auto
  assume "c \<in> set candidates" "dt_address c = a"
  then have "fingerprint_of c \<in> fingerprint_of ` set ?u" using prints by simp
  then obtain c' where c': "c' \<in> set ?u" "fingerprint_of c' = fingerprint_of c" by auto
  then show "better_or_equal (fst (choose_at candidates a)) c"
    using best(3) [OF chosen c'(1)] by (auto simp: fingerprint_of_def better_or_equal_def)
qed

lemma sort_key_of_sorted:
  assumes "sorted_wrt (\<lambda>x y. g x \<le> g y) xs"
  shows "sort_key g xs = xs"
  using assms by (intro sort_key_id_if_sorted) (simp add: sorted_map)

lemma resolve_conflicts_sound: "is_resolution candidates (fst (resolve_conflicts candidates))"
proof -
  let ?as = "sorted_list_of_set (set (map dt_address candidates))"
  let ?chosen = "map (fst \<circ> choose_at candidates) ?as"
  let ?keep = "\<lambda>r. strong_type r \<or> \<not> inside_strong (dt_address r) ?chosen"
  let ?final = "filter ?keep ?chosen"
  have here: "\<exists>c0 \<in> set candidates. dt_address c0 = a" if "a \<in> set ?as" for a using that by auto
  have at: "dt_address (fst (choose_at candidates a)) = a" if "a \<in> set ?as" for a
    using here [OF that] choose_at_best(2) by blast
  have addresses: "map dt_address ?chosen = ?as" unfolding map_map by (rule map_idI) (simp only: comp_def at)
  have "sorted_wrt (<) (map dt_address ?chosen)" unfolding addresses by (rule strict_sorted_list_of_set)
  then have ordered: "sorted_wrt (\<lambda>x y. dt_address x < dt_address y) ?final"
    by (simp add: sorted_wrt_map sorted_wrt_filter del: map_map)
  have "fst (resolve_conflicts candidates) =
      sort_key (\<lambda>r. (dt_address r, type_precedence (dt_type_name r), type_label (dt_type_name r), dt_size r)) ?final"
    by (simp add: resolve_conflicts_def Let_def inside_strong_ranges strong_type_def comp_def)
  also have "\<dots> = ?final"
    by (rule sort_key_of_sorted, rule sorted_wrt_mono_rel [OF _ ordered]) (simp add: less_eq_prod_def)
  finally have result: "fst (resolve_conflicts candidates) = ?final" .
  have strong: "inside_strong a ?final = inside_strong a ?chosen" for a
    by (auto simp: inside_strong_def simp del: set_map)
  show ?thesis unfolding is_resolution_def result strong
  proof (intro conjI ballI impI)
    show "sorted_wrt (<) (map dt_address ?final)" using ordered by (simp only: sorted_wrt_map)
    show "set ?final \<subseteq> set candidates" using here choose_at_best(1) by fastforce
  next
    fix r c assume "r \<in> set ?final" "c \<in> set candidates" "dt_address c = dt_address r"
    then show "better_or_equal r c" using at choose_at_best(3) [of c candidates "dt_address c" c] by auto
  next
    fix r assume "r \<in> set ?final" "\<not> strong_type r"
    then show "\<not> inside_strong (dt_address r) ?chosen" by (simp del: map_map set_map)
  next
    fix c assume c: "c \<in> set candidates" "dt_address c \<notin> dt_address ` set ?final"
    let ?r = "fst (choose_at candidates (dt_address c))"
    have "dt_address ?r = dt_address c" "?r \<in> set ?chosen" using c choose_at_best(2) by auto
    moreover have "?r \<in> set ?final" if "\<not> inside_strong (dt_address c) ?chosen"
      unfolding set_filter using that calculation by (intro CollectI conjI disjI2) (auto simp only:)
    ultimately have "inside_strong (dt_address c) ?chosen \<or> dt_address c \<in> dt_address ` set ?final"
      by (auto intro!: image_eqI [of _ dt_address ?r] simp del: map_map set_map set_filter)
    then show "inside_strong (dt_address c) ?chosen" using c(2) by argo
  qed
qed

text \<open>
  Resolving type candidates leaves one record for each address, in ascending order;
  it is a candidate, of the best precedence there and of the highest confidence among those; no
  weak record starts inside the range of a chosen string, jump table or pointer table, and an
  address loses all its candidates only that way.
\<close>

theorem resolve_conflicts_one_best: "is_resolution candidates (fst (resolve_conflicts candidates))"
  by (rule resolve_conflicts_sound)
section \<open>Typed pointers are words of the file\<close>

definition data_section :: "elf_section \<Rightarrow> bool" where
  "data_section s \<longleftrightarrow> se_flags s AND SHF_ALLOC \<noteq> 0 \<and> se_flags s AND SHF_EXECINSTR = 0 \<and> se_type s \<noteq> SHT_NOBITS"

definition file_word :: "elf_image \<Rightarrow> int \<Rightarrow> int \<Rightarrow> bool" where
  "file_word elf a v \<longleftrightarrow>
     4 dvd a \<and>
     (\<exists>s \<in> set (el_sections elf). data_section s \<and> se_addr s \<le> a \<and> a + 4 \<le> se_addr s + se_size s \<and>
        0 \<le> se_offset s + a - se_addr s \<and> se_offset s + a - se_addr s + 4 \<le> blen (el_raw_data elf) \<and>
        v = le_int (py_slice (el_raw_data elf) (se_offset s + a - se_addr s) (se_offset s + a - se_addr s + 4)))"

definition pointer_target :: "elf_image \<Rightarrow> int set \<Rightarrow> type_name \<Rightarrow> int \<Rightarrow> bool" where
  "pointer_target elf functions t v \<longleftrightarrow>
     t = Function_Pointer_Type \<and> v \<in> functions \<or> t = Pointer_Type \<and> allocated_section elf v False \<noteq> None"

definition typed_pointer :: "elf_image \<Rightarrow> int set \<Rightarrow> int \<Rightarrow> type_name \<Rightarrow> int option \<Rightarrow> bool" where
  "typed_pointer elf functions a t target \<longleftrightarrow>
     (case target of None \<Rightarrow> False | Some v \<Rightarrow> file_word elf a v \<and> pointer_target elf functions t v)"

definition sound_leaf :: "elf_image \<Rightarrow> int set \<Rightarrow> int \<Rightarrow> leaf \<Rightarrow> bool" where
  "sound_leaf elf functions a lf \<longleftrightarrow>
     dt_address (lf_record lf) = a \<and>
     typed_pointer elf functions a (dt_type_name (lf_record lf)) (dt_target_address (lf_record lf))"

definition sound_leaves :: "elf_image \<Rightarrow> int set \<Rightarrow> leaf_map \<Rightarrow> bool" where
  "sound_leaves elf functions leaves \<longleftrightarrow> (\<forall>(a, lf) \<in> set leaves. sound_leaf elf functions a lf)"

definition sound_record :: "elf_image \<Rightarrow> int set \<Rightarrow> data_type \<Rightarrow> bool" where
  "sound_record elf functions r \<longleftrightarrow>
     (dt_type_name r \<in> set LEAF_TYPES \<longrightarrow>
        typed_pointer elf functions (dt_address r) (dt_type_name r) (dt_target_address r)) \<and>
     (\<forall>f \<in> set (dt_fields r).
        typed_pointer elf functions (dt_address r + tf_offset f) (tf_type_name f) (tf_target_address f))"

lemma and_3_iff: "(a :: int) AND 3 = 0 \<longleftrightarrow> 4 dvd a"
proof -
  have "a AND 3 = a mod 4" using take_bit_eq_mask [of 2 a] by (simp add: take_bit_eq_mod mask_eq_exp_minus_1)
  then show ?thesis by (simp add: dvd_eq_mod_eq_0)
qed

lemma storage_section_data: "s \<in> set (storage_sections elf) \<Longrightarrow> s \<in> set (el_sections elf) \<and> data_section s"
  by (simp add: storage_sections_def data_section_def)

lemma safe_word_file_word:
  "safe_word elf s a = Some v \<Longrightarrow> s \<in> set (storage_sections elf) \<Longrightarrow> file_word elf a v"
  unfolding safe_word_def file_word_def using storage_section_data [of s elf]
  by (auto simp: Let_def and_3_iff split: if_splits intro!: bexI [of _ s])

lemma function_pointer_leaf_fields:
  "dt_address (lf_record (function_pointer_leaf a v s r n t)) = a"
  "dt_type_name (lf_record (function_pointer_leaf a v s r n t)) = Function_Pointer_Type"
  "dt_target_address (lf_record (function_pointer_leaf a v s r n t)) = Some v"
  "dt_fields (lf_record (function_pointer_leaf a v s r n t)) = []"
  by (simp_all add: function_pointer_leaf_def Let_def split: prod.split)

lemma data_pointer_leaf_fields:
  "dt_address (lf_record (data_pointer_leaf a v s r n i t)) = a"
  "dt_type_name (lf_record (data_pointer_leaf a v s r n i t)) = Pointer_Type"
  "dt_target_address (lf_record (data_pointer_leaf a v s r n i t)) = Some v"
  "dt_fields (lf_record (data_pointer_leaf a v s r n i t)) = []"
  by (simp_all add: data_pointer_leaf_def)

lemmas leaf_fields [simp] = function_pointer_leaf_fields data_pointer_leaf_fields

lemma sound_leaves_Nil [simp]: "sound_leaves elf fs []"
  by (simp add: sound_leaves_def)

lemma sound_leaves_set:
  "sound_leaves elf fs leaves \<Longrightarrow> sound_leaf elf fs a lf \<Longrightarrow> sound_leaves elf fs (dict_set leaves a lf)"
  unfolding sound_leaves_def using dict_set_entries [of leaves a lf] by fast

lemma sound_leaves_at:
  "sound_leaves elf fs leaves \<Longrightarrow> a \<in> fst ` set leaves \<Longrightarrow> sound_leaf elf fs a (leaf_at leaves a)"
  unfolding sound_leaves_def leaf_at_def by (metis (mono_tags, lifting) case_prodD map_of_SomeD map_of_eq_None_iff option.exhaust_sel)

lemma pointer_run_words:
  "(a, v) \<in> set (pointer_run elf s reserved cursor) \<Longrightarrow>
     safe_word elf s a = Some v \<and> allocated_section elf v False \<noteq> None"
proof (induction elf s reserved cursor rule: pointer_run.induct)
  case (1 elf s reserved cursor)
  let ?more = "cursor + 4 \<le> se_addr s + se_size s \<and> \<not> inside_ranges cursor reserved"
  have run: "pointer_run elf s reserved cursor =
      (if ?more then case safe_word elf s cursor of None \<Rightarrow> []
         | Some v \<Rightarrow> if allocated_section elf v False = None then [] else (cursor, v) # pointer_run elf s reserved (cursor + 4)
       else [])" by (rule pointer_run.simps)
  have more: ?more using 1(2) run by (cases ?more) simp_all
  obtain w where w: "safe_word elf s cursor = Some w" "allocated_section elf w False \<noteq> None"
    using 1(2) run more by (cases "safe_word elf s cursor") (auto split: if_splits)
  have "(a, v) = (cursor, w) \<or> (a, v) \<in> set (pointer_run elf s reserved (cursor + 4))"
    using 1(2) run more w by simp
  then show ?case using 1(1) [OF more w] w by auto
qed

lemma table_leaf_sound:
  assumes "(a, v) \<in> set (pointer_run elf s reserved cursor)" "s \<in> set (storage_sections elf)"
  shows "sound_leaf elf (tc_function_targets cx) a (table_leaf cx s (a, v))"
  using pointer_run_words [OF assms(1)] safe_word_file_word [OF _ assms(2)]
  by (auto simp: sound_leaf_def typed_pointer_def pointer_target_def table_leaf_def Let_def)

lemma add_table_sound:
  assumes "sound_leaves elf (tc_function_targets cx) (ts_leaves st)"
    and "s \<in> set (storage_sections elf)" and "set run \<subseteq> set (pointer_run elf s reserved cursor)"
  shows "sound_leaves elf (tc_function_targets cx) (ts_leaves (add_table cx s run st))"
proof -
  have "sound_leaves elf (tc_function_targets cx) (fold (\<lambda>e leaves. dict_set leaves (fst e) (table_leaf cx s e)) run leaves)"
    if "sound_leaves elf (tc_function_targets cx) leaves" for leaves
    using assms(3) that
  proof (induction run arbitrary: leaves)
    case (Cons e run)
    then have "sound_leaf elf (tc_function_targets cx) (fst e) (table_leaf cx s e)"
      using table_leaf_sound [of "fst e" "snd e" elf s reserved cursor cx] assms(2) by simp
    then show ?case using Cons by (simp add: sound_leaves_set)
  qed simp
  then show ?thesis using assms(1) by (simp add: add_table_def Let_def)
qed

lemma scan_table_section_sound:
  "sound_leaves elf (tc_function_targets cx) (ts_leaves st) \<Longrightarrow> s \<in> set (storage_sections elf) \<Longrightarrow>
     sound_leaves elf (tc_function_targets cx) (ts_leaves (scan_table_section elf cx s a st))"
proof (induction elf cx s a st rule: scan_table_section.induct)
  case (1 elf cx s a st)
  have added: "sound_leaves elf (tc_function_targets cx)
      (ts_leaves (add_table cx s (pointer_run elf s (ts_reserved st) a) st))"
    by (rule add_table_sound [OF 1(5,6) subset_refl])
  show ?case
    by (subst scan_table_section.simps) (use 1 added in \<open>auto simp: Let_def\<close>)
qed

lemma scan_pointer_tables_sound:
  "sound_leaves elf (tc_function_targets cx) (ts_leaves (scan_pointer_tables elf cx reserved))"
proof -
  have "sound_leaves elf (tc_function_targets cx)
      (ts_leaves (fold (\<lambda>s. scan_table_section elf cx s (align_word (se_addr s))) ss st))"
    if "set ss \<subseteq> set (storage_sections elf)" "sound_leaves elf (tc_function_targets cx) (ts_leaves st)" for ss st
    using that by (induction ss arbitrary: st) (auto intro!: scan_table_section_sound)
  from this [OF subset_refl] show ?thesis by (simp add: scan_pointer_tables_def)
qed

lemma standalone_leaf_sound:
  assumes "standalone_leaf elf cx anchors s a = Some lf" "s \<in> set (storage_sections elf)"
  shows "sound_leaf elf (tc_function_targets cx) a lf" "dt_fields (lf_record lf) = []"
  using assms safe_word_file_word [OF _ assms(2)]
  by (auto simp: standalone_leaf_def sound_leaf_def typed_pointer_def pointer_target_def Let_def split: option.splits if_splits)

lemma sound_leaf_record:
  "sound_leaf elf fs a lf \<Longrightarrow> dt_fields (lf_record lf) = [] \<Longrightarrow> sound_record elf fs (lf_record lf)"
  by (simp add: sound_leaf_def sound_record_def)

definition sound_state :: "elf_image \<Rightarrow> int set \<Rightarrow> data_type list \<times> leaf_map \<Rightarrow> bool" where
  "sound_state elf fs st \<longleftrightarrow> (\<forall>r \<in> set (fst st). sound_record elf fs r) \<and> sound_leaves elf fs (snd st)"

lemma standalone_turn_sound:
  assumes "sound_state elf (tc_function_targets cx) st" "s \<in> set (storage_sections elf)"
  shows "sound_state elf (tc_function_targets cx) (standalone_turn elf cx anchors reserved s a st)"
  using assms standalone_leaf_sound [OF _ assms(2), of cx anchors a] sound_leaf_record
  by (auto simp: sound_state_def standalone_turn_def intro!: sound_leaves_set split: prod.splits option.splits)

lemma scan_standalone_leaves_sound:
  assumes "sound_leaves elf (tc_function_targets cx) leaves"
  shows "sound_state elf (tc_function_targets cx) (scan_standalone_leaves elf cx anchors reserved leaves)"
  unfolding scan_standalone_leaves_def
  by (intro fold_invariant [where P = "sound_state elf (tc_function_targets cx)"] standalone_turn_sound)
     (use assms in \<open>auto simp: sound_state_def\<close>)

lemma field_of_leaf_sound:
  "sound_leaves elf fs leaves \<Longrightarrow> a \<in> fst ` set leaves \<Longrightarrow>
     typed_pointer elf fs (anchor + tf_offset (field_of_leaf anchor a (leaf_at leaves a)))
       (tf_type_name (field_of_leaf anchor a (leaf_at leaves a))) (tf_target_address (field_of_leaf anchor a (leaf_at leaves a)))"
  using sound_leaves_at [of elf fs leaves a] by (simp add: field_of_leaf_def sound_leaf_def)

lemma struct_candidate_sound:
  assumes "sound_leaves elf fs leaves" "struct_candidate elf leaves ranges starts anchor = Some r"
  shows "sound_record elf fs r"
proof -
  obtain upper where "dt_address r = anchor" "dt_type_name r = Struct_Candidate"
      "dt_fields r = struct_fields leaves anchor upper"
    using assms(2) by (auto simp: struct_candidate_def Let_def split: option.splits if_splits)
  then show ?thesis
    using field_of_leaf_sound [OF assms(1)] by (auto simp: sound_record_def LEAF_TYPES_def struct_fields_def)
qed

lemma record_signature_field_sound:
  assumes "sound_leaves elf fs leaves" "(offset, t) \<in> set (record_signature anchor sz leaves)"
    and "f = field_of_leaf anchor (anchor + offset) (leaf_at leaves (anchor + offset))"
  shows "typed_pointer elf fs (anchor + tf_offset f) (tf_type_name f) (tf_target_address f)"
proof -
  have "anchor + offset \<in> fst ` set leaves" using assms(2) by (force simp: record_signature_def)
  then show ?thesis unfolding assms(3) by (rule field_of_leaf_sound [OF assms(1)])
qed

lemma array_candidate_sound:
  assumes "sound_leaves elf fs leaves" "array_candidate elf leaves ranges s anchor sz = Some r"
  shows "sound_record elf fs r"
proof -
  have "dt_address r = anchor" "dt_type_name r = Array_Candidate"
    and fields: "dt_fields r = map (\<lambda>(offset, _). field_of_leaf anchor (anchor + offset) (leaf_at leaves (anchor + offset)))
      (record_signature anchor sz leaves)"
    using assms(2) by (auto simp: array_candidate_def Let_def split: if_splits prod.splits)
  then show ?thesis
    using record_signature_field_sound [OF assms(1) _ refl] by (fastforce simp: sound_record_def LEAF_TYPES_def)
qed

lemma seed_existing_types_sound: "r \<in> set (seed_existing_types d elf) \<Longrightarrow> sound_record elf fs r"
  by (auto simp: seed_existing_types_def string_type_def jump_table_type_def sound_record_def LEAF_TYPES_def)

lemma table_of_run_sound: "sound_record elf fs (table_of_run cx s run)"
  by (simp add: table_of_run_def sound_record_def LEAF_TYPES_def Let_def)

lemma scan_pointer_tables_records:
  "r \<in> set (ts_tables (scan_pointer_tables elf cx reserved)) \<Longrightarrow> sound_record elf fs r"
proof -
  have "\<forall>r \<in> set (ts_tables (scan_table_section elf cx s a st)). sound_record elf fs r"
    if "\<forall>r \<in> set (ts_tables st). sound_record elf fs r" for s a st
    using that
  proof (induction elf cx s a st rule: scan_table_section.induct)
    case (1 elf cx s a st)
    show ?case by (subst scan_table_section.simps)
        (use 1 table_of_run_sound in \<open>auto simp: Let_def add_table_def\<close>)
  qed
  then have "\<forall>r \<in> set (ts_tables (scan_pointer_tables elf cx reserved)). sound_record elf fs r"
    unfolding scan_pointer_tables_def
    by (intro fold_invariant [where P = "\<lambda>st. \<forall>r \<in> set (ts_tables st). sound_record elf fs r"]) auto
  then show "r \<in> set (ts_tables (scan_pointer_tables elf cx reserved)) \<Longrightarrow> sound_record elf fs r" by blast
qed

lemma standalone_of_sound: "sound_state elf (function_targets m d) (standalone_of m d elf)"
proof -
  have "sound_leaves elf (tc_function_targets (first_context m d elf)) (ts_leaves (tables_of m d elf))"
    unfolding tables_of_def by (rule scan_pointer_tables_sound)
  then show ?thesis
    using scan_standalone_leaves_sound [where cx = "first_context m d elf\<lparr>tc_known_data_targets := _\<rparr>"]
    by (simp add: standalone_of_def Let_def first_context_def)
qed

lemma all_candidates_sound:
  assumes "r \<in> set (all_candidates m d elf)"
  shows "sound_record elf (function_targets m d) r"
proof -
  obtain standalone leaves where st: "standalone_of m d elf = (standalone, leaves)" by fastforce
  have sound: "\<forall>r \<in> set standalone. sound_record elf (function_targets m d) r"
      "sound_leaves elf (function_targets m d) leaves"
    using standalone_of_sound [of elf m d] by (simp_all add: sound_state_def st)
  have "sound_record elf (function_targets m d) r" if "r \<in> set (infer_struct_candidates elf anchors leaves strong)" for anchors strong
    using that struct_candidate_sound [OF sound(2)] by (auto simp: infer_struct_candidates_def Let_def set_map_filter_member)
  moreover have "sound_record elf (function_targets m d) r" if "r \<in> set (infer_array_candidates elf structs leaves strong)" for structs strong
    using that array_candidate_sound [OF sound(2)]
    by (auto simp: infer_array_candidates_def Let_def set_map_filter_member split: option.splits)
  moreover have "sound_record elf (function_targets m d) r" if "r \<in> set (ts_tables (tables_of m d elf))"
    using that unfolding tables_of_def by (rule scan_pointer_tables_records)
  ultimately show ?thesis
    using assms sound(1) seed_existing_types_sound by (auto simp: all_candidates_def st Let_def)
qed

definition typing_sound :: "'w executable_model \<Rightarrow> disassembly_result \<Rightarrow> elf_image \<Rightarrow> data_typing_result \<Rightarrow> bool" where
  "typing_sound m d elf result \<longleftrightarrow> (\<forall>r \<in> set (dy_data_types result). sound_record elf (function_targets m d) r)"

text \<open>
  Property C7. Every pointer and function pointer that data typing reports, on its own or as a
  field of a structure or an array, is an aligned word read from the file inside an allocated,
  non-executable, file-backed section; a function pointer's target is exactly the address of a
  function or of an exported function, a pointer's target lies in an allocated section.
\<close>

theorem typed_pointers_are_file_words: "typing_sound m d elf (analyze_data_types m d elf)"
proof -
  have "set (fst (resolve_conflicts (all_candidates m d elf))) \<subseteq> set (all_candidates m d elf)"
    using resolve_conflicts_sound [of "all_candidates m d elf"] by (simp add: is_resolution_def)
  then have "sound_record elf (function_targets m d) r"
    if "r \<in> set (fst (resolve_conflicts (all_candidates m d elf)))" for r
    using that all_candidates_sound by blast
  then show ?thesis by (simp add: typing_sound_def analyze_data_types_def split: prod.split)
qed

end
