(* ===== verification/Resource_Formats.thy ===== *)
theory Resource_Formats
  imports Py_Prelude
begin

text \<open>
  \<open>resource_formats.py\<close>: recognising media resources in a byte string. One definition per
  detector, the choice between the candidates at an offset and the scan over all offsets.
  Offsets are never negative where the code calls a detector. Confidences are the decimal
  numbers the source writes, as rationals.
\<close>

section \<open>Matches\<close>

datatype meta_value = Meta_Int int | Meta_Text string

record resource_match =
  rm_offset :: int
  rm_format :: string
  rm_kind :: string
  rm_size :: "int option"
  rm_confidence :: rat
  rm_evidence :: "string list"
  rm_extractable :: bool
  rm_extension :: "string option"
  rm_metadata :: "(string \<times> meta_value) list"

definition PNG_SIGNATURE :: bytes where
  "PNG_SIGNATURE = [0x89, 0x50, 0x4E, 0x47, 0x0D, 0x0A, 0x1A, 0x0A]"

definition GIM_SIGNATURE :: bytes where
  "GIM_SIGNATURE = str_bytes ''MIG.00.1PSP''"

definition ATRAC_CODEC_TAGS :: "int list" where
  "ATRAC_CODEC_TAGS = [0x0270, 0x0271]"

definition PSMF_VERSIONS :: "bytes list" where
  "PSMF_VERSIONS = [str_bytes ''0012'', str_bytes ''0013'', str_bytes ''0014'', str_bytes ''0015'']"

section \<open>PNG\<close>

text \<open>The chunks are walked to \<open>IEND\<close>, which must be empty; the extent is bounded by the data.\<close>

function png_chunks :: "bytes \<Rightarrow> int \<Rightarrow> int \<Rightarrow> int \<Rightarrow> resource_match option" where
  "png_chunks data start cursor chunk_count =
     (if cursor + 12 \<le> blen data then
        (let len = be_int (py_slice data cursor (cursor + 4));
             chunk_type = py_slice data (cursor + 4) (cursor + 8);
             chunk_end = cursor + 12 + len
         in if chunk_end > blen data then None
            else if chunk_type = str_bytes ''IEND'' then
              (if len \<noteq> 0 then None
               else Some \<lparr> rm_offset = start, rm_format = ''png'', rm_kind = ''image'',
                      rm_size = Some (chunk_end - start), rm_confidence = 1,
                      rm_evidence = [''png_signature'', ''png_iend'', ''bounded_extent''],
                      rm_extractable = True, rm_extension = Some ''png'',
                      rm_metadata = [(''chunk_count'', Meta_Int (chunk_count + 1))] \<rparr>)
            else png_chunks data start chunk_end (chunk_count + 1))
      else None)"
  by pat_completeness auto
termination
proof (relation "measure (\<lambda>(data, _, cursor, _). nat (blen data - cursor))", goal_cases)
  case (2 data start cursor chunk_count len chunk_type chunk_end)
  then have "0 \<le> len" by (simp add: be_int_bounds)
  with 2 show ?case by simp
qed simp

declare png_chunks.simps [simp del]

definition detect_png :: "bytes \<Rightarrow> int \<Rightarrow> resource_match option" where
  "detect_png data start =
     (if \<not> py_startswith data PNG_SIGNATURE start then None
      else png_chunks data start (start + blen PNG_SIGNATURE) 0)"

section \<open>JPEG\<close>

function skip_ff :: "bytes \<Rightarrow> int \<Rightarrow> int" where
  "skip_ff data cursor =
     (if cursor < blen data \<and> data ! nat cursor = 0xFF then skip_ff data (cursor + 1) else cursor)"
  by pat_completeness auto
termination
  by (relation "measure (\<lambda>(data, cursor). nat (blen data - cursor))") auto

declare skip_ff.simps [simp del]

lemma skip_ff_ge: "cursor \<le> skip_ff data cursor"
proof (induction data cursor rule: skip_ff.induct)
  case (1 data cursor)
  then show ?case by (subst skip_ff.simps) auto
qed

function jpeg_next_marker :: "bytes \<Rightarrow> int \<Rightarrow> (byte \<times> int) option" where
  "jpeg_next_marker data cursor =
     (if cursor < blen data then
        (if data ! nat cursor \<noteq> 0xFF then jpeg_next_marker data (cursor + 1)
         else let c = skip_ff data cursor in
              if c \<ge> blen data then None
              else if data ! nat c = 0x00 then jpeg_next_marker data (c + 1)
              else Some (data ! nat c, c + 1))
      else None)"
  by pat_completeness auto
termination
proof (relation "measure (\<lambda>(data, cursor). nat (blen data - cursor))", goal_cases)
  case (3 data cursor c)
  then show ?case using skip_ff_ge [of cursor data] by simp
qed auto

declare jpeg_next_marker.simps [simp del]

lemma jpeg_next_marker_range:
  "jpeg_next_marker data cursor = Some (m, after) \<Longrightarrow> cursor < after \<and> after \<le> blen data"
proof (induction data cursor rule: jpeg_next_marker.induct)
  case (1 data cursor)
  from "1.prems" have lt: "cursor < blen data"
    by (subst (asm) jpeg_next_marker.simps) (simp split: if_splits)
  show ?case
  proof (cases "data ! nat cursor = 0xFF")
    case False
    with "1.prems" lt have "jpeg_next_marker data (cursor + 1) = Some (m, after)"
      by (subst (asm) jpeg_next_marker.simps) simp
    from "1.IH" (1) [OF lt False this] show ?thesis by simp
  next
    case True
    let ?c = "skip_ff data cursor"
    from "1.prems" lt True have c: "?c < blen data" "data ! nat ?c = 0 \<longrightarrow> jpeg_next_marker data (?c + 1) = Some (m, after)"
      "data ! nat ?c \<noteq> 0 \<longrightarrow> after = ?c + 1"
      by (subst (asm) jpeg_next_marker.simps, simp add: Let_def split: if_splits)+
    show ?thesis
    proof (cases "data ! nat ?c = 0")
      case True': True
      from c True' have "?c + 1 < after \<and> after \<le> blen data"
        using "1.IH" (2) [OF lt _ refl] True by simp
      then show ?thesis using skip_ff_ge [of cursor data] by simp
    next
      case False
      with c show ?thesis using skip_ff_ge [of cursor data] by simp
    qed
  qed
qed

function jpeg_segments :: "bytes \<Rightarrow> int \<Rightarrow> int \<Rightarrow> resource_match option" where
  "jpeg_segments data start cursor =
     (if cursor < blen data then
        (case jpeg_next_marker data cursor of
           None \<Rightarrow> None
         | Some (marker, after_marker) \<Rightarrow>
             if marker = 0xD9 then
               Some \<lparr> rm_offset = start, rm_format = ''jpeg'', rm_kind = ''image'',
                 rm_size = Some (after_marker - start), rm_confidence = 1,
                 rm_evidence = [''jpeg_soi'', ''jpeg_eoi'', ''bounded_extent''],
                 rm_extractable = True, rm_extension = Some ''jpg'', rm_metadata = [] \<rparr>
             else if (0xD0 \<le> marker \<and> marker \<le> 0xD7) \<or> marker = 0x01 then
               jpeg_segments data start after_marker
             else if marker = 0xD8 then None
             else if after_marker + 2 > blen data then None
             else let segment_length = be_int (py_slice data after_marker (after_marker + 2)) in
               if segment_length < 2 then None
               else let segment_end = after_marker + segment_length in
                 if segment_end > blen data then None
                 else jpeg_segments data start segment_end)
      else None)"
  by pat_completeness auto
termination
proof (relation "measure (\<lambda>(data, _, cursor). nat (blen data - cursor))", goal_cases)
  case (2 data start cursor p marker after)
  then show ?case using jpeg_next_marker_range [of data cursor marker after] by simp
next
  case (3 data start cursor p marker after len seg_end)
  then show ?case using jpeg_next_marker_range [of data cursor marker after] by simp
qed simp

declare jpeg_segments.simps [simp del]

definition detect_jpeg :: "bytes \<Rightarrow> int \<Rightarrow> resource_match option" where
  "detect_jpeg data start =
     (if start + 2 > blen data \<or> py_slice data start (start + 2) \<noteq> [0xFF, 0xD8] then None
      else jpeg_segments data start (start + 2))"

section \<open>RIFF\<close>

text \<open>The chunks of a \<open>WAVE\<close> form: the last codec tag seen and the number of chunks.\<close>

function riff_chunks :: "bytes \<Rightarrow> int \<Rightarrow> int \<Rightarrow> int option \<Rightarrow> int \<Rightarrow> (int option \<times> int) option" where
  "riff_chunks data limit cursor codec_tag chunk_count =
     (if cursor < limit then
        (if cursor + 8 > limit then None
         else let chunk_id = py_slice data cursor (cursor + 4);
                  chunk_size = le_int (py_slice data (cursor + 4) (cursor + 8));
                  chunk_start = cursor + 8;
                  chunk_end = chunk_start + chunk_size
              in if chunk_end > limit then None
                 else let codec = (if chunk_id = str_bytes ''fmt '' \<and> chunk_size \<ge> 2
                                   then Some (le_int (py_slice data chunk_start (chunk_start + 2))) else codec_tag);
                          next_cursor = chunk_end + (chunk_size AND 1)
                      in if next_cursor > limit then None
                         else riff_chunks data limit next_cursor codec (chunk_count + 1))
      else Some (codec_tag, chunk_count))"
  by pat_completeness auto
termination
proof (relation "measure (\<lambda>(_, limit, cursor, _, _). nat (limit - cursor))", goal_cases)
  case (2 data limit cursor codec_tag chunk_count chunk_id chunk_size chunk_start chunk_end codec next_cursor)
  have "0 \<le> chunk_size" "0 \<le> chunk_size AND 1" unfolding 2 by simp_all
  then have "cursor < next_cursor" using 2 by linarith
  with 2 show ?case by simp
qed simp

declare riff_chunks.simps [simp del]

definition detect_riff :: "bytes \<Rightarrow> int \<Rightarrow> resource_match option" where
  "detect_riff data start =
     (if start + 12 > blen data \<or> py_slice data start (start + 4) \<noteq> str_bytes ''RIFF'' then None
      else let declared_size = le_int (py_slice data (start + 4) (start + 8));
               total_size = declared_size + 8;
               limit = start + total_size
           in if total_size < 12 \<or> limit > blen data then None
              else if py_slice data (start + 8) (start + 12) \<noteq> str_bytes ''WAVE'' then None
              else case riff_chunks data limit (start + 12) None 0 of
                None \<Rightarrow> None
              | Some (codec_tag, chunk_count) \<Rightarrow>
                  let is_atrac = (case codec_tag of None \<Rightarrow> False | Some t \<Rightarrow> t \<in> set ATRAC_CODEC_TAGS) in
                  Some \<lparr> rm_offset = start, rm_format = (if is_atrac then ''at3'' else ''wav''),
                    rm_kind = ''audio'', rm_size = Some total_size, rm_confidence = 1,
                    rm_evidence = [''riff_signature'', ''wave_form'', ''bounded_declared_extent''] @
                      (if is_atrac then [''atrac_codec''] else []),
                    rm_extractable = True, rm_extension = Some (if is_atrac then ''at3'' else ''wav''),
                    rm_metadata = (''chunk_count'', Meta_Int chunk_count) #
                      (case codec_tag of None \<Rightarrow> [] | Some t \<Rightarrow> [(''codec_tag'', Meta_Int t)]) \<rparr>)"

section \<open>VAG, GIM and PSMF\<close>

definition detect_vag :: "bytes \<Rightarrow> int \<Rightarrow> resource_match option" where
  "detect_vag data start =
     (if start + 0x30 > blen data \<or> py_slice data start (start + 4) \<noteq> str_bytes ''VAGp'' then None
      else let version = be_int (py_slice data (start + 4) (start + 8));
               payload_size = be_int (py_slice data (start + 12) (start + 16));
               sample_rate = be_int (py_slice data (start + 16) (start + 20))
           in if version = 0 \<or> payload_size \<le> 0 \<or> \<not> (4000 \<le> sample_rate \<and> sample_rate \<le> 192000) then None
              else let total_size = 0x30 + payload_size in
                if start + total_size > blen data then None
                else Some \<lparr> rm_offset = start, rm_format = ''vag'', rm_kind = ''audio'',
                  rm_size = Some total_size, rm_confidence = 1,
                  rm_evidence = [''vag_signature'', ''vag_header_fields'', ''bounded_declared_extent''],
                  rm_extractable = True, rm_extension = Some ''vag'',
                  rm_metadata = [(''version'', Meta_Int version), (''sample_rate'', Meta_Int sample_rate),
                    (''payload_size'', Meta_Int payload_size)] \<rparr>)"

definition detect_gim :: "bytes \<Rightarrow> int \<Rightarrow> resource_match option" where
  "detect_gim data start =
     (if \<not> py_startswith data GIM_SIGNATURE start \<or> start + 16 > blen data then None
      else Some \<lparr> rm_offset = start, rm_format = ''gim'', rm_kind = ''image'', rm_size = None,
        rm_confidence = 9 / 10, rm_evidence = [''gim_psp_signature'', ''minimum_header_available''],
        rm_extractable = False, rm_extension = Some ''gim'', rm_metadata = [] \<rparr>)"

definition detect_psmf :: "bytes \<Rightarrow> int \<Rightarrow> resource_match option" where
  "detect_psmf data start =
     (if start + 16 > blen data \<or> py_slice data start (start + 4) \<noteq> str_bytes ''PSMF'' then None
      else let version_bytes = py_slice data (start + 4) (start + 8) in
        if version_bytes \<notin> set PSMF_VERSIONS then None
        else let stream_offset = be_int (py_slice data (start + 8) (start + 12));
                 stream_size = be_int (py_slice data (start + 12) (start + 16))
             in if stream_offset = 0 \<or> stream_offset AND 0x7FF \<noteq> 0 \<or> stream_size \<le> 0 then None
                else let total_size = stream_offset + stream_size;
                         bounded = (start + total_size \<le> blen data)
                     in Some \<lparr> rm_offset = start, rm_format = ''pmf'', rm_kind = ''video'',
                          rm_size = (if bounded then Some total_size else None),
                          rm_confidence = (if bounded then 1 else 95 / 100),
                          rm_evidence = [''psmf_signature'', ''psmf_version'', ''psmf_stream_offset'',
                            ''psmf_stream_size''] @ (if bounded then [''bounded_declared_extent''] else []),
                          rm_extractable = bounded, rm_extension = Some ''pmf'',
                          rm_metadata = [(''version'', Meta_Text (map byte_char version_bytes)),
                            (''stream_offset'', Meta_Int stream_offset),
                            (''stream_size'', Meta_Int stream_size)] \<rparr>)"

section \<open>Detection at an offset and scanning\<close>

definition detectors :: "(bytes \<Rightarrow> int \<Rightarrow> resource_match option) list" where
  "detectors = [detect_png, detect_jpeg, detect_riff, detect_vag, detect_gim, detect_psmf]"

definition candidate_order :: "resource_match \<Rightarrow> rat \<times> nat \<times> string" where
  "candidate_order m =
     (- rm_confidence m,
      if rm_extractable m \<and> rm_size m \<noteq> None \<and> rm_size m \<noteq> Some 0 then 0 else 1,
      rm_format m)"

definition detect_resource_at :: "bytes \<Rightarrow> int \<Rightarrow> resource_match option" where
  "detect_resource_at data offset =
     (if offset < 0 \<or> offset \<ge> blen data then None
      else let candidates = List.map_filter (\<lambda>detector. detector data offset) detectors in
        if candidates = [] then None else Some (hd (sort_key candidate_order candidates)))"

function scan_from :: "bytes \<Rightarrow> rat \<Rightarrow> int \<Rightarrow> resource_match list" where
  "scan_from data minimum_confidence cursor =
     (if cursor < blen data then
        (case detect_resource_at data cursor of
           None \<Rightarrow> scan_from data minimum_confidence (cursor + 1)
         | Some candidate \<Rightarrow>
             if rm_confidence candidate < minimum_confidence
             then scan_from data minimum_confidence (cursor + 1)
             else candidate #
               (case (rm_extractable candidate, rm_size candidate) of
                  (True, Some n) \<Rightarrow>
                    if n > 0 then scan_from data minimum_confidence (cursor + n)
                    else scan_from data minimum_confidence (cursor + 1)
                | _ \<Rightarrow> scan_from data minimum_confidence (cursor + 1)))
      else [])"
  by pat_completeness auto
termination
  by (relation "measure (\<lambda>(data, _, cursor). nat (blen data - cursor))") auto

declare scan_from.simps [simp del]

definition scan_resource_bytes :: "bytes \<Rightarrow> rat \<Rightarrow> resource_match list" where
  "scan_resource_bytes data minimum_confidence = scan_from data minimum_confidence 0"

section \<open>Matches stay inside the data\<close>

definition match_ok :: "bytes \<Rightarrow> int \<Rightarrow> resource_match \<Rightarrow> bool" where
  "match_ok data start m \<longleftrightarrow>
     rm_offset m = start \<and> (rm_extractable m \<longleftrightarrow> rm_size m \<noteq> None) \<and>
     (case rm_size m of None \<Rightarrow> rm_confidence m < 1
      | Some n \<Rightarrow> 0 < n \<and> start + n \<le> blen data \<and> rm_confidence m = 1)"

lemma png_chunks_ok: "png_chunks data start cursor k = Some m \<Longrightarrow> start \<le> cursor \<Longrightarrow> match_ok data start m"
proof (induction data start cursor k rule: png_chunks.induct)
  case (1 data start cursor k)
  let ?len = "be_int (py_slice data cursor (cursor + 4))"
  have ge: "0 \<le> ?len" by (rule be_int_bounds)
  from "1.prems" have c: "cursor + 12 \<le> blen data" "\<not> cursor + 12 + ?len > blen data"
    by (subst (asm) png_chunks.simps, simp add: Let_def split: if_splits)+
  show ?case
  proof (cases "py_slice data (cursor + 4) (cursor + 8) = str_bytes ''IEND''")
    case True
    with "1.prems" c ge show ?thesis
      by (subst (asm) png_chunks.simps) (auto simp: Let_def match_ok_def split: if_splits)
  next
    case False
    with "1.prems" c have "png_chunks data start (cursor + 12 + ?len) (k + 1) = Some m"
      by (subst (asm) png_chunks.simps) (simp add: Let_def)
    with "1.IH" [OF c(1) refl refl refl c(2) False] "1.prems"(2) ge show ?thesis by simp
  qed
qed

lemma jpeg_segments_ok:
  "jpeg_segments data start cursor = Some m \<Longrightarrow> start \<le> cursor \<Longrightarrow> match_ok data start m"
proof (induction data start cursor rule: jpeg_segments.induct)
  case (1 data start cursor)
  from "1.prems"(1) obtain marker after where
    lt: "cursor < blen data" and mk: "jpeg_next_marker data cursor = Some (marker, after)"
    by (subst (asm) jpeg_segments.simps) (auto split: if_splits option.splits)
  note rng = jpeg_next_marker_range [OF mk]
  let ?len = "be_int (py_slice data after (after + 2))"
  consider "marker = 0xD9" | "marker \<noteq> 0xD9" "(0xD0 \<le> marker \<and> marker \<le> 0xD7) \<or> marker = 0x01"
    | "marker \<noteq> 0xD9" "\<not> ((0xD0 \<le> marker \<and> marker \<le> 0xD7) \<or> marker = 0x01)" by blast
  then show ?case
  proof cases
    case 1
    with "1.prems" lt mk rng show ?thesis
      by (subst (asm) jpeg_segments.simps) (auto simp: match_ok_def)
  next
    case 2
    with "1.prems"(1) lt mk have "jpeg_segments data start after = Some m"
      by (subst (asm) jpeg_segments.simps) (simp split: if_splits)
    with "1.IH"(1) [OF lt mk refl 2] "1.prems"(2) rng show ?thesis by simp
  next
    case 3
    with "1.prems"(1) lt mk have n: "marker \<noteq> 0xD8" "\<not> after + 2 > blen data" "\<not> ?len < 2"
      "\<not> after + ?len > blen data" "jpeg_segments data start (after + ?len) = Some m"
      by (subst (asm) jpeg_segments.simps, simp add: Let_def split: if_splits)+
    with "1.IH"(2) [OF lt mk refl 3 n(1,2) refl n(3) refl n(4,5)] "1.prems"(2) rng show ?thesis by simp
  qed
qed

lemma detector_ok: "detector \<in> set detectors \<Longrightarrow> 0 \<le> start \<Longrightarrow> detector data start = Some m \<Longrightarrow> match_ok data start m"
proof -
  assume "detector \<in> set detectors" "0 \<le> start" and m: "detector data start = Some m"
  then consider "detector = detect_png" | "detector = detect_jpeg" | "detector = detect_riff" |
    "detector = detect_vag" | "detector = detect_gim" | "detector = detect_psmf"
    by (auto simp: detectors_def)
  then show ?thesis
  proof cases
    case 1
    then show ?thesis using m png_chunks_ok [of data start _ 0 m] by (auto simp: detect_png_def split: if_splits)
  next
    case 2
    then show ?thesis using m jpeg_segments_ok [of data start _ m] by (auto simp: detect_jpeg_def split: if_splits)
  next
    case 3
    then show ?thesis using m
      by (auto simp: detect_riff_def Let_def match_ok_def split: if_splits option.splits)
  next
    case 4
    then show ?thesis using m by (auto simp: detect_vag_def Let_def match_ok_def split: if_splits)
  next
    case 5
    then show ?thesis using m by (auto simp: detect_gim_def match_ok_def split: if_splits)
  next
    case 6
    then show ?thesis using m be_int_bounds(1)
      by (auto simp: detect_psmf_def Let_def match_ok_def add_nonneg_pos split: if_splits)
  qed
qed

lemma detect_resource_at_ok:
  assumes "detect_resource_at data offset = Some m"
  shows "match_ok data offset m" "0 \<le> offset" "offset < blen data"
    "\<exists>detector \<in> set detectors. detector data offset = Some m"
proof -
  let ?cs = "List.map_filter (\<lambda>detector. detector data offset) detectors"
  from assms have c: "0 \<le> offset" "offset < blen data" "?cs \<noteq> []" "m = hd (sort_key candidate_order ?cs)"
    by (auto simp: detect_resource_at_def Let_def split: if_splits)
  have "sort_key candidate_order ?cs \<noteq> []" using c(3) by (metis length_0_conv length_sort)
  then have "hd (sort_key candidate_order ?cs) \<in> set (sort_key candidate_order ?cs)" by (rule hd_in_set)
  with c(4) have "m \<in> set ?cs" by (simp only: set_sort)
  then show ex: "\<exists>detector \<in> set detectors. detector data offset = Some m"
    by (auto simp: map_filter_def)
  with detector_ok c(1) show "match_ok data offset m" by blast
  show "0 \<le> offset" "offset < blen data" by (fact c)+
qed

section \<open>Signatures tell the detectors apart\<close>

lemma slice_first:
  assumes "0 \<le> s" "0 < n" "py_slice data s (s + n) = y # ys"
  shows "data ! nat s = y"
proof -
  from assms have "take (nat n) (drop (nat s) data) = y # ys" by (simp add: py_slice_take_drop)
  then have "drop (nat s) data \<noteq> []" "hd (drop (nat s) data) = y"
    by (auto, metis assms(2) hd_take list.sel(1) zero_less_nat_eq)
  then show ?thesis by (simp add: hd_drop_conv_nth)
qed

text \<open>The first byte of each format, in the order of the detectors.\<close>

definition signature_bytes :: bytes where
  "signature_bytes = [0x89, 0xFF, 0x52, 0x56, 0x4D, 0x50]"

lemma detector_first_byte:
  assumes "0 \<le> start" "i < 6" "(detectors ! i) data start = Some m"
  shows "data ! nat start = signature_bytes ! i"
proof -
  have sig: "str_bytes ''RIFF'' = 0x52 # str_bytes ''IFF''" "str_bytes ''VAGp'' = 0x56 # str_bytes ''AGp''"
    "str_bytes ''MIG.00.1PSP'' = 0x4D # str_bytes ''IG.00.1PSP''" "str_bytes ''PSMF'' = 0x50 # str_bytes ''SMF''"
    by code_simp+
  from assms(2) consider "i = 0" | "i = 1" | "i = 2" | "i = 3" | "i = 4" | "i = 5" by linarith
  then show ?thesis
  proof cases
    case 1
    with assms(1,3) slice_first [of start 8 data "0x89" "[0x50, 0x4E, 0x47, 0x0D, 0x0A, 0x1A, 0x0A]"] show ?thesis
      by (simp add: detectors_def detect_png_def signature_bytes_def PNG_SIGNATURE_def py_startswith_def split: if_splits)
  next
    case 2
    with assms(1,3) slice_first [of start 2 data "0xFF" "[0xD8]"] show ?thesis
      by (simp add: detectors_def detect_jpeg_def signature_bytes_def split: if_splits)
  next
    case 3
    with assms(1,3) slice_first [of start 4 data "0x52" "str_bytes ''IFF''"] show ?thesis
      by (simp add: detectors_def detect_riff_def signature_bytes_def sig split: if_splits)
  next
    case 4
    with assms(1,3) slice_first [of start 4 data "0x56" "str_bytes ''AGp''"] show ?thesis
      by (simp add: detectors_def detect_vag_def signature_bytes_def sig split: if_splits)
  next
    case 5
    with assms(1,3) slice_first [of start 11 data "0x4D" "str_bytes ''IG.00.1PSP''"] show ?thesis
      by (simp add: detectors_def detect_gim_def signature_bytes_def GIM_SIGNATURE_def py_startswith_def sig split: if_splits)
  next
    case 6
    with assms(1,3) slice_first [of start 4 data "0x50" "str_bytes ''SMF''"] show ?thesis
      by (simp add: detectors_def detect_psmf_def signature_bytes_def sig split: if_splits)
  qed
qed

lemma signature_bytes_distinct: "i < 6 \<Longrightarrow> j < 6 \<Longrightarrow> signature_bytes ! i = signature_bytes ! j \<Longrightarrow> i = j"
proof -
  have "distinct signature_bytes" by code_simp
  moreover have "length signature_bytes = 6" by (simp add: signature_bytes_def)
  moreover assume "i < 6" "j < 6" "signature_bytes ! i = signature_bytes ! j"
  ultimately show ?thesis by (simp add: nth_eq_iff_index_eq)
qed

lemma length_detectors: "length detectors = 6"
  by (simp add: detectors_def)

text \<open>At most one detector answers at an offset, so the order of the candidates never decides.\<close>

lemma detectors_exclusive:
  assumes "d \<in> set detectors" "d' \<in> set detectors" "0 \<le> start" "d data start = Some m" "d' data start = Some m'"
  shows "m = m'"
proof -
  from assms(1,2) obtain i j where "i < 6" "d = detectors ! i" "j < 6" "d' = detectors ! j"
    unfolding in_set_conv_nth length_detectors by blast
  with assms(3-5) detector_first_byte [of start i data m] detector_first_byte [of start j data m']
    signature_bytes_distinct [of i j] show ?thesis by simp
qed

lemma detect_resource_at_iff:
  "detect_resource_at data offset = Some m \<longleftrightarrow>
     0 \<le> offset \<and> offset < blen data \<and> (\<exists>d \<in> set detectors. d data offset = Some m)"
proof
  assume "detect_resource_at data offset = Some m"
  then show "0 \<le> offset \<and> offset < blen data \<and> (\<exists>d \<in> set detectors. d data offset = Some m)"
    using detect_resource_at_ok by blast
next
  assume r: "0 \<le> offset \<and> offset < blen data \<and> (\<exists>d \<in> set detectors. d data offset = Some m)"
  then obtain d where d: "d \<in> set detectors" "d data offset = Some m" by blast
  then have "List.map_filter (\<lambda>d. d data offset) detectors \<noteq> []"
    by (force simp: map_filter_def filter_empty_conv)
  with r obtain m' where m': "detect_resource_at data offset = Some m'"
    by (simp add: detect_resource_at_def Let_def)
  then obtain d' where "d' \<in> set detectors" "d' data offset = Some m'"
    using detect_resource_at_ok by blast
  with d r have "m' = m" using detectors_exclusive by blast
  with m' show "detect_resource_at data offset = Some m" by simp
qed

section \<open>The scan\<close>

definition scan_step :: "resource_match \<Rightarrow> int" where
  "scan_step m = (case (rm_extractable m, rm_size m) of (True, Some n) \<Rightarrow> if n > 0 then n else 1 | _ \<Rightarrow> 1)"

definition detects :: "bytes \<Rightarrow> rat \<Rightarrow> int \<Rightarrow> resource_match \<Rightarrow> bool" where
  "detects data minimum_confidence offset m \<longleftrightarrow>
     detect_resource_at data offset = Some m \<and> \<not> rm_confidence m < minimum_confidence"

text \<open>
  What a scan from an offset promises: its matches are detected, in order and without overlap,
  and every detection from that offset on is reported or lies inside a reported extent.
\<close>

definition scan_ok :: "bytes \<Rightarrow> rat \<Rightarrow> int \<Rightarrow> resource_match list \<Rightarrow> bool" where
  "scan_ok data mc cursor ms \<longleftrightarrow>
     (\<forall>m \<in> set ms. cursor \<le> rm_offset m \<and> detects data mc (rm_offset m) m) \<and>
     sorted_wrt (\<lambda>a b. rm_offset a + scan_step a \<le> rm_offset b) ms \<and>
     (\<forall>offset m. cursor \<le> offset \<and> detects data mc offset m \<longrightarrow>
        (\<exists>a \<in> set ms. a = m \<or> (rm_offset a < offset \<and> offset < rm_offset a + scan_step a)))"

lemma scan_step_pos: "0 < scan_step m"
  by (auto simp: scan_step_def split: bool.splits option.splits)

lemma scan_from_unfold:
  "scan_from data mc cursor =
     (if cursor < blen data then
        (case detect_resource_at data cursor of
           None \<Rightarrow> scan_from data mc (cursor + 1)
         | Some m \<Rightarrow> if rm_confidence m < mc then scan_from data mc (cursor + 1)
                     else m # scan_from data mc (cursor + scan_step m))
      else [])"
  by (subst scan_from.simps) (auto simp: scan_step_def split: option.splits bool.splits)

lemma detects_offset: "detects data mc offset m \<Longrightarrow> rm_offset m = offset \<and> offset < blen data"
  unfolding detects_def using detect_resource_at_ok by (metis match_ok_def)

lemma detects_unique: "detects data mc offset m \<Longrightarrow> detects data mc offset m' \<Longrightarrow> m = m'"
  by (simp add: detects_def)

lemma scan_ok_skip:
  assumes "scan_ok data mc (cursor + 1) ms" "\<And>m. \<not> detects data mc cursor m"
  shows "scan_ok data mc cursor ms"
  unfolding scan_ok_def
proof (intro conjI ballI allI impI)
  fix m assume "m \<in> set ms"
  with assms(1) show "cursor \<le> rm_offset m" "detects data mc (rm_offset m) m" by (auto simp: scan_ok_def)
next
  show "sorted_wrt (\<lambda>a b. rm_offset a + scan_step a \<le> rm_offset b) ms" using assms(1) by (simp add: scan_ok_def)
next
  fix offset m assume o: "cursor \<le> offset \<and> detects data mc offset m"
  with assms(2) have "cursor \<noteq> offset" by blast
  with o assms(1) show "\<exists>a \<in> set ms. a = m \<or> (rm_offset a < offset \<and> offset < rm_offset a + scan_step a)"
    by (simp add: scan_ok_def)
qed

lemma scan_ok_take:
  assumes "scan_ok data mc (cursor + scan_step m) ms" "detects data mc cursor m"
  shows "scan_ok data mc cursor (m # ms)"
  unfolding scan_ok_def
proof (intro conjI ballI allI impI)
  note off = detects_offset [OF assms(2)]
  fix m' assume "m' \<in> set (m # ms)"
  with assms off scan_step_pos [of m] show "cursor \<le> rm_offset m'" "detects data mc (rm_offset m') m'"
    by (force simp: scan_ok_def)+
next
  show "sorted_wrt (\<lambda>a b. rm_offset a + scan_step a \<le> rm_offset b) (m # ms)"
    using assms(1) detects_offset [OF assms(2)] by (simp add: scan_ok_def)
next
  fix offset m' assume o: "cursor \<le> offset \<and> detects data mc offset m'"
  consider "offset = cursor" | "cursor < offset" "offset < cursor + scan_step m" | "cursor + scan_step m \<le> offset"
    using o by linarith
  then show "\<exists>a \<in> set (m # ms). a = m' \<or> (rm_offset a < offset \<and> offset < rm_offset a + scan_step a)"
  proof cases
    case 1
    then show ?thesis using detects_unique [OF assms(2)] o by auto
  next
    case 2
    then show ?thesis using detects_offset [OF assms(2)] by auto
  next
    case 3
    with o assms(1) show ?thesis by (auto simp: scan_ok_def)
  qed
qed

lemma scan_from_ok: "scan_ok data mc cursor (scan_from data mc cursor)"
proof (induction data mc cursor rule: scan_from.induct)
  case (1 data mc cursor)
  show ?case
  proof (cases "cursor < blen data")
    case False
    then show ?thesis
      by (subst scan_from_unfold) (auto simp: scan_ok_def dest: detects_offset)
  next
    case lt: True
    show ?thesis
    proof (cases "detect_resource_at data cursor")
      case None
      with lt have "scan_ok data mc (cursor + 1) (scan_from data mc (cursor + 1))" by (rule 1(1))
      then have "scan_ok data mc cursor (scan_from data mc (cursor + 1))"
        by (rule scan_ok_skip) (simp add: detects_def None)
      with lt None show ?thesis by (subst scan_from_unfold) simp
    next
      case (Some m)
      show ?thesis
      proof (cases "rm_confidence m < mc")
        case True
        with lt Some have "scan_ok data mc (cursor + 1) (scan_from data mc (cursor + 1))" by (rule 1(2))
        then have "scan_ok data mc cursor (scan_from data mc (cursor + 1))"
          by (rule scan_ok_skip) (auto simp: detects_def Some True)
        with lt Some True show ?thesis by (subst scan_from_unfold) simp
      next
        case False
        have "scan_ok data mc (cursor + scan_step m) (scan_from data mc (cursor + scan_step m))"
          using 1(3-) [OF lt Some False] by (auto simp: scan_step_def split: option.splits bool.splits)
        then have "scan_ok data mc cursor (m # scan_from data mc (cursor + scan_step m))"
          by (rule scan_ok_take) (simp add: detects_def Some False)
        with lt Some False show ?thesis by (subst scan_from_unfold) simp
      qed
    qed
  qed
qed

text \<open>
  Property C25. The scan reports exactly what there is: every reported match is what the
  detectors find at its offset with enough confidence; the extents reported are in order and do
  not overlap; and every offset of the data at which a resource is detected is reported, unless
  it lies strictly inside the extent of a match that is.
\<close>

theorem scan_reports_every_resource: "scan_ok data mc 0 (scan_resource_bytes data mc)"
  unfolding scan_resource_bytes_def by (rule scan_from_ok)

text \<open>
  A detected resource lies inside the data: its extent starts where it was found,
  is not empty and ends at or before the last byte; a match is extractable exactly when its
  extent is known, and only then has full confidence.
\<close>

theorem detected_resource_in_data:
  assumes "detect_resource_at data offset = Some m"
  shows "match_ok data offset m \<and> 0 \<le> offset \<and> offset < blen data"
  using detect_resource_at_ok [OF assms] by blast

section \<open>Finding an embedded PNG\<close>

text \<open>The PNG format: a chunk is its length, type, body and checksum; \<open>IEND\<close> ends the image.\<close>

record png_chunk =
  pc_type :: bytes
  pc_body :: bytes
  pc_crc :: bytes

definition png_chunk_ok :: "png_chunk \<Rightarrow> bool" where
  "png_chunk_ok c \<longleftrightarrow> length (pc_type c) = 4 \<and> pc_type c \<noteq> str_bytes ''IEND'' \<and>
     blen (pc_body c) < 4294967296 \<and> length (pc_crc c) = 4"

definition png_chunk_bytes :: "png_chunk \<Rightarrow> bytes" where
  "png_chunk_bytes c = be_bytes 4 (blen (pc_body c)) @ pc_type c @ pc_body c @ pc_crc c"

definition png_end_bytes :: "bytes \<Rightarrow> bytes" where
  "png_end_bytes crc = be_bytes 4 0 @ str_bytes ''IEND'' @ crc"

definition png_image_bytes :: "png_chunk list \<Rightarrow> bytes \<Rightarrow> bytes" where
  "png_image_bytes cs crc = PNG_SIGNATURE @ concat (map png_chunk_bytes cs) @ png_end_bytes crc"

definition png_match :: "int \<Rightarrow> int \<Rightarrow> int \<Rightarrow> resource_match" where
  "png_match start extent chunk_count =
     \<lparr> rm_offset = start, rm_format = ''png'', rm_kind = ''image'', rm_size = Some extent,
       rm_confidence = 1, rm_evidence = [''png_signature'', ''png_iend'', ''bounded_extent''],
       rm_extractable = True, rm_extension = Some ''png'',
       rm_metadata = [(''chunk_count'', Meta_Int chunk_count)] \<rparr>"

lemma length_png_chunk_bytes: "png_chunk_ok c \<Longrightarrow> blen (png_chunk_bytes c) = 12 + blen (pc_body c)"
  by (simp add: png_chunk_ok_def png_chunk_bytes_def)

lemma png_chunk_fields:
  assumes "png_chunk_ok c"
  shows "be_int (py_slice (pre @ png_chunk_bytes c @ post) (blen pre) (blen pre + 4)) = blen (pc_body c)"
    "py_slice (pre @ png_chunk_bytes c @ post) (blen pre + 4) (blen pre + 8) = pc_type c"
  using assms
  by (simp_all add: png_chunk_ok_def png_chunk_bytes_def py_slice_shift py_slice_shift_0 py_slice_take_drop
      be_int_be_bytes)

lemma png_end_fields:
  assumes "length crc = 4"
  shows "be_int (py_slice (pre @ png_end_bytes crc @ post) (blen pre) (blen pre + 4)) = 0"
    "py_slice (pre @ png_end_bytes crc @ post) (blen pre + 4) (blen pre + 8) = str_bytes ''IEND''"
    "blen (png_end_bytes crc) = 12"
  using assms
  by (simp_all add: png_end_bytes_def py_slice_shift py_slice_shift_0 py_slice_take_drop be_int_be_bytes)

lemma png_chunks_walk:
  assumes "\<forall>c \<in> set cs. png_chunk_ok c" "length crc = 4"
  shows "png_chunks (pre @ concat (map png_chunk_bytes cs) @ png_end_bytes crc @ post) start (blen pre) k =
    Some (png_match start (blen pre + blen (concat (map png_chunk_bytes cs)) + 12 - start) (k + blen cs + 1))"
  using assms(1)
proof (induction cs arbitrary: pre k)
  case Nil
  note f = png_end_fields(1,2) [OF assms(2), of pre post] png_end_fields(3) [OF assms(2)]
  show ?case
    by (subst png_chunks.simps) (simp add: Let_def f png_match_def)
next
  case (Cons c cs)
  then have c: "png_chunk_ok c" by simp
  let ?rest = "concat (map png_chunk_bytes cs) @ png_end_bytes crc @ post"
  let ?data = "pre @ png_chunk_bytes c @ ?rest"
  note f = png_chunk_fields [OF c, of pre ?rest] and len = length_png_chunk_bytes [OF c]
  have "png_chunks ?data start (blen pre) k =
      png_chunks ?data start (blen pre + 12 + blen (pc_body c)) (k + 1)"
    using c by (subst png_chunks.simps) (simp add: Let_def f len png_chunk_ok_def)
  also have "\<dots> = png_chunks ((pre @ png_chunk_bytes c) @ ?rest) start (blen (pre @ png_chunk_bytes c)) (k + 1)"
    by (intro arg_cong2 [where f = "\<lambda>d i. png_chunks d start i (k + 1)"]) (simp_all add: len)
  also have "\<dots> = Some (png_match start
      (blen (pre @ png_chunk_bytes c) + blen (concat (map png_chunk_bytes cs)) + 12 - start) (k + 1 + blen cs + 1))"
    using Cons.prems by (intro Cons.IH) simp
  finally show ?case by (simp add: len ac_simps)
qed

lemma png_image_detected:
  assumes "\<forall>c \<in> set cs. png_chunk_ok c" "length crc = 4"
  shows "detect_resource_at (pre @ png_image_bytes cs crc @ post) (blen pre) =
    Some (png_match (blen pre) (blen (png_image_bytes cs crc)) (blen cs + 1))"
proof -
  let ?chunks = "concat (map png_chunk_bytes cs)"
  let ?data = "pre @ png_image_bytes cs crc @ post"
  have sig: "blen PNG_SIGNATURE = 8" by (simp add: PNG_SIGNATURE_def)
  have "py_slice ?data (blen pre) (blen pre + 8) = PNG_SIGNATURE"
    using sig by (simp add: png_image_bytes_def py_slice_shift_0 py_slice_take_drop)
  then have start: "py_startswith ?data PNG_SIGNATURE (blen pre)"
    by (simp add: py_startswith_def sig)
  have "png_chunks ((pre @ PNG_SIGNATURE) @ ?chunks @ png_end_bytes crc @ post) (blen pre)
      (blen (pre @ PNG_SIGNATURE)) 0 = Some (png_match (blen pre)
      (blen (pre @ PNG_SIGNATURE) + blen ?chunks + 12 - blen pre) (0 + blen cs + 1))"
    by (rule png_chunks_walk [OF assms])
  then have "detect_png ?data (blen pre) =
      Some (png_match (blen pre) (blen (png_image_bytes cs crc)) (blen cs + 1))"
    using start png_end_fields(3) [OF assms(2)]
    by (simp add: detect_png_def png_image_bytes_def sig ac_simps)
  moreover have "blen pre < blen ?data" by (simp add: png_image_bytes_def PNG_SIGNATURE_def)
  ultimately show ?thesis by (auto simp: detect_resource_at_iff detectors_def)
qed

text \<open>
  An embedded PNG is found with its exact extent: in any data, at the offset of a
  well formed PNG (chunks of the format, then an empty \<open>IEND\<close>) the detection is a PNG of
  exactly that many bytes and chunks, whatever bytes come before and after it.
\<close>

theorem embedded_png_detected:
  assumes "\<forall>c \<in> set cs. png_chunk_ok c" "length crc = 4"
  shows "detect_resource_at (pre @ png_image_bytes cs crc @ post) (blen pre) =
    Some (png_match (blen pre) (blen (png_image_bytes cs crc)) (blen cs + 1))"
  by (rule png_image_detected [OF assms])

definition sample_chunk :: png_chunk where
  "sample_chunk = \<lparr> pc_type = str_bytes ''IDAT'', pc_body = [1, 2, 3], pc_crc = [0, 0, 0, 0] \<rparr>"

lemma sample_chunk_ok: "\<forall>c \<in> set [sample_chunk]. png_chunk_ok c"
proof -
  have "list_all png_chunk_ok [sample_chunk]" by code_simp
  then show ?thesis by (simp add: list_all_iff)
qed

theorem embedded_png_detected_witness:
  "detect_resource_at ([7, 7] @ png_image_bytes [sample_chunk] [0, 0, 0, 0] @ [9]) 2 = Some (png_match 2 35 2)"
proof -
  have "blen (png_image_bytes [sample_chunk] [0, 0, 0, 0]) = 35" by code_simp
  then show ?thesis
    using embedded_png_detected [OF sample_chunk_ok, of "[0, 0, 0, 0]" "[7, 7]" "[9]"] by simp
qed

theorem detected_resource_in_data_witness:
  "match_ok (str_bytes ''MIG.00.1PSP12345'') 0
     (the (detect_resource_at (str_bytes ''MIG.00.1PSP12345'') 0))"
proof -
  have "\<not> Option.is_none (detect_resource_at (str_bytes ''MIG.00.1PSP12345'') 0)" by code_simp
  then have "detect_resource_at (str_bytes ''MIG.00.1PSP12345'') 0 =
      Some (the (detect_resource_at (str_bytes ''MIG.00.1PSP12345'') 0))"
    by (simp add: Option.is_none_def)
  from detected_resource_in_data [OF this] show ?thesis by blast
qed

end
