(* ===== verification/Asset_Discovery.thy ===== *)
theory Asset_Discovery
  imports Data_Typing Resource_Formats
begin

text \<open>
  \<open>asset_discovery.py\<close>: the resource scan over the data sections of an image, and the references
  of the disassembly and of data typing that hit the start of an asset.
\<close>

record asset =
  at_address :: int
  at_file_offset :: int
  at_section :: string
  at_format :: string
  at_kind :: string
  at_size :: "int option"
  at_confidence :: rat
  at_evidence :: "string list"
  at_extractable :: bool
  at_extension :: "string option"
  at_metadata :: "(string \<times> meta_value) list"

record asset_reference =
  ar_source_address :: int
  ar_asset_address :: int
  ar_source_function :: "string option"
  ar_reference_kind :: string
  ar_asset_format :: string
  ar_confidence :: rat
  ar_evidence :: "string list"

record asset_discovery_result =
  av_source_name :: string
  av_assets :: "asset list"
  av_references :: "asset_reference list"
  av_warnings :: "string list"

definition MINIMUM_CONFIDENCE :: rat where
  "MINIMUM_CONFIDENCE = 90 / 100"

definition eligible_sections :: "elf_image \<Rightarrow> elf_section list" where
  "eligible_sections elf =
     sort_key (\<lambda>s. (se_addr s, se_index s, se_name s))
       (filter (\<lambda>s. se_size s > 0 \<and> se_flags s AND SHF_ALLOC \<noteq> 0 \<and> \<not> se_flags s AND SHF_EXECINSTR \<noteq> 0 \<and>
                  se_type s \<noteq> SHT_NOBITS) (el_sections elf))"

definition asset_of_match :: "elf_section \<Rightarrow> resource_match \<Rightarrow> asset" where
  "asset_of_match s m =
     \<lparr> at_address = se_addr s + rm_offset m, at_file_offset = se_offset s + rm_offset m, at_section = se_name s,
       at_format = rm_format m, at_kind = rm_kind m, at_size = rm_size m, at_confidence = rm_confidence m,
       at_evidence = rm_evidence m, at_extractable = rm_extractable m, at_extension = rm_extension m,
       at_metadata = rm_metadata m \<rparr>"

definition scan_section :: "elf_image \<Rightarrow> elf_section \<Rightarrow> asset list \<times> string list" where
  "scan_section elf s =
     (let e = se_offset s + se_size s in
      if se_offset s < 0 \<or> e > blen (el_raw_data elf)
      then ([], [''Skipped out-of-bounds asset section '' @ (if se_name s \<noteq> [] then se_name s else dec_str (se_index s))])
      else (map (asset_of_match s) (scan_resource_bytes (py_slice (el_raw_data elf) (se_offset s) e) MINIMUM_CONFIDENCE), []))"

type_synonym reference_key = "int \<times> int \<times> string"

definition reference_key :: "asset_reference \<Rightarrow> reference_key" where
  "reference_key r = (ar_source_address r, ar_asset_address r, ar_reference_kind r)"

text \<open>\<open>a or b\<close> of optional texts: the empty text counts as missing.\<close>

definition or_text :: "string option \<Rightarrow> string option \<Rightarrow> string option" where
  "or_text a b = (case a of None \<Rightarrow> b | Some s \<Rightarrow> if s = [] then b else a)"

definition sorted_texts :: "string set \<Rightarrow> string list" where
  "sorted_texts s = sorted_list_of_set s"

definition merge_reference ::
    "asset_reference \<Rightarrow> (reference_key \<times> asset_reference) list \<Rightarrow> (reference_key \<times> asset_reference) list" where
  "merge_reference candidate selected =
     (let key = reference_key candidate in
      case map_of selected key of
        None \<Rightarrow> dict_set selected key candidate
      | Some current \<Rightarrow>
          dict_set selected key
            \<lparr> ar_source_address = ar_source_address current, ar_asset_address = ar_asset_address current,
              ar_source_function = or_text (ar_source_function current) (ar_source_function candidate),
              ar_reference_kind = ar_reference_kind current, ar_asset_format = ar_asset_format current,
              ar_confidence = max (ar_confidence current) (ar_confidence candidate),
              ar_evidence = sorted_texts (set (ar_evidence current) \<union> set (ar_evidence candidate)) \<rparr>)"

definition asset_at :: "asset list \<Rightarrow> int \<Rightarrow> asset option" where
  "asset_at assets = map_of (rev (map (\<lambda>a. (at_address a, a)) assets))"

definition direct_reference :: "asset list \<Rightarrow> reference_record \<Rightarrow> asset_reference option" where
  "direct_reference assets r =
     map_option (\<lambda>a. \<lparr> ar_source_address = rf_source_address r, ar_asset_address = at_address a,
         ar_source_function = rf_source_function r, ar_reference_kind = ''direct'', ar_asset_format = at_format a,
         ar_confidence = at_confidence a, ar_evidence = [''asset_exact_start'', ''reference_record''] \<rparr>)
       (asset_at assets (rf_target_address r))"

definition typed_asset_reference :: "asset list \<Rightarrow> typed_reference \<Rightarrow> asset_reference option" where
  "typed_asset_reference assets r =
     map_option (\<lambda>a. \<lparr> ar_source_address = tr_source_address r, ar_asset_address = at_address a,
         ar_source_function = tr_source_function r, ar_reference_kind = ''typed'', ar_asset_format = at_format a,
         ar_confidence = min (at_confidence a) (tr_confidence r),
         ar_evidence = sorted_texts (set (tr_evidence r) \<union> {''asset_exact_start'', ''typed_reference''}) \<rparr>)
       (asset_at assets (tr_target_address r))"

definition typed_data_reference :: "asset list \<Rightarrow> data_type \<Rightarrow> asset_reference option" where
  "typed_data_reference assets r =
     (case dt_target_address r of None \<Rightarrow> None
      | Some target \<Rightarrow>
          map_option (\<lambda>a. \<lparr> ar_source_address = dt_address r, ar_asset_address = at_address a,
              ar_source_function = None, ar_reference_kind = ''typed_data'', ar_asset_format = at_format a,
              ar_confidence = min (at_confidence a) (dt_confidence r),
              ar_evidence = sorted_texts (set (dt_evidence r) \<union> {''asset_exact_start'', ''typed_data''}) \<rparr>)
            (asset_at assets target))"

definition text_or_empty :: "string option \<Rightarrow> string" where
  "text_or_empty x = (case x of None \<Rightarrow> [] | Some s \<Rightarrow> s)"

definition candidate_references ::
    "asset list \<Rightarrow> disassembly_result \<Rightarrow> data_typing_result \<Rightarrow> asset_reference list" where
  "candidate_references assets d typing =
     List.map_filter (direct_reference assets)
       (sort_key (\<lambda>r. (rf_source_address r, rf_target_address r, rf_kind r, text_or_empty (rf_source_function r))) (ds_references d)) @
     List.map_filter (typed_asset_reference assets)
       (sort_key (\<lambda>r. (tr_source_address r, tr_target_address r, tr_kind r, text_or_empty (tr_source_function r)))
         (dy_typed_references typing)) @
     List.map_filter (typed_data_reference assets)
       (sort_key (\<lambda>r. (dt_address r, type_label (dt_type_name r))) (dy_data_types typing))"

definition link_references ::
    "asset list \<Rightarrow> disassembly_result \<Rightarrow> data_typing_result \<Rightarrow> asset_reference list" where
  "link_references assets d typing =
     sort_key (\<lambda>r. (ar_asset_address r, ar_source_address r, ar_reference_kind r, ar_asset_format r))
       (map snd (fold merge_reference (candidate_references assets d typing) []))"

definition analyze_assets ::
    "'w executable_model \<Rightarrow> disassembly_result \<Rightarrow> data_typing_result \<Rightarrow> elf_image \<Rightarrow> asset_discovery_result" where
  "analyze_assets m d typing elf =
     (let scans = map (scan_section elf) (eligible_sections elf);
          assets = sort_key (\<lambda>a. (at_address a, at_format a)) (concat (map fst scans))
      in \<lparr> av_source_name = xm_source_name m, av_assets = assets,
           av_references = link_references assets d typing,
           av_warnings = sorted_texts (set (concat (map snd scans))) \<rparr>)"

section \<open>Assets lie in their sections, references hit their starts\<close>

definition asset_in_section :: "elf_image \<Rightarrow> asset \<Rightarrow> bool" where
  "asset_in_section elf a \<longleftrightarrow>
     (\<exists>s \<in> set (el_sections elf). data_section s \<and> at_section a = se_name s \<and>
        at_address a - se_addr s = at_file_offset a - se_offset s \<and>
        se_offset s \<le> at_file_offset a \<and> at_file_offset a < se_offset s + se_size s \<and>
        se_offset s + se_size s \<le> blen (el_raw_data elf) \<and>
        (\<exists>m. detects (py_slice (el_raw_data elf) (se_offset s) (se_offset s + se_size s)) MINIMUM_CONFIDENCE
               (at_file_offset a - se_offset s) m \<and> a = asset_of_match s m) \<and>
        (case at_size a of None \<Rightarrow> True | Some n \<Rightarrow> 0 < n \<and> at_file_offset a + n \<le> se_offset s + se_size s))"

definition reference_hits :: "asset list \<Rightarrow> asset_reference \<Rightarrow> bool" where
  "reference_hits assets r \<longleftrightarrow> (\<exists>a \<in> set assets. at_address a = ar_asset_address r \<and> at_format a = ar_asset_format r)"

definition discovery_sound :: "elf_image \<Rightarrow> asset_discovery_result \<Rightarrow> bool" where
  "discovery_sound elf result \<longleftrightarrow>
     (\<forall>a \<in> set (av_assets result). asset_in_section elf a) \<and>
     (\<forall>r \<in> set (av_references result). reference_hits (av_assets result) r) \<and>
     distinct (map reference_key (av_references result))"

lemma scan_section_in_section:
  assumes "s \<in> set (eligible_sections elf)" "a \<in> set (fst (scan_section elf s))"
  shows "asset_in_section elf a"
proof -
  let ?d = "py_slice (el_raw_data elf) (se_offset s) (se_offset s + se_size s)"
  have s: "s \<in> set (el_sections elf)" "data_section s" "0 < se_size s"
    using assms(1) by (auto simp: eligible_sections_def data_section_def)
  obtain m where m: "m \<in> set (scan_resource_bytes ?d MINIMUM_CONFIDENCE)" "a = asset_of_match s m"
      "0 \<le> se_offset s" "se_offset s + se_size s \<le> blen (el_raw_data elf)"
    using assms(2) by (auto simp: scan_section_def Let_def split: if_splits)
  have "detects ?d MINIMUM_CONFIDENCE (rm_offset m) m"
    using scan_from_ok [of ?d MINIMUM_CONFIDENCE 0] m(1) by (simp add: scan_ok_def scan_resource_bytes_def)
  moreover from this have "match_ok ?d (rm_offset m) m" "0 \<le> rm_offset m" "rm_offset m < blen ?d"
    using detect_resource_at_ok by (auto simp: detects_def)
  moreover have "blen ?d = se_size s" using m s by (simp add: length_py_slice)
  ultimately show ?thesis
    unfolding asset_in_section_def using s m
    by (intro bexI [of _ s]) (auto simp: asset_of_match_def match_ok_def split: option.splits)
qed

lemma asset_at_Some: "asset_at assets x = Some a \<Longrightarrow> a \<in> set assets \<and> at_address a = x"
  unfolding asset_at_def by (drule map_of_SomeD) auto

lemma candidate_references_hit: "r \<in> set (candidate_references assets d typing) \<Longrightarrow> reference_hits assets r"
  by (auto simp: candidate_references_def set_map_filter_member direct_reference_def typed_asset_reference_def
      typed_data_reference_def reference_hits_def split: option.splits dest!: asset_at_Some) blast

definition selected_ok :: "asset list \<Rightarrow> (reference_key \<times> asset_reference) list \<Rightarrow> bool" where
  "selected_ok assets selected \<longleftrightarrow>
     distinct (map fst selected) \<and> (\<forall>(k, r) \<in> set selected. k = reference_key r \<and> reference_hits assets r)"

lemma merge_reference_ok:
  assumes "selected_ok assets selected" "reference_hits assets r"
  shows "selected_ok assets (merge_reference r selected)"
proof (cases "map_of selected (reference_key r)")
  case None
  then show ?thesis
    using assms dict_set_entries [of selected "reference_key r" r]
    by (fastforce simp: merge_reference_def selected_ok_def dict_set_distinct)
next
  case (Some current)
  let ?merged = "\<lparr> ar_source_address = ar_source_address current, ar_asset_address = ar_asset_address current,
              ar_source_function = or_text (ar_source_function current) (ar_source_function r),
              ar_reference_kind = ar_reference_kind current, ar_asset_format = ar_asset_format current,
              ar_confidence = max (ar_confidence current) (ar_confidence r),
              ar_evidence = sorted_texts (set (ar_evidence current) \<union> set (ar_evidence r)) \<rparr>"
  have "(reference_key r, current) \<in> set selected" using Some by (rule map_of_SomeD)
  then have "reference_key current = reference_key r" "reference_hits assets current"
    using assms(1) by (auto simp: selected_ok_def)
  then have "reference_key ?merged = reference_key r" "reference_hits assets ?merged"
    by (simp_all add: reference_key_def reference_hits_def)
  then show ?thesis
    using assms(1) dict_set_entries [of selected "reference_key r" ?merged]
    by (fastforce simp: merge_reference_def Some selected_ok_def dict_set_distinct)
qed

lemma link_references_ok:
  "\<forall>r \<in> set (link_references assets d typing). reference_hits assets r"
  "distinct (map reference_key (link_references assets d typing))"
proof -
  let ?sel = "fold merge_reference (candidate_references assets d typing) []"
  have ok: "selected_ok assets ?sel"
    by (rule fold_invariant [where P = "selected_ok assets"])
      (simp_all add: merge_reference_ok candidate_references_hit, simp add: selected_ok_def)
  have "distinct (map reference_key (map snd ?sel))"
  proof -
    have "map reference_key (map snd ?sel) = map fst ?sel"
      using ok unfolding selected_ok_def map_map by (intro map_cong refl) auto
    moreover have "distinct (map fst ?sel)" using ok by (simp add: selected_ok_def)
    ultimately show ?thesis by metis
  qed
  then show "distinct (map reference_key (link_references assets d typing))"
    by (simp add: link_references_def distinct_map_sort_key del: map_map)
  show "\<forall>r \<in> set (link_references assets d typing). reference_hits assets r"
    using ok by (auto simp: link_references_def selected_ok_def)
qed

lemma analyze_assets_sound: "discovery_sound elf (analyze_assets m d typing elf)"
proof -
  let ?assets = "av_assets (analyze_assets m d typing elf)"
  have "asset_in_section elf a" if "a \<in> set ?assets" for a
    using that scan_section_in_section by (auto simp: analyze_assets_def Let_def)
  moreover have "av_references (analyze_assets m d typing elf) = link_references ?assets d typing"
    by (simp add: analyze_assets_def Let_def)
  ultimately show ?thesis using link_references_ok by (simp add: discovery_sound_def)
qed

text \<open>
  Property C32. Every asset that discovery reports is a resource the detectors find at exactly that
  offset of a data section of the file, its address and its file offset are the same distance into
  the section, and a known extent ends inside the section; every reported reference hits the start
  of a reported asset of its format, and no reference is reported twice.
\<close>

theorem asset_discovery_sound: "discovery_sound elf (analyze_assets m d typing elf)"
  by (rule analyze_assets_sound)

end
