(* ===== verification/File_Names.thy ===== *)
theory File_Names
  imports Host_Model
begin

text \<open>
  Names of functions and sections made into names of files and symbols. A text is its UTF-8 bytes;
  what stands for a replaced character is written once, where its first byte is.
\<close>

definition name_char :: "char \<Rightarrow> bool" where
  "name_char c \<longleftrightarrow>
     (CHR ''A'' \<le> c \<and> c \<le> CHR ''Z'') \<or> (CHR ''a'' \<le> c \<and> c \<le> CHR ''z'') \<or> (CHR ''0'' \<le> c \<and> c \<le> CHR ''9'') \<or> c = CHR ''_''"

definition file_name_char :: "char \<Rightarrow> bool" where
  "file_name_char c \<longleftrightarrow> name_char c \<or> c = CHR ''.'' \<or> c = CHR ''-''"

text \<open>\<open>re.sub(r"[^A-Za-z0-9._-]+", "_", name)\<close>: one underscore for each run of other characters.\<close>

fun underscore_runs :: "bool \<Rightarrow> string \<Rightarrow> string" where
  "underscore_runs in_run [] = []"
| "underscore_runs in_run (c # cs) =
     (if file_name_char c then c # underscore_runs False cs
      else if in_run then underscore_runs True cs else CHR ''_'' # underscore_runs True cs)"

text \<open>\<open>s.isalnum()\<close> of one character: ASCII letters and digits, and what the Unicode table says of others.\<close>

definition alnum_char :: "(string \<Rightarrow> bool) \<Rightarrow> string \<Rightarrow> bool" where
  "alnum_char unicode ch =
     (case ch of [c] \<Rightarrow> if (of_char c :: nat) < 0x80 then name_char c \<and> c \<noteq> CHR ''_'' else unicode ch | _ \<Rightarrow> unicode ch)"

text \<open>The characters of a text, each by its bytes.\<close>

fun text_chars :: "string \<Rightarrow> string list" where
  "text_chars [] = []"
| "text_chars (c # cs) =
     (case text_chars cs of
        [] \<Rightarrow> [[c]]
      | ch # chs \<Rightarrow> if continues_char (hd ch) then (c # ch) # chs else [c] # ch # chs)"

text \<open>\<open>"".join(ch if ch.isalnum() or ch in "_.-" else "_" for ch in name).strip("._") or "function"\<close>.\<close>

definition safe_function_stem :: "(string \<Rightarrow> bool) \<Rightarrow> string \<Rightarrow> string" where
  "safe_function_stem unicode name =
     (let cleaned = strip_chars {CHR ''.'', CHR ''_''}
            (concat (map (\<lambda>ch. if alnum_char unicode ch \<or> ch \<in> {''_'', ''.'', ''-''} then ch else ''_'') (text_chars name)))
      in if cleaned \<noteq> [] then cleaned else ''function'')"

end
