(* ===== verification/Project.thy ===== *)
theory Project
  imports Disassembler Linker Advanced Asset_Discovery File_Names
begin

text \<open>
  \<open>project.py\<close>: the Splat project of one executable. The flat image, the segments, the symbol file
  and the choice of names are computed here; the disassembler, the NID databases and the text
  formats (JSON, YAML, CSV) are parameters.
\<close>

definition MAX_FLAT_IMAGE_SIZE :: int where "MAX_FLAT_IMAGE_SIZE = 128 * 1024 * 1024"

datatype project_error =
    No_File_Backed_Sections
  | Sparse_Flat_Image int
  | Section_Beyond_File string
  | Module_Rejected disassemble_error
  | Engine_Rejected engine_error
  | Databases_Rejected
  | Nid_Rejected nid_error

section \<open>The flat image\<close>

definition allocated_sections :: "elf_image \<Rightarrow> elf_section list" where
  "allocated_sections elf =
     sort_key (\<lambda>s. (se_addr s, se_index s))
       (filter (\<lambda>s. se_size s > 0 \<and> se_flags s AND SHF_ALLOC \<noteq> 0) (el_sections elf))"

definition file_backed :: "elf_section list \<Rightarrow> elf_section list" where
  "file_backed sections = filter (\<lambda>s. se_type s \<noteq> SHT_NOBITS) sections"

definition copy_section :: "bytes \<Rightarrow> int \<Rightarrow> elf_section \<Rightarrow> bytes \<Rightarrow> (project_error, bytes) result" where
  "copy_section raw base_vram s target =
     (let source_end = se_offset s + se_size s in
      if source_end > blen raw then Inl (Section_Beyond_File (section_label s))
      else Inr (put_range (se_addr s - base_vram) (py_slice raw (se_offset s) source_end) target))"

definition flatten_elf :: "elf_image \<Rightarrow> (project_error, int \<times> bytes \<times> elf_section list) result" where
  "flatten_elf elf =
     (let sections = allocated_sections elf; file_sections = file_backed sections in
      if file_sections = [] then Inl No_File_Backed_Sections
      else
        let base_vram = Min (set (map se_addr sections));
            end_vram = Max (set (map (\<lambda>s. se_addr s + se_size s) file_sections));
            image_size = end_vram - base_vram
        in if image_size \<le> 0 \<or> image_size > MAX_FLAT_IMAGE_SIZE then Inl (Sparse_Flat_Image image_size)
           else bindE (foldE (copy_section (el_raw_data elf) base_vram) file_sections (replicate (nat image_size) 0))
                  (\<lambda>target. Inr (base_vram, target, sections)))"

section \<open>Segments\<close>

definition KNOWN_SEGMENTS :: "(string \<times> string) list" where
  "KNOWN_SEGMENTS =
     [(''.text'', ''asm''), (''.data'', ''data''), (''.rodata'', ''rodata''), (''.sdata'', ''sdata''), (''.sbss'', ''sbss''),
      (''.bss'', ''bss''), (''.gcc_except_table'', ''gcc_except_table''), (''.eh_frame'', ''eh_frame'')]"

definition segment_type :: "elf_section \<Rightarrow> string" where
  "segment_type s =
     (if se_type s = SHT_NOBITS then (if se_name s = ''.sbss'' then ''sbss'' else ''bss'')
      else case map_of KNOWN_SEGMENTS (se_name s) of
        Some t \<Rightarrow> t
      | None \<Rightarrow> if se_kind s = Executable then ''asm'' else if se_kind s = Writable then ''data'' else ''rodata'')"

text \<open>A subsegment of the file, with its start in the image, or one of uninitialized memory.\<close>

datatype subsegment = File_Segment int string string | Bss_Segment string int string

definition hex06 :: "int \<Rightarrow> string" where
  "hex06 v = hex_upper 6 v"

definition add_file_segment :: "int \<Rightarrow> elf_section \<Rightarrow> int \<times> subsegment list \<Rightarrow> int \<times> subsegment list" where
  "add_file_segment base_vram s st =
     (case st of (cursor, segs) \<Rightarrow>
        let start = se_addr s - base_vram;
            padding = (if start > cursor then [File_Segment cursor ''bin'' (''padding/'' @ hex06 cursor)] else [])
        in (max cursor (start + se_size s),
            segs @ padding @ [File_Segment start (segment_type s) (''main/'' @ hex06 start)]))"

definition bss_segment :: "elf_section \<Rightarrow> subsegment" where
  "bss_segment s = Bss_Segment (segment_type s) (se_addr s) (''main/'' @ hex_upper 8 (se_addr s))"

definition build_subsegments :: "int \<Rightarrow> int \<Rightarrow> elf_section list \<Rightarrow> subsegment list \<times> int" where
  "build_subsegments base_vram image_end sections =
     (let (cursor, segs) = fold (add_file_segment base_vram) (file_backed sections) (0, []);
          tail = (if cursor < image_end then [File_Segment cursor ''bin'' (''padding/'' @ hex06 cursor)] else []);
          bss = filter (\<lambda>s. se_type s = SHT_NOBITS) sections
      in (segs @ tail @ map bss_segment bss, sum_list (map se_size bss)))"

definition ORDERED_TYPES :: "string list" where
  "ORDERED_TYPES = [''asm'', ''data'', ''rodata'', ''sdata'', ''sbss'', ''bss'', ''gcc_except_table'', ''eh_frame'']"

definition canonical_section :: "elf_section \<Rightarrow> string option" where
  "canonical_section s =
     (let t = segment_type s in
      if take 1 (se_name s) \<noteq> ''.'' \<or> t \<notin> set ORDERED_TYPES then None
      else Some (if t = ''asm'' then ''.text'' else if t = ''rodata'' then ''.rodata'' else ''.'' @ t))"

definition section_order :: "elf_section list \<Rightarrow> string list" where
  "section_order sections =
     (let order = fold (\<lambda>c order. if c \<in> set order then order else order @ [c])
            (List.map_filter canonical_section sections) []
      in if order \<noteq> [] then order else [''.text'', ''.data'', ''.rodata'', ''.bss''])"

text \<open>The document that YAML prints.\<close>

definition subsegment_json :: "subsegment \<Rightarrow> json" where
  "subsegment_json seg =
     (case seg of
        File_Segment start t name \<Rightarrow> JList [JInt start, JStr t, JStr name]
      | Bss_Segment t vram name \<Rightarrow> JObj [(''type'', JStr t), (''vram'', JInt vram), (''name'', JStr name)])"

definition splat_config :: "(bytes \<Rightarrow> string) \<Rightarrow> string \<Rightarrow> bytes \<Rightarrow> int \<Rightarrow> elf_section list \<Rightarrow> int option \<Rightarrow> json" where
  "splat_config sha1 source_name target base_vram sections gp =
     (let (subsegments, bss_size) = build_subsegments base_vram (blen target) sections;
          stem = path_stem source_name;
          options =
            [(''basename'', JStr (if stem \<noteq> [] then stem else ''psp_target'')), (''target_path'', JStr ''target.bin''),
             (''base_path'', JStr ''.''), (''platform'', JStr ''psp''), (''compiler'', JStr ''GCC''),
             (''endianness'', JStr ''little''), (''asm_path'', JStr ''asm''), (''src_path'', JStr ''src''),
             (''build_path'', JStr ''build''), (''ld_script_path'', JStr ''linker.ld''),
             (''create_asm_dependencies'', JBool True), (''find_file_boundaries'', JBool False),
             (''disassemble_all'', JBool True), (''make_full_disasm_for_code'', JBool True),
             (''named_regs_for_c_funcs'', JBool False), (''symbol_addrs_path'', JList [JStr ''config/symbols.txt'']),
             (''undefined_funcs_auto_path'', JStr ''config/undefined_funcs_auto.txt''),
             (''undefined_syms_auto_path'', JStr ''config/undefined_syms_auto.txt''),
             (''section_order'', JList (map JStr (section_order sections))), (''global_vram_start'', JInt base_vram),
             (''global_vram_end'', JInt (Max (set (map (\<lambda>s. se_addr s + se_size s) sections))))] @
            (case gp of Some g \<Rightarrow> if g \<noteq> 0 then [(''gp_value'', JInt g)] else [] | None \<Rightarrow> [])
      in JObj
           [(''sha1'', JStr (sha1 target)), (''options'', JObj options),
            (''segments'', JList
              [JObj [(''name'', JStr ''main''), (''type'', JStr ''code''), (''start'', JInt 0), (''vram'', JInt base_vram),
                 (''bss_size'', JInt bss_size), (''subalign'', JNull),
                 (''subsegments'', JList (map subsegment_json subsegments))],
               JList [JInt (blen target)]])])"

section \<open>Names\<close>

text \<open>\<open>re.sub(r"[^A-Za-z0-9_]", "_", name)\<close>: one underscore for each other character.\<close>

definition valid_symbol_name :: "string \<Rightarrow> string \<Rightarrow> string" where
  "valid_symbol_name name fallback =
     (let cleaned = concat (map (\<lambda>c. if name_char c then [c] else if continues_char c then [] else ''_'') name);
          cleaned' = (if cleaned = [] \<or> is_digit 10 (hd cleaned) then ''_'' @ cleaned else cleaned)
      in if cleaned' \<noteq> [] then cleaned' else fallback)"

definition AUTOGENERATED_PREFIXES :: "string list" where
  "AUTOGENERATED_PREFIXES = [''func_'', ''D_'', ''L'', ''label_'', ''jtbl_'']"

definition is_autogenerated_symbol_name :: "string \<Rightarrow> bool" where
  "is_autogenerated_symbol_name name =
     (let v = strip name in
      list_ex (\<lambda>p. take (length p) v = p \<and> drop (length p) v \<noteq> [] \<and> list_all (is_digit 16) (drop (length p) v))
        AUTOGENERATED_PREFIXES)"

definition stronger_proposal :: "propagated_symbol \<Rightarrow> propagated_symbol option \<Rightarrow> bool" where
  "stronger_proposal r current =
     (case current of None \<Rightarrow> True
      | Some c \<Rightarrow> pg_confidence r > pg_confidence c \<or>
          (pg_confidence r = pg_confidence c \<and> (pg_name r, pg_source r) < (pg_name c, pg_source c)))"

definition strong_proposals :: "propagated_symbol list \<Rightarrow> (int \<times> propagated_symbol) list" where
  "strong_proposals records =
     fold (\<lambda>r selected.
         if pg_confidence r < 95 / 100 then selected
         else if stronger_proposal r (map_of selected (pg_address r)) then dict_set selected (pg_address r) r
         else selected) records []"

definition type_prefix :: "type_name \<Rightarrow> string option" where
  "type_prefix t =
     (case t of Function_Pointer_Type \<Rightarrow> Some ''FUNCPTR'' | Pointer_Type \<Rightarrow> Some ''PTR''
      | Function_Pointer_Table \<Rightarrow> Some ''FUNCPTRTBL'' | Pointer_Table \<Rightarrow> Some ''PTRTBL'' | _ \<Rightarrow> None)"

definition strong_type_names :: "data_type list \<Rightarrow> (int \<times> string) list" where
  "strong_type_names records =
     map (\<lambda>(a, _, n). (a, n))
       (fold (\<lambda>r selected.
           case type_prefix (dt_type_name r) of
             None \<Rightarrow> selected
           | Some prefix \<Rightarrow>
               if dt_confidence r < 90 / 100 then selected
               else
                 let name = prefix @ ''_'' @ hex_upper 8 (dt_address r) in
                 (case map_of selected (dt_address r) of
                    None \<Rightarrow> dict_set selected (dt_address r) (dt_confidence r, name)
                  | Some (q, n) \<Rightarrow>
                      if dt_confidence r > q \<or> (dt_confidence r = q \<and> name < n)
                      then dict_set selected (dt_address r) (dt_confidence r, name) else selected)) records [])"

section \<open>The symbol file\<close>

text \<open>A line \<open>name = 0xADDRESS;\<close> with what follows.\<close>

record symbol_line =
  sl_name :: string
  sl_address :: int
  sl_suffix :: string

definition line_text :: "symbol_line \<Rightarrow> string" where
  "line_text l = sl_name l @ '' = 0x'' @ hex_upper 8 (sl_address l) @ '';'' @ sl_suffix l"

definition FUNC_SUFFIX :: string where "FUNC_SUFFIX = '' // type:func''"

definition line_addresses :: "symbol_line list \<Rightarrow> int set" where
  "line_addresses ls = set (map sl_address ls)"

definition entry_lines :: "int \<Rightarrow> symbol_line list" where
  "entry_lines entry =
     (if entry \<noteq> 0 then [\<lparr> sl_name = ''_start'', sl_address = entry, sl_suffix = FUNC_SUFFIX \<rparr>] else [])"

definition add_string :: "string_record \<Rightarrow> symbol_line list \<Rightarrow> symbol_line list" where
  "add_string r ls =
     (if sg_address r \<in> line_addresses ls then ls
      else ls @ [\<lparr> sl_name = ''STR_'' @ hex_upper 8 (sg_address r), sl_address = sg_address r,
                   sl_suffix = '' // type:asciz'' \<rparr>])"

definition add_function ::
    "(int \<times> propagated_symbol) list \<Rightarrow> function_record \<Rightarrow> symbol_line list \<Rightarrow> symbol_line list" where
  "add_function proposals f ls =
     (if fn_address f \<in> line_addresses ls then ls
      else
        let raw_name = (case map_of proposals (fn_address f) of
              Some p \<Rightarrow> if is_autogenerated_symbol_name (fn_name f) then pg_name p else fn_name f
            | None \<Rightarrow> fn_name f)
        in ls @ [\<lparr> sl_name = valid_symbol_name raw_name (''func_'' @ hex_upper 8 (fn_address f)),
                   sl_address = fn_address f, sl_suffix = FUNC_SUFFIX \<rparr>])"

definition function_suffix :: "propagated_symbol option \<Rightarrow> string" where
  "function_suffix p = (case p of Some r \<Rightarrow> if pg_kind r = Function then FUNC_SUFFIX else [] | None \<Rightarrow> [])"

definition add_symbol_line ::
    "int set \<Rightarrow> (int \<times> propagated_symbol) list \<Rightarrow> (int \<times> string) list \<Rightarrow> symbol_record \<Rightarrow> symbol_line list \<Rightarrow>
       symbol_line list" where
  "add_symbol_line strings proposals types s ls =
     (if sy_address s \<in> line_addresses ls \<or> sy_address s \<in> strings \<or> sy_kind s \<in> {''label'', ''branchlabel''} then ls
      else
        let proposal = map_of proposals (sy_address s);
            raw_name = (if is_autogenerated_symbol_name (sy_name s)
              then (case proposal of Some p \<Rightarrow> pg_name p
                    | None \<Rightarrow> (case map_of types (sy_address s) of Some n \<Rightarrow> n | None \<Rightarrow> sy_name s))
              else sy_name s)
        in ls @ [\<lparr> sl_name = valid_symbol_name raw_name (''D_'' @ hex_upper 8 (sy_address s)),
                   sl_address = sy_address s, sl_suffix = function_suffix proposal \<rparr>])"

definition add_proposal :: "int set \<Rightarrow> int \<times> propagated_symbol \<Rightarrow> symbol_line list \<Rightarrow> symbol_line list" where
  "add_proposal strings entry ls =
     (case entry of (address, p) \<Rightarrow>
        if address \<in> line_addresses ls \<or> address \<in> strings then ls
        else ls @ [\<lparr> sl_name = valid_symbol_name (pg_name p)
                       ((if pg_kind p = Function then ''func_'' else ''D_'') @ hex_upper 8 address),
                     sl_address = address, sl_suffix = function_suffix (Some p) \<rparr>])"

definition add_type_name :: "int set \<Rightarrow> int \<times> string \<Rightarrow> symbol_line list \<Rightarrow> symbol_line list" where
  "add_type_name strings entry ls =
     (case entry of (address, raw_name) \<Rightarrow>
        if address \<in> line_addresses ls \<or> address \<in> strings then ls
        else ls @ [\<lparr> sl_name = valid_symbol_name raw_name (''D_'' @ hex_upper 8 address), sl_address = address,
                     sl_suffix = [] \<rparr>])"

definition symbol_lines ::
    "int \<Rightarrow> disassembly_result \<Rightarrow> propagated_symbol list \<Rightarrow> data_type list \<Rightarrow> symbol_line list" where
  "symbol_lines entry d propagated data_types =
     (let proposals = strong_proposals propagated; types = strong_type_names data_types;
          strings = set (map sg_address (ds_strings d));
          with_strings = fold add_string (sort_key sg_address (ds_strings d)) (entry_lines entry);
          with_functions = fold (add_function proposals) (sort_key (\<lambda>f. (fn_address f, fn_name f)) (ds_functions d)) with_strings;
          with_symbols = fold (add_symbol_line strings proposals types)
            (sort_key (\<lambda>s. (sy_address s, sy_name s)) (ds_symbols d)) with_functions;
          with_proposals = fold (add_proposal strings) (sort_key (\<lambda>(a, p). (a, pg_name p)) proposals) with_symbols
      in fold (add_type_name strings) (sort_key (\<lambda>t. t) types) with_proposals)"

definition SYMBOLS_HEADER :: string where
  "SYMBOLS_HEADER = ''// Generated by pspdisasm; curate this file as the decompilation progresses.''"

definition render_symbols ::
    "int \<Rightarrow> disassembly_result \<Rightarrow> propagated_symbol list \<Rightarrow> data_type list \<Rightarrow> string" where
  "render_symbols entry d propagated data_types =
     join_with [CHR 0x0A] (SYMBOLS_HEADER # map line_text (symbol_lines entry d propagated data_types)) @ [CHR 0x0A]"

definition dedup_typed_call_edges :: "advanced_result \<Rightarrow> data_typing_result \<Rightarrow> typed_call_edge list" where
  "dedup_typed_call_edges advanced typing =
     (let existing = set (map (\<lambda>e. (ce_source_function e, ce_target_function e, ce_source_address e, ce_target_address e))
            (filter (\<lambda>e. ce_kind e = ''indirect'') (ad_call_edges advanced)))
      in filter (\<lambda>e. (te_source_function e, te_target_function e, te_source_address e, te_target_address e) \<notin> existing)
           (dy_call_edges typing))"

section \<open>The whole project\<close>

record project_artifacts =
  pr_base_vram :: int
  pr_target :: bytes
  pr_splat_yaml :: json
  pr_symbols :: string
  pr_model :: "analyze_warning executable_model"
  pr_disassembly :: disassembly_result
  pr_advanced :: advanced_result
  pr_data_typing :: data_typing_result
  pr_asset_discovery :: asset_discovery_result
  pr_nid_analysis :: "link_warning link_analysis option"

text \<open>
  \<open>link_modules\<close> runs only when NID databases are given; the databases are read by the parameter
  \<open>database\<close>, which fails when one of them cannot be read.
\<close>

definition link_unit_of ::
    "nid_database option option \<Rightarrow> analyze_warning executable_model \<Rightarrow> disassembly_result \<Rightarrow>
       (project_error, link_warning link_analysis option) result" where
  "link_unit_of database m d =
     (case database of
        None \<Rightarrow> Inr None
      | Some None \<Rightarrow> Inl Databases_Rejected
      | Some (Some db) \<Rightarrow>
          (case link_modules [\<lparr> lu_model = m, lu_disassembly = Some d \<rparr>] db of
             Inl e \<Rightarrow> Inl (Nid_Rejected e)
           | Inr analysis \<Rightarrow> Inr (Some analysis)))"

definition artifacts_of ::
    "(bytes \<Rightarrow> string) \<Rightarrow> nid_database option option \<Rightarrow> string \<Rightarrow> elf_image \<Rightarrow> analyze_warning executable_model \<Rightarrow>
       disassembly_result \<Rightarrow> (project_error, project_artifacts) result" where
  "artifacts_of sha1 database source_name elf m d =
     (let advanced = analyze_advanced m d in
      bindE (link_unit_of database m d) (\<lambda>analysis.
      let typing = analyze_data_types m d elf; discovery = analyze_assets m d typing elf in
      bindE (flatten_elf elf) (\<lambda>(base_vram, target, sections).
      let gp = map_option mi_gp_value (xm_module_info m);
          propagated = (case analysis of None \<Rightarrow> [] | Some a \<Rightarrow> la_propagated_symbols a)
      in Inr
        \<lparr> pr_base_vram = base_vram, pr_target = target,
          pr_splat_yaml = splat_config sha1 source_name target base_vram sections gp,
          pr_symbols = render_symbols (eh_entry (el_header elf)) d propagated (dy_data_types typing),
          pr_model = m, pr_disassembly = d, pr_advanced = advanced, pr_data_typing = typing,
          pr_asset_discovery = discovery, pr_nid_analysis = analysis \<rparr>)))"

definition build_project_artifacts ::
    "(string \<Rightarrow> bool) \<Rightarrow> ('c, 'v) engine option \<Rightarrow> (bytes \<Rightarrow> string) \<Rightarrow> nid_database option option \<Rightarrow>
       bytes \<Rightarrow> string \<Rightarrow> int option \<Rightarrow> ('v global_config, project_error, project_artifacts) action" where
  "build_project_artifacts unicode installed sha1 database data source_name load_address =
     bindS (convertS Module_Rejected (liftS (load_module data source_name load_address))) (\<lambda>(elf, m).
     bindS (convertS Engine_Rejected
        (bindS (liftS (load_engines installed)) (\<lambda>eg. spim_analyze unicode eg elf m))) (\<lambda>d.
     liftS (artifacts_of sha1 database source_name elf m d)))"

section \<open>The files of the project\<close>

text \<open>What a file holds: JSON and YAML documents by the value that is printed.\<close>

datatype csv_cell = Cell string | Two_Decimals rat

datatype project_content =
    Binary bytes
  | Text string
  | Csv "csv_cell list list"
  | Splat_Document json
  | Executable_Document "analyze_warning executable_model"
  | Disassembly_Document disassembly_result
  | Advanced_Document advanced_result
  | Typing_Document data_typing_result
  | Discovery_Document asset_discovery_result
  | Functions_Document "function_record list"
  | Symbols_Document "symbol_record list"
  | References_Document "reference_record list"
  | Strings_Document "string_record list"
  | Call_Graph_Document "call_edge list"
  | Jump_Tables_Document "jump_table_record list"
  | Confidence_Document "function_confidence list"
  | Data_Types_Document "data_type list"
  | Typed_References_Document "typed_reference list"
  | Typed_Call_Graph_Document "typed_call_edge list"
  | Assets_Document "asset list"
  | Asset_References_Document "asset_reference list"
  | Nids_Document "nid_resolution list"
  | Propagated_Document "propagated_symbol list"

type_synonym project_files = "(string \<times> project_content) list"

definition assembly_filename :: "string \<Rightarrow> int \<Rightarrow> string set \<Rightarrow> string" where
  "assembly_filename name address used =
     (let cleaned = strip_chars {CHR ''.'', CHR ''_''} (underscore_runs False (dropWhile (\<lambda>c. c = CHR ''.'') name));
          base = (if cleaned = [] then ''section_'' @ hex_upper 8 address else cleaned);
          filename = base @ ''.s''
      in if filename \<in> used then base @ ''_'' @ hex_upper 8 address @ ''.s'' else filename)"

definition write_assembly :: "assembly_section \<Rightarrow> project_files \<times> string set \<Rightarrow> project_files \<times> string set" where
  "write_assembly s st =
     (case st of (files, used) \<Rightarrow>
        let filename = assembly_filename (as_name s) (as_address s) used
        in (files @ [(''asm/'' @ filename, Text (as_assembly s))], insert filename used))"

definition assembly_files :: "assembly_section list \<Rightarrow> project_files" where
  "assembly_files sections = fst (fold write_assembly sections ([], {}))"

definition asset_order :: "asset \<Rightarrow> int \<times> string" where
  "asset_order a = (at_address a, at_format a)"

definition asset_row :: "asset_reference list \<Rightarrow> asset \<Rightarrow> csv_cell list" where
  "asset_row references a =
     [Cell (''0x'' @ hex_upper 8 (at_address a)), Cell (''0x'' @ hex_upper 8 (at_file_offset a)), Cell (at_section a),
      Cell (at_format a), Cell (at_kind a), Cell (case at_size a of None \<Rightarrow> [] | Some n \<Rightarrow> dec_str n),
      Two_Decimals (at_confidence a), Cell (if at_extractable a then ''true'' else ''false''),
      Cell (dec_str (blen (filter (\<lambda>r. ar_asset_address r = at_address a) references))),
      Cell (case at_extension a of None \<Rightarrow> [] | Some e \<Rightarrow> e)]"

definition ASSET_FIELDS :: "string list" where
  "ASSET_FIELDS =
     [''address'', ''file_offset'', ''section'', ''format'', ''kind'', ''size'', ''confidence'', ''extractable'',
      ''reference_count'', ''suggested_extension'']"

definition write_asset_csv :: "asset_discovery_result \<Rightarrow> csv_cell list list" where
  "write_asset_csv discovery =
     map Cell ASSET_FIELDS # map (asset_row (av_references discovery)) (sort_key asset_order (av_assets discovery))"

definition extract_asset :: "bytes \<Rightarrow> asset \<Rightarrow> (string \<times> project_content) option" where
  "extract_asset source_data a =
     (case at_size a of
        None \<Rightarrow> None
      | Some n \<Rightarrow>
          if \<not> at_extractable a \<or> n \<le> 0 \<or> at_file_offset a < 0 \<or> at_file_offset a + n > blen source_data then None
          else
            let extension = (case at_extension a of None \<Rightarrow> ''bin'' | Some e \<Rightarrow> if e = [] then ''bin'' else e)
            in Some (''assets/'' @ hex_upper 8 (at_address a) @ ''_'' @ at_format a @ ''.'' @ extension,
                     Binary (py_slice source_data (at_file_offset a) (at_file_offset a + n))))"

definition extract_assets :: "bytes \<Rightarrow> asset_discovery_result \<Rightarrow> project_files" where
  "extract_assets source_data discovery =
     List.map_filter (extract_asset source_data) (sort_key asset_order (av_assets discovery))"

definition metadata_files :: "project_artifacts \<Rightarrow> project_files" where
  "metadata_files a =
     (let d = pr_disassembly a; adv = pr_advanced a; typing = pr_data_typing a; discovery = pr_asset_discovery a in
      [(''metadata/executable.json'', Executable_Document (pr_model a)),
       (''metadata/disassembly.json'', Disassembly_Document d),
       (''metadata/advanced.json'', Advanced_Document adv),
       (''metadata/data_typing.json'', Typing_Document typing),
       (''metadata/asset_discovery.json'', Discovery_Document discovery),
       (''metadata/functions.json'', Functions_Document (ds_functions d)),
       (''metadata/symbols.json'', Symbols_Document (ds_symbols d)),
       (''metadata/references.json'', References_Document (ds_references d)),
       (''metadata/strings.json'', Strings_Document (ds_strings d)),
       (''metadata/callgraph.json'', Call_Graph_Document (ad_call_edges adv)),
       (''metadata/jump_tables.json'', Jump_Tables_Document (ad_jump_tables adv)),
       (''metadata/function_confidence.json'', Confidence_Document (ad_function_confidence adv)),
       (''metadata/data_types.json'', Data_Types_Document (dy_data_types typing)),
       (''metadata/typed_references.json'', Typed_References_Document (dy_typed_references typing)),
       (''metadata/typed_callgraph.json'', Typed_Call_Graph_Document (dedup_typed_call_edges adv typing)),
       (''metadata/assets.json'', Assets_Document (av_assets discovery)),
       (''metadata/asset_references.json'', Asset_References_Document (av_references discovery))])"

definition link_files :: "project_artifacts \<Rightarrow> project_files" where
  "link_files a =
     (case pr_nid_analysis a of
        None \<Rightarrow> []
      | Some analysis \<Rightarrow>
          [(''metadata/nids.json'', Nids_Document (la_resolutions analysis)),
           (''metadata/propagated_symbols.json'', Propagated_Document (la_propagated_symbols analysis))])"

text \<open>The writes of \<open>generate_project\<close> in order: a later write to a path replaces an earlier one.\<close>

definition project_files :: "bytes \<Rightarrow> project_artifacts \<Rightarrow> project_files" where
  "project_files source_data a =
     [(''target.bin'', Binary (pr_target a)), (''splat.yaml'', Splat_Document (pr_splat_yaml a)),
      (''config/symbols.txt'', Text (pr_symbols a)), (''config/undefined_funcs_auto.txt'', Text []),
      (''config/undefined_syms_auto.txt'', Text [])] @
     metadata_files a @ [(''reports/assets.csv'', Csv (write_asset_csv (pr_asset_discovery a)))] @
     extract_assets source_data (pr_asset_discovery a) @ link_files a @
     assembly_files (ds_assembly_sections (pr_disassembly a))"

record project_result =
  pj_base_vram :: int
  pj_target_size :: int
  pj_files :: project_files

definition generate_project ::
    "(string \<Rightarrow> bool) \<Rightarrow> ('c, 'v) engine option \<Rightarrow> (bytes \<Rightarrow> string) \<Rightarrow> nid_database option option \<Rightarrow>
       bytes \<Rightarrow> string \<Rightarrow> int option \<Rightarrow> ('v global_config, project_error, project_result) action" where
  "generate_project unicode installed sha1 database source_data source_path load_address =
     bindS (build_project_artifacts unicode installed sha1 database source_data source_path load_address) (\<lambda>a.
     returnS \<lparr> pj_base_vram = pr_base_vram a, pj_target_size = blen (pr_target a), pj_files = project_files source_data a \<rparr>)"

section \<open>The flat image holds the sections\<close>

definition apart :: "elf_section \<Rightarrow> elf_section \<Rightarrow> bool" where
  "apart s t \<longleftrightarrow> se_addr s + se_size s \<le> se_addr t \<or> se_addr t + se_size t \<le> se_addr s"

text \<open>
  The file-backed allocated sections of the image, none of which starts before the file or overlaps
  another one.
\<close>

definition sections_apart :: "elf_image \<Rightarrow> bool" where
  "sections_apart elf \<longleftrightarrow>
     (\<forall>s \<in> set (file_backed (allocated_sections elf)). 0 \<le> se_offset s \<and>
        (\<forall>t \<in> set (file_backed (allocated_sections elf)). s = t \<or> apart s t))"

definition section_content :: "elf_image \<Rightarrow> elf_section \<Rightarrow> bytes" where
  "section_content elf s = py_slice (el_raw_data elf) (se_offset s) (se_offset s + se_size s)"

definition flat_image_ok :: "elf_image \<Rightarrow> int \<Rightarrow> bytes \<Rightarrow> bool" where
  "flat_image_ok elf base_vram target \<longleftrightarrow>
     (\<forall>s \<in> set (allocated_sections elf). base_vram \<le> se_addr s) \<and>
     (\<forall>s \<in> set (file_backed (allocated_sections elf)).
        se_addr s - base_vram + se_size s \<le> blen target \<and>
        py_slice target (se_addr s - base_vram) (se_addr s - base_vram + se_size s) = section_content elf s) \<and>
     (\<forall>k < length target.
        (\<forall>s \<in> set (file_backed (allocated_sections elf)).
           \<not> (se_addr s \<le> base_vram + int k \<and> base_vram + int k < se_addr s + se_size s)) \<longrightarrow> target ! k = 0)"

lemma length_put_range:
  "0 \<le> off \<Longrightarrow> off + blen bs \<le> blen data \<Longrightarrow> length (put_range off bs data) = length data"
  by (simp add: put_range_def)

lemma nth_put_range:
  assumes "0 \<le> off" "off + blen bs \<le> blen data" "k < length data"
  shows "put_range off bs data ! k =
    (if off \<le> int k \<and> int k < off + blen bs then bs ! (k - nat off) else data ! k)"
  using assms by (auto simp: put_range_def nth_append)

definition placed :: "elf_image \<Rightarrow> int \<Rightarrow> elf_section list \<Rightarrow> bytes \<Rightarrow> bool" where
  "placed elf base_vram ready target \<longleftrightarrow>
     (\<forall>k < length target.
        (\<forall>s \<in> set ready. se_addr s \<le> base_vram + int k \<and> base_vram + int k < se_addr s + se_size s \<longrightarrow>
           target ! k = section_content elf s ! nat (base_vram + int k - se_addr s)) \<and>
        ((\<forall>s \<in> set ready. \<not> (se_addr s \<le> base_vram + int k \<and> base_vram + int k < se_addr s + se_size s)) \<longrightarrow> target ! k = 0))"

lemma copy_section_placed:
  assumes "copy_section (el_raw_data elf) base_vram s target = Inr target'" "placed elf base_vram ready target"
    and "0 \<le> se_offset s" "0 \<le> se_size s" "base_vram \<le> se_addr s" "se_addr s - base_vram + se_size s \<le> blen target"
    and "\<forall>t \<in> set ready. s = t \<or> apart s t"
  shows "length target' = length target" "placed elf base_vram (s # ready) target'"
proof -
  let ?c = "section_content elf s" and ?off = "se_addr s - base_vram"
  have t: "target' = put_range ?off ?c target" and "se_offset s + se_size s \<le> blen (el_raw_data elf)"
    using assms(1) by (auto simp: copy_section_def section_content_def Let_def split: if_splits)
  then have c: "blen ?c = se_size s" using assms(3,4) by (simp add: section_content_def length_py_slice)
  show len: "length target' = length target" unfolding t using assms c by (intro length_put_range) auto
  have at: "target' ! k = (if se_addr s \<le> base_vram + int k \<and> base_vram + int k < se_addr s + se_size s
      then ?c ! nat (base_vram + int k - se_addr s) else target ! k)" if "k < length target" for k
    unfolding t using assms c that by (subst nth_put_range) (auto intro!: arg_cong [where f = "\<lambda>i. ?c ! i"])
  show "placed elf base_vram (s # ready) target'"
    unfolding placed_def len
  proof (intro allI impI conjI ballI)
    fix k t assume k: "k < length target" and t: "t \<in> set (s # ready)"
      and r: "se_addr t \<le> base_vram + int k \<and> base_vram + int k < se_addr t + se_size t"
    show "target' ! k = section_content elf t ! nat (base_vram + int k - se_addr t)"
    proof (cases "s = t")
      case False
      then have "\<not> (se_addr s \<le> base_vram + int k \<and> base_vram + int k < se_addr s + se_size s)"
        using t r assms(7) by (auto simp: apart_def)
      then show ?thesis using at [OF k] assms(2) k t r False by (auto simp: placed_def)
    qed (use at [OF k] r in simp)
  next
    fix k assume k: "k < length target"
      and none: "\<forall>t \<in> set (s # ready). \<not> (se_addr t \<le> base_vram + int k \<and> base_vram + int k < se_addr t + se_size t)"
    then show "target' ! k = 0" using at [OF k] assms(2) by (auto simp: placed_def)
  qed
qed

lemma copy_sections_placed:
  assumes "foldE (copy_section (el_raw_data elf) base_vram) ss target = Inr target'" "placed elf base_vram ready target"
    and "\<forall>s \<in> set ss. 0 \<le> se_offset s \<and> 0 \<le> se_size s \<and> base_vram \<le> se_addr s \<and> se_addr s - base_vram + se_size s \<le> blen target"
    and "\<forall>s \<in> set ss. \<forall>t \<in> set ss \<union> set ready. s = t \<or> apart s t"
  shows "length target' = length target \<and> placed elf base_vram (rev ss @ ready) target'"
  using assms
proof (induction ss arbitrary: target ready)
  case (Cons s ss)
  obtain mid where mid: "copy_section (el_raw_data elf) base_vram s target = Inr mid"
      "foldE (copy_section (el_raw_data elf) base_vram) ss mid = Inr target'"
    using Cons.prems(1) by (auto simp: bindE_Inr_iff)
  have s: "length mid = length target" "placed elf base_vram (s # ready) mid"
    using copy_section_placed [OF mid(1) Cons.prems(2)] Cons.prems(3,4) by auto
  show ?case using Cons.IH [OF mid(2) s(2)] Cons.prems(3,4) s(1) by auto
qed simp

lemma foldE_copy_in_file:
  "foldE (copy_section raw base_vram) ss target = Inr target' \<Longrightarrow> s \<in> set ss \<Longrightarrow> se_offset s + se_size s \<le> blen raw"
  by (induction ss arbitrary: target) (auto simp: bindE_Inr_iff copy_section_def Let_def split: if_splits)

lemma flatten_elf_ok:
  assumes "flatten_elf elf = Inr (base_vram, target, sections)" "sections_apart elf"
  shows "flat_image_ok elf base_vram target \<and> sections = allocated_sections elf"
proof -
  let ?ss = "allocated_sections elf" and ?fs = "file_backed (allocated_sections elf)"
  let ?top = "Max (set (map (\<lambda>s. se_addr s + se_size s) ?fs))"
  have parts: "?fs \<noteq> []" "base_vram = Min (set (map se_addr ?ss))" "sections = ?ss"
      "foldE (copy_section (el_raw_data elf) base_vram) ?fs (replicate (nat (?top - base_vram)) 0) = Inr target"
      "0 < ?top - base_vram"
    using assms(1)
    by (auto simp: flatten_elf_def Let_def bindE_Inr_iff not_le simp del: Max.bounded_iff Max_less_iff Max_gr_iff split: if_splits)
  have low: "base_vram \<le> se_addr s" if "s \<in> set ?ss" for s
    unfolding parts(2) using that by (intro Min_le) auto
  have fs: "s \<in> set ?ss" if "s \<in> set ?fs" for s using that by (simp add: file_backed_def)
  have high: "se_addr s - base_vram + se_size s \<le> ?top - base_vram" if "s \<in> set ?fs" for s
  proof -
    have "se_addr s + se_size s \<le> ?top" using that by (intro Max_ge) auto
    then show ?thesis by simp
  qed
  have pos: "0 < se_size s" if "s \<in> set ?ss" for s using that by (simp add: allocated_sections_def)
  have placed: "length target = length (replicate (nat (?top - base_vram)) (0 :: byte)) \<and> placed elf base_vram (rev ?fs @ []) target"
    by (rule copy_sections_placed [OF parts(4)])
      (use assms(2) low high pos fs parts(5) in \<open>auto simp: placed_def sections_apart_def less_imp_le\<close>)
  have slice: "py_slice target (se_addr s - base_vram) (se_addr s - base_vram + se_size s) = section_content elf s"
    if "s \<in> set ?fs" for s
  proof (rule nth_equalityI)
    have offsets: "0 \<le> se_offset s" "se_offset s + se_size s \<le> blen (el_raw_data elf)"
      using that assms(2) foldE_copy_in_file [OF parts(4) that] by (auto simp: sections_apart_def)
    have c: "blen (section_content elf s) = se_size s"
      using offsets pos [OF fs [OF that]] by (simp add: section_content_def length_py_slice)
    have r: "0 \<le> se_addr s - base_vram" "se_addr s - base_vram + se_size s \<le> blen target" "0 \<le> se_size s"
      using low [OF fs [OF that]] high [OF that] placed parts(5) pos [OF fs [OF that]] by auto
    show "length (py_slice target (se_addr s - base_vram) (se_addr s - base_vram + se_size s)) = length (section_content elf s)"
      using r c length_py_slice [of "se_addr s - base_vram" "se_addr s - base_vram + se_size s" target] by simp
    fix k assume "k < length (py_slice target (se_addr s - base_vram) (se_addr s - base_vram + se_size s))"
    then have k: "int k < se_size s" using r by (simp add: py_slice_in)
    let ?i = "nat (se_addr s - base_vram) + k"
    have i: "?i < length target" "base_vram + int ?i = se_addr s + int k" using r k by auto
    have "py_slice target (se_addr s - base_vram) (se_addr s - base_vram + se_size s) ! k = target ! ?i"
      using r k by (intro py_slice_nth) auto
    also have "\<dots> = section_content elf s ! k"
      using placed that i k by (auto simp: placed_def)
    finally show "py_slice target (se_addr s - base_vram) (se_addr s - base_vram + se_size s) ! k = section_content elf s ! k" .
  qed
  show ?thesis
    unfolding flat_image_ok_def using parts(3) low slice high placed parts(5) by (auto simp: placed_def)
qed

text \<open>
  Property C35. When the file-backed allocated sections of an image do not overlap, the flat image that
  the project is made of holds each of them, byte for byte, at its distance from the base address,
  no section lies below the base, and every byte that belongs to no section is zero.
\<close>

theorem flat_image_holds_sections:
  "flatten_elf elf = Inr (base_vram, target, sections) \<Longrightarrow> sections_apart elf \<Longrightarrow> flat_image_ok elf base_vram target"
  by (rule flatten_elf_ok [THEN conjunct1])

definition sample_flat_elf :: elf_image where
  "sample_flat_elf =
     \<lparr> el_header = \<lparr> eh_file_type = 2, eh_machine = 8, eh_version = 1, eh_entry = 0, eh_phoff = 0, eh_shoff = 0, eh_flags = 0,
         eh_ehsize = 52, eh_phentsize = 32, eh_phnum = 0, eh_shentsize = 40, eh_shnum = 0, eh_shstrndx = 0 \<rparr>,
       el_endianness = Little, el_program_headers = [],
       el_sections =
         [\<lparr> se_index = 1, se_name = ''.text'', se_type = 1, se_flags = 6, se_addr = 0x100, se_offset = 1, se_size = 2,
            se_link = 0, se_info = 0, se_addralign = 4, se_entsize = 0, se_kind = Executable \<rparr>,
          \<lparr> se_index = 2, se_name = ''.data'', se_type = 1, se_flags = 3, se_addr = 0x104, se_offset = 3, se_size = 1,
            se_link = 0, se_info = 0, se_addralign = 4, se_entsize = 0, se_kind = Writable \<rparr>],
       el_raw_data = [9, 1, 2, 3] \<rparr>"

lemma sample_flat: "flatten_elf sample_flat_elf = Inr (0x100, [1, 2, 0, 0, 3], allocated_sections sample_flat_elf)"
  by code_simp

lemma sample_flat_apart: "sections_apart sample_flat_elf"
  by code_simp

theorem flat_image_holds_sections_witness: "flat_image_ok sample_flat_elf 0x100 [1, 2, 0, 0, 3]"
  by (rule flat_image_holds_sections [OF sample_flat sample_flat_apart])

section \<open>Each address has one symbol\<close>

definition extends_lines :: "(symbol_line list \<Rightarrow> symbol_line list) \<Rightarrow> int \<Rightarrow> bool \<Rightarrow> bool" where
  "extends_lines step a certain \<longleftrightarrow>
     (\<forall>ls. step ls = ls \<and> (certain \<longrightarrow> a \<in> line_addresses ls) \<or>
           (\<exists>l. step ls = ls @ [l] \<and> sl_address l = a \<and> a \<notin> line_addresses ls))"

lemma fold_extends:
  assumes "\<And>x. x \<in> set xs \<Longrightarrow> extends_lines (step x) (addr x) certain" "distinct (map sl_address ls)"
  shows "distinct (map sl_address (fold step xs ls)) \<and> (\<exists>new. fold step xs ls = ls @ new) \<and>
    (certain \<longrightarrow> addr ` set xs \<subseteq> line_addresses (fold step xs ls))"
  using assms
proof (induction xs arbitrary: ls)
  case (Cons x xs)
  have "step x ls = ls \<and> (certain \<longrightarrow> addr x \<in> line_addresses ls) \<or>
      (\<exists>l. step x ls = ls @ [l] \<and> sl_address l = addr x \<and> addr x \<notin> line_addresses ls)"
    using Cons.prems(1) [of x] by (simp add: extends_lines_def)
  then obtain new where x: "step x ls = ls @ new" "distinct (map sl_address (step x ls))"
      "certain \<Longrightarrow> addr x \<in> line_addresses (step x ls)"
    using Cons.prems(2) by (auto simp: line_addresses_def)
  obtain new' where new': "fold step xs (step x ls) = step x ls @ new'"
    using Cons.IH [OF Cons.prems(1) x(2)] by auto
  have "addr x \<in> line_addresses (fold step xs (step x ls))" if certain
    using x(3) [OF that] unfolding new' by (auto simp: line_addresses_def)
  then show ?case using Cons.IH [OF Cons.prems(1) x(2)] new' x(1) by auto
qed simp

lemma steps_extend:
  "extends_lines (add_string r) (sg_address r) True"
  "extends_lines (add_function proposals f) (fn_address f) True"
  "extends_lines (add_symbol_line strings proposals types s) (sy_address s) False"
  "extends_lines (add_proposal strings e) (fst e) False"
  "extends_lines (add_type_name strings t) (fst t) False"
  by (auto simp: extends_lines_def add_string_def add_function_def add_symbol_line_def add_proposal_def add_type_name_def
      Let_def split: prod.split)

definition symbol_file_ok :: "int \<Rightarrow> disassembly_result \<Rightarrow> symbol_line list \<Rightarrow> bool" where
  "symbol_file_ok entry d ls \<longleftrightarrow>
     distinct (map sl_address ls) \<and>
     (entry \<noteq> 0 \<longrightarrow> ls \<noteq> [] \<and> sl_name (hd ls) = ''_start'' \<and> sl_address (hd ls) = entry) \<and>
     (\<forall>f \<in> set (ds_functions d). fn_address f \<in> line_addresses ls) \<and>
     (\<forall>r \<in> set (ds_strings d). sg_address r \<in> line_addresses ls)"

lemma symbol_lines_ok: "symbol_file_ok entry d (symbol_lines entry d propagated data_types)"
proof -
  let ?proposals = "strong_proposals propagated" and ?types = "strong_type_names data_types"
  let ?strings = "set (map sg_address (ds_strings d))"
  define l1 where "l1 = fold add_string (sort_key sg_address (ds_strings d)) (entry_lines entry)"
  define l2 where "l2 = fold (add_function ?proposals) (sort_key (\<lambda>f. (fn_address f, fn_name f)) (ds_functions d)) l1"
  define l3 where "l3 = fold (add_symbol_line ?strings ?proposals ?types) (sort_key (\<lambda>s. (sy_address s, sy_name s)) (ds_symbols d)) l2"
  define l4 where "l4 = fold (add_proposal ?strings) (sort_key (\<lambda>(a, p). (a, pg_name p)) ?proposals) l3"
  define l5 where "l5 = fold (add_type_name ?strings) (sort_key (\<lambda>t. t) ?types) l4"
  have l0: "distinct (map sl_address (entry_lines entry))" by (simp add: entry_lines_def)
  note steps = fold_extends [where addr = sg_address and certain = True] fold_extends [where addr = fn_address and certain = True]
    fold_extends [where addr = sy_address and certain = False] fold_extends [where addr = fst and certain = False]
  have r1: "distinct (map sl_address l1) \<and> (\<exists>new. l1 = entry_lines entry @ new) \<and>
      (True \<longrightarrow> sg_address ` set (sort_key sg_address (ds_strings d)) \<subseteq> line_addresses l1)"
    unfolding l1_def by (rule fold_extends [OF steps_extend(1) l0])
  have r2: "distinct (map sl_address l2) \<and> (\<exists>new. l2 = l1 @ new) \<and>
      (True \<longrightarrow> fn_address ` set (sort_key (\<lambda>f. (fn_address f, fn_name f)) (ds_functions d)) \<subseteq> line_addresses l2)"
    unfolding l2_def using r1 by (intro fold_extends steps_extend) auto
  have r3: "distinct (map sl_address l3) \<and> (\<exists>new. l3 = l2 @ new) \<and> (False \<longrightarrow> sy_address ` set (sort_key (\<lambda>s. (sy_address s, sy_name s)) (ds_symbols d)) \<subseteq> line_addresses l3)"
    unfolding l3_def using r2 by (intro fold_extends steps_extend) auto
  have r4: "distinct (map sl_address l4) \<and> (\<exists>new. l4 = l3 @ new) \<and> (False \<longrightarrow> fst ` set (sort_key (\<lambda>(a, p). (a, pg_name p)) ?proposals) \<subseteq> line_addresses l4)"
    unfolding l4_def using r3 by (intro fold_extends steps_extend) auto
  have r5: "distinct (map sl_address l5) \<and> (\<exists>new. l5 = l4 @ new) \<and> (False \<longrightarrow> fst ` set (sort_key (\<lambda>t. t) ?types) \<subseteq> line_addresses l5)"
    unfolding l5_def using r4 by (intro fold_extends steps_extend) auto
  have lines: "symbol_lines entry d propagated data_types = l5"
    by (simp add: symbol_lines_def Let_def l1_def l2_def l3_def l4_def l5_def)
  obtain n1 n2 n3 where "l1 = entry_lines entry @ n1" "l2 = l1 @ n2" "l5 = l2 @ n3"
    using r1 r2 r3 r4 r5 by auto
  then show ?thesis
    unfolding lines symbol_file_ok_def using r1 r2 r5
    by (auto simp: entry_lines_def line_addresses_def)
qed

text \<open>
  Property C36. The symbol file names every function and every string, starts with the entry point when
  there is one, and never gives one address two names.
\<close>

theorem symbol_file_is_unambiguous: "symbol_file_ok entry d (symbol_lines entry d propagated data_types)"
  by (rule symbol_lines_ok)

text \<open>
  A symbol name is never empty, so the fallback names are never used; names that differ only in
  characters outside the alphabet become equal, also at different addresses.
\<close>

lemma valid_symbol_name_ignores_fallback: "valid_symbol_name name fallback = valid_symbol_name name fallback'"
  by (simp add: valid_symbol_name_def Let_def del: concat_eq_Nil_conv)

lemma symbol_names_collide: "valid_symbol_name ''a.b'' x = valid_symbol_name ''a_b'' y"
  by code_simp

section \<open>The files are the module's\<close>

text \<open>
  The binary files of a project: the flat image, and for every other one an asset found in a section
  of the image, cut out of the file with its whole extent.
\<close>

definition project_grounded :: "elf_image \<Rightarrow> project_result \<Rightarrow> bool" where
  "project_grounded elf p \<longleftrightarrow>
     (\<exists>target sections.
        flatten_elf elf = Inr (pj_base_vram p, target, sections) \<and> pj_target_size p = blen target \<and>
        map_of (rev (pj_files p)) ''target.bin'' = Some (Binary target) \<and>
        (\<forall>(name, content) \<in> set (pj_files p). \<forall>bs. content = Binary bs \<longrightarrow>
           name = ''target.bin'' \<and> bs = target \<or>
           (\<exists>a n. asset_in_section elf a \<and> at_extractable a \<and> at_size a = Some n \<and>
              bs = py_slice (el_raw_data elf) (at_file_offset a) (at_file_offset a + n))))"

lemma write_assembly_files:
  "set (fst (fold write_assembly sections (files, used))) \<subseteq>
     set files \<union> {(''asm/'' @ name, Text t) | name t. True}"
proof (induction sections arbitrary: files used)
  case (Cons s sections)
  show ?case using Cons [of "files @ [(''asm/'' @ assembly_filename (as_name s) (as_address s) used, Text (as_assembly s))]"
      "insert (assembly_filename (as_name s) (as_address s) used) used"]
    by (auto simp: write_assembly_def Let_def)
qed simp

lemma assembly_files_text: "(name, content) \<in> set (assembly_files sections) \<Longrightarrow>
    take 4 name = ''asm/'' \<and> (\<forall>bs. content \<noteq> Binary bs)"
  using write_assembly_files [of sections "[]" "{}"] by (fastforce simp: assembly_files_def)

lemma extract_assets_slices:
  assumes "(name, content) \<in> set (extract_assets data discovery)"
  shows "take 7 name = ''assets/'' \<and> (\<exists>a n. a \<in> set (av_assets discovery) \<and> at_extractable a \<and> at_size a = Some n \<and>
    content = Binary (py_slice data (at_file_offset a) (at_file_offset a + n)))"
proof -
  obtain a where a: "a \<in> set (av_assets discovery)" "extract_asset data a = Some (name, content)"
    using assms by (auto simp: extract_assets_def set_map_filter_member)
  then obtain n where n: "at_size a = Some n" by (auto simp: extract_asset_def split: option.splits)
  with a show ?thesis by (auto simp: extract_asset_def Let_def split: if_splits)
qed

lemma metadata_files_documents:
  "(name, content) \<in> set (metadata_files a @ [(''reports/assets.csv'', Csv rows)] @ link_files a) \<Longrightarrow>
     name \<noteq> ''target.bin'' \<and> (\<forall>bs. content \<noteq> Binary bs)"
  by (auto simp: metadata_files_def link_files_def Let_def split: option.splits)

lemma project_files_binary:
  assumes "(name, content) \<in> set (project_files data a)"
  shows "(name = ''target.bin'' \<longrightarrow> content = Binary (pr_target a)) \<and>
    (\<forall>bs. content = Binary bs \<longrightarrow> name = ''target.bin'' \<or>
       (\<exists>x n. x \<in> set (av_assets (pr_asset_discovery a)) \<and> at_extractable x \<and> at_size x = Some n \<and>
          bs = py_slice data (at_file_offset x) (at_file_offset x + n)))"
proof -
  let ?fixed = "[(''target.bin'', Binary (pr_target a)), (''splat.yaml'', Splat_Document (pr_splat_yaml a)),
      (''config/symbols.txt'', Text (pr_symbols a)), (''config/undefined_funcs_auto.txt'', Text []),
      (''config/undefined_syms_auto.txt'', Text [])]"
  consider (fixed) "(name, content) \<in> set ?fixed"
    | (documents) "(name, content) \<in> set (metadata_files a @
        [(''reports/assets.csv'', Csv (write_asset_csv (pr_asset_discovery a)))] @ link_files a)"
    | (assets) "(name, content) \<in> set (extract_assets data (pr_asset_discovery a))"
    | (assembly) "(name, content) \<in> set (assembly_files (ds_assembly_sections (pr_disassembly a)))"
    using assms unfolding project_files_def set_append by blast
  then show ?thesis
  proof cases
    case fixed
    then show ?thesis by auto
  next
    case documents
    then show ?thesis using metadata_files_documents by blast
  next
    case assets
    then show ?thesis using extract_assets_slices [OF assets] by auto
  next
    case assembly
    then show ?thesis using assembly_files_text [OF assembly] by auto
  qed
qed

lemma project_files_target: "map_of (rev (project_files data a)) ''target.bin'' = Some (Binary (pr_target a))"
proof -
  have member: "(''target.bin'', Binary (pr_target a)) \<in> set (rev (project_files data a))"
    by (simp add: project_files_def)
  then obtain c where c: "map_of (rev (project_files data a)) ''target.bin'' = Some c"
    using weak_map_of_SomeI by fastforce
  then have "(''target.bin'', c) \<in> set (project_files data a)" using map_of_SomeD by fastforce
  with c project_files_binary show ?thesis by auto
qed

lemma generated_parts:
  fixes installed :: "('c, 'v) engine option"
  assumes "fst (generate_project unicode installed sha1 database data path la config) = Inr p"
  obtains elf m d a and eg :: "('c, 'v) engine" where "load_module data path la = Inr (elf, m)"
    "fst (spim_analyze unicode eg elf m config) = Inr d" "artifacts_of sha1 database path elf m d = Inr a"
    "p = \<lparr> pj_base_vram = pr_base_vram a, pj_target_size = blen (pr_target a), pj_files = project_files data a \<rparr>"
proof -
  have run: "fst (bindS (build_project_artifacts unicode installed sha1 database data path la) (\<lambda>a.
     returnS \<lparr> pj_base_vram = pr_base_vram a, pj_target_size = blen (pr_target a), pj_files = project_files data a \<rparr>) config) = Inr p"
    using assms by (simp add: generate_project_def)
  obtain a c1 where a: "build_project_artifacts unicode installed sha1 database data path la config = (Inr a, c1)"
    and p: "p = \<lparr> pj_base_vram = pr_base_vram a, pj_target_size = blen (pr_target a), pj_files = project_files data a \<rparr>"
    using run by (auto simp: bindS_def split: prod.splits sum.splits)
  obtain elf m where lm: "load_module data path la = Inr (elf, m)"
    using a by (cases "load_module data path la") (auto simp: build_project_artifacts_def bindS_def convertS_def)
  obtain eg where eg: "load_engines installed = Inr eg"
    using a lm by (cases "load_engines installed") (auto simp: build_project_artifacts_def bindS_def convertS_def)
  obtain d c2 where d: "spim_analyze unicode eg elf m config = (Inr d, c2)"
    using a lm eg by (auto simp: build_project_artifacts_def bindS_def convertS_def split: prod.splits sum.splits)
  have art: "artifacts_of sha1 database path elf m d = Inr a"
    using a lm eg d by (auto simp: build_project_artifacts_def bindS_def convertS_def split: prod.splits sum.splits)
  have "fst (spim_analyze unicode eg elf m config) = Inr d" using d by simp
  then show thesis by (rule that [OF lm _ art p])
qed

lemma artifacts_parts:
  assumes "artifacts_of sha1 database path elf m d = Inr a"
  shows "pr_disassembly a = d \<and> (\<exists>sections. flatten_elf elf = Inr (pr_base_vram a, pr_target a, sections)) \<and>
    pr_asset_discovery a = analyze_assets m d (analyze_data_types m d elf) elf"
  using assms by (auto simp: artifacts_of_def Let_def bindE_Inr_iff)

lemma load_module_raw: "load_module data path None = Inr (elf, m) \<Longrightarrow> el_raw_data elf = data"
proof -
  assume "load_module data path None = Inr (elf, m)"
  then have "parse_elf32 data = Inr elf" by (auto simp: load_module_def split: sum.splits if_splits)
  then show "el_raw_data elf = data" by (rule parse_elf32_parts)
qed


text \<open>Two sections whose names differ are written to one file.\<close>

lemma assembly_files_collide:
  "map fst (assembly_files
     [\<lparr> as_name = ''a_00000010'', as_address = 0, as_size = 4, as_assembly = ''nop'' \<rparr>,
      \<lparr> as_name = ''a'', as_address = 4, as_size = 4, as_assembly = ''jr'' \<rparr>,
      \<lparr> as_name = ''a'', as_address = 16, as_size = 4, as_assembly = ''lw'' \<rparr>]) =
     [''asm/a_00000010.s'', ''asm/a.s'', ''asm/a_00000010.s'']"
  by code_simp

lemma generates_when_flat:
  assumes "load_module data path la = Inr (elf, m)" "fst (spim_analyze unicode eg elf m config) = Inr d"
    "\<not> isl (flatten_elf elf)"
  shows "\<not> isl (fst (generate_project unicode (Some eg) sha1 None data path la config))"
  using assms
  by (cases "flatten_elf elf")
    (auto simp: generate_project_def build_project_artifacts_def artifacts_of_def link_unit_of_def bindS_def convertS_def
      load_engines_def Let_def split: prod.splits)

definition sample_project :: project_result where
  "sample_project =
     projr (fst (generate_project (\<lambda>c. True) (Some sample_engine) (\<lambda>bs. ''00'') None sample_image_bytes ''a.prx'' None
       \<lparr> gc_endian = 0, gc_abi = 0 \<rparr>))"

lemma sample_project_generated:
  "fst (generate_project (\<lambda>c. True) (Some sample_engine) (\<lambda>bs. ''00'') None sample_image_bytes ''a.prx'' None
     \<lparr> gc_endian = 0, gc_abi = 0 \<rparr>) = Inr sample_project"
proof -
  have "case load_module sample_image_bytes ''a.prx'' None of
      Inr (elf, m) \<Rightarrow>
        \<not> isl (fst (spim_analyze (\<lambda>c. True) sample_engine elf m \<lparr> gc_endian = 0, gc_abi = 0 \<rparr>)) \<and> \<not> isl (flatten_elf elf)
    | Inl _ \<Rightarrow> False" by code_simp
  then obtain elf m where loaded: "load_module sample_image_bytes ''a.prx'' None = Inr (elf, m)"
    and "\<not> isl (fst (spim_analyze (\<lambda>c. True) sample_engine elf m \<lparr> gc_endian = 0, gc_abi = 0 \<rparr>))"
    and flat: "\<not> isl (flatten_elf elf)"
    by (auto split: sum.splits)
  then obtain d where "fst (spim_analyze (\<lambda>c. True) sample_engine elf m \<lparr> gc_endian = 0, gc_abi = 0 \<rparr>) = Inr d"
    by (cases "fst (spim_analyze (\<lambda>c. True) sample_engine elf m \<lparr> gc_endian = 0, gc_abi = 0 \<rparr>)") auto
  from generates_when_flat [OF loaded this flat] have "\<not> isl (fst (generate_project (\<lambda>c. True) (Some sample_engine) (\<lambda>bs. ''00'') None
      sample_image_bytes ''a.prx'' None \<lparr> gc_endian = 0, gc_abi = 0 \<rparr>))" .
  then show ?thesis by (simp add: sample_project_def)
qed


end
