(* ===== verification/Recovery.thy ===== *)
theory Recovery
  imports Analyzer Selection
begin

text \<open>
  \<open>recovery.py\<close>: recovering an encrypted \<open>~PSP\<close> container with a backend, and the gate its output has
  to pass. SHA-256, the processes and the file system are parameters.
\<close>

definition DEFAULT_MAX_RECOVERED_BYTES :: int where "DEFAULT_MAX_RECOVERED_BYTES = 64 * 1024 * 1024"
definition DEFAULT_RECOVERY_THRESHOLD :: rat where "DEFAULT_RECOVERY_THRESHOLD = 1 / 2"
definition MAX_DIAGNOSTIC_CHARS :: nat where "MAX_DIAGNOSTIC_CHARS = 2000"

datatype recovery_outcome =
    No_Backend_Accepted | Backend_Unavailable | Backend_Failed | Output_Too_Large | Output_Unchanged
  | Output_Invalid | Output_Still_Encrypted | Verified

fun outcome_text :: "recovery_outcome \<Rightarrow> string" where
  "outcome_text No_Backend_Accepted = ''no_backend_accepted''"
| "outcome_text Backend_Unavailable = ''backend_unavailable''"
| "outcome_text Backend_Failed = ''backend_failed''"
| "outcome_text Output_Too_Large = ''output_too_large''"
| "outcome_text Output_Unchanged = ''output_unchanged''"
| "outcome_text Output_Invalid = ''output_invalid''"
| "outcome_text Output_Still_Encrypted = ''output_still_encrypted''"
| "outcome_text Verified = ''verified''"

record recovered_payload =
  py_data :: bytes
  py_backend_version :: "string option"
  py_diagnostics :: "string list"

text \<open>
  What a backend may raise: the project's four recovery errors, with the provenance it attached, or
  any other exception.
\<close>

datatype error_class = Unavailable_Error | Recovery_Failure | Verification_Failure | Too_Large_Failure

datatype backend_error = Typed_Error error_class "recovery_provenance option" | Other_Exception string

record recovery_backend =
  rb_name :: string
  rb_probe :: "container_header \<Rightarrow> bytes \<Rightarrow> probe_outcome"
  rb_recover :: "bytes \<Rightarrow> (backend_error, recovered_payload) result"

record recovery_result =
  rr_model :: "analyze_warning executable_model"
  rr_data :: bytes
  rr_provenance :: recovery_provenance

text \<open>
  What \<open>recover_bytes\<close> raises: the parse error of the input's own header, a recovery error with its
  provenance, or an exception of the analyzer that is no \<open>ParseError\<close>.
\<close>

datatype recovery_error =
    Input_Not_Container container_error
  | Recovery_Error error_class "recovery_provenance option"
  | Uncaught_Exception

text \<open>The text of a probe warning; how a float prints is a parameter.\<close>

definition probe_warning_text :: "(score_value \<Rightarrow> string) \<Rightarrow> probe_warning \<Rightarrow> string" where
  "probe_warning_text show_score w =
     (case w of
        Probe_Failed name exc \<Rightarrow> ''Recovery backend '' @ name @ '' probe failed: '' @ exc
      | Invalid_Confidence name v \<Rightarrow> ''Recovery backend '' @ name @ '' returned invalid probe confidence '' @ show_score v)"

definition select_recovery_backend ::
    "container_header \<Rightarrow> bytes \<Rightarrow> recovery_backend list \<Rightarrow> rat \<Rightarrow> (nat \<times> rat) option \<times> probe_warning list" where
  "select_recovery_backend header data backends threshold =
     select_probed threshold (map (\<lambda>b. (rb_name b, rb_probe b header data)) backends)"

definition provenance_of ::
    "recovery_outcome \<Rightarrow> string \<Rightarrow> string option \<Rightarrow> string option \<Rightarrow> string option \<Rightarrow> string option \<Rightarrow> string list \<Rightarrow>
       recovery_provenance" where
  "provenance_of outcome original recovered backend version verification warnings =
     \<lparr> rp_outcome = outcome_text outcome, rp_original_sha256 = Some original, rp_recovered_sha256 = recovered,
       rp_recovery_backend = backend, rp_backend_version = version, rp_verification = verification,
       rp_warnings = warnings \<rparr>"

fun class_outcome :: "error_class \<Rightarrow> recovery_outcome" where
  "class_outcome Too_Large_Failure = Output_Too_Large"
| "class_outcome Verification_Failure = Output_Invalid"
| "class_outcome Unavailable_Error = Backend_Unavailable"
| "class_outcome Recovery_Failure = Backend_Failed"

text \<open>\<open>_ensure_provenance\<close>: the provenance a backend attached is kept.\<close>

definition ensure_provenance ::
    "recovery_provenance option \<Rightarrow> recovery_outcome \<Rightarrow> string \<Rightarrow> string \<Rightarrow> string list \<Rightarrow> recovery_provenance" where
  "ensure_provenance attached outcome original backend warnings =
     (case attached of Some p \<Rightarrow> p | None \<Rightarrow> provenance_of outcome original None (Some backend) None None warnings)"

definition backend_failure :: "backend_error \<Rightarrow> string \<Rightarrow> string \<Rightarrow> string list \<Rightarrow> recovery_error" where
  "backend_failure e original backend warnings =
     (case e of
        Typed_Error c attached \<Rightarrow>
          Recovery_Error c (Some (ensure_provenance attached (class_outcome c) original backend warnings))
      | Other_Exception _ \<Rightarrow>
          Recovery_Error Recovery_Failure (Some (ensure_provenance None Backend_Failed original backend warnings)))"

text \<open>The gate behind every backend.\<close>

definition verify_payload ::
    "(bytes \<Rightarrow> string) \<Rightarrow> int \<Rightarrow> string \<Rightarrow> string \<Rightarrow> string list \<Rightarrow> recovered_payload \<Rightarrow> (recovery_error, recovery_result) result" where
  "verify_payload sha256 max_output_bytes original backend warnings p =
     (let all_warnings = warnings @ py_diagnostics p;
          recovered = sha256 (py_data p);
          refuse = (\<lambda>c outcome hash. Inl (Recovery_Error c (Some
            (provenance_of outcome original hash (Some backend) (py_backend_version p) None all_warnings))))
      in if blen (py_data p) > max_output_bytes then refuse Too_Large_Failure Output_Too_Large None
         else if recovered = original then refuse Verification_Failure Output_Unchanged (Some recovered)
         else case detect_input (py_data p) of
           Inl _ \<Rightarrow> refuse Verification_Failure Output_Invalid (Some recovered)
         | Inr kind \<Rightarrow>
             if kind = Psp_Container_Input then refuse Verification_Failure Output_Still_Encrypted (Some recovered)
             else case analyze_bytes (py_data p) ''<recovered>'' of
               Inl Analyze_struct_error \<Rightarrow> Inl Uncaught_Exception
             | Inl _ \<Rightarrow> refuse Verification_Failure Output_Invalid (Some recovered)
             | Inr model \<Rightarrow>
                 if xm_needs_decryption model \<or> xm_elf_header model = None
                 then refuse Verification_Failure Output_Invalid (Some recovered)
                 else let provenance = provenance_of Verified original (Some recovered) (Some backend)
                            (py_backend_version p) (Some ''valid_elf32_psp'') all_warnings
                      in Inr \<lparr> rr_model = model\<lparr>xm_recovery := Some provenance\<rparr>, rr_data = py_data p,
                               rr_provenance = provenance \<rparr>)"

definition recover_bytes ::
    "(bytes \<Rightarrow> string) \<Rightarrow> (score_value \<Rightarrow> string) \<Rightarrow> recovery_backend list \<Rightarrow> int \<Rightarrow> bytes \<Rightarrow>
       (recovery_error, recovery_result) result" where
  "recover_bytes sha256 show_score backends max_output_bytes data =
     (case parse_psp_container_header data of
        Inl e \<Rightarrow> Inl (Input_Not_Container e)
      | Inr header \<Rightarrow>
          let original = sha256 data;
              (choice, probe_warnings) = select_recovery_backend header data backends DEFAULT_RECOVERY_THRESHOLD;
              warnings = map (probe_warning_text show_score) probe_warnings
          in case choice of
               None \<Rightarrow> Inl (Recovery_Error Unavailable_Error
                 (Some (provenance_of No_Backend_Accepted original None None None None warnings)))
             | Some (i, _) \<Rightarrow>
                 let backend = backends ! i in
                 (case rb_recover backend data of
                    Inl e \<Rightarrow> Inl (backend_failure e original (rb_name backend) warnings)
                  | Inr p \<Rightarrow> verify_payload sha256 max_output_bytes original (rb_name backend) warnings p))"

section \<open>The external decryptor\<close>

text \<open>Diagnostic output of a process: decoded, stripped and cut, empty when there is none.\<close>

definition bounded_diagnostic :: "bytes \<Rightarrow> string" where
  "bounded_diagnostic raw =
     (if raw = [] then []
      else let text = strip (utf8_replace raw) in
        if text_length text > MAX_DIAGNOSTIC_CHARS then take_text MAX_DIAGNOSTIC_CHARS text @ ''...'' else text)"

text \<open>A file that is to be read: its size cannot be found, it cannot be read, or its content.\<close>

datatype file_read = Stat_Failed | Read_Failed int | File_Content bytes

definition read_bounded_file :: "file_read \<Rightarrow> int \<Rightarrow> (backend_error, bytes) result" where
  "read_bounded_file f max_bytes =
     (case f of
        Stat_Failed \<Rightarrow> Inl (Typed_Error Recovery_Failure None)
      | Read_Failed sz \<Rightarrow> Inl (Typed_Error (if sz > max_bytes then Too_Large_Failure else Recovery_Failure) None)
      | File_Content bs \<Rightarrow> if blen bs > max_bytes then Inl (Typed_Error Too_Large_Failure None) else Inr bs)"

record recovery_host =
  rh_environ :: "string \<Rightarrow> string option"
  rh_which :: "string \<Rightarrow> string option"
  rh_exists :: "string \<Rightarrow> bool"
  rh_is_dir :: "string \<Rightarrow> bool"
  rh_is_symlink :: "string \<Rightarrow> bool"
  rh_is_file :: "string \<Rightarrow> bool"
  rh_read :: "string \<Rightarrow> file_read"
  rh_resolve :: "string \<Rightarrow> string"
  rh_python :: string
  rh_toml :: "string \<Rightarrow> (string \<times> json) list option"

definition recovery_command_for_path :: "recovery_host \<Rightarrow> string \<Rightarrow> (backend_error, string list) result" where
  "recovery_command_for_path h p =
     (if \<not> rh_exists h p \<or> rh_is_dir h p then Inl (Typed_Error Unavailable_Error None)
      else if casefold (path_suffix p) = ''.py'' then Inr [rh_python h, p]
      else Inr [p])"

definition resolve_recovery_backend_command :: "recovery_host \<Rightarrow> string option \<Rightarrow> (backend_error, string list) result" where
  "resolve_recovery_backend_command h explicit =
     (case explicit of
        Some p \<Rightarrow> recovery_command_for_path h p
      | None \<Rightarrow>
          (case rh_environ h ''PSPDISASM_RECOVERY_BACKEND'' of
             Some p \<Rightarrow>
               if p \<noteq> [] then recovery_command_for_path h p
               else from_option (Typed_Error Unavailable_Error None) (map_option (\<lambda>e. [e]) (rh_which h ''psp-recover''))
           | None \<Rightarrow> from_option (Typed_Error Unavailable_Error None) (map_option (\<lambda>e. [e]) (rh_which h ''psp-recover''))))"

text \<open>A project table that is no table is an attribute error of the lookup, not a missing version.\<close>

definition recovery_backend_version :: "recovery_host \<Rightarrow> string list \<Rightarrow> (backend_error, string option) result" where
  "recovery_backend_version h command =
     (if command = [] then Inr None
      else case rh_toml h (path_join (path_parent (last command)) ''pyproject.toml'') of
        None \<Rightarrow> Inr None
      | Some payload \<Rightarrow>
          (case map_of payload ''project'' of
             None \<Rightarrow> Inr None
           | Some (JObj project) \<Rightarrow> Inr (json_str (json_get project ''version''))
           | Some _ \<Rightarrow> Inl (Other_Exception ''AttributeError'')))"

record process_result =
  pr_end :: process_end
  pr_stdout :: bytes
  pr_stderr :: bytes
  pr_output :: "file_read option"

text \<open>
  One run of the tool on the input in a fresh directory; the result says how it ended and what it
  left at the output path.
\<close>

definition external_recover ::
    "recovery_host \<Rightarrow> (string list \<Rightarrow> bytes \<Rightarrow> process_result) \<Rightarrow> string list \<Rightarrow> int \<Rightarrow> bytes \<Rightarrow>
       (backend_error, recovered_payload) result" where
  "external_recover h run command max_output_bytes data =
     (let r = run command data in
      case pr_end r of
        Not_Started \<Rightarrow> Inl (Typed_Error Unavailable_Error None)
      | Timed_Out \<Rightarrow> Inl (Typed_Error Recovery_Failure None)
      | Exited code \<Rightarrow>
          if code \<noteq> 0 then Inl (Typed_Error Recovery_Failure None)
          else case pr_output r of
            None \<Rightarrow> Inl (Typed_Error Recovery_Failure None)
          | Some f \<Rightarrow>
              bindE (read_bounded_file f max_output_bytes) (\<lambda>recovered.
              let text = bounded_diagnostic (pr_stderr r) in
              bindE (recovery_backend_version h command) (\<lambda>version.
              Inr \<lparr> py_data = recovered, py_backend_version = version,
                    py_diagnostics = (if text \<noteq> [] then [''recovery backend wrote diagnostics to stderr: '' @ text] else []) \<rparr>)))"

definition external_backend ::
    "recovery_host \<Rightarrow> (string list \<Rightarrow> bytes \<Rightarrow> process_result) \<Rightarrow> string list \<Rightarrow> int \<Rightarrow> string option \<Rightarrow> recovery_backend" where
  "external_backend h run command max_output_bytes name =
     \<lparr> rb_name = (case name of Some (c # cs) \<Rightarrow> c # cs | _ \<Rightarrow> ''external:'' @ join_with '' '' command),
       rb_probe = (\<lambda>_ _. Probe_Scored (Finite_Score 1)),
       rb_recover = external_recover h run command max_output_bytes \<rparr>"

section \<open>Prebuilt dumps\<close>

record prebuilt_entry =
  pe_original_sha256 :: string
  pe_recovered_sha256 :: string
  pe_path :: string

definition unavailable :: backend_error where
  "unavailable = Typed_Error Unavailable_Error None"

text \<open>A path of the manifest: relative, without \<open>..\<close>, no link itself and inside the directory once resolved.\<close>

definition inside_dir :: "string \<Rightarrow> string \<Rightarrow> bool" where
  "inside_dir target dir \<longleftrightarrow> relative_to target dir \<noteq> None"

definition safe_manifest_target :: "recovery_host \<Rightarrow> string \<Rightarrow> string \<Rightarrow> (backend_error, string) result" where
  "safe_manifest_target h dir relative =
     (let pure = map (\<lambda>c. if c = CHR 0x5C then CHR ''/'' else c) relative;
          base = rh_resolve h dir;
          literal = path_join base (join_with ''/'' (path_parts pure));
          target = rh_resolve h literal
      in if relative = [] \<or> path_escapes pure then Inl unavailable
         else if rh_is_symlink h literal then Inl unavailable
         else if \<not> inside_dir target base then Inl unavailable
         else Inr target)"

definition load_manifest_entry ::
    "recovery_host \<Rightarrow> (json \<Rightarrow> string) \<Rightarrow> string \<Rightarrow> json \<Rightarrow> (string \<times> prebuilt_entry) list \<Rightarrow>
       (backend_error, (string \<times> prebuilt_entry) list) result" where
  "load_manifest_entry h to_str dir item entries =
     bindE (from_option unavailable (json_obj item)) (\<lambda>d.
     bindE (json_key unavailable d ''original_sha256'') (\<lambda>jo.
     bindE (json_key unavailable d ''recovered_sha256'') (\<lambda>jr.
     bindE (json_key unavailable d ''path'') (\<lambda>jp.
     let original = casefold (to_str jo) in
     bindE (safe_manifest_target h dir (to_str jp)) (\<lambda>resolved.
     if original \<in> fst ` set entries then Inl unavailable
     else Inr (entries @ [(original,
            \<lparr> pe_original_sha256 = original, pe_recovered_sha256 = casefold (to_str jr), pe_path = resolved \<rparr>)]))))))"

definition load_prebuilt_manifest ::
    "recovery_host \<Rightarrow> (json \<Rightarrow> string) \<Rightarrow> string \<Rightarrow> json_file \<Rightarrow> (backend_error, (string \<times> prebuilt_entry) list) result" where
  "load_prebuilt_manifest h to_str manifest_path f =
     (case f of
        Undecodable_File \<Rightarrow> Inl (Other_Exception ''UnicodeDecodeError'')
      | Json_File payload \<Rightarrow>
          bindE (from_option unavailable (json_list payload)) (\<lambda>items.
          foldE (load_manifest_entry h to_str (path_parent (rh_resolve h manifest_path))) items [])
      | _ \<Rightarrow> Inl unavailable)"

definition prebuilt_recover ::
    "(bytes \<Rightarrow> string) \<Rightarrow> recovery_host \<Rightarrow> (string \<times> prebuilt_entry) list \<Rightarrow> int \<Rightarrow> bytes \<Rightarrow>
       (backend_error, recovered_payload) result" where
  "prebuilt_recover sha256 h entries max_output_bytes data =
     (case map_of entries (sha256 data) of
        None \<Rightarrow> Inl (Typed_Error Recovery_Failure None)
      | Some entry \<Rightarrow>
          if rh_is_symlink h (pe_path entry) \<or> \<not> rh_is_file h (pe_path entry) then Inl (Typed_Error Recovery_Failure None)
          else bindE (read_bounded_file (rh_read h (pe_path entry)) max_output_bytes) (\<lambda>recovered.
               if sha256 recovered \<noteq> pe_recovered_sha256 entry then Inl (Typed_Error Verification_Failure None)
               else Inr \<lparr> py_data = recovered, py_backend_version = None, py_diagnostics = [] \<rparr>))"

definition prebuilt_backend ::
    "(bytes \<Rightarrow> string) \<Rightarrow> recovery_host \<Rightarrow> string \<Rightarrow> bytes \<Rightarrow> (string \<times> prebuilt_entry) list \<Rightarrow> int \<Rightarrow> recovery_backend" where
  "prebuilt_backend sha256 h manifest_path manifest entries max_output_bytes =
     \<lparr> rb_name = ''prebuilt-dump:'' @ manifest_path @ '':'' @ take 12 (sha256 manifest),
       rb_probe = (\<lambda>_ data. Probe_Scored (Finite_Score (if sha256 data \<in> fst ` set entries then 1 else 0))),
       rb_recover = prebuilt_recover sha256 h entries max_output_bytes \<rparr>"


section \<open>Only verified output is returned\<close>

definition recovered_ok ::
    "(bytes \<Rightarrow> string) \<Rightarrow> recovery_backend list \<Rightarrow> int \<Rightarrow> bytes \<Rightarrow> recovery_result \<Rightarrow> bool" where
  "recovered_ok sha256 backends max_output_bytes data res \<longleftrightarrow>
     (\<exists>h. parse_psp_container_header data = Inr h) \<and>
     blen (rr_data res) \<le> max_output_bytes \<and>
     sha256 (rr_data res) \<noteq> sha256 data \<and>
     (\<exists>elf. parse_elf32 (rr_data res) = Inr elf \<and> xm_elf_header (rr_model res) = Some (el_header elf)) \<and>
     \<not> xm_needs_decryption (rr_model res) \<and>
     xm_recovery (rr_model res) = Some (rr_provenance res) \<and>
     (\<exists>backend \<in> set backends. \<exists>p.
        rb_recover backend data = Inr p \<and> py_data p = rr_data res \<and>
        rp_recovery_backend (rr_provenance res) = Some (rb_name backend)) \<and>
     rp_outcome (rr_provenance res) = ''verified'' \<and>
     rp_original_sha256 (rr_provenance res) = Some (sha256 data) \<and>
     rp_recovered_sha256 (rr_provenance res) = Some (sha256 (rr_data res))"

lemma selected_backend:
  assumes "fst (select_recovery_backend header data backends threshold) = Some (i, q)"
  shows "i < length backends" "rb_probe (backends ! i) header data = Probe_Scored (Finite_Score q)" "threshold \<le> q"
  using select_probed_best [of threshold "map (\<lambda>b. (rb_name b, rb_probe b header data)) backends"] assms
  by (auto simp: select_recovery_backend_def is_selection_def contender_def)

lemma analyze_recovered:
  assumes "detect_input data = Inr Elf32_Input" "analyze_bytes data nm = Inr m"
  shows "\<not> xm_needs_decryption m" "\<exists>elf. parse_elf32 data = Inr elf \<and> xm_elf_header m = Some (el_header elf)"
  using analyze_bytes_outcome [of data nm] assms by (auto split: sum.splits)

lemma verify_payload_Inr:
  assumes "verify_payload sha256 max_bytes original backend warnings p = Inr res"
  obtains m elf provenance where
    "blen (py_data p) \<le> max_bytes" "sha256 (py_data p) \<noteq> original" "parse_elf32 (py_data p) = Inr elf"
    "\<not> xm_needs_decryption m" "xm_elf_header m = Some (el_header elf)"
    "res = \<lparr> rr_model = m\<lparr>xm_recovery := Some provenance\<rparr>, rr_data = py_data p, rr_provenance = provenance \<rparr>"
    "provenance = provenance_of Verified original (Some (sha256 (py_data p))) (Some backend) (py_backend_version p)
       (Some ''valid_elf32_psp'') (warnings @ py_diagnostics p)"
proof -
  obtain kind where kind: "detect_input (py_data p) = Inr kind" "kind = Elf32_Input"
    using assms by (cases "detect_input (py_data p)"; cases "projr (detect_input (py_data p))")
      (auto simp: verify_payload_def Let_def split: if_splits)
  obtain m where m: "analyze_bytes (py_data p) ''<recovered>'' = Inr m"
    using assms kind by (cases "analyze_bytes (py_data p) ''<recovered>''")
      (auto simp: verify_payload_def Let_def split: if_splits analyze_error.splits)
  obtain elf where elf: "parse_elf32 (py_data p) = Inr elf" "xm_elf_header m = Some (el_header elf)" "\<not> xm_needs_decryption m"
    using analyze_recovered [of "py_data p"] kind m by blast
  show thesis
    by (rule that [of elf m]) (use assms kind m elf in \<open>auto simp: verify_payload_def Let_def split: if_splits\<close>)
qed

lemma recover_bytes_verified:
  assumes "recover_bytes sha256 show_score backends max_bytes data = Inr res"
  shows "recovered_ok sha256 backends max_bytes data res"
proof -
  obtain header where header: "parse_psp_container_header data = Inr header"
    using assms by (cases "parse_psp_container_header data") (auto simp: recover_bytes_def)
  let ?sel = "select_recovery_backend header data backends DEFAULT_RECOVERY_THRESHOLD"
  obtain i q where i: "fst ?sel = Some (i, q)"
    using assms header by (cases "fst ?sel") (auto simp: recover_bytes_def Let_def split: prod.splits)
  let ?b = "backends ! i" and ?w = "map (probe_warning_text show_score) (snd ?sel)"
  obtain p where p: "rb_recover ?b data = Inr p" "verify_payload sha256 max_bytes (sha256 data) (rb_name ?b) ?w p = Inr res"
    using assms header i
    by (cases "rb_recover ?b data") (auto simp: recover_bytes_def Let_def split: prod.splits)
  have "?b \<in> set backends" using selected_backend(1) [OF i] by simp
  from p(2) show ?thesis
    by (rule verify_payload_Inr) (use header p(1) \<open>?b \<in> set backends\<close> in \<open>auto simp: recovered_ok_def provenance_of_def\<close>)
qed

text \<open>
  A failed recovery is the parse error of the input's own header, or one of the typed errors with a
  provenance; no exception of the analyzer gets through.
\<close>

definition failure_is_typed :: "bytes \<Rightarrow> recovery_error \<Rightarrow> bool" where
  "failure_is_typed data e \<longleftrightarrow>
     (case e of
        Input_Not_Container err \<Rightarrow> parse_psp_container_header data = Inl err
      | Recovery_Error _ attached \<Rightarrow> attached \<noteq> None
      | Uncaught_Exception \<Rightarrow> False)"

lemma verify_payload_Inl:
  assumes "verify_payload sha256 max_bytes original backend warnings p = Inl e"
  shows "\<exists>c a. e = Recovery_Error c (Some a)"
proof -
  have "analyze_bytes (py_data p) nm \<noteq> Inl Analyze_struct_error" for nm
    using analyze_bytes_outcome [of "py_data p" nm] by auto
  then show ?thesis
    using assms by (auto simp: verify_payload_def Let_def split: if_splits sum.splits analyze_error.splits)
qed

lemma recover_bytes_failure:
  "recover_bytes sha256 show_score backends max_bytes data = Inl e \<Longrightarrow> failure_is_typed data e"
  by (auto simp: recover_bytes_def backend_failure_def failure_is_typed_def Let_def
      split: sum.splits option.splits prod.splits backend_error.splits dest!: verify_payload_Inl)

text \<open>
  Property C6. Recovery returns only verified output: the input was a container, a configured backend
  produced the data, they are within the size limit, have another hash than the input and parse as
  an ELF file, whose header is the returned model's; the model carries the provenance, which names
  the backend and binds the two hashes.
\<close>

theorem recovery_returns_verified_output:
  "recover_bytes sha256 show_score backends max_bytes data = Inr res \<Longrightarrow> recovered_ok sha256 backends max_bytes data res"
  by (rule recover_bytes_verified)

definition sample_container :: bytes where
  "sample_container = str_bytes ''~PSP'' @ replicate 400 0"

definition sample_backend :: recovery_backend where
  "sample_backend =
     \<lparr> rb_name = ''tool'', rb_probe = (\<lambda>_ _. Probe_Scored (Finite_Score 1)),
       rb_recover = (\<lambda>_. Inr \<lparr> py_data = sample_elf_bytes, py_backend_version = None, py_diagnostics = [] \<rparr>) \<rparr>"

definition sample_recovery :: "(recovery_error, recovery_result) result" where
  "sample_recovery = recover_bytes (\<lambda>bs. map byte_char (take 1 bs)) (\<lambda>_. []) [sample_backend] 1000 sample_container"

lemma sample_recovery_succeeds: "\<not> isl sample_recovery"
  by code_simp

theorem recovery_returns_verified_output_witness:
  "recovered_ok (\<lambda>bs. map byte_char (take 1 bs)) [sample_backend] 1000 sample_container (projr sample_recovery)"
  by (rule recovery_returns_verified_output [where show_score = "\<lambda>_. []"])
    (use sample_recovery_succeeds in \<open>simp add: sample_recovery_def split: sum.splits\<close>)



text \<open>A prebuilt dump is handed over only with the hash its manifest binds to the input.\<close>

lemma prebuilt_recover_hash:
  "prebuilt_recover sha256 h entries max_bytes data = Inr p \<Longrightarrow>
     \<exists>entry. map_of entries (sha256 data) = Some entry \<and> sha256 (py_data p) = pe_recovered_sha256 entry \<and>
       blen (py_data p) \<le> max_bytes"
  by (auto simp: prebuilt_recover_def bindE_Inr_iff read_bounded_file_def split: option.splits if_splits file_read.splits)

text \<open>The last check of the gate never refuses: what parsed as an ELF file is directly analyzable.\<close>

lemma analyzable_check_redundant:
  "detect_input data = Inr Elf32_Input \<Longrightarrow> analyze_bytes data nm = Inr m \<Longrightarrow>
     \<not> (xm_needs_decryption m \<or> xm_elf_header m = None)"
  using analyze_recovered [of data nm m] by auto

end
