(* ===== verification/Matcher.thy ===== *)
theory Matcher
  imports Host_Model Elf_Parser
begin

text \<open>
  \<open>matcher.py\<close>: comparing a recompiled function with the original. The function metadata comes
  from a JSON file; the original words are written as a relocatable ELF object; the asm-differ
  backend, the build command and the compiler's object are the environment.
\<close>

record match_instruction =
  mn_address :: int
  mn_word :: int
  mn_text :: string
  mn_valid :: bool
  mn_implemented :: bool

record match_function =
  mf_name :: string
  mf_address :: int
  mf_size :: int
  mf_section :: string
  mf_instruction_count :: int
  mf_instructions :: "match_instruction list"

datatype match_error =
    Metadata_Missing
  | Metadata_Invalid
  | Metadata_Undecodable
  | Metadata_Not_List
  | Function_Not_Object nat
  | Function_Missing_Key nat string
  | Not_An_Integer string
  | Function_Text_Invalid nat
  | Instructions_Not_List nat
  | Instruction_Not_Object nat string
  | Instruction_Missing_Key nat string
  | Instruction_Invalid nat string
  | Word_Out_Of_Range nat string
  | Instruction_Count_Differs string int nat
  | Ambiguous_Name string
  | Ambiguous_Address int
  | Function_Not_Found string
  | No_Instruction_Words string
  | Not_Contiguous string nat int int
  | Name_Contains_Nul
  | Pack_Error
  | Invalid_Timeout
  | Empty_Section
  | Empty_Build_Command
  | Build_Timed_Out
  | Build_Not_Started
  | Build_Failed int
  | Candidate_Missing string
  | Reference_Missing string
  | Backend_Missing
  | Objdump_Missing
  | Tool_Path_Missing string
  | Tool_Path_Directory string
  | Build_Command_Malformed
  | Version_Not_Table
  | Write_Failed string
  | Differ_Timed_Out
  | Differ_Unavailable
  | Differ_Failed int
  | Differ_Not_Json
  | Differ_Not_Object
  | Score_Missing
  | Max_Score_Missing
  | Rows_Missing
  | Row_Not_Object

section \<open>Function metadata\<close>

definition require_int :: "string \<Rightarrow> json \<Rightarrow> (match_error, int) result" where
  "require_int label v = from_option (Not_An_Integer label) (strict_int v)"

definition load_instruction :: "string \<Rightarrow> nat \<Rightarrow> json \<Rightarrow> (match_error, match_instruction) result" where
  "load_instruction fname i raw =
     bindE (from_option (Instruction_Not_Object i fname) (json_obj raw)) (\<lambda>d.
     bindE (json_key (Instruction_Missing_Key i ''address'') d ''address'') (\<lambda>ja.
     bindE (require_int (''Instruction '' @ dec_str (int i) @ '' address'') ja) (\<lambda>address.
     bindE (json_key (Instruction_Missing_Key i ''word'') d ''word'') (\<lambda>jw.
     bindE (require_int (''Instruction '' @ dec_str (int i) @ '' word'') jw) (\<lambda>word.
     bindE (json_key (Instruction_Missing_Key i ''text'') d ''text'') (\<lambda>jt.
     bindE (json_key (Instruction_Missing_Key i ''valid'') d ''valid'') (\<lambda>jv.
     bindE (json_key (Instruction_Missing_Key i ''implemented'') d ''implemented'') (\<lambda>ji.
     case (json_str jt, json_bool jv, json_bool ji) of
       (Some text, Some valid, Some implemented) \<Rightarrow>
         if 0 \<le> word \<and> word \<le> 0xFFFFFFFF
         then Inr \<lparr> mn_address = address, mn_word = word, mn_text = text, mn_valid = valid, mn_implemented = implemented \<rparr>
         else Inl (Word_Out_Of_Range i fname)
     | _ \<Rightarrow> Inl (Instruction_Invalid i fname)))))))))"

definition load_function :: "nat \<Rightarrow> json \<Rightarrow> (match_error, match_function) result" where
  "load_function i item =
     bindE (from_option (Function_Not_Object i) (json_obj item)) (\<lambda>d.
     let key = (\<lambda>k. json_key (Function_Missing_Key i k) d k);
         label = (\<lambda>k. ''Function entry '' @ dec_str (int i) @ '' '' @ k) in
     bindE (key ''name'') (\<lambda>jn.
     bindE (key ''address'') (\<lambda>ja.
     bindE (require_int (label ''address'') ja) (\<lambda>address.
     bindE (key ''size'') (\<lambda>js.
     bindE (require_int (label ''size'') js) (\<lambda>sz.
     bindE (key ''section'') (\<lambda>jsec.
     bindE (key ''instruction_count'') (\<lambda>jc.
     bindE (require_int (label ''instruction_count'') jc) (\<lambda>count.
     bindE (key ''instructions'') (\<lambda>jraw.
     case (json_str jn, json_str jsec) of
       (Some name, Some sec) \<Rightarrow>
         bindE (from_option (Instructions_Not_List i) (json_list jraw)) (\<lambda>raws.
         bindE (mapE (\<lambda>(k, raw). load_instruction name k raw) (enumerate 0 raws)) (\<lambda>instructions.
         if count \<noteq> blen instructions then Inl (Instruction_Count_Differs name count (length instructions))
         else Inr \<lparr> mf_name = name, mf_address = address, mf_size = sz, mf_section = sec,
                    mf_instruction_count = count, mf_instructions = instructions \<rparr>))
     | _ \<Rightarrow> Inl (Function_Text_Invalid i)))))))))))"

definition load_functions :: "json_file \<Rightarrow> (match_error, match_function list) result" where
  "load_functions f =
     (case f of
        Missing_File \<Rightarrow> Inl Metadata_Missing
      | Unreadable_File \<Rightarrow> Inl Metadata_Invalid
      | Undecodable_File \<Rightarrow> Inl Metadata_Undecodable
      | Json_File payload \<Rightarrow>
          bindE (from_option Metadata_Not_List (json_list payload)) (\<lambda>items.
          mapE (\<lambda>(i, item). load_function i item) (enumerate 0 items)))"

definition selector_address :: "string \<Rightarrow> int option" where
  "selector_address selector =
     (case py_int_auto selector of
        Some a \<Rightarrow> Some a
      | None \<Rightarrow> if is_decimal selector then py_int 10 selector else None)"

definition resolve_match_function :: "json_file \<Rightarrow> string \<Rightarrow> (match_error, match_function) result" where
  "resolve_match_function f selector =
     bindE (load_functions f) (\<lambda>functions.
     let by_name = filter (\<lambda>g. mf_name g = selector) functions in
     if length by_name = 1 then Inr (hd by_name)
     else if length by_name > 1 then Inl (Ambiguous_Name selector)
     else case selector_address selector of
       None \<Rightarrow> Inl (Function_Not_Found selector)
     | Some a \<Rightarrow>
         let by_address = filter (\<lambda>g. mf_address g = a) functions in
         if length by_address = 1 then Inr (hd by_address)
         else if length by_address > 1 then Inl (Ambiguous_Address a)
         else Inl (Function_Not_Found selector))"

section \<open>The reference object\<close>

definition align_up :: "int \<Rightarrow> int \<Rightarrow> int" where
  "align_up v alignment = (v + alignment - 1) AND (NOT (alignment - 1))"

text \<open>\<open>struct.pack\<close> of unsigned little-endian fields, each with its width; out of range raises.\<close>

definition pack_fields :: "(nat \<times> int) list \<Rightarrow> (match_error, bytes) result" where
  "pack_fields vs =
     bindE (mapE (\<lambda>(n, v). if 0 \<le> v \<and> v < 256 ^ n then Inr (le_bytes n v) else Inl Pack_Error) vs)
       (\<lambda>parts. Inr (concat parts))"

definition pack_words :: "int list \<Rightarrow> (match_error, bytes) result" where
  "pack_words vs = pack_fields (map (\<lambda>v. (4, v)) vs)"

fun check_contiguous :: "string \<Rightarrow> int \<Rightarrow> nat \<Rightarrow> match_instruction list \<Rightarrow> (match_error, unit) result" where
  "check_contiguous name expected i [] = Inr ()"
| "check_contiguous name expected i (x # xs) =
     (if mn_address x \<noteq> expected then Inl (Not_Contiguous name i expected (mn_address x))
      else check_contiguous name (expected + 4) (i + 1) xs)"

definition SHSTRTAB :: bytes where
  "SHSTRTAB = str_bytes ([CHR 0x00] @ ''.text'' @ [CHR 0x00] @ ''.symtab'' @ [CHR 0x00] @ ''.strtab'' @ [CHR 0x00] @
     ''.shstrtab'' @ [CHR 0x00])"

definition elf_ident :: bytes where
  "elf_ident = [0x7F, 0x45, 0x4C, 0x46, 1, 1, 1] @ replicate 9 0"

definition function_symbol :: "int \<Rightarrow> (match_error, bytes) result" where
  "function_symbol text_size = pack_fields [(4, 1), (4, 0), (4, text_size), (1, push_bit 4 1 OR 2), (1, 0), (2, 1)]"

definition object_header :: "int \<Rightarrow> (match_error, bytes) result" where
  "object_header section_header_offset =
     bindE (pack_fields [(2, 1), (2, 8), (4, 1), (4, 0), (4, 0), (4, section_header_offset), (4, 0), (2, 52), (2, 0), (2, 0),
        (2, 40), (2, 5), (2, 4)]) (\<lambda>rest. Inr (elf_ident @ rest))"

definition object_sections :: "int \<Rightarrow> int \<Rightarrow> int \<Rightarrow> int \<Rightarrow> int \<Rightarrow> int \<Rightarrow> int \<Rightarrow> (match_error, bytes) result" where
  "object_sections text_offset text_size symtab_offset symtab_size strtab_offset strtab_size shstrtab_offset =
     bindE (mapE pack_words
       [[1, 1, 0x6, 0, text_offset, text_size, 0, 0, 4, 0],
        [7, 2, 0, 0, symtab_offset, symtab_size, 3, 1, 4, 16],
        [15, 3, 0, 0, strtab_offset, strtab_size, 0, 0, 1, 0],
        [23, 3, 0, 0, shstrtab_offset, blen SHSTRTAB, 0, 0, 1, 0]])
       (\<lambda>parts. Inr (replicate 40 0 @ concat parts))"

definition build_reference_object :: "match_function \<Rightarrow> (match_error, bytes) result" where
  "build_reference_object f =
     (if mf_instructions f = [] then Inl (No_Instruction_Words (mf_name f)) else
      bindE (check_contiguous (mf_name f) (mf_address f) 0 (mf_instructions f)) (\<lambda>_.
      bindE (pack_words (map mn_word (mf_instructions f))) (\<lambda>text.
      let symbol_name = str_bytes (mf_name f) in
      if 0 \<in> set symbol_name then Inl Name_Contains_Nul else
      let strtab = [0] @ symbol_name @ [0];
          text_offset = align_up 52 4;
          symtab_offset = align_up (text_offset + blen text) 4 in
      bindE (function_symbol (blen text)) (\<lambda>symbol.
      let symtab = replicate 16 0 @ symbol;
          strtab_offset = symtab_offset + blen symtab;
          shstrtab_offset = strtab_offset + blen strtab;
          section_header_offset = align_up (shstrtab_offset + blen SHSTRTAB) 4 in
      bindE (object_header section_header_offset) (\<lambda>header.
      bindE (object_sections text_offset (blen text) symtab_offset (blen symtab) strtab_offset (blen strtab) shstrtab_offset)
        (\<lambda>section_headers.
      let data = replicate (nat section_header_offset + length section_headers) 0 in
      Inr (put_range section_header_offset section_headers
            (put_range shstrtab_offset SHSTRTAB
              (put_range strtab_offset strtab
                (put_range symtab_offset symtab
                  (put_range text_offset text (put_range 0 header data))))))))))))"


section \<open>Packed fields read back\<close>

lemma pack_fields_Cons:
  "pack_fields ((n, v) # vs) = Inr raw \<longleftrightarrow>
     0 \<le> v \<and> v < 256 ^ n \<and> (\<exists>rest. pack_fields vs = Inr rest \<and> raw = le_bytes n v @ rest)"
  by (auto simp: pack_fields_def bindE_Inr_iff)

lemma pack_fields_length: "pack_fields vs = Inr raw \<Longrightarrow> length raw = sum_list (map fst vs)"
proof (induction vs arbitrary: raw)
  case Nil
  then show ?case by (simp add: pack_fields_def bindE_def)
next
  case (Cons x vs)
  then show ?case by (cases x) (auto simp: pack_fields_Cons)
qed

lemma read_int_shift: "0 \<le> i \<Longrightarrow> 0 \<le> n \<Longrightarrow> read_int e (xs @ ys) (blen xs + i) n = read_int e ys i n"
  using py_slice_shift [of i "i + n" xs ys] by (simp add: read_int_def add.assoc)

lemma pack_fields_read:
  "pack_fields vs = Inr raw \<Longrightarrow> k < length vs \<Longrightarrow>
     read_int Little raw (int (sum_list (map fst (take k vs)))) (int (fst (vs ! k))) = snd (vs ! k)"
proof (induction vs arbitrary: raw k)
  case (Cons x vs)
  obtain n v where x: "x = (n, v)" by fastforce
  obtain rest where rest: "pack_fields vs = Inr rest" "raw = le_bytes n v @ rest" "0 \<le> v" "v < 256 ^ n"
    using Cons.prems(1) by (auto simp: x pack_fields_Cons)
  show ?case
  proof (cases k)
    case 0
    have "py_slice raw 0 (int n) = le_bytes n v" by (simp add: rest(2) py_slice_in)
    then show ?thesis using rest by (simp add: 0 x read_int_def endian_int_def le_int_le_bytes)
  next
    case (Suc j)
    have "read_int Little raw (blen (le_bytes n v) + int (sum_list (map fst (take j vs)))) (int (fst (vs ! j))) =
        read_int Little rest (int (sum_list (map fst (take j vs)))) (int (fst (vs ! j)))"
      unfolding rest(2) by (rule read_int_shift) simp_all
    then show ?thesis using Cons.IH [OF rest(1), of j] Cons.prems(2) by (simp add: Suc x)
  qed
qed simp

lemma pack_words_length: "pack_words vs = Inr raw \<Longrightarrow> length raw = 4 * length vs"
  unfolding pack_words_def by (drule pack_fields_length) (simp add: comp_def sum_list_triv)

lemma pack_words_fields: "pack_words vs = Inr raw \<Longrightarrow> u32_fields Little raw (length vs) = vs"
proof (rule nth_equalityI)
  fix k assume raw: "pack_words vs = Inr raw" and k: "k < length (u32_fields Little raw (length vs))"
  then have "read_int Little raw (int (sum_list (map fst (take k (map (Pair 4) vs))))) 4 = vs ! k"
    using pack_fields_read [of "map (Pair 4) vs" raw k] by (simp add: pack_words_def)
  moreover have "sum_list (map fst (take k (map (Pair (4 :: nat)) vs))) = 4 * k"
    using k by (simp add: take_map comp_def sum_list_triv)
  ultimately show "u32_fields Little raw (length vs) ! k = vs ! k" using k by (simp add: u32_fields_nth)
qed simp

lemma align_up_4: "align_up v 4 = (v + 3) div 4 * 4"
proof -
  have next_two: "Suc (Suc (n - 2)) = n" if "2 \<le> n" for n :: nat using that by arith
  have "w AND NOT (mask 2 :: int) = push_bit 2 (drop_bit 2 w)" for w :: int
    by (rule bit_eqI) (auto simp: bit_simps not_less next_two)
  from this [of "v + 3"] show ?thesis
    by (simp add: align_up_def mask_eq_exp_minus_1 drop_bit_eq_div push_bit_eq_mult add.commute)
qed

lemma align_up_4_of_multiple [simp]: "align_up (4 * v) 4 = 4 * v"
  by (simp add: align_up_4)

section \<open>The reference object holds the function\<close>

definition section_bytes :: "elf_image \<Rightarrow> elf_section \<Rightarrow> bytes" where
  "section_bytes elf s = py_slice (el_raw_data elf) (se_offset s) (se_offset s + se_size s)"

text \<open>
  A relocatable little-endian MIPS object whose \<open>.text\<close> is executable and holds exactly the words
  of the function, with one global function symbol over all of it that carries the name.
\<close>

definition holds_function :: "match_function \<Rightarrow> elf_image \<Rightarrow> bool" where
  "holds_function f elf \<longleftrightarrow>
     eh_file_type (el_header elf) = 1 \<and> eh_machine (el_header elf) = 8 \<and> el_endianness elf = Little \<and>
     el_program_headers elf = [] \<and>
     map se_name (el_sections elf) = [[], ''.text'', ''.symtab'', ''.strtab'', ''.shstrtab''] \<and>
     (let text = el_sections elf ! 1; symtab = section_bytes elf (el_sections elf ! 2);
          strtab = section_bytes elf (el_sections elf ! nat (se_link (el_sections elf ! 2))) in
        se_kind text = Executable \<and>
        se_size text = 4 * blen (mf_instructions f) \<and>
        u32_fields Little (section_bytes elf text) (length (mf_instructions f)) = map mn_word (mf_instructions f) \<and>
        blen symtab = 32 \<and>
        before_nul (drop (nat (read_int Little symtab 16 4)) strtab) = str_bytes (mf_name f) \<and>
        read_int Little symtab 20 4 = 0 \<and>
        read_int Little symtab 24 4 = se_size text \<and>
        read_int Little symtab 28 1 = 0x12 \<and>
        read_int Little symtab 30 2 = se_index text)"

text \<open>The parts of a built object and where they are.\<close>

lemma object_layout:
  assumes "length header = 52" "length symbol = 16" "length secs = 200"
    and "symtab_offset = 52 + blen code" "strtab_offset = symtab_offset + 32"
    and "shstrtab_offset = strtab_offset + blen strtab" "headers_offset = shstrtab_offset + 33 + int k"
    and "n = nat headers_offset + 200"
  shows "put_range headers_offset secs (put_range shstrtab_offset SHSTRTAB (put_range strtab_offset strtab
      (put_range symtab_offset (replicate 16 0 @ symbol) (put_range 52 code (put_range 0 header (replicate n 0)))))) =
    header @ code @ (replicate 16 0 @ symbol) @ strtab @ SHSTRTAB @ replicate k 0 @ secs"
proof -
  have shstrtab: "length SHSTRTAB = 33" by (simp add: SHSTRTAB_def str_bytes_def)
  have n: "n = 52 + length code + 32 + length strtab + 33 + k + 200" using assms by simp
  have "put_range 0 header (replicate n 0) = header @ replicate (n - 52) 0"
    using put_range_fill [of "[]" 0 header n] assms(1) by simp
  moreover have "put_range 52 code (header @ replicate (n - 52) 0) = (header @ code) @ replicate (n - 52 - length code) 0"
    using put_range_fill [of header 52] assms(1) by simp
  moreover have "put_range symtab_offset (replicate 16 0 @ symbol) ((header @ code) @ replicate (n - 52 - length code) 0) =
      (header @ code @ replicate 16 0 @ symbol) @ replicate (n - 52 - length code - 32) 0"
    using put_range_fill [of "header @ code" symtab_offset "replicate 16 0 @ symbol"] assms by simp
  moreover have "put_range strtab_offset strtab ((header @ code @ replicate 16 0 @ symbol) @ replicate (n - 52 - length code - 32) 0) =
      (header @ code @ replicate 16 0 @ symbol @ strtab) @ replicate (n - 52 - length code - 32 - length strtab) 0"
    using put_range_fill [of "header @ code @ replicate 16 0 @ symbol" strtab_offset strtab] assms by simp
  moreover have "put_range shstrtab_offset SHSTRTAB ((header @ code @ replicate 16 0 @ symbol @ strtab) @
        replicate (n - 52 - length code - 32 - length strtab) 0) =
      (header @ code @ replicate 16 0 @ symbol @ strtab @ SHSTRTAB) @ replicate (k + 200) 0"
    using put_range_fill [of "header @ code @ replicate 16 0 @ symbol @ strtab" shstrtab_offset SHSTRTAB] assms n
    by (simp add: shstrtab)
  moreover have "put_range headers_offset secs ((header @ code @ replicate 16 0 @ symbol @ strtab @ SHSTRTAB) @ replicate (k + 200) 0) =
      (header @ code @ replicate 16 0 @ symbol @ strtab @ SHSTRTAB @ replicate k 0) @ secs"
    using put_range_fill [of "header @ code @ replicate 16 0 @ symbol @ strtab @ SHSTRTAB @ replicate k 0" headers_offset secs 200]
      assms n by (simp add: shstrtab replicate_add)
  ultimately show ?thesis by simp
qed

lemma length_elf_ident [simp]: "length elf_ident = 16"
  by (simp add: elf_ident_def)

lemma function_symbol_length: "function_symbol sz = Inr symbol \<Longrightarrow> length symbol = 16"
  unfolding function_symbol_def by (drule pack_fields_length) simp

lemma object_header_length: "object_header off = Inr header \<Longrightarrow> length header = 52"
  by (auto simp: object_header_def bindE_Inr_iff dest: pack_fields_length)

lemma object_sections_length:
  "object_sections t ts s ss r rs h = Inr secs \<Longrightarrow> length secs = 200"
  by (auto simp: object_sections_def bindE_Inr_iff dest!: pack_words_length)

lemma build_reference_object_parts:
  assumes "build_reference_object f = Inr data"
  obtains code symbol header secs k where
    "pack_words (map mn_word (mf_instructions f)) = Inr code"
    "0 \<notin> set (str_bytes (mf_name f))"
    "function_symbol (blen code) = Inr symbol"
    "object_header (119 + blen code + blen (mf_name f) + int k) = Inr header"
    "object_sections 52 (blen code) (52 + blen code) 32 (84 + blen code) (2 + blen (mf_name f))
       (86 + blen code + blen (mf_name f)) = Inr secs"
    "data = header @ code @ (replicate 16 0 @ symbol) @ (0 # str_bytes (mf_name f) @ [0]) @ SHSTRTAB @ replicate k 0 @ secs"
proof -
  define L where "L code = align_up (52 + blen code) 4" for code :: bytes
  have align_52: "align_up 52 4 = 52" by (simp add: align_up_4)
  from assms obtain code symbol header secs where
    code: "pack_words (map mn_word (mf_instructions f)) = Inr code" and
    nul: "0 \<notin> set (str_bytes (mf_name f))" and
    symbol: "function_symbol (blen code) = Inr symbol" and
    header: "object_header (align_up (L code + (16 + blen symbol) + (2 + blen (mf_name f)) + blen SHSTRTAB) 4) = Inr header" and
    secs: "object_sections 52 (blen code) (L code) (16 + blen symbol) (L code + (16 + blen symbol))
       (2 + blen (mf_name f)) (L code + (16 + blen symbol) + (2 + blen (mf_name f))) = Inr secs" and
    data: "data = put_range (align_up (L code + (16 + blen symbol) + (2 + blen (mf_name f)) + blen SHSTRTAB) 4) secs
      (put_range (L code + (16 + blen symbol) + (2 + blen (mf_name f))) SHSTRTAB
        (put_range (L code + (16 + blen symbol)) (0 # str_bytes (mf_name f) @ [0])
          (put_range (L code) (replicate 16 0 @ symbol) (put_range 52 code (put_range 0 header
            (replicate (nat (align_up (L code + (16 + blen symbol) + (2 + blen (mf_name f)) + blen SHSTRTAB) 4) + length secs) 0))))))"
    by (auto simp: build_reference_object_def bindE_Inr_iff Let_def L_def align_52 str_bytes_def ac_simps split: if_splits)
  have sizes: "length symbol = 16" "length header = 52" "length secs = 200" "length SHSTRTAB = 33"
    using symbol header secs
    by (simp_all add: function_symbol_length object_header_length object_sections_length SHSTRTAB_def str_bytes_def)
  have "length code = 4 * length (mf_instructions f)" using pack_words_length [OF code] by simp
  then have L: "L code = 52 + blen code" by (simp add: L_def align_up_4)
  let ?stop = "119 + blen code + blen (mf_name f)"
  define k where "k = nat (align_up ?stop 4 - ?stop)"
  have aligned: "align_up ?stop 4 = ?stop + int k"
    unfolding k_def align_up_4 by linarith
  have "data = header @ code @ (replicate 16 0 @ symbol) @ (0 # str_bytes (mf_name f) @ [0]) @ SHSTRTAB @ replicate k 0 @ secs"
    unfolding data L by (rule object_layout) (use sizes aligned in \<open>auto simp: str_bytes_def ac_simps\<close>)
  then show thesis
    using that [of code symbol k header secs] code nul symbol header secs sizes L aligned by (simp add: ac_simps)
qed

lemma elf_unpack_middle:
  "elf_unpack (pre @ mid @ post) (blen pre) (blen mid) = Inr mid"
  by (simp add: elf_unpack_def unpack_from_in py_slice_in)

lemma object_header_fields:
  assumes "object_header off = Inr header"
  shows "take 16 header = elf_ident"
    and "header_of_bytes Little (drop 16 header) =
      \<lparr> eh_file_type = 1, eh_machine = 8, eh_version = 1, eh_entry = 0, eh_phoff = 0, eh_shoff = off, eh_flags = 0,
        eh_ehsize = 52, eh_phentsize = 0, eh_phnum = 0, eh_shentsize = 40, eh_shnum = 5, eh_shstrndx = 4 \<rparr>"
    and "0 \<le> off"
proof -
  let ?vs = "[(2, 1), (2, 8), (4, 1), (4, 0), (4, 0), (4, off), (4, 0), (2, 52), (2, 0), (2, 0), (2, 40), (2, 5), (2, 4)] :: (nat \<times> int) list"
  obtain rest where rest: "pack_fields ?vs = Inr rest" "header = elf_ident @ rest"
    using assms by (auto simp: object_header_def bindE_Inr_iff)
  show "take 16 header = elf_ident" by (simp add: rest(2))
  have "drop 16 header = rest" by (simp add: rest(2))
  note field = pack_fields_read [OF rest(1)]
  show "header_of_bytes Little (drop 16 header) =
      \<lparr> eh_file_type = 1, eh_machine = 8, eh_version = 1, eh_entry = 0, eh_phoff = 0, eh_shoff = off, eh_flags = 0,
        eh_ehsize = 52, eh_phentsize = 0, eh_phnum = 0, eh_shentsize = 40, eh_shnum = 5, eh_shstrndx = 4 \<rparr>"
    unfolding \<open>drop 16 header = rest\<close> header_of_bytes_def
    using field [of 0] field [of 1] field [of 2] field [of 3] field [of 4] field [of 5] field [of 6] field [of 7]
      field [of 8] field [of 9] field [of 10] field [of 11] field [of 12] by simp
  show "0 \<le> off" using rest(1) by (auto simp: pack_fields_Cons)
qed

lemma object_sections_parts:
  assumes "object_sections t ts s ss r rs h = Inr secs"
  obtains a b c d where
    "secs = replicate 40 0 @ a @ b @ c @ d"
    "pack_words [1, 1, 6, 0, t, ts, 0, 0, 4, 0] = Inr a"
    "pack_words [7, 2, 0, 0, s, ss, 3, 1, 4, 16] = Inr b"
    "pack_words [15, 3, 0, 0, r, rs, 0, 0, 1, 0] = Inr c"
    "pack_words [23, 3, 0, 0, h, 33, 0, 0, 1, 0] = Inr d"
  using assms by (auto simp: object_sections_def bindE_Inr_iff SHSTRTAB_def str_bytes_def)

lemma null_section_words: "u32_fields Little (replicate 40 0) 10 = replicate 10 0"
  by code_simp

lemma raw_section_at:
  assumes "elf_unpack data (eh_shoff h + int i * eh_shentsize h) 40 = Inr raw" "u32_fields Little raw 10 = v"
    and "v ! 5 \<noteq> 0 \<longrightarrow> v ! 1 \<noteq> SHT_NOBITS \<longrightarrow> in_file data (v ! 4) (v ! 5)"
  shows "parse_raw_section Little data h i = Inr v"
  using assms by (auto simp: parse_raw_section_def bindE_Inr_iff Let_def)

lemma reference_names:
  "read_cstring SHSTRTAB 0 = []" "read_cstring SHSTRTAB 1 = ''.text''" "read_cstring SHSTRTAB 7 = ''.symtab''"
  "read_cstring SHSTRTAB 15 = ''.strtab''" "read_cstring SHSTRTAB 23 = ''.shstrtab''" "SHSTRTAB \<noteq> []"
  by code_simp+

lemma before_nul_append: "0 \<notin> set xs \<Longrightarrow> before_nul (xs @ 0 # ys) = xs"
  by (induction xs) (auto simp: before_nul_def)

lemma pack_words_ten: "pack_words vs = Inr raw \<Longrightarrow> length vs = 10 \<Longrightarrow> u32_fields Little raw 10 = vs"
  using pack_words_fields [of vs raw] by simp

lemma py_slice_middle: "py_slice (pre @ mid @ post) (blen pre) (blen pre + blen mid) = mid"
  by (simp add: py_slice_in)

lemma symbol_fields:
  assumes "function_symbol n = Inr symbol"
  shows "read_int Little (replicate 16 0 @ symbol) 16 4 = 1" "read_int Little (replicate 16 0 @ symbol) 20 4 = 0"
    "read_int Little (replicate 16 0 @ symbol) 24 4 = n" "read_int Little (replicate 16 0 @ symbol) 28 1 = 18"
    "read_int Little (replicate 16 0 @ symbol) 30 2 = 1"
proof -
  note field = pack_fields_read [OF assms [unfolded function_symbol_def]]
  note shift = read_int_shift [where xs = "replicate 16 0" and ys = symbol and e = Little, simplified]
  show "read_int Little (replicate 16 0 @ symbol) 16 4 = 1" "read_int Little (replicate 16 0 @ symbol) 20 4 = 0"
    "read_int Little (replicate 16 0 @ symbol) 24 4 = n" "read_int Little (replicate 16 0 @ symbol) 28 1 = 18"
    "read_int Little (replicate 16 0 @ symbol) 30 2 = 1"
    using field [of 0] field [of 1] field [of 2] field [of 3] field [of 5]
      shift [of 0 4] shift [of 4 4] shift [of 8 4] shift [of 12 1] shift [of 14 2] by simp_all
qed

lemma five_indices: "[0..<5] = [0, 1, 2, 3, 4 :: nat]"
  by code_simp

lemma parse_reference_object:
  assumes "build_reference_object f = Inr data"
  shows "\<exists>elf. parse_elf32 data = Inr elf \<and> holds_function f elf"
proof -
  obtain code symbol header secs k where
    code: "pack_words (map mn_word (mf_instructions f)) = Inr code" and
    nul: "0 \<notin> set (str_bytes (mf_name f))" and
    symbol: "function_symbol (blen code) = Inr symbol" and
    header: "object_header (119 + blen code + blen (mf_name f) + int k) = Inr header" and
    secs: "object_sections 52 (blen code) (52 + blen code) 32 (84 + blen code) (2 + blen (mf_name f))
       (86 + blen code + blen (mf_name f)) = Inr secs" and
    data: "data = header @ code @ (replicate 16 0 @ symbol) @ (0 # str_bytes (mf_name f) @ [0]) @ SHSTRTAB @ replicate k 0 @ secs"
    using assms by (rule build_reference_object_parts)
  let ?off = "119 + blen code + blen (mf_name f) + int k"
  obtain a b c d where parts: "secs = replicate 40 0 @ a @ b @ c @ d"
    "pack_words [1, 1, 6, 0, 52, blen code, 0, 0, 4, 0] = Inr a"
    "pack_words [7, 2, 0, 0, 52 + blen code, 32, 3, 1, 4, 16] = Inr b"
    "pack_words [15, 3, 0, 0, 84 + blen code, 2 + blen (mf_name f), 0, 0, 1, 0] = Inr c"
    "pack_words [23, 3, 0, 0, 86 + blen code + blen (mf_name f), 33, 0, 0, 1, 0] = Inr d"
    using secs by (rule object_sections_parts)
  have lengths: "length header = 52" "length symbol = 16" "length SHSTRTAB = 33" "length a = 40" "length b = 40"
      "length c = 40" "length d = 40" "length (str_bytes (mf_name f)) = length (mf_name f)"
    using header symbol parts
    by (auto simp: object_header_length function_symbol_length SHSTRTAB_def str_bytes_def dest!: pack_words_length)
  define body where "body = code @ (replicate 16 0 @ symbol) @ (0 # str_bytes (mf_name f) @ [0]) @ SHSTRTAB @ replicate k 0"
  have data': "data = header @ body @ secs" by (simp add: data body_def)
  have body: "52 + blen body = ?off" by (simp add: body_def lengths)
  have total: "blen data = ?off + 200" using body by (simp add: data' lengths parts(1))
  let ?h = "header_of_bytes Little (drop 16 header)"
  note h = object_header_fields [OF header]
  have ident: "header = elf_ident @ drop 16 header" using h(1) append_take_drop_id [of 16 header] by metis
  have "take 52 data = header" by (simp add: data' lengths)
  have encoding: "parse_elf_encoding data = Inr Little"
    using total by (subst data', subst ident) (simp add: parse_elf_encoding_def bindE_Inr_iff elf_ident_def in_file_def data' nth_append)
  have unpack: "elf_unpack data 16 36 = Inr (drop 16 header)"
  proof -
    have "data = elf_ident @ drop 16 header @ body @ secs" using data' ident by (metis append.assoc)
    then show ?thesis using elf_unpack_middle [of elf_ident "drop 16 header" "body @ secs"] by (simp add: lengths)
  qed
  have tables: "check_elf_tables data ?h = Inr ()"
    using total body by (simp add: check_elf_tables_def h(2) bindE_def require_range_def)
  let ?raws = "[replicate 10 0, [1, 1, 6, 0, 52, blen code, 0, 0, 4, 0], [7, 2, 0, 0, 52 + blen code, 32, 3, 1, 4, 16],
    [15, 3, 0, 0, 84 + blen code, 2 + blen (mf_name f), 0, 0, 1, 0], [23, 3, 0, 0, 86 + blen code + blen (mf_name f), 33, 0, 0, 1, 0]]"
  have words: "u32_fields Little a 10 = ?raws ! 1" "u32_fields Little b 10 = ?raws ! 2" "u32_fields Little c 10 = ?raws ! 3"
      "u32_fields Little d 10 = ?raws ! 4"
    using pack_words_ten [OF parts(2)] pack_words_ten [OF parts(3)] pack_words_ten [OF parts(4)]
      pack_words_ten [OF parts(5)] by simp_all
  have headers: "elf_unpack data ?off 40 = Inr (replicate 40 0)" "elf_unpack data (?off + 40) 40 = Inr a"
      "elf_unpack data (?off + 80) 40 = Inr b" "elf_unpack data (?off + 120) 40 = Inr c" "elf_unpack data (?off + 160) 40 = Inr d"
    using elf_unpack_middle [of "header @ body" "replicate 40 0" "a @ b @ c @ d"]
      elf_unpack_middle [of "header @ body @ replicate 40 0" a "b @ c @ d"]
      elf_unpack_middle [of "header @ body @ replicate 40 0 @ a" b "c @ d"]
      elf_unpack_middle [of "header @ body @ replicate 40 0 @ a @ b" c d]
      elf_unpack_middle [of "header @ body @ replicate 40 0 @ a @ b @ c" d "[]"]
      body by (simp_all add: data' parts(1) lengths algebra_simps)
  have raws: "mapE (parse_raw_section Little data ?h) [0..<5] = Inr ?raws"
  proof -
    have "parse_raw_section Little data ?h 0 = Inr (?raws ! 0)"
      by (rule raw_section_at [of _ _ _ "replicate 40 0"]) (use headers(1) null_section_words in \<open>simp_all add: h(2)\<close>)
    moreover have "parse_raw_section Little data ?h 1 = Inr (?raws ! 1)"
      by (rule raw_section_at [of _ _ _ a]) (use headers(2) words(1) total in \<open>simp_all add: h(2) in_file_def\<close>)
    moreover have "parse_raw_section Little data ?h 2 = Inr (?raws ! 2)"
      by (rule raw_section_at [of _ _ _ b]) (use headers(3) words(2) total in \<open>simp_all add: h(2) in_file_def\<close>)
    moreover have "parse_raw_section Little data ?h 3 = Inr (?raws ! 3)"
      by (rule raw_section_at [of _ _ _ c]) (use headers(4) words(3) total in \<open>simp_all add: h(2) in_file_def\<close>)
    moreover have "parse_raw_section Little data ?h 4 = Inr (?raws ! 4)"
      by (rule raw_section_at [of _ _ _ d]) (use headers(5) words(4) total in \<open>simp_all add: h(2) in_file_def\<close>)
    ultimately show ?thesis by (simp add: five_indices bindE_def)
  qed
  have slices: "py_slice data 52 (52 + blen code) = code"
      "py_slice data (52 + blen code) (84 + blen code) = replicate 16 0 @ symbol"
      "py_slice data (84 + blen code) (86 + blen code + blen (mf_name f)) = 0 # str_bytes (mf_name f) @ [0]"
      "py_slice data (86 + blen code + blen (mf_name f)) (119 + blen code + blen (mf_name f)) = SHSTRTAB"
    using py_slice_middle [of header code] py_slice_middle [of "header @ code" "replicate 16 0 @ symbol"]
      py_slice_middle [of "header @ code @ replicate 16 0 @ symbol" "0 # str_bytes (mf_name f) @ [0]"]
      py_slice_middle [of "header @ code @ replicate 16 0 @ symbol @ (0 # str_bytes (mf_name f) @ [0])" SHSTRTAB]
    by (simp_all add: data lengths algebra_simps)
  have names: "section_names data ?h ?raws = Inr SHSTRTAB"
    using slices(4) by (simp add: section_names_def h(2) SHT_NOBITS_def algebra_simps)
  let ?elf = "\<lparr> el_header = ?h, el_endianness = Little, el_program_headers = [],
      el_sections = map (\<lambda>i. section_of SHSTRTAB i (?raws ! i)) [0..<length ?raws], el_raw_data = data \<rparr>"
  have "parse_elf32 data = Inr ?elf"
    using encoding unpack tables raws names by (simp add: parse_elf32_def bindE_def h(2) Let_def)
  moreover have "holds_function f ?elf"
  proof -
    have "u32_fields Little code (length (mf_instructions f)) = map mn_word (mf_instructions f)"
      using pack_words_fields [OF code] by simp
    moreover have "length code = 4 * length (mf_instructions f)" using pack_words_length [OF code] by simp
    moreover have "before_nul (str_bytes (mf_name f) @ [0]) = str_bytes (mf_name f)" using nul by (rule before_nul_append)
    ultimately show ?thesis
      using slices symbol_fields [OF symbol]
      by (simp add: holds_function_def h(2) five_indices section_of_def section_bytes_def reference_names Let_def
          section_kind_of_def SHT_NOBITS_def SHF_EXECINSTR_def lengths algebra_simps)
  qed
  ultimately show ?thesis by blast
qed

text \<open>
  Property C5. The reference object that is synthesized for a function is a relocatable MIPS object
  the project's own ELF parser accepts, with the five expected sections; its executable \<open>.text\<close> is
  exactly the words of the function, and its one symbol has the function's name and covers them.
\<close>

theorem reference_object_round_trip:
  "build_reference_object f = Inr data \<Longrightarrow> \<exists>elf. parse_elf32 data = Inr elf \<and> holds_function f elf"
  by (rule parse_reference_object)

definition sample_function :: match_function where
  "sample_function =
     \<lparr> mf_name = ''main'', mf_address = 0x1000, mf_size = 8, mf_section = ''.text'', mf_instruction_count = 2,
       mf_instructions =
         [\<lparr> mn_address = 0x1000, mn_word = 0x03E00008, mn_text = ''jr $ra'', mn_valid = True, mn_implemented = True \<rparr>,
          \<lparr> mn_address = 0x1004, mn_word = 0, mn_text = ''nop'', mn_valid = True, mn_implemented = True \<rparr>] \<rparr>"

lemma sample_object: "\<not> isl (build_reference_object sample_function)"
  by code_simp

lemma reference_object_round_trip_witness:
  "\<exists>elf. parse_elf32 (projr (build_reference_object sample_function)) = Inr elf \<and> holds_function sample_function elf"
  by (rule reference_object_round_trip) (use sample_object in \<open>cases "build_reference_object sample_function"\<close>, simp_all)


section \<open>The backend's answer\<close>

text \<open>\<open>100 * (1 - raw / max)\<close> within 0 and 100, to two decimals.\<close>

definition similarity :: "int \<Rightarrow> int \<Rightarrow> rat" where
  "similarity raw max_score =
     (if max_score = 0 then (if raw = 0 then 100 else 0)
      else of_int (round (100 * min 100 (max 0 (100 * (1 - of_int raw / of_int max_score :: rat))))) / 100)"

definition score :: "(string \<times> json) list \<Rightarrow> (match_error, int \<times> int \<times> rat) result" where
  "score payload =
     (case strict_int (json_get payload ''current_score'') of
        None \<Rightarrow> Inl Score_Missing
      | Some raw \<Rightarrow>
          (case strict_int (json_get payload ''max_score'') of
             None \<Rightarrow> Inl Max_Score_Missing
           | Some m \<Rightarrow> if m < 0 then Inl Max_Score_Missing else Inr (raw, m, similarity raw m)))"

definition segment_has_diff :: "json \<Rightarrow> bool" where
  "segment_has_diff seg \<longleftrightarrow>
     (case json_obj seg of None \<Rightarrow> False
      | Some d \<Rightarrow> (case json_str (json_get d ''format'') of None \<Rightarrow> False | Some s \<Rightarrow> take 5 s = ''diff_''))"

definition cell_has_diff :: "json \<Rightarrow> bool" where
  "cell_has_diff cell \<longleftrightarrow>
     (case json_obj cell of None \<Rightarrow> False
      | Some d \<Rightarrow> (case json_list (json_get d ''text'') of None \<Rightarrow> False | Some segs \<Rightarrow> list_ex segment_has_diff segs))"

record row_counts =
  rc_matching :: int
  rc_changed :: int
  rc_added :: int
  rc_removed :: int

definition count_row :: "json \<Rightarrow> row_counts \<Rightarrow> (match_error, row_counts) result" where
  "count_row row c =
     bindE (from_option Row_Not_Object (json_obj row)) (\<lambda>d.
     let base = json_get d ''base''; current = json_get d ''current'' in
     Inr (if base \<noteq> JNull \<and> current \<noteq> JNull then
            (if cell_has_diff base \<or> cell_has_diff current then c\<lparr>rc_changed := rc_changed c + 1\<rparr>
             else c\<lparr>rc_matching := rc_matching c + 1\<rparr>)
          else if current \<noteq> JNull then c\<lparr>rc_added := rc_added c + 1\<rparr>
          else if base \<noteq> JNull then c\<lparr>rc_removed := rc_removed c + 1\<rparr>
          else c))"

definition classify_rows :: "(string \<times> json) list \<Rightarrow> (match_error, row_counts) result" where
  "classify_rows payload =
     bindE (from_option Rows_Missing (json_list (json_get payload ''rows''))) (\<lambda>rows.
     foldE count_row rows \<lparr> rc_matching = 0, rc_changed = 0, rc_added = 0, rc_removed = 0 \<rparr>)"

definition reference_warning :: "json_file \<Rightarrow> match_function \<Rightarrow> bool \<Rightarrow> (match_error, bool) result" where
  "reference_warning references f auto_reference =
     (if \<not> auto_reference then Inr False
      else case references of
        Undecodable_File \<Rightarrow> Inl Metadata_Undecodable
      | Json_File (JList items) \<Rightarrow>
          Inr (list_ex (\<lambda>item. case json_obj item of None \<Rightarrow> False
                 | Some d \<Rightarrow> json_get d ''source_function'' = JStr (mf_name f)) items)
      | _ \<Rightarrow> Inr False)"

section \<open>Tools\<close>

record match_host =
  mh_environ :: "string \<Rightarrow> string option"
  mh_which :: "string \<Rightarrow> string option"
  mh_resolve :: "string \<Rightarrow> string"
  mh_is_dir :: "string \<Rightarrow> bool"
  mh_python :: string
  mh_temporary :: string
  mh_writable :: "string \<Rightarrow> bool"
  mh_split_words :: "string \<Rightarrow> string list option"
  mh_build :: "string list \<Rightarrow> rat \<Rightarrow> file_store \<Rightarrow> process_end \<times> file_store"
  mh_repr :: "string \<Rightarrow> string"
  mh_differ :: "string \<Rightarrow> string list \<Rightarrow> rat \<Rightarrow> file_store \<Rightarrow> process_end \<times> bytes"
  mh_loads :: "bytes \<Rightarrow> json option"
  mh_dumps :: "json \<Rightarrow> bytes"
  mh_toml :: "file_store \<Rightarrow> string \<Rightarrow> (string \<times> json) list option"

definition path_exists :: "match_host \<Rightarrow> file_store \<Rightarrow> string \<Rightarrow> bool" where
  "path_exists h fs p \<longleftrightarrow> mh_is_dir h p \<or> fs (mh_resolve h p) \<noteq> None"

definition command_for_path :: "match_host \<Rightarrow> file_store \<Rightarrow> string \<Rightarrow> (match_error, string list) result" where
  "command_for_path h fs p =
     (if \<not> path_exists h fs p then Inl (Tool_Path_Missing p)
      else if mh_is_dir h p then Inl (Tool_Path_Directory p)
      else if casefold (path_suffix p) = ''.py'' then Inr [mh_python h, mh_resolve h p]
      else Inr [mh_resolve h p])"

text \<open>An environment variable that is set to the empty string counts as not set.\<close>

definition configured :: "match_host \<Rightarrow> string \<Rightarrow> string option" where
  "configured h name = (case mh_environ h name of None \<Rightarrow> None | Some v \<Rightarrow> if v = [] then None else Some v)"

definition resolve_asm_differ_command ::
    "match_host \<Rightarrow> file_store \<Rightarrow> string option \<Rightarrow> (match_error, string list) result" where
  "resolve_asm_differ_command h fs explicit =
     (case explicit of
        Some p \<Rightarrow> command_for_path h fs p
      | None \<Rightarrow>
          (case configured h ''PSPDISASM_ASM_DIFFER'' of
             Some p \<Rightarrow> command_for_path h fs p
           | None \<Rightarrow> (case mh_which h ''asm-differ'' of Some e \<Rightarrow> Inr [e] | None \<Rightarrow> Inl Backend_Missing)))"

definition OBJDUMP_NAMES :: "string list" where
  "OBJDUMP_NAMES = [''psp-objdump'', ''mipsel-linux-gnu-objdump'', ''objdump'']"

definition resolve_objdump :: "match_host \<Rightarrow> file_store \<Rightarrow> string option \<Rightarrow> (match_error, string) result" where
  "resolve_objdump h fs explicit =
     (let tool = (\<lambda>p. if \<not> path_exists h fs p \<or> mh_is_dir h p then Inl (Tool_Path_Missing p) else Inr (mh_resolve h p)) in
      case explicit of
        Some p \<Rightarrow> tool p
      | None \<Rightarrow>
          (case configured h ''PSPDISASM_OBJDUMP'' of
             Some p \<Rightarrow> tool p
           | None \<Rightarrow> (case List.map_filter (mh_which h) OBJDUMP_NAMES of e # _ \<Rightarrow> Inr e | [] \<Rightarrow> Inl Objdump_Missing)))"

text \<open>A character that is no ASCII letter, digit, underscore, dot or dash becomes one underscore.\<close>

definition SAFE_FILENAME :: string where
  "SAFE_FILENAME = ''abcdefghijklmnopqrstuvwxyzABCDEFGHIJKLMNOPQRSTUVWXYZ0123456789_.-''"

definition clean_char :: "char \<Rightarrow> string" where
  "clean_char c =
     (if c \<in> set SAFE_FILENAME then [c]
      else if continues_char c then [] else ''_'')"

definition safe_stem :: "match_function \<Rightarrow> string" where
  "safe_stem f =
     (let cleaned = strip_chars {CHR ''.'', CHR ''_''} (concat (map clean_char (mf_name f)))
      in if cleaned \<noteq> [] then cleaned else ''func_'' @ hex_upper 8 (mf_address f))"

definition resolve_project_path :: "match_host \<Rightarrow> string \<Rightarrow> string \<Rightarrow> string" where
  "resolve_project_path h project p = mh_resolve h (path_join project p)"

datatype build_command = Command_Line string | Command_Parts "string list"

definition normalize_build_command ::
    "match_host \<Rightarrow> build_command option \<Rightarrow> (match_error, string list option) result" where
  "normalize_build_command h command =
     (case command of
        None \<Rightarrow> Inr None
      | Some c \<Rightarrow>
          bindE (case c of Command_Line s \<Rightarrow> from_option Build_Command_Malformed (mh_split_words h s)
                         | Command_Parts parts \<Rightarrow> Inr parts)
            (\<lambda>parts. if parts = [] then Inl Empty_Build_Command else Inr (Some parts)))"

definition sub_table :: "(string \<times> json) list \<Rightarrow> string \<Rightarrow> (match_error, (string \<times> json) list) result" where
  "sub_table d k =
     (case map_of d k of None \<Rightarrow> Inr [] | Some (JObj e) \<Rightarrow> Inr e | Some _ \<Rightarrow> Inl Version_Not_Table)"

text \<open>The first of the two project files near the command that is TOML and names a version.\<close>

definition version_in :: "(string \<times> json) list \<Rightarrow> (match_error, string option) result" where
  "version_in payload =
     bindE (sub_table payload ''project'') (\<lambda>project.
     case json_str (json_get project ''version'') of
       Some v \<Rightarrow> Inr (Some v)
     | None \<Rightarrow>
         bindE (sub_table payload ''tool'') (\<lambda>tool.
         bindE (sub_table tool ''poetry'') (\<lambda>poetry.
         Inr (json_str (json_get poetry ''version'')))))"

fun first_version :: "match_host \<Rightarrow> file_store \<Rightarrow> string list \<Rightarrow> (match_error, string option) result" where
  "first_version h fs [] = Inr None"
| "first_version h fs (p # ps) =
     (case mh_toml h fs p of
        None \<Rightarrow> first_version h fs ps
      | Some payload \<Rightarrow>
          bindE (version_in payload) (\<lambda>v. case v of Some s \<Rightarrow> Inr (Some s) | None \<Rightarrow> first_version h fs ps))"

definition detect_backend_version ::
    "match_host \<Rightarrow> file_store \<Rightarrow> string list \<Rightarrow> (match_error, string option) result" where
  "detect_backend_version h fs command =
     (if command = [] then Inr None
      else let parent = path_parent (last command) in
        first_version h fs [path_join parent ''pyproject.toml'', path_join (path_parent parent) ''pyproject.toml''])"

text \<open>The settings file of the backend.\<close>

definition diff_settings :: "match_host \<Rightarrow> string \<Rightarrow> string \<Rightarrow> string" where
  "diff_settings h project objdump =
     (let quoted = (\<lambda>s. [CHR 0x27] @ s @ [CHR 0x27]);
          setting = (\<lambda>k v. ''    config['' @ quoted k @ ''] = '' @ v @ [CHR 0x0A]) in
      ''def apply(config, args):'' @ [CHR 0x0A] @
      setting ''arch'' (quoted ''mipsel'') @
      setting ''objdump_executable'' (mh_repr h objdump) @
      setting ''source_directories'' (''['' @ mh_repr h project @ '']'') @
      setting ''show_line_numbers_default'' ''False'')"

definition run_asm_differ ::
    "match_host \<Rightarrow> string \<Rightarrow> string \<Rightarrow> string list \<Rightarrow> match_function \<Rightarrow> string \<Rightarrow> string \<Rightarrow> string \<Rightarrow> bool \<Rightarrow> rat \<Rightarrow> file_store \<Rightarrow>
       (match_error, (string \<times> json) list) result" where
  "run_asm_differ h project objdump command f candidate reference sec ignore_large_imms timeout fs =
     (let args = command @ [mf_name f, ''-o'', ''-f'', candidate, ''-F'', reference, ''--format'', ''json'',
            ''--algorithm'', ''difflib'', ''--no-pager'', ''--no-line-numbers'', ''-j'', sec] @
            (if ignore_large_imms then [''-i''] else [])
      in case mh_differ h (diff_settings h project objdump) args timeout fs of
           (Timed_Out, _) \<Rightarrow> Inl Differ_Timed_Out
         | (Not_Started, _) \<Rightarrow> Inl Differ_Unavailable
         | (Exited code, out) \<Rightarrow>
             if code \<noteq> 0 then Inl (Differ_Failed code)
             else bindE (from_option Differ_Not_Json (mh_loads h out)) (\<lambda>j.
                  from_option Differ_Not_Object (json_obj j)))"

section \<open>Matching one function\<close>

record match_request =
  mq_project :: string
  mq_selector :: string
  mq_candidate :: string
  mq_asm_differ :: "string option"
  mq_objdump :: "string option"
  mq_reference :: "string option"
  mq_build :: "build_command option"
  mq_section :: string
  mq_ignore_large_imms :: bool
  mq_timeout :: rat

record match_result =
  mr_project_dir :: string
  mr_function_name :: string
  mr_function_address :: int
  mr_candidate_object :: string
  mr_reference_object :: string
  mr_metadata_path :: string
  mr_raw_report_path :: string
  mr_backend_version :: "string option"
  mr_objdump :: string
  mr_raw_score :: int
  mr_max_score :: int
  mr_similarity_percent :: rat
  mr_rows :: row_counts
  mr_warnings :: "string list"

definition RELOCATION_WARNING :: string where
  "RELOCATION_WARNING =
     ''The synthesized reference object contains original instruction words but no MIPS relocation records; '' @
     ''functions with calls/global references may receive a pessimistic asm-differ score.''"

definition relative_or_string :: "string \<Rightarrow> string \<Rightarrow> string" where
  "relative_or_string path project = (case relative_to path project of Some r \<Rightarrow> r | None \<Rightarrow> path)"

definition match_metadata :: "match_request \<Rightarrow> match_function \<Rightarrow> string list option \<Rightarrow> match_result \<Rightarrow> json" where
  "match_metadata q f build res =
     (let relative = (\<lambda>p. JStr (relative_or_string p (mr_project_dir res))); rows = mr_rows res in
      JObj
       [(''backend'', JObj [(''name'', JStr ''asm-differ''), (''version'', json_of_option JStr (mr_backend_version res)),
          (''objdump'', JStr (mr_objdump res))]),
        (''function'', JObj [(''name'', JStr (mf_name f)), (''address'', JInt (mf_address f)), (''size'', JInt (mf_size f)),
          (''section'', JStr (mf_section f))]),
        (''artifacts'', JObj [(''candidate_object'', relative (mr_candidate_object res)),
          (''reference_object'', relative (mr_reference_object res)), (''raw_report'', relative (mr_raw_report_path res))]),
        (''build_command'', json_of_option (\<lambda>parts. JList (map JStr parts)) build),
        (''settings'', JObj [(''section'', JStr (mq_section q)), (''ignore_large_imms'', JBool (mq_ignore_large_imms q)),
          (''algorithm'', JStr ''difflib'')]),
        (''score'', JObj [(''raw'', JInt (mr_raw_score res)), (''max'', JInt (mr_max_score res)),
          (''similarity_percent'', JFloat (mr_similarity_percent res))]),
        (''rows'', JObj [(''matching'', JInt (rc_matching rows)), (''changed'', JInt (rc_changed rows)),
          (''added'', JInt (rc_added rows)), (''removed'', JInt (rc_removed rows))]),
        (''warnings'', JList (map JStr (mr_warnings res)))])"

definition run_build :: "match_host \<Rightarrow> rat \<Rightarrow> string list option \<Rightarrow> (file_store, match_error, unit) action" where
  "run_build h timeout build fs =
     (case build of
        None \<Rightarrow> (Inr (), fs)
      | Some command \<Rightarrow>
          (case mh_build h command timeout fs of
             (Timed_Out, fs') \<Rightarrow> (Inl Build_Timed_Out, fs')
           | (Not_Started, fs') \<Rightarrow> (Inl Build_Not_Started, fs')
           | (Exited code, fs') \<Rightarrow> (if code \<noteq> 0 then Inl (Build_Failed code) else Inr (), fs')))"

definition atomic_write :: "match_host \<Rightarrow> string \<Rightarrow> bytes \<Rightarrow> (file_store, match_error, unit) action" where
  "atomic_write h path content fs =
     (if mh_writable h path then (Inr (), fs(path \<mapsto> content)) else (Inl (Write_Failed path), fs))"

definition json_document :: "match_host \<Rightarrow> json \<Rightarrow> bytes" where
  "json_document h j = mh_dumps h j @ [0x0A]"

text \<open>The reference the backend reads: a given object, or the synthesized one in a temporary file.\<close>

definition reference_payload ::
    "match_host \<Rightarrow> match_request \<Rightarrow> string \<Rightarrow> match_function \<Rightarrow> string \<Rightarrow> string list \<Rightarrow> string \<Rightarrow> file_store \<Rightarrow>
       (match_error, string \<times> bytes option \<times> (string \<times> json) list) result" where
  "reference_payload h q project f candidate command objdump fs =
     (let differ = (\<lambda>reference. run_asm_differ h project objdump command f candidate reference (mq_section q)
            (mq_ignore_large_imms q) (mq_timeout q)); stem = safe_stem f in
      case mq_reference q of
        Some p \<Rightarrow>
          let reference = resolve_project_path h project p in
          if fs reference = None then Inl (Reference_Missing reference)
          else bindE (differ reference fs) (\<lambda>payload. Inr (reference, None, payload))
      | None \<Rightarrow>
          bindE (build_reference_object f) (\<lambda>bs.
          let temporary = path_join (mh_temporary h) (stem @ ''.o'') in
          bindE (differ temporary (fs(temporary \<mapsto> bs))) (\<lambda>payload.
          Inr (path_join project (''build/matching/reference/'' @ stem @ ''.o''), Some bs, payload))))"

definition assess ::
    "match_host \<Rightarrow> match_request \<Rightarrow> string \<Rightarrow> match_function \<Rightarrow> string \<Rightarrow> file_store \<Rightarrow>
       (match_error, match_result \<times> bytes option \<times> (string \<times> json) list) result" where
  "assess h q project f candidate fs =
     bindE (resolve_asm_differ_command h fs (mq_asm_differ q)) (\<lambda>command.
     bindE (resolve_objdump h fs (mq_objdump q)) (\<lambda>objdump.
     bindE (reference_payload h q project f candidate command objdump fs) (\<lambda>(reference, reference_bytes, payload).
     bindE (score payload) (\<lambda>(raw, max_score, percent).
     bindE (classify_rows payload) (\<lambda>rows.
     bindE (reference_warning (read_json (mh_loads h) fs (path_join project ''metadata/references.json'')) f
              (mq_reference q = None)) (\<lambda>warned.
     bindE (detect_backend_version h fs command) (\<lambda>version.
     Inr (\<lparr> mr_project_dir = project, mr_function_name = mf_name f, mr_function_address = mf_address f,
            mr_candidate_object = candidate, mr_reference_object = reference,
            mr_metadata_path = path_join project (''metadata/matching/'' @ safe_stem f @ ''.json''),
            mr_raw_report_path = path_join project (''reports/matching/'' @ safe_stem f @ ''.asm-differ.json''),
            mr_backend_version = version, mr_objdump = objdump, mr_raw_score = raw, mr_max_score = max_score,
            mr_similarity_percent = percent, mr_rows = rows,
            mr_warnings = (if warned then [RELOCATION_WARNING] else []) \<rparr>, reference_bytes, payload))))))))"

definition write_reports ::
    "match_host \<Rightarrow> match_request \<Rightarrow> match_function \<Rightarrow> string list option \<Rightarrow>
       match_result \<times> bytes option \<times> (string \<times> json) list \<Rightarrow> (file_store, match_error, match_result) action" where
  "write_reports h q f build outcome =
     (case outcome of (res, reference_bytes, payload) \<Rightarrow>
        thenS (case reference_bytes of None \<Rightarrow> returnS () | Some bs \<Rightarrow> atomic_write h (mr_reference_object res) bs)
          (thenS (atomic_write h (mr_raw_report_path res) (json_document h (JObj payload)))
            (thenS (atomic_write h (mr_metadata_path res) (json_document h (match_metadata q f build res)))
              (returnS res))))"

definition match_project_function ::
    "match_host \<Rightarrow> match_request \<Rightarrow> (file_store, match_error, match_result) action" where
  "match_project_function h q =
     thenS (ensureS (mq_timeout q > 0) Invalid_Timeout)
      (thenS (ensureS (mq_section q \<noteq> []) Empty_Section)
       (let project = mh_resolve h (mq_project q) in
        bindS (readS (\<lambda>fs. read_json (mh_loads h) fs (path_join project ''metadata/functions.json''))) (\<lambda>metadata.
        bindS (liftS (resolve_match_function metadata (mq_selector q))) (\<lambda>f.
        let candidate = resolve_project_path h project (mq_candidate q) in
        bindS (liftS (normalize_build_command h (mq_build q))) (\<lambda>build.
        thenS (run_build h (mq_timeout q) build)
         (bindS (readS (\<lambda>fs. fs candidate \<noteq> None)) (\<lambda>built.
          thenS (ensureS built (Candidate_Missing candidate))
           (bindS (readS (assess h q project f candidate)) (\<lambda>outcome.
            bindS (liftS outcome) (write_reports h q f build))))))))))"


lemma similarity_bounds: "0 \<le> similarity raw m" "similarity raw m \<le> 100"
proof -
  let ?x = "100 * min 100 (max 0 (100 * (1 - of_int raw / of_int m :: rat)))"
  have "round (0 :: rat) \<le> round ?x" "round ?x \<le> round (10000 :: rat)"
    by (intro round_mono; simp)+
  then have "0 \<le> round ?x" "round ?x \<le> 10000" by simp_all
  then have "0 \<le> (of_int (round ?x) :: rat)" "(of_int (round ?x) :: rat) \<le> 10000" by simp_all
  then show "0 \<le> similarity raw m" "similarity raw m \<le> 100" by (simp_all add: similarity_def)
qed

lemma score_bounds: "score payload = Inr (raw, m, percent) \<Longrightarrow> 0 \<le> percent \<and> percent \<le> 100"
  by (auto simp: score_def similarity_bounds split: option.splits if_splits)

lemma path_join_relative:
  "\<not> path_absolute b \<Longrightarrow> \<not> path_absolute c \<Longrightarrow> path_join a b = path_join a c \<longleftrightarrow> b = c"
  by (simp add: path_join_def)

lemma atomic_write_Inr:
  "atomic_write h p bs fs = (Inr u, fs') \<longleftrightarrow> mh_writable h p \<and> fs' = fs(p \<mapsto> bs)"
  by (auto simp: atomic_write_def)

text \<open>What a reported match says.\<close>

definition match_reported :: "match_host \<Rightarrow> match_request \<Rightarrow> match_function \<Rightarrow> file_store \<Rightarrow> match_result \<Rightarrow> bool" where
  "match_reported h q f fs' res \<longleftrightarrow>
     mr_function_name res = mf_name f \<and> mr_function_address res = mf_address f \<and>
     0 \<le> mr_similarity_percent res \<and> mr_similarity_percent res \<le> 100 \<and>
     (\<exists>payload build.
        score payload = Inr (mr_raw_score res, mr_max_score res, mr_similarity_percent res) \<and>
        classify_rows payload = Inr (mr_rows res) \<and>
        normalize_build_command h (mq_build q) = Inr build \<and>
        fs' (mr_raw_report_path res) = Some (json_document h (JObj payload)) \<and>
        fs' (mr_metadata_path res) = Some (json_document h (match_metadata q f build res))) \<and>
     (mq_reference q = None \<longrightarrow>
        (\<exists>data. build_reference_object f = Inr data \<and> fs' (mr_reference_object res) = Some data))"

lemma bindS_Inr_iff: "bindS m g s = (Inr y, u) \<longleftrightarrow> (\<exists>x t. m s = (Inr x, t) \<and> g x t = (Inr y, u))"
  by (rule bindS_Inr)

lemma thenS_Inr_iff: "thenS m n s = (Inr y, u) \<longleftrightarrow> (\<exists>x t. m s = (Inr x, t) \<and> n t = (Inr y, u))"
  by (simp add: thenS_def bindS_Inr)

lemma ensureS_Inr_iff: "ensureS c e s = (Inr u, t) \<longleftrightarrow> c \<and> t = s"
  by (auto simp: ensureS_def)

lemmas action_Inr = bindS_Inr_iff thenS_Inr_iff ensureS_Inr_iff

lemma assess_parts:
  assumes "assess h q project f candidate fs = Inr (res, bytes, payload)"
  shows "score payload = Inr (mr_raw_score res, mr_max_score res, mr_similarity_percent res)"
    and "classify_rows payload = Inr (mr_rows res)"
    and "mr_function_name res = mf_name f" "mr_function_address res = mf_address f"
    and "mr_metadata_path res = path_join project (''metadata/matching/'' @ safe_stem f @ ''.json'')"
    and "mr_raw_report_path res = path_join project (''reports/matching/'' @ safe_stem f @ ''.asm-differ.json'')"
    and "mq_reference q = None \<Longrightarrow> (\<exists>data. build_reference_object f = Inr data \<and> bytes = Some data \<and>
           mr_reference_object res = path_join project (''build/matching/reference/'' @ safe_stem f @ ''.o''))"
    and "mq_reference q \<noteq> None \<Longrightarrow> bytes = None"
proof -
  have "score payload = Inr (mr_raw_score res, mr_max_score res, mr_similarity_percent res) \<and>
    classify_rows payload = Inr (mr_rows res) \<and> mr_function_name res = mf_name f \<and> mr_function_address res = mf_address f \<and>
    mr_metadata_path res = path_join project (''metadata/matching/'' @ safe_stem f @ ''.json'') \<and>
    mr_raw_report_path res = path_join project (''reports/matching/'' @ safe_stem f @ ''.asm-differ.json'') \<and>
    (case mq_reference q of
       None \<Rightarrow> \<exists>data. build_reference_object f = Inr data \<and> bytes = Some data \<and>
         mr_reference_object res = path_join project (''build/matching/reference/'' @ safe_stem f @ ''.o'')
     | Some _ \<Rightarrow> bytes = None)"
    using assms
    by (cases "mq_reference q") (auto simp: assess_def reference_payload_def bindE_Inr_iff Let_def split: if_splits)
  then show "score payload = Inr (mr_raw_score res, mr_max_score res, mr_similarity_percent res)"
    and "classify_rows payload = Inr (mr_rows res)"
    and "mr_function_name res = mf_name f" "mr_function_address res = mf_address f"
    and "mr_metadata_path res = path_join project (''metadata/matching/'' @ safe_stem f @ ''.json'')"
    and "mr_raw_report_path res = path_join project (''reports/matching/'' @ safe_stem f @ ''.asm-differ.json'')"
    and "mq_reference q = None \<Longrightarrow> (\<exists>data. build_reference_object f = Inr data \<and> bytes = Some data \<and>
           mr_reference_object res = path_join project (''build/matching/reference/'' @ safe_stem f @ ''.o''))"
    and "mq_reference q \<noteq> None \<Longrightarrow> bytes = None"
    by (auto split: option.splits)
qed

lemma match_project_function_reported:
  assumes "match_project_function h q fs = (Inr res, fs')"
  shows "\<exists>f. resolve_match_function
      (read_json (mh_loads h) fs (path_join (mh_resolve h (mq_project q)) ''metadata/functions.json'')) (mq_selector q) = Inr f \<and>
    match_reported h q f fs' res"
proof -
  obtain f build fs1 bytes payload where f: "resolve_match_function
      (read_json (mh_loads h) fs (path_join (mh_resolve h (mq_project q)) ''metadata/functions.json'')) (mq_selector q) = Inr f"
    and build: "normalize_build_command h (mq_build q) = Inr build"
    and a: "assess h q (mh_resolve h (mq_project q)) f (resolve_project_path h (mh_resolve h (mq_project q)) (mq_candidate q)) fs1 =
        Inr (res, bytes, payload)"
    and w: "write_reports h q f build (res, bytes, payload) fs1 = (Inr res, fs')"
    using assms
    by (auto simp: match_project_function_def action_Inr Let_def liftS_def readS_def write_reports_def)
  note parts = assess_parts [OF a]
  have bounds: "0 \<le> mr_similarity_percent res" "mr_similarity_percent res \<le> 100"
    using score_bounds [OF parts(1)] by simp_all
  let ?p = "mh_resolve h (mq_project q)"
  have different: "path_join ?p (''metadata/matching/'' @ safe_stem f @ ''.json'') \<noteq>
        path_join ?p (''reports/matching/'' @ safe_stem f @ ''.asm-differ.json'')"
      "path_join ?p (''build/matching/reference/'' @ safe_stem f @ ''.o'') \<noteq>
        path_join ?p (''reports/matching/'' @ safe_stem f @ ''.asm-differ.json'')"
      "path_join ?p (''build/matching/reference/'' @ safe_stem f @ ''.o'') \<noteq>
        path_join ?p (''metadata/matching/'' @ safe_stem f @ ''.json'')"
    by (subst path_join_relative; simp add: path_absolute_def)+
  obtain fs2 where fs': "fs' = fs2(mr_raw_report_path res \<mapsto> json_document h (JObj payload),
      mr_metadata_path res \<mapsto> json_document h (match_metadata q f build res))"
    and fs2: "fs2 = (case bytes of None \<Rightarrow> fs1 | Some bs \<Rightarrow> fs1(mr_reference_object res \<mapsto> bs))"
    using w by (auto simp: write_reports_def thenS_Inr_iff atomic_write_Inr split: option.splits)
  show ?thesis
  proof (intro exI conjI)
    show "match_reported h q f fs' res"
      unfolding match_reported_def using parts build bounds different
      by (auto simp: fs' fs2)
  qed (rule f)
qed

text \<open>
  A match that returns a result has read the selected function from the project's
  metadata; its scores are those of the backend's answer, between 0 and 100 percent; the raw answer
  and the metadata that describes exactly this result are on disk, and so is the reference object
  it was compared with when that was synthesized.
\<close>

theorem match_is_reported:
  "match_project_function h q fs = (Inr res, fs') \<Longrightarrow>
     \<exists>f. resolve_match_function
          (read_json (mh_loads h) fs (path_join (mh_resolve h (mq_project q)) ''metadata/functions.json'')) (mq_selector q) = Inr f \<and>
        match_reported h q f fs' res"
  by (rule match_project_function_reported)

definition sample_host :: match_host where
  "sample_host =
     \<lparr> mh_environ = (\<lambda>_. None), mh_which = (\<lambda>name. Some (''/bin/'' @ name)), mh_resolve = (\<lambda>p. p),
       mh_is_dir = (\<lambda>_. False), mh_python = ''/bin/python'', mh_temporary = ''/tmp'', mh_writable = (\<lambda>_. True),
       mh_split_words = (\<lambda>s. Some (split_on (CHR '' '') s)), mh_build = (\<lambda>_ _ fs. (Exited 0, fs)),
       mh_repr = (\<lambda>s. s), mh_differ = (\<lambda>_ _ _ _. (Exited 0, [2])),
       mh_loads = (\<lambda>bs.
         if bs = [1] then Some (JList [JObj [(''name'', JStr ''f''), (''address'', JInt 16), (''size'', JInt 4),
             (''section'', JStr ''.text''), (''instruction_count'', JInt 1), (''instructions'', JList [JObj
               [(''address'', JInt 16), (''word'', JInt 7), (''text'', JStr ''x''), (''valid'', JBool True),
                (''implemented'', JBool True)]])]])
         else Some (JObj [(''current_score'', JInt 1), (''max_score'', JInt 4), (''rows'', JList [])])),
       mh_dumps = (\<lambda>_. [3]), mh_toml = (\<lambda>_ _. None) \<rparr>"

definition sample_request :: match_request where
  "sample_request =
     \<lparr> mq_project = ''/p'', mq_selector = ''f'', mq_candidate = ''f.o'', mq_asm_differ = None, mq_objdump = None,
       mq_reference = None, mq_build = None, mq_section = ''.text'', mq_ignore_large_imms = False, mq_timeout = 120 \<rparr>"

definition sample_store :: file_store where
  "sample_store p =
     (if p = ''/p/metadata/functions.json'' then Some [1] else if p = ''/p/f.o'' then Some [0] else None)"

definition sample_match :: "(match_error, match_result) result \<times> file_store" where
  "sample_match = match_project_function sample_host sample_request sample_store"

lemma sample_match_succeeds: "\<not> isl (fst sample_match)"
  by code_simp

lemma match_is_reported_witness:
  "\<exists>f. resolve_match_function (read_json (mh_loads sample_host) sample_store
        (path_join (mh_resolve sample_host (mq_project sample_request)) ''metadata/functions.json'')) (mq_selector sample_request) = Inr f \<and>
     match_reported sample_host sample_request f (snd sample_match) (projr (fst sample_match))"
proof (rule match_is_reported)
  show "match_project_function sample_host sample_request sample_store = (Inr (projr (fst sample_match)), snd sample_match)"
    using sample_match_succeeds by (cases "fst sample_match") (auto simp: sample_match_def prod_eq_iff)
qed

text \<open>
  The metadata of a project that is not UTF-8 ends in the decoder's own error, not in one of the
  matching errors that the other broken files give.
\<close>

lemma undecodable_metadata: "resolve_match_function Undecodable_File selector = Inl Metadata_Undecodable"
  by (simp add: resolve_match_function_def load_functions_def bindE_def)

end
