(* ===== verification/Debugger_Frames.thy ===== *)
theory Debugger_Frames
  imports Effects
begin

text \<open>
  The byte level of \<open>runtime/transport.py\<close>: a socket, the exact and the header-terminated
  reads, and WebSocket frames.

  A socket holds what its peer will deliver: pieces of data, in which a single \<open>recv\<close> returns at
  most one piece, timeouts and operating-system errors; at the end the peer has closed the
  connection and \<open>recv\<close> returns nothing. It also holds whether each following \<open>sendall\<close> works, the
  bytes that \<open>os.urandom\<close> returns and how far the clock advances between two readings.
\<close>

section \<open>Sockets\<close>

datatype piece = Data bytes | Receive_Timeout | Receive_Failure

record wire =
  wi_incoming :: "piece list"
  wi_sent :: "bytes list"
  wi_sends :: "bool list"
  wi_keys :: "bytes list"
  wi_now :: rat
  wi_ticks :: "rat list"
  wi_timeout :: rat
  wi_closed :: bool

datatype transport_error =
    Receive_Timed_Out | Connection_Failed | Closed_Unexpectedly
  | Handshake_Timed_Out | Closed_During_Handshake | Headers_Too_Large
  | Bad_Mask_Key | Fragmented_Frame | Frame_Too_Large int int
  | Not_Loopback | Bad_Port | Bad_Timeouts | Bad_Bounds
  | Connect_Timed_Out | Connect_Failed
  | Handshake_Send_Failed | Bad_Handshake_Status string | Accept_Key_Mismatch
  | Send_Failed | Connection_Closed | Invalid_Json | Response_Not_Object
  | Request_Timed_Out | Wait_Not_Positive | Debugger_Error json_message
  | Missing_Categories | Bad_Category | Bad_Register_Arrays | Register_Lengths_Differ | Bad_Register_Value
  | Bad_Read_Range | Read_Too_Large int int | Missing_Base64 | Invalid_Base64 | Read_Size_Mismatch int int
  | Missing_Frames | Missing_Pc
and json_message = Unknown_Message | Message_Text string | Other_Message

type_synonym 'a wire_action = "(wire, transport_error, 'a) action"

text \<open>The exception classes of the errors.\<close>

datatype error_class = Timeout_Error | Connection_Error | Protocol_Error

fun transport_error_class :: "transport_error \<Rightarrow> error_class" where
  "transport_error_class Receive_Timed_Out = Timeout_Error"
| "transport_error_class Handshake_Timed_Out = Timeout_Error"
| "transport_error_class Connect_Timed_Out = Timeout_Error"
| "transport_error_class Request_Timed_Out = Timeout_Error"
| "transport_error_class Wait_Not_Positive = Timeout_Error"
| "transport_error_class Connection_Failed = Connection_Error"
| "transport_error_class Closed_Unexpectedly = Connection_Error"
| "transport_error_class Closed_During_Handshake = Connection_Error"
| "transport_error_class Not_Loopback = Connection_Error"
| "transport_error_class Bad_Port = Connection_Error"
| "transport_error_class Bad_Timeouts = Connection_Error"
| "transport_error_class Bad_Bounds = Connection_Error"
| "transport_error_class Connect_Failed = Connection_Error"
| "transport_error_class Handshake_Send_Failed = Connection_Error"
| "transport_error_class (Bad_Handshake_Status _) = Connection_Error"
| "transport_error_class Accept_Key_Mismatch = Connection_Error"
| "transport_error_class Send_Failed = Connection_Error"
| "transport_error_class Connection_Closed = Connection_Error"
| "transport_error_class _ = Protocol_Error"

definition recv :: "nat \<Rightarrow> transport_error \<Rightarrow> wire \<Rightarrow> (transport_error, bytes) result \<times> wire" where
  "recv n timed_out w =
     (case wi_incoming w of
        [] \<Rightarrow> (Inr [], w)
      | Receive_Timeout # ps \<Rightarrow> (Inl timed_out, w\<lparr>wi_incoming := ps\<rparr>)
      | Receive_Failure # ps \<Rightarrow> (Inl Connection_Failed, w\<lparr>wi_incoming := ps\<rparr>)
      | Data d # ps \<Rightarrow>
          if n < length d then (Inr (take n d), w\<lparr>wi_incoming := Data (drop n d) # ps\<rparr>)
          else (Inr d, w\<lparr>wi_incoming := ps\<rparr>))"

definition wire_size :: "wire \<Rightarrow> nat" where
  "wire_size w = sum_list (map (\<lambda>p. case p of Data d \<Rightarrow> Suc (length d) | _ \<Rightarrow> 1) (wi_incoming w))"

lemma recv_length: "recv n e w = (Inr c, w') \<Longrightarrow> length c \<le> n"
  by (auto simp: recv_def split: list.splits piece.splits if_splits)

lemma recv_size: "recv n e w = (r, w') \<Longrightarrow> wire_size w' \<le> wire_size w \<and> (0 < n \<longrightarrow> r \<noteq> Inr [] \<longrightarrow> wire_size w' < wire_size w)"
  by (auto simp: recv_def wire_size_def split: list.splits piece.splits if_splits)

text \<open>\<open>_recv_exact\<close>: chunks until the size is reached.\<close>

function recv_exact :: "nat \<Rightarrow> wire \<Rightarrow> (transport_error, bytes) result \<times> wire" where
  "recv_exact n w =
     (if n = 0 then (Inr [], w)
      else case recv n Receive_Timed_Out w of
        (Inl e, w') \<Rightarrow> (Inl e, w')
      | (Inr chunk, w') \<Rightarrow>
          if chunk = [] then (Inl Closed_Unexpectedly, w')
          else (case recv_exact (n - length chunk) w' of
                  (Inl e, w'') \<Rightarrow> (Inl e, w'')
                | (Inr rest, w'') \<Rightarrow> (Inr (chunk @ rest), w'')))"
  by pat_completeness auto
termination
  by (relation "measure fst") auto

declare recv_exact.simps [simp del]

lemma recv_exact_0 [simp]: "recv_exact 0 w = (Inr [], w)"
  by (subst recv_exact.simps) simp

lemma recv_exact_length: "recv_exact n w = (Inr bs, w') \<Longrightarrow> length bs = n"
proof (induction n w arbitrary: bs w' rule: recv_exact.induct)
  case (1 n w)
  show ?case
  proof (cases "n = 0")
    case True
    with "1.prems" show ?thesis by simp
  next
    case False
    with "1.prems" obtain c w1 rest where c: "recv n Receive_Timed_Out w = (Inr c, w1)" "c \<noteq> []"
      "recv_exact (n - length c) w1 = (Inr rest, w')" "bs = c @ rest"
      by (subst (asm) recv_exact.simps) (auto split: prod.splits sum.splits if_splits)
    have "length rest = n - length c" by (rule "1.IH" [OF False c(1) [symmetric] refl c(2,3)])
    with recv_length [OF c(1)] show ?thesis by (simp add: c(4))
  qed
qed

lemma recv_exact_size:
  "recv_exact n w = (r, w') \<Longrightarrow> wire_size w' \<le> wire_size w \<and> (0 < n \<longrightarrow> \<not> isl r \<longrightarrow> wire_size w' < wire_size w)"
proof (induction n w arbitrary: r w' rule: recv_exact.induct)
  case (1 n w)
  show ?case
  proof (cases "n = 0")
    case True
    with "1.prems" show ?thesis by auto
  next
    case False
    obtain r1 w1 where r1: "recv n Receive_Timed_Out w = (r1, w1)" by fastforce
    note sz = recv_size [OF r1]
    show ?thesis
    proof (cases r1)
      case (Inl e)
      with "1.prems" False r1 sz show ?thesis by (subst (asm) recv_exact.simps) auto
    next
      case (Inr c)
      show ?thesis
      proof (cases "c = []")
        case True
        with "1.prems" False r1 Inr sz show ?thesis by (subst (asm) recv_exact.simps) auto
      next
        case c: False
        obtain r2 w2 where r2: "recv_exact (n - length c) w1 = (r2, w2)" by fastforce
        have "wire_size w2 \<le> wire_size w1"
          using "1.IH" [OF False r1 [symmetric] Inr c r2] by simp
        moreover have "w' = w2"
          using "1.prems" False r1 Inr c r2 by (subst (asm) recv_exact.simps) (auto split: sum.splits)
        ultimately show ?thesis using sz False c Inr by simp
      qed
    qed
  qed
qed

text \<open>\<open>sendall\<close>, \<open>os.urandom\<close> and \<open>time.monotonic()\<close>.\<close>

definition sendall :: "bytes \<Rightarrow> transport_error \<Rightarrow> unit wire_action" where
  "sendall bs failed w =
     (case wi_sends w of
        False # rest \<Rightarrow> (Inl failed, w\<lparr>wi_sends := rest\<rparr>)
      | _ \<Rightarrow> (Inr (), w\<lparr>wi_sends := tl (wi_sends w), wi_sent := wi_sent w @ [bs]\<rparr>))"

definition urandom :: "nat \<Rightarrow> bytes wire_action" where
  "urandom n w =
     (Inr (take n ((case wi_keys w of [] \<Rightarrow> [] | k # _ \<Rightarrow> k) @ replicate n 0)), w\<lparr>wi_keys := tl (wi_keys w)\<rparr>)"

definition monotonic :: "rat wire_action" where
  "monotonic w =
     (let now = wi_now w + max 0 (case wi_ticks w of [] \<Rightarrow> 0 | t # _ \<Rightarrow> t)
      in (Inr now, w\<lparr>wi_now := now, wi_ticks := tl (wi_ticks w)\<rparr>))"

definition settimeout :: "rat \<Rightarrow> (wire, 'e, unit) action" where
  "settimeout t w = (Inr (), w\<lparr>wi_timeout := t\<rparr>)"

text \<open>\<open>_recv_http_headers\<close>: one byte at a time up to a blank line.\<close>

definition HEADER_END :: bytes where
  "HEADER_END = [0x0D, 0x0A, 0x0D, 0x0A]"

definition ends_with :: "'a list \<Rightarrow> 'a list \<Rightarrow> bool" where
  "ends_with xs suf \<longleftrightarrow> length suf \<le> length xs \<and> drop (length xs - length suf) xs = suf"

definition MAX_HANDSHAKE_HEADER_BYTES :: int where
  "MAX_HANDSHAKE_HEADER_BYTES = 65536"

function recv_headers_from :: "bytes \<Rightarrow> wire \<Rightarrow> (transport_error, bytes) result \<times> wire" where
  "recv_headers_from data w =
     (if ends_with data HEADER_END then (Inr data, w)
      else case recv 1 Handshake_Timed_Out w of
        (Inl e, w') \<Rightarrow> (Inl e, w')
      | (Inr chunk, w') \<Rightarrow>
          if chunk = [] then (Inl Closed_During_Handshake, w')
          else if blen (data @ chunk) > MAX_HANDSHAKE_HEADER_BYTES then (Inl Headers_Too_Large, w')
          else recv_headers_from (data @ chunk) w')"
  by pat_completeness auto
termination
proof (relation "measure (\<lambda>(_, w). wire_size w)", goal_cases)
  case (2 data w r w' chunk)
  then show ?case using recv_size [of 1 Handshake_Timed_Out w "Inr chunk" w'] by (simp flip: One_nat_def)
qed simp

declare recv_headers_from.simps [simp del]

definition recv_http_headers :: "bytes wire_action" where
  "recv_http_headers = recv_headers_from []"

section \<open>Frames\<close>

definition mask_payload :: "bytes \<Rightarrow> bytes \<Rightarrow> bytes" where
  "mask_payload key payload = map (\<lambda>(index, v). v XOR key ! (index mod 4)) (enumerate 0 payload)"

definition encode_client_frame :: "bytes \<Rightarrow> int \<Rightarrow> bytes \<Rightarrow> (transport_error, bytes) result" where
  "encode_client_frame payload opcode key =
     bindE (ensure (length key = 4) Bad_Mask_Key) (\<lambda>_.
     let first = word_of_int (0x80 OR opcode);
         len = blen payload;
         header = (if len < 126 then [first, word_of_int (0x80 OR len)]
                   else if len \<le> 0xFFFF then [first, word_of_int (0x80 OR 126)] @ be_bytes 2 len
                   else [first, word_of_int (0x80 OR 127)] @ be_bytes 8 len)
     in Inr (header @ key @ mask_payload key payload))"

definition frame_length :: "int \<Rightarrow> int wire_action" where
  "frame_length len =
     (if len = 126 then bindS (recv_exact 2) (\<lambda>bs. returnS (be_int bs))
      else if len = 127 then bindS (recv_exact 8) (\<lambda>bs. returnS (be_int bs))
      else returnS len)"

definition receive_frame :: "int \<Rightarrow> (int \<times> bytes) wire_action" where
  "receive_frame max_frame_bytes =
     bindS (recv_exact 2) (\<lambda>head.
     let first = uint (head ! 0); second = uint (head ! 1) in
     thenS (ensureS (first AND 0x80 \<noteq> 0) Fragmented_Frame)
       (bindS (frame_length (second AND 0x7F)) (\<lambda>len.
        thenS (ensureS (len \<le> max_frame_bytes) (Frame_Too_Large len max_frame_bytes))
          (bindS (if second AND 0x80 \<noteq> 0 then recv_exact 4 else returnS []) (\<lambda>mask_key.
           bindS (recv_exact (nat len)) (\<lambda>payload.
           returnS (first AND 0x0F, if mask_key \<noteq> [] then mask_payload mask_key payload else payload)))))))"

section \<open>Frames survive the network\<close>

text \<open>
  A wire delivers a byte string when its pieces, in whatever fragments, are those bytes and
  nothing goes wrong.
\<close>

definition delivers :: "wire \<Rightarrow> bytes \<Rightarrow> bool" where
  "delivers w xs \<longleftrightarrow> (\<exists>pieces. wi_incoming w = map Data pieces \<and> [] \<notin> set pieces \<and> concat pieces = xs)"

text \<open>Only the incoming data of a wire has changed.\<close>

definition same_but_incoming :: "wire \<Rightarrow> wire \<Rightarrow> bool" where
  "same_but_incoming w w' \<longleftrightarrow> w' = w\<lparr>wi_incoming := wi_incoming w'\<rparr>"

lemma same_but_incoming_refl [simp]: "same_but_incoming w w"
  by (simp add: same_but_incoming_def)

lemma same_but_incoming_trans: "same_but_incoming w w' \<Longrightarrow> same_but_incoming w' w'' \<Longrightarrow> same_but_incoming w w''"
  unfolding same_but_incoming_def by (metis wire.fold_congs(1) wire.surjective wire.update_convs(1))

lemma recv_delivers:
  assumes "delivers w xs" "xs \<noteq> []" "0 < n"
  shows "\<exists>c w' rest. recv n e w = (Inr c, w') \<and> c \<noteq> [] \<and> xs = c @ rest \<and> length c \<le> n \<and>
    delivers w' rest \<and> same_but_incoming w w'"
proof -
  from assms(1,2) obtain p ps where w: "wi_incoming w = map Data (p # ps)" "[] \<notin> set (p # ps)" "concat (p # ps) = xs"
    unfolding delivers_def by (metis concat.simps(1) list.exhaust)
  then have p: "p \<noteq> []" by auto
  show ?thesis
  proof (cases "n < length p")
    case True
    let ?w = "w\<lparr>wi_incoming := map Data (drop n p # ps)\<rparr>"
    have "recv n e w = (Inr (take n p), ?w)" using True w by (simp add: recv_def)
    moreover have "delivers ?w (drop n p @ concat ps)"
      using True w unfolding delivers_def by (intro exI [of _ "drop n p # ps"]) auto
    moreover have "xs = take n p @ drop n p @ concat ps"
      using w(3) by (metis append.assoc append_take_drop_id concat.simps(2))
    ultimately show ?thesis using p assms(3) by (force simp: same_but_incoming_def)
  next
    case False
    let ?w = "w\<lparr>wi_incoming := map Data ps\<rparr>"
    have "recv n e w = (Inr p, ?w)" using False w by (simp add: recv_def)
    moreover have "delivers ?w (concat ps)" using w unfolding delivers_def by auto
    ultimately show ?thesis using p False w(3) by (force simp: same_but_incoming_def)
  qed
qed

lemma recv_exact_delivers:
  "delivers w (xs @ rest) \<Longrightarrow>
     \<exists>w'. recv_exact (length xs) w = (Inr xs, w') \<and> delivers w' rest \<and> same_but_incoming w w'"
proof (induction "length xs" arbitrary: xs w rule: less_induct)
  case less
  show ?case
  proof (cases "xs = []")
    case True
    with less.prems show ?thesis by auto
  next
    case False
    with less.prems obtain c w1 ys where c: "recv (length xs) Receive_Timed_Out w = (Inr c, w1)" "c \<noteq> []"
      "xs @ rest = c @ ys" "length c \<le> length xs" "delivers w1 ys" "same_but_incoming w w1"
      using recv_delivers [of w "xs @ rest" "length xs" Receive_Timed_Out] by auto
    have "take (length c) (xs @ rest) = take (length c) (c @ ys)" by (simp only: c(3))
    with c(4) have "take (length c) xs = c" by simp
    then obtain zs where xs: "xs = c @ zs" by (metis append_take_drop_id)
    with c(3) have ys: "ys = zs @ rest" by simp
    have "length zs < length xs" using c(2) xs by simp
    with less.hyps [of zs w1] c(5) ys obtain w2 where w2: "recv_exact (length zs) w1 = (Inr zs, w2)"
      "delivers w2 rest" "same_but_incoming w1 w2" by auto
    have "length xs - length c = length zs" by (simp add: xs)
    with False c(1,2) w2(1) have "recv_exact (length xs) w = (Inr xs, w2)"
      by (subst recv_exact.simps) (simp add: xs)
    with w2 c(6) show ?thesis using same_but_incoming_trans by blast
  qed
qed

lemma mask_payload_involution: "length key = 4 \<Longrightarrow> mask_payload key (mask_payload key bs) = bs"
  by (rule nth_equalityI) (simp_all add: mask_payload_def nth_enumerate_eq xor.assoc)

lemma length_mask_payload [simp]: "length (mask_payload key bs) = length bs"
  by (simp add: mask_payload_def)

lemma frame_byte_fields:
  assumes "0 \<le> n" "n < 128"
  shows "uint (word_of_int (0x80 OR n) :: byte) AND 0x7F = n" "uint (word_of_int (0x80 OR n) :: byte) AND 0x80 \<noteq> 0"
    "n < 16 \<longrightarrow> uint (word_of_int (0x80 OR n) :: byte) AND 0x0F = n"
proof -
  have "list_all (\<lambda>n. uint (word_of_int (0x80 OR n) :: byte) AND 0x7F = n \<and>
      uint (word_of_int (0x80 OR n) :: byte) AND 0x80 \<noteq> 0 \<and>
      (n < 16 \<longrightarrow> uint (word_of_int (0x80 OR n) :: byte) AND 0x0F = n)) [0..127]"
    by code_simp
  moreover have "n \<in> set [0..127]" using assms by simp
  ultimately show "uint (word_of_int (0x80 OR n) :: byte) AND 0x7F = n" "uint (word_of_int (0x80 OR n) :: byte) AND 0x80 \<noteq> 0"
    "n < 16 \<longrightarrow> uint (word_of_int (0x80 OR n) :: byte) AND 0x0F = n"
    unfolding list_all_iff by blast+
qed

text \<open>The length field, after the first two bytes of the header.\<close>

definition length_field :: "int \<Rightarrow> int \<times> bytes" where
  "length_field len =
     (if len < 126 then (len, []) else if len \<le> 0xFFFF then (126, be_bytes 2 len) else (127, be_bytes 8 len))"

lemma encode_client_frame_eq:
  "length key = 4 \<Longrightarrow> encode_client_frame payload opcode key =
     Inr (([word_of_int (0x80 OR opcode), word_of_int (0x80 OR fst (length_field (blen payload)))] @
       snd (length_field (blen payload))) @ key @ mask_payload key payload)"
  by (simp add: encode_client_frame_def length_field_def)

lemma frame_length_delivers:
  assumes "delivers w (snd (length_field len) @ rest)" "0 \<le> len" "len < 18446744073709551616"
  shows "\<exists>w'. frame_length (fst (length_field len)) w = (Inr len, w') \<and> delivers w' rest \<and> same_but_incoming w w'"
proof -
  consider "len < 126" | "126 \<le> len" "len \<le> 0xFFFF" | "0xFFFF < len" by linarith
  then show ?thesis
  proof cases
    case 1
    with assms show ?thesis by (auto simp: length_field_def frame_length_def)
  next
    case 2
    with assms have "delivers w (be_bytes 2 len @ rest)" by (simp add: length_field_def)
    from recv_exact_delivers [OF this] 2 show ?thesis
      by (auto simp: length_field_def frame_length_def bindS_def be_int_be_bytes)
  next
    case 3
    with assms have "delivers w (be_bytes 8 len @ rest)" by (simp add: length_field_def)
    from recv_exact_delivers [OF this] 3 assms show ?thesis
      by (auto simp: length_field_def frame_length_def bindS_def be_int_be_bytes)
  qed
qed

lemma receive_encoded_frame:
  assumes enc: "encode_client_frame payload opcode key = Inr frame" and op: "0 \<le> opcode" "opcode < 16"
    and len: "blen payload \<le> max_frame_bytes" "blen payload < 18446744073709551616"
    and del: "delivers w (frame @ rest)"
  shows "\<exists>w'. receive_frame max_frame_bytes w = (Inr (opcode, payload), w') \<and> delivers w' rest \<and> same_but_incoming w w'"
proof -
  from enc have key: "length key = 4" by (simp add: encode_client_frame_def bindE_Inr_iff)
  let ?lf = "length_field (blen payload)"
  let ?head = "[word_of_int (0x80 OR opcode), word_of_int (0x80 OR fst ?lf)] :: bytes"
  have lf: "0 \<le> fst ?lf" "fst ?lf < 128" by (auto simp: length_field_def)
  note f1 = frame_byte_fields [of opcode] and f2 = frame_byte_fields [OF lf]
  have frame: "frame = ?head @ snd ?lf @ key @ mask_payload key payload"
    using enc key by (simp add: encode_client_frame_eq)
  from del obtain w1 where w1: "recv_exact 2 w = (Inr ?head, w1)"
      "delivers w1 (snd ?lf @ key @ mask_payload key payload @ rest)" "same_but_incoming w w1"
    unfolding frame using recv_exact_delivers [of w ?head] by (auto simp: numeral_2_eq_2)
  from frame_length_delivers [OF w1(2)] len obtain w2 where w2: "frame_length (fst ?lf) w1 = (Inr (blen payload), w2)"
      "delivers w2 (key @ mask_payload key payload @ rest)" "same_but_incoming w1 w2" by auto
  from recv_exact_delivers [OF w2(2)] key obtain w3 where w3: "recv_exact 4 w2 = (Inr key, w3)"
      "delivers w3 (mask_payload key payload @ rest)" "same_but_incoming w2 w3" by auto
  from recv_exact_delivers [OF w3(2)] obtain w4 where w4: "recv_exact (length payload) w3 = (Inr (mask_payload key payload), w4)"
      "delivers w4 rest" "same_but_incoming w3 w4" by auto
  have "key \<noteq> []" using key by auto
  then have "receive_frame max_frame_bytes w = (Inr (opcode, payload), w4)"
    using f1 f2 op len(1) key
    by (simp add: receive_frame_def bindS_def thenS_def ensureS_def w1(1) w2(1) w3(1) w4(1) mask_payload_involution)
  moreover have "same_but_incoming w w4"
    using w1(3) w2(3) w3(3) w4(3) same_but_incoming_trans by blast
  ultimately show ?thesis using w4(2) by blast
qed

text \<open>The frames of the debugger carry no mask.\<close>

definition plain_frame :: "int \<Rightarrow> bytes \<Rightarrow> bytes" where
  "plain_frame opcode payload =
     ([word_of_int (0x80 OR opcode), word_of_int (fst (length_field (blen payload)))] @
       snd (length_field (blen payload))) @ payload"

lemma plain_byte_fields:
  assumes "0 \<le> n" "n < 128"
  shows "uint (word_of_int n :: byte) AND 0x7F = n" "uint (word_of_int n :: byte) AND 0x80 = 0"
proof -
  have "list_all (\<lambda>n. uint (word_of_int n :: byte) AND 0x7F = n \<and> uint (word_of_int n :: byte) AND 0x80 = 0) [0..127]"
    by code_simp
  moreover have "n \<in> set [0..127]" using assms by simp
  ultimately show "uint (word_of_int n :: byte) AND 0x7F = n" "uint (word_of_int n :: byte) AND 0x80 = 0"
    unfolding list_all_iff by blast+
qed

lemma receive_plain_frame:
  assumes op: "0 \<le> opcode" "opcode < 16"
    and len: "blen payload \<le> max_frame_bytes" "blen payload < 18446744073709551616"
    and del: "delivers w (plain_frame opcode payload @ rest)"
  shows "\<exists>w'. receive_frame max_frame_bytes w = (Inr (opcode, payload), w') \<and> delivers w' rest \<and> same_but_incoming w w'"
proof -
  let ?lf = "length_field (blen payload)"
  let ?head = "[word_of_int (0x80 OR opcode), word_of_int (fst ?lf)] :: bytes"
  have lf: "0 \<le> fst ?lf" "fst ?lf < 128" by (auto simp: length_field_def)
  note f1 = frame_byte_fields [of opcode] and f2 = plain_byte_fields [OF lf]
  from del obtain w1 where w1: "recv_exact 2 w = (Inr ?head, w1)"
      "delivers w1 (snd ?lf @ payload @ rest)" "same_but_incoming w w1"
    unfolding plain_frame_def using recv_exact_delivers [of w ?head] by (auto simp: numeral_2_eq_2)
  from frame_length_delivers [OF w1(2)] len obtain w2 where w2: "frame_length (fst ?lf) w1 = (Inr (blen payload), w2)"
      "delivers w2 (payload @ rest)" "same_but_incoming w1 w2" by auto
  from recv_exact_delivers [OF w2(2)] obtain w3 where w3: "recv_exact (length payload) w2 = (Inr payload, w3)"
      "delivers w3 rest" "same_but_incoming w2 w3" by auto
  have "receive_frame max_frame_bytes w = (Inr (opcode, payload), w3)"
    using f1 f2 op len(1)
    by (simp add: receive_frame_def bindS_def thenS_def ensureS_def w1(1) w2(1) w3(1))
  moreover have "same_but_incoming w w3"
    using w1(3) w2(3) w3(3) same_but_incoming_trans by blast
  ultimately show ?thesis using w3(2) by blast
qed

text \<open>
  Property C23. A frame survives the network: whatever the fragments in which the bytes of an
  encoded frame arrive, and whatever its mask key, receiving it returns its opcode and its
  payload, takes exactly its bytes and leaves the bytes that follow, for every payload within
  the size bound.
\<close>

theorem frame_round_trip:
  assumes "encode_client_frame payload opcode key = Inr frame" "0 \<le> opcode" "opcode < 16"
    and "blen payload \<le> max_frame_bytes" "blen payload < 18446744073709551616"
    and "delivers w (frame @ rest)"
  shows "\<exists>w'. receive_frame max_frame_bytes w = (Inr (opcode, payload), w') \<and> delivers w' rest \<and> same_but_incoming w w'"
  by (rule receive_encoded_frame [OF assms])

definition sample_wire :: "bytes \<Rightarrow> wire" where
  "sample_wire bs =
     \<lparr> wi_incoming = map (\<lambda>b. Data [b]) bs, wi_sent = [], wi_sends = [], wi_keys = [], wi_now = 0,
       wi_ticks = [], wi_timeout = 5, wi_closed = False \<rparr>"

lemma sample_wire_delivers: "delivers (sample_wire bs) bs"
proof -
  have "concat (map (\<lambda>b. [b]) bs) = bs" by (induction bs) auto
  then show ?thesis
    unfolding delivers_def by (intro exI [of _ "map (\<lambda>b. [b]) bs"]) (auto simp: sample_wire_def)
qed

theorem frame_round_trip_witness:
  "\<exists>w'. receive_frame 64 (sample_wire ([0x81, 0x83, 9, 8, 7, 6, 8, 10, 4] @ [5])) = (Inr (1, [1, 2, 3]), w') \<and>
     delivers w' [5] \<and> same_but_incoming (sample_wire ([0x81, 0x83, 9, 8, 7, 6, 8, 10, 4] @ [5])) w'"
proof (rule frame_round_trip)
  show "encode_client_frame [1, 2, 3] 1 [9, 8, 7, 6] = Inr [0x81, 0x83, 9, 8, 7, 6, 8, 10, 4]" by code_simp
qed (simp_all add: sample_wire_delivers)

section \<open>Progress\<close>

text \<open>A received frame has consumed some of what the peer delivers.\<close>

lemma receive_frame_size:
  assumes "receive_frame n w = (r, w')"
  shows "wire_size w' \<le> wire_size w \<and> (\<not> isl r \<longrightarrow> wire_size w' < wire_size w)"
proof -
  have le: "preserves (\<lambda>u. wire_size u \<le> wire_size v) (recv_exact k)" for k v
    by (rule preservesI) (metis order_trans prod.collapse recv_exact_size)
  obtain r1 w1 where r1: "recv_exact 2 w = (r1, w1)" by fastforce
  note sz = recv_exact_size [OF r1]
  show ?thesis
  proof (cases r1)
    case (Inl e)
    with assms r1 sz show ?thesis by (auto simp: receive_frame_def bindS_def)
  next
    case (Inr head)
    have "preserves (\<lambda>u. wire_size u \<le> wire_size w1) (frame_length k)" for k
      unfolding frame_length_def by (intro preserves_intros le)
    then have "preserves (\<lambda>u. wire_size u \<le> wire_size w1)
      (let first = uint (head ! 0); second = uint (head ! 1) in
       thenS (ensureS (first AND 0x80 \<noteq> 0) Fragmented_Frame)
       (bindS (frame_length (second AND 0x7F)) (\<lambda>len.
        thenS (ensureS (len \<le> n) (Frame_Too_Large len n))
          (bindS (if second AND 0x80 \<noteq> 0 then recv_exact 4 else returnS []) (\<lambda>mask_key.
           bindS (recv_exact (nat len)) (\<lambda>payload.
           returnS (first AND 0x0F, if mask_key \<noteq> [] then mask_payload mask_key payload else payload)))))))"
      unfolding Let_def by (intro preserves_intros le)
    then have "wire_size w' \<le> wire_size w1"
      using assms r1 Inr by (auto simp: receive_frame_def bindS_def dest!: preservesD)
    with sz Inr show ?thesis by auto
  qed
qed

end
