(* ===== verification/Debugger_Transport.thy ===== *)
theory Debugger_Transport
  imports Debugger_Frames Json
begin

text \<open>
  \<open>runtime/transport.py\<close>: the debugger client over a socket. Its state is the socket, the bounds
  it was opened with, the next ticket and the queues of events that nobody has waited for yet.

  \<open>dumps\<close> and \<open>loads\<close> are \<open>json.dumps\<close> with compact separators as UTF-8 and \<open>json.loads\<close> of
  UTF-8 (\<open>None\<close> when either step raises), \<open>sha1\<close> is the digest; they are parameters.
\<close>

section \<open>Base64\<close>

definition B64_ALPHABET :: string where
  "B64_ALPHABET = ''ABCDEFGHIJKLMNOPQRSTUVWXYZabcdefghijklmnopqrstuvwxyz0123456789+/''"

definition b64_char :: "nat \<Rightarrow> char" where
  "b64_char n = B64_ALPHABET ! n"

definition b64_value :: "char \<Rightarrow> nat option" where
  "b64_value c =
     (let n = length (takeWhile (\<lambda>d. d \<noteq> c) B64_ALPHABET)
      in if n < length B64_ALPHABET then Some n else None)"

fun b64encode :: "bytes \<Rightarrow> string" where
  "b64encode [] = []"
| "b64encode [a] =
     (let x = unat a in [b64_char (x div 4), b64_char (x mod 4 * 16), CHR ''='', CHR ''=''])"
| "b64encode [a, b] =
     (let x = unat a; y = unat b
      in [b64_char (x div 4), b64_char (x mod 4 * 16 + y div 16), b64_char (y mod 16 * 4), CHR ''=''])"
| "b64encode (a # b # c # r) =
     (let x = unat a; y = unat b; z = unat c
      in [b64_char (x div 4), b64_char (x mod 4 * 16 + y div 16), b64_char (y mod 16 * 4 + z div 64),
          b64_char (z mod 64)] @ b64encode r)"

text \<open>\<open>b64decode(s, validate=True)\<close>: whole groups of four, padding only at the end.\<close>

fun b64decode :: "string \<Rightarrow> bytes option" where
  "b64decode [] = Some []"
| "b64decode (p # q # r # s # rest) =
     (case (b64_value p, b64_value q) of
        (Some a, Some b) \<Rightarrow>
          if r = CHR ''='' then
            (if s = CHR ''='' \<and> rest = [] then Some [of_nat (a * 4 + b div 16)] else None)
          else (case b64_value r of
              None \<Rightarrow> None
            | Some c \<Rightarrow>
                if s = CHR ''='' then
                  (if rest = [] then Some [of_nat (a * 4 + b div 16), of_nat (b mod 16 * 16 + c div 4)] else None)
                else (case (b64_value s, b64decode rest) of
                    (Some d, Some ds) \<Rightarrow>
                      Some ([of_nat (a * 4 + b div 16), of_nat (b mod 16 * 16 + c div 4), of_nat (c mod 4 * 64 + d)] @ ds)
                  | _ \<Rightarrow> None))
      | _ \<Rightarrow> None)"
| "b64decode _ = None"

lemma takeWhile_neq_nth: "distinct xs \<Longrightarrow> n < length xs \<Longrightarrow> length (takeWhile (\<lambda>d. d \<noteq> xs ! n) xs) = n"
proof (induction xs arbitrary: n)
  case (Cons x xs)
  then show ?case by (cases n) (auto simp: nth_mem)
qed simp

lemma b64_table: "n < 64 \<Longrightarrow> b64_value (b64_char n) = Some n \<and> b64_char n \<noteq> CHR ''=''"
proof -
  have alpha: "distinct B64_ALPHABET" "length B64_ALPHABET = 64" "CHR ''='' \<notin> set B64_ALPHABET"
    by (simp_all add: B64_ALPHABET_def)
  assume "n < 64"
  with alpha have "b64_char n \<in> set B64_ALPHABET" by (simp add: b64_char_def)
  with alpha(3) have "b64_char n \<noteq> CHR ''=''" by metis
  with \<open>n < 64\<close> alpha takeWhile_neq_nth [of B64_ALPHABET n] show ?thesis
    by (simp add: b64_value_def b64_char_def)
qed

lemma b64_ranges:
  fixes x y z :: nat
  shows "x < 256 \<Longrightarrow> x div 4 < 64" "y < 256 \<Longrightarrow> x mod 4 * 16 + y div 16 < 64" "x mod 4 * 16 < 64"
    "z < 256 \<Longrightarrow> y mod 16 * 4 + z div 64 < 64" "y mod 16 * 4 < 64" "z mod 64 < 64"
proof -
  have m: "x mod 4 < 4" "y mod 16 < 16" by simp_all
  then show "x mod 4 * 16 < 64" "y mod 16 * 4 < 64" by linarith+
  show "x < 256 \<Longrightarrow> x div 4 < 64" "z mod 64 < 64" by (simp_all add: div_less_iff_less_mult)
  assume "y < 256"
  then have "y div 16 < 16" by (simp add: div_less_iff_less_mult)
  with m show "x mod 4 * 16 + y div 16 < 64" by linarith
next
  assume "z < 256"
  then have "z div 64 < 4" "y mod 16 < 16" by (simp_all add: div_less_iff_less_mult)
  then show "y mod 16 * 4 + z div 64 < 64" by linarith
qed

lemma byte_nat_bounds: "unat (b :: byte) < 256"
  using unsigned_less [of b] by simp

lemma byte_join:
  fixes b :: byte
  shows "of_nat (unat b div 4) * 4 + of_nat (unat b mod 4) = b"
    "of_nat (unat b div 16) * 16 + of_nat (unat b mod 16) = b"
    "of_nat (unat b div 64) * 64 + of_nat (unat b mod 64) = b"
proof -
  have "of_nat (unat b div n * n + unat b mod n) = b" for n
    by (simp only: div_mult_mod_eq) simp
  then have "of_nat (unat b div n) * of_nat n + of_nat (unat b mod n) = b" for n
    by (simp only: of_nat_add of_nat_mult)
  from this [of 4] this [of 16] this [of 64] show "of_nat (unat b div 4) * 4 + of_nat (unat b mod 4) = b"
    "of_nat (unat b div 16) * 16 + of_nat (unat b mod 16) = b"
    "of_nat (unat b div 64) * 64 + of_nat (unat b mod 64) = b" by (simp_all only: of_nat_numeral)
qed

lemma byte_high_parts:
  fixes b :: byte
  shows "unat b div 16 < 16" "unat b div 64 < 4"
  using byte_nat_bounds [of b] by (simp_all add: div_less_iff_less_mult)

lemma b64decode_encode: "b64decode (b64encode bs) = Some bs"
  by (induction bs rule: b64encode.induct)
    (simp_all add: Let_def b64_table b64_ranges byte_nat_bounds byte_high_parts byte_join mod_less [OF byte_high_parts(1)]
      mod_less [OF byte_high_parts(2)] div_less [OF byte_high_parts(1)] div_less [OF byte_high_parts(2)])

section \<open>The client\<close>

type_synonym json_dict = "(string \<times> json) list"

record client =
  cl_host :: string
  cl_port :: int
  cl_wire :: wire
  cl_request_timeout :: rat
  cl_max_frame_bytes :: int
  cl_max_queued_events :: int
  cl_next_ticket :: int
  cl_queues :: "(string \<times> json_dict list) list"

type_synonym 'a client_action = "(client, transport_error, 'a) action"

definition on_wire :: "'a wire_action \<Rightarrow> 'a client_action" where
  "on_wire f c = (case f (cl_wire c) of (r, w) \<Rightarrow> (r, c\<lparr>cl_wire := w\<rparr>))"

definition send_frame :: "bytes \<Rightarrow> int \<Rightarrow> unit wire_action" where
  "send_frame payload opcode =
     bindS (urandom 4) (\<lambda>key. bindS (liftS (encode_client_frame payload opcode key)) (\<lambda>frame. sendall frame Send_Failed))"

definition close_client :: "client \<Rightarrow> client" where
  "close_client c = c\<lparr>cl_wire := (attempt (send_frame [] 8) (cl_wire c))\<lparr>wi_closed := True\<rparr>\<rparr>"

definition send_json :: "(json \<Rightarrow> bytes) \<Rightarrow> json_dict \<Rightarrow> unit wire_action" where
  "send_json dumps payload = send_frame (dumps (JObj payload)) 1"

text \<open>\<open>_receive_json\<close>: pings are answered, pongs and other frames are skipped.\<close>

definition pong :: "bytes \<Rightarrow> wire \<Rightarrow> wire" where
  "pong payload w = attempt (send_frame payload 10) w"

lemma wire_size_pong [simp]: "wire_size (pong p w) = wire_size w"
  by (auto simp: pong_def attempt_def send_frame_def bindS_def urandom_def sendall_def wire_size_def
      split: sum.splits list.splits bool.splits)

function receive_json ::
    "(bytes \<Rightarrow> json option) \<Rightarrow> int \<Rightarrow> wire \<Rightarrow> (transport_error, json_dict) result \<times> wire" where
  "receive_json loads max_frame_bytes w =
     (case receive_frame max_frame_bytes w of
        (Inl e, w') \<Rightarrow> (Inl e, w')
      | (Inr (opcode, payload), w') \<Rightarrow>
          if opcode = 8 then (Inl Connection_Closed, w')
          else if opcode = 9 then receive_json loads max_frame_bytes (pong payload w')
          else if opcode = 10 then receive_json loads max_frame_bytes w'
          else if opcode \<noteq> 1 then receive_json loads max_frame_bytes w'
          else (case loads payload of
                  None \<Rightarrow> (Inl Invalid_Json, w')
                | Some (JObj d) \<Rightarrow> (Inr d, w')
                | Some _ \<Rightarrow> (Inl Response_Not_Object, w')))"
  by pat_completeness auto
termination
proof (relation "measure (\<lambda>(_, _, w). wire_size w)", goal_cases)
  case (2 loads n w r w' p opcode payload)
  then show ?case using receive_frame_size [of n w r w'] by auto
next
  case (3 loads n w r w' p opcode payload)
  then show ?case using receive_frame_size [of n w r w'] by auto
next
  case (4 loads n w r w' p opcode payload)
  then show ?case using receive_frame_size [of n w r w'] by auto
qed simp

declare receive_json.simps [simp del]

lemma receive_json_size:
  "receive_json loads n w = (r, w') \<Longrightarrow> wire_size w' \<le> wire_size w \<and> (\<not> isl r \<longrightarrow> wire_size w' < wire_size w)"
proof (induction loads n w arbitrary: r w' rule: receive_json.induct)
  case (1 loads n w)
  obtain r1 w1 where r1: "receive_frame n w = (r1, w1)" by fastforce
  note sz = receive_frame_size [OF r1]
  show ?case
  proof (cases r1)
    case (Inl e)
    with "1.prems" r1 sz show ?thesis by (subst (asm) receive_json.simps) auto
  next
    case (Inr p)
    obtain opcode payload where p: "p = (opcode, payload)" by fastforce
    note IH = "1.IH" [OF r1 [symmetric] Inr p [symmetric]]
    note unf = "1.prems" [unfolded receive_json.simps [of loads n w] r1 Inr p, simplified]
    consider "opcode = 8" | "opcode = 9" | "opcode = 10" | "opcode \<notin> {8, 9, 10}" "opcode \<noteq> 1" | "opcode = 1" by blast
    then show ?thesis
    proof cases
      case 2
      with unf IH(1) [of r w'] sz Inr show ?thesis by auto
    next
      case 3
      with unf IH(2) [of r w'] sz Inr show ?thesis by auto
    next
      case 4
      with unf IH(3) [of r w'] sz Inr show ?thesis by auto
    qed (use unf sz Inr in \<open>auto split: option.splits json.splits\<close>)
  qed
qed

section \<open>Requests and events\<close>

definition new_ticket :: "int client_action" where
  "new_ticket c = (Inr (cl_next_ticket c), c\<lparr>cl_next_ticket := cl_next_ticket c + 1\<rparr>)"

definition message_of :: "string \<Rightarrow> int \<Rightarrow> json_dict \<Rightarrow> json_dict" where
  "message_of event ticket params =
     fold (\<lambda>(k, v) d. dict_set d k v) params [(''event'', JStr event), (''ticket'', JInt ticket)]"

definition send_event :: "(json \<Rightarrow> bytes) \<Rightarrow> string \<Rightarrow> json_dict \<Rightarrow> int client_action" where
  "send_event dumps event params =
     bindS new_ticket (\<lambda>ticket. thenS (on_wire (send_json dumps (message_of event ticket params))) (returnS ticket))"

definition apply_remaining_timeout :: "rat \<Rightarrow> unit wire_action" where
  "apply_remaining_timeout deadline =
     bindS monotonic (\<lambda>now. let remaining = deadline - now in
     thenS (ensureS (\<not> remaining \<le> 0) Request_Timed_Out) (settimeout remaining))"

definition next_response :: "(bytes \<Rightarrow> json option) \<Rightarrow> rat \<Rightarrow> json_dict client_action" where
  "next_response loads deadline c =
     on_wire (thenS (apply_remaining_timeout deadline) (receive_json loads (cl_max_frame_bytes c))) c"

text \<open>Appending to a \<open>deque\<close> with a \<open>maxlen\<close> drops from its front.\<close>

definition deque_append :: "int \<Rightarrow> 'a \<Rightarrow> 'a list \<Rightarrow> 'a list" where
  "deque_append maxlen x xs = drop (length xs + 1 - nat maxlen) (xs @ [x])"

definition queue_event :: "string \<Rightarrow> json_dict \<Rightarrow> client \<Rightarrow> client" where
  "queue_event event response c =
     c\<lparr>cl_queues := dict_set (cl_queues c) event
         (deque_append (cl_max_queued_events c) response (dict_get_list (cl_queues c) event))\<rparr>"

text \<open>An event nobody asked for: it has a name and no ticket.\<close>

definition keep_unsolicited :: "json_dict \<Rightarrow> client \<Rightarrow> client" where
  "keep_unsolicited response c =
     (case (json_get response ''event'', json_get response ''ticket'') of
        (JStr event, JNull) \<Rightarrow> queue_event event response c
      | _ \<Rightarrow> c)"

definition error_message :: "json_dict \<Rightarrow> json_message" where
  "error_message response =
     (case map_of response ''message'' of
        None \<Rightarrow> Unknown_Message
      | Some (JStr s) \<Rightarrow> Message_Text s
      | Some _ \<Rightarrow> Other_Message)"

lemma next_response_size:
  "next_response loads deadline c = (Inr d, c') \<Longrightarrow> wire_size (cl_wire c') < wire_size (cl_wire c)"
proof -
  assume r: "next_response loads deadline c = (Inr d, c')"
  obtain u w1 where u: "apply_remaining_timeout deadline (cl_wire c) = (u, w1)" by fastforce
  then have sz: "wire_size w1 = wire_size (cl_wire c)"
    by (auto simp: apply_remaining_timeout_def bindS_def thenS_def ensureS_def monotonic_def settimeout_def
        Let_def wire_size_def split: if_splits)
  from r u obtain w2 where "receive_json loads (cl_max_frame_bytes c) w1 = (Inr d, w2)" "c' = c\<lparr>cl_wire := w2\<rparr>"
    by (cases u) (auto simp: next_response_def on_wire_def thenS_def bindS_def split: prod.splits)
  with receive_json_size [of loads "cl_max_frame_bytes c" w1 "Inr d" w2] sz show ?thesis by simp
qed

lemma keep_unsolicited_wire [simp]: "cl_wire (keep_unsolicited d c) = cl_wire c"
  by (auto simp: keep_unsolicited_def queue_event_def split: json.splits)

function request_loop ::
    "(bytes \<Rightarrow> json option) \<Rightarrow> int \<Rightarrow> rat \<Rightarrow> client \<Rightarrow> (transport_error, json_dict) result \<times> client" where
  "request_loop loads ticket deadline c =
     (case next_response loads deadline c of
        (Inl e, c') \<Rightarrow> (Inl e, c')
      | (Inr response, c') \<Rightarrow>
          if json_equals_int (json_get response ''ticket'') ticket then
            (if json_get response ''event'' = JStr ''error''
             then (Inl (Debugger_Error (error_message response)), c') else (Inr response, c'))
          else request_loop loads ticket deadline (keep_unsolicited response c'))"
  by pat_completeness auto
termination
  by (relation "measure (\<lambda>(_, _, _, c). wire_size (cl_wire c))") (auto dest: next_response_size [OF sym])

declare request_loop.simps [simp del]

definition request_within ::
    "(json \<Rightarrow> bytes) \<Rightarrow> (bytes \<Rightarrow> json option) \<Rightarrow> rat option \<Rightarrow> string \<Rightarrow> json_dict \<Rightarrow> json_dict client_action" where
  "request_within dumps loads timeout event params =
     bindS (send_event dumps event params) (\<lambda>ticket.
     bindS (on_wire monotonic) (\<lambda>now.
     bindS (readS cl_request_timeout) (\<lambda>default.
     request_loop loads ticket (now + (case timeout of None \<Rightarrow> default | Some t \<Rightarrow> t)))))"

definition request ::
    "(json \<Rightarrow> bytes) \<Rightarrow> (bytes \<Rightarrow> json option) \<Rightarrow> string \<Rightarrow> json_dict \<Rightarrow> json_dict client_action" where
  "request dumps loads = request_within dumps loads None"

text \<open>
  \<open>try_request\<close>: the loop is that of \<open>request\<close>, with an error response, an expired deadline or a
  transport error as \<open>None\<close>; the socket gets its request timeout back.
\<close>

definition try_request ::
    "(json \<Rightarrow> bytes) \<Rightarrow> (bytes \<Rightarrow> json option) \<Rightarrow> rat option \<Rightarrow> string \<Rightarrow> json_dict \<Rightarrow> json_dict option client_action" where
  "try_request dumps loads timeout event params =
     bindS (send_event dumps event params) (\<lambda>ticket.
     bindS (on_wire monotonic) (\<lambda>now.
     bindS (readS cl_request_timeout) (\<lambda>default.
     finallyS
       (\<lambda>c. case request_loop loads ticket (now + (case timeout of None \<Rightarrow> default | Some t \<Rightarrow> t)) c of
          (Inl _, c') \<Rightarrow> (Inr None, c')
        | (Inr response, c') \<Rightarrow> (Inr (Some response), c'))
       (\<lambda>c. c\<lparr>cl_wire := (cl_wire c)\<lparr>wi_timeout := cl_request_timeout c\<rparr>\<rparr>))))"

function wait_loop ::
    "(bytes \<Rightarrow> json option) \<Rightarrow> string \<Rightarrow> rat \<Rightarrow> client \<Rightarrow> (transport_error, json_dict) result \<times> client" where
  "wait_loop loads event deadline c =
     (case next_response loads deadline c of
        (Inl e, c') \<Rightarrow> (Inl e, c')
      | (Inr response, c') \<Rightarrow>
          if json_get response ''event'' = JStr event then (Inr response, c')
          else wait_loop loads event deadline (keep_unsolicited response c'))"
  by pat_completeness auto
termination
  by (relation "measure (\<lambda>(_, _, _, c). wire_size (cl_wire c))") (auto dest: next_response_size [OF sym])

declare wait_loop.simps [simp del]

definition wait_for_event :: "(bytes \<Rightarrow> json option) \<Rightarrow> string \<Rightarrow> rat \<Rightarrow> json_dict client_action" where
  "wait_for_event loads event timeout =
     thenS (ensureS (0 < timeout) Wait_Not_Positive) (\<lambda>c.
       case dict_get_list (cl_queues c) event of
         first # rest \<Rightarrow> (Inr first, c\<lparr>cl_queues := dict_set (cl_queues c) event rest\<rparr>)
       | [] \<Rightarrow>
           bindS (on_wire monotonic) (\<lambda>now.
             finallyS (wait_loop loads event (now + timeout))
               (\<lambda>c. c\<lparr>cl_wire := (cl_wire c)\<lparr>wi_timeout := cl_request_timeout c\<rparr>\<rparr>)) c)"

section \<open>Debugger commands\<close>

definition register_pair :: "json \<times> json \<Rightarrow> (transport_error, string \<times> int) result" where
  "register_pair nv =
     (case (json_str (fst nv), json_int (snd nv)) of
        (Some nm, Some v) \<Rightarrow> Inr (nm, v)
      | _ \<Rightarrow> Inl Bad_Register_Value)"

definition register_category :: "json \<Rightarrow> (string \<times> int) list \<Rightarrow> (transport_error, (string \<times> int) list) result" where
  "register_category category registers =
     (case json_obj category of
        None \<Rightarrow> Inl Bad_Category
      | Some d \<Rightarrow>
          (case (json_list (json_get d ''registerNames''), json_list (json_get d ''uintValues'')) of
             (Some names, Some vals) \<Rightarrow>
               if length names \<noteq> length vals then Inl Register_Lengths_Differ
               else foldE (\<lambda>nv regs. bindE (register_pair nv) (\<lambda>(nm, v). Inr (dict_set regs nm v)))
                      (zip names vals) registers
           | _ \<Rightarrow> Inl Bad_Register_Arrays))"

definition registers_of :: "json_dict \<Rightarrow> (transport_error, (string \<times> int) list) result" where
  "registers_of response =
     (case json_list (json_get response ''categories'') of
        None \<Rightarrow> Inl Missing_Categories
      | Some categories \<Rightarrow> foldE register_category categories [])"

definition get_registers ::
    "(json \<Rightarrow> bytes) \<Rightarrow> (bytes \<Rightarrow> json option) \<Rightarrow> (string \<times> int) list client_action" where
  "get_registers dumps loads =
     bindS (request dumps loads ''cpu.getAllRegs'' []) (\<lambda>response. liftS (registers_of response))"

definition memory_of :: "int \<Rightarrow> json_dict \<Rightarrow> (transport_error, bytes) result" where
  "memory_of sz response =
     (case json_str (json_get response ''base64'') of
        None \<Rightarrow> Inl Missing_Base64
      | Some encoded \<Rightarrow>
          (case b64decode encoded of
             None \<Rightarrow> Inl Invalid_Base64
           | Some data \<Rightarrow> if blen data \<noteq> sz then Inl (Read_Size_Mismatch sz (blen data)) else Inr data))"

definition read_memory ::
    "(json \<Rightarrow> bytes) \<Rightarrow> (bytes \<Rightarrow> json option) \<Rightarrow> int \<Rightarrow> int \<Rightarrow> int \<Rightarrow> bytes client_action" where
  "read_memory dumps loads address sz max_bytes =
     thenS (ensureS (\<not> (address < 0 \<or> sz \<le> 0)) Bad_Read_Range)
       (thenS (ensureS (sz \<le> max_bytes) (Read_Too_Large sz max_bytes))
         (bindS (request dumps loads ''memory.read'' [(''address'', JInt address), (''size'', JInt sz)])
           (\<lambda>response. liftS (memory_of sz response))))"

definition add_exec_breakpoint :: "(json \<Rightarrow> bytes) \<Rightarrow> (bytes \<Rightarrow> json option) \<Rightarrow> int \<Rightarrow> unit client_action" where
  "add_exec_breakpoint dumps loads address =
     thenS (request dumps loads ''cpu.breakpoint.add''
       [(''address'', JInt address), (''enabled'', JBool True), (''log'', JBool False)]) (returnS ())"

definition remove_exec_breakpoint :: "(json \<Rightarrow> bytes) \<Rightarrow> (bytes \<Rightarrow> json option) \<Rightarrow> int \<Rightarrow> unit client_action" where
  "remove_exec_breakpoint dumps loads address =
     thenS (request dumps loads ''cpu.breakpoint.remove'' [(''address'', JInt address)]) (returnS ())"

definition resume_cpu :: "(json \<Rightarrow> bytes) \<Rightarrow> int client_action" where
  "resume_cpu dumps = send_event dumps ''cpu.resume'' []"

definition frame_pc :: "json \<Rightarrow> (transport_error, int) result" where
  "frame_pc frame =
     (case json_obj frame of
        None \<Rightarrow> Inl Missing_Pc
      | Some d \<Rightarrow> (case json_int (json_get d ''pc'') of None \<Rightarrow> Inl Missing_Pc | Some pc \<Rightarrow> Inr pc))"

definition backtrace ::
    "(json \<Rightarrow> bytes) \<Rightarrow> (bytes \<Rightarrow> json option) \<Rightarrow> int \<Rightarrow> int list client_action" where
  "backtrace dumps loads max_depth =
     bindS (request dumps loads ''hle.backtrace'' []) (\<lambda>response.
     case json_list (json_get response ''frames'') of
       None \<Rightarrow> raiseS Missing_Frames
     | Some frames \<Rightarrow> liftS (mapE frame_pc (py_slice frames 0 max_depth)))"

section \<open>Opening a connection\<close>

definition crlf :: string where
  "crlf = [CHR 0x0D, CHR 0x0A]"

fun split_crlf :: "string \<Rightarrow> string list" where
  "split_crlf [] = [[]]"
| "split_crlf [c] = [[c]]"
| "split_crlf (c # d # rest) =
     (if c = CHR 0x0D \<and> d = CHR 0x0A then [] # split_crlf rest
      else (case split_crlf (d # rest) of [] \<Rightarrow> [[c]] | l # ls \<Rightarrow> (c # l) # ls))"

definition WEBSOCKET_GUID :: string where
  "WEBSOCKET_GUID = ''258EAFA5-E914-47DA-95CA-C5AB0DC85B11''"

definition DEBUGGER_PATH :: string where
  "DEBUGGER_PATH = ''/debugger''"

definition LOOPBACK_HOSTS :: "string list" where
  "LOOPBACK_HOSTS = [''127.0.0.1'', ''::1'', ''localhost'']"

definition handshake_request :: "string \<Rightarrow> int \<Rightarrow> string \<Rightarrow> string" where
  "handshake_request host port nonce =
     ''GET '' @ DEBUGGER_PATH @ '' HTTP/1.1'' @ crlf @
     ''Host: '' @ host @ '':'' @ dec_str port @ crlf @
     ''Upgrade: websocket'' @ crlf @ ''Connection: Upgrade'' @ crlf @
     ''Sec-WebSocket-Key: '' @ nonce @ crlf @ ''Sec-WebSocket-Version: 13'' @ crlf @ crlf"

text \<open>Header values are Latin-1: its two other spaces are stripped too.\<close>

definition latin1_space :: "char \<Rightarrow> bool" where
  "latin1_space c \<longleftrightarrow> is_space c \<or> c = CHR 0x85 \<or> c = CHR 0xA0"

definition latin1_strip :: "string \<Rightarrow> string" where
  "latin1_strip s = rev (dropWhile latin1_space (rev (dropWhile latin1_space s)))"

definition header_line :: "string \<Rightarrow> (string \<times> string) list \<Rightarrow> (string \<times> string) list" where
  "header_line line headers =
     (if CHR '':'' \<notin> set line then headers
      else let name = takeWhile (\<lambda>c. c \<noteq> CHR '':'') line; rest = drop (Suc (length name)) line
           in dict_set headers (casefold name) (latin1_strip rest))"

definition check_handshake :: "(bytes \<Rightarrow> bytes) \<Rightarrow> string \<Rightarrow> bytes \<Rightarrow> (transport_error, unit) result" where
  "check_handshake sha1 nonce response =
     (let lines = split_crlf (map byte_char response);
          headers = fold header_line (tl lines) [];
          expected = b64encode (sha1 (str_bytes (nonce @ WEBSOCKET_GUID)))
      in bindE (ensure (contains_text '' 101 '' ('' '' @ hd lines @ '' '')) (Bad_Handshake_Status (hd lines))) (\<lambda>_.
         ensure (map_of headers ''sec-websocket-accept'' = Some expected) Accept_Key_Mismatch))"

definition perform_handshake :: "(bytes \<Rightarrow> bytes) \<Rightarrow> string \<Rightarrow> int \<Rightarrow> unit wire_action" where
  "perform_handshake sha1 host port =
     bindS (urandom 16) (\<lambda>random.
     let nonce = b64encode random in
     thenS (sendall (str_bytes (handshake_request host port nonce)) Handshake_Send_Failed)
       (bindS recv_http_headers (\<lambda>response. liftS (check_handshake sha1 nonce response))))"

definition check_open :: "string \<Rightarrow> int \<Rightarrow> rat \<Rightarrow> rat \<Rightarrow> int \<Rightarrow> int \<Rightarrow> (transport_error, unit) result" where
  "check_open host port connect_timeout request_timeout max_frame_bytes max_queued_events =
     bindE (ensure (casefold host \<in> set LOOPBACK_HOSTS) Not_Loopback) (\<lambda>_.
     bindE (ensure (1 \<le> port \<and> port \<le> 65535) Bad_Port) (\<lambda>_.
     bindE (ensure (\<not> (connect_timeout \<le> 0 \<or> request_timeout \<le> 0)) Bad_Timeouts) (\<lambda>_.
     ensure (\<not> (max_frame_bytes \<le> 0 \<or> max_queued_events \<le> 0)) Bad_Bounds)))"

definition client_on :: "string \<Rightarrow> int \<Rightarrow> rat \<Rightarrow> int \<Rightarrow> int \<Rightarrow> wire \<Rightarrow> client" where
  "client_on host port request_timeout max_frame_bytes max_queued_events w =
     \<lparr> cl_host = host, cl_port = port, cl_wire = w, cl_request_timeout = request_timeout,
       cl_max_frame_bytes = max_frame_bytes, cl_max_queued_events = max_queued_events,
       cl_next_ticket = 1, cl_queues = [] \<rparr>"

text \<open>
  \<open>PpssppDebuggerTransport.__init__\<close>. The connection is what \<open>socket.create_connection\<close> returns or
  raises; next to the result there is the state in which the socket is left, if there is one.
\<close>

definition open_client ::
    "(bytes \<Rightarrow> bytes) \<Rightarrow> (json \<Rightarrow> bytes) \<Rightarrow> (bytes \<Rightarrow> json option) \<Rightarrow> string \<Rightarrow> int \<Rightarrow> rat \<Rightarrow> rat \<Rightarrow> int \<Rightarrow> int \<Rightarrow>
       (transport_error, wire) result \<Rightarrow> (transport_error, client) result \<times> wire option" where
  "open_client sha1 dumps loads host port connect_timeout request_timeout max_frame_bytes max_queued_events
     connection =
     (case bindE (check_open host port connect_timeout request_timeout max_frame_bytes max_queued_events) (\<lambda>_. connection) of
        Inl e \<Rightarrow> (Inl e, None)
      | Inr w \<Rightarrow>
          (case thenS (settimeout request_timeout) (perform_handshake sha1 host port) w of
             (Inl e, w') \<Rightarrow> (Inl e, Some (w'\<lparr>wi_closed := True\<rparr>))
           | (Inr _, w') \<Rightarrow>
               (case thenS (request dumps loads ''version'' [(''name'', JStr ''pspdisasm''), (''version'', JStr ''1.0'')])
                       (request dumps loads ''client.config.set'' [(''acknowledgeDeferred'', JBool True)])
                       (client_on host port request_timeout max_frame_bytes max_queued_events w') of
                  (Inl e, c) \<Rightarrow> (Inl e, Some (cl_wire c))
                | (Inr _, c) \<Rightarrow> (Inr c, Some (cl_wire c)))))"

section \<open>The event queues of a reachable client\<close>

definition unsolicited :: "string \<Rightarrow> json_dict \<Rightarrow> bool" where
  "unsolicited event d \<longleftrightarrow> json_get d ''event'' = JStr event \<and> json_get d ''ticket'' = JNull"

definition queue_ok :: "int \<Rightarrow> string \<Rightarrow> json_dict list \<Rightarrow> bool" where
  "queue_ok maxlen event ds \<longleftrightarrow> blen ds \<le> maxlen \<and> (\<forall>d \<in> set ds. unsolicited event d)"

text \<open>
  Every queue holds unsolicited events of its own name only and no more than the bound; tickets
  start at one.
\<close>

definition client_ok :: "client \<Rightarrow> bool" where
  "client_ok c \<longleftrightarrow>
     0 < cl_max_queued_events c \<and> 1 \<le> cl_next_ticket c \<and>
     (\<forall>(event, ds) \<in> set (cl_queues c). queue_ok (cl_max_queued_events c) event ds)"

lemma set_dict_set: "set (dict_set kvs k v) \<subseteq> insert (k, v) (set kvs)"
  by (induction kvs k v rule: dict_set.induct) auto

lemma client_ok_queue: "client_ok c \<Longrightarrow> queue_ok (cl_max_queued_events c) event (dict_get_list (cl_queues c) event)"
  by (auto simp: client_ok_def dict_get_list_def queue_ok_def split: option.splits dest!: map_of_SomeD)

lemma client_ok_set_queue:
  "client_ok c \<Longrightarrow> queue_ok (cl_max_queued_events c) event ds \<Longrightarrow> client_ok (c\<lparr>cl_queues := dict_set (cl_queues c) event ds\<rparr>)"
  using set_dict_set [of "cl_queues c" event ds] by (fastforce simp: client_ok_def)

lemma queue_ok_append: "queue_ok m event ds \<Longrightarrow> 0 < m \<Longrightarrow> unsolicited event d \<Longrightarrow> queue_ok m event (deque_append m d ds)"
  by (auto simp: queue_ok_def deque_append_def dest: in_set_dropD)

lemma client_ok_keep: "client_ok c \<Longrightarrow> client_ok (keep_unsolicited d c)"
  by (auto simp: keep_unsolicited_def queue_event_def unsolicited_def split: json.splits
      intro!: client_ok_set_queue queue_ok_append client_ok_queue) (auto simp: client_ok_def)

lemma client_ok_wire [simp]: "client_ok (c\<lparr>cl_wire := w\<rparr>) = client_ok c"
  by (simp add: client_ok_def)

lemma preserves_on_wire [preserves_intros]: "preserves client_ok (on_wire f)"
  by (auto simp: preserves_def on_wire_def split: prod.splits)

lemma preserves_next_response: "preserves client_ok (next_response loads deadline)"
  by (auto simp: preserves_def next_response_def on_wire_def split: prod.splits)

lemma preserves_new_ticket: "preserves client_ok new_ticket"
  by (auto simp: preserves_def new_ticket_def client_ok_def)

lemma preserves_send_event [preserves_intros]: "preserves client_ok (send_event dumps event params)"
  unfolding send_event_def by (intro preserves_intros preserves_new_ticket)

lemma preserves_request_loop: "preserves client_ok (request_loop loads ticket deadline)"
proof (rule preservesI)
  fix c show "client_ok c \<Longrightarrow> client_ok (snd (request_loop loads ticket deadline c))"
  proof (induction loads ticket deadline c rule: request_loop.induct)
    case (1 loads ticket deadline c)
    obtain r c' where r: "next_response loads deadline c = (r, c')" by fastforce
    with preserves_next_response "1.prems" have ok: "client_ok c'" by (rule preservesD)
    show ?case
    proof (cases r)
      case (Inl e)
      with r ok show ?thesis by (subst request_loop.simps) simp
    next
      case (Inr d)
      with "1.IH" [OF r [symmetric] Inr] client_ok_keep [OF ok] r ok show ?thesis
        by (subst request_loop.simps) simp
    qed
  qed
qed

lemma preserves_wait_loop: "preserves client_ok (wait_loop loads event deadline)"
proof (rule preservesI)
  fix c show "client_ok c \<Longrightarrow> client_ok (snd (wait_loop loads event deadline c))"
  proof (induction loads event deadline c rule: wait_loop.induct)
    case (1 loads event deadline c)
    obtain r c' where r: "next_response loads deadline c = (r, c')" by fastforce
    with preserves_next_response "1.prems" have ok: "client_ok c'" by (rule preservesD)
    show ?case
    proof (cases r)
      case (Inl e)
      with r ok show ?thesis by (subst wait_loop.simps) simp
    next
      case (Inr d)
      with "1.IH" [OF r [symmetric] Inr] client_ok_keep [OF ok] r ok show ?thesis
        by (subst wait_loop.simps) simp
    qed
  qed
qed

lemma preserves_request_within [preserves_intros]:
  "preserves client_ok (request_within dumps loads timeout event params)"
  unfolding request_within_def by (intro preserves_intros preserves_request_loop)

lemma preserves_request [preserves_intros]: "preserves client_ok (request dumps loads event params)"
  unfolding request_def by (intro preserves_intros)

lemma preserves_try_request: "preserves client_ok (try_request dumps loads timeout event params)"
proof -
  have "preserves client_ok (\<lambda>c. case request_loop loads ticket deadline c of
      (Inl _, c') \<Rightarrow> (Inr None, c') | (Inr response, c') \<Rightarrow> (Inr (Some response), c'))" for ticket deadline
    using preserves_request_loop [of loads ticket deadline]
    by (auto simp: preserves_def split: prod.splits sum.splits)
  then show ?thesis unfolding try_request_def by (intro preserves_intros preserves_finally) simp_all
qed

lemma client_ok_tail:
  "client_ok c \<Longrightarrow> dict_get_list (cl_queues c) event = d # ds \<Longrightarrow>
     client_ok (c\<lparr>cl_queues := dict_set (cl_queues c) event ds\<rparr>) \<and> unsolicited event d"
  using client_ok_queue [of c event] by (auto simp: queue_ok_def intro!: client_ok_set_queue)

lemma preserves_wait_for_event: "preserves client_ok (wait_for_event loads event timeout)"
proof -
  have "preserves client_ok (bindS (on_wire monotonic) (\<lambda>now. finallyS (wait_loop loads event (now + timeout))
      (\<lambda>c. c\<lparr>cl_wire := (cl_wire c)\<lparr>wi_timeout := cl_request_timeout c\<rparr>\<rparr>)))"
    by (intro preserves_intros preserves_finally preserves_wait_loop) simp
  then have "preserves client_ok (\<lambda>c. case dict_get_list (cl_queues c) event of
         first # rest \<Rightarrow> (Inr first, c\<lparr>cl_queues := dict_set (cl_queues c) event rest\<rparr>)
       | [] \<Rightarrow> bindS (on_wire monotonic) (\<lambda>now. finallyS (wait_loop loads event (now + timeout))
               (\<lambda>c. c\<lparr>cl_wire := (cl_wire c)\<lparr>wi_timeout := cl_request_timeout c\<rparr>\<rparr>)) c)"
    unfolding preserves_def by (auto split: list.split dest: client_ok_tail)
  then show ?thesis unfolding wait_for_event_def by (intro preserves_intros)
qed

text \<open>The states of a client: what opening it and its operations, in any order, lead to.\<close>

inductive client_reachable :: "(json \<Rightarrow> bytes) \<Rightarrow> (bytes \<Rightarrow> json option) \<Rightarrow> client \<Rightarrow> bool" for dumps loads where
  opened: "open_client sha1 dumps loads host port ct rt mf mq connection = (Inr c, w) \<Longrightarrow> client_reachable dumps loads c"
| sent: "client_reachable dumps loads c \<Longrightarrow> client_reachable dumps loads (snd (send_event dumps event params c))"
| requested: "client_reachable dumps loads c \<Longrightarrow>
    client_reachable dumps loads (snd (request_within dumps loads timeout event params c))"
| tried: "client_reachable dumps loads c \<Longrightarrow>
    client_reachable dumps loads (snd (try_request dumps loads timeout event params c))"
| waited: "client_reachable dumps loads c \<Longrightarrow> client_reachable dumps loads (snd (wait_for_event loads event seconds c))"
| closed: "client_reachable dumps loads c \<Longrightarrow> client_reachable dumps loads (close_client c)"

lemma open_client_ok: "open_client sha1 dumps loads host port ct rt mf mq connection = (Inr c, w) \<Longrightarrow> client_ok c"
proof -
  assume "open_client sha1 dumps loads host port ct rt mf mq connection = (Inr c, w)"
  then obtain w' d where mq: "0 < mq" and r: "thenS (request dumps loads ''version'' [(''name'', JStr ''pspdisasm''), (''version'', JStr ''1.0'')])
       (request dumps loads ''client.config.set'' [(''acknowledgeDeferred'', JBool True)]) (client_on host port rt mf mq w') = (Inr d, c)"
    by (auto simp: open_client_def check_open_def bindE_Inr_iff ensure_def split: sum.splits prod.splits if_splits)
  have "client_ok (client_on host port rt mf mq w')" using mq by (simp add: client_ok_def client_on_def)
  from preservesD [OF preserves_then [OF preserves_request preserves_request] this r] show ?thesis .
qed

lemma client_reachable_ok: "client_reachable dumps loads c \<Longrightarrow> client_ok c"
proof (induction rule: client_reachable.induct)
  case (closed c)
  then show ?case by (simp add: close_client_def)
qed (auto simp: open_client_ok preserves_def [THEN iffD1, rule_format] preserves_send_event
    preserves_request_within preserves_try_request preserves_wait_for_event)

lemma wait_loop_event:
  "wait_loop loads event deadline c = (Inr d, c') \<Longrightarrow> json_get d ''event'' = JStr event"
proof (induction loads event deadline c rule: wait_loop.induct)
  case (1 loads event deadline c)
  then show ?case
    by (subst (asm) (2) wait_loop.simps) (auto split: prod.splits sum.splits if_splits)
qed

lemma wait_for_event_event:
  assumes "client_ok c" "wait_for_event loads event timeout c = (Inr d, c')"
  shows "json_get d ''event'' = JStr event"
proof (cases "dict_get_list (cl_queues c) event")
  case Nil
  with assms(2) show ?thesis
    by (auto simp: wait_for_event_def thenS_def bindS_def ensureS_def finallyS_def on_wire_def
        split: if_splits sum.splits prod.splits dest: wait_loop_event)
next
  case (Cons x xs)
  with assms client_ok_tail [OF assms(1) Cons] show ?thesis
    by (auto simp: wait_for_event_def thenS_def bindS_def ensureS_def unsolicited_def split: if_splits)
qed

text \<open>
  Property C27. The event queues of a client stay bounded and pure: in every state that opening
  a client and any sequence of its operations (successful or failing) leads to, each queue
  holds at most the allowed number of events, all unsolicited and of the queue's name, tickets
  are positive, and a wait that returns gives an event of the name waited for.
\<close>

theorem client_queues_bounded:
  assumes "client_reachable dumps loads c"
  shows "client_ok c \<and> (\<forall>d c'. wait_for_event loads event timeout c = (Inr d, c') \<longrightarrow> json_get d ''event'' = JStr event)"
  using client_reachable_ok [OF assms] wait_for_event_event by blast

section \<open>A request is answered\<close>

definition text_frame :: "(json \<Rightarrow> bytes) \<Rightarrow> json_dict \<Rightarrow> bytes" where
  "text_frame dumps d = plain_frame 1 (dumps (JObj d))"

text \<open>A message that the client can read: its text parses back and is within the frame bound.\<close>

definition readable :: "(json \<Rightarrow> bytes) \<Rightarrow> (bytes \<Rightarrow> json option) \<Rightarrow> int \<Rightarrow> json_dict \<Rightarrow> bool" where
  "readable dumps loads n d \<longleftrightarrow>
     loads (dumps (JObj d)) = Some (JObj d) \<and> blen (dumps (JObj d)) \<le> n \<and> blen (dumps (JObj d)) < 18446744073709551616"

text \<open>The clock stands still and every send works.\<close>

definition calm :: "wire \<Rightarrow> bool" where
  "calm w \<longleftrightarrow> wi_ticks w = [] \<and> wi_sends w = []"

lemma receive_json_delivers:
  assumes "delivers w (text_frame dumps d @ rest)" "readable dumps loads n d"
  shows "\<exists>w'. receive_json loads n w = (Inr d, w') \<and> delivers w' rest \<and> same_but_incoming w w'"
proof -
  from assms receive_plain_frame [of 1 "dumps (JObj d)" n w rest] obtain w' where
    "receive_frame n w = (Inr (1, dumps (JObj d)), w')" "delivers w' rest" "same_but_incoming w w'"
    by (auto simp: text_frame_def readable_def)
  with assms(2) show ?thesis by (subst receive_json.simps) (simp add: readable_def)
qed

lemma next_response_delivers:
  assumes "delivers (cl_wire c) (text_frame dumps d @ rest)" "readable dumps loads (cl_max_frame_bytes c) d"
    and "calm (cl_wire c)" "wi_now (cl_wire c) < deadline"
  shows "\<exists>w'. next_response loads deadline c = (Inr d, c\<lparr>cl_wire := w'\<rparr>) \<and> delivers w' rest \<and> calm w' \<and>
    wi_now w' = wi_now (cl_wire c) \<and> wi_sent w' = wi_sent (cl_wire c)"
proof -
  let ?w = "(cl_wire c)\<lparr>wi_timeout := deadline - wi_now (cl_wire c)\<rparr>"
  have "delivers ?w (text_frame dumps d @ rest)" using assms(1) by (simp add: delivers_def)
  from receive_json_delivers [OF this assms(2)] obtain w' where
    w': "receive_json loads (cl_max_frame_bytes c) ?w = (Inr d, w')" "delivers w' rest" "same_but_incoming ?w w'" by blast
  have "apply_remaining_timeout deadline (cl_wire c) = (Inr (), ?w)"
    using assms(3,4)
    by (simp add: apply_remaining_timeout_def bindS_def thenS_def ensureS_def monotonic_def settimeout_def calm_def)
  then have "next_response loads deadline c = (Inr d, c\<lparr>cl_wire := w'\<rparr>)"
    using w'(1) by (simp add: next_response_def on_wire_def thenS_def bindS_def)
  moreover have "wi_now w' = wi_now ?w" "wi_sent w' = wi_sent ?w" "wi_ticks w' = wi_ticks ?w" "wi_sends w' = wi_sends ?w"
    using w'(3) unfolding same_but_incoming_def by (metis wire.ext_inject wire.surjective wire.update_convs(1))+
  ultimately show ?thesis using w'(2) assms(3) by (auto simp: calm_def)
qed

lemma keep_unsolicited_update: "keep_unsolicited d (c\<lparr>cl_wire := w\<rparr>) = (keep_unsolicited d c)\<lparr>cl_wire := w\<rparr>"
  by (simp add: keep_unsolicited_def queue_event_def split: json.split)

lemma keep_unsolicited_fields [simp]:
  "cl_max_frame_bytes (keep_unsolicited d c) = cl_max_frame_bytes c"
  "cl_request_timeout (keep_unsolicited d c) = cl_request_timeout c"
  by (simp_all add: keep_unsolicited_def queue_event_def split: json.split)

lemma request_loop_answered:
  assumes "calm (cl_wire c)" "wi_now (cl_wire c) < deadline"
    and "delivers (cl_wire c) (concat (map (text_frame dumps) (es @ [resp])) @ rest)"
    and "\<forall>d \<in> set (es @ [resp]). readable dumps loads (cl_max_frame_bytes c) d"
    and "\<forall>e \<in> set es. json_get e ''ticket'' = JNull"
    and "json_get resp ''ticket'' = JInt ticket" "json_get resp ''event'' \<noteq> JStr ''error''"
  shows "\<exists>w'. request_loop loads ticket deadline c = (Inr resp, (fold keep_unsolicited es c)\<lparr>cl_wire := w'\<rparr>) \<and>
    delivers w' rest \<and> wi_sent w' = wi_sent (cl_wire c)"
  using assms(1-5)
proof (induction es arbitrary: c)
  case Nil
  with next_response_delivers [of c dumps resp rest loads deadline] obtain w' where
    "next_response loads deadline c = (Inr resp, c\<lparr>cl_wire := w'\<rparr>)" "delivers w' rest" "wi_sent w' = wi_sent (cl_wire c)"
    by auto
  with assms(6,7) show ?case by (subst request_loop.simps) (auto intro!: exI [of _ w'])
next
  case (Cons e es)
  let ?rest = "concat (map (text_frame dumps) (es @ [resp])) @ rest"
  from Cons.prems have "delivers (cl_wire c) (text_frame dumps e @ ?rest)" "readable dumps loads (cl_max_frame_bytes c) e"
    by simp_all
  from next_response_delivers [OF this Cons.prems(1,2)] obtain w1 where
    w1: "next_response loads deadline c = (Inr e, c\<lparr>cl_wire := w1\<rparr>)" "delivers w1 ?rest" "calm w1"
      "wi_now w1 = wi_now (cl_wire c)" "wi_sent w1 = wi_sent (cl_wire c)" by blast
  let ?c = "keep_unsolicited e (c\<lparr>cl_wire := w1\<rparr>)"
  have "\<exists>w'. request_loop loads ticket deadline ?c = (Inr resp, (fold keep_unsolicited es ?c)\<lparr>cl_wire := w'\<rparr>) \<and>
      delivers w' rest \<and> wi_sent w' = wi_sent (cl_wire ?c)"
    by (rule Cons.IH) (use Cons.prems w1 in auto)
  moreover have "request_loop loads ticket deadline c = request_loop loads ticket deadline ?c"
    using w1(1) Cons.prems(5) by (subst request_loop.simps) simp
  moreover have "(fold keep_unsolicited es (u\<lparr>cl_wire := v\<rparr>))\<lparr>cl_wire := w\<rparr> = (fold keep_unsolicited es u)\<lparr>cl_wire := w\<rparr>" for u v w
    by (induction es arbitrary: u) (simp_all add: keep_unsolicited_update)
  ultimately show ?case using w1(5) by (simp add: keep_unsolicited_update)
qed

text \<open>What is sent for a request: one masked text frame with the message.\<close>

definition sends_message :: "(json \<Rightarrow> bytes) \<Rightarrow> json_dict \<Rightarrow> wire \<Rightarrow> wire \<Rightarrow> bool" where
  "sends_message dumps message w w' \<longleftrightarrow>
     (\<exists>key frame. encode_client_frame (dumps (JObj message)) 1 key = Inr frame \<and> wi_sent w' = wi_sent w @ [frame])"

lemma send_json_calm:
  assumes "calm w"
  shows "\<exists>w'. send_json dumps d w = (Inr (), w') \<and> calm w' \<and> wi_incoming w' = wi_incoming w \<and>
    wi_now w' = wi_now w \<and> sends_message dumps d w w'"
proof -
  obtain key w1 where k: "urandom 4 w = (Inr key, w1)" by (simp add: urandom_def)
  then have "length key = 4" by (auto simp: urandom_def split: list.splits)
  then obtain frame where f: "encode_client_frame (dumps (JObj d)) 1 key = Inr frame"
    by (simp add: encode_client_frame_eq)
  have w1: "wi_sends w1 = []" "wi_ticks w1 = []" "wi_sent w1 = wi_sent w" "wi_now w1 = wi_now w" "wi_incoming w1 = wi_incoming w"
    using k assms by (auto simp: urandom_def calm_def)
  then have "send_json dumps d w = (Inr (), w1\<lparr>wi_sends := [], wi_sent := wi_sent w1 @ [frame]\<rparr>)"
    using k f by (simp add: send_json_def send_frame_def bindS_def sendall_def)
  with w1 f show ?thesis by (auto simp: calm_def sends_message_def)
qed


section \<open>Samples\<close>

definition sample_event :: json_dict where
  "sample_event = [(''event'', JStr ''cpu.stepping'')]"

definition sample_response :: json_dict where
  "sample_response = [(''event'', JStr ''version''), (''ticket'', JInt 1)]"

definition sample_dumps :: "json \<Rightarrow> bytes" where
  "sample_dumps j = (if j = JObj sample_event then [1] else if j = JObj sample_response then [2] else [3])"

definition sample_loads :: "bytes \<Rightarrow> json option" where
  "sample_loads bs =
     (if bs = [1] then Some (JObj sample_event) else if bs = [2] then Some (JObj sample_response) else None)"

definition sample_client :: "bytes \<Rightarrow> client" where
  "sample_client bs = client_on ''localhost'' 8080 5 4096 4 (sample_wire bs)"


text \<open>A peer that accepts the handshake and then closes the connection.\<close>

definition accepting_wire :: wire where
  "accepting_wire = sample_wire (str_bytes (''HTTP/1.1 101 OK'' @ crlf @ ''Sec-WebSocket-Accept:'' @ crlf @ crlf))"

definition accepted_open :: "(transport_error, client) result \<times> wire option" where
  "accepted_open = open_client (\<lambda>_. []) sample_dumps sample_loads ''LocalHost'' 8080 5 5 4096 4 (Inr accepting_wire)"

text \<open>
  A failed opening leaks its socket: when the handshake succeeds and the request that
  follows it fails, opening raises and the connected socket is left open.
\<close>

lemma failed_open_leaves_socket_open:
  "(case accepted_open of
      (Inl e, Some w) \<Rightarrow> e = Closed_Unexpectedly \<and> \<not> wi_closed w \<and> length (wi_sent w) = 2
    | _ \<Rightarrow> False)"
  by code_simp

definition ticket_loads :: "bytes \<Rightarrow> json option" where
  "ticket_loads bs = (case bs of [b] \<Rightarrow> Some (JObj [(''ticket'', JInt (uint b))]) | _ \<Rightarrow> None)"

definition answering_wire :: wire where
  "answering_wire = sample_wire (str_bytes (''HTTP/1.1 101 OK'' @ crlf @ ''Sec-WebSocket-Accept:'' @ crlf @ crlf) @
     plain_frame 1 [1] @ plain_frame 1 [2])"

definition answered_open :: "(transport_error, client) result \<times> wire option" where
  "answered_open = open_client (\<lambda>_. []) (\<lambda>_. [0]) ticket_loads ''localhost'' 8080 5 5 4096 4 (Inr answering_wire)"

lemma answered_open_reachable: "client_reachable (\<lambda>_. [0]) ticket_loads (projr (fst answered_open))"
proof -
  have "\<not> isl (fst answered_open)" by code_simp
  then have "answered_open = (Inr (projr (fst answered_open)), snd answered_open)"
    by (metis prod.collapse sum.collapse(2))
  then show ?thesis unfolding answered_open_def by (rule client_reachable.opened)
qed

theorem client_queues_bounded_witness: "client_ok (projr (fst answered_open))"
  using client_queues_bounded [OF answered_open_reachable] by blast

end
