(* ===== verification/Runtime_Model.thy ===== *)
theory Runtime_Model
  imports Py_Prelude
begin

text \<open>
  The runtime evidence of \<open>model.py\<close>. The domain of a runtime address ranges over the four
  address spaces; warnings of an observation are a type parameter, as in the other models.
\<close>

datatype address_domain = Runtime_Domain | Analysis_Domain | Elf_Virtual_Domain | Module_Relative_Domain

record runtime_address =
  ra_domain :: address_domain
  ra_value :: int
  ra_module_path :: "string option"

record session_info =
  si_session_id :: string
  si_host :: string
  si_port :: int
  si_revision :: "string option"
  si_source_identity :: "string option"

record register_snapshot =
  rg_session_id :: string
  rg_sequence :: int
  rg_registers :: "(string \<times> int) list"

record memory_observation =
  mo_session_id :: string
  mo_sequence :: int
  mo_address :: runtime_address
  mo_size :: int
  mo_sha256 :: string

record backtrace_record =
  bt_session_id :: string
  bt_sequence :: int
  bt_frames :: "runtime_address list"

record 'w breakpoint_observation =
  bo_session_id :: string
  bo_sequence :: int
  bo_address :: runtime_address
  bo_hit_count :: int
  bo_registers :: "register_snapshot option"
  bo_memory :: "memory_observation list"
  bo_backtrace :: "backtrace_record option"
  bo_warnings :: "'w list"

datatype module_resolution = Hle_Reported | User_Provided | Unresolved_Module

record 'e runtime_module =
  rt_name :: "string option"
  rt_base :: runtime_address
  rt_size :: "int option"
  rt_static_path :: "string option"
  rt_resolution :: module_resolution
  rt_evidence :: "'e list"

datatype evidence_status =
  Unresolved_Evidence | Inferred | Corroborated | Runtime_Observed | Runtime_Verified | Conflicting

record 'c runtime_reconciliation =
  rr_static_kind :: string
  rr_static_address :: "runtime_address option"
  rr_static_evidence :: "string list"
  rr_runtime_address :: runtime_address
  rr_module_offset :: "runtime_address option"
  rr_observation_count :: int
  rr_status :: evidence_status
  rr_conflicts :: "'c list"

end
