(* ===== verification/Runtime_Session.thy ===== *)
theory Runtime_Session
  imports Debugger_Transport Runtime_Model
begin

text \<open>
  \<open>runtime/session.py\<close>: a bounded session over one debugger client, with the breakpoints it has
  installed, its sequence counter and, in launch mode, the process it started. A process is what
  \<open>poll\<close> and \<open>wait\<close> answer when they are called, and the signals it has been sent. \<open>sha256\<close> is
  the hexadecimal digest, a parameter.
\<close>

section \<open>State\<close>

datatype signal = Terminate | Kill

record process =
  pr_polls :: "int option list"
  pr_waits :: "bool list"
  pr_signals :: "signal list"

record session =
  se_info :: session_info
  se_process :: "process option"
  se_transport :: "client option"
  se_installed :: "int set"
  se_sequence :: int

datatype capture_failure =
    Not_Connected
  | Registers_Unreadable transport_error
  | Memory_Unreadable int transport_error
  | Backtrace_Failed transport_error
  | Observation_Failed int transport_error
  | Timeout_Not_Positive
  | Memory_Bound_Exceeded int int

datatype session_error =
    Executable_Missing | Launch_Failed
  | Process_Exited int
  | Never_Reachable transport_error
  | Transport_Raised transport_error
  | Capture_Error capture_failure

datatype observation_warning = Hit_Elsewhere "int option" int

type_synonym 'a session_action = "(session, session_error, 'a) action"

section \<open>Processes\<close>

definition poll :: "process \<Rightarrow> int option \<times> process" where
  "poll p = ((case pr_polls p of [] \<Rightarrow> None | r # _ \<Rightarrow> r), p\<lparr>pr_polls := tl (pr_polls p)\<rparr>)"

definition wait_process :: "process \<Rightarrow> bool \<times> process" where
  "wait_process p = ((case pr_waits p of [] \<Rightarrow> False | r # _ \<Rightarrow> r), p\<lparr>pr_waits := tl (pr_waits p)\<rparr>)"

definition send_signal :: "signal \<Rightarrow> process \<Rightarrow> process" where
  "send_signal s p = p\<lparr>pr_signals := pr_signals p @ [s]\<rparr>"

definition terminate_process :: "process \<Rightarrow> process" where
  "terminate_process p =
     (case poll p of
        (Some _, p1) \<Rightarrow> p1
      | (None, p1) \<Rightarrow>
          (case wait_process (send_signal Terminate p1) of
             (True, p2) \<Rightarrow> p2
           | (False, p2) \<Rightarrow> snd (wait_process (send_signal Kill p2))))"

text \<open>
  Connecting to a process that was just launched: one attempt after the other, each with what
  the client constructor returns or raises and the reading of the clock after a failure. \<open>None\<close>
  when the attempts given run out before one decides.
\<close>

record connect_attempt =
  ca_outcome :: "(transport_error, client) result"
  ca_clock :: rat

fun connect_with_retry ::
    "rat \<Rightarrow> connect_attempt list \<Rightarrow> process \<Rightarrow> ((session_error, client) result \<times> process) option" where
  "connect_with_retry deadline [] p = None"
| "connect_with_retry deadline (a # attempts) p =
     (case poll p of
        (Some code, p1) \<Rightarrow> Some (Inl (Process_Exited code), p1)
      | (None, p1) \<Rightarrow>
          (case ca_outcome a of
             Inr c \<Rightarrow> Some (Inr c, p1)
           | Inl e \<Rightarrow>
               if transport_error_class e = Protocol_Error then Some (Inl (Transport_Raised e), p1)
               else if ca_clock a \<ge> deadline then Some (Inl (Never_Reachable e), p1)
               else connect_with_retry deadline attempts p1))"

definition session_on :: "session_info \<Rightarrow> process option \<Rightarrow> client \<Rightarrow> session" where
  "session_on info process c =
     \<lparr> se_info = info, se_process = process, se_transport = Some c, se_installed = {}, se_sequence = 0 \<rparr>"

text \<open>
  \<open>RuntimeSession.__init__\<close> in connect mode, and in launch mode with the launched process (or
  the failure to launch it), the reading of the clock after the launch and the attempts. A failed
  start leaves the process terminated.
\<close>

definition start_connected :: "session_info \<Rightarrow> (transport_error, client) result \<Rightarrow> (session_error, session) result" where
  "start_connected info outcome =
     (case outcome of Inl e \<Rightarrow> Inl (Transport_Raised e) | Inr c \<Rightarrow> Inr (session_on info None c))"

definition start_launched ::
    "session_info \<Rightarrow> (session_error, process) result \<Rightarrow> rat \<Rightarrow> rat \<Rightarrow> connect_attempt list \<Rightarrow>
       ((session_error, session) result \<times> process option) option" where
  "start_launched info launched now retry_seconds attempts =
     (case launched of
        Inl e \<Rightarrow> Some (Inl e, None)
      | Inr p \<Rightarrow>
          (case connect_with_retry (now + retry_seconds) attempts p of
             None \<Rightarrow> None
           | Some (Inl e, p1) \<Rightarrow> Some (Inl e, Some (terminate_process p1))
           | Some (Inr c, p1) \<Rightarrow> Some (Inr (session_on info (Some p1) c), Some p1)))"

section \<open>Operations\<close>

text \<open>A client operation on the session's transport.\<close>

definition on_transport :: "(transport_error \<Rightarrow> session_error) \<Rightarrow> 'a client_action \<Rightarrow> 'a session_action" where
  "on_transport convert f s =
     (case se_transport s of
        None \<Rightarrow> (Inl (Capture_Error Not_Connected), s)
      | Some c \<Rightarrow> (case f c of
            (Inl e, c') \<Rightarrow> (Inl (convert e), s\<lparr>se_transport := Some c'\<rparr>)
          | (Inr x, c') \<Rightarrow> (Inr x, s\<lparr>se_transport := Some c'\<rparr>)))"

definition require_transport :: "unit session_action" where
  "require_transport s =
     (case se_transport s of None \<Rightarrow> (Inl (Capture_Error Not_Connected), s) | Some _ \<Rightarrow> (Inr (), s))"

definition next_sequence :: "int session_action" where
  "next_sequence s = (Inr (se_sequence s + 1), s\<lparr>se_sequence := se_sequence s + 1\<rparr>)"

text \<open>Closing: every installed breakpoint is removed as far as that works, then the client is closed.\<close>

definition remove_all :: "(json \<Rightarrow> bytes) \<Rightarrow> (bytes \<Rightarrow> json option) \<Rightarrow> int list \<Rightarrow> client \<Rightarrow> client" where
  "remove_all dumps loads addresses c = fold (\<lambda>a. attempt (remove_exec_breakpoint dumps loads a)) addresses c"

record closed_session =
  cs_session :: session
  cs_client :: "client option"
  cs_process :: "process option"

definition close_session ::
    "(json \<Rightarrow> bytes) \<Rightarrow> (bytes \<Rightarrow> json option) \<Rightarrow> int list \<Rightarrow> session \<Rightarrow> closed_session" where
  "close_session dumps loads order s =
     \<lparr> cs_session = s\<lparr>se_transport := None, se_process := None,
         se_installed := (case se_transport s of None \<Rightarrow> se_installed s | Some _ \<Rightarrow> se_installed s - set order)\<rparr>,
       cs_client = map_option (\<lambda>c. close_client (remove_all dumps loads order c)) (se_transport s),
       cs_process = map_option terminate_process (se_process s) \<rparr>"

definition read_registers :: "(json \<Rightarrow> bytes) \<Rightarrow> (bytes \<Rightarrow> json option) \<Rightarrow> register_snapshot session_action" where
  "read_registers dumps loads =
     bindS (on_transport (\<lambda>e. Capture_Error (Registers_Unreadable e)) (get_registers dumps loads)) (\<lambda>registers.
     bindS next_sequence (\<lambda>n.
     bindS (readS se_info) (\<lambda>info.
     returnS \<lparr> rg_session_id = si_session_id info, rg_sequence = n, rg_registers = registers \<rparr>)))"

definition read_session_memory ::
    "(bytes \<Rightarrow> string) \<Rightarrow> (json \<Rightarrow> bytes) \<Rightarrow> (bytes \<Rightarrow> json option) \<Rightarrow> int \<Rightarrow> runtime_address \<times> int \<Rightarrow>
       memory_observation session_action" where
  "read_session_memory sha256 dumps loads max_bytes read =
     (case read of (address, sz) \<Rightarrow>
     bindS (on_transport (\<lambda>e. Capture_Error (Memory_Unreadable (ra_value address) e))
              (read_memory dumps loads (ra_value address) sz max_bytes)) (\<lambda>data.
     bindS next_sequence (\<lambda>n.
     bindS (readS se_info) (\<lambda>info.
     returnS \<lparr> mo_session_id = si_session_id info, mo_sequence = n, mo_address = address, mo_size = sz,
               mo_sha256 = sha256 data \<rparr>))))"

definition read_backtrace ::
    "(json \<Rightarrow> bytes) \<Rightarrow> (bytes \<Rightarrow> json option) \<Rightarrow> int \<Rightarrow> backtrace_record session_action" where
  "read_backtrace dumps loads max_depth =
     bindS (on_transport (\<lambda>e. Capture_Error (Backtrace_Failed e)) (backtrace dumps loads max_depth)) (\<lambda>frames.
     bindS next_sequence (\<lambda>n.
     bindS (readS se_info) (\<lambda>info.
     returnS \<lparr> bt_session_id = si_session_id info, bt_sequence = n,
       bt_frames = map (\<lambda>pc. \<lparr> ra_domain = Runtime_Domain, ra_value = pc, ra_module_path = None \<rparr>) frames \<rparr>)))"

definition hit_warnings :: "int \<Rightarrow> json_dict \<Rightarrow> observation_warning list" where
  "hit_warnings address event =
     (let hit_address = (case json_get event ''hit'' of JObj hit \<Rightarrow> json_int (json_get hit ''address'') | _ \<Rightarrow> None)
      in if hit_address = Some address then [] else [Hit_Elsewhere hit_address address])"

definition optionalS :: "bool \<Rightarrow> ('s, 'e, 'a) action \<Rightarrow> ('s, 'e, 'a option) action" where
  "optionalS c m = (if c then bindS m (\<lambda>x. returnS (Some x)) else returnS None)"

text \<open>What happens between installing the breakpoint and removing it.\<close>

definition capture_at_breakpoint ::
    "(bytes \<Rightarrow> string) \<Rightarrow> (json \<Rightarrow> bytes) \<Rightarrow> (bytes \<Rightarrow> json option) \<Rightarrow> runtime_address \<Rightarrow> rat \<Rightarrow>
       (runtime_address \<times> int) list \<Rightarrow> bool \<Rightarrow> bool \<Rightarrow> int \<Rightarrow> int \<Rightarrow>
       observation_warning breakpoint_observation session_action" where
  "capture_at_breakpoint sha256 dumps loads address timeout memory_reads capture_registers capture_backtrace
       max_backtrace_depth max_total_memory_bytes =
     (let failed = (\<lambda>e. Capture_Error (Observation_Failed (ra_value address) e)) in
      thenS (on_transport failed (resume_cpu dumps))
     (bindS (on_transport failed (wait_for_event loads ''cpu.stepping'' timeout)) (\<lambda>event.
      bindS (optionalS capture_registers (read_registers dumps loads)) (\<lambda>registers.
      bindS (mapS (read_session_memory sha256 dumps loads max_total_memory_bytes) memory_reads) (\<lambda>memory.
      bindS (optionalS capture_backtrace (read_backtrace dumps loads max_backtrace_depth)) (\<lambda>trace.
      bindS next_sequence (\<lambda>n.
      bindS (readS se_info) (\<lambda>info.
      returnS \<lparr> bo_session_id = si_session_id info, bo_sequence = n, bo_address = address, bo_hit_count = 1,
                bo_registers = registers, bo_memory = memory, bo_backtrace = trace,
                bo_warnings = hit_warnings (ra_value address) event \<rparr>))))))))"

definition remove_breakpoint :: "(json \<Rightarrow> bytes) \<Rightarrow> (bytes \<Rightarrow> json option) \<Rightarrow> int \<Rightarrow> session \<Rightarrow> session" where
  "remove_breakpoint dumps loads address s =
     s\<lparr>se_transport := map_option (\<lambda>c. attempt (resume_cpu dumps) (attempt (remove_exec_breakpoint dumps loads address) c))
         (se_transport s),
       se_installed := se_installed s - {address}\<rparr>"

definition observe_breakpoint ::
    "(bytes \<Rightarrow> string) \<Rightarrow> (json \<Rightarrow> bytes) \<Rightarrow> (bytes \<Rightarrow> json option) \<Rightarrow> runtime_address \<Rightarrow> rat \<Rightarrow>
       (runtime_address \<times> int) list \<Rightarrow> bool \<Rightarrow> bool \<Rightarrow> int \<Rightarrow> int \<Rightarrow>
       observation_warning breakpoint_observation session_action" where
  "observe_breakpoint sha256 dumps loads address timeout memory_reads capture_registers capture_backtrace
       max_backtrace_depth max_total_memory_bytes =
     thenS (ensureS (\<not> timeout \<le> 0) (Capture_Error Timeout_Not_Positive))
    (thenS (ensureS (sum_list (map snd memory_reads) \<le> max_total_memory_bytes)
              (Capture_Error (Memory_Bound_Exceeded (sum_list (map snd memory_reads)) max_total_memory_bytes)))
    (thenS require_transport
    (thenS (on_transport (\<lambda>e. Capture_Error (Observation_Failed (ra_value address) e))
              (add_exec_breakpoint dumps loads (ra_value address)))
    (thenS (updateS (\<lambda>s. s\<lparr>se_installed := insert (ra_value address) (se_installed s)\<rparr>))
    (finallyS
       (capture_at_breakpoint sha256 dumps loads address timeout memory_reads capture_registers
          capture_backtrace max_backtrace_depth max_total_memory_bytes)
       (remove_breakpoint dumps loads (ra_value address)))))))"

section \<open>Breakpoints are not left behind\<close>

text \<open>What an operation other than installing and removing keeps: the breakpoints and the connection.\<close>

definition holds_breakpoints :: "int set \<Rightarrow> session \<Rightarrow> bool" where
  "holds_breakpoints I s \<longleftrightarrow> se_installed s = I \<and> se_transport s \<noteq> None"

lemma holds_on_transport [preserves_intros]: "preserves (holds_breakpoints I) (on_transport convert f)"
  by (auto simp: preserves_def on_transport_def holds_breakpoints_def split: option.splits prod.splits sum.splits)

lemma holds_next_sequence [preserves_intros]: "preserves (holds_breakpoints I) next_sequence"
  by (auto simp: preserves_def next_sequence_def holds_breakpoints_def)

lemma preserves_optional [preserves_intros]: "preserves P m \<Longrightarrow> preserves P (optionalS c m)"
  unfolding optionalS_def by (intro preserves_intros)

lemma holds_read_registers [preserves_intros]: "preserves (holds_breakpoints I) (read_registers dumps loads)"
  unfolding read_registers_def by (intro preserves_intros)

lemma holds_read_memory [preserves_intros]:
  "preserves (holds_breakpoints I) (read_session_memory sha256 dumps loads m r)"
  unfolding read_session_memory_def by (cases r) (simp, intro preserves_intros)

lemma holds_read_backtrace [preserves_intros]: "preserves (holds_breakpoints I) (read_backtrace dumps loads d)"
  unfolding read_backtrace_def by (intro preserves_intros)

lemma holds_capture:
  "preserves (holds_breakpoints I) (capture_at_breakpoint sha256 dumps loads a t reads cr cb d m)"
  unfolding capture_at_breakpoint_def Let_def by (intro preserves_intros)

text \<open>The checks that come before anything is sent.\<close>

definition observation_allowed :: "rat \<Rightarrow> (runtime_address \<times> int) list \<Rightarrow> int \<Rightarrow> bool" where
  "observation_allowed timeout reads bound \<longleftrightarrow> 0 < timeout \<and> sum_list (map snd reads) \<le> bound"

lemma observe_breakpoint_unfold:
  assumes "observation_allowed t reads m" "se_transport s = Some c"
  shows "observe_breakpoint sha256 dumps loads a t reads cr cb d m s =
    (case add_exec_breakpoint dumps loads (ra_value a) c of
       (Inl e, c') \<Rightarrow> (Inl (Capture_Error (Observation_Failed (ra_value a) e)), s\<lparr>se_transport := Some c'\<rparr>)
     | (Inr _, c') \<Rightarrow> finallyS (capture_at_breakpoint sha256 dumps loads a t reads cr cb d m)
         (remove_breakpoint dumps loads (ra_value a))
         (s\<lparr>se_transport := Some c', se_installed := insert (ra_value a) (se_installed s)\<rparr>))"
  using assms
  by (auto simp: observe_breakpoint_def thenS_def bindS_def ensureS_def require_transport_def on_transport_def
      observation_allowed_def split: prod.splits sum.splits)

lemma observe_breakpoint_refused:
  assumes "\<not> (observation_allowed t reads m \<and> se_transport s \<noteq> None)"
  shows "snd (observe_breakpoint sha256 dumps loads a t reads cr cb d m s) = s"
  using assms
  by (auto simp: observe_breakpoint_def thenS_def bindS_def ensureS_def require_transport_def observation_allowed_def
      not_less split: option.splits)

lemma finally_remove:
  assumes "finallyS m (remove_breakpoint dumps loads a) s = (r, s')" "preserves (holds_breakpoints I) m" "holds_breakpoints I s"
  shows "se_installed s' = I - {a} \<and>
    (\<exists>c. se_transport s' = Some (attempt (resume_cpu dumps) (attempt (remove_exec_breakpoint dumps loads a) c)))"
proof -
  obtain r1 s1 where r1: "m s = (r1, s1)" by fastforce
  with assms(2,3) have "holds_breakpoints I s1" by (rule preservesD)
  with assms(1) r1 show ?thesis by (auto simp: finallyS_def holds_breakpoints_def remove_breakpoint_def)
qed

lemma observe_removes:
  assumes "observe_breakpoint sha256 dumps loads a t reads cr cb d m s = (r, s')"
    and "observation_allowed t reads m" "se_transport s = Some c"
    and "add_exec_breakpoint dumps loads (ra_value a) c = (Inr u, c')"
  shows "se_installed s' = se_installed s - {ra_value a} \<and> (\<exists>c''. se_transport s' =
    Some (attempt (resume_cpu dumps) (attempt (remove_exec_breakpoint dumps loads (ra_value a)) c'')))"
proof -
  let ?s = "s\<lparr>se_transport := Some c', se_installed := insert (ra_value a) (se_installed s)\<rparr>"
  have "finallyS (capture_at_breakpoint sha256 dumps loads a t reads cr cb d m)
      (remove_breakpoint dumps loads (ra_value a)) ?s = (r, s')"
    using assms by (simp add: observe_breakpoint_unfold)
  from finally_remove [OF this holds_capture, of "insert (ra_value a) (se_installed s)"] show ?thesis
    by (auto simp: holds_breakpoints_def)
qed

text \<open>
  Property C22. An installed breakpoint is always taken back: once the debugger has confirmed the
  breakpoint, then whatever happens during the observation (a timeout, a lost connection, a
  malformed answer, a refused read), the last things sent are the removal of that breakpoint
  and a resume, and the session no longer counts it as installed.
\<close>

theorem observation_removes_breakpoint:
  assumes "observe_breakpoint sha256 dumps loads a t reads cr cb d m s = (r, s')"
    and "observation_allowed t reads m" "se_transport s = Some c"
    and "add_exec_breakpoint dumps loads (ra_value a) c = (Inr u, c')"
  shows "se_installed s' = se_installed s - {ra_value a} \<and> (\<exists>c''. se_transport s' =
    Some (attempt (resume_cpu dumps) (attempt (remove_exec_breakpoint dumps loads (ra_value a)) c'')))"
  by (rule observe_removes [OF assms])

text \<open>
  An unconfirmed breakpoint is left behind: when the request that installs the
  breakpoint fails in any way (its answer may have been lost after the debugger acted on it),
  nothing more is sent: no removal and no resume.
\<close>

theorem unconfirmed_breakpoint_not_removed:
  assumes "observation_allowed t reads m" "se_transport s = Some c"
    and "add_exec_breakpoint dumps loads (ra_value a) c = (Inl e, c')"
  shows "observe_breakpoint sha256 dumps loads a t reads cr cb d m s =
    (Inl (Capture_Error (Observation_Failed (ra_value a) e)), s\<lparr>se_transport := Some c'\<rparr>)"
  using assms by (simp add: observe_breakpoint_unfold)

section \<open>Reachable sessions\<close>

inductive session_reachable :: "(bytes \<Rightarrow> string) \<Rightarrow> (json \<Rightarrow> bytes) \<Rightarrow> (bytes \<Rightarrow> json option) \<Rightarrow> session \<Rightarrow> bool"
  for sha256 dumps loads where
  connected: "start_connected info outcome = Inr s \<Longrightarrow> session_reachable sha256 dumps loads s"
| launched: "start_launched info p now retry attempts = Some (Inr s, q) \<Longrightarrow> session_reachable sha256 dumps loads s"
| registers: "session_reachable sha256 dumps loads s \<Longrightarrow>
    session_reachable sha256 dumps loads (snd (read_registers dumps loads s))"
| memory: "session_reachable sha256 dumps loads s \<Longrightarrow>
    session_reachable sha256 dumps loads (snd (read_session_memory sha256 dumps loads n r s))"
| observed: "session_reachable sha256 dumps loads s \<Longrightarrow>
    session_reachable sha256 dumps loads (snd (observe_breakpoint sha256 dumps loads a t reads cr cb d m s))"

lemma observe_holds_none:
  assumes "holds_breakpoints {} s"
  shows "holds_breakpoints {} (snd (observe_breakpoint sha256 dumps loads a t reads cr cb d m s))"
proof (cases "observation_allowed t reads m")
  case False
  then show ?thesis using assms by (simp add: observe_breakpoint_refused)
next
  case True
  obtain c where c: "se_transport s = Some c" using assms by (auto simp: holds_breakpoints_def)
  obtain r s' where r: "observe_breakpoint sha256 dumps loads a t reads cr cb d m s = (r, s')" by fastforce
  obtain q c' where q: "add_exec_breakpoint dumps loads (ra_value a) c = (q, c')" by fastforce
  show ?thesis
  proof (cases q)
    case (Inl e)
    with True c q assms show ?thesis by (simp add: observe_breakpoint_unfold holds_breakpoints_def)
  next
    case (Inr u)
    with observe_removes [OF r True c] q assms r show ?thesis by (auto simp: holds_breakpoints_def)
  qed
qed

lemma session_reachable_holds_none: "session_reachable sha256 dumps loads s \<Longrightarrow> holds_breakpoints {} s"
proof (induction rule: session_reachable.induct)
  case (connected info outcome s)
  then show ?case by (auto simp: start_connected_def session_on_def holds_breakpoints_def split: sum.splits)
next
  case (launched info p now retry attempts s q)
  then show ?case
    by (auto simp: start_launched_def session_on_def holds_breakpoints_def split: sum.splits option.splits prod.splits)
next
  case (registers s)
  then show ?case using holds_read_registers by (auto simp: preserves_def)
next
  case (memory s n r)
  then show ?case using holds_read_memory by (auto simp: preserves_def)
next
  case (observed s a t reads cr cb d m)
  then show ?case by (intro observe_holds_none)
qed

text \<open>
  Between operations no breakpoint is installed: in every state a session that was
  started can reach, whether its operations return or raise, it is connected and counts no
  breakpoint as installed; closing it leaves no client and no process behind it, the socket
  closed.
\<close>

theorem session_holds_no_breakpoint:
  assumes "session_reachable sha256 dumps loads s"
  shows "se_installed s = {} \<and> se_transport s \<noteq> None \<and>
    (let closed = close_session dumps loads order s in
       se_transport (cs_session closed) = None \<and> se_process (cs_session closed) = None \<and>
       se_installed (cs_session closed) = {} \<and> (case cs_client closed of None \<Rightarrow> False | Some c \<Rightarrow> wi_closed (cl_wire c)))"
  using session_reachable_holds_none [OF assms]
  by (auto simp: holds_breakpoints_def close_session_def Let_def close_client_def split: option.splits)

section \<open>Sequence numbers\<close>

lemma on_transport_sequence: "on_transport convert f s = (r, s') \<Longrightarrow> se_sequence s' = se_sequence s"
  by (auto simp: on_transport_def split: option.splits prod.splits sum.splits)

lemma read_registers_sequence:
  "read_registers dumps loads s = (Inr x, s') \<Longrightarrow> rg_sequence x = se_sequence s + 1 \<and> se_sequence s' = se_sequence s + 1"
  by (auto simp: read_registers_def bindS_Inr next_sequence_def dest!: on_transport_sequence)

lemma read_memory_sequence:
  "read_session_memory sha256 dumps loads m r s = (Inr x, s') \<Longrightarrow>
     mo_sequence x = se_sequence s + 1 \<and> se_sequence s' = se_sequence s + 1"
  by (auto simp: read_session_memory_def bindS_Inr next_sequence_def split: prod.splits dest!: on_transport_sequence)

lemma read_backtrace_sequence:
  "read_backtrace dumps loads d s = (Inr x, s') \<Longrightarrow> bt_sequence x = se_sequence s + 1 \<and> se_sequence s' = se_sequence s + 1"
  by (auto simp: read_backtrace_def bindS_Inr next_sequence_def dest!: on_transport_sequence)

lemma map_memory_sequence:
  "mapS (read_session_memory sha256 dumps loads m) rs s = (Inr xs, s') \<Longrightarrow>
     map mo_sequence xs = [se_sequence s + 1..se_sequence s'] \<and> se_sequence s \<le> se_sequence s'"
proof (induction rs arbitrary: s xs)
  case Nil
  then show ?case by simp
next
  case (Cons r rs)
  then obtain x s1 ys where "read_session_memory sha256 dumps loads m r s = (Inr x, s1)"
    "mapS (read_session_memory sha256 dumps loads m) rs s1 = (Inr ys, s')" "xs = x # ys"
    by (auto simp: bindS_Inr)
  with Cons.IH [of s1 ys] read_memory_sequence show ?case
    by (fastforce simp: upto.simps [of "se_sequence s + 1"])
qed

definition observation_sequences :: "'w breakpoint_observation \<Rightarrow> int list" where
  "observation_sequences obs =
     (case bo_registers obs of None \<Rightarrow> [] | Some r \<Rightarrow> [rg_sequence r]) @ map mo_sequence (bo_memory obs) @
     (case bo_backtrace obs of None \<Rightarrow> [] | Some b \<Rightarrow> [bt_sequence b]) @ [bo_sequence obs]"

lemma optional_sequence:
  assumes "optionalS c m s = (Inr x, s')"
    and "\<And>y t. m s = (Inr y, t) \<Longrightarrow> f y = se_sequence s + 1 \<and> se_sequence t = se_sequence s + 1"
  shows "(case x of None \<Rightarrow> [] | Some y \<Rightarrow> [f y]) = [se_sequence s + 1..se_sequence s'] \<and> se_sequence s \<le> se_sequence s'"
  using assms by (cases c) (auto simp: optionalS_def bindS_Inr)

lemma upto_join: "i \<le> j + 1 \<Longrightarrow> j \<le> k \<Longrightarrow> [i..j] @ [j + 1..k] = [i..k :: int]"
  using upto_split2 [of i j k] by (cases "i = j + 1") auto

lemma capture_sequences:
  assumes "capture_at_breakpoint sha256 dumps loads a t reads cr cb d m s = (Inr obs, s')"
  shows "observation_sequences obs = [se_sequence s + 1..se_sequence s']"
proof -
  from assms obtain n s1 event s2 regs s3 mem s4 trace s5 where
    1: "on_transport (\<lambda>e. Capture_Error (Observation_Failed (ra_value a) e)) (resume_cpu dumps) s = (Inr n, s1)"
    and 2: "on_transport (\<lambda>e. Capture_Error (Observation_Failed (ra_value a) e)) (wait_for_event loads ''cpu.stepping'' t) s1 = (Inr event, s2)"
    and 3: "optionalS cr (read_registers dumps loads) s2 = (Inr regs, s3)"
    and 4: "mapS (read_session_memory sha256 dumps loads m) reads s3 = (Inr mem, s4)"
    and 5: "optionalS cb (read_backtrace dumps loads d) s4 = (Inr trace, s5)"
    and 6: "s' = s5\<lparr>se_sequence := se_sequence s5 + 1\<rparr>"
    and obs: "bo_registers obs = regs" "bo_memory obs = mem" "bo_backtrace obs = trace" "bo_sequence obs = se_sequence s5 + 1"
    by (auto simp: capture_at_breakpoint_def Let_def thenS_def bindS_Inr next_sequence_def)
  have s2: "se_sequence s2 = se_sequence s"
    using on_transport_sequence [OF 1] on_transport_sequence [OF 2] by simp
  note me = map_memory_sequence [OF 4]
  have r: "(case regs of None \<Rightarrow> [] | Some y \<Rightarrow> [rg_sequence y]) = [se_sequence s2 + 1..se_sequence s3] \<and>
      se_sequence s2 \<le> se_sequence s3"
    by (rule optional_sequence [OF 3]) (rule read_registers_sequence)
  have b: "(case trace of None \<Rightarrow> [] | Some y \<Rightarrow> [bt_sequence y]) = [se_sequence s4 + 1..se_sequence s5] \<and>
      se_sequence s4 \<le> se_sequence s5"
    by (rule optional_sequence [OF 5]) (rule read_backtrace_sequence)
  have "observation_sequences obs = [se_sequence s + 1..se_sequence s3] @ [se_sequence s3 + 1..se_sequence s4] @
      [se_sequence s4 + 1..se_sequence s5] @ [se_sequence s5 + 1..se_sequence s5 + 1]"
    using r me b obs by (simp add: observation_sequences_def s2)
  also have "\<dots> = [se_sequence s + 1..se_sequence s5 + 1]"
    using r me b by (simp add: upto_join s2 del: upto_single flip: append_assoc)
  finally show ?thesis by (simp add: 6)
qed

text \<open>
  An observation is numbered without gaps: its registers, memory reads, backtrace
  and the observation itself carry consecutive sequence numbers, in that order, from the
  session's next number to the number the session has reached.
\<close>

theorem observation_numbers_consecutive:
  assumes "observe_breakpoint sha256 dumps loads a t reads cr cb d m s = (Inr obs, s')"
  shows "observation_sequences obs = [se_sequence s + 1..se_sequence s']"
proof -
  from assms have c: "observation_allowed t reads m" "se_transport s \<noteq> None"
    by (auto simp: observe_breakpoint_def thenS_def bindS_Inr ensureS_def require_transport_def
        observation_allowed_def split: if_splits option.splits)
  then obtain c0 where c0: "se_transport s = Some c0" by blast
  from assms observe_breakpoint_unfold [OF c(1) c0] obtain u c1 where
    f: "finallyS (capture_at_breakpoint sha256 dumps loads a t reads cr cb d m) (remove_breakpoint dumps loads (ra_value a))
         (s\<lparr>se_transport := Some c1, se_installed := insert (ra_value a) (se_installed s)\<rparr>) = (Inr obs, s')"
    by (auto split: prod.splits sum.splits)
  then obtain s1 where "capture_at_breakpoint sha256 dumps loads a t reads cr cb d m
      (s\<lparr>se_transport := Some c1, se_installed := insert (ra_value a) (se_installed s)\<rparr>) = (Inr obs, s1)"
    "s' = remove_breakpoint dumps loads (ra_value a) s1"
    by (auto simp: finallyS_def split: prod.splits)
  with capture_sequences show ?thesis by (fastforce simp: remove_breakpoint_def)
qed

section \<open>Samples\<close>

definition session_loads :: "bytes \<Rightarrow> json option" where
  "session_loads bs =
     (if bs = [9] then Some (JObj [(''event'', JStr ''cpu.stepping''), (''hit'', JObj [(''address'', JInt 64)])])
      else if bs = [3] then Some (JObj [(''ticket'', JInt 3), (''categories'', JList [JObj
        [(''registerNames'', JList [JStr ''pc'']), (''uintValues'', JList [JInt 64])]])])
      else if bs = [1] then Some (JObj [(''ticket'', JInt 1)]) else None)"

abbreviation sample_encode :: "json \<Rightarrow> bytes" where
  "sample_encode \<equiv> \<lambda>_. [0]"

abbreviation sample_sha256 :: "bytes \<Rightarrow> string" where
  "sample_sha256 \<equiv> \<lambda>_. []"

definition sample_info :: session_info where
  "sample_info = \<lparr> si_session_id = ''s'', si_host = ''localhost'', si_port = 8080, si_revision = None,
     si_source_identity = None \<rparr>"

definition sample_debugger :: "bytes \<Rightarrow> client" where
  "sample_debugger bs = client_on ''localhost'' 8080 5 4096 4 (sample_wire bs)"

definition sample_session :: "bytes \<Rightarrow> session" where
  "sample_session bs = session_on sample_info None (sample_debugger bs)"

definition sample_address :: runtime_address where
  "sample_address = \<lparr> ra_domain = Runtime_Domain, ra_value = 64, ra_module_path = None \<rparr>"

definition sample_observe :: "bytes \<Rightarrow> (session_error, observation_warning breakpoint_observation) result \<times> session" where
  "sample_observe bs =
     observe_breakpoint sample_sha256 sample_encode session_loads sample_address 5 [] True False 32 64 (sample_session bs)"

lemma sample_allowed: "observation_allowed 5 [] 64"
  by (simp add: observation_allowed_def)

lemma sample_session_transport: "se_transport (sample_session bs) = Some (sample_debugger bs)"
  by (simp add: sample_session_def session_on_def)

theorem observation_removes_breakpoint_witness:
  "se_installed (snd (sample_observe (plain_frame 1 [1]))) = {} \<and> isl (fst (sample_observe (plain_frame 1 [1])))"
proof -
  let ?c = "sample_debugger (plain_frame 1 [1])"
  have "\<not> isl (fst (add_exec_breakpoint sample_encode session_loads 64 ?c))" by code_simp
  then have "add_exec_breakpoint sample_encode session_loads (ra_value sample_address) ?c =
      (Inr (), snd (add_exec_breakpoint sample_encode session_loads 64 ?c))"
    by (cases "fst (add_exec_breakpoint sample_encode session_loads 64 ?c)") (auto simp: prod_eq_iff sample_address_def)
  from observation_removes_breakpoint [OF _ sample_allowed sample_session_transport this, of _ _ _ _
      "fst (sample_observe (plain_frame 1 [1]))" "snd (sample_observe (plain_frame 1 [1]))"]
  have "se_installed (snd (sample_observe (plain_frame 1 [1]))) = se_installed (sample_session (plain_frame 1 [1])) - {64}"
    by (simp add: sample_observe_def sample_address_def)
  moreover have "isl (fst (sample_observe (plain_frame 1 [1])))" by code_simp
  ultimately show ?thesis by (simp add: sample_session_def session_on_def)
qed

theorem unconfirmed_breakpoint_not_removed_witness:
  "(\<exists>c'. sample_observe [] = (Inl (Capture_Error (Observation_Failed 64 Closed_Unexpectedly)),
      (sample_session [])\<lparr>se_transport := Some c'\<rparr>) \<and> length (wi_sent (cl_wire c')) = 1)"
proof -
  let ?add = "add_exec_breakpoint sample_encode session_loads 64 (sample_debugger [])"
  have "(case fst ?add of Inl e \<Rightarrow> e = Closed_Unexpectedly | Inr _ \<Rightarrow> False) \<and>
      length (wi_sent (cl_wire (snd ?add))) = 1" by code_simp
  then have "?add = (Inl Closed_Unexpectedly, snd ?add)" "length (wi_sent (cl_wire (snd ?add))) = 1"
    by (cases ?add; auto split: sum.splits)+
  moreover from this(1) have "add_exec_breakpoint sample_encode session_loads (ra_value sample_address) (sample_debugger [])
      = (Inl Closed_Unexpectedly, snd ?add)" by (simp add: sample_address_def)
  note unconfirmed_breakpoint_not_removed [OF sample_allowed sample_session_transport this, of sample_sha256 True False 32]
  ultimately show ?thesis by (intro exI [of _ "snd ?add"]) (simp add: sample_observe_def sample_address_def)
qed

theorem session_holds_no_breakpoint_witness: "se_installed (sample_session []) = {}"
proof -
  have "session_reachable sample_sha256 sample_encode session_loads (sample_session [])"
    by (rule session_reachable.connected [of sample_info "Inr (sample_debugger [])"])
      (simp add: start_connected_def sample_session_def)
  from session_holds_no_breakpoint [OF this] show ?thesis by blast
qed

theorem observation_numbers_consecutive_witness:
  "(case sample_observe (plain_frame 1 [1] @ plain_frame 1 [9] @ plain_frame 1 [3]) of
      (Inr obs, s') \<Rightarrow> observation_sequences obs = [1, 2] | _ \<Rightarrow> False)"
proof -
  let ?run = "sample_observe (plain_frame 1 [1] @ plain_frame 1 [9] @ plain_frame 1 [3])"
  have run: "\<not> isl (fst ?run) \<and> se_sequence (snd ?run) = 2" by code_simp
  then obtain obs s' where r: "?run = (Inr obs, s')"
    by (cases "fst ?run"; cases ?run) auto
  with run have "se_sequence s' = 2" by simp
  moreover have "observation_sequences obs = [se_sequence (sample_session (plain_frame 1 [1] @ plain_frame 1 [9] @
      plain_frame 1 [3])) + 1..se_sequence s']"
    by (rule observation_numbers_consecutive [OF r [unfolded sample_observe_def]])
  ultimately show ?thesis by (simp add: r sample_session_def session_on_def upto.simps)
qed

end
