(* ===== verification/Runtime_Modules.thy ===== *)
theory Runtime_Modules
  imports Debugger_Transport Runtime_Model
begin

text \<open>
  \<open>runtime/modules.py\<close>: which modules are loaded where. A source either asks the debugger or
  uses a mapping given by the caller; the first source that answers is used alone.
\<close>

datatype module_evidence =
    Reported_By string
  | Provided_Base string int
  | Sized_From_Placements

type_synonym module_list = "module_evidence runtime_module list"

definition runtime_at :: "int \<Rightarrow> runtime_address" where
  "runtime_at v = \<lparr> ra_domain = Runtime_Domain, ra_value = v, ra_module_path = None \<rparr>"

text \<open>\<open>entry.get("address", entry.get("base"))\<close>: a null address is not replaced by the base.\<close>

definition entry_base :: "json_dict \<Rightarrow> int option" where
  "entry_base d = json_int (case map_of d ''address'' of Some v \<Rightarrow> v | None \<Rightarrow> json_get d ''base'')"

definition hle_module :: "string \<Rightarrow> json \<Rightarrow> module_evidence runtime_module option" where
  "hle_module event entry =
     (case json_obj entry of
        None \<Rightarrow> None
      | Some d \<Rightarrow>
          (case entry_base d of
             None \<Rightarrow> None
           | Some base \<Rightarrow> Some
               \<lparr> rt_name = json_str (json_get d ''name''), rt_base = runtime_at base,
                 rt_size = json_int (json_get d ''size''), rt_static_path = None,
                 rt_resolution = Hle_Reported, rt_evidence = [Reported_By event] \<rparr>))"

definition hle_discover ::
    "(json \<Rightarrow> bytes) \<Rightarrow> (bytes \<Rightarrow> json option) \<Rightarrow> string \<Rightarrow> rat \<Rightarrow> module_list client_action" where
  "hle_discover dumps loads event probe_timeout =
     bindS (try_request dumps loads (Some probe_timeout) event []) (\<lambda>result.
     returnS (case result of
         None \<Rightarrow> []
       | Some payload \<Rightarrow>
           (case json_list (json_get payload ''modules'') of
              None \<Rightarrow> []
            | Some entries \<Rightarrow> List.map_filter (hle_module event) entries)))"

definition placement_size :: "(string \<times> json) list \<Rightarrow> string \<Rightarrow> int option" where
  "placement_size placements path =
     (case map_of placements path of
        Some (JObj d) \<Rightarrow> json_int (json_get d ''image_size'')
      | _ \<Rightarrow> None)"

definition provided_module :: "(string \<times> json) list \<Rightarrow> string \<times> int \<Rightarrow> module_evidence runtime_module" where
  "provided_module placements entry =
     (case entry of (path, base) \<Rightarrow>
        \<lparr> rt_name = Some path, rt_base = runtime_at base, rt_size = placement_size placements path,
          rt_static_path = Some path, rt_resolution = User_Provided,
          rt_evidence = Provided_Base path base #
            (if placement_size placements path = None then [] else [Sized_From_Placements]) \<rparr>)"

definition provided_discover :: "(string \<times> int) list \<Rightarrow> (string \<times> json) list \<Rightarrow> module_list client_action" where
  "provided_discover mapping placements =
     returnS (map (provided_module placements) (sort_key fst mapping))"

fun build_runtime_module_map :: "module_list client_action list \<Rightarrow> module_list client_action" where
  "build_runtime_module_map [] = returnS []"
| "build_runtime_module_map (source # sources) =
     bindS source (\<lambda>modules. if modules \<noteq> [] then returnS modules else build_runtime_module_map sources)"

text \<open>\<open>load_static_placements\<close> from the parsed file, if it could be read.\<close>

definition placement_entry :: "json \<Rightarrow> (string \<times> json) list \<Rightarrow> (string \<times> json) list" where
  "placement_entry entry result =
     (case json_obj entry of
        None \<Rightarrow> result
      | Some d \<Rightarrow> (case json_get d ''path'' of JStr path \<Rightarrow> dict_set result path entry | _ \<Rightarrow> result))"

definition load_static_placements :: "json option \<Rightarrow> (string \<times> json) list" where
  "load_static_placements payload =
     (case payload of
        Some (JList entries) \<Rightarrow> fold placement_entry entries []
      | _ \<Rightarrow> [])"

text \<open>A map comes from one source only, never from several merged.\<close>

lemma set_map_filter: "m \<in> set (List.map_filter f xs) \<longleftrightarrow> (\<exists>x \<in> set xs. f x = Some m)"
  by (force simp: map_filter_def)

lemma hle_module_fields: "hle_module event x = Some m \<Longrightarrow> rt_resolution m = Hle_Reported \<and> rt_static_path m = None"
  by (auto simp: hle_module_def split: option.splits)

lemma hle_discover_source:
  assumes "hle_discover dumps loads event t c = (Inr ms, c')" "m \<in> set ms"
  shows "rt_resolution m = Hle_Reported \<and> rt_static_path m = None"
proof -
  from assms(1) have "ms = [] \<or> (\<exists>entries. ms = List.map_filter (hle_module event) entries)"
    unfolding hle_discover_def bindS_Inr by (auto split: option.splits)
  with assms(2) show ?thesis by (auto simp: set_map_filter dest: hle_module_fields)
qed

lemma provided_discover_source:
  "provided_discover mapping placements c = (Inr ms, c') \<Longrightarrow> m \<in> set ms \<Longrightarrow> rt_resolution m = User_Provided"
  by (auto simp: provided_discover_def provided_module_def)

lemma build_from_source:
  "build_runtime_module_map sources c = (Inr ms, c') \<Longrightarrow>
     ms = [] \<or> (\<exists>source \<in> set sources. \<exists>u u'. source u = (Inr ms, u'))"
proof (induction sources arbitrary: c)
  case (Cons source sources)
  then obtain ms1 c1 where 1: "source c = (Inr ms1, c1)"
    "(if ms1 \<noteq> [] then returnS ms1 else build_runtime_module_map sources) c1 = (Inr ms, c')"
    by (auto simp: bindS_Inr)
  show ?case
  proof (cases "ms1 = []")
    case True
    with 1(2) Cons.IH [of c1] show ?thesis by auto
  next
    case False
    with 1 show ?thesis by auto
  qed
qed simp

end
