(* ===== verification/Reconciliation.thy ===== *)
theory Reconciliation
  imports Runtime_Modules
begin

text \<open>
  \<open>runtime/reconciliation.py\<close>: mapping runtime observations back to static addresses, one at a
  time and for a whole batch. No branch of the single step raises, so the batch's handler for
  that is not part of the model.
\<close>

record static_candidate =
  sc_kind :: string
  sc_address :: int
  sc_evidence :: "string list"

record 'w observation_group =
  og_call_site_key :: string
  og_observation :: "'w breakpoint_observation"

datatype conflict =
    No_Module_Range
  | Exceeds_Image_Size int int
  | Multiple_Targets string "int list"

text \<open>\<open>_find_module\<close>: the first bounded module that holds the address, else the first unbounded one below it.\<close>

fun find_module_from ::
    "int \<Rightarrow> 'e runtime_module option \<Rightarrow> 'e runtime_module list \<Rightarrow> 'e runtime_module option" where
  "find_module_from v unbounded [] = unbounded"
| "find_module_from v unbounded (m # ms) =
     (if v < ra_value (rt_base m) then find_module_from v unbounded ms
      else case rt_size m of
        None \<Rightarrow> find_module_from v (if unbounded = None then Some m else unbounded) ms
      | Some sz \<Rightarrow> if v < ra_value (rt_base m) + sz then Some m else find_module_from v unbounded ms)"

definition find_module :: "int \<Rightarrow> 'e runtime_module list \<Rightarrow> 'e runtime_module option" where
  "find_module v ms = find_module_from v None ms"

definition unresolved_as ::
    "runtime_address \<Rightarrow> runtime_address option \<Rightarrow> runtime_address option \<Rightarrow> evidence_status \<Rightarrow> conflict list \<Rightarrow>
       conflict runtime_reconciliation" where
  "unresolved_as address static offset status conflicts =
     \<lparr> rr_static_kind = ''unresolved'', rr_static_address = static, rr_static_evidence = [],
       rr_runtime_address = address, rr_module_offset = offset, rr_observation_count = 1,
       rr_status = status, rr_conflicts = conflicts \<rparr>"

definition json_field_int :: "json option \<Rightarrow> string \<Rightarrow> int option" where
  "json_field_int placement field =
     (case placement of Some (JObj d) \<Rightarrow> json_int (json_get d field) | _ \<Rightarrow> None)"

definition join_slash :: "string list \<Rightarrow> string" where
  "join_slash xs = (case xs of [] \<Rightarrow> [] | y # ys \<Rightarrow> y @ concat (map (\<lambda>z. CHR ''/'' # z) ys))"

text \<open>Comparing with the static facts at the analysis address.\<close>

definition reconcile_at ::
    "(string \<times> static_candidate list) list \<Rightarrow> runtime_address \<Rightarrow> runtime_address option \<Rightarrow> string \<Rightarrow> int \<Rightarrow>
       conflict runtime_reconciliation" where
  "reconcile_at static_candidates address module_offset path analysis_value =
     (let analysis = Some \<lparr> ra_domain = Analysis_Domain, ra_value = analysis_value, ra_module_path = Some path \<rparr>;
          candidates = filter (\<lambda>c. sc_address c = analysis_value) (dict_get_list static_candidates path)
      in if candidates = [] then unresolved_as address analysis module_offset Runtime_Observed []
         else \<lparr> rr_static_kind = join_slash (sort (remdups (map sc_kind candidates))),
                rr_static_address = analysis, rr_static_evidence = concat (map sc_evidence candidates),
                rr_runtime_address = address, rr_module_offset = module_offset, rr_observation_count = 1,
                rr_status = Corroborated, rr_conflicts = [] \<rparr>)"

definition reconcile_observation ::
    "'e runtime_module list \<Rightarrow> (string \<times> json) list \<Rightarrow> (string \<times> static_candidate list) list \<Rightarrow>
       'w breakpoint_observation \<Rightarrow> conflict runtime_reconciliation" where
  "reconcile_observation modules placements static_candidates observation =
     (let address = bo_address observation in
      case find_module (ra_value address) modules of
        None \<Rightarrow> unresolved_as address None None Unresolved_Evidence [No_Module_Range]
      | Some m \<Rightarrow>
          (let offset = ra_value address - ra_value (rt_base m);
               module_offset = Some \<lparr> ra_domain = Module_Relative_Domain, ra_value = offset, ra_module_path = rt_static_path m \<rparr>
           in case rt_static_path m of
                None \<Rightarrow> unresolved_as address None module_offset Runtime_Observed []
              | Some path \<Rightarrow>
                  (let placement = map_of placements path in
                   case json_field_int placement ''load_address'' of
                     None \<Rightarrow> unresolved_as address None module_offset Runtime_Observed []
                   | Some load_address \<Rightarrow>
                       (case json_field_int placement ''image_size'' of
                          Some image_size \<Rightarrow>
                            if offset \<ge> image_size
                            then unresolved_as address None module_offset Conflicting [Exceeds_Image_Size offset image_size]
                            else reconcile_at static_candidates address module_offset path (load_address + offset)
                        | None \<Rightarrow> reconcile_at static_candidates address module_offset path (load_address + offset)))))"

section \<open>Batches\<close>

record batch_state =
  bs_results :: "conflict runtime_reconciliation list"
  bs_counts :: "((string \<times> int option) \<times> int) list"
  bs_targets :: "(string \<times> int list) list"

definition target_of :: "conflict runtime_reconciliation \<Rightarrow> int option" where
  "target_of r = map_option ra_value (rr_static_address r)"

text \<open>The turn of one group: counting its call site and target, and noting the target.\<close>

definition batch_turn :: "string \<Rightarrow> conflict runtime_reconciliation \<Rightarrow> batch_state \<Rightarrow> batch_state" where
  "batch_turn site base st =
     (let key = (site, target_of base);
          count = (case map_of (bs_counts st) key of None \<Rightarrow> 0 | Some n \<Rightarrow> n) + 1;
          counted = base\<lparr>rr_observation_count := count\<rparr>
      in case target_of base of
           None \<Rightarrow> st\<lparr>bs_results := bs_results st @ [counted], bs_counts := dict_set (bs_counts st) key count\<rparr>
         | Some target \<Rightarrow>
             st\<lparr>bs_results := bs_results st @
                  [counted\<lparr>rr_status := (if rr_status counted = Corroborated \<and> count > 1 then Runtime_Verified
                                        else rr_status counted)\<rparr>],
                bs_counts := dict_set (bs_counts st) key count,
                bs_targets := dict_set (bs_targets st) site
                  (let known = dict_get_list (bs_targets st) site in if target \<in> set known then known else known @ [target])\<rparr>)"

definition finalize :: "(string \<times> int list) list \<Rightarrow> string \<Rightarrow> conflict runtime_reconciliation \<Rightarrow> conflict runtime_reconciliation" where
  "finalize targets_by_site site r =
     (let targets = dict_get_list targets_by_site site in
      if length targets > 1 \<and> rr_status r \<noteq> Unresolved_Evidence
      then r\<lparr>rr_status := Conflicting, rr_conflicts := rr_conflicts r @ [Multiple_Targets site (sort targets)]\<rparr>
      else r)"

definition reconcile_workspace ::
    "'e runtime_module list \<Rightarrow> (string \<times> json) list \<Rightarrow> (string \<times> static_candidate list) list \<Rightarrow>
       'w observation_group list \<Rightarrow> conflict runtime_reconciliation list" where
  "reconcile_workspace modules placements static_candidates groups =
     (let st = fold (\<lambda>g. batch_turn (og_call_site_key g)
                  (reconcile_observation modules placements static_candidates (og_observation g)))
                groups \<lparr> bs_results = [], bs_counts = [], bs_targets = [] \<rparr>
      in map2 (\<lambda>g r. finalize (bs_targets st) (og_call_site_key g) r) groups (bs_results st))"

section \<open>A static address is proven\<close>

lemma find_module_from_contains:
  "find_module_from v u ms = Some m \<Longrightarrow> (\<And>w. u = Some w \<Longrightarrow> rt_size w = None \<and> ra_value (rt_base w) \<le> v) \<Longrightarrow>
     ra_value (rt_base m) \<le> v \<and> (\<forall>sz. rt_size m = Some sz \<longrightarrow> v < ra_value (rt_base m) + sz) \<and> (m \<in> set ms \<or> u = Some m)"
proof (induction v u ms rule: find_module_from.induct)
  case (2 v u x xs)
  consider "v < ra_value (rt_base x)" | "\<not> v < ra_value (rt_base x)" "rt_size x = None"
    | sz where "\<not> v < ra_value (rt_base x)" "rt_size x = Some sz" by (cases "rt_size x") auto
  then show ?case
  proof cases
    case 1
    with 2 show ?thesis by auto
  next
    case c: 2
    have "ra_value (rt_base m) \<le> v \<and> (\<forall>sz. rt_size m = Some sz \<longrightarrow> v < ra_value (rt_base m) + sz) \<and>
        (m \<in> set xs \<or> (if u = None then Some x else u) = Some m)"
      using "2.prems" c by (intro "2.IH"(2)) (auto split: if_splits)
    then show ?thesis by (auto split: if_splits)
  next
    case (3 sz)
    with 2 show ?thesis by (auto split: if_splits)
  qed
qed auto

lemma find_module_contains:
  "find_module v ms = Some m \<Longrightarrow>
     m \<in> set ms \<and> ra_value (rt_base m) \<le> v \<and> (\<forall>sz. rt_size m = Some sz \<longrightarrow> v < ra_value (rt_base m) + sz)"
  using find_module_from_contains [of v None ms m] by (simp add: find_module_def)

text \<open>
  When an analysis address is proven for a runtime address: a loaded module contains the runtime
  address, its static placement has a load address, the address is within the placement's image
  where that is known, and the analysis address is the load address plus the same offset.
\<close>

definition proven_address ::
    "'e runtime_module list \<Rightarrow> (string \<times> json) list \<Rightarrow> int \<Rightarrow> string \<Rightarrow> int \<Rightarrow> bool" where
  "proven_address modules placements v path analysis_value \<longleftrightarrow>
     (\<exists>m \<in> set modules. \<exists>load_address.
        rt_static_path m = Some path \<and> ra_value (rt_base m) \<le> v \<and>
        (\<forall>sz. rt_size m = Some sz \<longrightarrow> v < ra_value (rt_base m) + sz) \<and>
        json_field_int (map_of placements path) ''load_address'' = Some load_address \<and>
        (\<forall>sz. json_field_int (map_of placements path) ''image_size'' = Some sz \<longrightarrow> v - ra_value (rt_base m) < sz) \<and>
        analysis_value = load_address + (v - ra_value (rt_base m)))"

lemma reconcile_at_fields:
  "rr_static_address (reconcile_at cs a off path v) =
     Some \<lparr> ra_domain = Analysis_Domain, ra_value = v, ra_module_path = Some path \<rparr>"
  "rr_status (reconcile_at cs a off path v) =
     (if \<exists>c \<in> set (dict_get_list cs path). sc_address c = v then Corroborated else Runtime_Observed)"
  by (auto simp: reconcile_at_def unresolved_as_def Let_def filter_empty_conv)

text \<open>
  Either the observation reaches the comparison with a proven address, or it has no static
  address and is not corroborated.
\<close>

lemma reconcile_observation_cases:
  fixes modules :: "'e runtime_module list" and obs :: "'w breakpoint_observation" and placements cs
  defines "r \<equiv> reconcile_observation modules placements cs obs"
  shows "(\<exists>path v off. proven_address modules placements (ra_value (bo_address obs)) path v \<and>
        r = reconcile_at cs (bo_address obs) off path v) \<or>
      (rr_static_address r = None \<and> rr_status r \<noteq> Corroborated \<and> rr_status r \<noteq> Runtime_Verified)"
proof (cases "find_module (ra_value (bo_address obs)) modules")
  case None
  then show ?thesis by (intro disjI2) (simp add: r_def reconcile_observation_def unresolved_as_def Let_def)
next
  case (Some m)
  note in_module = find_module_contains [OF Some]
  show ?thesis
  proof (cases "rt_static_path m")
    case None
    with Some show ?thesis by (intro disjI2) (simp add: r_def reconcile_observation_def unresolved_as_def Let_def)
  next
    case path: (Some path)
    show ?thesis
    proof (cases "json_field_int (map_of placements path) ''load_address''")
      case None
      with Some path show ?thesis by (intro disjI2) (simp add: r_def reconcile_observation_def unresolved_as_def Let_def)
    next
      case load: (Some load)
      let ?off = "ra_value (bo_address obs) - ra_value (rt_base m)"
      show ?thesis
      proof (cases "\<exists>sz. json_field_int (map_of placements path) ''image_size'' = Some sz \<and> sz \<le> ?off")
        case True
        with Some path load show ?thesis by (intro disjI2) (auto simp: r_def reconcile_observation_def unresolved_as_def Let_def)
      next
        case False
        then have "r = reconcile_at cs (bo_address obs) (Some \<lparr> ra_domain = Module_Relative_Domain,
            ra_value = ?off, ra_module_path = Some path \<rparr>) path (load + ?off)"
          using Some path load by (auto simp: r_def reconcile_observation_def Let_def split: option.splits)
        moreover have "proven_address modules placements (ra_value (bo_address obs)) path (load + ?off)"
          using in_module path load False unfolding proven_address_def by (intro bexI [of _ m] exI [of _ load]) auto
        ultimately show ?thesis by blast
      qed
    qed
  qed
qed

text \<open>What a reconciliation may claim, over the arguments it was made from.\<close>

definition claims_proven ::
    "'e runtime_module list \<Rightarrow> (string \<times> json) list \<Rightarrow> (string \<times> static_candidate list) list \<Rightarrow> runtime_address \<Rightarrow>
       conflict runtime_reconciliation \<Rightarrow> bool" where
  "claims_proven modules placements cs address r \<longleftrightarrow>
     (case rr_static_address r of
        None \<Rightarrow> rr_status r \<noteq> Corroborated
      | Some a \<Rightarrow>
          ra_domain a = Analysis_Domain \<and>
          (\<exists>path. ra_module_path a = Some path \<and>
             proven_address modules placements (ra_value address) path (ra_value a) \<and>
             (rr_status r = Corroborated \<longleftrightarrow>
                (\<exists>c \<in> set (dict_get_list cs path). sc_address c = ra_value a))))"

text \<open>
  Property C26. Reconciliation never guesses: a reconciled observation has a static address only
  where one is proven (its runtime address is inside a loaded module whose static placement has
  a load address, and inside the placed image), that address is the load address plus the
  offset into the module, and it counts as corroborated exactly when a static candidate of that
  module lies at that address.
\<close>

theorem reconciliation_never_guesses:
  "claims_proven modules placements cs (bo_address obs) (reconcile_observation modules placements cs obs)"
  using reconcile_observation_cases [of modules placements obs cs]
  by (auto simp: claims_proven_def reconcile_at_fields)

section \<open>What a batch computes\<close>

type_synonym 'w base_step = "'w observation_group \<Rightarrow> conflict runtime_reconciliation"

definition site_targets :: "'w base_step \<Rightarrow> 'w observation_group list \<Rightarrow> string \<Rightarrow> int set" where
  "site_targets base gs site = {t. \<exists>g \<in> set gs. og_call_site_key g = site \<and> target_of (base g) = Some t}"

definition same_count :: "'w base_step \<Rightarrow> 'w observation_group list \<Rightarrow> string \<Rightarrow> int option \<Rightarrow> int" where
  "same_count base gs site t = blen (filter (\<lambda>g. og_call_site_key g = site \<and> target_of (base g) = t) gs)"

definition counted_group :: "'w base_step \<Rightarrow> 'w observation_group list \<Rightarrow> nat \<Rightarrow> conflict runtime_reconciliation" where
  "counted_group base gs i =
     (let g = gs ! i; r = base g; n = same_count base (take (Suc i) gs) (og_call_site_key g) (target_of r)
      in r\<lparr>rr_observation_count := n,
           rr_status := (if target_of r \<noteq> None \<and> rr_status r = Corroborated \<and> n > 1 then Runtime_Verified
                         else rr_status r)\<rparr>)"

text \<open>
  The reference: each group counts the groups up to it with its call site and target, is verified
  when that is not its first corroboration, and conflicts when its call site has several targets
  anywhere in the batch.
\<close>

definition reconciled_group :: "'w base_step \<Rightarrow> 'w observation_group list \<Rightarrow> nat \<Rightarrow> conflict runtime_reconciliation" where
  "reconciled_group base gs i =
     (let site = og_call_site_key (gs ! i); r = counted_group base gs i; targets = site_targets base gs site
      in if card targets > 1 \<and> rr_status r \<noteq> Unresolved_Evidence
         then r\<lparr>rr_status := Conflicting,
                rr_conflicts := rr_conflicts r @ [Multiple_Targets site (sorted_list_of_set targets)]\<rparr>
         else r)"

definition batch_fold :: "'w base_step \<Rightarrow> 'w observation_group list \<Rightarrow> batch_state" where
  "batch_fold base gs =
     fold (\<lambda>g. batch_turn (og_call_site_key g) (base g)) gs \<lparr> bs_results = [], bs_counts = [], bs_targets = [] \<rparr>"

definition batch_ok :: "'w base_step \<Rightarrow> 'w observation_group list \<Rightarrow> batch_state \<Rightarrow> bool" where
  "batch_ok base gs st \<longleftrightarrow>
     bs_results st = map (counted_group base gs) [0..<length gs] \<and>
     (\<forall>site t. (case map_of (bs_counts st) (site, t) of None \<Rightarrow> 0 | Some n \<Rightarrow> n) = same_count base gs site t) \<and>
     (\<forall>site. distinct (dict_get_list (bs_targets st) site) \<and>
        set (dict_get_list (bs_targets st) site) = site_targets base gs site)"

lemma counted_group_prefix: "i < length gs \<Longrightarrow> counted_group base (gs @ hs) i = counted_group base gs i"
  by (simp add: counted_group_def nth_append)

lemma same_count_snoc:
  "same_count base (gs @ [g]) site t =
     same_count base gs site t + (if og_call_site_key g = site \<and> target_of (base g) = t then 1 else 0)"
  by (simp add: same_count_def)

lemma site_targets_snoc:
  "site_targets base (gs @ [g]) site = site_targets base gs site \<union>
     (if og_call_site_key g = site then set_option (target_of (base g)) else {})"
  by (auto simp: site_targets_def)

lemma counted_group_last:
  "counted_group base (gs @ [g]) (length gs) =
     (base g)\<lparr>rr_observation_count := same_count base (gs @ [g]) (og_call_site_key g) (target_of (base g)),
       rr_status := (if target_of (base g) \<noteq> None \<and> rr_status (base g) = Corroborated \<and>
           same_count base (gs @ [g]) (og_call_site_key g) (target_of (base g)) > 1
         then Runtime_Verified else rr_status (base g))\<rparr>"
  by (simp add: counted_group_def Let_def)

lemma dict_get_list_set [simp]: "dict_get_list (dict_set d k v) k' = (if k' = k then v else dict_get_list d k')"
  by (simp add: dict_get_list_def)

lemma batch_turn_ok:
  assumes "batch_ok base gs st"
  shows "batch_ok base (gs @ [g]) (batch_turn (og_call_site_key g) (base g) st)"
proof -
  let ?site = "og_call_site_key g" and ?t = "target_of (base g)"
  have count: "(case map_of (bs_counts st) (?site, ?t) of None \<Rightarrow> 0 | Some n \<Rightarrow> n) + 1 = same_count base (gs @ [g]) ?site ?t"
    using assms by (simp add: batch_ok_def same_count_snoc)
  have res: "bs_results (batch_turn ?site (base g) st) = bs_results st @ [counted_group base (gs @ [g]) (length gs)]"
    unfolding batch_turn_def count counted_group_last Let_def by (cases ?t) simp_all
  have counts: "bs_counts (batch_turn ?site (base g) st) = dict_set (bs_counts st) (?site, ?t) (same_count base (gs @ [g]) ?site ?t)"
    unfolding batch_turn_def count Let_def by (cases ?t) simp_all
  have targets: "dict_get_list (bs_targets (batch_turn ?site (base g) st)) site =
      (let known = dict_get_list (bs_targets st) site in
       if site = ?site then (case ?t of None \<Rightarrow> known | Some t \<Rightarrow> if t \<in> set known then known else known @ [t]) else known)" for site
    unfolding batch_turn_def Let_def by (cases ?t) simp_all
  show ?thesis
    unfolding batch_ok_def
  proof (intro conjI allI)
    show "bs_results (batch_turn ?site (base g) st) = map (counted_group base (gs @ [g])) [0..<length (gs @ [g])]"
      using assms by (simp add: res batch_ok_def counted_group_prefix)
  next
    fix site t
    show "(case map_of (bs_counts (batch_turn ?site (base g) st)) (site, t) of None \<Rightarrow> 0 | Some n \<Rightarrow> n) =
        same_count base (gs @ [g]) site t"
      using assms by (auto simp: counts batch_ok_def same_count_snoc)
  next
    fix site
    show "distinct (dict_get_list (bs_targets (batch_turn ?site (base g) st)) site)"
      "set (dict_get_list (bs_targets (batch_turn ?site (base g) st)) site) = site_targets base (gs @ [g]) site"
      using assms by (auto simp: targets batch_ok_def site_targets_snoc Let_def split: option.splits)
  qed
qed

lemma batch_fold_ok: "batch_ok base gs (batch_fold base gs)"
proof (induction gs rule: rev_induct)
  case Nil
  then show ?case by (simp add: batch_fold_def batch_ok_def same_count_def site_targets_def)
next
  case (snoc g gs)
  from batch_turn_ok [OF this, of g] show ?case by (simp add: batch_fold_def)
qed

lemma finalize_spec:
  assumes "distinct (dict_get_list targets site)" "set (dict_get_list targets site) = S"
  shows "finalize targets site r =
    (if card S > 1 \<and> rr_status r \<noteq> Unresolved_Evidence
     then r\<lparr>rr_status := Conflicting, rr_conflicts := rr_conflicts r @ [Multiple_Targets site (sorted_list_of_set S)]\<rparr>
     else r)"
  using assms(1) by (simp add: finalize_def Let_def assms(2) [symmetric] distinct_card sorted_list_of_set_sort_remdups
      distinct_remdups_id)

text \<open>
  Property C24. A batch computes its reference: the result for each group is the reconciliation
  of its own observation, with the number of groups up to it that agree with it on call site and
  target as its count, verified when it is a repeated corroboration, and flagged as conflicting
  with all the targets of its call site exactly when the batch has several of them.
\<close>

theorem reconcile_workspace_spec:
  "reconcile_workspace modules placements cs gs =
     map (reconciled_group (\<lambda>g. reconcile_observation modules placements cs (og_observation g)) gs) [0..<length gs]"
proof -
  let ?base = "\<lambda>g. reconcile_observation modules placements cs (og_observation g)"
  let ?st = "batch_fold ?base gs"
  have ok: "batch_ok ?base gs ?st" by (rule batch_fold_ok)
  then have len: "length (bs_results ?st) = length gs" by (simp add: batch_ok_def)
  have "reconcile_workspace modules placements cs gs =
      map2 (\<lambda>g r. finalize (bs_targets ?st) (og_call_site_key g) r) gs (bs_results ?st)"
    by (simp add: reconcile_workspace_def batch_fold_def Let_def)
  also have "\<dots> = map (reconciled_group ?base gs) [0..<length gs]"
  proof (rule nth_equalityI)
    show "length (map2 (\<lambda>g r. finalize (bs_targets ?st) (og_call_site_key g) r) gs (bs_results ?st)) =
        length (map (reconciled_group ?base gs) [0..<length gs])" by (simp add: len)
  next
    fix i assume "i < length (map2 (\<lambda>g r. finalize (bs_targets ?st) (og_call_site_key g) r) gs (bs_results ?st))"
    then have i: "i < length gs" by simp
    with ok have "bs_results ?st ! i = counted_group ?base gs i" by (simp add: batch_ok_def)
    with i len ok show "map2 (\<lambda>g r. finalize (bs_targets ?st) (og_call_site_key g) r) gs (bs_results ?st) ! i =
        map (reconciled_group ?base gs) [0..<length gs] ! i"
      by (simp add: reconciled_group_def Let_def finalize_spec [where S = "site_targets ?base gs (og_call_site_key (gs ! i))"]
          batch_ok_def)
  qed
  finally show ?thesis .
qed

end
