(* ===== verification/Decompiler.thy ===== *)
theory Decompiler
  imports Matcher File_Names
begin

text \<open>
  \<open>decompiler.py\<close>: the assisted decompilation of one function of a project with m2c. The m2c process
  is part of the environment: it gets the command line and the files, and cannot be started, or gives its
  exit code and what it printed as decoded text. Errors are told apart by the exception class the code raises: a
  \<open>DecompilationError\<close>, a \<open>DecompilerUnavailableError\<close>, or any other.
\<close>

datatype decompile_failure =
    Phase3_Missing
  | Phase3_Invalid
  | Phase3_Not_List
  | Entry_Not_Object nat
  | Entry_Missing nat string
  | Entry_Text_Invalid nat
  | Entry_Number_Invalid nat
  | Selector_Ambiguous string
  | Address_Ambiguous int
  | Selector_Not_Found string
  | Context_Missing string
  | M2c_Failed string int string

datatype m2c_failure = M2c_Path_Missing string | M2c_Path_Directory string | M2c_Not_Configured | M2c_Not_Started

datatype decompile_error =
    Decompilation_Failed decompile_failure
  | Decompiler_Missing m2c_failure
  | Decompiler_Undecodable
  | Decompiler_Version_Crash
  | Decompiler_Write_Failed string

record decompile_host = match_host +
  dh_m2c :: "string list \<Rightarrow> file_store \<Rightarrow> (int \<times> string \<times> string) option"

definition match_host_of :: "decompile_host \<Rightarrow> match_host" where
  "match_host_of h = match_host.truncate h"

section \<open>Functions of a project\<close>

record project_function =
  pn_name :: string
  pn_address :: int
  pn_size :: int
  pn_section :: string
  pn_assembly :: string
  pn_instruction_count :: int

definition load_project_function :: "nat \<Rightarrow> json \<Rightarrow> (decompile_failure, project_function) result" where
  "load_project_function i item =
     bindE (from_option (Entry_Not_Object i) (json_obj item)) (\<lambda>d.
     let key = (\<lambda>k. json_key (Entry_Missing i k) d k) in
     bindE (key ''name'') (\<lambda>jn. bindE (key ''address'') (\<lambda>ja. bindE (key ''size'') (\<lambda>js.
     bindE (key ''section'') (\<lambda>jsec. bindE (key ''assembly'') (\<lambda>jasm. bindE (key ''instruction_count'') (\<lambda>jc.
     case (json_str jn, json_str jsec, json_str jasm) of
       (Some name, Some sec, Some asm) \<Rightarrow>
         (case (strict_int ja, strict_int js, strict_int jc) of
            (Some address, Some sz, Some count) \<Rightarrow>
              Inr \<lparr> pn_name = name, pn_address = address, pn_size = sz, pn_section = sec, pn_assembly = asm,
                    pn_instruction_count = count \<rparr>
          | _ \<Rightarrow> Inl (Entry_Number_Invalid i))
     | _ \<Rightarrow> Inl (Entry_Text_Invalid i))))))))"

definition load_project_functions :: "json_file \<Rightarrow> (decompile_error, project_function list) result" where
  "load_project_functions f =
     (case f of
        Missing_File \<Rightarrow> Inl (Decompilation_Failed Phase3_Missing)
      | Unreadable_File \<Rightarrow> Inl (Decompilation_Failed Phase3_Invalid)
      | Undecodable_File \<Rightarrow> Inl Decompiler_Undecodable
      | Json_File payload \<Rightarrow>
          map_sum Decompilation_Failed id
            (bindE (from_option Phase3_Not_List (json_list payload)) (\<lambda>items.
             mapE (\<lambda>(i, item). load_project_function i item) (enumerate 0 items))))"

definition resolve_project_function :: "json_file \<Rightarrow> string \<Rightarrow> (decompile_error, project_function) result" where
  "resolve_project_function f selector =
     bindE (load_project_functions f) (\<lambda>functions.
     let by_name = filter (\<lambda>g. pn_name g = selector) functions in
     if length by_name = 1 then Inr (hd by_name)
     else if length by_name > 1 then Inl (Decompilation_Failed (Selector_Ambiguous selector))
     else case selector_address selector of
       None \<Rightarrow> Inl (Decompilation_Failed (Selector_Not_Found selector))
     | Some a \<Rightarrow>
         let by_address = filter (\<lambda>g. pn_address g = a) functions in
         if length by_address = 1 then Inr (hd by_address)
         else if length by_address > 1 then Inl (Decompilation_Failed (Address_Ambiguous a))
         else Inl (Decompilation_Failed (Selector_Not_Found selector)))"

section \<open>The m2c backend\<close>

definition m2c_command_for_path :: "decompile_host \<Rightarrow> file_store \<Rightarrow> string \<Rightarrow> (m2c_failure, string list) result" where
  "m2c_command_for_path h fs p =
     (if \<not> path_exists (match_host_of h) fs p then Inl (M2c_Path_Missing p)
      else if mh_is_dir h p then Inl (M2c_Path_Directory p)
      else if casefold (path_suffix p) = ''.py'' then Inr [mh_python h, p]
      else Inr [p])"

definition resolve_m2c_command ::
    "decompile_host \<Rightarrow> file_store \<Rightarrow> string option \<Rightarrow> (m2c_failure, string list) result" where
  "resolve_m2c_command h fs explicit =
     (case explicit of
        Some p \<Rightarrow> m2c_command_for_path h fs p
      | None \<Rightarrow>
          (case configured (match_host_of h) ''PSPDISASM_M2C'' of
             Some p \<Rightarrow> m2c_command_for_path h fs p
           | None \<Rightarrow>
               (case mh_which h ''m2c'' of
                  Some e \<Rightarrow> if e \<noteq> [] then Inr [e] else Inl M2c_Not_Configured
                | None \<Rightarrow> Inl M2c_Not_Configured)))"

text \<open>The version in the \<open>pyproject.toml\<close> beside \<open>m2c.py\<close>; a \<open>project\<close> that is no table crashes.\<close>

definition detect_m2c_version :: "decompile_host \<Rightarrow> file_store \<Rightarrow> string list \<Rightarrow> string option option" where
  "detect_m2c_version h fs command =
     (if command = [] \<or> path_name (last command) \<noteq> ''m2c.py'' then Some None
      else case mh_toml h fs (path_join (path_parent (last command)) ''pyproject.toml'') of
        None \<Rightarrow> Some None
      | Some payload \<Rightarrow>
          (case sub_table payload ''project'' of
             Inl _ \<Rightarrow> None
           | Inr project \<Rightarrow> Some (json_str (json_get project ''version''))))"

definition function_stem :: "string \<Rightarrow> int \<Rightarrow> string" where
  "function_stem name address =
     (let stem = strip_chars {CHR ''.'', CHR ''_''} (underscore_runs False name)
      in if stem \<noteq> [] then stem else ''func_'' @ hex_upper 8 address)"

text \<open>The text after the comment of an unknown instruction: up to the end of the comment, on one line.\<close>

definition UNKNOWN_PREFIX :: string where "UNKNOWN_PREFIX = ''unknown instruction:''"

fun until_comment_end :: "string \<Rightarrow> (string \<times> string) option" where
  "until_comment_end s =
     (let r = dropWhile is_space s in
      if take 2 r = ''*/'' then Some ([], drop 2 r)
      else case s of
        [] \<Rightarrow> None
      | c # cs \<Rightarrow>
          if c = CHR 0x0A then None
          else map_option (\<lambda>(grp, rest). (c # grp, rest)) (until_comment_end cs))"

declare until_comment_end.simps [simp del]

definition unknown_at :: "string \<Rightarrow> (string \<times> string) option" where
  "unknown_at s =
     (if casefold (take (length UNKNOWN_PREFIX) s) = UNKNOWN_PREFIX
      then until_comment_end (dropWhile is_space (drop (length UNKNOWN_PREFIX) s)) else None)"

lemma until_comment_end_shorter: "until_comment_end s = Some (grp, rest) \<Longrightarrow> length rest \<le> length s"
proof (induction s arbitrary: grp rest rule: until_comment_end.induct)
  case (1 s)
  show ?case
  proof (cases "take 2 (dropWhile is_space s) = ''*/''")
    case True
    with 1(2) have "rest = drop 2 (dropWhile is_space s)" by (simp add: until_comment_end.simps [of s] Let_def)
    then show ?thesis using length_dropWhile_le [of is_space s] by simp
  next
    case False
    show ?thesis
    proof (cases s)
      case Nil
      with 1(2) False show ?thesis by (simp add: until_comment_end.simps [of "[]"] Let_def)
    next
      case (Cons c cs)
      with 1(2) False obtain g where "c \<noteq> CHR 0x0A" "until_comment_end cs = Some (g, rest)"
        by (auto simp: until_comment_end.simps [of "c # cs"] Let_def split: if_splits)
      with 1(1) [OF refl False Cons] Cons show ?thesis by fastforce
    qed
  qed
qed

lemma unknown_at_shorter: "unknown_at s = Some (grp, rest) \<Longrightarrow> length rest < length s"
proof -
  assume u: "unknown_at s = Some (grp, rest)"
  then have pre: "casefold (take (length UNKNOWN_PREFIX) s) = UNKNOWN_PREFIX"
    and rest: "until_comment_end (dropWhile is_space (drop (length UNKNOWN_PREFIX) s)) = Some (grp, rest)"
    by (auto simp: unknown_at_def split: if_splits)
  have "length rest \<le> length (drop (length UNKNOWN_PREFIX) s)"
    using until_comment_end_shorter [OF rest] length_dropWhile_le [of is_space "drop (length UNKNOWN_PREFIX) s"] by linarith
  moreover have "s \<noteq> []" using pre by (auto simp: casefold_def UNKNOWN_PREFIX_def)
  ultimately show ?thesis by (cases s) (auto simp: UNKNOWN_PREFIX_def)
qed

function unknown_comments :: "string \<Rightarrow> string list" where
  "unknown_comments s =
     (case s of
        [] \<Rightarrow> []
      | c # cs \<Rightarrow>
          (case unknown_at s of
             Some (grp, rest) \<Rightarrow> grp # unknown_comments rest
           | None \<Rightarrow> unknown_comments cs))"
  by pat_completeness auto
termination by (relation "measure length") (auto dest: unknown_at_shorter)

declare unknown_comments.simps [simp del]

text \<open>\<open>text.split()\<close>.\<close>

function split_words :: "string \<Rightarrow> string list" where
  "split_words s =
     (let r = dropWhile is_space s in
      if r = [] then [] else takeWhile (\<lambda>c. \<not> is_space c) r # split_words (dropWhile (\<lambda>c. \<not> is_space c) r))"
  by pat_completeness auto
termination
proof (relation "measure length")
  fix s :: string and r assume r: "r = dropWhile is_space s" "r \<noteq> []"
  then have "\<not> is_space (hd r)" by (simp add: hd_dropWhile)
  with r(2) have "length (dropWhile (\<lambda>c. \<not> is_space c) r) < length r"
    by (cases r) (auto simp: length_dropWhile_le less_Suc_eq_le)
  moreover have "length r \<le> length s" using r(1) by (simp add: length_dropWhile_le)
  ultimately show "(dropWhile (\<lambda>c. \<not> is_space c) r, s) \<in> measure length" by simp
qed simp

declare split_words.simps [simp del]

definition add_unsupported :: "string \<Rightarrow> string list \<Rightarrow> string list" where
  "add_unsupported comment result =
     (let instruction = join_with '' '' (split_words comment) in
      if instruction \<noteq> [] \<and> instruction \<notin> set result then result @ [instruction] else result)"

definition extract_unsupported_instructions :: "string \<Rightarrow> string list" where
  "extract_unsupported_instructions c_source = fold add_unsupported (unknown_comments c_source) []"

section \<open>Decompiling one function\<close>

definition m2c_arguments :: "project_function \<Rightarrow> string \<Rightarrow> string list \<Rightarrow> string \<Rightarrow> string list" where
  "m2c_arguments f target contexts asm_path =
     [''-t'', target, ''--valid-syntax'', ''--deterministic-vars'', ''--no-cache'', ''--globals=used'', ''-f'', pn_name f] @
     concat (map (\<lambda>c. [''--context'', c]) contexts) @ [asm_path]"

definition run_m2c ::
    "decompile_host \<Rightarrow> string list \<Rightarrow> project_function \<Rightarrow> string \<Rightarrow> string list \<Rightarrow> file_store \<Rightarrow>
       (int \<times> string \<times> string) option" where
  "run_m2c h command f target contexts fs =
     (let asm_path = path_join (mh_temporary h) (function_stem (pn_name f) (pn_address f) @ ''.s'') in
      dh_m2c h (command @ m2c_arguments f target contexts asm_path) (fs(asm_path \<mapsto> str_bytes (pn_assembly f))))"

definition bounded_detail :: "string \<Rightarrow> string" where
  "bounded_detail text = (let t = strip text in if text_length t > 500 then take_text 500 t @ ''...'' else t)"

record decompile_request =
  dq_project :: string
  dq_selector :: string
  dq_m2c :: "string option"
  dq_contexts :: "string list"
  dq_output :: "string option"
  dq_target :: string

record decompilation_result =
  dr_project_dir :: string
  dr_function_name :: string
  dr_function_address :: int
  dr_output_path :: string
  dr_assembly_path :: string
  dr_metadata_path :: string
  dr_backend_version :: "string option"
  dr_target :: string
  dr_warnings :: "string list"
  dr_unsupported :: "string list"

definition STDERR_WARNING :: string where
  "STDERR_WARNING = ''m2c wrote diagnostic output to stderr; inspect metadata or rerun m2c directly if needed.''"

definition decompile_warnings :: "string list \<Rightarrow> string \<Rightarrow> string list" where
  "decompile_warnings unsupported errors =
     (if unsupported \<noteq> [] then
        [''m2c reported '' @ dec_str (blen unsupported) @ '' unsupported PSP/Allegrex instruction(s); '' @
         ''the generated C is an assisted draft and contains M2C_ERROR markers.''] else []) @
     (if strip errors \<noteq> [] then [STDERR_WARNING] else [])"

definition decompile_metadata :: "project_function \<Rightarrow> string list \<Rightarrow> decompilation_result \<Rightarrow> json" where
  "decompile_metadata f contexts r =
     (let relative = (\<lambda>p. JStr (relative_or_string p (dr_project_dir r))) in
      JObj
       [(''backend'', JObj [(''name'', JStr ''m2c''), (''version'', json_of_option JStr (dr_backend_version r))]),
        (''target'', JStr (dr_target r)),
        (''function'', JObj [(''name'', JStr (pn_name f)), (''address'', JInt (pn_address f)), (''size'', JInt (pn_size f)),
          (''section'', JStr (pn_section f)), (''instruction_count'', JInt (pn_instruction_count f))]),
        (''artifacts'', JObj [(''assembly'', relative (dr_assembly_path r)), (''c'', relative (dr_output_path r))]),
        (''contexts'', JList (map relative contexts)),
        (''warnings'', JList (map JStr (dr_warnings r))),
        (''unsupported_instructions'', JList (map JStr (dr_unsupported r)))])"

definition write_file :: "decompile_host \<Rightarrow> string \<Rightarrow> bytes \<Rightarrow> (file_store, decompile_error, unit) action" where
  "write_file h path content fs =
     (if mh_writable h path then (Inr (), fs(path \<mapsto> content)) else (Inl (Decompiler_Write_Failed path), fs))"

definition find_missing_context :: "file_store \<Rightarrow> string list \<Rightarrow> (decompile_error, unit) result" where
  "find_missing_context fs contexts =
     (case find (\<lambda>c. fs c = None) contexts of
        None \<Rightarrow> Inr () | Some c \<Rightarrow> Inl (Decompilation_Failed (Context_Missing c)))"

definition write_decompilation ::
    "decompile_host \<Rightarrow> decompile_request \<Rightarrow> string \<Rightarrow> project_function \<Rightarrow> string list \<Rightarrow> string list \<Rightarrow> string \<Rightarrow> string \<Rightarrow>
       (file_store, decompile_error, decompilation_result) action" where
  "write_decompilation h q project f command contexts c_source errors =
     (let unsupported = extract_unsupported_instructions c_source;
          stem = function_stem (pn_name f) (pn_address f);
          c_path = (case dq_output q of
             None \<Rightarrow> path_join project (''src/nonmatching/'' @ stem @ ''.c'') | Some p \<Rightarrow> path_join project p)
      in bindS (readS (\<lambda>fs. detect_m2c_version h fs command)) (\<lambda>detected.
         bindS (liftS (from_option Decompiler_Version_Crash detected)) (\<lambda>version.
         let r = \<lparr> dr_project_dir = project, dr_function_name = pn_name f, dr_function_address = pn_address f,
                   dr_output_path = c_path, dr_assembly_path = path_join project (''asm/nonmatchings/'' @ stem @ ''.s''),
                   dr_metadata_path = path_join project (''metadata/decompilations/'' @ stem @ ''.json''),
                   dr_backend_version = version, dr_target = dq_target q,
                   dr_warnings = decompile_warnings unsupported errors, dr_unsupported = unsupported \<rparr>
         in thenS (write_file h (dr_assembly_path r) (str_bytes (pn_assembly f)))
             (thenS (write_file h c_path (str_bytes c_source))
               (thenS (write_file h (dr_metadata_path r) (json_document (match_host_of h) (decompile_metadata f contexts r)))
                 (returnS r))))))"

definition decompile_project_function ::
    "decompile_host \<Rightarrow> decompile_request \<Rightarrow> (file_store, decompile_error, decompilation_result) action" where
  "decompile_project_function h q =
     (let project = mh_resolve h (dq_project q); contexts = map (mh_resolve h) (dq_contexts q) in
      bindS (readS (\<lambda>fs. read_json (mh_loads h) fs (path_join project ''metadata/functions.json''))) (\<lambda>metadata.
      bindS (liftS (resolve_project_function metadata (dq_selector q))) (\<lambda>f.
      bindS (readS (\<lambda>fs. resolve_m2c_command h fs (dq_m2c q))) (\<lambda>resolved.
      bindS (liftS (map_sum Decompiler_Missing id resolved)) (\<lambda>command.
      bindS (readS (\<lambda>fs. find_missing_context fs contexts)) (\<lambda>checked.
      thenS (liftS checked)
       (bindS (readS (run_m2c h command f (dq_target q) contexts)) (\<lambda>completed.
        case completed of
          None \<Rightarrow> raiseS (Decompiler_Missing M2c_Not_Started)
        | Some (code, c_source, errors) \<Rightarrow>
            if code \<noteq> 0
            then raiseS (Decompilation_Failed (M2c_Failed (pn_name f) code
                   (bounded_detail (if errors \<noteq> [] then errors else c_source))))
            else write_decompilation h q project f command contexts c_source errors))))))))"

section \<open>What a decompilation leaves on disk\<close>

definition decompilation_recorded ::
    "decompile_host \<Rightarrow> decompile_request \<Rightarrow> file_store \<Rightarrow> decompilation_result \<Rightarrow> file_store \<Rightarrow> project_function \<Rightarrow> bool" where
  "decompilation_recorded h q fs r fs' f \<longleftrightarrow>
     dr_function_name r = pn_name f \<and> dr_function_address r = pn_address f \<and>
     (\<exists>command c_source errors.
        resolve_m2c_command h fs (dq_m2c q) = Inr command \<and>
        run_m2c h command f (dq_target q) (map (mh_resolve h) (dq_contexts q)) fs = Some (0, c_source, errors) \<and>
        dr_unsupported r = extract_unsupported_instructions c_source \<and>
        (dr_output_path r \<noteq> dr_metadata_path r \<longrightarrow> fs' (dr_output_path r) = Some (str_bytes c_source)) \<and>
        (dr_output_path r \<noteq> dr_assembly_path r \<longrightarrow> fs' (dr_assembly_path r) = Some (str_bytes (pn_assembly f))) \<and>
        fs' (dr_metadata_path r) =
          Some (json_document (match_host_of h) (decompile_metadata f (map (mh_resolve h) (dq_contexts q)) r)))"

lemma write_file_Inr: "write_file h p bs fs = (Inr u, fs') \<longleftrightarrow> mh_writable h p \<and> fs' = fs(p \<mapsto> bs)"
  by (auto simp: write_file_def)

lemma decompile_project_function_recorded:
  assumes "decompile_project_function h q fs = (Inr r, fs')"
  shows "\<exists>f. resolve_project_function
      (read_json (mh_loads h) fs (path_join (mh_resolve h (dq_project q)) ''metadata/functions.json'')) (dq_selector q) = Inr f \<and>
    decompilation_recorded h q fs r fs' f"
proof -
  let ?project = "mh_resolve h (dq_project q)" and ?contexts = "map (mh_resolve h) (dq_contexts q)"
  let ?finish = "\<lambda>f command completed. case completed of None \<Rightarrow> raiseS (Decompiler_Missing M2c_Not_Started)
      | Some (code, c_source, errors) \<Rightarrow>
          if code \<noteq> 0 then raiseS (Decompilation_Failed (M2c_Failed (pn_name f) code
                 (bounded_detail (if errors \<noteq> [] then errors else c_source))))
          else write_decompilation h q ?project f command ?contexts c_source errors"
  obtain f resolved where f: "resolve_project_function
      (read_json (mh_loads h) fs (path_join ?project ''metadata/functions.json'')) (dq_selector q) = Inr f"
    and resolved: "map_sum Decompiler_Missing id (resolve_m2c_command h fs (dq_m2c q)) = Inr resolved"
    and finish: "?finish f resolved (run_m2c h resolved f (dq_target q) ?contexts fs) fs = (Inr r, fs')"
    using assms by (auto simp: decompile_project_function_def action_Inr Let_def)
  have command: "resolve_m2c_command h fs (dq_m2c q) = Inr resolved"
    using resolved by (cases "resolve_m2c_command h fs (dq_m2c q)") simp_all
  obtain c_source errors where run: "run_m2c h resolved f (dq_target q) ?contexts fs = Some (0, c_source, errors)"
    and w: "write_decompilation h q ?project f resolved ?contexts c_source errors fs = (Inr r, fs')"
    using finish by (cases "run_m2c h resolved f (dq_target q) ?contexts fs") (auto split: if_splits)
  have different: "path_join ?project (''asm/nonmatchings/'' @ s @ ''.s'') \<noteq> path_join ?project (''metadata/decompilations/'' @ s @ ''.json'')" for s
    by (subst path_join_relative; simp add: path_absolute_def)
  have "decompilation_recorded h q fs r fs' f"
    unfolding decompilation_recorded_def
    using w command run different [of "function_stem (pn_name f) (pn_address f)"]
    by (auto simp: write_decompilation_def Let_def action_Inr write_file_Inr)
  with f show ?thesis by blast
qed

end
