(* ===== verification/Toolchain.thy ===== *)
theory Toolchain
  imports Decompiler
begin

text \<open>
  \<open>decompile/toolchain.py\<close>: the two ways one translation unit is built. A build process gets its
  command line, its working directory and its time limit, and leaves an exit and a changed store.
  A toolchain is a value with its name, its identity and its compile operation; what every one
  promises is the locale \<open>build_toolchain\<close>.
\<close>

datatype unavailable_build =
    No_Compiler
  | Compiler_Does_Not_Exist string
  | Empty_Command_Template
  | Empty_Output_Template
  | Invalid_Command_Template
  | Empty_Command
  | Cannot_Execute string string

datatype refused_build =
    Build_Timeout string rat
  | Build_Exit string int string
  | Output_Not_Produced string string

datatype build_error =
    Toolchain_Unavailable unavailable_build
  | Build_Refused refused_build
  | Template_Crash
  | Identity_Crash

record build_result =
  br_output_path :: string
  br_object_sha256 :: string
  br_diagnostics :: "string list"

record toolchain_host = decompile_host +
  th_run :: "string list \<Rightarrow> string \<Rightarrow> rat \<Rightarrow> file_store \<Rightarrow> (process_end \<times> string \<times> string) \<times> file_store"
  th_sha256 :: "bytes \<Rightarrow> string"
  th_field :: "string \<Rightarrow> string \<Rightarrow> (build_error, string) result"
  th_alnum :: "string \<Rightarrow> bool"

type_synonym compile_action = "string \<Rightarrow> string \<Rightarrow> string \<Rightarrow> rat \<Rightarrow> (file_store, build_error, build_result) action"

record toolchain =
  tc_name :: string
  tc_identity :: "file_store \<Rightarrow> (build_error, json) result"
  tc_compile :: compile_action

text \<open>A file is found through its resolved path.\<close>

definition file_at :: "toolchain_host \<Rightarrow> file_store \<Rightarrow> string \<Rightarrow> bytes option" where
  "file_at h fs p = fs (mh_resolve h p)"

definition hash_at :: "toolchain_host \<Rightarrow> file_store \<Rightarrow> string \<Rightarrow> string option" where
  "hash_at h fs p = map_option (th_sha256 h) (file_at h fs p)"

text \<open>What both toolchains do with a finished process.\<close>

definition finish_build ::
    "toolchain_host \<Rightarrow> string \<Rightarrow> string \<Rightarrow> rat \<Rightarrow> string \<Rightarrow> process_end \<times> string \<times> string \<Rightarrow> file_store \<Rightarrow>
    (build_error, build_result) result" where
  "finish_build h what tool timeout output completed fs =
     (case completed of
        (Timed_Out, _, _) \<Rightarrow> Inl (Build_Refused (Build_Timeout what timeout))
      | (Not_Started, _, _) \<Rightarrow> Inl (Toolchain_Unavailable (Cannot_Execute what tool))
      | (Exited code, out, errors) \<Rightarrow>
          let stderr_text = (if errors \<noteq> [] then bounded_detail errors else []);
              diagnostics = (if stderr_text \<noteq> [] then [stderr_text] else []) in
          if code \<noteq> 0 then
            Inl (Build_Refused (Build_Exit what code (bounded_detail (if errors \<noteq> [] then errors else out))))
          else
            (case hash_at h fs output of
               None \<Rightarrow> Inl (Build_Refused (Output_Not_Produced what output))
             | Some digest \<Rightarrow>
                 Inr \<lparr> br_output_path = output, br_object_sha256 = digest, br_diagnostics = diagnostics \<rparr>))"

section \<open>An external compiler\<close>

definition compiler_arguments :: "string \<Rightarrow> string list \<Rightarrow> string \<Rightarrow> string \<Rightarrow> string list" where
  "compiler_arguments compiler flags source output = compiler # flags @ [''-c'', source, ''-o'', output]"

definition external_compile :: "toolchain_host \<Rightarrow> string \<Rightarrow> string list \<Rightarrow> compile_action" where
  "external_compile h compiler flags source output project timeout fs =
     (case th_run h (compiler_arguments compiler flags source output) project timeout fs of
        (completed, fs') \<Rightarrow> (finish_build h ''build compiler'' compiler timeout output completed fs', fs'))"

definition external_identity :: "toolchain_host \<Rightarrow> string \<Rightarrow> string list \<Rightarrow> file_store \<Rightarrow> json" where
  "external_identity h compiler flags fs =
     JObj [(''kind'', JStr ''external_compiler''), (''compiler'', JStr compiler),
       (''compiler_sha256'', json_of_option JStr (hash_at h fs compiler)), (''flags'', JList (map JStr flags))]"

definition or_name :: "string option \<Rightarrow> string \<Rightarrow> string" where
  "or_name name fallback = (case name of Some (c # cs) \<Rightarrow> c # cs | _ \<Rightarrow> fallback)"

definition external_compiler_toolchain ::
    "toolchain_host \<Rightarrow> file_store \<Rightarrow> string option \<Rightarrow> string list \<Rightarrow> string option \<Rightarrow> (build_error, toolchain) result" where
  "external_compiler_toolchain h fs compiler_path flags name =
     (let resolved = (case compiler_path of Some p \<Rightarrow> Some p | None \<Rightarrow> mh_environ h ''PSPDISASM_BUILD_COMPILER'') in
      case resolved of
        None \<Rightarrow> Inl (Toolchain_Unavailable No_Compiler)
      | Some p \<Rightarrow>
          if p = [] then Inl (Toolchain_Unavailable No_Compiler)
          else if mh_is_dir h p \<or> file_at h fs p = None
          then Inl (Toolchain_Unavailable (Compiler_Does_Not_Exist p))
          else
            let compiler = mh_resolve h p in
            Inr \<lparr> tc_name = or_name name (''external-compiler:'' @ compiler),
                  tc_identity = (\<lambda>fs. Inr (external_identity h compiler flags fs)),
                  tc_compile = external_compile h compiler flags \<rparr>)"

section \<open>The build command of a project\<close>

text \<open>
  \<open>template.format(function=stem)\<close>. A field is the text up to the brace that closes it; one with an
  attribute, an index, a conversion or a format specification is formatted by the parameter
  \<open>th_field\<close>. An empty or numeric field has no positional argument: an \<open>IndexError\<close>; another name is
  a \<open>KeyError\<close>; a brace that opens or closes nothing is a \<open>ValueError\<close>.
\<close>

datatype format_error = Format_Value | Format_Key | Format_Index | Format_Other build_error

fun brace_field :: "nat \<Rightarrow> string \<Rightarrow> (string \<times> string) option" where
  "brace_field depth [] = None"
| "brace_field depth (c # cs) =
     (if c = CHR 0x7D then
        if depth = 0 then Some ([], cs) else map_option (\<lambda>(f, r). (c # f, r)) (brace_field (depth - 1) cs)
      else map_option (\<lambda>(f, r). (c # f, r)) (brace_field (if c = CHR 0x7B then depth + 1 else depth) cs))"

lemma brace_field_shorter: "brace_field depth s = Some (f, r) \<Longrightarrow> length r < length s"
  by (induction depth s arbitrary: f r rule: brace_field.induct) (fastforce split: if_splits)+

definition format_field :: "toolchain_host \<Rightarrow> string \<Rightarrow> string \<Rightarrow> (format_error, string) result" where
  "format_field h stem field =
     (if field = ''function'' then Inr stem
      else if list_ex (\<lambda>c. c \<in> {CHR ''.'', CHR 0x5B, CHR ''!'', CHR '':'', CHR 0x7B}) field
      then map_sum Format_Other id (th_field h field stem)
      else if list_all (is_digit 10) field then Inl Format_Index
      else Inl Format_Key)"

function format_template :: "toolchain_host \<Rightarrow> string \<Rightarrow> string \<Rightarrow> (format_error, string) result" where
  "format_template h stem s =
     (case s of
        [] \<Rightarrow> Inr []
      | c # cs \<Rightarrow>
          if c = CHR 0x7B then
            if take 1 cs = [CHR 0x7B] then bindE (format_template h stem (drop 1 cs)) (\<lambda>t. Inr (c # t))
            else
              (case brace_field 0 cs of
                 None \<Rightarrow> Inl Format_Value
               | Some (field, rest) \<Rightarrow>
                   bindE (format_field h stem field) (\<lambda>v. bindE (format_template h stem rest) (\<lambda>t. Inr (v @ t))))
          else if c = CHR 0x7D then
            if take 1 cs = [CHR 0x7D] then bindE (format_template h stem (drop 1 cs)) (\<lambda>t. Inr (c # t))
            else Inl Format_Value
          else bindE (format_template h stem cs) (\<lambda>t. Inr (c # t)))"
  by pat_completeness auto
termination
  by (relation "measure (\<lambda>(h, stem, s). length s)") (auto dest: brace_field_shorter)

declare format_template.simps [simp del]

text \<open>The command: \<open>ValueError\<close> and \<open>KeyError\<close> are caught, an \<open>IndexError\<close> is not.\<close>

definition build_command_words :: "toolchain_host \<Rightarrow> string \<Rightarrow> string \<Rightarrow> (build_error, string list) result" where
  "build_command_words h template stem =
     (case format_template h stem template of
        Inl Format_Index \<Rightarrow> Inl Template_Crash
      | Inl (Format_Other e) \<Rightarrow> Inl e
      | Inl _ \<Rightarrow> Inl (Toolchain_Unavailable Invalid_Command_Template)
      | Inr text \<Rightarrow>
          (case mh_split_words h text of
             None \<Rightarrow> Inl (Toolchain_Unavailable Invalid_Command_Template)
           | Some [] \<Rightarrow> Inl (Toolchain_Unavailable Empty_Command)
           | Some command \<Rightarrow> Inr command))"

definition command_exited_well :: "process_end \<Rightarrow> bool" where
  "command_exited_well e \<longleftrightarrow> e = Exited 0"

text \<open>The output template is formatted only after the command has run, outside every handler.\<close>

definition project_compile :: "toolchain_host \<Rightarrow> string \<Rightarrow> string \<Rightarrow> compile_action" where
  "project_compile h command_template output_template source output project timeout fs =
     (let stem = path_stem source in
      case build_command_words h command_template stem of
        Inl e \<Rightarrow> (Inl e, fs)
      | Inr command \<Rightarrow>
          (case th_run h command project timeout fs of
             (completed, fs') \<Rightarrow>
               (if command_exited_well (fst completed)
                then
                  (case format_template h stem output_template of
                     Inl _ \<Rightarrow> Inl Template_Crash
                   | Inr text \<Rightarrow> finish_build h ''build command'' (hd command) timeout (path_join project text) completed fs')
                else finish_build h ''build command'' (hd command) timeout [] completed fs', fs')))"

definition project_identity :: "toolchain_host \<Rightarrow> string \<Rightarrow> string \<Rightarrow> file_store \<Rightarrow> (build_error, json) result" where
  "project_identity h command_template output_template fs =
     (let base = [(''kind'', JStr ''project_build_command''), (''command_template'', JStr command_template),
            (''output_template'', JStr output_template)] in
      case mh_split_words h command_template of
        None \<Rightarrow> Inr (JObj base)
      | Some [] \<Rightarrow> Inl Identity_Crash
      | Some (first # _) \<Rightarrow>
          Inr (JObj (base @
            (case (if first = [] then None else hash_at h fs first) of
               None \<Rightarrow> [] | Some digest \<Rightarrow> [(''command_sha256'', JStr digest)]))))"

definition project_build_command_toolchain ::
    "toolchain_host \<Rightarrow> string \<Rightarrow> string \<Rightarrow> string option \<Rightarrow> (build_error, toolchain) result" where
  "project_build_command_toolchain h command_template output_template name =
     (if strip command_template = [] then Inl (Toolchain_Unavailable Empty_Command_Template)
      else if strip output_template = [] then Inl (Toolchain_Unavailable Empty_Output_Template)
      else Inr \<lparr> tc_name = or_name name (''project-build-command:'' @ command_template),
                 tc_identity = project_identity h command_template output_template,
                 tc_compile = project_compile h command_template output_template \<rparr>)"

section \<open>What a toolchain promises\<close>

text \<open>
  A build that returns has left a file at its output path, and the digest it returns is that
  file's.
\<close>

locale build_toolchain =
  fixes h :: toolchain_host and compile :: compile_action
  assumes built: "compile source output project timeout fs = (Inr r, fs') \<Longrightarrow>
    hash_at h fs' (br_output_path r) = Some (br_object_sha256 r)"
begin

lemma output_exists:
  "compile source output project timeout fs = (Inr r, fs') \<Longrightarrow> file_at h fs' (br_output_path r) \<noteq> None"
  using built by (fastforce simp: hash_at_def)

lemma object_hashed:
  "compile source output project timeout fs = (Inr r, fs') \<Longrightarrow>
     \<exists>bs. file_at h fs' (br_output_path r) = Some bs \<and> th_sha256 h bs = br_object_sha256 r"
  using built by (fastforce simp: hash_at_def)

end

lemma finish_build_hash:
  "finish_build h what tool timeout output completed fs = Inr r \<Longrightarrow>
     br_output_path r = output \<and> hash_at h fs output = Some (br_object_sha256 r)"
  by (auto simp: finish_build_def Let_def split: prod.splits process_end.splits if_splits option.splits)

interpretation external: build_toolchain h "external_compile h compiler flags" for h compiler flags
  by unfold_locales (auto simp: external_compile_def dest: finish_build_hash split: prod.splits)

interpretation project_command: build_toolchain h "project_compile h command_template output_template"
  for h command_template output_template
  by unfold_locales
    (auto simp: project_compile_def Let_def dest: finish_build_hash split: prod.splits sum.splits if_splits)

text \<open>Braces without a name end in an uncaught \<open>IndexError\<close>, also in the output template.\<close>

lemma positional_field_crashes:
  "build_command_words h ''make {}'' stem = Inl Template_Crash"
  by (simp add: build_command_words_def format_template.simps [of h stem] format_field_def bindE_def)

end
