(* ===== verification/Decompilation_Store.thy ===== *)
theory Decompilation_Store
  imports Toolchain
begin

text \<open>
  \<open>decompile/workspace.py\<close>: the decompilation state of a function, kept as one JSON file per module
  and function below \<open>decompilation/functions\<close> of the workspace. Values of a state file are converted
  as the code converts them; one that is kept as it is and does not have the type its field is
  declared with is \<open>Ill_Typed\<close>, outside the model.
\<close>

record decompilation_attempt =
  da_attempt_id :: string
  da_variant_reason :: string
  da_assembly_sha256 :: string
  da_context_sha256 :: "string list"
  da_m2c_command :: "string list"
  da_m2c_version :: "string option"
  da_target :: string
  da_outcome :: string
  da_candidate_sha256 :: "string option"
  da_toolchain_name :: "string option"
  da_toolchain_identity :: "json option"
  da_object_sha256 :: "string option"
  da_match_raw_score :: "int option"
  da_match_max_score :: "int option"
  da_match_similarity_percent :: "rat option"
  da_match_exact :: "bool option"
  da_matching_rows :: "int option"
  da_changed_rows :: "int option"
  da_added_rows :: "int option"
  da_removed_rows :: "int option"
  da_reference_lacks_relocations :: bool
  da_diagnostics :: "string list"
  da_artifact_paths :: "(string \<times> string) list"

record function_state =
  fs_module :: string
  fs_function :: string
  fs_address :: int
  fs_status :: string
  fs_attempts :: int
  fs_best_attempt_id :: "string option"
  fs_best_match_percent :: "rat option"
  fs_static_confidence :: "rat option"
  fs_static_evidence :: "string list"
  fs_runtime_status :: "string option"
  fs_last_failure :: "string option"
  fs_attempt_history :: "decompilation_attempt list"

datatype store_error =
    State_Missing
  | State_Invalid
  | State_Undecodable
  | Unsupported_Schema
  | Unsafe_Module string
  | Unsafe_Path string
  | Not_A_State
  | Not_An_Attempt
  | State_Missing_Key string
  | State_Value_Crash string
  | Ill_Typed string
  | State_Write_Failed string

section \<open>Values of a state file\<close>

text \<open>\<open>str(x)\<close>, \<open>int(x)\<close> and \<open>list(x)\<close> of a JSON value.\<close>

fun str_of :: "string \<Rightarrow> json \<Rightarrow> (store_error, string) result" where
  "str_of label (JStr s) = Inr s"
| "str_of label (JInt n) = Inr (dec_str n)"
| "str_of label (JBool b) = Inr (if b then ''True'' else ''False'')"
| "str_of label JNull = Inr ''None''"
| "str_of label _ = Inl (Ill_Typed label)"

fun int_of :: "string \<Rightarrow> json \<Rightarrow> (store_error, int) result" where
  "int_of label (JInt n) = Inr n"
| "int_of label (JBool b) = Inr (of_bool b)"
| "int_of label (JFloat q) = Inr (if q < 0 then - \<lfloor>- q\<rfloor> else \<lfloor>q\<rfloor>)"
| "int_of label (JStr s) = from_option (State_Value_Crash label) (py_int 10 s)"
| "int_of label _ = Inl (State_Value_Crash label)"

fun optional_str :: "string \<Rightarrow> json \<Rightarrow> (store_error, string option) result" where
  "optional_str label JNull = Inr None"
| "optional_str label (JStr s) = Inr (Some s)"
| "optional_str label _ = Inl (Ill_Typed label)"

fun optional_int :: "string \<Rightarrow> json \<Rightarrow> (store_error, int option) result" where
  "optional_int label JNull = Inr None"
| "optional_int label (JInt n) = Inr (Some n)"
| "optional_int label _ = Inl (Ill_Typed label)"

fun optional_float :: "string \<Rightarrow> json \<Rightarrow> (store_error, rat option) result" where
  "optional_float label JNull = Inr None"
| "optional_float label (JFloat q) = Inr (Some q)"
| "optional_float label (JInt n) = Inr (Some (of_int n))"
| "optional_float label _ = Inl (Ill_Typed label)"

fun optional_bool :: "string \<Rightarrow> json \<Rightarrow> (store_error, bool option) result" where
  "optional_bool label JNull = Inr None"
| "optional_bool label (JBool b) = Inr (Some b)"
| "optional_bool label _ = Inl (Ill_Typed label)"

text \<open>A dictionary or nothing, kept as it is.\<close>

fun optional_object :: "string \<Rightarrow> json \<Rightarrow> (store_error, json option) result" where
  "optional_object label JNull = Inr None"
| "optional_object label (JObj d) = Inr (Some (JObj d))"
| "optional_object label _ = Inl (Ill_Typed label)"

text \<open>\<open>bool(payload.get(key, False))\<close>.\<close>

fun truth_of :: "json \<Rightarrow> bool" where
  "truth_of JNull = False"
| "truth_of (JBool b) = b"
| "truth_of (JInt n) = (n \<noteq> 0)"
| "truth_of (JFloat q) = (q \<noteq> 0)"
| "truth_of (JStr s) = (s \<noteq> [])"
| "truth_of (JList xs) = (xs \<noteq> [])"
| "truth_of (JObj d) = (d \<noteq> [])"

text \<open>\<open>list(payload.get(key, []))\<close> for a list of texts: a missing key is empty, a null raises.\<close>

definition text_list :: "(string \<times> json) list \<Rightarrow> string \<Rightarrow> (store_error, string list) result" where
  "text_list d key =
     (case map_of d key of
        None \<Rightarrow> Inr []
      | Some JNull \<Rightarrow> Inl (State_Value_Crash key)
      | Some (JList xs) \<Rightarrow> mapE (\<lambda>x. from_option (Ill_Typed key) (json_str x)) xs
      | Some _ \<Rightarrow> Inl (Ill_Typed key))"

definition text_dict :: "(string \<times> json) list \<Rightarrow> string \<Rightarrow> (store_error, (string \<times> string) list) result" where
  "text_dict d key =
     (case map_of d key of
        None \<Rightarrow> Inr []
      | Some JNull \<Rightarrow> Inl (State_Value_Crash key)
      | Some (JObj e) \<Rightarrow> mapE (\<lambda>(k, x). map_sum id (Pair k) (from_option (Ill_Typed key) (json_str x))) e
      | Some _ \<Rightarrow> Inl (Ill_Typed key))"

definition required :: "(string \<times> json) list \<Rightarrow> string \<Rightarrow> (store_error, string) result" where
  "required d key = bindE (json_key (State_Missing_Key key) d key) (str_of key)"

definition attempt_of_json :: "json \<Rightarrow> (store_error, decompilation_attempt) result" where
  "attempt_of_json payload =
     bindE (from_option Not_An_Attempt (json_obj payload)) (\<lambda>d.
     let opt_str = (\<lambda>k. optional_str k (json_get d k)); opt_int = (\<lambda>k. optional_int k (json_get d k)) in
     bindE (required d ''attempt_id'') (\<lambda>attempt_id.
     bindE (required d ''variant_reason'') (\<lambda>variant_reason.
     bindE (required d ''assembly_sha256'') (\<lambda>assembly_sha256.
     bindE (text_list d ''context_sha256'') (\<lambda>context_sha256.
     bindE (text_list d ''m2c_command'') (\<lambda>m2c_command.
     bindE (opt_str ''m2c_version'') (\<lambda>m2c_version.
     bindE (required d ''target'') (\<lambda>target.
     bindE (required d ''outcome'') (\<lambda>outcome.
     bindE (opt_str ''candidate_sha256'') (\<lambda>candidate_sha256.
     bindE (opt_str ''toolchain_name'') (\<lambda>toolchain_name.
     bindE (optional_object ''toolchain_identity'' (json_get d ''toolchain_identity'')) (\<lambda>toolchain_identity.
     bindE (opt_str ''object_sha256'') (\<lambda>object_sha256.
     bindE (opt_int ''match_raw_score'') (\<lambda>raw.
     bindE (opt_int ''match_max_score'') (\<lambda>max_score.
     bindE (optional_float ''match_similarity_percent'' (json_get d ''match_similarity_percent'')) (\<lambda>similarity.
     bindE (optional_bool ''match_exact'' (json_get d ''match_exact'')) (\<lambda>exact.
     bindE (opt_int ''matching_rows'') (\<lambda>matching.
     bindE (opt_int ''changed_rows'') (\<lambda>changed.
     bindE (opt_int ''added_rows'') (\<lambda>added.
     bindE (opt_int ''removed_rows'') (\<lambda>removed.
     bindE (text_list d ''diagnostics'') (\<lambda>diagnostics.
     bindE (text_dict d ''artifact_paths'') (\<lambda>artifact_paths.
     Inr \<lparr> da_attempt_id = attempt_id, da_variant_reason = variant_reason, da_assembly_sha256 = assembly_sha256,
           da_context_sha256 = context_sha256, da_m2c_command = m2c_command, da_m2c_version = m2c_version,
           da_target = target, da_outcome = outcome, da_candidate_sha256 = candidate_sha256,
           da_toolchain_name = toolchain_name, da_toolchain_identity = toolchain_identity,
           da_object_sha256 = object_sha256, da_match_raw_score = raw, da_match_max_score = max_score,
           da_match_similarity_percent = similarity, da_match_exact = exact, da_matching_rows = matching,
           da_changed_rows = changed, da_added_rows = added, da_removed_rows = removed,
           da_reference_lacks_relocations = truth_of (json_get d ''reference_lacks_relocations''),
           da_diagnostics = diagnostics, da_artifact_paths = artifact_paths \<rparr>)))))))))))))))))))))))"

text \<open>\<open>for item in payload.get(key, [])\<close>: a text yields its characters and a dictionary its keys.\<close>

definition list_items :: "(string \<times> json) list \<Rightarrow> string \<Rightarrow> (store_error, json list) result" where
  "list_items d key =
     (case map_of d key of
        None \<Rightarrow> Inr []
      | Some (JList xs) \<Rightarrow> Inr xs
      | Some (JStr s) \<Rightarrow> Inr (map JStr (text_chars s))
      | Some (JObj e) \<Rightarrow> Inr (map (\<lambda>(k, v). JStr k) e)
      | Some _ \<Rightarrow> Inl (State_Value_Crash key))"

definition state_of_json :: "json \<Rightarrow> (store_error, function_state) result" where
  "state_of_json payload =
     bindE (from_option Not_A_State (json_obj payload)) (\<lambda>d.
     bindE (required d ''module'') (\<lambda>module_path.
     bindE (required d ''function'') (\<lambda>function.
     bindE (bindE (json_key (State_Missing_Key ''address'') d ''address'') (int_of ''address'')) (\<lambda>address.
     bindE (required d ''status'') (\<lambda>status.
     bindE (case map_of d ''attempts'' of None \<Rightarrow> Inr 0 | Some v \<Rightarrow> int_of ''attempts'' v) (\<lambda>attempts.
     bindE (optional_str ''best_attempt_id'' (json_get d ''best_attempt_id'')) (\<lambda>best_id.
     bindE (optional_float ''best_match_percent'' (json_get d ''best_match_percent'')) (\<lambda>percent.
     bindE (optional_float ''static_confidence'' (json_get d ''static_confidence'')) (\<lambda>confidence.
     bindE (text_list d ''static_evidence'') (\<lambda>evidence.
     bindE (optional_str ''runtime_status'' (json_get d ''runtime_status'')) (\<lambda>runtime.
     bindE (optional_str ''last_failure'' (json_get d ''last_failure'')) (\<lambda>failure.
     bindE (list_items d ''attempt_history'') (\<lambda>items.
     bindE (mapE attempt_of_json items) (\<lambda>history.
     Inr \<lparr> fs_module = module_path, fs_function = function, fs_address = address, fs_status = status,
           fs_attempts = attempts, fs_best_attempt_id = best_id, fs_best_match_percent = percent,
           fs_static_confidence = confidence, fs_static_evidence = evidence, fs_runtime_status = runtime,
           fs_last_failure = failure, fs_attempt_history = history \<rparr>))))))))))))))"

text \<open>\<open>asdict\<close> of an attempt and of a state.\<close>

definition text_json :: "string list \<Rightarrow> json" where
  "text_json xs = JList (map JStr xs)"

definition attempt_json :: "decompilation_attempt \<Rightarrow> json" where
  "attempt_json a =
     JObj
       [(''attempt_id'', JStr (da_attempt_id a)), (''variant_reason'', JStr (da_variant_reason a)),
        (''assembly_sha256'', JStr (da_assembly_sha256 a)), (''context_sha256'', text_json (da_context_sha256 a)),
        (''m2c_command'', text_json (da_m2c_command a)), (''m2c_version'', json_of_option JStr (da_m2c_version a)),
        (''target'', JStr (da_target a)), (''outcome'', JStr (da_outcome a)),
        (''candidate_sha256'', json_of_option JStr (da_candidate_sha256 a)),
        (''toolchain_name'', json_of_option JStr (da_toolchain_name a)),
        (''toolchain_identity'', json_of_option id (da_toolchain_identity a)),
        (''object_sha256'', json_of_option JStr (da_object_sha256 a)),
        (''match_raw_score'', json_of_option JInt (da_match_raw_score a)),
        (''match_max_score'', json_of_option JInt (da_match_max_score a)),
        (''match_similarity_percent'', json_of_option JFloat (da_match_similarity_percent a)),
        (''match_exact'', json_of_option JBool (da_match_exact a)),
        (''matching_rows'', json_of_option JInt (da_matching_rows a)),
        (''changed_rows'', json_of_option JInt (da_changed_rows a)),
        (''added_rows'', json_of_option JInt (da_added_rows a)),
        (''removed_rows'', json_of_option JInt (da_removed_rows a)),
        (''reference_lacks_relocations'', JBool (da_reference_lacks_relocations a)),
        (''diagnostics'', text_json (da_diagnostics a)),
        (''artifact_paths'', JObj (map (\<lambda>(k, v). (k, JStr v)) (da_artifact_paths a)))]"

definition state_json :: "function_state \<Rightarrow> json" where
  "state_json s =
     JObj
       [(''module'', JStr (fs_module s)), (''function'', JStr (fs_function s)), (''address'', JInt (fs_address s)),
        (''status'', JStr (fs_status s)), (''attempts'', JInt (fs_attempts s)),
        (''best_attempt_id'', json_of_option JStr (fs_best_attempt_id s)),
        (''best_match_percent'', json_of_option JFloat (fs_best_match_percent s)),
        (''static_confidence'', json_of_option JFloat (fs_static_confidence s)),
        (''static_evidence'', text_json (fs_static_evidence s)),
        (''runtime_status'', json_of_option JStr (fs_runtime_status s)),
        (''last_failure'', json_of_option JStr (fs_last_failure s)),
        (''attempt_history'', JList (map attempt_json (fs_attempt_history s)))]"


section \<open>State files\<close>

definition DECOMPILATION_SCHEMA_VERSION :: int where "DECOMPILATION_SCHEMA_VERSION = 1"

definition decompilation_root :: "toolchain_host \<Rightarrow> string \<Rightarrow> string" where
  "decompilation_root h workspace = path_join (mh_resolve h workspace) ''decompilation''"

definition schema_path :: "toolchain_host \<Rightarrow> string \<Rightarrow> string" where
  "schema_path h workspace = path_join (decompilation_root h workspace) ''schema_version.json''"

definition load_json :: "toolchain_host \<Rightarrow> file_store \<Rightarrow> string \<Rightarrow> (store_error, json) result" where
  "load_json h fs path =
     (case read_json (mh_loads h) fs path of
        Missing_File \<Rightarrow> Inl State_Missing
      | Unreadable_File \<Rightarrow> Inl State_Invalid
      | Undecodable_File \<Rightarrow> Inl State_Undecodable
      | Json_File j \<Rightarrow> Inr j)"

definition schema_supported :: "json \<Rightarrow> bool" where
  "schema_supported j =
     (case j of JObj d \<Rightarrow> json_equals_int (json_get d ''schema_version'') DECOMPILATION_SCHEMA_VERSION | _ \<Rightarrow> False)"

definition validate_schema_if_present :: "toolchain_host \<Rightarrow> file_store \<Rightarrow> string \<Rightarrow> (store_error, unit) result" where
  "validate_schema_if_present h fs workspace =
     (if fs (schema_path h workspace) = None then Inr ()
      else bindE (load_json h fs (schema_path h workspace)) (\<lambda>j. ensure (schema_supported j) Unsupported_Schema))"

definition write_state_json :: "toolchain_host \<Rightarrow> string \<Rightarrow> json \<Rightarrow> (file_store, store_error, unit) action" where
  "write_state_json h path j fs =
     (if mh_writable h path then (Inr (), fs(path \<mapsto> mh_dumps h j @ [0x0A])) else (Inl (State_Write_Failed path), fs))"

definition ensure_schema :: "toolchain_host \<Rightarrow> string \<Rightarrow> (file_store, store_error, unit) action" where
  "ensure_schema h workspace fs =
     (if fs (schema_path h workspace) \<noteq> None then (validate_schema_if_present h fs workspace, fs)
      else write_state_json h (schema_path h workspace)
             (JObj [(''schema_version'', JInt DECOMPILATION_SCHEMA_VERSION)]) fs)"

text \<open>A module path with its back slashes turned must be relative, not empty and without \<open>..\<close>.\<close>

definition function_dir :: "toolchain_host \<Rightarrow> string \<Rightarrow> string \<Rightarrow> string \<Rightarrow> (store_error, string) result" where
  "function_dir h workspace module_path function =
     (let root_dir = path_join (decompilation_root h workspace) ''functions'';
          turned = map (\<lambda>c. if c = CHR 0x5C then CHR ''/'' else c) module_path;
          parts = path_parts turned in
      if module_path = [] \<or> path_escapes turned \<or> parts = [] then Inl (Unsafe_Module module_path)
      else
        let target = mh_resolve h (path_join root_dir
              (join_with ''/'' (parts @ [safe_function_stem (th_alnum h) function])))
        in if relative_to target (mh_resolve h root_dir) = None then Inl (Unsafe_Path module_path) else Inr target)"

definition state_path :: "toolchain_host \<Rightarrow> string \<Rightarrow> string \<Rightarrow> string \<Rightarrow> (store_error, string) result" where
  "state_path h workspace module_path function =
     map_sum id (\<lambda>dir. path_join dir ''state.json'') (function_dir h workspace module_path function)"

definition save_function_state ::
    "toolchain_host \<Rightarrow> string \<Rightarrow> function_state \<Rightarrow> (file_store, store_error, string) action" where
  "save_function_state h workspace s =
     thenS (ensure_schema h workspace)
       (bindS (liftS (state_path h workspace (fs_module s) (fs_function s))) (\<lambda>path.
        thenS (write_state_json h path (state_json s)) (returnS path)))"

definition load_function_state ::
    "toolchain_host \<Rightarrow> file_store \<Rightarrow> string \<Rightarrow> string \<Rightarrow> string \<Rightarrow> (store_error, function_state option) result" where
  "load_function_state h fs workspace module_path function =
     bindE (validate_schema_if_present h fs workspace) (\<lambda>_.
     bindE (state_path h workspace module_path function) (\<lambda>path.
     if fs path = None then Inr None
     else bindE (load_json h fs path) (\<lambda>j. map_sum id Some (state_of_json j))))"

text \<open>The states below \<open>functions\<close>, read in the order the directory walk gives them.\<close>

definition list_function_states ::
    "toolchain_host \<Rightarrow> file_store \<Rightarrow> string \<Rightarrow> string list \<Rightarrow> (store_error, function_state list) result" where
  "list_function_states h fs workspace paths =
     bindE (validate_schema_if_present h fs workspace) (\<lambda>_.
     bindE (mapE (\<lambda>path. bindE (load_json h fs path) state_of_json) paths) (\<lambda>states.
     Inr (sort_key (\<lambda>s. (casefold (fs_module s), casefold (fs_function s), fs_address s)) states)))"

section \<open>A saved state is the state that is loaded\<close>

text \<open>
  The JSON codec writes the keys of every object in order and reads back what it wrote: the document
  comes back with its keys sorted.
\<close>

fun sort_json :: "json \<Rightarrow> json" where
  "sort_json (JList xs) = JList (map sort_json xs)"
| "sort_json (JObj d) = JObj (sort_key fst (map (\<lambda>(k, v). (k, sort_json v)) d))"
| "sort_json j = j"

definition codec_ok :: "(bytes \<Rightarrow> json option) \<Rightarrow> (json \<Rightarrow> bytes) \<Rightarrow> json \<Rightarrow> bool" where
  "codec_ok loads dumps j \<longleftrightarrow> utf8_valid (dumps j @ [0x0A]) \<and> loads (dumps j @ [0x0A]) = Some (sort_json j)"

text \<open>A state with its dictionaries in sorted order, which is the same state for the program.\<close>

definition sorted_attempt :: "decompilation_attempt \<Rightarrow> decompilation_attempt" where
  "sorted_attempt a =
     a\<lparr> da_toolchain_identity := map_option sort_json (da_toolchain_identity a),
        da_artifact_paths := sort_key fst (da_artifact_paths a) \<rparr>"

definition sorted_state :: "function_state \<Rightarrow> function_state" where
  "sorted_state s = s\<lparr> fs_attempt_history := map sorted_attempt (fs_attempt_history s) \<rparr>"

definition identity_object :: "decompilation_attempt \<Rightarrow> bool" where
  "identity_object a \<longleftrightarrow> (case da_toolchain_identity a of None \<Rightarrow> True | Some j \<Rightarrow> json_obj j \<noteq> None)"

lemma map_of_sort_key:
  fixes xs :: "('k :: linorder \<times> 'v) list"
  shows "map_of (sort_key fst xs) k = map_of xs k"
proof -
  have first: "map_of ys k = (case filter (\<lambda>e. fst e = k) ys of [] \<Rightarrow> None | e # _ \<Rightarrow> Some (snd e))" for ys :: "('k \<times> 'v) list"
    by (induction ys) auto
  show ?thesis unfolding first [of "sort_key fst xs"] first [of xs] sort_key_filter_stable ..
qed

lemma map_of_sorted_object:
  "map_of (sort_key fst (map (\<lambda>(k, v). (k, sort_json v)) d)) k = map_option sort_json (map_of d k)"
  unfolding map_of_sort_key by (induction d) auto

lemma sort_json_leaves [simp]:
  "sort_json (json_of_option JStr x) = json_of_option JStr x" "sort_json (json_of_option JInt n) = json_of_option JInt n"
  "sort_json (json_of_option JFloat q) = json_of_option JFloat q" "sort_json (json_of_option JBool b) = json_of_option JBool b"
  "sort_json (text_json xs) = text_json xs"
  by (cases x; cases n; cases q; cases b; simp add: text_json_def)+

lemma optional_leaves [simp]:
  "optional_str k (json_of_option JStr x) = Inr x" "optional_int k (json_of_option JInt n) = Inr n"
  "optional_float k (json_of_option JFloat q) = Inr q" "optional_bool k (json_of_option JBool b) = Inr b"
  by (cases x; cases n; cases q; cases b; simp)+

lemma mapE_json_str [simp]: "mapE (\<lambda>x. from_option e (json_str x)) (map JStr xs) = Inr xs"
  by (induction xs) (simp_all add: from_option_def)

lemma text_list_text_json: "map_of d key = Some (text_json xs) \<Longrightarrow> text_list d key = Inr xs"
  by (simp add: text_list_def text_json_def)

lemma mapE_entries:
  "mapE (\<lambda>(k, x). map_sum id (Pair k) (from_option e (json_str x))) (map (\<lambda>(k, v). (k, JStr v)) d) = Inr d"
  by (induction d) (auto simp: from_option_def)

lemma insort_map_entries:
  "insort_key fst (k, f v) (map (\<lambda>(k, v). (k, f v)) d) = map (\<lambda>(k, v). (k, f v)) (insort_key fst (k, v) d)"
  by (induction d) auto

lemma sort_key_map_entries:
  "sort_key fst (map (\<lambda>(k, v). (k, f v)) d) = map (\<lambda>(k, v). (k, f v)) (sort_key fst d)"
  by (induction d) (auto simp: insort_map_entries)

lemma sort_json_entries [simp]:
  "sort_json (JObj (map (\<lambda>(k, v). (k, JStr v)) d)) = JObj (map (\<lambda>(k, v). (k, JStr v)) (sort_key fst d))"
  by (simp add: o_def case_prod_unfold sort_key_map_entries [of JStr, unfolded case_prod_unfold])

lemma text_dict_entries: "map_of d key = Some (JObj (map (\<lambda>(k, v). (k, JStr v)) e)) \<Longrightarrow> text_dict d key = Inr e"
  unfolding text_dict_def by (simp only: option.case json.case mapE_entries)

lemma sorted_object:
  obtains e where "sort_json (JObj d) = JObj e" "\<forall>k. map_of e k = map_option sort_json (map_of d k)"
  using that [OF sort_json.simps(2)] map_of_sorted_object by blast

lemma optional_identity:
  "identity_object a \<Longrightarrow> optional_object k (sort_json (json_of_option id (da_toolchain_identity a))) =
     Inr (map_option sort_json (da_toolchain_identity a))"
  by (cases "da_toolchain_identity a") (auto simp: identity_object_def elim!: json_obj.elims)

lemma attempt_round_trip:
  assumes "identity_object a"
  shows "attempt_of_json (sort_json (attempt_json a)) = Inr (sorted_attempt a)"
proof -
  obtain d where d: "attempt_json a = JObj d" by (simp add: attempt_json_def)
  obtain e where e: "sort_json (JObj d) = JObj e" and m: "\<forall>k. map_of e k = map_option sort_json (map_of d k)"
    by (rule sorted_object [of d])
  note look = m [rule_format] json_get_def d [symmetric, unfolded attempt_json_def, simplified]
  have lists: "text_list e ''context_sha256'' = Inr (da_context_sha256 a)" "text_list e ''m2c_command'' = Inr (da_m2c_command a)"
    "text_list e ''diagnostics'' = Inr (da_diagnostics a)" "text_dict e ''artifact_paths'' = Inr (sort_key fst (da_artifact_paths a))"
    by (rule text_list_text_json text_dict_entries, simp add: look del: sort_json.simps)+
  show ?thesis
    unfolding d e
    by (simp add: attempt_of_json_def required_def json_key_def lists look optional_identity [OF assms] sorted_attempt_def
        from_option_def del: sort_json.simps(2))
qed

lemma state_round_trip:
  assumes "\<forall>a \<in> set (fs_attempt_history s). identity_object a"
  shows "state_of_json (sort_json (state_json s)) = Inr (sorted_state s)"
proof -
  obtain d where d: "state_json s = JObj d" by (simp add: state_json_def)
  obtain e where e: "sort_json (JObj d) = JObj e" and m: "\<forall>k. map_of e k = map_option sort_json (map_of d k)"
    by (rule sorted_object [of d])
  note look = m [rule_format] json_get_def d [symmetric, unfolded state_json_def, simplified]
  have evidence: "text_list e ''static_evidence'' = Inr (fs_static_evidence s)"
    by (rule text_list_text_json) (simp add: look)
  have items: "list_items e ''attempt_history'' = Inr (map (sort_json \<circ> attempt_json) (fs_attempt_history s))"
    by (simp add: list_items_def look)
  have "mapE attempt_of_json (map (sort_json \<circ> attempt_json) xs) = Inr (map sorted_attempt xs)"
    if "\<forall>a \<in> set xs. identity_object a" for xs
    using that by (induction xs) (simp_all add: attempt_round_trip)
  note history = this [OF assms]
  show ?thesis
    unfolding d e
    by (simp add: state_of_json_def required_def json_key_def evidence items history look sorted_state_def from_option_def
        del: sort_json.simps(2))
qed

lemma path_join_ends: "\<exists>y. path_join a b = y @ b"
proof -
  have "path_join a b = (if path_absolute b \<or> a = [] then [] else if last a = CHR ''/'' then a else a @ ''/'') @ b"
    by (simp add: path_join_def)
  then show ?thesis by blast
qed

lemma schema_path_differs: "path_join a ''state.json'' \<noteq> schema_path h workspace"
proof
  assume eq: "path_join a ''state.json'' = schema_path h workspace"
  obtain y z where "path_join a ''state.json'' = y @ ''state.json''" "schema_path h workspace = z @ ''schema_version.json''"
    using path_join_ends unfolding schema_path_def by metis
  with eq have "rev (y @ ''state.json'') = rev (z @ ''schema_version.json'')" by simp
  then show False by simp
qed

lemma schema_kept:
  assumes "fst (ensure_schema h workspace fs) = Inr ()" "codec_ok (mh_loads h) (mh_dumps h) (JObj [(''schema_version'', JInt DECOMPILATION_SCHEMA_VERSION)])"
  shows "validate_schema_if_present h (snd (ensure_schema h workspace fs)) workspace = Inr ()"
  using assms
  by (cases "fs (schema_path h workspace)")
    (auto simp: ensure_schema_def write_state_json_def validate_schema_if_present_def load_json_def read_json_def codec_ok_def
      schema_supported_def json_get_def DECOMPILATION_SCHEMA_VERSION_def bindE_def split: if_splits)

lemma saved_state_loads:
  assumes "save_function_state h workspace s fs = (Inr path, fs')"
    and "codec_ok (mh_loads h) (mh_dumps h) (state_json s)"
    and "codec_ok (mh_loads h) (mh_dumps h) (JObj [(''schema_version'', JInt DECOMPILATION_SCHEMA_VERSION)])"
    and "list_all identity_object (fs_attempt_history s)"
  shows "load_function_state h fs' workspace (fs_module s) (fs_function s) = Inr (Some (sorted_state s))"
proof -
  obtain fs1 where schema: "ensure_schema h workspace fs = (Inr (), fs1)"
    and path: "state_path h workspace (fs_module s) (fs_function s) = Inr path"
    and fs': "fs' = fs1(path \<mapsto> mh_dumps h (state_json s) @ [0x0A])"
    using assms(1)
    by (auto simp: save_function_state_def action_Inr write_state_json_def split: if_splits)
  obtain dir where dir: "path = path_join dir ''state.json''"
    using path by (cases "function_dir h workspace (fs_module s) (fs_function s)") (auto simp: state_path_def)
  have valid: "validate_schema_if_present h fs1 workspace = Inr ()"
    using schema_kept [of h workspace fs] schema assms(3) by simp
  have kept: "fs' (schema_path h workspace) = fs1 (schema_path h workspace)"
    using schema_path_differs [of dir h workspace] by (simp add: fs' dir)
  then have kept_json: "load_json h fs' (schema_path h workspace) = load_json h fs1 (schema_path h workspace)"
    by (simp add: load_json_def read_json_def)
  have "validate_schema_if_present h fs' workspace = Inr ()"
    using valid unfolding validate_schema_if_present_def kept kept_json .
  moreover have "load_json h fs' path = Inr (sort_json (state_json s))"
    using assms(2) by (simp add: load_json_def read_json_def fs' codec_ok_def)
  moreover have "state_of_json (sort_json (state_json s)) = Inr (sorted_state s)"
    using assms(4) by (intro state_round_trip) (simp add: list_all_iff)
  ultimately show ?thesis by (simp add: load_function_state_def path fs')
qed

text \<open>
  Property C37. The decompilation state that was saved for a function is the state that is loaded for
  it: every field and every attempt comes back, whether the workspace had a schema file or not.
\<close>

theorem saved_state_is_loaded:
  "save_function_state h workspace s fs = (Inr path, fs') \<Longrightarrow>
     codec_ok (mh_loads h) (mh_dumps h) (state_json s) \<Longrightarrow>
     codec_ok (mh_loads h) (mh_dumps h) (JObj [(''schema_version'', JInt DECOMPILATION_SCHEMA_VERSION)]) \<Longrightarrow>
     list_all identity_object (fs_attempt_history s) \<Longrightarrow>
     load_function_state h fs' workspace (fs_module s) (fs_function s) = Inr (Some (sorted_state s))"
  by (rule saved_state_loads)

definition sample_attempt :: decompilation_attempt where
  "sample_attempt =
     \<lparr> da_attempt_id = ''1'', da_variant_reason = ''default'', da_assembly_sha256 = ''2'', da_context_sha256 = [],
       da_m2c_command = [''m2c''], da_m2c_version = None, da_target = ''mips'', da_outcome = ''matched_partial'',
       da_candidate_sha256 = Some ''3'', da_toolchain_name = Some ''cc'', da_toolchain_identity = Some (JObj []),
       da_object_sha256 = Some ''4'', da_match_raw_score = Some 1, da_match_max_score = Some 4,
       da_match_similarity_percent = Some 75, da_match_exact = Some False, da_matching_rows = Some 3,
       da_changed_rows = Some 1, da_added_rows = Some 0, da_removed_rows = Some 0,
       da_reference_lacks_relocations = True, da_diagnostics = [], da_artifact_paths = [(''object'', ''a.o'')] \<rparr>"

definition sample_state :: function_state where
  "sample_state =
     \<lparr> fs_module = ''a.prx'', fs_function = ''f'', fs_address = 16, fs_status = ''matched_partial'', fs_attempts = 1,
       fs_best_attempt_id = Some ''1'', fs_best_match_percent = Some 75, fs_static_confidence = None,
       fs_static_evidence = [], fs_runtime_status = None, fs_last_failure = None, fs_attempt_history = [sample_attempt] \<rparr>"

definition store_host :: toolchain_host where
  "store_host =
     \<lparr> mh_environ = (\<lambda>_. None), mh_which = (\<lambda>_. None), mh_resolve = (\<lambda>p. p), mh_is_dir = (\<lambda>_. False),
       mh_python = ''py'', mh_temporary = ''/tmp'', mh_writable = (\<lambda>_. True), mh_split_words = (\<lambda>s. Some [s]),
       mh_build = (\<lambda>_ _ fs. (Exited 0, fs)), mh_repr = (\<lambda>s. s), mh_differ = (\<lambda>_ _ _ _. (Exited 0, [])),
       mh_loads = (\<lambda>bs. Some (if bs = [1, 10] then sort_json (state_json sample_state)
         else JObj [(''schema_version'', JInt 1)])),
       mh_dumps = (\<lambda>j. if j = state_json sample_state then [1] else [2]), mh_toml = (\<lambda>_ _. None),
       dh_m2c = (\<lambda>_ _. None), th_run = (\<lambda>_ _ _ fs. ((Exited 0, [], []), fs)), th_sha256 = (\<lambda>_. ''0''),
       th_field = (\<lambda>_ _. Inr []), th_alnum = (\<lambda>_. False) \<rparr>"

definition sample_saved :: "(store_error, string) result \<times> file_store" where
  "sample_saved = save_function_state store_host ''/w'' sample_state (\<lambda>_. None)"

theorem saved_state_is_loaded_witness:
  "load_function_state store_host (snd sample_saved) ''/w'' ''a.prx'' ''f'' = Inr (Some (sorted_state sample_state))"
proof -
  have saved: "\<not> isl (fst sample_saved)" by code_simp
  have run: "save_function_state store_host ''/w'' sample_state (\<lambda>_. None) = (Inr (projr (fst sample_saved)), snd sample_saved)"
    using saved by (cases "fst sample_saved") (auto simp: sample_saved_def prod_eq_iff)
  have "codec_ok (mh_loads store_host) (mh_dumps store_host) (state_json sample_state)"
    by (simp add: codec_ok_def store_host_def utf8_valid.simps utf8_head_def)
  moreover have "codec_ok (mh_loads store_host) (mh_dumps store_host) (JObj [(''schema_version'', JInt DECOMPILATION_SCHEMA_VERSION)])"
    by (simp add: codec_ok_def store_host_def utf8_valid.simps utf8_head_def state_json_def DECOMPILATION_SCHEMA_VERSION_def)
  moreover have "list_all identity_object (fs_attempt_history sample_state)"
    by (simp add: sample_state_def sample_attempt_def identity_object_def)
  ultimately show ?thesis
    using saved_state_is_loaded [OF run] by (simp add: sample_state_def)
qed

text \<open>
  Two functions of a module whose names differ only in characters that are no letters or digits share
  one state file: saving the second replaces the first, and the first then loads the second's state.
\<close>

lemma state_files_collide:
  "state_path store_host ''/w'' ''a.prx'' ''f+1'' = state_path store_host ''/w'' ''a.prx'' ''f_1''"
  by code_simp

lemma other_state_is_loaded:
  "state_path h workspace (fs_module s) f = state_path h workspace (fs_module s) (fs_function s) \<Longrightarrow>
     load_function_state h fs workspace (fs_module s) f = load_function_state h fs workspace (fs_module s) (fs_function s)"
  by (simp add: load_function_state_def)

text \<open>A number that cannot be read ends in the error of \<open>int\<close>, not in one of the store's own.\<close>

lemma unreadable_number_crashes: "int_of ''address'' (JStr ''x'') = Inl (State_Value_Crash ''address'')"
  by code_simp

end
