(* ===== verification/Orchestrator.thy ===== *)
theory Orchestrator
  imports Decompilation_Store
begin

text \<open>
  \<open>decompile/orchestrator.py\<close>: the bounded loop that decompiles a function, builds the result and
  matches it with the original, once per variant, and records every attempt. It composes
  \<open>decompiler.py\<close>, \<open>decompile/toolchain.py\<close> and \<open>matcher.py\<close> over one file store. What \<open>str\<close> prints of
  an exception and the canonical JSON text are parameters.
\<close>

section \<open>Errors of the parts\<close>

text \<open>The class of a matcher error: \<open>MatcherUnavailableError\<close>, \<open>MatchingError\<close>, or another exception.\<close>

definition matcher_unavailable :: "match_error \<Rightarrow> bool" where
  "matcher_unavailable e =
     (case e of Backend_Missing \<Rightarrow> True | Objdump_Missing \<Rightarrow> True | Tool_Path_Missing _ \<Rightarrow> True
      | Tool_Path_Directory _ \<Rightarrow> True | Differ_Unavailable \<Rightarrow> True | _ \<Rightarrow> False)"

definition matcher_crash :: "match_error \<Rightarrow> bool" where
  "matcher_crash e =
     (case e of Metadata_Undecodable \<Rightarrow> True | Pack_Error \<Rightarrow> True | Build_Command_Malformed \<Rightarrow> True
      | Version_Not_Table \<Rightarrow> True | Write_Failed _ \<Rightarrow> True | _ \<Rightarrow> False)"

datatype printed_error =
    Print_M2c m2c_failure
  | Print_Decompile decompile_failure
  | Print_Build refused_build
  | Print_Match match_error
  | Print_Missing_Context string
  | Print_No_Instructions string

record orchestrator_host = toolchain_host +
  oh_print :: "printed_error \<Rightarrow> string"
  oh_canonical :: "json \<Rightarrow> string"

definition toolchain_host_of :: "orchestrator_host \<Rightarrow> toolchain_host" where
  "toolchain_host_of h = toolchain_host.truncate h"

definition decompile_host_of :: "orchestrator_host \<Rightarrow> decompile_host" where
  "decompile_host_of h = decompile_host.truncate h"

definition matcher_host_of :: "orchestrator_host \<Rightarrow> match_host" where
  "matcher_host_of h = match_host.truncate h"

datatype orchestrator_error =
    Function_Not_Matched match_error
  | Unsupported_Function string
  | Version_Probe_Crash
  | Identity_Failed build_error
  | References_Undecodable
  | Assembly_Unreadable
  | Decompile_Crash decompile_error
  | Candidate_Unreadable
  | Build_Crash build_error
  | Match_Crash match_error
  | State_Not_Saved store_error

section \<open>Variants and attempts\<close>

record retry_variant =
  rv_reason :: string
  rv_contexts :: "string list"
  rv_target :: string

definition default_variants :: "string list \<Rightarrow> string \<Rightarrow> retry_variant list" where
  "default_variants contexts target =
     \<lparr> rv_reason = ''default'', rv_contexts = [], rv_target = target \<rparr> #
     (if contexts \<noteq> [] then [\<lparr> rv_reason = ''with_context'', rv_contexts = contexts, rv_target = target \<rparr>] else [])"

record attempt_identity =
  ai_function :: string
  ai_address :: int
  ai_assembly_sha256 :: string
  ai_context_sha256 :: "string list"
  ai_m2c_command :: "string list"
  ai_m2c_version :: "string option"
  ai_target :: string
  ai_toolchain :: json

definition compute_attempt_id :: "orchestrator_host \<Rightarrow> attempt_identity \<Rightarrow> string" where
  "compute_attempt_id h i =
     take 16 (th_sha256 h (str_bytes (oh_canonical h (JObj
       [(''function'', JStr (ai_function i)), (''address'', JInt (ai_address i)),
        (''assembly_sha256'', JStr (ai_assembly_sha256 i)), (''context_sha256'', text_json (ai_context_sha256 i)),
        (''m2c_command'', text_json (ai_m2c_command i)), (''m2c_version'', json_of_option JStr (ai_m2c_version i)),
        (''target'', JStr (ai_target i)), (''toolchain_identity'', ai_toolchain i)]))))"

definition rank :: "decompilation_attempt \<Rightarrow> int \<times> rat \<times> int \<times> string" where
  "rank a =
     (if da_match_exact a = Some True then 0 else 1,
      - (case da_match_similarity_percent a of None \<Rightarrow> -1 | Some p \<Rightarrow> p),
      (case da_changed_rows a of None \<Rightarrow> 0 | Some n \<Rightarrow> n) + (case da_added_rows a of None \<Rightarrow> 0 | Some n \<Rightarrow> n) +
        (case da_removed_rows a of None \<Rightarrow> 0 | Some n \<Rightarrow> n),
      da_attempt_id a)"

text \<open>\<open>min(attempts, key=_rank)\<close>: the first of the best.\<close>

definition select_best_attempt :: "decompilation_attempt list \<Rightarrow> decompilation_attempt option" where
  "select_best_attempt attempts = (case sort_key rank attempts of [] \<Rightarrow> None | a # _ \<Rightarrow> Some a)"

definition status_from_best :: "decompilation_attempt option \<Rightarrow> string" where
  "status_from_best best =
     (case best of
        None \<Rightarrow> ''blocked''
      | Some a \<Rightarrow>
          if da_match_exact a = Some True then ''matched_exact''
          else if da_match_similarity_percent a \<noteq> None then ''matched_partial''
          else if da_candidate_sha256 a \<noteq> None then ''build_failed''
          else ''blocked'')"

record queued_function =
  qf_module :: string
  qf_project_dir :: string
  qf_function :: string
  qf_address :: int
  qf_size :: int
  qf_instruction_count :: int
  qf_state :: function_state

definition function_has_known_references :: "orchestrator_host \<Rightarrow> file_store \<Rightarrow> string \<Rightarrow> string \<Rightarrow> (orchestrator_error, bool) result" where
  "function_has_known_references h fs project function =
     (case read_json (mh_loads h) fs (path_join (mh_resolve h project) ''metadata/references.json'') of
        Undecodable_File \<Rightarrow> Inl References_Undecodable
      | Json_File (JList items) \<Rightarrow>
          Inr (list_ex (\<lambda>item. case json_obj item of None \<Rightarrow> False
                 | Some d \<Rightarrow> json_get d ''source_function'' = JStr function) items)
      | _ \<Rightarrow> Inr False)"

fun assembly_in :: "string \<Rightarrow> json list \<Rightarrow> (orchestrator_error, string) result" where
  "assembly_in function [] = Inr []"
| "assembly_in function (JObj d # entries) =
     (if json_get d ''name'' = JStr function
      then (case map_of d ''assembly'' of None \<Rightarrow> Inr []
            | Some v \<Rightarrow> (case str_of ''assembly'' v of Inr s \<Rightarrow> Inr s | Inl _ \<Rightarrow> Inl Assembly_Unreadable))
      else assembly_in function entries)"
| "assembly_in function (_ # entries) = assembly_in function entries"

definition assembly_text_for :: "orchestrator_host \<Rightarrow> file_store \<Rightarrow> string \<Rightarrow> string \<Rightarrow> (orchestrator_error, string) result" where
  "assembly_text_for h fs project function =
     (case read_json (mh_loads h) fs (path_join (mh_resolve h project) ''metadata/functions.json'') of
        Json_File (JList entries) \<Rightarrow> assembly_in function entries
      | Json_File (JObj _) \<Rightarrow> Inr []
      | Json_File (JStr _) \<Rightarrow> Inr []
      | _ \<Rightarrow> Inl Assembly_Unreadable)"

section \<open>One attempt\<close>

text \<open>What an attempt starts from.\<close>

record attempt_plan =
  ap_queued :: queued_function
  ap_variant :: retry_variant
  ap_identity :: attempt_identity
  ap_id :: string
  ap_m2c_path :: "string option"
  ap_toolchain :: toolchain
  ap_asm_differ :: "string option"
  ap_objdump :: "string option"
  ap_timeout :: rat
  ap_known_references :: bool

text \<open>The fields every attempt of a plan has; the others keep the defaults of the class.\<close>

definition base_attempt :: "attempt_plan \<Rightarrow> string \<Rightarrow> decompilation_attempt" where
  "base_attempt p outcome =
     \<lparr> da_attempt_id = ap_id p, da_variant_reason = rv_reason (ap_variant p),
       da_assembly_sha256 = ai_assembly_sha256 (ap_identity p), da_context_sha256 = ai_context_sha256 (ap_identity p),
       da_m2c_command = ai_m2c_command (ap_identity p), da_m2c_version = ai_m2c_version (ap_identity p),
       da_target = rv_target (ap_variant p), da_outcome = outcome, da_candidate_sha256 = None,
       da_toolchain_name = Some (tc_name (ap_toolchain p)),
       da_toolchain_identity = Some (ai_toolchain (ap_identity p)), da_object_sha256 = None,
       da_match_raw_score = None, da_match_max_score = None, da_match_similarity_percent = None,
       da_match_exact = None, da_matching_rows = None, da_changed_rows = None, da_added_rows = None,
       da_removed_rows = None, da_reference_lacks_relocations = False, da_diagnostics = [], da_artifact_paths = [] \<rparr>"

definition candidate_path :: "orchestrator_host \<Rightarrow> attempt_plan \<Rightarrow> string \<Rightarrow> string \<Rightarrow> string" where
  "candidate_path h p dir suffix =
     path_join (qf_project_dir (ap_queued p))
       (dir @ safe_function_stem (th_alnum h) (qf_function (ap_queued p)) @ ''.'' @ ap_id p @ suffix)"

definition decompile_request_of :: "orchestrator_host \<Rightarrow> attempt_plan \<Rightarrow> decompile_request" where
  "decompile_request_of h p =
     \<lparr> dq_project = qf_project_dir (ap_queued p), dq_selector = qf_function (ap_queued p), dq_m2c = ap_m2c_path p,
       dq_contexts = rv_contexts (ap_variant p), dq_output = Some (candidate_path h p ''src/nonmatching/'' ''.c''),
       dq_target = rv_target (ap_variant p) \<rparr>"

definition match_request_of :: "attempt_plan \<Rightarrow> string \<Rightarrow> match_request" where
  "match_request_of p candidate =
     \<lparr> mq_project = qf_project_dir (ap_queued p), mq_selector = qf_function (ap_queued p), mq_candidate = candidate,
       mq_asm_differ = ap_asm_differ p, mq_objdump = ap_objdump p, mq_reference = None, mq_build = None,
       mq_section = ''.text'', mq_ignore_large_imms = False, mq_timeout = ap_timeout p \<rparr>"

text \<open>A step of an attempt goes on, ends the attempt with a record, or finds a backend missing.\<close>

datatype 'a step = Go 'a | Record decompilation_attempt | Unavailable

definition decompile_step ::
    "orchestrator_host \<Rightarrow> attempt_plan \<Rightarrow> (file_store, orchestrator_error, decompilation_result step) action" where
  "decompile_step h p fs =
     (case decompile_project_function (decompile_host_of h) (decompile_request_of h p) fs of
        (Inr r, fs') \<Rightarrow> (Inr (Go r), fs')
      | (Inl (Decompiler_Missing _), fs') \<Rightarrow> (Inr Unavailable, fs')
      | (Inl (Decompilation_Failed e), fs') \<Rightarrow>
          (Inr (Record ((base_attempt p ''decompilation_failed'')\<lparr> da_diagnostics := [oh_print h (Print_Decompile e)] \<rparr>)), fs')
      | (Inl e, fs') \<Rightarrow> (Inl (Decompile_Crash e), fs'))"

definition build_step ::
    "orchestrator_host \<Rightarrow> attempt_plan \<Rightarrow> decompilation_result \<Rightarrow> string \<Rightarrow>
       (file_store, orchestrator_error, build_result step) action" where
  "build_step h p d candidate_sha256 fs =
     (case tc_compile (ap_toolchain p) (dr_output_path d) (candidate_path h p ''build/nonmatching/'' ''.o'')
             (qf_project_dir (ap_queued p)) (ap_timeout p) fs of
        (Inr r, fs') \<Rightarrow> (Inr (Go r), fs')
      | (Inl (Toolchain_Unavailable _), fs') \<Rightarrow> (Inr Unavailable, fs')
      | (Inl (Build_Refused e), fs') \<Rightarrow>
          (Inr (Record ((base_attempt p ''build_failed'')\<lparr> da_candidate_sha256 := Some candidate_sha256,
             da_diagnostics := dr_warnings d @ [oh_print h (Print_Build e)],
             da_artifact_paths := [(''candidate_c'', dr_output_path d)] \<rparr>)), fs')
      | (Inl e, fs') \<Rightarrow> (Inl (Build_Crash e), fs'))"

definition matched_attempt ::
    "attempt_plan \<Rightarrow> decompilation_result \<Rightarrow> string \<Rightarrow> build_result \<Rightarrow> match_result \<Rightarrow> decompilation_attempt" where
  "matched_attempt p d candidate_sha256 b m =
     (let exact = (mr_raw_score m = 0) in
      (base_attempt p (if exact then ''matched_exact'' else ''matched_partial''))
        \<lparr> da_candidate_sha256 := Some candidate_sha256, da_object_sha256 := Some (br_object_sha256 b),
          da_match_raw_score := Some (mr_raw_score m), da_match_max_score := Some (mr_max_score m),
          da_match_similarity_percent := Some (mr_similarity_percent m), da_match_exact := Some exact,
          da_matching_rows := Some (rc_matching (mr_rows m)), da_changed_rows := Some (rc_changed (mr_rows m)),
          da_added_rows := Some (rc_added (mr_rows m)), da_removed_rows := Some (rc_removed (mr_rows m)),
          da_reference_lacks_relocations := ap_known_references p,
          da_diagnostics := dr_warnings d @ br_diagnostics b @ mr_warnings m,
          da_artifact_paths := [(''candidate_c'', dr_output_path d), (''object'', br_output_path b),
            (''match_metadata'', mr_metadata_path m)] \<rparr>)"

definition match_step ::
    "orchestrator_host \<Rightarrow> attempt_plan \<Rightarrow> decompilation_result \<Rightarrow> string \<Rightarrow> build_result \<Rightarrow>
       (file_store, orchestrator_error, decompilation_attempt option) action" where
  "match_step h p d candidate_sha256 b fs =
     (case match_project_function (matcher_host_of h) (match_request_of p (br_output_path b)) fs of
        (Inr m, fs') \<Rightarrow> (Inr (Some (matched_attempt p d candidate_sha256 b m)), fs')
      | (Inl e, fs') \<Rightarrow>
          if matcher_crash e then (Inl (Match_Crash e), fs')
          else if matcher_unavailable e then (Inr None, fs')
          else
            (Inr (Some ((base_attempt p ''match_failed'')\<lparr> da_candidate_sha256 := Some candidate_sha256,
               da_object_sha256 := Some (br_object_sha256 b),
               da_diagnostics := dr_warnings d @ br_diagnostics b @ [oh_print h (Print_Match e)],
               da_artifact_paths := [(''candidate_c'', dr_output_path d), (''object'', br_output_path b)] \<rparr>)), fs'))"

text \<open>\<open>_run_one_attempt\<close>: nothing when a backend is missing.\<close>

definition run_one_attempt ::
    "orchestrator_host \<Rightarrow> attempt_plan \<Rightarrow> (file_store, orchestrator_error, decompilation_attempt option) action" where
  "run_one_attempt h p =
     bindS (decompile_step h p) (\<lambda>decompiled.
     case decompiled of
       Unavailable \<Rightarrow> returnS None
     | Record a \<Rightarrow> returnS (Some a)
     | Go d \<Rightarrow>
         bindS (readS (\<lambda>fs. fs (dr_output_path d))) (\<lambda>content.
         bindS (liftS (from_option Candidate_Unreadable content)) (\<lambda>bs.
         let candidate_sha256 = th_sha256 h bs in
         bindS (build_step h p d candidate_sha256) (\<lambda>built.
         case built of
           Unavailable \<Rightarrow> returnS None
         | Record a \<Rightarrow> returnS (Some a)
         | Go b \<Rightarrow> match_step h p d candidate_sha256 b))))"

section \<open>The loop over the variants\<close>

record run_options =
  ro_m2c_path :: "string option"
  ro_contexts :: "string list"
  ro_target :: string
  ro_toolchain :: toolchain
  ro_asm_differ :: "string option"
  ro_objdump :: "string option"
  ro_max_attempts :: int
  ro_force :: bool
  ro_timeout :: rat

text \<open>What is found out once, before the loop.\<close>

record run_facts =
  rf_queued :: queued_function
  rf_options :: run_options
  rf_command :: "string list"
  rf_version :: "string option"
  rf_identity :: json
  rf_known_references :: bool

definition identity_for :: "run_facts \<Rightarrow> retry_variant \<Rightarrow> string \<Rightarrow> string list \<Rightarrow> attempt_identity" where
  "identity_for c v assembly contexts =
     \<lparr> ai_function = qf_function (rf_queued c), ai_address = qf_address (rf_queued c), ai_assembly_sha256 = assembly,
       ai_context_sha256 = contexts, ai_m2c_command = rf_command c, ai_m2c_version = rf_version c,
       ai_target = rv_target v, ai_toolchain = rf_identity c \<rparr>"

definition plan_for :: "orchestrator_host \<Rightarrow> run_facts \<Rightarrow> retry_variant \<Rightarrow> attempt_identity \<Rightarrow> attempt_plan" where
  "plan_for h c v i =
     \<lparr> ap_queued = rf_queued c, ap_variant = v, ap_identity = i, ap_id = compute_attempt_id h i,
       ap_m2c_path = ro_m2c_path (rf_options c), ap_toolchain = ro_toolchain (rf_options c),
       ap_asm_differ = ro_asm_differ (rf_options c), ap_objdump = ro_objdump (rf_options c),
       ap_timeout = ro_timeout (rf_options c), ap_known_references = rf_known_references c \<rparr>"

text \<open>An attempt whose context cannot be read names no toolchain.\<close>

definition context_failure :: "orchestrator_host \<Rightarrow> run_facts \<Rightarrow> retry_variant \<Rightarrow> string \<Rightarrow> decompilation_attempt" where
  "context_failure h c v missing =
     (let i = identity_for c v ''unavailable'' [] in
      (base_attempt (plan_for h c v i) ''decompilation_failed'')
        \<lparr> da_toolchain_name := None, da_toolchain_identity := None,
          da_diagnostics := [''context generation failed: '' @ oh_print h (Print_Missing_Context missing)] \<rparr>)"

definition hash_contexts :: "orchestrator_host \<Rightarrow> file_store \<Rightarrow> string list \<Rightarrow> (string, string list) result" where
  "hash_contexts h fs contexts =
     mapE (\<lambda>c. from_option c (hash_at (toolchain_host_of h) fs c)) contexts"

datatype turn = Skip | Stop | Attempted decompilation_attempt

definition variant_turn ::
    "orchestrator_host \<Rightarrow> run_facts \<Rightarrow> retry_variant \<Rightarrow> string set \<Rightarrow> (file_store, orchestrator_error, turn) action" where
  "variant_turn h c v existing =
     bindS (readS (\<lambda>fs. hash_contexts h fs (rv_contexts v))) (\<lambda>hashed.
     case hashed of
       Inl missing \<Rightarrow>
         let a = context_failure h c v missing in
         returnS (if da_attempt_id a \<in> existing then Skip else Attempted a)
     | Inr contexts \<Rightarrow>
         bindS (readS (\<lambda>fs. assembly_text_for h fs (qf_project_dir (rf_queued c)) (qf_function (rf_queued c)))) (\<lambda>assembly.
         bindS (liftS assembly) (\<lambda>text.
         let i = identity_for c v (th_sha256 h (str_bytes text)) contexts; p = plan_for h c v i in
         if ap_id p \<in> existing \<and> \<not> ro_force (rf_options c) then returnS Skip
         else bindS (run_one_attempt h p) (\<lambda>outcome.
              returnS (case outcome of None \<Rightarrow> Stop | Some a \<Rightarrow> Attempted a)))))"

text \<open>The attempts after the loop, and whether it stopped at a missing backend.\<close>

fun run_variants ::
    "orchestrator_host \<Rightarrow> run_facts \<Rightarrow> retry_variant list \<Rightarrow> decompilation_attempt list \<Rightarrow>
       (file_store, orchestrator_error, decompilation_attempt list \<times> bool) action" where
  "run_variants h c [] attempts = returnS (attempts, False)"
| "run_variants h c (v # vs) attempts =
     bindS (variant_turn h c v (set (map da_attempt_id attempts))) (\<lambda>turn.
     case turn of
       Skip \<Rightarrow> run_variants h c vs attempts
     | Stop \<Rightarrow> returnS (attempts, True)
     | Attempted a \<Rightarrow>
         if da_match_exact a = Some True then returnS (attempts @ [a], False)
         else run_variants h c vs (attempts @ [a]))"

definition finished_state :: "queued_function \<Rightarrow> decompilation_attempt list \<Rightarrow> function_state" where
  "finished_state q attempts =
     (let best = select_best_attempt attempts in
      \<lparr> fs_module = qf_module q, fs_function = qf_function q, fs_address = qf_address q,
        fs_status = status_from_best best, fs_attempts = blen attempts,
        fs_best_attempt_id = map_option da_attempt_id best,
        fs_best_match_percent = Option.bind best da_match_similarity_percent,
        fs_static_confidence = fs_static_confidence (qf_state q), fs_static_evidence = fs_static_evidence (qf_state q),
        fs_runtime_status = fs_runtime_status (qf_state q),
        fs_last_failure = (case best of None \<Rightarrow> None | Some a \<Rightarrow>
          if da_match_exact a = Some True \<or> da_diagnostics a = [] then None else Some (last (da_diagnostics a))),
        fs_attempt_history = attempts \<rparr>)"

definition BACKEND_MISSING :: string where "BACKEND_MISSING = ''build or match backend is unavailable''"

definition variants_of :: "run_options \<Rightarrow> retry_variant list" where
  "variants_of options = py_slice (default_variants (ro_contexts options) (ro_target options)) 0 (ro_max_attempts options)"

text \<open>The run once m2c is found, and the whole run.\<close>

definition run_with_command ::
    "orchestrator_host \<Rightarrow> queued_function \<Rightarrow> run_options \<Rightarrow> string list \<Rightarrow> (file_store, orchestrator_error, function_state) action" where
  "run_with_command h q options command =
     bindS (readS (\<lambda>fs. detect_m2c_version (decompile_host_of h) fs command)) (\<lambda>detected.
     bindS (liftS (from_option Version_Probe_Crash detected)) (\<lambda>version.
     bindS (readS (tc_identity (ro_toolchain options))) (\<lambda>identified.
     bindS (liftS (map_sum Identity_Failed id identified)) (\<lambda>identity.
     bindS (readS (\<lambda>fs. function_has_known_references h fs (qf_project_dir q) (qf_function q))) (\<lambda>known.
     bindS (liftS known) (\<lambda>known_references.
     bindS (run_variants h
        \<lparr> rf_queued = q, rf_options = options, rf_command = command, rf_version = version,
          rf_identity = identity, rf_known_references = known_references \<rparr>
        (variants_of options) (fs_attempt_history (qf_state q))) (\<lambda>(attempts, stopped).
     returnS
       (if stopped
        then (qf_state q)\<lparr> fs_attempts := blen attempts, fs_status := ''blocked'',
               fs_last_failure := Some BACKEND_MISSING, fs_attempt_history := attempts \<rparr>
        else finished_state q attempts))))))))"

definition run_function ::
    "orchestrator_host \<Rightarrow> queued_function \<Rightarrow> run_options \<Rightarrow> (file_store, orchestrator_error, function_state) action" where
  "run_function h q options =
     bindS (readS (\<lambda>fs. resolve_match_function
       (read_json (mh_loads h) fs (path_join (mh_resolve h (qf_project_dir q)) ''metadata/functions.json'')) (qf_function q))) (\<lambda>resolved.
     bindS (liftS (map_sum Function_Not_Matched id resolved)) (\<lambda>f.
     thenS (ensureS (mf_instructions f \<noteq> []) (Unsupported_Function (qf_function q)))
      (bindS (readS (\<lambda>fs. resolve_m2c_command (decompile_host_of h) fs (ro_m2c_path options))) (\<lambda>found.
       case found of
         Inl e \<Rightarrow>
           returnS ((qf_state q)\<lparr> fs_status := ''blocked'', fs_last_failure := Some (oh_print h (Print_M2c e)) \<rparr>)
       | Inr command \<Rightarrow> run_with_command h q options command))))"

definition run_and_persist ::
    "orchestrator_host \<Rightarrow> string \<Rightarrow> queued_function \<Rightarrow> run_options \<Rightarrow> (file_store, orchestrator_error, function_state) action" where
  "run_and_persist h workspace q options fs =
     (case run_function h q options fs of
        (Inl (Unsupported_Function name), fs') \<Rightarrow>
          (let s = (qf_state q)\<lparr> fs_status := ''unsupported'', fs_last_failure := Some (oh_print h (Print_No_Instructions name)) \<rparr>
           in bindS (convertS State_Not_Saved (save_function_state (toolchain_host_of h) workspace s)) (\<lambda>_. returnS s) fs')
      | (Inl e, fs') \<Rightarrow> (Inl e, fs')
      | (Inr s, fs') \<Rightarrow>
          bindS (convertS State_Not_Saved (save_function_state (toolchain_host_of h) workspace s)) (\<lambda>_. returnS s) fs')"


section \<open>Recorded matches are matches of the backend\<close>

definition made_toolchain :: "toolchain_host \<Rightarrow> toolchain \<Rightarrow> bool" where
  "made_toolchain h tc \<longleftrightarrow>
     (\<exists>fs path flags name. external_compiler_toolchain h fs path flags name = Inr tc) \<or>
     (\<exists>command output name. project_build_command_toolchain h command output name = Inr tc)"

text \<open>
  An attempt that has a match stands for an answer of the matcher about the object with the recorded
  digest, for the function and the project of the queue.
\<close>

definition attempt_grounded :: "orchestrator_host \<Rightarrow> queued_function \<Rightarrow> decompilation_attempt \<Rightarrow> bool" where
  "attempt_grounded h q a \<longleftrightarrow>
     (da_match_exact a \<noteq> None \<or> da_match_similarity_percent a \<noteq> None \<longrightarrow>
        (\<exists>r m before after.
           match_project_function (matcher_host_of h) r before = (Inr m, after) \<and>
           mq_project r = qf_project_dir q \<and> mq_selector r = qf_function q \<and> mq_reference r = None \<and>
           hash_at (toolchain_host_of h) before (mq_candidate r) = da_object_sha256 a \<and> da_object_sha256 a \<noteq> None \<and>
           da_match_raw_score a = Some (mr_raw_score m) \<and> da_match_similarity_percent a = Some (mr_similarity_percent m) \<and>
           da_match_exact a = Some (mr_raw_score m = 0)))"

lemma external_toolchain_compiles:
  assumes "external_compiler_toolchain h fs path flags name = Inr tc"
  shows "\<exists>compiler. tc_compile tc = external_compile h compiler flags"
proof -
  obtain p where "(case path of Some p \<Rightarrow> Some p | None \<Rightarrow> mh_environ h ''PSPDISASM_BUILD_COMPILER'') = Some p"
    using assms by (cases "case path of Some p \<Rightarrow> Some p | None \<Rightarrow> mh_environ h ''PSPDISASM_BUILD_COMPILER''")
      (auto simp: external_compiler_toolchain_def Let_def)
  with assms show ?thesis by (auto simp: external_compiler_toolchain_def Let_def split: if_splits)
qed

lemma project_toolchain_compiles:
  "project_build_command_toolchain h command output name = Inr tc \<Longrightarrow> tc_compile tc = project_compile h command output"
  by (auto simp: project_build_command_toolchain_def split: if_splits)

lemma made_toolchain_builds:
  assumes "made_toolchain h tc" "tc_compile tc source output project timeout fs = (Inr r, fs')"
  shows "hash_at h fs' (br_output_path r) = Some (br_object_sha256 r)"
  using assms external_toolchain_compiles project_toolchain_compiles external.built project_command.built
  unfolding made_toolchain_def by metis

lemma base_attempt_grounded:
  "da_match_exact a = None \<Longrightarrow> da_match_similarity_percent a = None \<Longrightarrow> attempt_grounded h q a"
  by (simp add: attempt_grounded_def)

lemma base_attempt_no_match [simp]:
  "da_match_exact (base_attempt p outcome) = None" "da_match_similarity_percent (base_attempt p outcome) = None"
  by (simp_all add: base_attempt_def)

lemma decompile_step_record:
  "decompile_step h p fs = (Inr (Record a), fs') \<Longrightarrow> attempt_grounded h q a"
  by (auto simp: decompile_step_def intro!: base_attempt_grounded split: prod.splits sum.splits decompile_error.splits)

lemma build_step_record:
  "build_step h p d sha fs = (Inr (Record a), fs') \<Longrightarrow> attempt_grounded h q a"
  by (auto simp: build_step_def intro!: base_attempt_grounded split: prod.splits sum.splits build_error.splits)

lemma build_step_go:
  "build_step h p d sha fs = (Inr (Go b), fs') \<Longrightarrow> made_toolchain (toolchain_host_of h) (ap_toolchain p) \<Longrightarrow>
     hash_at (toolchain_host_of h) fs' (br_output_path b) = Some (br_object_sha256 b)"
  by (auto simp: build_step_def intro: made_toolchain_builds split: prod.splits sum.splits build_error.splits)

lemma match_step_grounded:
  assumes "match_step h p d sha b fs = (Inr (Some a), fs')"
    and "hash_at (toolchain_host_of h) fs (br_output_path b) = Some (br_object_sha256 b)"
  shows "attempt_grounded h (ap_queued p) a"
proof (cases "match_project_function (matcher_host_of h) (match_request_of p (br_output_path b)) fs")
  case (Pair outcome after)
  show ?thesis
  proof (cases outcome)
    case (Inl e)
    with Pair assms(1) have "da_match_exact a = None" "da_match_similarity_percent a = None"
      by (auto simp: match_step_def split: if_splits)
    then show ?thesis by (rule base_attempt_grounded)
  next
    case (Inr m)
    with Pair assms(1) have a: "a = matched_attempt p d sha b m" by (simp add: match_step_def)
    show ?thesis
      unfolding attempt_grounded_def
      by (rule impI, rule exI [of _ "match_request_of p (br_output_path b)"], rule exI [of _ m], rule exI [of _ fs],
          rule exI [of _ after])
        (use Pair Inr assms(2) in \<open>simp add: a matched_attempt_def Let_def match_request_of_def\<close>)
  qed
qed

lemma run_one_attempt_grounded:
  assumes "run_one_attempt h p fs = (Inr (Some a), fs')" "made_toolchain (toolchain_host_of h) (ap_toolchain p)"
  shows "attempt_grounded h (ap_queued p) a"
proof -
  obtain x fs1 where x: "decompile_step h p fs = (Inr x, fs1)"
    using assms(1) by (auto simp: run_one_attempt_def bindS_Inr)
  show ?thesis
  proof (cases x)
    case (Go d)
    obtain bs y fs2 where y: "build_step h p d (th_sha256 h bs) fs1 = (Inr y, fs2)"
      and rest: "(case y of Unavailable \<Rightarrow> returnS None | Record a \<Rightarrow> returnS (Some a)
          | Go b \<Rightarrow> match_step h p d (th_sha256 h bs) b) fs2 = (Inr (Some a), fs')"
      using assms(1) x Go by (auto simp: run_one_attempt_def action_Inr Let_def)
    show ?thesis
    proof (cases y)
      case (Go b)
      with rest match_step_grounded build_step_go [OF _ assms(2)] y show ?thesis by simp
    next
      case (Record b)
      with rest y build_step_record show ?thesis by auto
    qed (use rest in simp)
  qed (use assms(1) x decompile_step_record in \<open>auto simp: run_one_attempt_def bindS_Inr\<close>)
qed

lemma variant_turn_grounded:
  assumes "variant_turn h c v existing fs = (Inr (Attempted a), fs')"
    and "made_toolchain (toolchain_host_of h) (ro_toolchain (rf_options c))"
  shows "attempt_grounded h (rf_queued c) a"
proof (cases "hash_contexts h fs (rv_contexts v)")
  case (Inl missing)
  with assms(1) have "a = context_failure h c v missing"
    by (auto simp: variant_turn_def bindS_def Let_def split: if_splits)
  then show ?thesis by (intro base_attempt_grounded) (simp_all add: context_failure_def Let_def)
next
  case (Inr contexts)
  obtain asm where asm: "assembly_text_for h fs (qf_project_dir (rf_queued c)) (qf_function (rf_queued c)) = Inr asm"
    using assms(1) Inr
    by (cases "assembly_text_for h fs (qf_project_dir (rf_queued c)) (qf_function (rf_queued c))")
      (auto simp: variant_turn_def bindS_def)
  define p where "p = plan_for h c v (identity_for c v (th_sha256 h (str_bytes asm)) contexts)"
  have "run_one_attempt h p fs = (Inr (Some a), fs')"
    using assms(1) Inr asm
    by (auto simp: variant_turn_def bindS_def Let_def p_def split: if_splits sum.splits prod.splits option.splits)
  from run_one_attempt_grounded [OF this] assms(2) show ?thesis by (simp add: p_def plan_for_def)
qed

lemma run_variants_grounded:
  assumes "run_variants h c vs attempts fs = (Inr (result, stopped), fs')"
    and "made_toolchain (toolchain_host_of h) (ro_toolchain (rf_options c))"
  shows "\<exists>new. result = attempts @ new \<and> length new \<le> length vs \<and> (\<forall>a \<in> set new. attempt_grounded h (rf_queued c) a)"
  using assms(1)
proof (induction vs arbitrary: attempts fs)
  case (Cons v vs)
  obtain turn fs1 where turn: "variant_turn h c v (set (map da_attempt_id attempts)) fs = (Inr turn, fs1)"
    using Cons.prems by (auto simp: bindS_Inr)
  show ?case
  proof (cases turn)
    case (Attempted a)
    have a: "attempt_grounded h (rf_queued c) a"
      by (rule variant_turn_grounded [OF _ assms(2)]) (use turn Attempted in simp)
    show ?thesis
    proof (cases "da_match_exact a = Some True")
      case True
      with Cons.prems turn Attempted have "result = attempts @ [a]" by (simp add: bindS_def)
      with a show ?thesis by (intro exI [of _ "[a]"]) simp
    next
      case False
      with Cons.prems turn Attempted have "run_variants h c vs (attempts @ [a]) fs1 = (Inr (result, stopped), fs')"
        by (simp add: bindS_def)
      from Cons.IH [OF this] obtain new where new: "result = (attempts @ [a]) @ new" "length new \<le> length vs"
        "\<forall>a \<in> set new. attempt_grounded h (rf_queued c) a" by blast
      with a show ?thesis by (intro exI [of _ "a # new"]) simp
    qed
  next
    case Skip
    with Cons.prems turn have "run_variants h c vs attempts fs1 = (Inr (result, stopped), fs')"
      by (simp add: bindS_def)
    from Cons.IH [OF this] show ?thesis by auto
  next
    case Stop
    with Cons.prems turn show ?thesis by (simp add: bindS_def)
  qed
qed (use assms in simp)

lemma select_best_attempt_least:
  assumes "select_best_attempt attempts = Some a"
  shows "a \<in> set attempts \<and> (\<forall>b \<in> set attempts. rank a \<le> rank b)"
proof -
  obtain rest where sorted: "sort_key rank attempts = a # rest"
    using assms by (auto simp: select_best_attempt_def split: list.splits)
  then have "set attempts = set (a # rest)" using sort_key_set [of rank attempts] by simp
  moreover have "sorted (map rank (a # rest))" using sorted_sort_key_map [of rank attempts] sorted by simp
  ultimately show ?thesis by auto
qed

lemma select_best_attempt_None: "select_best_attempt attempts = None \<longleftrightarrow> attempts = []"
proof -
  have "sort_key rank attempts = [] \<longleftrightarrow> attempts = []" using sort_key_set [of rank attempts] by (metis set_empty)
  then show ?thesis by (auto simp: select_best_attempt_def split: list.splits)
qed

text \<open>The state of a function after a run, against the one it had.\<close>

definition run_recorded :: "orchestrator_host \<Rightarrow> queued_function \<Rightarrow> run_options \<Rightarrow> function_state \<Rightarrow> bool" where
  "run_recorded h q options s \<longleftrightarrow>
     (\<exists>new. fs_attempt_history s = fs_attempt_history (qf_state q) @ new \<and> length new \<le> length (variants_of options) \<and>
        (\<forall>a \<in> set new. attempt_grounded h q a)) \<and>
     (fs_status s \<noteq> ''blocked'' \<longrightarrow>
        fs_attempts s = blen (fs_attempt_history s) \<and>
        (\<exists>best \<in> set (fs_attempt_history s).
           (\<forall>a \<in> set (fs_attempt_history s). rank best \<le> rank a) \<and>
           fs_best_attempt_id s = Some (da_attempt_id best) \<and> fs_best_match_percent s = da_match_similarity_percent best) \<and>
        (fs_status s = ''matched_exact'' \<longleftrightarrow> (\<exists>a \<in> set (fs_attempt_history s). da_match_exact a = Some True)))"

lemma rank_exact: "rank a \<le> rank b \<Longrightarrow> da_match_exact b = Some True \<Longrightarrow> da_match_exact a = Some True"
  by (auto simp: rank_def less_eq_prod_def split: if_splits)

lemma finished_state_recorded:
  assumes "attempts = fs_attempt_history (qf_state q) @ new" "length new \<le> length (variants_of options)"
    "\<forall>a \<in> set new. attempt_grounded h q a"
  shows "run_recorded h q options (finished_state q attempts)"
proof (cases "select_best_attempt attempts")
  case None
  then show ?thesis
    using assms select_best_attempt_None [of attempts]
    by (simp add: run_recorded_def finished_state_def status_from_best_def)
next
  case (Some best)
  note least = select_best_attempt_least [OF Some]
  have exact: "(\<exists>a \<in> set attempts. da_match_exact a = Some True) \<longleftrightarrow> da_match_exact best = Some True"
    using least rank_exact by blast
  let ?s = "finished_state q attempts"
  have history: "fs_attempt_history ?s = attempts" "fs_attempts ?s = blen attempts"
    "fs_best_attempt_id ?s = Some (da_attempt_id best)" "fs_best_match_percent ?s = da_match_similarity_percent best"
    by (simp_all add: finished_state_def Some Let_def)
  have status: "fs_status ?s = ''matched_exact'' \<longleftrightarrow> da_match_exact best = Some True"
    by (simp add: finished_state_def Some status_from_best_def Let_def)
  show ?thesis
    unfolding run_recorded_def history
  proof (intro conjI impI)
    show "\<exists>new. attempts = fs_attempt_history (qf_state q) @ new \<and> length new \<le> length (variants_of options) \<and>
        (\<forall>a \<in> set new. attempt_grounded h q a)"
      using assms by blast
    show "\<exists>best' \<in> set attempts. (\<forall>a \<in> set attempts. rank best' \<le> rank a) \<and>
        Some (da_attempt_id best) = Some (da_attempt_id best') \<and> da_match_similarity_percent best = da_match_similarity_percent best'"
      using least by blast
    show "fs_status ?s = ''matched_exact'' \<longleftrightarrow> (\<exists>a \<in> set attempts. da_match_exact a = Some True)"
      unfolding status exact ..
  qed (rule refl)
qed

lemma run_with_command_recorded:
  assumes "run_with_command h q options command fs = (Inr s, fs')"
    and "made_toolchain (toolchain_host_of h) (ro_toolchain options)"
  shows "run_recorded h q options s"
proof -
  obtain version identity known attempts stopped where
    loop: "run_variants h \<lparr> rf_queued = q, rf_options = options, rf_command = command, rf_version = version,
          rf_identity = identity, rf_known_references = known \<rparr> (variants_of options)
        (fs_attempt_history (qf_state q)) fs = (Inr (attempts, stopped), fs')"
    and s: "s = (if stopped
            then (qf_state q)\<lparr> fs_attempts := blen attempts, fs_status := ''blocked'',
                   fs_last_failure := Some BACKEND_MISSING, fs_attempt_history := attempts \<rparr>
            else finished_state q attempts)"
    using assms(1) by (auto simp: run_with_command_def action_Inr simp del: if_split)
  obtain new where new: "attempts = fs_attempt_history (qf_state q) @ new" "length new \<le> length (variants_of options)"
      "\<forall>a \<in> set new. attempt_grounded h q a"
    using run_variants_grounded [OF loop] assms(2) by auto
  show ?thesis
  proof (cases stopped)
    case True
    with new show ?thesis by (auto simp: s run_recorded_def)
  next
    case False
    with finished_state_recorded [OF new] show ?thesis by (simp add: s)
  qed
qed

lemma run_function_recorded:
  assumes "run_function h q options fs = (Inr s, fs')" "made_toolchain (toolchain_host_of h) (ro_toolchain options)"
  shows "run_recorded h q options s"
proof -
  obtain found where "(case found of
         Inl e \<Rightarrow> returnS ((qf_state q)\<lparr> fs_status := ''blocked'', fs_last_failure := Some (oh_print h (Print_M2c e)) \<rparr>)
       | Inr command \<Rightarrow> run_with_command h q options command) fs = (Inr s, fs')"
    using assms(1) by (auto simp: run_function_def action_Inr)
  then show ?thesis
    using run_with_command_recorded [OF _ assms(2)] by (cases found) (auto simp: run_recorded_def)
qed

lemma variants_bounded: "length (variants_of options) \<le> 2"
proof -
  have "length (py_slice xs i j) \<le> length xs" for xs :: "'x list" and i j
    by (simp add: py_slice_def Let_def)
  from this [of "default_variants (ro_contexts options) (ro_target options)" 0 "ro_max_attempts options"]
  show ?thesis by (simp add: variants_of_def default_variants_def split: if_splits)
qed


definition run_host :: orchestrator_host where
  "run_host =
     \<lparr> mh_environ = (\<lambda>_. None), mh_which = (\<lambda>name. Some (''/bin/'' @ name)), mh_resolve = (\<lambda>p. p),
       mh_is_dir = (\<lambda>_. False), mh_python = ''/bin/python'', mh_temporary = ''/tmp'', mh_writable = (\<lambda>_. True),
       mh_split_words = (\<lambda>s. Some [s]), mh_build = (\<lambda>_ _ fs. (Exited 0, fs)), mh_repr = (\<lambda>s. s),
       mh_differ = (\<lambda>_ _ _ _. (Exited 0, [2])),
       mh_loads = (\<lambda>bs.
         if bs = [1] then Some (JList [JObj [(''name'', JStr ''f''), (''address'', JInt 16), (''size'', JInt 4),
             (''section'', JStr ''.text''), (''assembly'', JStr ''nop''), (''instruction_count'', JInt 1),
             (''instructions'', JList [JObj
               [(''address'', JInt 16), (''word'', JInt 0), (''text'', JStr ''nop''), (''valid'', JBool True),
                (''implemented'', JBool True)]])]])
         else Some (JObj [(''current_score'', JInt 0), (''max_score'', JInt 4), (''rows'', JList [])])),
       mh_dumps = (\<lambda>_. [3]), mh_toml = (\<lambda>_ _. None), dh_m2c = (\<lambda>_ _. Some (0, ''int f;'', [])),
       th_run = (\<lambda>args _ _ fs. ((Exited 0, [], []), fs(last args \<mapsto> [7]))), th_sha256 = (\<lambda>bs. map byte_char bs),
       th_field = (\<lambda>_ _. Inr []), th_alnum = (\<lambda>_. False), oh_print = (\<lambda>_. ''error''), oh_canonical = (\<lambda>_. ''id'') \<rparr>"

definition run_store :: file_store where
  "run_store p = (if p = ''/p/metadata/functions.json'' then Some [1] else if p = ''/bin/cc'' then Some [9] else None)"

definition run_queue :: queued_function where
  "run_queue =
     \<lparr> qf_module = ''a.prx'', qf_project_dir = ''/p'', qf_function = ''f'', qf_address = 16, qf_size = 4,
       qf_instruction_count = 1, qf_state = sample_state \<rparr>"

definition run_request :: run_options where
  "run_request =
     \<lparr> ro_m2c_path = None, ro_contexts = [], ro_target = ''mips'',
       ro_toolchain = projr (external_compiler_toolchain (toolchain_host_of run_host) run_store (Some ''/bin/cc'') [] None),
       ro_asm_differ = None, ro_objdump = None, ro_max_attempts = 2, ro_force = False, ro_timeout = 120 \<rparr>"

definition sample_run :: "(orchestrator_error, function_state) result \<times> file_store" where
  "sample_run = run_function run_host run_queue run_request run_store"


text \<open>
  A function that was matched exactly is blocked by a run that does not find m2c: the state keeps the
  attempt and its percentage, but no longer the status.
\<close>

lemma missing_m2c_discards_exact_match:
  "(case fst (run_function (run_host\<lparr> mh_which := \<lambda>_. None \<rparr>)
        (run_queue\<lparr> qf_state := sample_state\<lparr> fs_status := ''matched_exact'', fs_best_match_percent := Some 100 \<rparr> \<rparr>)
        run_request run_store) of
      Inr s \<Rightarrow> fs_status s = ''blocked'' \<and> fs_best_match_percent s = Some 100 | Inl _ \<Rightarrow> False)"
  by code_simp

text \<open>A function that was built and could not be matched has the status of a failed build.\<close>

lemma match_failure_is_build_failure:
  "status_from_best (Some (sample_attempt\<lparr> da_outcome := ''match_failed'', da_match_exact := None,
     da_match_similarity_percent := None, da_match_raw_score := None \<rparr>)) = ''build_failed''"
  by code_simp

text \<open>
  In a workspace given by a relative path the object is requested at a path relative to the directory
  the tool was started in, from a compiler that runs in the project directory.
\<close>

lemma relative_object_path:
  "candidate_path run_host (plan_for run_host
      \<lparr> rf_queued = run_queue\<lparr> qf_project_dir := ''w/p'' \<rparr>, rf_options = run_request, rf_command = [''m2c''], rf_version = None,
        rf_identity = JNull, rf_known_references = False \<rparr>
      \<lparr> rv_reason = ''default'', rv_contexts = [], rv_target = ''mips'' \<rparr>
      (identity_for \<lparr> rf_queued = run_queue, rf_options = run_request, rf_command = [''m2c''], rf_version = None,
        rf_identity = JNull, rf_known_references = False \<rparr>
        \<lparr> rv_reason = ''default'', rv_contexts = [], rv_target = ''mips'' \<rparr> ''0'' []))
      ''build/nonmatching/'' ''.o'' = ''w/p/build/nonmatching/f.id.o''"
  by code_simp

end
