(* ===== verification/Evidence_Store.thy ===== *)
theory Evidence_Store
  imports Decompilation_Store Runtime_Model
begin

text \<open>
  \<open>runtime/workspace.py\<close>: the runtime evidence of a workspace, kept as JSON files below \<open>runtime\<close>. A text
  that names no member of the enumeration its field holds is \<open>Ill_Typed\<close>, outside the model, as is a
  value that is kept as it is and does not have the type of its field.
\<close>

datatype evidence_error =
    Evidence_Failed store_error
  | Unsafe_Session string
  | Not_An_Address
  | Missing_Address
  | Not_A_Record string

type_synonym stored_observation = "string breakpoint_observation"
type_synonym stored_module = "string runtime_module"
type_synonym stored_reconciliation = "string runtime_reconciliation"

definition failing :: "(store_error, 'a) result \<Rightarrow> (evidence_error, 'a) result" where
  "failing r = map_sum Evidence_Failed id r"

lemma failing_simps [simp]: "failing (Inr x) = Inr x" "failing (Inl e) = Inl (Evidence_Failed e)"
  by (simp_all add: failing_def)

lemma failing_Inr [simp]: "failing r = Inr x \<longleftrightarrow> r = Inr x"
  by (cases r) simp_all

section \<open>Names of the enumerations\<close>

fun domain_text :: "address_domain \<Rightarrow> string" where
  "domain_text Runtime_Domain = ''runtime''"
| "domain_text Analysis_Domain = ''analysis''"
| "domain_text Elf_Virtual_Domain = ''elf_virtual''"
| "domain_text Module_Relative_Domain = ''module_relative''"

fun resolution_text :: "module_resolution \<Rightarrow> string" where
  "resolution_text Hle_Reported = ''hle_reported''"
| "resolution_text User_Provided = ''user_provided''"
| "resolution_text Unresolved_Module = ''unresolved''"

fun status_text :: "evidence_status \<Rightarrow> string" where
  "status_text Unresolved_Evidence = ''unresolved''"
| "status_text Inferred = ''inferred''"
| "status_text Corroborated = ''corroborated''"
| "status_text Runtime_Observed = ''runtime_observed''"
| "status_text Runtime_Verified = ''runtime_verified''"
| "status_text Conflicting = ''conflicting''"

definition domain_of :: "string \<Rightarrow> address_domain option" where
  "domain_of s = find (\<lambda>x. domain_text x = s) [Runtime_Domain, Analysis_Domain, Elf_Virtual_Domain, Module_Relative_Domain]"

definition resolution_of :: "string \<Rightarrow> module_resolution option" where
  "resolution_of s = find (\<lambda>x. resolution_text x = s) [Hle_Reported, User_Provided, Unresolved_Module]"

definition status_of :: "string \<Rightarrow> evidence_status option" where
  "status_of s = find (\<lambda>x. status_text x = s)
     [Unresolved_Evidence, Inferred, Corroborated, Runtime_Observed, Runtime_Verified, Conflicting]"

lemma names_inverse [simp]:
  "domain_of (domain_text x) = Some x" "resolution_of (resolution_text r) = Some r" "status_of (status_text t) = Some t"
  by (cases x; cases r; cases t; simp add: domain_of_def resolution_of_def status_of_def)+

section \<open>Values of an evidence file\<close>

definition needed :: "(string \<times> json) list \<Rightarrow> string \<Rightarrow> (store_error, json) result" where
  "needed d key = json_key (State_Missing_Key key) d key"

definition needed_int :: "(string \<times> json) list \<Rightarrow> string \<Rightarrow> (evidence_error, int) result" where
  "needed_int d key = failing (bindE (needed d key) (int_of key))"

definition needed_text :: "(string \<times> json) list \<Rightarrow> string \<Rightarrow> (evidence_error, string) result" where
  "needed_text d key = failing (required d key)"

text \<open>\<open>_address_from_dict\<close>: a null is no address.\<close>

definition address_of_json :: "json \<Rightarrow> (evidence_error, runtime_address option) result" where
  "address_of_json payload =
     (case payload of
        JNull \<Rightarrow> Inr None
      | JObj d \<Rightarrow>
          (case (json_str (json_get d ''domain''), json_int (json_get d ''value'')) of
             (Some where_in, Some value) \<Rightarrow>
               failing (bindE (from_option (Ill_Typed ''domain'') (domain_of where_in)) (\<lambda>x.
                 Inr (Some \<lparr> ra_domain = x, ra_value = value, ra_module_path = json_str (json_get d ''module_path'') \<rparr>)))
           | _ \<Rightarrow> Inl Not_An_Address)
      | _ \<Rightarrow> Inl Not_An_Address)"

definition required_address :: "json \<Rightarrow> (evidence_error, runtime_address) result" where
  "required_address payload = bindE (address_of_json payload) (from_option Missing_Address)"

definition needed_address :: "(string \<times> json) list \<Rightarrow> string \<Rightarrow> (evidence_error, runtime_address) result" where
  "needed_address d key = bindE (failing (needed d key)) required_address"

definition module_of_json :: "json \<Rightarrow> (evidence_error, stored_module) result" where
  "module_of_json payload =
     bindE (from_option (Not_A_Record ''RuntimeModule'') (json_obj payload)) (\<lambda>d.
     bindE (failing (optional_str ''name'' (json_get d ''name''))) (\<lambda>name.
     bindE (needed_address d ''runtime_base'') (\<lambda>base.
     bindE (failing (optional_int ''runtime_size'' (json_get d ''runtime_size''))) (\<lambda>sz.
     bindE (failing (optional_str ''static_module_path'' (json_get d ''static_module_path''))) (\<lambda>path.
     bindE (needed_text d ''resolution_status'') (\<lambda>status.
     bindE (failing (text_list d ''evidence'')) (\<lambda>evidence.
     bindE (failing (from_option (Ill_Typed ''resolution_status'') (resolution_of status))) (\<lambda>resolution.
     Inr \<lparr> rt_name = name, rt_base = base, rt_size = sz, rt_static_path = path, rt_resolution = resolution,
           rt_evidence = evidence \<rparr>))))))))"

text \<open>\<open>dict(payload.get("registers", {}))\<close> with the register values it is declared with.\<close>

definition register_values :: "(string \<times> json) list \<Rightarrow> (store_error, (string \<times> int) list) result" where
  "register_values d =
     (case map_of d ''registers'' of
        None \<Rightarrow> Inr []
      | Some (JObj e) \<Rightarrow> mapE (\<lambda>(k, x). map_sum id (Pair k) (from_option (Ill_Typed ''registers'') (strict_int x))) e
      | Some JNull \<Rightarrow> Inl (State_Value_Crash ''registers'')
      | Some _ \<Rightarrow> Inl (Ill_Typed ''registers''))"

definition registers_of_json :: "json \<Rightarrow> (evidence_error, register_snapshot option) result" where
  "registers_of_json payload =
     (if payload = JNull then Inr None
      else bindE (from_option (Not_A_Record ''RuntimeRegisterSnapshot'') (json_obj payload)) (\<lambda>d.
        bindE (needed_text d ''session_id'') (\<lambda>session.
        bindE (needed_int d ''sequence'') (\<lambda>seq.
        bindE (failing (register_values d)) (\<lambda>registers.
        Inr (Some \<lparr> rg_session_id = session, rg_sequence = seq, rg_registers = registers \<rparr>))))))"

definition memory_of_json :: "json \<Rightarrow> (evidence_error, memory_observation) result" where
  "memory_of_json payload =
     bindE (from_option (Not_A_Record ''RuntimeMemoryObservation'') (json_obj payload)) (\<lambda>d.
     bindE (needed_text d ''session_id'') (\<lambda>session.
     bindE (needed_int d ''sequence'') (\<lambda>seq.
     bindE (needed_address d ''address'') (\<lambda>address.
     bindE (needed_int d ''size'') (\<lambda>sz.
     bindE (needed_text d ''sha256'') (\<lambda>sha.
     Inr \<lparr> mo_session_id = session, mo_sequence = seq, mo_address = address, mo_size = sz, mo_sha256 = sha \<rparr>))))))"

definition backtrace_of_json :: "json \<Rightarrow> (evidence_error, backtrace_record option) result" where
  "backtrace_of_json payload =
     (if payload = JNull then Inr None
      else bindE (from_option (Not_A_Record ''RuntimeBacktrace'') (json_obj payload)) (\<lambda>d.
        bindE (needed_text d ''session_id'') (\<lambda>session.
        bindE (needed_int d ''sequence'') (\<lambda>seq.
        bindE (failing (list_items d ''frames'')) (\<lambda>items.
        bindE (mapE required_address items) (\<lambda>frames.
        Inr (Some \<lparr> bt_session_id = session, bt_sequence = seq, bt_frames = frames \<rparr>)))))))"

definition observation_of_json :: "json \<Rightarrow> (evidence_error, stored_observation) result" where
  "observation_of_json payload =
     bindE (from_option (Not_A_Record ''RuntimeBreakpointObservation'') (json_obj payload)) (\<lambda>d.
     bindE (needed_text d ''session_id'') (\<lambda>session.
     bindE (needed_int d ''sequence'') (\<lambda>seq.
     bindE (needed_address d ''breakpoint_address'') (\<lambda>address.
     bindE (needed_int d ''hit_count'') (\<lambda>hits.
     bindE (registers_of_json (json_get d ''registers'')) (\<lambda>registers.
     bindE (failing (list_items d ''memory'')) (\<lambda>items.
     bindE (mapE memory_of_json items) (\<lambda>memory.
     bindE (backtrace_of_json (json_get d ''backtrace'')) (\<lambda>backtrace.
     bindE (failing (text_list d ''warnings'')) (\<lambda>warnings.
     Inr \<lparr> bo_session_id = session, bo_sequence = seq, bo_address = address, bo_hit_count = hits,
           bo_registers = registers, bo_memory = memory, bo_backtrace = backtrace, bo_warnings = warnings \<rparr>))))))))))"

definition reconciliation_of_json :: "json \<Rightarrow> (evidence_error, stored_reconciliation) result" where
  "reconciliation_of_json payload =
     bindE (from_option (Not_A_Record ''RuntimeReconciliation'') (json_obj payload)) (\<lambda>d.
     bindE (needed_text d ''static_kind'') (\<lambda>kind.
     bindE (address_of_json (json_get d ''static_address'')) (\<lambda>static_address.
     bindE (failing (text_list d ''static_evidence'')) (\<lambda>evidence.
     bindE (needed_address d ''runtime_address'') (\<lambda>address.
     bindE (address_of_json (json_get d ''resolved_module_offset'')) (\<lambda>offset.
     bindE (needed_int d ''observation_count'') (\<lambda>count.
     bindE (needed_text d ''status'') (\<lambda>status.
     bindE (failing (text_list d ''conflicts'')) (\<lambda>conflicts.
     bindE (failing (from_option (Ill_Typed ''status'') (status_of status))) (\<lambda>s.
     Inr \<lparr> rr_static_kind = kind, rr_static_address = static_address, rr_static_evidence = evidence,
           rr_runtime_address = address, rr_module_offset = offset, rr_observation_count = count,
           rr_status = s, rr_conflicts = conflicts \<rparr>))))))))))"

definition session_of_json :: "json \<Rightarrow> (evidence_error, session_info) result" where
  "session_of_json payload =
     bindE (from_option (Not_A_Record ''RuntimeSessionInfo'') (json_obj payload)) (\<lambda>d.
     bindE (needed_text d ''session_id'') (\<lambda>session.
     bindE (needed_text d ''host'') (\<lambda>host.
     bindE (needed_int d ''port'') (\<lambda>port.
     bindE (failing (optional_str ''ppsspp_revision'' (json_get d ''ppsspp_revision''))) (\<lambda>revision.
     bindE (failing (optional_str ''workspace_source_identity'' (json_get d ''workspace_source_identity''))) (\<lambda>identity.
     Inr \<lparr> si_session_id = session, si_host = host, si_port = port, si_revision = revision,
           si_source_identity = identity \<rparr>))))))"

section \<open>The records as they are written\<close>

text \<open>\<open>asdict\<close>.\<close>

definition address_json :: "runtime_address \<Rightarrow> json" where
  "address_json a =
     JObj [(''domain'', JStr (domain_text (ra_domain a))), (''value'', JInt (ra_value a)),
       (''module_path'', json_of_option JStr (ra_module_path a))]"

definition module_json :: "stored_module \<Rightarrow> json" where
  "module_json m =
     JObj [(''name'', json_of_option JStr (rt_name m)), (''runtime_base'', address_json (rt_base m)),
       (''runtime_size'', json_of_option JInt (rt_size m)),
       (''static_module_path'', json_of_option JStr (rt_static_path m)),
       (''resolution_status'', JStr (resolution_text (rt_resolution m))), (''evidence'', text_json (rt_evidence m))]"

definition registers_json :: "register_snapshot \<Rightarrow> json" where
  "registers_json r =
     JObj [(''session_id'', JStr (rg_session_id r)), (''sequence'', JInt (rg_sequence r)),
       (''registers'', JObj (map (\<lambda>(k, v). (k, JInt v)) (rg_registers r)))]"

definition memory_json :: "memory_observation \<Rightarrow> json" where
  "memory_json m =
     JObj [(''session_id'', JStr (mo_session_id m)), (''sequence'', JInt (mo_sequence m)),
       (''address'', address_json (mo_address m)), (''size'', JInt (mo_size m)), (''sha256'', JStr (mo_sha256 m))]"

definition backtrace_json :: "backtrace_record \<Rightarrow> json" where
  "backtrace_json b =
     JObj [(''session_id'', JStr (bt_session_id b)), (''sequence'', JInt (bt_sequence b)),
       (''frames'', JList (map address_json (bt_frames b)))]"

definition observation_json :: "stored_observation \<Rightarrow> json" where
  "observation_json b =
     JObj [(''session_id'', JStr (bo_session_id b)), (''sequence'', JInt (bo_sequence b)),
       (''breakpoint_address'', address_json (bo_address b)), (''hit_count'', JInt (bo_hit_count b)),
       (''registers'', json_of_option registers_json (bo_registers b)), (''memory'', JList (map memory_json (bo_memory b))),
       (''backtrace'', json_of_option backtrace_json (bo_backtrace b)), (''warnings'', text_json (bo_warnings b))]"

definition reconciliation_json :: "stored_reconciliation \<Rightarrow> json" where
  "reconciliation_json r =
     JObj [(''static_kind'', JStr (rr_static_kind r)), (''static_address'', json_of_option address_json (rr_static_address r)),
       (''static_evidence'', text_json (rr_static_evidence r)), (''runtime_address'', address_json (rr_runtime_address r)),
       (''resolved_module_offset'', json_of_option address_json (rr_module_offset r)),
       (''observation_count'', JInt (rr_observation_count r)), (''status'', JStr (status_text (rr_status r))),
       (''conflicts'', text_json (rr_conflicts r))]"

definition session_json :: "session_info \<Rightarrow> json" where
  "session_json s =
     JObj [(''session_id'', JStr (si_session_id s)), (''host'', JStr (si_host s)), (''port'', JInt (si_port s)),
       (''ppsspp_revision'', json_of_option JStr (si_revision s)),
       (''workspace_source_identity'', json_of_option JStr (si_source_identity s))]"

section \<open>Evidence files\<close>

definition RUNTIME_SCHEMA_VERSION :: int where "RUNTIME_SCHEMA_VERSION = 1"

definition runtime_root :: "toolchain_host \<Rightarrow> string \<Rightarrow> string" where
  "runtime_root h workspace = path_join (mh_resolve h workspace) ''runtime''"

definition runtime_path :: "toolchain_host \<Rightarrow> string \<Rightarrow> string \<Rightarrow> string" where
  "runtime_path h workspace name = path_join (runtime_root h workspace) name"

definition runtime_schema_supported :: "json \<Rightarrow> bool" where
  "runtime_schema_supported j =
     (case j of JObj d \<Rightarrow> json_equals_int (json_get d ''schema_version'') RUNTIME_SCHEMA_VERSION | _ \<Rightarrow> False)"

definition validate_runtime_schema :: "toolchain_host \<Rightarrow> file_store \<Rightarrow> string \<Rightarrow> (evidence_error, unit) result" where
  "validate_runtime_schema h fs workspace =
     (let path = runtime_path h workspace ''schema_version.json'' in
      if fs path = None then Inr ()
      else failing (bindE (load_json h fs path) (\<lambda>j. ensure (runtime_schema_supported j) Unsupported_Schema)))"

definition write_evidence :: "toolchain_host \<Rightarrow> string \<Rightarrow> json \<Rightarrow> (file_store, evidence_error, unit) action" where
  "write_evidence h path j = convertS Evidence_Failed (write_state_json h path j)"

definition ensure_runtime_schema :: "toolchain_host \<Rightarrow> string \<Rightarrow> (file_store, evidence_error, unit) action" where
  "ensure_runtime_schema h workspace fs =
     (let path = runtime_path h workspace ''schema_version.json'' in
      if fs path \<noteq> None then (validate_runtime_schema h fs workspace, fs)
      else write_evidence h path (JObj [(''schema_version'', JInt RUNTIME_SCHEMA_VERSION)]) fs)"

definition safe_session_id :: "string \<Rightarrow> (evidence_error, string) result" where
  "safe_session_id s =
     (if s = [] \<or> CHR ''/'' \<in> set s \<or> CHR 0x5C \<in> set s \<or> s = ''.'' \<or> s = ''..'' then Inl (Unsafe_Session s) else Inr s)"

text \<open>A schema check, the path, then the file.\<close>

definition save_evidence :: "toolchain_host \<Rightarrow> string \<Rightarrow> (evidence_error, string) result \<Rightarrow> json \<Rightarrow> (file_store, evidence_error, string) action" where
  "save_evidence h workspace name j =
     thenS (ensure_runtime_schema h workspace)
       (bindS (liftS name) (\<lambda>n. let path = runtime_path h workspace n in thenS (write_evidence h path j) (returnS path)))"

definition session_name :: "string \<Rightarrow> string" where
  "session_name s = ''sessions/'' @ s @ ''.json''"

definition save_session_info :: "toolchain_host \<Rightarrow> string \<Rightarrow> session_info \<Rightarrow> (file_store, evidence_error, string) action" where
  "save_session_info h workspace info =
     save_evidence h workspace
       (map_sum id session_name (safe_session_id (si_session_id info))) (session_json info)"

definition load_session_info :: "toolchain_host \<Rightarrow> file_store \<Rightarrow> string \<Rightarrow> string \<Rightarrow> (evidence_error, session_info) result" where
  "load_session_info h fs workspace session_id =
     bindE (validate_runtime_schema h fs workspace) (\<lambda>_.
     bindE (safe_session_id session_id) (\<lambda>s.
     bindE (failing (load_json h fs (runtime_path h workspace (session_name s)))) session_of_json))"

definition observations_name :: "string \<Rightarrow> string" where
  "observations_name s = ''evidence/'' @ s @ ''/observations.json''"

definition save_observations ::
    "toolchain_host \<Rightarrow> string \<Rightarrow> string \<Rightarrow> stored_observation list \<Rightarrow> (file_store, evidence_error, string) action" where
  "save_observations h workspace session_id observations =
     save_evidence h workspace (map_sum id observations_name (safe_session_id session_id))
       (JList (map observation_json observations))"

definition load_records :: "string \<Rightarrow> (json \<Rightarrow> (evidence_error, 'a) result) \<Rightarrow> json \<Rightarrow> (evidence_error, 'a list) result" where
  "load_records what decode j = bindE (from_option (Not_A_Record what) (json_list j)) (mapE decode)"

definition load_observations :: "toolchain_host \<Rightarrow> file_store \<Rightarrow> string \<Rightarrow> string \<Rightarrow> (evidence_error, stored_observation list) result" where
  "load_observations h fs workspace session_id =
     bindE (validate_runtime_schema h fs workspace) (\<lambda>_.
     bindE (safe_session_id session_id) (\<lambda>s.
     bindE (failing (load_json h fs (runtime_path h workspace (observations_name s))))
       (load_records ''runtime observations'' observation_of_json)))"

definition save_module_map :: "toolchain_host \<Rightarrow> string \<Rightarrow> stored_module list \<Rightarrow> (file_store, evidence_error, string) action" where
  "save_module_map h workspace modules =
     save_evidence h workspace (Inr ''modules.json'') (JList (map module_json modules))"

text \<open>A list of records that may be missing, and is empty then.\<close>

definition load_optional ::
    "toolchain_host \<Rightarrow> file_store \<Rightarrow> string \<Rightarrow> string \<Rightarrow> string \<Rightarrow> (json \<Rightarrow> (evidence_error, 'a) result) \<Rightarrow>
       (evidence_error, 'a list) result" where
  "load_optional h fs workspace name what decode =
     bindE (validate_runtime_schema h fs workspace) (\<lambda>_.
     let path = runtime_path h workspace name in
     if fs path = None then Inr [] else bindE (failing (load_json h fs path)) (load_records what decode))"

definition load_module_map :: "toolchain_host \<Rightarrow> file_store \<Rightarrow> string \<Rightarrow> (evidence_error, stored_module list) result" where
  "load_module_map h fs workspace = load_optional h fs workspace ''modules.json'' ''runtime module map'' module_of_json"

definition save_reconciliation ::
    "toolchain_host \<Rightarrow> string \<Rightarrow> stored_reconciliation list \<Rightarrow> (file_store, evidence_error, string) action" where
  "save_reconciliation h workspace reconciliations =
     save_evidence h workspace (Inr ''reconciliation.json'') (JList (map reconciliation_json reconciliations))"

definition load_reconciliation :: "toolchain_host \<Rightarrow> file_store \<Rightarrow> string \<Rightarrow> (evidence_error, stored_reconciliation list) result" where
  "load_reconciliation h fs workspace =
     load_optional h fs workspace ''reconciliation.json'' ''runtime reconciliation evidence'' reconciliation_of_json"

record evidence_set =
  es_session :: session_info
  es_modules :: "stored_module list"
  es_observations :: "stored_observation list"

definition save_evidence_set :: "toolchain_host \<Rightarrow> string \<Rightarrow> evidence_set \<Rightarrow> (file_store, evidence_error, unit) action" where
  "save_evidence_set h workspace e =
     thenS (save_session_info h workspace (es_session e))
       (thenS (save_observations h workspace (si_session_id (es_session e)) (es_observations e))
         (thenS (save_module_map h workspace (es_modules e)) (returnS ())))"

text \<open>The stems of the session files, whose names the directory gives.\<close>

definition list_sessions :: "string list \<Rightarrow> string list" where
  "list_sessions names = sort (map path_stem (filter (\<lambda>n. drop (length n - 5) n = ''.json'') names))"


section \<open>Saved evidence is the evidence that is loaded\<close>

named_theorems evidence_fields \<open>reading the fields of a record\<close>

lemmas [evidence_fields] = needed_def needed_text_def needed_int_def needed_address_def required_def required_address_def
  json_key_def from_option_def json_get_def

lemma sorted_decode:
  assumes "\<And>e. (\<And>k. map_of e k = map_option sort_json (map_of d k)) \<Longrightarrow> decode (JObj e) = r"
  shows "decode (sort_json (JObj d)) = r"
proof -
  obtain e where "sort_json (JObj d) = JObj e" "\<forall>k. map_of e k = map_option sort_json (map_of d k)"
    by (rule sorted_object [of d])
  with assms [of e] show ?thesis by simp
qed

lemma mapE_sorted:
  assumes "\<And>x. x \<in> set xs \<Longrightarrow> decode (sort_json (encode x)) = Inr (f x)"
  shows "mapE decode (map (sort_json \<circ> encode) xs) = Inr (map f xs)"
  using assms by (induction xs) simp_all

lemma sort_json_option [simp]: "sort_json (json_of_option f x) = json_of_option (sort_json \<circ> f) x"
  by (cases x) simp_all

lemma sort_json_scalars [simp]: "sort_json \<circ> JStr = JStr" "sort_json \<circ> JInt = JInt"
  by (simp_all add: fun_eq_iff)

lemma list_items_sorted:
  "map_of d key = Some (JList (map (sort_json \<circ> encode) xs)) \<Longrightarrow> list_items d key = Inr (map (sort_json \<circ> encode) xs)"
  by (simp add: list_items_def)

lemma address_round_trip [simp]: "address_of_json (sort_json (address_json a)) = Inr (Some a)"
  unfolding address_json_def
  by (rule sorted_decode) (simp add: address_of_json_def evidence_fields del: sort_json.simps(2), cases "ra_module_path a"; simp)

lemma optional_address_round_trip [simp]:
  "address_of_json (json_of_option (sort_json \<circ> address_json) x) = Inr x"
proof (cases x)
  case None
  then show ?thesis by (simp add: address_of_json_def)
qed simp

lemma required_round_trip [simp]: "required_address (sort_json (address_json a)) = Inr a"
  by (simp add: required_address_def from_option_def)

lemma module_round_trip: "module_of_json (sort_json (module_json m)) = Inr m"
  unfolding module_json_def
  by (rule sorted_decode) (simp add: module_of_json_def evidence_fields text_list_text_json del: sort_json.simps(2))

text \<open>An observation with its registers in sorted order, which is the same observation for the program.\<close>

definition sorted_registers :: "register_snapshot \<Rightarrow> register_snapshot" where
  "sorted_registers r = r\<lparr> rg_registers := sort_key fst (rg_registers r) \<rparr>"

definition sorted_observation :: "stored_observation \<Rightarrow> stored_observation" where
  "sorted_observation b = b\<lparr> bo_registers := map_option sorted_registers (bo_registers b) \<rparr>"

lemma sort_json_int_entries [simp]:
  "sort_json (JObj (map (\<lambda>(k, v). (k, JInt v)) d)) = JObj (map (\<lambda>(k, v). (k, JInt v)) (sort_key fst d))"
  by (simp add: o_def case_prod_unfold sort_key_map_entries [of JInt, unfolded case_prod_unfold])

lemma register_values_entries:
  "map_of d ''registers'' = Some (JObj (map (\<lambda>(k, v). (k, JInt v)) e)) \<Longrightarrow> register_values d = Inr e"
proof -
  assume "map_of d ''registers'' = Some (JObj (map (\<lambda>(k, v). (k, JInt v)) e))"
  moreover have "mapE (\<lambda>(k, x). map_sum id (Pair k) (from_option (Ill_Typed ''registers'') (strict_int x)))
      (map (\<lambda>(k, v). (k, JInt v)) e) = Inr e"
    by (induction e) (auto simp: from_option_def)
  ultimately show ?thesis by (simp add: register_values_def)
qed

lemma registers_round_trip: "registers_of_json (sort_json (registers_json r)) = Inr (Some (sorted_registers r))"
  unfolding registers_json_def
  by (rule sorted_decode)
    (simp add: registers_of_json_def evidence_fields register_values_entries sorted_registers_def del: sort_json.simps(2))

lemma memory_round_trip: "memory_of_json (sort_json (memory_json m)) = Inr m"
  unfolding memory_json_def
  by (rule sorted_decode) (simp add: memory_of_json_def evidence_fields del: sort_json.simps(2))

lemma backtrace_round_trip: "backtrace_of_json (sort_json (backtrace_json b)) = Inr (Some b)"
proof -
  have frames: "mapE required_address (map (sort_json \<circ> address_json) fs) = Inr fs" for fs
    using mapE_sorted [of fs required_address address_json id] by simp
  show ?thesis
    unfolding backtrace_json_def
    by (rule sorted_decode)
      (simp add: backtrace_of_json_def evidence_fields list_items_sorted frames del: sort_json.simps(2))
qed

lemma optional_registers_round_trip:
  "registers_of_json (json_of_option (sort_json \<circ> registers_json) x) = Inr (map_option sorted_registers x)"
proof (cases x)
  case None
  then show ?thesis by (simp add: registers_of_json_def)
qed (simp add: registers_round_trip)

lemma optional_backtrace_round_trip: "backtrace_of_json (json_of_option (sort_json \<circ> backtrace_json) x) = Inr x"
proof (cases x)
  case None
  then show ?thesis by (simp add: backtrace_of_json_def)
qed (simp add: backtrace_round_trip)

lemma observation_round_trip: "observation_of_json (sort_json (observation_json b)) = Inr (sorted_observation b)"
proof -
  have memory: "mapE memory_of_json (map (sort_json \<circ> memory_json) ms) = Inr ms" for ms
    using mapE_sorted [of ms memory_of_json memory_json id] by (simp add: memory_round_trip)
  show ?thesis
    unfolding observation_json_def
    by (rule sorted_decode)
      (simp add: observation_of_json_def evidence_fields list_items_sorted memory text_list_text_json
        optional_registers_round_trip optional_backtrace_round_trip sorted_observation_def del: sort_json.simps(2))
qed

lemma reconciliation_round_trip: "reconciliation_of_json (sort_json (reconciliation_json r)) = Inr r"
  unfolding reconciliation_json_def
  by (rule sorted_decode)
    (simp add: reconciliation_of_json_def evidence_fields text_list_text_json del: sort_json.simps(2))

lemma session_round_trip: "session_of_json (sort_json (session_json s)) = Inr s"
  unfolding session_json_def
  by (rule sorted_decode) (simp add: session_of_json_def evidence_fields del: sort_json.simps(2))

lemma load_records_sorted:
  assumes "\<And>x. decode (sort_json (encode x)) = Inr (f x)"
  shows "load_records what decode (sort_json (JList (map encode xs))) = Inr (map f xs)"
  using mapE_sorted [of xs decode encode f] assms by (simp add: load_records_def from_option_def)

text \<open>The names the store uses are relative, so different names are different files.\<close>

lemma runtime_path_eq:
  assumes "\<not> path_absolute a" "\<not> path_absolute b"
  shows "runtime_path h workspace a = runtime_path h workspace b \<longleftrightarrow> a = b"
  using assms by (auto simp: runtime_path_def path_join_def)

lemma names_relative [simp]:
  "\<not> path_absolute ''schema_version.json''" "\<not> path_absolute ''modules.json''" "\<not> path_absolute ''reconciliation.json''"
  "\<not> path_absolute (session_name s)" "\<not> path_absolute (observations_name s)"
  by (simp_all add: path_absolute_def observations_name_def session_name_def)

definition schema_document :: json where
  "schema_document = JObj [(''schema_version'', JInt RUNTIME_SCHEMA_VERSION)]"

definition runtime_codec :: "toolchain_host \<Rightarrow> json \<Rightarrow> bool" where
  "runtime_codec h j \<longleftrightarrow> codec_ok (mh_loads h) (mh_dumps h) j \<and> codec_ok (mh_loads h) (mh_dumps h) schema_document"

text \<open>A file that was written and the schema beside it, through the writes of other files.\<close>

definition evidence_at :: "toolchain_host \<Rightarrow> string \<Rightarrow> string \<Rightarrow> json \<Rightarrow> file_store \<Rightarrow> bool" where
  "evidence_at h workspace name j fs \<longleftrightarrow>
     fs (runtime_path h workspace name) = Some (mh_dumps h j @ [0x0A]) \<and> validate_runtime_schema h fs workspace = Inr ()"

lemma validate_runtime_schema_cong:
  assumes "fs (runtime_path h workspace ''schema_version.json'') = fs' (runtime_path h workspace ''schema_version.json'')"
  shows "validate_runtime_schema h fs workspace = validate_runtime_schema h fs' workspace"
  using assms by (simp add: validate_runtime_schema_def load_json_def read_json_def Let_def)

lemma ensure_runtime_schema_cases:
  assumes "ensure_runtime_schema h workspace fs = (Inr (), fs1)"
  obtains "fs1 = fs" "validate_runtime_schema h fs workspace = Inr ()"
  | "fs (runtime_path h workspace ''schema_version.json'') = None"
    "fs1 = fs(runtime_path h workspace ''schema_version.json'' \<mapsto> mh_dumps h schema_document @ [0x0A])"
  using assms
  by (cases "fs (runtime_path h workspace ''schema_version.json'')")
    (auto simp: ensure_runtime_schema_def write_evidence_def convertS_def write_state_json_def schema_document_def Let_def
      split: if_splits)

lemma ensured_schema_valid:
  assumes "ensure_runtime_schema h workspace fs = (Inr (), fs1)" "codec_ok (mh_loads h) (mh_dumps h) schema_document"
  shows "validate_runtime_schema h fs1 workspace = Inr ()"
  using assms(1)
proof (cases rule: ensure_runtime_schema_cases)
  case 2
  with assms(2) show ?thesis
    by (simp add: validate_runtime_schema_def load_json_def read_json_def codec_ok_def schema_document_def
      runtime_schema_supported_def json_get_def RUNTIME_SCHEMA_VERSION_def bindE_def)
qed simp

lemma ensured_schema_frame:
  assumes "ensure_runtime_schema h workspace fs = (Inr (), fs1)" "\<not> path_absolute m" "m \<noteq> ''schema_version.json''"
  shows "fs1 (runtime_path h workspace m) = fs (runtime_path h workspace m)"
  using assms(1)
proof (cases rule: ensure_runtime_schema_cases)
  case 2
  then show ?thesis using assms(2,3) by (simp add: runtime_path_eq)
qed simp

lemma save_evidence_effect:
  assumes "save_evidence h workspace name j fs = (Inr path, fs')"
  obtains n fs1 where "name = Inr n" "path = runtime_path h workspace n" "ensure_runtime_schema h workspace fs = (Inr (), fs1)"
    "fs' = fs1(path \<mapsto> mh_dumps h j @ [0x0A])"
  using assms
  by (auto simp: save_evidence_def action_Inr write_evidence_def convertS_def write_state_json_def Let_def
      split: if_splits)

lemma saved_evidence_at:
  assumes "save_evidence h workspace (Inr n) j fs = (Inr path, fs')" "runtime_codec h j"
    and "\<not> path_absolute n" "n \<noteq> ''schema_version.json''"
  shows "evidence_at h workspace n j fs'"
proof -
  obtain fs1 where fs1: "ensure_runtime_schema h workspace fs = (Inr (), fs1)"
    and fs': "fs' = fs1(runtime_path h workspace n \<mapsto> mh_dumps h j @ [0x0A])"
    using assms(1) by (auto elim!: save_evidence_effect)
  have "validate_runtime_schema h fs1 workspace = Inr ()"
    using ensured_schema_valid [OF fs1] assms(2) by (simp add: runtime_codec_def)
  moreover have "validate_runtime_schema h fs' workspace = validate_runtime_schema h fs1 workspace"
    using assms(3,4) by (intro validate_runtime_schema_cong) (simp add: fs' runtime_path_eq)
  ultimately show ?thesis by (simp add: evidence_at_def fs')
qed

lemma saved_evidence_keeps:
  assumes "save_evidence h workspace (Inr n) j fs = (Inr path, fs')" "evidence_at h workspace m k fs" "runtime_codec h j"
    and "\<not> path_absolute n" "n \<noteq> ''schema_version.json''" "\<not> path_absolute m" "m \<noteq> ''schema_version.json''" "m \<noteq> n"
  shows "evidence_at h workspace m k fs'"
proof -
  obtain fs1 where fs1: "ensure_runtime_schema h workspace fs = (Inr (), fs1)"
    and fs': "fs' = fs1(runtime_path h workspace n \<mapsto> mh_dumps h j @ [0x0A])"
    using assms(1) by (auto elim!: save_evidence_effect)
  have "fs' (runtime_path h workspace m) = fs (runtime_path h workspace m)"
    using ensured_schema_frame [OF fs1 assms(6,7)] assms(4,6,8) by (simp add: fs' runtime_path_eq)
  moreover have "validate_runtime_schema h fs' workspace = Inr ()"
    using saved_evidence_at [OF assms(1,3,4,5)] by (simp add: evidence_at_def)
  ultimately show ?thesis using assms(2) by (simp add: evidence_at_def)
qed

lemma evidence_at_loads:
  assumes "evidence_at h workspace n j fs" "runtime_codec h j"
  shows "load_json h fs (runtime_path h workspace n) = Inr (sort_json j)"
  using assms by (simp add: evidence_at_def load_json_def read_json_def runtime_codec_def codec_ok_def)

text \<open>The documents of an evidence set, and that the codec reads back what it writes of them.\<close>

definition evidence_codec :: "toolchain_host \<Rightarrow> evidence_set \<Rightarrow> bool" where
  "evidence_codec h e \<longleftrightarrow>
     runtime_codec h (session_json (es_session e)) \<and>
     runtime_codec h (JList (map observation_json (es_observations e))) \<and>
     runtime_codec h (JList (map module_json (es_modules e)))"

lemma safe_session_id_Inr [simp]:
  "safe_session_id s = Inr t \<longleftrightarrow>
     t = s \<and> \<not> (s = [] \<or> CHR ''/'' \<in> set s \<or> CHR 0x5C \<in> set s \<or> s = ''.'' \<or> s = ''..'')"
  by (auto simp: safe_session_id_def)

lemma evidence_names_differ [simp]:
  "session_name s \<noteq> ''schema_version.json''" "observations_name s \<noteq> ''schema_version.json''"
  "session_name s \<noteq> observations_name t" "session_name s \<noteq> ''modules.json''" "observations_name t \<noteq> ''modules.json''"
  by (simp_all add: observations_name_def session_name_def)

lemma saved_evidence_loads:
  assumes "save_evidence_set h workspace e fs = (Inr (), fs')" "evidence_codec h e"
  shows "load_session_info h fs' workspace (si_session_id (es_session e)) = Inr (es_session e) \<and>
     load_observations h fs' workspace (si_session_id (es_session e)) = Inr (map sorted_observation (es_observations e)) \<and>
     load_module_map h fs' workspace = Inr (es_modules e)"
proof -
  let ?s = "si_session_id (es_session e)"
  let ?js = "session_json (es_session e)" and ?jo = "JList (map observation_json (es_observations e))"
    and ?jm = "JList (map module_json (es_modules e))"
  obtain p1 fs1 p2 fs2 p3 where
    s1: "save_session_info h workspace (es_session e) fs = (Inr p1, fs1)" and
    s2: "save_observations h workspace ?s (es_observations e) fs1 = (Inr p2, fs2)" and
    s3: "save_module_map h workspace (es_modules e) fs2 = (Inr p3, fs')"
    using assms(1) by (auto simp: save_evidence_set_def action_Inr)
  have safe: "safe_session_id ?s = Inr ?s"
  proof (cases "safe_session_id ?s")
    case (Inl err)
    with s1 show ?thesis by (auto simp: save_session_info_def elim!: save_evidence_effect)
  qed simp
  have e1: "save_evidence h workspace (Inr (session_name ?s)) ?js fs = (Inr p1, fs1)"
    using s1 safe by (simp add: save_session_info_def)
  have e2: "save_evidence h workspace (Inr (observations_name ?s)) ?jo fs1 = (Inr p2, fs2)"
    using s2 safe by (simp add: save_observations_def)
  have e3: "save_evidence h workspace (Inr ''modules.json'') ?jm fs2 = (Inr p3, fs')"
    using s3 by (simp add: save_module_map_def)
  have codecs: "runtime_codec h ?js" "runtime_codec h ?jo" "runtime_codec h ?jm"
    using assms(2) by (simp_all add: evidence_codec_def)
  have "evidence_at h workspace (session_name ?s) ?js fs1"
    using saved_evidence_at [OF e1 codecs(1)] by simp
  then have "evidence_at h workspace (session_name ?s) ?js fs2"
    using saved_evidence_keeps [OF e2 _ codecs(2)] by simp
  then have session: "evidence_at h workspace (session_name ?s) ?js fs'"
    using saved_evidence_keeps [OF e3 _ codecs(3)] by simp
  have "evidence_at h workspace (observations_name ?s) ?jo fs2"
    using saved_evidence_at [OF e2 codecs(2)] by simp
  then have observations: "evidence_at h workspace (observations_name ?s) ?jo fs'"
    using saved_evidence_keeps [OF e3 _ codecs(3)] by simp
  have modules: "evidence_at h workspace ''modules.json'' ?jm fs'"
    using saved_evidence_at [OF e3 codecs(3)] by simp
  have valid: "validate_runtime_schema h fs' workspace = Inr ()" using modules by (simp add: evidence_at_def)
  have "load_session_info h fs' workspace ?s = Inr (es_session e)"
    using evidence_at_loads [OF session codecs(1)] by (simp add: load_session_info_def valid safe session_round_trip)
  moreover have "load_observations h fs' workspace ?s = Inr (map sorted_observation (es_observations e))"
    using evidence_at_loads [OF observations codecs(2)]
    by (simp add: load_observations_def valid safe load_records_sorted [of observation_of_json observation_json sorted_observation] observation_round_trip del: sort_json.simps)
  moreover have "load_module_map h fs' workspace = Inr (es_modules e)"
    using evidence_at_loads [OF modules codecs(3)] modules load_records_sorted [of module_of_json module_json id]
    by (simp add: load_module_map_def load_optional_def valid evidence_at_def module_round_trip del: sort_json.simps)
  ultimately show ?thesis by blast
qed

lemma saved_reconciliation_loads:
  assumes "save_reconciliation h workspace items fs = (Inr path, fs')" "runtime_codec h (JList (map reconciliation_json items))"
  shows "load_reconciliation h fs' workspace = Inr items"
proof -
  have "evidence_at h workspace ''reconciliation.json'' (JList (map reconciliation_json items)) fs'"
    using saved_evidence_at [of h workspace "''reconciliation.json''"] assms by (simp add: save_reconciliation_def)
  with evidence_at_loads [OF this assms(2)] load_records_sorted [of reconciliation_of_json reconciliation_json id]
  show ?thesis
    by (simp add: load_reconciliation_def load_optional_def evidence_at_def reconciliation_round_trip del: sort_json.simps)
qed

text \<open>
  Property C20. The runtime evidence of a session that was saved is the evidence that is loaded: the session,
  its observations and the module map all come back, whatever else the workspace held and whether it
  had a schema file or not.
\<close>

theorem saved_evidence_is_loaded:
  "save_evidence_set h workspace e fs = (Inr (), fs') \<Longrightarrow> evidence_codec h e \<Longrightarrow>
     load_session_info h fs' workspace (si_session_id (es_session e)) = Inr (es_session e) \<and>
     load_observations h fs' workspace (si_session_id (es_session e)) = Inr (map sorted_observation (es_observations e)) \<and>
     load_module_map h fs' workspace = Inr (es_modules e)"
  by (rule saved_evidence_loads)

definition sample_address :: "address_domain \<Rightarrow> int \<Rightarrow> runtime_address" where
  "sample_address d v = \<lparr> ra_domain = d, ra_value = v, ra_module_path = None \<rparr>"

definition sample_evidence :: evidence_set where
  "sample_evidence =
     \<lparr> es_session = \<lparr> si_session_id = ''s1'', si_host = ''localhost'', si_port = 5000, si_revision = Some ''r'',
         si_source_identity = None \<rparr>,
       es_modules = [\<lparr> rt_name = Some ''m'', rt_base = sample_address Runtime_Domain 0x8804000, rt_size = Some 16,
         rt_static_path = Some ''a.prx'', rt_resolution = Hle_Reported, rt_evidence = [''hle''] \<rparr>],
       es_observations = [\<lparr> bo_session_id = ''s1'', bo_sequence = 1, bo_address = sample_address Runtime_Domain 0x8804004,
         bo_hit_count = 1,
         bo_registers = Some \<lparr> rg_session_id = ''s1'', rg_sequence = 1, rg_registers = [(''v1'', 2), (''v0'', 1)] \<rparr>,
         bo_memory = [], bo_backtrace = Some \<lparr> bt_session_id = ''s1'', bt_sequence = 1,
           bt_frames = [sample_address Runtime_Domain 0x8804008] \<rparr>, bo_warnings = [] \<rparr>] \<rparr>"

definition evidence_host :: toolchain_host where
  "evidence_host = store_host
     \<lparr> mh_dumps := (\<lambda>j. case j of JObj (d # ds) \<Rightarrow> if fst d = ''session_id'' then [1] else [2]
          | JList [JObj (d # ds)] \<Rightarrow> if fst d = ''session_id'' then [3] else [4] | _ \<Rightarrow> [5]),
       mh_loads := (\<lambda>bs. Some (sort_json (if bs = [1, 10] then session_json (es_session sample_evidence)
          else if bs = [2, 10] then schema_document
          else if bs = [3, 10] then JList (map observation_json (es_observations sample_evidence))
          else JList (map module_json (es_modules sample_evidence))))) \<rparr>"

definition sample_kept :: "(evidence_error, unit) result \<times> file_store" where
  "sample_kept = save_evidence_set evidence_host ''/w'' sample_evidence (\<lambda>_. None)"

theorem saved_evidence_is_loaded_witness:
  "load_session_info evidence_host (snd sample_kept) ''/w'' ''s1'' = Inr (es_session sample_evidence) \<and>
   load_observations evidence_host (snd sample_kept) ''/w'' ''s1'' =
     Inr (map sorted_observation (es_observations sample_evidence)) \<and>
   load_module_map evidence_host (snd sample_kept) ''/w'' = Inr (es_modules sample_evidence)"
proof -
  have "fst sample_kept = Inr ()" by code_simp
  then have run: "save_evidence_set evidence_host ''/w'' sample_evidence (\<lambda>_. None) = (Inr (), snd sample_kept)"
    by (simp add: sample_kept_def prod_eq_iff)
  have "evidence_codec evidence_host sample_evidence"
    by (simp add: evidence_codec_def runtime_codec_def codec_ok_def evidence_host_def sample_evidence_def session_json_def
      observation_json_def module_json_def schema_document_def utf8_valid.simps utf8_head_def del: sort_json.simps)
  from saved_evidence_is_loaded [OF run this] show ?thesis by (simp add: sample_evidence_def)
qed

end
