(* ===== verification/Csv_Text.thy ===== *)
theory Csv_Text
  imports Host_Model
begin

text \<open>
  Tables as text: decimal fractions with a fixed number of digits, and the rows \<open>csv.writer\<close> writes with its
  defaults.
\<close>

text \<open>\<open>f"{x:.kf}"\<close> of a rational: to the nearest last digit, to the even one between two.\<close>

definition round_even :: "rat \<Rightarrow> int" where
  "round_even q =
     (let n = \<lfloor>q\<rfloor>; r = q - of_int n in
      if r < 1 / 2 then n else if r > 1 / 2 then n + 1 else if even n then n else n + 1)"

definition fixed_decimals :: "nat \<Rightarrow> rat \<Rightarrow> string" where
  "fixed_decimals k q =
     (let n = round_even (\<bar>q\<bar> * 10 ^ k); fraction = dec_str (n mod 10 ^ k) in
      (if q < 0 then ''-'' else []) @ dec_str (n div 10 ^ k) @ ''.'' @
      replicate (k - length fraction) (CHR ''0'') @ fraction)"

text \<open>A field is quoted where it has to be.\<close>

definition csv_special :: "char \<Rightarrow> bool" where
  "csv_special c \<longleftrightarrow> c = CHR '','' \<or> c = CHR 0x22 \<or> c = CHR 0x0A \<or> c = CHR 0x0D"

definition csv_field :: "string \<Rightarrow> string" where
  "csv_field s =
     (if list_ex csv_special s
      then [CHR 0x22] @ concat (map (\<lambda>c. if c = CHR 0x22 then [c, c] else [c]) s) @ [CHR 0x22] else s)"

definition csv_row :: "string list \<Rightarrow> string" where
  "csv_row row =
     (if row = [[]] then [CHR 0x22, CHR 0x22] else join_with '','' (map csv_field row)) @ [CHR 0x0D, CHR 0x0A]"

definition csv_text :: "string list list \<Rightarrow> string" where
  "csv_text rows = concat (map csv_row rows)"

lemma csv_row_plain:
  "list_all (\<lambda>s. \<not> list_ex csv_special s) row \<Longrightarrow> row \<noteq> [[]] \<Longrightarrow> csv_row row = join_with '','' row @ [CHR 0x0D, CHR 0x0A]"
proof -
  assume plain: "list_all (\<lambda>s. \<not> list_ex csv_special s) row" and "row \<noteq> [[]]"
  have "map csv_field row = row" using plain by (induction row) (auto simp: csv_field_def)
  with \<open>row \<noteq> [[]]\<close> show ?thesis by (simp add: csv_row_def)
qed

lemma round_even_near: "\<bar>q - of_int (round_even q)\<bar> \<le> 1 / 2"
proof -
  have "of_int \<lfloor>q\<rfloor> \<le> q" "q < of_int \<lfloor>q\<rfloor> + 1" by linarith+
  then show ?thesis by (auto simp only: round_even_def Let_def abs_le_iff of_int_add of_int_1 split: if_split)
qed

lemma fixed_decimals_example:
  "fixed_decimals 2 (200 / 3) = ''66.67'' \<and> fixed_decimals 2 (1 / 200) = ''0.00'' \<and> fixed_decimals 6 (1 / 8) = ''0.125000''"
  by code_simp

end
