(* ===== verification/Queue.thy ===== *)
theory Queue
  imports Orchestrator Evidence_Store Disassembler Advanced Csv_Text
begin

text \<open>
  \<open>decompile/queue.py\<close> and \<open>decompile/reporting.py\<close>: the functions of an analyzed game project that are
  waiting to be decompiled, what is known of each, the order in which they are worked on, and the table that
  reports their state.
\<close>

datatype queue_error =
    Analysis_Missing
  | Analysis_Invalid
  | Analysis_Undecodable
  | Functions_Undecodable
  | Module_Key_Missing string
  | Queue_Store_Failed store_error
  | Queue_Evidence_Failed evidence_error
  | Module_File_Missing string
  | Module_Not_Analyzed analyze_error
  | Module_Not_Disassembled disassemble_error
  | Report_Not_Written string

definition DONE_STATUSES :: "string set" where
  "DONE_STATUSES = {''matched_exact'', ''skipped'', ''blocked'', ''unsupported''}"

fun status_rank :: "string \<Rightarrow> int" where
  "status_rank s =
     (case map_of [(''conflicting'', 0), (''runtime_verified'', 1), (''corroborated'', 2), (''runtime_observed'', 3),
        (''inferred'', 4), (''unresolved'', 5)] s of Some n \<Rightarrow> n | None \<Rightarrow> 6)"

declare status_rank.simps [simp del]

record queue_filters =
  qr_module :: "string option"
  qr_function :: "string option"
  qr_below_match :: "rat option"
  qr_unmatched_only :: bool
  qr_limit :: "int option"

section \<open>Discovering the functions\<close>

definition game_root :: "string \<Rightarrow> string" where
  "game_root workspace = path_join workspace ''analysis/game_project''"

definition load_game_analysis_modules ::
    "toolchain_host \<Rightarrow> file_store \<Rightarrow> string \<Rightarrow> (queue_error, (string \<times> json) list list) result" where
  "load_game_analysis_modules h fs workspace =
     (case read_json (mh_loads h) fs (path_join (game_root (mh_resolve h workspace)) ''metadata/game_analysis.json'') of
        Missing_File \<Rightarrow> Inl Analysis_Missing
      | Unreadable_File \<Rightarrow> Inl Analysis_Invalid
      | Undecodable_File \<Rightarrow> Inl Analysis_Undecodable
      | Json_File payload \<Rightarrow>
          (case payload of
             JObj d \<Rightarrow>
               (case json_get d ''modules'' of JList xs \<Rightarrow> Inr (List.map_filter json_obj xs) | _ \<Rightarrow> Inl Analysis_Invalid)
           | _ \<Rightarrow> Inl Analysis_Invalid))"

definition function_entry :: "json \<Rightarrow> (string \<times> int \<times> (string \<times> json) list) option" where
  "function_entry item =
     (case item of
        JObj d \<Rightarrow>
          (case (json_str (json_get d ''name''), json_int (json_get d ''address'')) of
             (Some name, Some address) \<Rightarrow> Some (name, address, d) | _ \<Rightarrow> None)
      | _ \<Rightarrow> None)"

definition read_functions_json ::
    "toolchain_host \<Rightarrow> file_store \<Rightarrow> string \<Rightarrow> (queue_error, (string \<times> int \<times> (string \<times> json) list) list) result" where
  "read_functions_json h fs project =
     (case read_json (mh_loads h) fs (path_join (mh_resolve h project) ''metadata/functions.json'') of
        Undecodable_File \<Rightarrow> Inl Functions_Undecodable
      | Json_File (JList xs) \<Rightarrow> Inr (List.map_filter function_entry xs)
      | _ \<Rightarrow> Inr [])"

definition pending_state :: "string \<Rightarrow> string \<Rightarrow> int \<Rightarrow> function_state" where
  "pending_state module_path function address =
     \<lparr> fs_module = module_path, fs_function = function, fs_address = address, fs_status = ''pending'', fs_attempts = 0,
       fs_best_attempt_id = None, fs_best_match_percent = None, fs_static_confidence = None, fs_static_evidence = [],
       fs_runtime_status = None, fs_last_failure = None, fs_attempt_history = [] \<rparr>"

definition count_in :: "(string \<times> json) list \<Rightarrow> string \<Rightarrow> (queue_error, int) result" where
  "count_in d key =
     (case map_of d key of None \<Rightarrow> Inr 0 | Some v \<Rightarrow> map_sum Queue_Store_Failed id (int_of key v))"

definition queue_entry ::
    "toolchain_host \<Rightarrow> file_store \<Rightarrow> string \<Rightarrow> string \<Rightarrow> string \<Rightarrow> string \<times> int \<times> (string \<times> json) list \<Rightarrow>
       (queue_error, queued_function) result" where
  "queue_entry h fs workspace module_path project e =
     (case e of (function, address, d) \<Rightarrow>
        bindE (map_sum Queue_Store_Failed id (load_function_state h fs workspace module_path function)) (\<lambda>saved.
        bindE (count_in d ''size'') (\<lambda>sz.
        bindE (count_in d ''instruction_count'') (\<lambda>count.
        Inr \<lparr> qf_module = module_path, qf_project_dir = project, qf_function = function, qf_address = address,
              qf_size = sz, qf_instruction_count = count,
              qf_state = (case saved of Some s \<Rightarrow> s | None \<Rightarrow> pending_state module_path function address) \<rparr>))))"

text \<open>A module of the queue: its \<open>str(module["path"])\<close> and \<open>str(module["project_path"])\<close>.\<close>

definition queued_module :: "(string \<times> json) list \<Rightarrow> (queue_error, (string \<times> string) option) result" where
  "queued_module d =
     (if json_get d ''status'' \<in> {JStr ''analyzed'', JStr ''analyzed_recovered''} \<and> truth_of (json_get d ''project_path'')
      then bindE (json_key (Module_Key_Missing ''path'') d ''path'') (\<lambda>p.
           bindE (map_sum Queue_Store_Failed id (str_of ''path'' p)) (\<lambda>path.
           bindE (map_sum Queue_Store_Failed id (str_of ''project_path'' (json_get d ''project_path''))) (\<lambda>project.
           Inr (Some (path, project)))))
      else Inr None)"

definition queue_module ::
    "toolchain_host \<Rightarrow> file_store \<Rightarrow> string \<Rightarrow> string \<times> string \<Rightarrow> (queue_error, queued_function list) result" where
  "queue_module h fs workspace m =
     (case m of (module_path, project_path) \<Rightarrow>
        let project = path_join (game_root workspace) project_path in
        bindE (read_functions_json h fs project) (\<lambda>entries.
        mapE (queue_entry h fs workspace module_path project)
          (sort_key (\<lambda>(name, address, d). (address, name)) entries)))"

definition discover_functions :: "toolchain_host \<Rightarrow> file_store \<Rightarrow> string \<Rightarrow> (queue_error, queued_function list) result" where
  "discover_functions h fs workspace =
     bindE (load_game_analysis_modules h fs workspace) (\<lambda>records.
     bindE (mapE queued_module records) (\<lambda>found.
     map_sum id concat
       (mapE (queue_module h fs workspace) (sort_key (\<lambda>m. casefold (fst m)) (List.map_filter id found)))))"

section \<open>Runtime evidence\<close>

definition evidence_by_module :: "stored_reconciliation list \<Rightarrow> (string \<times> (int \<times> string) list) list" where
  "evidence_by_module items =
     fold (\<lambda>r d. case rr_static_address r of
         None \<Rightarrow> d
       | Some a \<Rightarrow>
           (case ra_module_path a of None \<Rightarrow> d | Some path \<Rightarrow> dict_append d path (ra_value a, status_text (rr_status r)))) items []"

definition evidence_for :: "(string \<times> (int \<times> string) list) list \<Rightarrow> queued_function \<Rightarrow> string list" where
  "evidence_for by_module f =
     map snd (filter (\<lambda>(address, status). qf_address f \<le> address \<and> address < qf_address f + max (qf_size f) 1)
       (dict_get_list by_module (qf_module f)))"

definition with_runtime_evidence :: "(string \<times> (int \<times> string) list) list \<Rightarrow> queued_function \<Rightarrow> queued_function" where
  "with_runtime_evidence by_module f =
     (let statuses = evidence_for by_module f in
      if statuses = [] then f
      else f\<lparr> qf_state := (qf_state f)\<lparr> fs_runtime_status := Some (arg_min_list status_rank statuses) \<rparr> \<rparr>)"

definition enrich_with_runtime_evidence ::
    "toolchain_host \<Rightarrow> file_store \<Rightarrow> queued_function list \<Rightarrow> string \<Rightarrow> (queue_error, queued_function list) result" where
  "enrich_with_runtime_evidence h fs functions workspace =
     bindE (map_sum Queue_Evidence_Failed id (load_reconciliation h fs workspace)) (\<lambda>items.
     Inr (if items = [] then functions else map (with_runtime_evidence (evidence_by_module items)) functions))"

section \<open>Static confidence\<close>

text \<open>\<open>by_module.setdefault\<close>: the modules in the order of their first function.\<close>

definition modules_of :: "queued_function list \<Rightarrow> string list" where
  "modules_of functions = rev (remdups (rev (map qf_module functions)))"

definition module_keys :: "(string \<times> json) list list \<Rightarrow> (queue_error, (string \<times> (string \<times> json) list) list) result" where
  "module_keys records =
     mapE (\<lambda>d. bindE (json_key (Module_Key_Missing ''path'') d ''path'') (\<lambda>p.
               bindE (map_sum Queue_Store_Failed id (str_of ''path'' p)) (\<lambda>path. Inr (path, d)))) records"

text \<open>One module: nothing where no file was extracted or no engine is installed.\<close>

definition module_confidence ::
    "toolchain_host \<Rightarrow> (string \<Rightarrow> bool) \<Rightarrow> ('c, 'v) engine option \<Rightarrow> file_store \<Rightarrow> string \<Rightarrow> (string \<times> json) list option \<Rightarrow>
       ('v global_config, queue_error, (int \<times> rat \<times> string list) list option) action" where
  "module_confidence h unicode installed fs workspace record_of =
     (let extracted = (case record_of of None \<Rightarrow> JNull | Some d \<Rightarrow> json_get d ''extracted_path'') in
      if \<not> truth_of extracted then returnS None
      else bindS (liftS (map_sum Queue_Store_Failed id (str_of ''extracted_path'' extracted))) (\<lambda>name.
        let source = path_join (game_root workspace) name in
        bindS (liftS (from_option (Module_File_Missing source) (fs (mh_resolve h source)))) (\<lambda>data.
        bindS (liftS (map_sum Module_Not_Analyzed id (analyze_bytes data source))) (\<lambda>m config.
        case disassemble_bytes unicode installed data source None config of
          (Inl (Engine_Error Engine_Unavailable), config') \<Rightarrow> (Inr None, config')
        | (Inl e, config') \<Rightarrow> (Inl (Module_Not_Disassembled e), config')
        | (Inr d, config') \<Rightarrow>
            (Inr (Some (map (\<lambda>c. (fc_address c, fc_score c, fc_evidence c))
               (ad_function_confidence (analyze_advanced m d)))), config')))))"

definition with_static_confidence ::
    "(string \<times> (int \<times> rat \<times> string list) list) list \<Rightarrow> queued_function \<Rightarrow> queued_function" where
  "with_static_confidence by_module f =
     (case map_of (rev (dict_get_list by_module (qf_module f))) (qf_address f) of
        None \<Rightarrow> f
      | Some (points, evidence) \<Rightarrow>
          f\<lparr> qf_state := (qf_state f)\<lparr> fs_static_confidence := Some points, fs_static_evidence := evidence \<rparr> \<rparr>)"

definition enrich_with_static_confidence ::
    "toolchain_host \<Rightarrow> (string \<Rightarrow> bool) \<Rightarrow> ('c, 'v) engine option \<Rightarrow> file_store \<Rightarrow> queued_function list \<Rightarrow> string \<Rightarrow>
       ('v global_config, queue_error, queued_function list) action" where
  "enrich_with_static_confidence h unicode installed fs functions workspace =
     bindS (liftS (load_game_analysis_modules h fs workspace)) (\<lambda>records.
     bindS (liftS (module_keys records)) (\<lambda>keyed.
     bindS (mapS (\<lambda>m. bindS (module_confidence h unicode installed fs workspace (map_of (rev keyed) m)) (\<lambda>c. returnS (m, c)))
       (modules_of functions)) (\<lambda>scored.
     returnS (map (with_static_confidence (List.map_filter (\<lambda>(m, c). map_option (Pair m) c) scored)) functions))))"

section \<open>Selecting the work\<close>

definition needs_work :: "queue_filters \<Rightarrow> function_state \<Rightarrow> bool" where
  "needs_work filters s =
     (case qr_below_match filters of
        Some bound \<Rightarrow> (case fs_best_match_percent s of Some p \<Rightarrow> p | None \<Rightarrow> 0) < bound
      | None \<Rightarrow> if qr_unmatched_only filters then fs_status s \<noteq> ''matched_exact'' else fs_status s \<notin> DONE_STATUSES)"

definition selector_matches :: "string \<Rightarrow> queued_function \<Rightarrow> bool" where
  "selector_matches selector f =
     (if qf_function f = selector then True
      else case py_int_auto selector of None \<Rightarrow> False | Some value \<Rightarrow> qf_address f = value)"

definition priority_key :: "queued_function \<Rightarrow> int \<times> string \<times> string \<times> int" where
  "priority_key f = (qf_size f, casefold (qf_module f), casefold (qf_function f), qf_address f)"

definition in_module :: "queue_filters \<Rightarrow> queued_function \<Rightarrow> bool" where
  "in_module filters f = (case qr_module filters of None \<Rightarrow> True | Some m \<Rightarrow> qf_module f = m)"

definition select_functions :: "queue_filters \<Rightarrow> queued_function list \<Rightarrow> queued_function list" where
  "select_functions filters functions =
     (case qr_function filters of
        Some selector \<Rightarrow> sort_key priority_key (filter (in_module filters) (filter (selector_matches selector) functions))
      | None \<Rightarrow>
          let candidates = filter (\<lambda>f. needs_work filters (qf_state f)) (filter (in_module filters) functions);
              ordered = sort_key priority_key candidates
          in case qr_limit filters of None \<Rightarrow> ordered | Some n \<Rightarrow> py_slice ordered 0 n)"

section \<open>The report\<close>

definition REPORT_HEADER :: "string list" where
  "REPORT_HEADER =
     [''module'', ''function'', ''address'', ''status'', ''attempts'', ''best_match_percent'', ''best_attempt_id'']"

definition report_row :: "queued_function \<Rightarrow> string list" where
  "report_row f =
     (let s = qf_state f in
      [fs_module s, fs_function s, ''0x'' @ hex_upper 8 (fs_address s), fs_status s, dec_str (fs_attempts s),
       (case fs_best_match_percent s of None \<Rightarrow> [] | Some p \<Rightarrow> fixed_decimals 2 p),
       (case fs_best_attempt_id s of None \<Rightarrow> [] | Some i \<Rightarrow> i)])"

definition report_rows :: "queued_function list \<Rightarrow> string list list" where
  "report_rows functions =
     REPORT_HEADER # map report_row
       (sort_key (\<lambda>f. (casefold (qf_module f), casefold (qf_function f), qf_address f)) functions)"

definition write_match_status_report ::
    "toolchain_host \<Rightarrow> string \<Rightarrow> queued_function list \<Rightarrow> (file_store, queue_error, string) action" where
  "write_match_status_report h workspace functions fs =
     (let path = path_join (decompilation_root h workspace) ''reports/match_status.csv'' in
      if mh_writable h path then (Inr path, fs(path \<mapsto> str_bytes (csv_text (report_rows functions))))
      else (Inl (Report_Not_Written path), fs))"


section \<open>What is selected\<close>

text \<open>
  A selection is in the order of the priority key; without a selector it takes, from the functions
  that need work, as many of the first as the limit allows.
\<close>

definition wanted :: "queue_filters \<Rightarrow> queued_function \<Rightarrow> bool" where
  "wanted filters f \<longleftrightarrow>
     in_module filters f \<and>
     (case qr_function filters of Some selector \<Rightarrow> selector_matches selector f | None \<Rightarrow> needs_work filters (qf_state f))"

definition selection_count :: "queue_filters \<Rightarrow> nat \<Rightarrow> nat" where
  "selection_count filters n =
     (case (qr_function filters, qr_limit filters) of
        (None, Some k) \<Rightarrow> if k < 0 then nat (int n + k) else min n (nat k)
      | _ \<Rightarrow> n)"

definition prioritized_selection :: "queue_filters \<Rightarrow> queued_function list \<Rightarrow> queued_function list \<Rightarrow> bool" where
  "prioritized_selection filters functions selected \<longleftrightarrow>
     sorted (map priority_key selected) \<and>
     length selected = selection_count filters (length (filter (wanted filters) functions)) \<and>
     (\<exists>rest. sorted (map priority_key (selected @ rest)) \<and>
        (\<forall>k. filter (\<lambda>f. priority_key f = k) (selected @ rest) =
             filter (\<lambda>f. priority_key f = k \<and> wanted filters f) functions))"

lemma limit_slice:
  "py_slice xs 0 k = take (if k < 0 then nat (blen xs + k) else min (length xs) (nat k)) xs"
  by (auto simp: py_slice_def slice_bound_def Let_def min_def max_def add.commute)

lemma select_functions_take:
  "select_functions filters functions =
     take (selection_count filters (length (filter (wanted filters) functions)))
       (sort_key priority_key (filter (wanted filters) functions))"
proof -
  have w: "filter (wanted filters) functions =
     (case qr_function filters of
        Some selector \<Rightarrow> filter (in_module filters) (filter (selector_matches selector) functions)
      | None \<Rightarrow> filter (\<lambda>f. needs_work filters (qf_state f)) (filter (in_module filters) functions))"
    by (cases "qr_function filters") (auto simp: wanted_def intro!: filter_cong)
  show ?thesis
    unfolding select_functions_def w
    by (cases "qr_function filters"; cases "qr_limit filters") (simp_all add: selection_count_def Let_def limit_slice)
qed

lemma selection_prioritized: "prioritized_selection filters functions (select_functions filters functions)"
proof -
  let ?w = "filter (wanted filters) functions"
  let ?s = "sort_key priority_key ?w"
  let ?n = "selection_count filters (length ?w)"
  have "?n \<le> length ?w" by (auto simp: selection_count_def split: option.splits)
  moreover have "filter (\<lambda>f. priority_key f = k) ?s = filter (\<lambda>f. priority_key f = k \<and> wanted filters f) functions" for k
    by (simp add: sort_key_stable conj_commute)
  ultimately show ?thesis
    unfolding prioritized_selection_def select_functions_take
    by (intro conjI exI [of _ "drop ?n ?s"]) (simp_all add: take_map [symmetric] sorted_wrt_take)
qed

text \<open>
  The functions selected for a run are the first of those the filters want, in the order of
  size, module, name and address, equal keys in the order they were found; there are as many as the limit allows.
\<close>

theorem selection_is_prioritized:
  "prioritized_selection filters functions (select_functions filters functions)"
  by (rule selection_prioritized)

section \<open>Conflicting evidence is shown\<close>

definition evidence_covers :: "queued_function \<Rightarrow> stored_reconciliation \<Rightarrow> bool" where
  "evidence_covers f r \<longleftrightarrow>
     (case rr_static_address r of
        None \<Rightarrow> False
      | Some a \<Rightarrow> ra_module_path a = Some (qf_module f) \<and> qf_address f \<le> ra_value a \<and>
                  ra_value a < qf_address f + max (qf_size f) 1)"

definition evidence_shown :: "stored_reconciliation list \<Rightarrow> queued_function \<Rightarrow> queued_function \<Rightarrow> bool" where
  "evidence_shown items f f' \<longleftrightarrow>
     (let covering = filter (evidence_covers f) items in
      if covering = [] then f' = f
      else \<exists>r \<in> set covering.
             f' = f\<lparr> qf_state := (qf_state f)\<lparr> fs_runtime_status := Some (status_text (rr_status r)) \<rparr> \<rparr> \<and>
             (\<forall>r' \<in> set covering. status_rank (status_text (rr_status r)) \<le> status_rank (status_text (rr_status r'))) \<and>
             ((\<exists>r' \<in> set covering. rr_status r' = Conflicting) \<longrightarrow> rr_status r = Conflicting))"

lemma evidence_by_module_items:
  "dict_get_list (evidence_by_module items) m =
     map (\<lambda>r. (ra_value (the (rr_static_address r)), status_text (rr_status r)))
       (filter (\<lambda>r. \<exists>a. rr_static_address r = Some a \<and> ra_module_path a = Some m) items)"
proof -
  have "dict_get_list (fold (\<lambda>r d. case rr_static_address r of None \<Rightarrow> d
       | Some a \<Rightarrow> (case ra_module_path a of None \<Rightarrow> d
           | Some path \<Rightarrow> dict_append d path (ra_value a, status_text (rr_status r)))) items d) m =
     dict_get_list d m @ map (\<lambda>r. (ra_value (the (rr_static_address r)), status_text (rr_status r)))
       (filter (\<lambda>r. \<exists>a. rr_static_address r = Some a \<and> ra_module_path a = Some m) items)" for d
    by (induction items arbitrary: d) (auto split: option.splits)
  then show ?thesis by (simp add: evidence_by_module_def)
qed

lemma evidence_for_covering:
  "evidence_for (evidence_by_module items) f = map (\<lambda>r. status_text (rr_status r)) (filter (evidence_covers f) items)"
  unfolding evidence_for_def evidence_by_module_items
  by (induction items) (auto simp: evidence_covers_def split: option.splits)

lemma status_rank_values:
  "status_rank (status_text s) = (case s of Conflicting \<Rightarrow> 0 | Runtime_Verified \<Rightarrow> 1 | Corroborated \<Rightarrow> 2
     | Runtime_Observed \<Rightarrow> 3 | Inferred \<Rightarrow> 4 | Unresolved_Evidence \<Rightarrow> 5)"
  by (cases s) (simp_all add: status_rank.simps)

lemma least_conflicting: "status_rank (status_text s) \<le> status_rank (status_text Conflicting) \<Longrightarrow> s = Conflicting"
  unfolding status_rank_values by (cases s) simp_all

lemma with_runtime_evidence_shown: "evidence_shown items f (with_runtime_evidence (evidence_by_module items) f)"
proof (cases "filter (evidence_covers f) items = []")
  case True
  then show ?thesis by (simp add: with_runtime_evidence_def evidence_for_covering evidence_shown_def)
next
  case False
  let ?s = "map (\<lambda>r. status_text (rr_status r)) (filter (evidence_covers f) items)"
  let ?best = "arg_min_list status_rank ?s"
  have "?best \<in> set ?s" using False by (intro arg_min_list_in) simp
  then obtain r where r: "r \<in> set (filter (evidence_covers f) items)" "?best = status_text (rr_status r)" by auto
  have least: "status_rank ?best \<le> status_rank (status_text (rr_status r'))"
    if "r' \<in> set (filter (evidence_covers f) items)" for r'
    using that False f_arg_min_list_f [of ?s status_rank] by simp
  have "rr_status r = Conflicting" if "r' \<in> set (filter (evidence_covers f) items)" "rr_status r' = Conflicting" for r'
    using least [OF that(1)] that(2) r(2) by (intro least_conflicting) simp
  with least r show ?thesis
    using False unfolding evidence_shown_def
    by (auto simp: Let_def with_runtime_evidence_def evidence_for_covering intro!: bexI [of _ r])
qed

lemma enriched_evidence_shown:
  assumes "enrich_with_runtime_evidence h fs functions workspace = Inr enriched"
  shows "\<exists>items. load_reconciliation h fs workspace = Inr items \<and> list_all2 (evidence_shown items) functions enriched"
proof -
  from assms obtain items where items: "load_reconciliation h fs workspace = Inr items"
    and enriched: "enriched = (if items = [] then functions else map (with_runtime_evidence (evidence_by_module items)) functions)"
    by (cases "load_reconciliation h fs workspace") (auto simp: enrich_with_runtime_evidence_def)
  have "list_all2 (evidence_shown items) functions enriched"
  proof (cases "items = []")
    case True
    then show ?thesis by (simp add: enriched list_all2_same evidence_shown_def)
  next
    case False
    then show ?thesis by (simp add: enriched list_all2_map2 list_all2_same with_runtime_evidence_shown)
  qed
  with items show ?thesis by blast
qed

text \<open>
  Property C38. Enriching the queue with runtime evidence changes nothing but the runtime status, and only of a
  function some evidence of its module falls into; the status is that of the evidence of the least
  rank, so evidence that conflicts is never hidden behind evidence that agrees.
\<close>

theorem conflicting_evidence_is_shown:
  "enrich_with_runtime_evidence h fs functions workspace = Inr enriched \<Longrightarrow>
     \<exists>items. load_reconciliation h fs workspace = Inr items \<and> list_all2 (evidence_shown items) functions enriched"
  by (rule enriched_evidence_shown)

definition sample_reconciliation :: "evidence_status \<Rightarrow> int \<Rightarrow> stored_reconciliation" where
  "sample_reconciliation status address =
     \<lparr> rr_static_kind = ''function'',
       rr_static_address = Some \<lparr> ra_domain = Analysis_Domain, ra_value = address, ra_module_path = Some ''a.prx'' \<rparr>,
       rr_static_evidence = [], rr_runtime_address = sample_address Runtime_Domain address, rr_module_offset = None,
       rr_observation_count = 1, rr_status = status, rr_conflicts = [] \<rparr>"

definition queue_host :: toolchain_host where
  "queue_host = store_host\<lparr> mh_loads := (\<lambda>bs. Some (JList (map reconciliation_json
     [sample_reconciliation Runtime_Verified 16, sample_reconciliation Conflicting 18, sample_reconciliation Conflicting 32]))) \<rparr>"

definition queue_store :: file_store where
  "queue_store p = (if p = ''/w/runtime/reconciliation.json'' then Some [1] else None)"

definition sample_enriched :: "(queue_error, queued_function list) result" where
  "sample_enriched = enrich_with_runtime_evidence queue_host queue_store [run_queue] ''/w''"

theorem conflicting_evidence_is_shown_witness:
  "(\<exists>items. load_reconciliation queue_host queue_store ''/w'' = Inr items \<and>
     list_all2 (evidence_shown items) [run_queue] (projr sample_enriched)) \<and>
   map (\<lambda>f. fs_runtime_status (qf_state f)) (projr sample_enriched) = [Some ''conflicting'']"
proof -
  have "\<not> isl sample_enriched" by code_simp
  then have run: "enrich_with_runtime_evidence queue_host queue_store [run_queue] ''/w'' = Inr (projr sample_enriched)"
    by (simp add: sample_enriched_def)
  have "map (\<lambda>f. fs_runtime_status (qf_state f)) (projr sample_enriched) = [Some ''conflicting'']" by code_simp
  with conflicting_evidence_is_shown [OF run] show ?thesis by blast
qed

section \<open>The report lists every function\<close>

lemma report_rows_complete:
  "length (report_rows functions) = Suc (length functions) \<and>
   set (tl (report_rows functions)) = report_row ` set functions"
  by (simp add: report_rows_def)

lemma written_report:
  "write_match_status_report h workspace functions fs = (Inr path, fs') \<Longrightarrow>
     fs' path = Some (str_bytes (csv_text (report_rows functions)))"
  by (auto simp: write_match_status_report_def Let_def split: if_splits)

end
