(* ===== verification/Disc.thy ===== *)
theory Disc
  imports Sfo Cso_Image Matcher
begin

text \<open>
  \<open>disc.py\<close>: the game disc and the extracted game directory. Both are scanned into a manifest of their
  files, with the executables copied out; the other files are copied out afterwards. The ISO9660 library
  is not part of the source and is a parameter that opens a stream as a volume: the walk over its
  directories, the lengths and the contents of its files, each of which may fail, the walk and the contents
  also after a first part. Files are found through their resolved paths.
\<close>

section \<open>Volumes and errors\<close>

datatype iso_failure = Stream_Error cso_error | Iso_Exception string

datatype disc_stream = Iso_Stream bytes | Cso_Stream cso_reader

record iso_volume =
  iv_walk :: "(string \<times> string list) list \<times> iso_failure option"
  iv_length :: "string \<Rightarrow> (iso_failure, int) result"
  iv_member :: "string \<Rightarrow> (iso_failure, bytes \<times> iso_failure option) result"

datatype disc_error =
    Pycdlib_Missing
  | Source_Unreadable string
  | Stream_Failed cso_error
  | Filesystem_Unreadable
  | No_Disc_Boot
  | No_Directory_Boot
  | Not_A_Directory string
  | Source_Empty
  | Symlink_In_Source string
  | Source_Unsafe string
  | Source_Missing string
  | Unsafe_Extraction string
  | Resource_Missing string
  | Write_Refused string
  | Outside_Output string
  | Sfo_Crash

text \<open>What the SFO of a game could not be read for: every \<open>ParseError\<close> counts.\<close>

datatype sfo_problem = Sfo_Rejected sfo_error | Sfo_Stream cso_error | Sfo_Source disc_error

datatype disc_warning = Sfo_Unparsable sfo_problem | Sfo_Absent

record disc_host = match_host +
  dk_symlink :: "string \<Rightarrow> bool"
  dk_tree :: "string \<Rightarrow> string list"
  dk_iso :: "(disc_stream \<Rightarrow> (iso_failure, iso_volume) result) option"
  dk_print :: "sfo_problem \<Rightarrow> string"

definition disc_match_host :: "disc_host \<Rightarrow> match_host" where
  "disc_match_host h = match_host.truncate h"

text \<open>The errors of a stream that are \<open>ParseError\<close>s, and the ones that pass through the handlers.\<close>

definition stream_parse_error :: "cso_error \<Rightarrow> bool" where
  "stream_parse_error e =
     (case e of Lz4_Unavailable \<Rightarrow> False | Reader_Closed \<Rightarrow> False | Invalid_Whence _ \<Rightarrow> False | Negative_Seek \<Rightarrow> False | _ \<Rightarrow> True)"

definition iso_error :: "iso_failure \<Rightarrow> disc_error" where
  "iso_error f =
     (case f of
        Stream_Error e \<Rightarrow> if stream_parse_error e \<or> e = Lz4_Unavailable then Stream_Failed e else Filesystem_Unreadable
      | Iso_Exception _ \<Rightarrow> Filesystem_Unreadable)"

text \<open>\<open>except (ParseError, EngineUnavailableError): raise\<close>, and any other exception as a \<open>ParseError\<close>.\<close>

definition wrap_error :: "disc_error \<Rightarrow> disc_error" where
  "wrap_error e =
     (case e of Write_Refused _ \<Rightarrow> Filesystem_Unreadable | Outside_Output _ \<Rightarrow> Filesystem_Unreadable
      | Sfo_Crash \<Rightarrow> Filesystem_Unreadable | _ \<Rightarrow> e)"

section \<open>Records\<close>

record iso_file =
  iz_physical :: string
  iz_logical :: string
  iz_size :: int
  iz_magic :: bytes

record disc_file =
  df_path :: string
  df_size :: int
  df_classification :: string
  df_executable_kind :: string

record game_module =
  gm_path :: string
  gm_size :: int
  gm_executable_kind :: string
  gm_output_path :: "string option"
  gm_is_boot :: bool

record disc_resource =
  dz_path :: string
  dz_size :: int
  dz_output_path :: string

record disc_manifest =
  dm_source_name :: string
  dm_image_format :: string
  dm_title :: "string option"
  dm_disc_id :: "string option"
  dm_disc_version :: "string option"
  dm_system_version :: "string option"
  dm_boot_path :: "string option"
  dm_files :: "disc_file list"
  dm_modules :: "game_module list"
  dm_warnings :: "disc_warning list"

section \<open>Names and kinds\<close>

definition PARAM_SFO :: string where "PARAM_SFO = ''PSP_GAME/PARAM.SFO''"
definition EBOOT :: string where "EBOOT = ''PSP_GAME/SYSDIR/EBOOT.BIN''"
definition BOOT :: string where "BOOT = ''PSP_GAME/SYSDIR/BOOT.BIN''"
definition METADATA_NAMES :: "string list" where
  "METADATA_NAMES =
     [PARAM_SFO, ''UMD_DATA.BIN'', ''PSP_GAME/ICON0.PNG'', ''PSP_GAME/PIC0.PNG'', ''PSP_GAME/PIC1.PNG'']"
definition COPY_CHUNK_BYTES :: int where "COPY_CHUNK_BYTES = 1024 * 1024"

text \<open>A name without its ISO9660 version, when what follows the last semicolon is a number.\<close>

definition without_version :: "string \<Rightarrow> string" where
  "without_version part =
     (let suffix = rev (takeWhile (\<lambda>c. c \<noteq> CHR '';'') (rev part)) in
      if CHR '';'' \<in> set part \<and> is_decimal suffix then take (length part - Suc (length suffix)) part else part)"

definition logical_path :: "string \<Rightarrow> string" where
  "logical_path physical = join_with ''/'' (map without_version (path_parts physical))"

definition executable_kind_of :: "bytes \<Rightarrow> string" where
  "executable_kind_of magic =
     (if py_startswith magic [0x7F, 0x45, 0x4C, 0x46] 0 then ''elf''
      else if py_startswith magic (str_bytes ''~PSP'') 0 then ''psp_container''
      else ''unknown'')"

text \<open>\<open>fp.read(n)\<close> and \<open>fp.read()\<close> of a file of the volume.\<close>

definition read_prefix :: "iso_volume \<Rightarrow> string \<Rightarrow> nat \<Rightarrow> (iso_failure, bytes) result" where
  "read_prefix v path n =
     bindE (iv_member v path) (\<lambda>(bs, tail).
     case tail of Some f \<Rightarrow> if length bs < n then Inl f else Inr (take n bs) | None \<Rightarrow> Inr (take n bs))"

definition read_member :: "iso_volume \<Rightarrow> string \<Rightarrow> (iso_failure, bytes) result" where
  "read_member v path =
     bindE (iv_member v path) (\<lambda>(bs, tail). case tail of Some f \<Rightarrow> Inl f | None \<Rightarrow> Inr bs)"

definition physical_path :: "string \<Rightarrow> string \<Rightarrow> string" where
  "physical_path dir name = (let p = path_join dir name in if path_absolute p then p else ''/'' @ p)"

definition walked_file :: "iso_volume \<Rightarrow> string \<Rightarrow> (iso_failure, iso_file) result" where
  "walked_file v physical =
     bindE (iv_length v physical) (\<lambda>n.
     bindE (read_prefix v physical 4) (\<lambda>magic.
     Inr \<lparr> iz_physical = physical, iz_logical = logical_path physical, iz_size = n, iz_magic = magic \<rparr>))"

definition walk_files :: "iso_volume \<Rightarrow> (iso_failure, iso_file list) result" where
  "walk_files v =
     (case iv_walk v of
        (dirs, failure) \<Rightarrow>
          bindE (mapE (walked_file v) (concat (map (\<lambda>(dir, names). map (physical_path dir) names) dirs))) (\<lambda>files.
          case failure of Some f \<Rightarrow> Inl f | None \<Rightarrow> Inr (sort_key (\<lambda>f. casefold (iz_logical f)) files)))"

text \<open>Of the files with the name of a boot executable, in any case, the last one is looked at.\<close>

definition boot_candidate :: "iso_file list \<Rightarrow> string \<Rightarrow> string option" where
  "boot_candidate files name =
     (case map_of (rev (map (\<lambda>f. (casefold (iz_logical f), f)) files)) (casefold name) of
        None \<Rightarrow> None
      | Some f \<Rightarrow> if executable_kind_of (iz_magic f) \<noteq> ''unknown'' then Some (iz_logical f) else None)"

definition choose_boot :: "iso_file list \<Rightarrow> string option" where
  "choose_boot files = (case boot_candidate files EBOOT of Some p \<Rightarrow> Some p | None \<Rightarrow> boot_candidate files BOOT)"

definition ends_with :: "string \<Rightarrow> string \<Rightarrow> bool" where
  "ends_with s suffix \<longleftrightarrow> length suffix \<le> length s \<and> drop (length s - length suffix) s = suffix"

definition classification_of :: "string \<Rightarrow> iso_file \<Rightarrow> string" where
  "classification_of boot_path item =
     (let folded = casefold (iz_logical item) in
      if folded = casefold boot_path then ''boot''
      else if folded \<in> set (map casefold METADATA_NAMES) \<or> ends_with folded ''/param.sfo'' then ''metadata''
      else if ends_with folded ''.prx'' \<or> executable_kind_of (iz_magic item) \<noteq> ''unknown'' then ''module''
      else ''resource'')"

section \<open>Safe paths\<close>

definition joined_parts :: "string \<Rightarrow> string list \<Rightarrow> string" where
  "joined_parts dir parts = (if parts = [] then dir else path_join dir (join_with ''/'' parts))"

text \<open>A relative path below a directory, once both are resolved: where it is written to.\<close>

definition resolved_below :: "match_host \<Rightarrow> string \<Rightarrow> string \<Rightarrow> string option" where
  "resolved_below h dir path =
     (if path_escapes path then None
      else let base = mh_resolve h dir; target = mh_resolve h (joined_parts base (path_parts path)) in
        if relative_to target base = None then None else Some target)"

definition safe_target :: "disc_host \<Rightarrow> string \<Rightarrow> string \<Rightarrow> (disc_error, string) result" where
  "safe_target h dir path = from_option (Unsafe_Extraction path) (resolved_below (disc_match_host h) dir path)"

text \<open>The target and its parents down to the directory, none of which may be a link.\<close>

definition source_chain :: "string \<Rightarrow> string list \<Rightarrow> string list" where
  "source_chain base parts = map (\<lambda>k. joined_parts base (take k parts)) (rev [0..<Suc (length parts)])"

definition safe_source_file :: "disc_host \<Rightarrow> file_store \<Rightarrow> string \<Rightarrow> string \<Rightarrow> (disc_error, string) result" where
  "safe_source_file h fs dir path =
     (if path_escapes path then Inl (Source_Unsafe path)
      else
        let base = mh_resolve h dir; target = joined_parts base (path_parts path) in
        case find (dk_symlink h) (source_chain base (path_parts path)) of
          Some link \<Rightarrow> Inl (Symlink_In_Source link)
        | None \<Rightarrow>
            let resolved = mh_resolve h target in
            if relative_to resolved base = None then Inl (Source_Unsafe path)
            else if fs resolved = None then Inl (Source_Missing path)
            else Inr resolved)"

section \<open>Copying\<close>

definition put_bytes :: "disc_host \<Rightarrow> string \<Rightarrow> bytes \<Rightarrow> (file_store, disc_error, unit) action" where
  "put_bytes h path bs fs = (if mh_writable h path then (Inr (), fs(path \<mapsto> bs)) else (Inl (Write_Refused path), fs))"

text \<open>A content that fails after a first part leaves the whole chunks of that part behind.\<close>

definition copy_iso_file :: "disc_host \<Rightarrow> iso_volume \<Rightarrow> string \<Rightarrow> string \<Rightarrow> (file_store, disc_error, unit) action" where
  "copy_iso_file h v physical destination =
     (case iv_member v physical of
        Inl f \<Rightarrow> raiseS (iso_error f)
      | Inr (bs, None) \<Rightarrow> put_bytes h destination bs
      | Inr (bs, Some f) \<Rightarrow>
          thenS (put_bytes h destination (py_slice bs 0 (blen bs div COPY_CHUNK_BYTES * COPY_CHUNK_BYTES))) (raiseS (iso_error f)))"

definition copy_path_file :: "disc_host \<Rightarrow> string \<Rightarrow> string \<Rightarrow> (file_store, disc_error, unit) action" where
  "copy_path_file h source destination =
     bindS (readS (\<lambda>fs. fs source)) (\<lambda>content.
     bindS (liftS (from_option (Source_Unreadable source) content)) (put_bytes h destination))"

section \<open>Metadata\<close>

text \<open>The dictionary of the SFO in the order its keys were first set, and its JSON in the order of the keys.\<close>

definition sfo_values :: "(string \<times> sfo_value) list \<Rightarrow> (string \<times> sfo_value) list" where
  "sfo_values items = fold (\<lambda>(key, value) d. dict_set d key value) items []"

definition sfo_value_json :: "sfo_value \<Rightarrow> json" where
  "sfo_value_json value =
     (case value of Sfo_Text s \<Rightarrow> JStr s | Sfo_Int n \<Rightarrow> JInt n
      | Sfo_Bytes bs \<Rightarrow> JObj [(''raw_hex'', JStr (concat (map (\<lambda>b. casefold (hex_upper 2 (uint b))) bs)))])"

definition json_safe_sfo :: "(string \<times> sfo_value) list \<Rightarrow> json" where
  "json_safe_sfo values = JObj (map (\<lambda>(k, v). (k, sfo_value_json v)) (sort_key (\<lambda>kv. casefold (fst kv)) values))"

definition string_value :: "(string \<times> sfo_value) list \<Rightarrow> string \<Rightarrow> string option" where
  "string_value values key = (case map_of values key of Some (Sfo_Text s) \<Rightarrow> Some s | _ \<Rightarrow> None)"

definition warning_text :: "disc_host \<Rightarrow> disc_warning \<Rightarrow> string" where
  "warning_text h w =
     (case w of
        Sfo_Unparsable e \<Rightarrow> ''PARAM.SFO could not be parsed: '' @ dk_print h e
      | Sfo_Absent \<Rightarrow> ''PSP_GAME/PARAM.SFO is missing'')"

definition disc_file_json :: "disc_file \<Rightarrow> json" where
  "disc_file_json f =
     JObj [(''path'', JStr (df_path f)), (''size'', JInt (df_size f)), (''classification'', JStr (df_classification f)),
       (''executable_kind'', JStr (df_executable_kind f))]"

definition game_module_json :: "game_module \<Rightarrow> json" where
  "game_module_json m =
     JObj [(''path'', JStr (gm_path m)), (''size'', JInt (gm_size m)), (''executable_kind'', JStr (gm_executable_kind m)),
       (''output_path'', json_of_option JStr (gm_output_path m)), (''is_boot'', JBool (gm_is_boot m))]"

definition manifest_json :: "disc_host \<Rightarrow> disc_manifest \<Rightarrow> json" where
  "manifest_json h m =
     JObj [(''source_name'', JStr (dm_source_name m)), (''image_format'', JStr (dm_image_format m)),
       (''title'', json_of_option JStr (dm_title m)), (''disc_id'', json_of_option JStr (dm_disc_id m)),
       (''disc_version'', json_of_option JStr (dm_disc_version m)),
       (''psp_system_version'', json_of_option JStr (dm_system_version m)),
       (''boot_path'', json_of_option JStr (dm_boot_path m)), (''files'', JList (map disc_file_json (dm_files m))),
       (''modules'', JList (map game_module_json (dm_modules m))),
       (''warnings'', JList (map (\<lambda>w. JStr (warning_text h w)) (dm_warnings m)))]"

definition metadata_path :: "disc_host \<Rightarrow> string \<Rightarrow> string \<Rightarrow> string" where
  "metadata_path h output name = mh_resolve h (path_join output (''metadata/'' @ name))"

definition write_metadata ::
    "disc_host \<Rightarrow> string \<Rightarrow> disc_manifest \<Rightarrow> (string \<times> sfo_value) list \<Rightarrow> (file_store, disc_error, unit) action" where
  "write_metadata h output m values =
     thenS (put_bytes h (metadata_path h output ''disc.json'') (json_document (disc_match_host h) (manifest_json h m)))
       (put_bytes h (metadata_path h output ''param_sfo.json'') (json_document (disc_match_host h) (json_safe_sfo values)))"

section \<open>The manifest of a scan\<close>

text \<open>What both scans make of the files: their records, and the modules with where each was copied to.\<close>

definition file_record_of :: "string \<Rightarrow> iso_file \<Rightarrow> disc_file" where
  "file_record_of boot_path item =
     \<lparr> df_path = iz_logical item, df_size = iz_size item, df_classification = classification_of boot_path item,
       df_executable_kind = executable_kind_of (iz_magic item) \<rparr>"

definition module_record_of :: "string \<Rightarrow> iso_file \<Rightarrow> string option \<Rightarrow> game_module" where
  "module_record_of boot_path item output =
     \<lparr> gm_path = iz_logical item, gm_size = iz_size item, gm_executable_kind = executable_kind_of (iz_magic item),
       gm_output_path = output, gm_is_boot = (classification_of boot_path item = ''boot'') \<rparr>"

definition is_module :: "string \<Rightarrow> iso_file \<Rightarrow> bool" where
  "is_module boot_path item \<longleftrightarrow> classification_of boot_path item \<in> {''boot'', ''module''}"

definition manifest_of ::
    "string \<Rightarrow> string \<Rightarrow> string \<Rightarrow> (string \<times> sfo_value) list \<Rightarrow> disc_warning list \<Rightarrow> iso_file list \<Rightarrow> game_module list \<Rightarrow>
       disc_manifest" where
  "manifest_of source_name format boot_path values warnings files modules =
     \<lparr> dm_source_name = source_name, dm_image_format = format, dm_title = string_value values ''TITLE'',
       dm_disc_id = string_value values ''DISC_ID'', dm_disc_version = string_value values ''DISC_VERSION'',
       dm_system_version = string_value values ''PSP_SYSTEM_VER'', dm_boot_path = Some boot_path,
       dm_files = sort_key (\<lambda>f. casefold (df_path f)) (map (file_record_of boot_path) files),
       dm_modules = sort_key (\<lambda>m. casefold (gm_path m)) modules, dm_warnings = warnings \<rparr>"

text \<open>A target as it is shown: relative to the resolved output directory.\<close>

definition shown_path :: "disc_host \<Rightarrow> string \<Rightarrow> string \<Rightarrow> (disc_error, string) result" where
  "shown_path h output target = from_option (Outside_Output target) (relative_to target (mh_resolve h output))"

type_synonym copier = "string \<Rightarrow> (file_store, disc_error, unit) action"

text \<open>The source of a file is found first, which gives what copies it to its target.\<close>

definition extract_module ::
    "disc_host \<Rightarrow> string \<Rightarrow> string option \<Rightarrow> (iso_file \<Rightarrow> (file_store, disc_error, copier) action) \<Rightarrow> iso_file \<Rightarrow>
       (file_store, disc_error, game_module) action" where
  "extract_module h boot_path output find_source item =
     (case output of
        None \<Rightarrow> returnS (module_record_of boot_path item None)
      | Some out \<Rightarrow>
          bindS (find_source item) (\<lambda>copy.
          bindS (liftS (safe_target h (path_join out ''modules'') (iz_logical item))) (\<lambda>target.
          thenS (copy target)
            (bindS (liftS (shown_path h out target)) (\<lambda>shown. returnS (module_record_of boot_path item (Some shown)))))))"

definition finish_scan ::
    "disc_host \<Rightarrow> string \<Rightarrow> string \<Rightarrow> string option \<Rightarrow> (iso_file \<Rightarrow> (file_store, disc_error, copier) action) \<Rightarrow>
       string \<Rightarrow> (string \<times> sfo_value) list \<times> disc_warning list \<Rightarrow> iso_file list \<Rightarrow>
       (file_store, disc_error, disc_manifest) action" where
  "finish_scan h source_name format output find_source boot_path sfo files =
     bindS (mapS (extract_module h boot_path output find_source) (filter (is_module boot_path) files)) (\<lambda>modules.
     let m = manifest_of source_name format boot_path (fst sfo) (snd sfo) files modules in
     case output of
       None \<Rightarrow> returnS m
     | Some out \<Rightarrow> thenS (write_metadata h out m (fst sfo)) (returnS m))"

definition sfo_file :: "iso_file list \<Rightarrow> iso_file option" where
  "sfo_file files = find (\<lambda>f. casefold (iz_logical f) = casefold PARAM_SFO) files"

definition parsed_sfo :: "bytes \<Rightarrow> (disc_error, (string \<times> sfo_value) list \<times> disc_warning list) result" where
  "parsed_sfo data =
     (case parse_sfo_items data of
        Inr items \<Rightarrow> Inr (sfo_values items, [])
      | Inl e \<Rightarrow> if e = Sfo_struct_error then Inl Sfo_Crash else Inr ([], [Sfo_Unparsable (Sfo_Rejected e)]))"

section \<open>Scanning a disc\<close>

definition volume_sfo :: "iso_volume \<Rightarrow> iso_file list \<Rightarrow> (disc_error, (string \<times> sfo_value) list \<times> disc_warning list) result" where
  "volume_sfo v files =
     (case sfo_file files of
        None \<Rightarrow> Inr ([], [Sfo_Absent])
      | Some f \<Rightarrow>
          (case read_member v (iz_physical f) of
             Inr data \<Rightarrow> parsed_sfo data
           | Inl (Stream_Error e) \<Rightarrow>
               if stream_parse_error e then Inr ([], [Sfo_Unparsable (Sfo_Stream e)]) else Inl (iso_error (Stream_Error e))
           | Inl failure \<Rightarrow> Inl (iso_error failure)))"

fun format_text :: "disc_format \<Rightarrow> string" where
  "format_text Iso_Format = ''iso''"
| "format_text Cso_Format = ''cso''"

definition open_disc_stream :: "disc_host \<Rightarrow> file_store \<Rightarrow> string \<Rightarrow> (disc_error, disc_format \<times> disc_stream) result" where
  "open_disc_stream h fs source =
     bindE (from_option (Source_Unreadable source) (fs (mh_resolve h source))) (\<lambda>data.
     map_sum Stream_Failed id
       (bindE (detect_disc_format (py_slice data 0 (ISO_PVD_OFFSET + blen ISO_PVD_MAGIC))) (\<lambda>format.
        case format of
          Iso_Format \<Rightarrow> Inr (format, Iso_Stream data)
        | Cso_Format \<Rightarrow> bindE (open_cso data) (\<lambda>reader. Inr (format, Cso_Stream reader)))))"

definition open_volume ::
    "disc_host \<Rightarrow> file_store \<Rightarrow> string \<Rightarrow> (disc_error, disc_format \<times> iso_volume \<times> iso_file list) result" where
  "open_volume h fs source =
     bindE (from_option Pycdlib_Missing (dk_iso h)) (\<lambda>library.
     bindE (open_disc_stream h fs source) (\<lambda>(format, stream).
     bindE (map_sum iso_error id (library stream)) (\<lambda>v.
     bindE (map_sum iso_error id (walk_files v)) (\<lambda>files. Inr (format, v, files)))))"

definition disc_source :: "disc_host \<Rightarrow> iso_volume \<Rightarrow> iso_file \<Rightarrow> (file_store, disc_error, copier) action" where
  "disc_source h v item = returnS (copy_iso_file h v (iz_physical item))"

definition scan_game_disc ::
    "disc_host \<Rightarrow> string \<Rightarrow> string option \<Rightarrow> (file_store, disc_error, disc_manifest) action" where
  "scan_game_disc h source output =
     bindS (readS (\<lambda>fs. open_volume h fs source)) (\<lambda>opened.
     bindS (liftS opened) (\<lambda>(format, v, files).
     bindS (liftS (from_option No_Disc_Boot (choose_boot files))) (\<lambda>boot_path.
     convertS wrap_error
       (bindS (liftS (volume_sfo v files)) (\<lambda>sfo.
        finish_scan h source (format_text format) output (disc_source h v) boot_path sfo files)))))"

section \<open>Scanning a directory\<close>

definition directory_file :: "disc_host \<Rightarrow> file_store \<Rightarrow> string \<Rightarrow> string \<Rightarrow> (disc_error, iso_file option) result" where
  "directory_file h fs source relative =
     (let candidate = path_join source relative in
      if dk_symlink h candidate then Inl (Symlink_In_Source candidate)
      else if fs (mh_resolve h candidate) = None then Inr None
      else bindE (safe_source_file h fs (mh_resolve h source) relative) (\<lambda>safe.
           bindE (from_option (Source_Unreadable safe) (fs safe)) (\<lambda>data.
           Inr (Some \<lparr> iz_physical = relative, iz_logical = relative, iz_size = blen data, iz_magic = take 4 data \<rparr>))))"

definition directory_files :: "disc_host \<Rightarrow> file_store \<Rightarrow> string \<Rightarrow> (disc_error, iso_file list) result" where
  "directory_files h fs source =
     (if dk_symlink h source \<or> \<not> mh_is_dir h source then Inl (Not_A_Directory source)
      else bindE (mapE (directory_file h fs source)
             (sort_key (\<lambda>relative. casefold (path_join source relative)) (dk_tree h source))) (\<lambda>found.
           let files = List.map_filter id found in if files = [] then Inl Source_Empty else Inr files))"

definition directory_sfo ::
    "disc_host \<Rightarrow> file_store \<Rightarrow> string \<Rightarrow> iso_file list \<Rightarrow> (disc_error, (string \<times> sfo_value) list \<times> disc_warning list) result" where
  "directory_sfo h fs source files =
     (case sfo_file files of
        None \<Rightarrow> Inr ([], [Sfo_Absent])
      | Some f \<Rightarrow>
          (case safe_source_file h fs (mh_resolve h source) (iz_logical f) of
             Inl e \<Rightarrow> Inr ([], [Sfo_Unparsable (Sfo_Source e)])
           | Inr path \<Rightarrow> bindE (from_option (Source_Unreadable path) (fs path)) parsed_sfo))"

definition directory_source :: "disc_host \<Rightarrow> string \<Rightarrow> iso_file \<Rightarrow> (file_store, disc_error, copier) action" where
  "directory_source h source item =
     bindS (readS (\<lambda>fs. safe_source_file h fs (mh_resolve h source) (iz_logical item))) (\<lambda>found.
     bindS (liftS found) (\<lambda>path. returnS (copy_path_file h path)))"

definition scan_game_directory ::
    "disc_host \<Rightarrow> string \<Rightarrow> string option \<Rightarrow> (file_store, disc_error, disc_manifest) action" where
  "scan_game_directory h source output =
     bindS (readS (\<lambda>fs. directory_files h fs source)) (\<lambda>found.
     bindS (liftS found) (\<lambda>files.
     bindS (liftS (from_option No_Directory_Boot (choose_boot files))) (\<lambda>boot_path.
     bindS (readS (\<lambda>fs. directory_sfo h fs source files)) (\<lambda>parsed.
     bindS (liftS parsed) (\<lambda>sfo.
     finish_scan h source ''directory'' output (directory_source h source) boot_path sfo files)))))"

section \<open>Extracting the resources\<close>

definition resource_files :: "disc_manifest \<Rightarrow> disc_file list" where
  "resource_files m = sort_key (\<lambda>f. casefold (df_path f)) (filter (\<lambda>f. df_classification f = ''resource'') (dm_files m))"

definition resources_root :: "string \<Rightarrow> string" where
  "resources_root output = path_join output ''resources/files''"

definition resource_record :: "disc_host \<Rightarrow> string \<Rightarrow> disc_file \<Rightarrow> string \<Rightarrow> (disc_error, disc_resource) result" where
  "resource_record h output f target =
     bindE (shown_path h output target) (\<lambda>shown.
     Inr \<lparr> dz_path = df_path f, dz_size = df_size f, dz_output_path = shown \<rparr>)"

text \<open>
  Without a manifest the source is scanned for one. Every target is checked before the disc is opened again; the last file of a logical
  path is copied.
\<close>

definition copy_disc_resource ::
    "disc_host \<Rightarrow> string \<Rightarrow> iso_volume \<Rightarrow> iso_file list \<Rightarrow> (string \<times> string) list \<Rightarrow> disc_file \<Rightarrow>
       (file_store, disc_error, disc_resource) action" where
  "copy_disc_resource h output v files targets f =
     bindS (liftS (from_option (Resource_Missing (df_path f))
       (map_of (rev (map (\<lambda>i. (iz_logical i, iz_physical i)) files)) (df_path f)))) (\<lambda>physical.
     let target = the (map_of (rev targets) (df_path f)) in
     thenS (copy_iso_file h v physical target) (liftS (resource_record h output f target)))"

definition extract_disc_resources ::
    "disc_host \<Rightarrow> string \<Rightarrow> string \<Rightarrow> disc_manifest option \<Rightarrow> (file_store, disc_error, disc_resource list) action" where
  "extract_disc_resources h source output manifest =
     bindS (case manifest of Some m \<Rightarrow> returnS m | None \<Rightarrow> scan_game_disc h source None) (\<lambda>m.
     bindS (liftS (mapE (\<lambda>f. bindE (safe_target h (resources_root output) (df_path f)) (\<lambda>t. Inr (df_path f, t)))
       (resource_files m))) (\<lambda>targets.
     if resource_files m = [] then returnS []
     else bindS (readS (\<lambda>fs. open_volume h fs source)) (\<lambda>opened.
       bindS (liftS opened) (\<lambda>(format, v, files).
       convertS wrap_error (mapS (copy_disc_resource h output v files targets) (resource_files m))))))"

definition copy_directory_resource ::
    "disc_host \<Rightarrow> string \<Rightarrow> string \<Rightarrow> disc_file \<Rightarrow> (file_store, disc_error, disc_resource) action" where
  "copy_directory_resource h source output f =
     bindS (readS (\<lambda>fs. safe_source_file h fs (mh_resolve h source) (df_path f))) (\<lambda>found.
     bindS (liftS found) (\<lambda>path.
     bindS (liftS (safe_target h (resources_root output) (df_path f))) (\<lambda>target.
     thenS (copy_path_file h path target) (liftS (resource_record h output f target)))))"

definition extract_directory_resources ::
    "disc_host \<Rightarrow> string \<Rightarrow> string \<Rightarrow> disc_manifest option \<Rightarrow> (file_store, disc_error, disc_resource list) action" where
  "extract_directory_resources h source output manifest =
     bindS (case manifest of Some m \<Rightarrow> returnS m | None \<Rightarrow> scan_game_directory h source None) (\<lambda>m.
     mapS (copy_directory_resource h source output) (resource_files m))"

section \<open>Nothing is written outside the output\<close>

definition below :: "disc_host \<Rightarrow> string \<Rightarrow> string \<Rightarrow> bool" where
  "below h dir p \<longleftrightarrow> relative_to p (mh_resolve h dir) \<noteq> None"

definition scan_output :: "disc_host \<Rightarrow> string option \<Rightarrow> string \<Rightarrow> bool" where
  "scan_output h dest p \<longleftrightarrow>
     (case dest of
        None \<Rightarrow> False
      | Some out \<Rightarrow> below h (path_join out ''modules'') p \<or> p = metadata_path h out ''disc.json'' \<or>
                    p = metadata_path h out ''param_sfo.json'')"

definition writes_within :: "(string \<Rightarrow> bool) \<Rightarrow> (file_store, 'e, 'a) action \<Rightarrow> bool" where
  "writes_within P m \<longleftrightarrow> (\<forall>fs p. snd (m fs) p \<noteq> fs p \<longrightarrow> P p)"

lemma writes_withinI:
  assumes "\<And>start. preserves (\<lambda>fs. \<forall>p. \<not> P p \<longrightarrow> fs p = start p) m"
  shows "writes_within P m"
  unfolding writes_within_def using assms unfolding preserves_def by metis

lemma match_host_truncate [simp]: "mh_resolve (disc_match_host h) = mh_resolve h"
  by (simp add: disc_match_host_def match_host.truncate_def)

lemma resolved_below_inside: "resolved_below m dir path = Some t \<Longrightarrow> relative_to t (mh_resolve m dir) \<noteq> None"
  by (auto simp: resolved_below_def Let_def split: if_splits)

lemma safe_target_below: "safe_target h dir path = Inr t \<Longrightarrow> below h dir t"
  using resolved_below_inside [of "disc_match_host h" dir path t] by (simp add: safe_target_def below_def)

lemma put_bytes_keeps: "P path \<Longrightarrow> preserves (\<lambda>fs. \<forall>p. \<not> P p \<longrightarrow> fs p = start p) (put_bytes h path bs)"
  by (auto simp: preserves_def put_bytes_def)

lemma copy_iso_file_keeps: "P t \<Longrightarrow> preserves (\<lambda>fs. \<forall>p. \<not> P p \<longrightarrow> fs p = start p) (copy_iso_file h v physical t)"
  by (auto simp: copy_iso_file_def split: sum.splits option.splits intro!: preserves_intros put_bytes_keeps)

lemma copy_path_file_keeps: "P t \<Longrightarrow> preserves (\<lambda>fs. \<forall>p. \<not> P p \<longrightarrow> fs p = start p) (copy_path_file h source t)"
  unfolding copy_path_file_def by (intro preserves_intros put_bytes_keeps)

lemma preserves_bind_lift:
  assumes "\<And>x. r = Inr x \<Longrightarrow> preserves P (f x)"
  shows "preserves P (bindS (liftS r) f)"
  using assms by (cases r) (auto simp: preserves_def bindS_def)

text \<open>What finds a source gives something that writes its target only.\<close>

definition copies_to_target :: "(iso_file \<Rightarrow> (file_store, disc_error, copier) action) \<Rightarrow> bool" where
  "copies_to_target find_source \<longleftrightarrow>
     (\<forall>item fs copy fs' P start. find_source item fs = (Inr copy, fs') \<longrightarrow>
        (\<forall>t. P t \<longrightarrow> preserves (\<lambda>fs. \<forall>p. \<not> P p \<longrightarrow> fs p = start p) (copy t))) \<and>
     (\<forall>item fs. snd (find_source item fs) = fs)"

lemma disc_copies_to_target: "copies_to_target (disc_source h v)"
  by (auto simp: copies_to_target_def disc_source_def intro: copy_iso_file_keeps)

lemma directory_copies_to_target: "copies_to_target (directory_source h source)"
proof -
  have "snd (directory_source h source item fs) = fs" for item fs
    by (simp add: directory_source_def bindS_def split: sum.splits)
  then show ?thesis
    by (auto simp: copies_to_target_def directory_source_def bindS_Inr intro: copy_path_file_keeps)
qed

lemma preserves_bind_source:
  assumes "copies_to_target find_source"
    and "\<And>copy. (\<And>t Q. Q t \<Longrightarrow> preserves (\<lambda>fs. \<forall>p. \<not> Q p \<longrightarrow> fs p = start p) (copy t)) \<Longrightarrow> preserves P (f copy)"
  shows "preserves P (bindS (find_source item) f)"
proof (rule preservesI)
  fix fs assume p: "P fs"
  have same: "snd (find_source item fs) = fs" using assms(1) by (simp add: copies_to_target_def)
  show "P (snd (bindS (find_source item) f fs))"
  proof (cases "find_source item fs")
    case (Pair r fs')
    with same have fs': "fs' = fs" by simp
    show ?thesis
    proof (cases r)
      case (Inr copy)
      then have "preserves P (f copy)"
        using Pair assms(1) by (intro assms(2)) (simp add: copies_to_target_def, blast)
      with p Pair Inr fs' show ?thesis by (simp add: bindS_def preserves_def)
    qed (use p Pair fs' in \<open>simp add: bindS_def\<close>)
  qed
qed

lemma finish_scan_keeps:
  assumes "copies_to_target find_source"
  shows "preserves (\<lambda>fs. \<forall>p. \<not> scan_output h dest p \<longrightarrow> fs p = start p)
    (finish_scan h source_name format dest find_source boot_path sfo files)"
proof -
  let ?K = "\<lambda>fs. \<forall>p. \<not> scan_output h dest p \<longrightarrow> fs p = start p"
  have module_keeps: "preserves ?K (extract_module h boot_path dest find_source item)" for item
  proof (cases dest)
    case (Some out)
    show ?thesis
      unfolding extract_module_def Some option.case
    proof (rule preserves_bind_source [OF assms], rule preserves_bind_lift)
      fix copy :: copier and t
      assume copy: "\<And>t Q. Q t \<Longrightarrow> preserves (\<lambda>fs. \<forall>p. \<not> Q p \<longrightarrow> fs p = start p) (copy t)"
        and "safe_target h (path_join out ''modules'') (iz_logical item) = Inr t"
      then have "scan_output h (Some out) t" by (simp add: scan_output_def safe_target_below)
      from copy [of "scan_output h (Some out)", OF this]
      show "preserves (\<lambda>fs. \<forall>p. \<not> scan_output h (Some out) p \<longrightarrow> fs p = start p)
        (thenS (copy t) (bindS (liftS (shown_path h out t))
           (\<lambda>shown. returnS (module_record_of boot_path item (Some shown)))))"
        by (intro preserves_intros)
    qed
  qed (simp add: extract_module_def preserves_intros)
  have "preserves ?K (write_metadata h out m d)" if "dest = Some out" for out m d
    unfolding write_metadata_def using that
    by (intro preserves_intros put_bytes_keeps) (simp_all add: scan_output_def)
  with module_keeps show ?thesis
    unfolding finish_scan_def Let_def by (cases dest) (auto intro!: preserves_intros)
qed

lemma scan_game_disc_keeps:
  "preserves (\<lambda>fs. \<forall>p. \<not> scan_output h dest p \<longrightarrow> fs p = start p) (scan_game_disc h source dest)"
  unfolding scan_game_disc_def
  by (auto intro!: preserves_intros finish_scan_keeps disc_copies_to_target split: prod.splits)

lemma scan_game_directory_keeps:
  "preserves (\<lambda>fs. \<forall>p. \<not> scan_output h dest p \<longrightarrow> fs p = start p) (scan_game_directory h source dest)"
  unfolding scan_game_directory_def
  by (intro preserves_intros finish_scan_keeps directory_copies_to_target)

lemma preserves_mapS_const: "(\<And>x. preserves P (f x)) \<Longrightarrow> preserves P (mapS f xs)"
  by (rule preserves_map)

lemma resources_written:
  "writes_within (below h (resources_root dest)) (copy_directory_resource h source dest f)"
  unfolding copy_directory_resource_def
  by (rule writes_withinI)
    (auto intro!: preserves_intros preserves_bind_lift copy_path_file_keeps dest: safe_target_below)

text \<open>Every target of a disc's resources was checked before.\<close>

lemma checked_targets_below:
  assumes "mapE (\<lambda>f. bindE (safe_target h (resources_root dest) (df_path f)) (\<lambda>t. Inr (df_path f, t))) fs = Inr targets"
    and "f \<in> set fs"
  shows "below h (resources_root dest) (the (map_of (rev targets) (df_path f)))"
proof -
  have all: "\<forall>(p, t) \<in> set targets. below h (resources_root dest) t"
    using mapE_set [OF assms(1)] by (fastforce simp: bindE_Inr_iff intro: safe_target_below)
  have "map fst targets = map df_path fs"
    using assms(1) by (induction fs arbitrary: targets) (auto simp: bindE_Inr_iff)
  then have "df_path f \<in> fst ` set targets" using assms(2) by (metis image_eqI list.set_map)
  then obtain t where t: "map_of (rev targets) (df_path f) = Some t"
    by (metis domIff dom_map_of_conv_image_fst option.exhaust set_rev)
  then have "(df_path f, t) \<in> set targets" by (auto dest: map_of_SomeD)
  with all t show ?thesis by auto
qed

lemma copy_disc_resource_keeps:
  "below h (resources_root dest) (the (map_of (rev targets) (df_path f))) \<Longrightarrow>
     preserves (\<lambda>fs. \<forall>p. \<not> below h (resources_root dest) p \<longrightarrow> fs p = start p)
       (copy_disc_resource h dest v files targets f)"
  unfolding copy_disc_resource_def Let_def by (intro preserves_intros copy_iso_file_keeps)

lemma preserves_map_on:
  "(\<And>x. x \<in> set xs \<Longrightarrow> preserves P (f x)) \<Longrightarrow> preserves P (mapS f xs)"
  by (induction xs) (auto intro!: preserves_intros)

lemma scan_writes_nothing:
  "preserves (\<lambda>fs. \<forall>p. \<not> Q p \<longrightarrow> fs p = start p) (scan_game_disc h source None)"
  "preserves (\<lambda>fs. \<forall>p. \<not> Q p \<longrightarrow> fs p = start p) (scan_game_directory h source None)"
proof -
  have "preserves (\<lambda>fs. \<forall>p. \<not> scan_output h None p \<longrightarrow> fs p = fs0 p) (scan_game_disc h source None)"
    and "preserves (\<lambda>fs. \<forall>p. \<not> scan_output h None p \<longrightarrow> fs p = fs0 p) (scan_game_directory h source None)" for fs0
    by (rule scan_game_disc_keeps scan_game_directory_keeps)+
  then have "snd (scan_game_disc h source None fs) p = fs p" "snd (scan_game_directory h source None fs) p = fs p" for fs p
    by (simp_all add: preserves_def scan_output_def)
  then show "preserves (\<lambda>fs. \<forall>p. \<not> Q p \<longrightarrow> fs p = start p) (scan_game_disc h source None)"
    "preserves (\<lambda>fs. \<forall>p. \<not> Q p \<longrightarrow> fs p = start p) (scan_game_directory h source None)"
    by (simp_all add: preserves_def)
qed

lemma disc_resources_written:
  "writes_within (below h (resources_root dest)) (extract_disc_resources h source dest manifest)"
  unfolding extract_disc_resources_def
  by (rule writes_withinI)
    (auto intro!: preserves_intros preserves_bind_lift preserves_map_on copy_disc_resource_keeps scan_writes_nothing
      elim: checked_targets_below split: option.split prod.split)

lemma directory_resources_written:
  "writes_within (below h (resources_root dest)) (extract_directory_resources h source dest manifest)"
proof (rule writes_withinI)
  fix start
  have "preserves (\<lambda>fs. \<forall>p. \<not> below h (resources_root dest) p \<longrightarrow> fs p = start p) (copy_directory_resource h source dest f)" for f
    using resources_written [of h dest source f] unfolding writes_within_def preserves_def by metis
  then show "preserves (\<lambda>fs. \<forall>p. \<not> below h (resources_root dest) p \<longrightarrow> fs p = start p)
    (extract_directory_resources h source dest manifest)"
    unfolding extract_directory_resources_def
    by (auto intro!: preserves_intros scan_writes_nothing split: option.split)
qed

text \<open>
  Property C15. Whatever a disc or a directory holds, and however a scan or an extraction ends, it
  writes only below the resolved \<open>modules\<close> and \<open>resources/files\<close> directories of the output, and the two metadata files;
  a scan without an output directory writes nothing.
\<close>

theorem extraction_is_confined:
  "writes_within (scan_output h dest) (scan_game_disc h source dest) \<and>
   writes_within (scan_output h dest) (scan_game_directory h source dest) \<and>
   writes_within (below h (resources_root out)) (extract_disc_resources h source out manifest) \<and>
   writes_within (below h (resources_root out)) (extract_directory_resources h source out manifest)"
  by (intro conjI writes_withinI scan_game_disc_keeps scan_game_directory_keeps disc_resources_written
      directory_resources_written)

section \<open>The modules of a disc are extracted\<close>

definition module_files :: "string \<Rightarrow> iso_file list \<Rightarrow> iso_file list" where
  "module_files boot_path files = filter (is_module boot_path) files"

definition module_target :: "disc_host \<Rightarrow> string \<Rightarrow> iso_file \<Rightarrow> string option" where
  "module_target h out item = resolved_below (disc_match_host h) (path_join out ''modules'') (iz_logical item)"

text \<open>
  The manifest lists every file of the volume and every module among them with the path it was
  copied to; where no other module or metadata file has the target of a module, that file is its content.
\<close>

definition module_extracted ::
    "disc_host \<Rightarrow> string \<Rightarrow> iso_volume \<Rightarrow> iso_file list \<Rightarrow> file_store \<Rightarrow> iso_file \<Rightarrow> bool" where
  "module_extracted h out v others fs item \<longleftrightarrow>
     (\<exists>t content. module_target h out item = Some t \<and> iv_member v (iz_physical item) = Inr (content, None) \<and>
        ((\<forall>j \<in> set others. module_target h out j = Some t \<longrightarrow> j = item) \<longrightarrow>
         t \<noteq> metadata_path h out ''disc.json'' \<longrightarrow> t \<noteq> metadata_path h out ''param_sfo.json'' \<longrightarrow>
         fs t = Some content))"

definition shown_module :: "disc_host \<Rightarrow> string \<Rightarrow> string \<Rightarrow> iso_file \<Rightarrow> game_module" where
  "shown_module h out boot_path item =
     module_record_of boot_path item (Option.bind (module_target h out item) (\<lambda>t. relative_to t (mh_resolve h out)))"

definition disc_scanned ::
    "disc_host \<Rightarrow> string \<Rightarrow> string \<Rightarrow> file_store \<Rightarrow> disc_manifest \<Rightarrow> file_store \<Rightarrow> bool" where
  "disc_scanned h source out fs m fs' \<longleftrightarrow>
     (\<exists>format v files boot_path.
        open_volume h fs source = Inr (format, v, files) \<and> choose_boot files = Some boot_path \<and>
        dm_boot_path m = Some boot_path \<and>
        dm_files m = sort_key (\<lambda>f. casefold (df_path f)) (map (file_record_of boot_path) files) \<and>
        dm_modules m = sort_key (\<lambda>g. casefold (gm_path g)) (map (shown_module h out boot_path) (module_files boot_path files)) \<and>
        (\<forall>item \<in> set (module_files boot_path files). module_extracted h out v (module_files boot_path files) fs' item))"

lemma copy_iso_file_Inr:
  "copy_iso_file h v physical t fs = (Inr u, fs') \<longleftrightarrow>
     (\<exists>content. iv_member v physical = Inr (content, None) \<and> mh_writable h t \<and> fs' = fs(t \<mapsto> content))"
  by (auto simp: copy_iso_file_def put_bytes_def action_Inr split: sum.splits option.splits prod.splits if_splits)

lemma extract_module_Inr:
  assumes "extract_module h boot_path (Some out) (disc_source h v) item fs = (Inr g, fs')"
  shows "g = shown_module h out boot_path item \<and>
     (\<exists>t content. module_target h out item = Some t \<and> iv_member v (iz_physical item) = Inr (content, None) \<and>
        fs' = fs(t \<mapsto> content))"
  using assms
  by (auto simp: extract_module_def disc_source_def action_Inr safe_target_def shown_path_def copy_iso_file_Inr shown_module_def module_target_def)

lemma extracted_modules:
  assumes "mapS (extract_module h boot_path (Some out) (disc_source h v)) items fs = (Inr gs, fs')"
  shows "gs = map (shown_module h out boot_path) items \<and>
     (\<forall>t c. fs t = Some c \<longrightarrow> (\<forall>j \<in> set items. module_target h out j \<noteq> Some t) \<longrightarrow> fs' t = Some c) \<and>
     (\<forall>item \<in> set items. \<exists>t content. module_target h out item = Some t \<and> iv_member v (iz_physical item) = Inr (content, None) \<and>
        ((\<forall>j \<in> set items. module_target h out j = Some t \<longrightarrow> j = item) \<longrightarrow> fs' t = Some content))"
  using assms
proof (induction items arbitrary: fs gs)
  case (Cons x items)
  obtain g fs1 rest where x: "extract_module h boot_path (Some out) (disc_source h v) x fs = (Inr g, fs1)"
    and rest: "mapS (extract_module h boot_path (Some out) (disc_source h v)) items fs1 = (Inr rest, fs')"
    and gs: "gs = g # rest"
    using Cons.prems by (auto simp: action_Inr)
  obtain t content where g: "g = shown_module h out boot_path x" and t: "module_target h out x = Some t"
    and member: "iv_member v (iz_physical x) = Inr (content, None)" and fs1: "fs1 = fs(t \<mapsto> content)"
    using extract_module_Inr [OF x] by blast
  note IH = Cons.IH [OF rest]
  have keeps: "fs' u = Some c" if "fs u = Some c" "\<forall>j \<in> set (x # items). module_target h out j \<noteq> Some u" for u c
    using that IH t by (auto simp: fs1)
  have here: "fs' t = Some content" if unique: "\<forall>j \<in> set (x # items). module_target h out j = Some t \<longrightarrow> j = x"
  proof (cases "x \<in> set items")
    case True
    with IH obtain t' content' where "module_target h out x = Some t'" "iv_member v (iz_physical x) = Inr (content', None)"
      "(\<forall>j \<in> set items. module_target h out j = Some t' \<longrightarrow> j = x) \<longrightarrow> fs' t' = Some content'" by blast
    with t member unique show ?thesis by auto
  next
    case False
    with unique have "\<forall>j \<in> set items. module_target h out j \<noteq> Some t" by auto
    with IH show ?thesis by (simp add: fs1)
  qed
  have later: "\<exists>u d. module_target h out item = Some u \<and> iv_member v (iz_physical item) = Inr (d, None) \<and>
        ((\<forall>j \<in> set (x # items). module_target h out j = Some u \<longrightarrow> j = item) \<longrightarrow> fs' u = Some d)"
    if "item \<in> set items" for item
    using IH that by auto
  show ?case
    using keeps here later t member gs g IH by auto
qed simp

lemma convertS_Inr: "convertS f m fs = (Inr x, fs') \<longleftrightarrow> m fs = (Inr x, fs')"
  by (auto simp: convertS_def split: prod.splits sum.splits)

lemma scanned_disc:
  assumes "scan_game_disc h source (Some out) fs = (Inr m, fs')"
  shows "disc_scanned h source out fs m fs'"
proof -
  obtain format v files boot_path sfo gs fs1 where
    opened: "open_volume h fs source = Inr (format, v, files)" and boot: "choose_boot files = Some boot_path" and
    copied: "mapS (extract_module h boot_path (Some out) (disc_source h v))
      (module_files boot_path files) fs = (Inr gs, fs1)" and
    m: "m = manifest_of source (format_text format) boot_path (fst sfo) (snd sfo) files gs" and
    written: "write_metadata h out m (fst sfo) fs1 = (Inr (), fs')"
    using assms
    by (fastforce simp: scan_game_disc_def action_Inr convertS_Inr finish_scan_def module_files_def Let_def)
  note modules = extracted_modules [OF copied]
  have kept: "fs' t = fs1 t" if "t \<noteq> metadata_path h out ''disc.json''" "t \<noteq> metadata_path h out ''param_sfo.json''" for t
    using written that by (auto simp: write_metadata_def action_Inr put_bytes_def split: if_splits)
  have "module_extracted h out v (module_files boot_path files) fs' item" if item: "item \<in> set (module_files boot_path files)" for item
  proof -
    obtain t content where "module_target h out item = Some t" "iv_member v (iz_physical item) = Inr (content, None)"
      "(\<forall>j \<in> set (module_files boot_path files). module_target h out j = Some t \<longrightarrow> j = item) \<longrightarrow> fs1 t = Some content"
      using modules item by blast
    then show ?thesis unfolding module_extracted_def using kept by (intro exI [of _ t] exI [of _ content]) auto
  qed
  then show ?thesis
    unfolding disc_scanned_def using opened boot modules
    by (intro exI [of _ format] exI [of _ v] exI [of _ files] exI [of _ boot_path]) (auto simp: m manifest_of_def)
qed

text \<open>
  Property C16. A scanned disc is reported and extracted as it is: the manifest has one record for every file of the
  volume, sorted and classified, and one for every executable among them with the path it was copied to,
  and the file at that path is the content of that executable unless another one has the same path.
\<close>

theorem scan_extracts_every_module:
  "scan_game_disc h source (Some out) fs = (Inr m, fs') \<Longrightarrow> disc_scanned h source out fs m fs'"
  by (rule scanned_disc)

definition sample_volume :: iso_volume where
  "sample_volume =
     \<lparr> iv_walk = ([(''/'', [''UMD_DATA.BIN;1'', ''DATA.BIN;1'']), (''/PSP_GAME/SYSDIR'', [''EBOOT.BIN;1''])], None),
       iv_length = (\<lambda>p. Inr (if p = ''/PSP_GAME/SYSDIR/EBOOT.BIN;1'' then 5 else 1)),
       iv_member = (\<lambda>p. Inr (if p = ''/PSP_GAME/SYSDIR/EBOOT.BIN;1'' then [0x7F, 0x45, 0x4C, 0x46, 1] else [0], None)) \<rparr>"

definition sample_disc_host :: disc_host where
  "sample_disc_host =
     \<lparr> mh_environ = (\<lambda>_. None), mh_which = (\<lambda>_. None), mh_resolve = (\<lambda>p. p), mh_is_dir = (\<lambda>_. False),
       mh_python = ''py'', mh_temporary = ''/tmp'', mh_writable = (\<lambda>_. True), mh_split_words = (\<lambda>s. Some [s]),
       mh_build = (\<lambda>_ _ fs. (Exited 0, fs)), mh_repr = (\<lambda>s. s), mh_differ = (\<lambda>_ _ _ _. (Exited 0, [])),
       mh_loads = (\<lambda>_. None), mh_dumps = (\<lambda>_. [0x7B]), mh_toml = (\<lambda>_ _. None), dk_symlink = (\<lambda>_. False),
       dk_tree = (\<lambda>_. []), dk_iso = Some (\<lambda>_. Inr sample_volume), dk_print = (\<lambda>_. ''error'') \<rparr>"

definition sample_disc_store :: file_store where
  "sample_disc_store p = (if p = ''/game.cso'' then Some sample_cso else None)"

definition sample_scan :: "(disc_error, disc_manifest) result \<times> file_store" where
  "sample_scan = scan_game_disc sample_disc_host ''/game.cso'' (Some ''/out'') sample_disc_store"

theorem scan_extracts_every_module_witness:
  "disc_scanned sample_disc_host ''/game.cso'' ''/out'' sample_disc_store (projr (fst sample_scan)) (snd sample_scan) \<and>
   map gm_output_path (dm_modules (projr (fst sample_scan))) = [Some ''modules/PSP_GAME/SYSDIR/EBOOT.BIN''] \<and>
   map df_classification (dm_files (projr (fst sample_scan))) = [''resource'', ''boot'', ''metadata''] \<and>
   snd sample_scan ''/out/modules/PSP_GAME/SYSDIR/EBOOT.BIN'' = Some [0x7F, 0x45, 0x4C, 0x46, 1]"
proof -
  have "case sample_scan of (Inr m, fs) \<Rightarrow>
      map gm_output_path (dm_modules m) = [Some ''modules/PSP_GAME/SYSDIR/EBOOT.BIN''] \<and>
      map df_classification (dm_files m) = [''resource'', ''boot'', ''metadata''] \<and>
      fs ''/out/modules/PSP_GAME/SYSDIR/EBOOT.BIN'' = Some [0x7F, 0x45, 0x4C, 0x46, 1] | _ \<Rightarrow> False"
    by code_simp
  then obtain m fs where sample: "sample_scan = (Inr m, fs)" and
    m: "map gm_output_path (dm_modules m) = [Some ''modules/PSP_GAME/SYSDIR/EBOOT.BIN'']"
      "map df_classification (dm_files m) = [''resource'', ''boot'', ''metadata'']"
      "fs ''/out/modules/PSP_GAME/SYSDIR/EBOOT.BIN'' = Some [0x7F, 0x45, 0x4C, 0x46, 1]"
    by (auto split: prod.splits sum.splits)
  then have run: "scan_game_disc sample_disc_host ''/game.cso'' (Some ''/out'') sample_disc_store = (Inr m, fs)"
    by (simp add: sample_scan_def)
  from scan_extracts_every_module [OF run] m show ?thesis by (simp add: sample)
qed

text \<open>
  Two versions of one file have the same logical path, so both are in the manifest and the second is
  written over the first.
\<close>

lemma versions_collide: "logical_path ''/A.PRX;1'' = logical_path ''/A.PRX;2''"
  by code_simp

end
