(* ===== verification/Game_Resources.thy ===== *)
theory Game_Resources
  imports Disc Containers Resource_Formats Csv_Text
begin

text \<open>
  \<open>game_resources.py\<close>: what the extracted resource files of a game are. Every file is recognised, scanned for
  embedded resources, and profiled as a container when it is unknown; a parser that accepts it lists its entries,
  which are extracted. The parsers are plug-ins of the caller and are parameters, as are the logarithm and
  the texts of exceptions. Embedded resources, entries and reports are written below the output.
\<close>

definition MAX_EMBEDDED_SCAN_BYTES :: int where "MAX_EMBEDDED_SCAN_BYTES = 64 * 1024 * 1024"
definition MAX_LOOSE_PROBE_BYTES :: int where "MAX_LOOSE_PROBE_BYTES = 1024 * 1024"
definition MAX_CONTAINER_ENTRIES :: int where "MAX_CONTAINER_ENTRIES = 4096"
definition SCAN_CONFIDENCE :: rat where "SCAN_CONFIDENCE = 90 / 100"

type_synonym metadata = "(string \<times> meta_value) list"

record container_entry =
  kn_path :: string
  kn_offset :: int
  kn_size :: int
  kn_metadata :: metadata

record container_inspection =
  ki_format_name :: string
  ki_entries :: "container_entry list"
  ki_warnings :: "string list"

text \<open>A parser: its probe, and its inspection of a file, which fails with the text of an exception.\<close>

record container_parser =
  kp_name :: string
  kp_probe :: "bytes \<Rightarrow> string \<Rightarrow> probe_outcome"
  kp_inspect :: "file_store \<Rightarrow> string \<Rightarrow> (string, container_inspection) result"

record resource_host = disc_host +
  gk_os_error :: "string \<Rightarrow> string"
  gk_log2 :: "rat \<Rightarrow> rat"
  gk_show_score :: "score_value \<Rightarrow> string"

definition resource_disc_host :: "resource_host \<Rightarrow> disc_host" where
  "resource_disc_host h = disc_host.truncate h"

datatype resource_error =
    Unsafe_Resource_Path string
  | Unsafe_Entry_Path string
  | Resource_Outside_Output string
  | Report_Refused string

section \<open>Records\<close>

record known_fields =
  kf_format :: string
  kf_kind :: string
  kf_confidence :: rat
  kf_evidence :: "string list"
  kf_extension :: "string option"
  kf_metadata :: metadata

record game_resource =
  gr_path :: string
  gr_extracted_path :: string
  gr_size :: int
  gr_fields :: known_fields
  gr_embedded_count :: int
  gr_container_family :: "string option"
  gr_container_parser :: "string option"
  gr_container_entry_count :: int
  gr_warnings :: "string list"

record embedded_resource =
  ge_parent_path :: string
  ge_file_offset :: int
  ge_format :: string
  ge_kind :: string
  ge_size :: "int option"
  ge_confidence :: rat
  ge_evidence :: "string list"
  ge_extracted_path :: "string option"
  ge_extension :: "string option"
  ge_metadata :: metadata

record inspection_record =
  gi_parent_path :: string
  gi_parser_name :: string
  gi_format_name :: string
  gi_confidence :: rat
  gi_entry_count :: int
  gi_warnings :: "string list"

record entry_record =
  gy_parent_path :: string
  gy_parser_name :: string
  gy_inner_path :: string
  gy_offset :: int
  gy_size :: int
  gy_extracted_path :: string
  gy_fields :: known_fields

record resource_analysis =
  ga_source_name :: string
  ga_resources :: "game_resource list"
  ga_embedded :: "embedded_resource list"
  ga_candidates :: "container_profile list"
  ga_families :: "container_family list"
  ga_inspections :: "inspection_record list"
  ga_entries :: "entry_record list"
  ga_warnings :: "string list"

section \<open>Paths and files\<close>

definition safe_resource_target :: "resource_host \<Rightarrow> string \<Rightarrow> string \<Rightarrow> (resource_error, string) result" where
  "safe_resource_target h dir path =
     from_option (Unsafe_Resource_Path path) (resolved_below (disc_match_host (resource_disc_host h)) dir path)"

definition safe_container_entry_target :: "resource_host \<Rightarrow> string \<Rightarrow> string \<Rightarrow> (resource_error, string) result" where
  "safe_container_entry_target h dir path =
     (if path = [] then Inl (Unsafe_Entry_Path path)
      else from_option (Unsafe_Entry_Path path) (resolved_below (disc_match_host (resource_disc_host h)) dir path))"

definition relative_display :: "resource_host \<Rightarrow> string \<Rightarrow> string \<Rightarrow> (resource_error, string) result" where
  "relative_display h path output =
     from_option (Resource_Outside_Output path) (relative_to path (mh_resolve h output))"

text \<open>\<open>_read_probe\<close>: the first bytes of a file of a size.\<close>

definition probe_of :: "bytes \<Rightarrow> int \<Rightarrow> bytes" where
  "probe_of content sz = py_slice content 0 (min sz MAX_LOOSE_PROBE_BYTES)"

definition detect_loose :: "bytes \<Rightarrow> resource_match option" where
  "detect_loose data = (if data = [] then None else detect_resource_at data 0)"

definition UNKNOWN_FIELDS :: known_fields where
  "UNKNOWN_FIELDS =
     \<lparr> kf_format = ''unknown'', kf_kind = ''unknown'', kf_confidence = 0, kf_evidence = [], kf_extension = None,
       kf_metadata = [] \<rparr>"

definition known_file_fields :: "resource_match option \<Rightarrow> known_fields" where
  "known_file_fields found =
     (case found of
        None \<Rightarrow> UNKNOWN_FIELDS
      | Some m \<Rightarrow>
          if rm_offset m \<noteq> 0 \<or> rm_confidence m < SCAN_CONFIDENCE then UNKNOWN_FIELDS
          else \<lparr> kf_format = rm_format m, kf_kind = rm_kind m, kf_confidence = rm_confidence m,
                 kf_evidence = rm_evidence m, kf_extension = rm_extension m, kf_metadata = rm_metadata m \<rparr>)"

text \<open>A write that is refused is an \<open>OSError\<close>, which the caller turns into a warning.\<close>

definition try_write :: "resource_host \<Rightarrow> string \<Rightarrow> bytes \<Rightarrow> file_store \<Rightarrow> bool \<times> file_store" where
  "try_write h path bs fs = (if mh_writable h path then (True, fs(path \<mapsto> bs)) else (False, fs))"

section \<open>Reading a resource\<close>

record resource_scan =
  sd_data :: "bytes option"
  sd_prefix :: bytes
  sd_loose :: "resource_match option"
  sd_matches :: "resource_match list"
  sd_warnings :: "string list"

definition scan_resource :: "resource_host \<Rightarrow> file_store \<Rightarrow> disc_resource \<Rightarrow> string \<Rightarrow> resource_scan" where
  "scan_resource h fs r path =
     (case fs path of
        None \<Rightarrow>
          \<lparr> sd_data = None, sd_prefix = [], sd_loose = None, sd_matches = [],
            sd_warnings = [''Unable to read resource '' @ dz_path r @ '': '' @ gk_os_error h path] \<rparr>
      | Some content \<Rightarrow>
          if dz_size r \<le> MAX_EMBEDDED_SCAN_BYTES then
            \<lparr> sd_data = Some content, sd_prefix = py_slice content 0 MAX_LOOSE_PROBE_BYTES,
              sd_loose = detect_loose content,
              sd_matches = (if content = [] then [] else scan_resource_bytes content SCAN_CONFIDENCE), sd_warnings = [] \<rparr>
          else
            \<lparr> sd_data = None, sd_prefix = probe_of content (dz_size r),
              sd_loose = detect_loose (probe_of content (dz_size r)), sd_matches = [],
              sd_warnings = [''Embedded scanning skipped for '' @ dz_path r @ '': file size '' @ dec_str (dz_size r) @
                '' exceeds '' @ dec_str MAX_EMBEDDED_SCAN_BYTES @ '' byte safety ceiling''] \<rparr>)"

section \<open>Embedded resources\<close>

definition embedded_destination :: "resource_host \<Rightarrow> string \<Rightarrow> resource_match \<Rightarrow> string \<Rightarrow> (resource_error, string) result" where
  "embedded_destination h output m parent_path =
     (let extension = (case rm_extension m of Some e \<Rightarrow> if e \<noteq> [] then e else rm_format m | None \<Rightarrow> rm_format m);
          filename = hex_upper 8 (rm_offset m) @ ''_'' @ rm_format m @ ''.'' @ extension
      in safe_resource_target h (path_join output ''resources/embedded'') (parent_path @ ''/'' @ filename))"

text \<open>Nothing for a match with no bounded extent inside the data; else the path, or the refusal of the system.\<close>

definition extent_of :: "bytes \<Rightarrow> resource_match \<Rightarrow> bytes option" where
  "extent_of data m =
     (case rm_size m of
        None \<Rightarrow> None
      | Some n \<Rightarrow>
          if \<not> rm_extractable m \<or> n \<le> 0 \<or> rm_offset m < 0 \<or> rm_offset m + n > blen data then None
          else Some (py_slice data (rm_offset m) (rm_offset m + n)))"

definition write_embedded ::
    "resource_host \<Rightarrow> string \<Rightarrow> string \<Rightarrow> bytes \<Rightarrow> resource_match \<Rightarrow>
       (file_store, resource_error, string option \<times> string list) action" where
  "write_embedded h output parent_path data m =
     (case extent_of data m of
        None \<Rightarrow> returnS (None, [])
      | Some content \<Rightarrow>
          bindS (liftS (embedded_destination h output m parent_path)) (\<lambda>destination.
          bindS (\<lambda>fs. (Inr (fst (try_write h destination content fs)), snd (try_write h destination content fs))) (\<lambda>written.
          if written
          then bindS (liftS (relative_display h destination output)) (\<lambda>shown. returnS (Some shown, []))
          else returnS (None, [''Unable to extract embedded '' @ rm_format m @ '' at 0x'' @ hex_upper 0 (rm_offset m) @
                 '' from '' @ parent_path @ '': '' @ gk_os_error h destination]))))"

definition embedded_record :: "string \<Rightarrow> resource_match \<Rightarrow> string option \<Rightarrow> embedded_resource" where
  "embedded_record parent_path m extracted =
     \<lparr> ge_parent_path = parent_path, ge_file_offset = rm_offset m, ge_format = rm_format m, ge_kind = rm_kind m,
       ge_size = rm_size m, ge_confidence = rm_confidence m, ge_evidence = rm_evidence m,
       ge_extracted_path = extracted, ge_extension = rm_extension m, ge_metadata = rm_metadata m \<rparr>"

text \<open>A recognised file is not also an embedded copy of itself.\<close>

definition is_file_itself :: "resource_match option \<Rightarrow> resource_match \<Rightarrow> bool" where
  "is_file_itself loose m \<longleftrightarrow> rm_offset m = 0 \<and> (case loose of None \<Rightarrow> False | Some l \<Rightarrow> rm_format m = rm_format l)"

definition extract_embedded ::
    "resource_host \<Rightarrow> string \<Rightarrow> string \<Rightarrow> resource_scan \<Rightarrow>
       (file_store, resource_error, embedded_resource list \<times> string list) action" where
  "extract_embedded h output parent_path s =
     (case sd_data s of
        None \<Rightarrow> returnS ([], [])
      | Some data \<Rightarrow>
          bindS (mapS (\<lambda>m. bindS (write_embedded h output parent_path data m) (\<lambda>(extracted, warnings).
                   returnS (embedded_record parent_path m extracted, warnings)))
            (filter (\<lambda>m. \<not> is_file_itself (sd_loose s) m) (sd_matches s))) (\<lambda>found.
          returnS (sort_key (\<lambda>e. (ge_file_offset e, ge_format e)) (map fst found), concat (map snd found))))"

section \<open>Container entries\<close>

definition container_destination ::
    "resource_host \<Rightarrow> string \<Rightarrow> string \<Rightarrow> string \<Rightarrow> (resource_error, string) result" where
  "container_destination h output parent_path inner_path =
     bindE (safe_resource_target h (path_join output ''resources/containers'') parent_path) (\<lambda>parent_root.
     safe_container_entry_target h parent_root inner_path)"

text \<open>The bytes of the range that exist are written, and fewer than the range has are an \<open>OSError\<close>.\<close>

definition copy_entry_range :: "resource_host \<Rightarrow> string \<Rightarrow> string \<Rightarrow> int \<Rightarrow> int \<Rightarrow> file_store \<Rightarrow> bool \<times> file_store" where
  "copy_entry_range h source destination offset sz fs =
     (case fs source of
        None \<Rightarrow> (False, fs)
      | Some content \<Rightarrow>
          let chunk = py_slice content offset (offset + sz); (written, fs') = try_write h destination chunk fs in
          (written \<and> blen chunk = sz, fs'))"

definition classify_extracted_entry :: "file_store \<Rightarrow> string \<Rightarrow> int \<Rightarrow> known_fields" where
  "classify_extracted_entry fs path sz =
     (let content = (case fs path of None \<Rightarrow> [] | Some bs \<Rightarrow> bs);
          data = (if sz \<le> MAX_EMBEDDED_SCAN_BYTES then content else probe_of content sz)
      in known_file_fields (detect_loose data))"

record entry_loop =
  el_accepted :: "entry_record list"
  el_bytes :: int
  el_warnings :: "string list"

definition entry_warning :: "string \<Rightarrow> entry_loop \<Rightarrow> entry_loop" where
  "entry_warning w st = st\<lparr> el_warnings := el_warnings st @ [w] \<rparr>"

definition entry_refusal :: "disc_resource \<Rightarrow> container_entry \<Rightarrow> entry_loop \<Rightarrow> string option" where
  "entry_refusal r e st =
     (if kn_offset e < 0 \<or> kn_size e \<le> 0 \<or> kn_offset e + kn_size e > dz_size r
      then Some (''Container entry '' @ kn_path e @ '' from '' @ dz_path r @ '' is out of bounds: offset='' @ dec_str (kn_offset e) @
             '', size='' @ dec_str (kn_size e) @ '', parent_size='' @ dec_str (dz_size r))
      else if el_bytes st + kn_size e > dz_size r
      then Some (''Container entry '' @ kn_path e @ '' from '' @ dz_path r @ '' exceeds the per-container extraction budget of '' @
             dec_str (dz_size r) @ '' bytes'')
      else None)"

definition entry_of :: "disc_resource \<Rightarrow> string \<Rightarrow> container_entry \<Rightarrow> string \<Rightarrow> known_fields \<Rightarrow> entry_record" where
  "entry_of r parser_name e shown found =
     \<lparr> gy_parent_path = dz_path r, gy_parser_name = parser_name, gy_inner_path = kn_path e, gy_offset = kn_offset e,
       gy_size = kn_size e, gy_extracted_path = shown,
       gy_fields = found\<lparr> kf_metadata := fold (\<lambda>(k, v) d. dict_set d k v) (kf_metadata found) (kn_metadata e) \<rparr> \<rparr>"

definition extract_entry ::
    "resource_host \<Rightarrow> string \<Rightarrow> disc_resource \<Rightarrow> string \<Rightarrow> string \<Rightarrow> container_entry \<Rightarrow> entry_loop \<Rightarrow>
       (file_store, resource_error, entry_loop) action" where
  "extract_entry h output r path parser_name e st =
     bindS (liftS (container_destination h output (dz_path r) (kn_path e))) (\<lambda>destination.
     case entry_refusal r e st of
       Some w \<Rightarrow> returnS (entry_warning w st)
     | None \<Rightarrow>
         bindS (\<lambda>fs. (Inr (fst (copy_entry_range h path destination (kn_offset e) (kn_size e) fs)),
                      snd (copy_entry_range h path destination (kn_offset e) (kn_size e) fs))) (\<lambda>copied.
         if \<not> copied
         then returnS (entry_warning (''Unable to extract container entry '' @ kn_path e @ '' from '' @ dz_path r @ '': '' @
                gk_os_error h destination) st)
         else bindS (readS (\<lambda>fs. classify_extracted_entry fs destination (kn_size e))) (\<lambda>found.
              bindS (liftS (relative_display h destination output)) (\<lambda>shown.
              returnS (st\<lparr> el_accepted := el_accepted st @ [entry_of r parser_name e shown found],
                           el_bytes := el_bytes st + kn_size e \<rparr>)))))"

fun extract_entries ::
    "resource_host \<Rightarrow> string \<Rightarrow> disc_resource \<Rightarrow> string \<Rightarrow> string \<Rightarrow> container_entry list \<Rightarrow> entry_loop \<Rightarrow>
       (file_store, resource_error, entry_loop) action" where
  "extract_entries h output r path parser_name [] st = returnS st"
| "extract_entries h output r path parser_name (e # es) st =
     bindS (extract_entry h output r path parser_name e st) (extract_entries h output r path parser_name es)"

section \<open>Containers\<close>

record container_result =
  kr_family :: "string option"
  kr_profile :: "container_profile option"
  kr_parser :: "string option"
  kr_inspection :: "inspection_record option"
  kr_entries :: "entry_record list"
  kr_warnings :: "string list"

definition NO_CONTAINER :: container_result where
  "NO_CONTAINER =
     \<lparr> kr_family = None, kr_profile = None, kr_parser = None, kr_inspection = None, kr_entries = [], kr_warnings = [] \<rparr>"

definition probe_text :: "resource_host \<Rightarrow> string \<Rightarrow> probe_warning \<Rightarrow> string" where
  "probe_text h path w =
     (case w of
        Probe_Failed name exc \<Rightarrow> ''Container parser '' @ name @ '' probe failed for '' @ path @ '': '' @ exc
      | Invalid_Confidence name v \<Rightarrow>
          ''Container parser '' @ name @ '' returned invalid probe confidence '' @ gk_show_score h v @ '' for '' @ path)"

definition select_parser ::
    "resource_host \<Rightarrow> container_parser list \<Rightarrow> bytes \<Rightarrow> string \<Rightarrow> (container_parser \<times> rat) option \<times> string list" where
  "select_parser h parsers prefix path =
     (let (choice, warnings) = select_container_parser DEFAULT_PARSER_THRESHOLD
            (map (\<lambda>p. (kp_name p, kp_probe p prefix path)) parsers)
      in (map_option (\<lambda>(i, confidence). (parsers ! i, confidence)) choice, map (probe_text h path) warnings))"

text \<open>The inspection of one container: the entries beyond the limit are dropped, the others extracted in order.\<close>

definition inspect_container ::
    "resource_host \<Rightarrow> string \<Rightarrow> disc_resource \<Rightarrow> string \<Rightarrow> container_parser \<Rightarrow> rat \<Rightarrow> container_inspection \<Rightarrow>
       (file_store, resource_error, inspection_record \<times> entry_record list \<times> string list) action" where
  "inspect_container h output r path p confidence i =
     (let surplus = blen (ki_entries i) > MAX_CONTAINER_ENTRIES;
          limit_warnings = (if surplus then
            [''Container parser '' @ kp_name p @ '' returned '' @ dec_str (blen (ki_entries i)) @ '' entries for '' @ dz_path r @
             ''; only the first '' @ dec_str MAX_CONTAINER_ENTRIES @ '' are accepted''] else []);
          entries = (if surplus then py_slice (ki_entries i) 0 MAX_CONTAINER_ENTRIES else ki_entries i)
      in bindS (extract_entries h output r path (kp_name p) entries
                 \<lparr> el_accepted = [], el_bytes = 0, el_warnings = limit_warnings \<rparr>) (\<lambda>st.
         returnS
           (\<lparr> gi_parent_path = dz_path r, gi_parser_name = kp_name p, gi_format_name = ki_format_name i,
              gi_confidence = confidence, gi_entry_count = blen (el_accepted st),
              gi_warnings = sort (remdups (ki_warnings i @ el_warnings st)) \<rparr>,
            el_accepted st, el_warnings st)))"

definition parse_container ::
    "resource_host \<Rightarrow> string \<Rightarrow> container_parser list \<Rightarrow> disc_resource \<Rightarrow> string \<Rightarrow> bytes \<Rightarrow>
       (file_store, resource_error, container_result) action" where
  "parse_container h output parsers r path prefix =
     (if parsers = [] \<or> prefix = [] then returnS NO_CONTAINER
      else
        let (choice, warnings) = select_parser h parsers prefix (dz_path r) in
        case choice of
          None \<Rightarrow> returnS (NO_CONTAINER\<lparr> kr_warnings := warnings \<rparr>)
        | Some (p, confidence) \<Rightarrow>
            bindS (readS (\<lambda>fs. kp_inspect p fs path)) (\<lambda>inspected.
            case inspected of
              Inl exc \<Rightarrow>
                returnS (NO_CONTAINER\<lparr> kr_warnings := warnings @
                  [''Container parser '' @ kp_name p @ '' inspect failed for '' @ dz_path r @ '': '' @ exc] \<rparr>)
            | Inr i \<Rightarrow>
                bindS (inspect_container h output r path p confidence i) (\<lambda>(inspection, entries, found).
                returnS \<lparr> kr_family = None, kr_profile = None, kr_parser = Some (kp_name p), kr_inspection = Some inspection,
                          kr_entries = entries, kr_warnings = warnings @ found \<rparr>)))"

definition bounded_bytes :: "embedded_resource list \<Rightarrow> int" where
  "bounded_bytes es = sum_list (map (\<lambda>e. case ge_size e of None \<Rightarrow> 0 | Some n \<Rightarrow> if n > 0 then n else 0) es)"

definition profile_resource ::
    "resource_host \<Rightarrow> file_store \<Rightarrow> disc_resource \<Rightarrow> string \<Rightarrow> embedded_resource list \<Rightarrow> container_profile option \<times> string list" where
  "profile_resource h fs r path es =
     (case fs path of
        None \<Rightarrow> (None, [''Unable to profile container candidate '' @ dz_path r @ '': '' @ gk_os_error h path])
      | Some content \<Rightarrow>
          (Some (profile_container_candidate (gk_log2 h) content (dz_path r) (blen es) (bounded_bytes es)), []))"

text \<open>Only a file of unknown format is a container candidate.\<close>

definition examine_container ::
    "resource_host \<Rightarrow> string \<Rightarrow> container_parser list \<Rightarrow> disc_resource \<Rightarrow> string \<Rightarrow> resource_scan \<Rightarrow> embedded_resource list \<Rightarrow>
       (file_store, resource_error, container_result) action" where
  "examine_container h output parsers r path s es =
     (if kf_format (known_file_fields (sd_loose s)) \<noteq> ''unknown'' then returnS NO_CONTAINER
      else
        bindS (readS (\<lambda>fs. profile_resource h fs r path es)) (\<lambda>(profile, warnings).
        bindS (parse_container h output parsers r path (sd_prefix s)) (\<lambda>c.
        returnS (c\<lparr> kr_family := map_option cp_family_key profile, kr_profile := profile,
                    kr_warnings := warnings @ kr_warnings c \<rparr>))))"

section \<open>One resource\<close>

record resource_result =
  ru_resource :: game_resource
  ru_embedded :: "embedded_resource list"
  ru_container :: container_result
  ru_warnings :: "string list"

definition analyze_resource ::
    "resource_host \<Rightarrow> string \<Rightarrow> container_parser list \<Rightarrow> disc_resource \<times> string \<Rightarrow>
       (file_store, resource_error, resource_result) action" where
  "analyze_resource h output parsers item =
     (case item of (r, path) \<Rightarrow>
        bindS (readS (\<lambda>fs. scan_resource h fs r path)) (\<lambda>s.
        bindS (extract_embedded h output (dz_path r) s) (\<lambda>(es, embedded_warnings).
        bindS (examine_container h output parsers r path s es) (\<lambda>c.
        let warnings = sd_warnings s @ embedded_warnings @ kr_warnings c in
        returnS
          \<lparr> ru_resource =
              \<lparr> gr_path = dz_path r, gr_extracted_path = dz_output_path r, gr_size = dz_size r,
                gr_fields = known_file_fields (sd_loose s), gr_embedded_count = blen es,
                gr_container_family = kr_family c, gr_container_parser = kr_parser c,
                gr_container_entry_count = blen (kr_entries c), gr_warnings = sort (remdups warnings) \<rparr>,
            ru_embedded = es, ru_container = c, ru_warnings = warnings \<rparr>))))"

definition collect_analysis :: "string \<Rightarrow> resource_result list \<Rightarrow> resource_analysis" where
  "collect_analysis source_name found =
     (let profiles = sort_key (\<lambda>p. casefold (cp_path p)) (List.map_filter (\<lambda>u. kr_profile (ru_container u)) found) in
      \<lparr> ga_source_name = source_name,
        ga_resources = sort_key (\<lambda>r. casefold (gr_path r)) (map ru_resource found),
        ga_embedded = sort_key (\<lambda>e. (casefold (ge_parent_path e), ge_file_offset e, ge_format e))
          (concat (map ru_embedded found)),
        ga_candidates = profiles, ga_families = group_container_families profiles,
        ga_inspections = sort_key (\<lambda>i. (casefold (gi_parent_path i), casefold (gi_parser_name i)))
          (List.map_filter (\<lambda>u. kr_inspection (ru_container u)) found),
        ga_entries = sort_key (\<lambda>e. (casefold (gy_parent_path e), casefold (gy_parser_name e), gy_offset e,
            casefold (gy_inner_path e))) (concat (map (\<lambda>u. kr_entries (ru_container u)) found)),
        ga_warnings = sort (remdups (concat (map ru_warnings found))) \<rparr>)"

section \<open>Reports\<close>

definition meta_json :: "metadata \<Rightarrow> json" where
  "meta_json m = JObj (map (\<lambda>(k, v). (k, case v of Meta_Int n \<Rightarrow> JInt n | Meta_Text s \<Rightarrow> JStr s)) m)"

definition texts_json :: "string list \<Rightarrow> json" where
  "texts_json xs = JList (map JStr xs)"

definition resource_json :: "game_resource \<Rightarrow> json" where
  "resource_json r =
     (let k = gr_fields r in
      JObj [(''path'', JStr (gr_path r)), (''extracted_path'', JStr (gr_extracted_path r)), (''size'', JInt (gr_size r)),
        (''detected_format'', JStr (kf_format k)), (''kind'', JStr (kf_kind k)), (''confidence'', JFloat (kf_confidence k)),
        (''evidence'', texts_json (kf_evidence k)), (''suggested_extension'', json_of_option JStr (kf_extension k)),
        (''metadata'', meta_json (kf_metadata k)), (''embedded_count'', JInt (gr_embedded_count r)),
        (''container_family'', json_of_option JStr (gr_container_family r)),
        (''container_parser'', json_of_option JStr (gr_container_parser r)),
        (''container_entry_count'', JInt (gr_container_entry_count r)), (''warnings'', texts_json (gr_warnings r))])"

definition embedded_json :: "embedded_resource \<Rightarrow> json" where
  "embedded_json e =
     JObj [(''parent_path'', JStr (ge_parent_path e)), (''file_offset'', JInt (ge_file_offset e)),
       (''format'', JStr (ge_format e)), (''kind'', JStr (ge_kind e)), (''size'', json_of_option JInt (ge_size e)),
       (''confidence'', JFloat (ge_confidence e)), (''evidence'', texts_json (ge_evidence e)),
       (''extracted_path'', json_of_option JStr (ge_extracted_path e)),
       (''suggested_extension'', json_of_option JStr (ge_extension e)), (''metadata'', meta_json (ge_metadata e))]"

definition profile_json :: "container_profile \<Rightarrow> json" where
  "profile_json p =
     JObj [(''path'', JStr (cp_path p)), (''size'', JInt (cp_size p)), (''suffix'', JStr (cp_suffix p)),
       (''prefix_hex'', JStr (cp_prefix_hex p)), (''prefix_ascii'', JStr (cp_prefix_ascii p)),
       (''sample_entropy'', JFloat (cp_sample_entropy p)), (''embedded_count'', JInt (cp_embedded_count p)),
       (''bounded_embedded_bytes'', JInt (cp_bounded_embedded_bytes p)), (''family_key'', JStr (cp_family_key p))]"

definition family_json :: "container_family \<Rightarrow> json" where
  "family_json f =
     JObj [(''family_key'', JStr (cf_family_key f)), (''suffix'', JStr (cf_suffix f)), (''prefix_hex'', JStr (cf_prefix_hex f)),
       (''member_paths'', texts_json (cf_member_paths f)), (''member_count'', JInt (cf_member_count f)),
       (''total_size'', JInt (cf_total_size f))]"

definition inspection_json :: "inspection_record \<Rightarrow> json" where
  "inspection_json i =
     JObj [(''parent_path'', JStr (gi_parent_path i)), (''parser_name'', JStr (gi_parser_name i)),
       (''format_name'', JStr (gi_format_name i)), (''confidence'', JFloat (gi_confidence i)),
       (''entry_count'', JInt (gi_entry_count i)), (''warnings'', texts_json (gi_warnings i))]"

definition entry_json :: "entry_record \<Rightarrow> json" where
  "entry_json e =
     (let k = gy_fields e in
      JObj [(''parent_path'', JStr (gy_parent_path e)), (''parser_name'', JStr (gy_parser_name e)),
        (''inner_path'', JStr (gy_inner_path e)), (''offset'', JInt (gy_offset e)), (''size'', JInt (gy_size e)),
        (''extracted_path'', JStr (gy_extracted_path e)), (''detected_format'', JStr (kf_format k)), (''kind'', JStr (kf_kind k)),
        (''confidence'', JFloat (kf_confidence k)), (''evidence'', texts_json (kf_evidence k)),
        (''suggested_extension'', json_of_option JStr (kf_extension k)), (''metadata'', meta_json (kf_metadata k)),
        (''warnings'', JList [])])"

definition analysis_json :: "resource_analysis \<Rightarrow> json" where
  "analysis_json a =
     JObj [(''source_name'', JStr (ga_source_name a)), (''resources'', JList (map resource_json (ga_resources a))),
       (''embedded_resources'', JList (map embedded_json (ga_embedded a))),
       (''container_candidates'', JList (map profile_json (ga_candidates a))),
       (''container_families'', JList (map family_json (ga_families a))),
       (''container_inspections'', JList (map inspection_json (ga_inspections a))),
       (''container_entries'', JList (map entry_json (ga_entries a))), (''warnings'', texts_json (ga_warnings a))]"

definition RESOURCE_COLUMNS :: "string list" where
  "RESOURCE_COLUMNS =
     [''path'', ''size'', ''detected_format'', ''kind'', ''confidence'', ''embedded_count'', ''container_family'',
      ''container_parser'', ''container_entry_count'', ''extracted_path'', ''evidence'']"

definition text_or_empty :: "string option \<Rightarrow> string" where
  "text_or_empty x = (case x of None \<Rightarrow> [] | Some s \<Rightarrow> s)"

definition resource_row :: "game_resource \<Rightarrow> string list" where
  "resource_row r =
     (let k = gr_fields r in
      [gr_path r, dec_str (gr_size r), kf_format k, kf_kind k, fixed_decimals 2 (kf_confidence k),
       dec_str (gr_embedded_count r), text_or_empty (gr_container_family r), text_or_empty (gr_container_parser r),
       dec_str (gr_container_entry_count r), gr_extracted_path r, join_with '';'' (kf_evidence k)])"

definition CANDIDATE_COLUMNS :: "string list" where
  "CANDIDATE_COLUMNS =
     [''path'', ''size'', ''suffix'', ''family_key'', ''prefix_hex'', ''prefix_ascii'', ''sample_entropy'',
      ''embedded_count'', ''bounded_embedded_bytes'']"

definition candidate_row :: "container_profile \<Rightarrow> string list" where
  "candidate_row p =
     [cp_path p, dec_str (cp_size p), cp_suffix p, cp_family_key p, cp_prefix_hex p, cp_prefix_ascii p,
      fixed_decimals 6 (cp_sample_entropy p), dec_str (cp_embedded_count p), dec_str (cp_bounded_embedded_bytes p)]"

definition ENTRY_COLUMNS :: "string list" where
  "ENTRY_COLUMNS =
     [''parent_path'', ''parser_name'', ''inner_path'', ''offset'', ''size'', ''detected_format'', ''kind'', ''confidence'',
      ''extracted_path'', ''evidence'']"

definition entry_row :: "entry_record \<Rightarrow> string list" where
  "entry_row e =
     (let k = gy_fields e in
      [gy_parent_path e, gy_parser_name e, gy_inner_path e, dec_str (gy_offset e), dec_str (gy_size e), kf_format k, kf_kind k,
       fixed_decimals 2 (kf_confidence k), gy_extracted_path e, join_with '';'' (kf_evidence k)])"

text \<open>The reports by their names below the output, in the order they are written.\<close>

definition resource_reports :: "resource_host \<Rightarrow> resource_analysis \<Rightarrow> (string \<times> bytes) list" where
  "resource_reports h a =
     (let document = json_document (disc_match_host (resource_disc_host h)) in
      [(''metadata/game_resources.json'', document (analysis_json a)),
       (''metadata/embedded_resources.json'', document (JList (map embedded_json (ga_embedded a)))),
       (''metadata/container_candidates.json'', document (JList (map profile_json (ga_candidates a)))),
       (''metadata/container_inspections.json'', document (JList (map inspection_json (ga_inspections a)))),
       (''reports/game_resources.csv'', str_bytes (csv_text (RESOURCE_COLUMNS # map resource_row (ga_resources a)))),
       (''reports/container_candidates.csv'', str_bytes (csv_text (CANDIDATE_COLUMNS # map candidate_row (ga_candidates a)))),
       (''reports/container_entries.csv'', str_bytes (csv_text (ENTRY_COLUMNS # map entry_row (ga_entries a))))])"

definition write_report :: "resource_host \<Rightarrow> string \<Rightarrow> string \<times> bytes \<Rightarrow> (file_store, resource_error, unit) action" where
  "write_report h output named =
     (case named of (name, content) \<Rightarrow>
        \<lambda>fs. let path = mh_resolve h (path_join output name); (written, fs') = try_write h path content fs in
             (if written then Inr () else Inl (Report_Refused path), fs'))"

definition write_reports :: "resource_host \<Rightarrow> string \<Rightarrow> resource_analysis \<Rightarrow> (file_store, resource_error, unit) action" where
  "write_reports h output a = thenS (mapS (write_report h output) (resource_reports h a)) (returnS ())"

definition analyze_game_resources ::
    "resource_host \<Rightarrow> string \<Rightarrow> string \<Rightarrow> disc_resource list \<Rightarrow> container_parser list \<Rightarrow>
       (file_store, resource_error, resource_analysis) action" where
  "analyze_game_resources h source_name output resources parsers =
     (let ordered = sort_key (\<lambda>r. casefold (dz_path r)) resources in
      bindS (liftS (mapE (\<lambda>r. bindE (safe_resource_target h output (dz_output_path r)) (\<lambda>path. Inr (r, path))) ordered)) (\<lambda>resolved.
      bindS (mapS (analyze_resource h output parsers) resolved) (\<lambda>found.
      let a = collect_analysis source_name found in
      thenS (write_reports h output a) (returnS a))))"

section \<open>Nothing is written outside the output\<close>

text \<open>
  A path an analysis may write: below the embedded resources, below the directory of a container, which is below the
  containers, or one of the seven reports.
\<close>

definition REPORT_NAMES :: "string list" where
  "REPORT_NAMES =
     [''metadata/game_resources.json'', ''metadata/embedded_resources.json'', ''metadata/container_candidates.json'',
      ''metadata/container_inspections.json'', ''reports/game_resources.csv'', ''reports/container_candidates.csv'',
      ''reports/container_entries.csv'']"

definition resource_output :: "resource_host \<Rightarrow> string \<Rightarrow> string \<Rightarrow> bool" where
  "resource_output h dest p \<longleftrightarrow>
     below (resource_disc_host h) (path_join dest ''resources/embedded'') p \<or>
     (\<exists>parent. below (resource_disc_host h) (path_join dest ''resources/containers'') parent \<and>
        below (resource_disc_host h) parent p) \<or>
     (\<exists>name \<in> set REPORT_NAMES. p = mh_resolve h (path_join dest name))"

lemma resource_resolve [simp]: "mh_resolve (resource_disc_host h) = mh_resolve h"
  by (simp add: resource_disc_host_def disc_host.truncate_def)

lemma safe_resource_target_below: "safe_resource_target h dir path = Inr t \<Longrightarrow> below (resource_disc_host h) dir t"
  using resolved_below_inside [of "disc_match_host (resource_disc_host h)" dir path t]
  by (simp add: safe_resource_target_def below_def)

lemma container_destination_allowed:
  "container_destination h dest parent_path inner = Inr t \<Longrightarrow> resource_output h dest t"
  using resolved_below_inside [of "disc_match_host (resource_disc_host h)" _ inner t]
  by (auto simp: container_destination_def bindE_Inr_iff safe_container_entry_target_def resource_output_def below_def
      dest!: safe_resource_target_below split: if_splits)

lemma embedded_destination_allowed: "embedded_destination h dest m parent_path = Inr t \<Longrightarrow> resource_output h dest t"
  by (auto simp: embedded_destination_def Let_def resource_output_def dest: safe_resource_target_below)

lemma preserves_run:
  assumes "\<And>fs. P fs \<Longrightarrow> P (snd (m fs))"
  shows "preserves P (\<lambda>fs. (Inr (fst (m fs)), snd (m fs)))"
  using assms by (simp add: preserves_def)

lemma try_write_keeps: "Q path \<Longrightarrow> \<forall>p. \<not> Q p \<longrightarrow> fs p = start p \<Longrightarrow> \<not> Q p \<Longrightarrow> snd (try_write h path bs fs) p = start p"
  by (auto simp: try_write_def)

lemma copy_entry_range_keeps:
  "Q t \<Longrightarrow> \<forall>p. \<not> Q p \<longrightarrow> fs p = start p \<Longrightarrow> \<not> Q p \<Longrightarrow> snd (copy_entry_range h source t offset sz fs) p = start p"
  by (auto simp: copy_entry_range_def Let_def try_write_def split: option.split)

lemma write_embedded_keeps:
  "preserves (\<lambda>fs. \<forall>p. \<not> resource_output h dest p \<longrightarrow> fs p = start p) (write_embedded h dest parent_path data m)"
  unfolding write_embedded_def
  by (auto intro!: preserves_intros preserves_bind_lift preserves_run
      try_write_keeps [where Q = "resource_output h dest"] dest: embedded_destination_allowed
      split: option.split)

lemma extract_entry_keeps:
  "preserves (\<lambda>fs. \<forall>p. \<not> resource_output h dest p \<longrightarrow> fs p = start p) (extract_entry h dest r path nm e st)"
  unfolding extract_entry_def
proof (rule preserves_bind_lift)
  fix t assume "container_destination h dest (dz_path r) (kn_path e) = Inr t"
  then have "resource_output h dest t" by (rule container_destination_allowed)
  then show "preserves (\<lambda>fs. \<forall>p. \<not> resource_output h dest p \<longrightarrow> fs p = start p)
    (case entry_refusal r e st of
       Some w \<Rightarrow> returnS (entry_warning w st)
     | None \<Rightarrow>
         bindS (\<lambda>fs. (Inr (fst (copy_entry_range h path t (kn_offset e) (kn_size e) fs)),
                      snd (copy_entry_range h path t (kn_offset e) (kn_size e) fs))) (\<lambda>copied.
         if \<not> copied
         then returnS (entry_warning (''Unable to extract container entry '' @ kn_path e @ '' from '' @ dz_path r @ '': '' @
                gk_os_error h t) st)
         else bindS (readS (\<lambda>fs. classify_extracted_entry fs t (kn_size e))) (\<lambda>found.
              bindS (liftS (relative_display h t dest)) (\<lambda>shown.
              returnS (st\<lparr> el_accepted := el_accepted st @ [entry_of r nm e shown found],
                           el_bytes := el_bytes st + kn_size e \<rparr>)))))"
    by (cases "entry_refusal r e st")
      (simp_all only: option.case, (intro preserves_intros preserves_run allI impI
         copy_entry_range_keeps [where Q = "resource_output h dest"]; simp)+)
qed

lemma extract_entries_keeps:
  "preserves (\<lambda>fs. \<forall>p. \<not> resource_output h dest p \<longrightarrow> fs p = start p) (extract_entries h dest r path nm es st)"
  by (induction es arbitrary: st) (auto intro!: preserves_intros extract_entry_keeps)

lemma parse_container_keeps:
  "preserves (\<lambda>fs. \<forall>p. \<not> resource_output h dest p \<longrightarrow> fs p = start p) (parse_container h dest parsers r path pre)"
  unfolding parse_container_def inspect_container_def Let_def
  by (auto intro!: preserves_intros extract_entries_keeps split: prod.split option.split sum.split)

lemma analyze_resource_keeps:
  "preserves (\<lambda>fs. \<forall>p. \<not> resource_output h dest p \<longrightarrow> fs p = start p) (analyze_resource h dest parsers item)"
  unfolding analyze_resource_def examine_container_def extract_embedded_def Let_def
  by (auto intro!: preserves_intros write_embedded_keeps parse_container_keeps split: prod.split option.split)

lemma write_reports_keeps:
  "preserves (\<lambda>fs. \<forall>p. \<not> resource_output h dest p \<longrightarrow> fs p = start p) (write_reports h dest a)"
proof -
  have "preserves (\<lambda>fs. \<forall>p. \<not> resource_output h dest p \<longrightarrow> fs p = start p) (write_report h dest (name, content))"
    if "name \<in> set REPORT_NAMES" for name content
  proof -
    have "resource_output h dest (mh_resolve h (path_join dest name))" using that by (auto simp: resource_output_def)
    then show ?thesis by (auto simp: preserves_def write_report_def Let_def try_write_def)
  qed
  then show ?thesis
    unfolding write_reports_def
    by (auto simp: resource_reports_def REPORT_NAMES_def Let_def intro!: preserves_intros preserves_map_on)
qed

text \<open>
  Property C39. Whatever the resources of a game are, whatever paths the parsers of containers list and
  however the analysis ends, it writes only below the resolved directories of the embedded resources and of the containers, and
  the seven reports.
\<close>

theorem resource_analysis_is_confined:
  "writes_within (resource_output h dest) (analyze_game_resources h source_name dest resources parsers)"
  unfolding analyze_game_resources_def Let_def
  by (rule writes_withinI) (intro preserves_intros analyze_resource_keeps write_reports_keeps)

section \<open>Container entries stay within their container\<close>

definition entry_in_container :: "disc_resource \<Rightarrow> entry_record \<Rightarrow> bool" where
  "entry_in_container r e \<longleftrightarrow>
     gy_parent_path e = dz_path r \<and> 0 \<le> gy_offset e \<and> 0 < gy_size e \<and> gy_offset e + gy_size e \<le> dz_size r"

definition entries_bounded :: "disc_resource \<Rightarrow> entry_record list \<Rightarrow> bool" where
  "entries_bounded r es \<longleftrightarrow>
     list_all (entry_in_container r) es \<and> sum_list (map gy_size es) \<le> max 0 (dz_size r) \<and>
     blen es \<le> MAX_CONTAINER_ENTRIES"

lemma extract_entry_bounds:
  assumes "extract_entry h dest r path nm e st fs = (Inr st', fs')"
    and "list_all (entry_in_container r) (el_accepted st)" "sum_list (map gy_size (el_accepted st)) = el_bytes st"
    and "el_bytes st \<le> max 0 (dz_size r)"
  shows "list_all (entry_in_container r) (el_accepted st') \<and> sum_list (map gy_size (el_accepted st')) = el_bytes st' \<and>
    el_bytes st' \<le> max 0 (dz_size r) \<and> length (el_accepted st') \<le> Suc (length (el_accepted st))"
  using assms
  by (auto simp: extract_entry_def action_Inr entry_warning_def entry_refusal_def entry_of_def entry_in_container_def
      split: option.splits if_splits)

lemma extract_entries_bounds:
  assumes "extract_entries h dest r path nm es st fs = (Inr st', fs')"
    and "list_all (entry_in_container r) (el_accepted st)" "sum_list (map gy_size (el_accepted st)) = el_bytes st"
    and "el_bytes st \<le> max 0 (dz_size r)"
  shows "list_all (entry_in_container r) (el_accepted st') \<and> sum_list (map gy_size (el_accepted st')) = el_bytes st' \<and>
    el_bytes st' \<le> max 0 (dz_size r) \<and> length (el_accepted st') \<le> length (el_accepted st) + length es"
  using assms
proof (induction es arbitrary: st fs)
  case (Cons e es)
  then obtain st1 fs1 where one: "extract_entry h dest r path nm e st fs = (Inr st1, fs1)"
    and rest: "extract_entries h dest r path nm es st1 fs1 = (Inr st', fs')"
    by (auto simp: action_Inr)
  from extract_entry_bounds [OF one Cons.prems(2-4)] Cons.IH [OF rest] show ?case by force
qed simp

lemma inspect_container_bounds:
  assumes "inspect_container h dest r path p q i fs = (Inr (inspection, es, ws), fs')"
  shows "entries_bounded r es \<and> gi_entry_count inspection = blen es \<and> gi_parent_path inspection = dz_path r"
proof -
  let ?es = "if blen (ki_entries i) > MAX_CONTAINER_ENTRIES then py_slice (ki_entries i) 0 MAX_CONTAINER_ENTRIES else ki_entries i"
  have len: "blen ?es \<le> MAX_CONTAINER_ENTRIES" by (auto simp: py_slice_def slice_bound_def Let_def MAX_CONTAINER_ENTRIES_def)
  from assms obtain st ws0 where
    run: "extract_entries h dest r path (kp_name p) ?es \<lparr> el_accepted = [], el_bytes = 0, el_warnings = ws0 \<rparr> fs = (Inr st, fs')"
    and es: "es = el_accepted st" "gi_entry_count inspection = blen (el_accepted st)" "gi_parent_path inspection = dz_path r"
    by (auto simp: inspect_container_def Let_def bindS_Inr)
  from extract_entries_bounds [OF run] have "list_all (entry_in_container r) es" "sum_list (map gy_size es) \<le> max 0 (dz_size r)"
    "length es \<le> length ?es" by (simp_all add: es)
  with len es show ?thesis by (simp add: entries_bounded_def)
qed

lemma parse_container_bounds:
  assumes "parse_container h dest parsers r path pre fs = (Inr c, fs')"
  shows "entries_bounded r (kr_entries c)"
proof -
  have none: "entries_bounded r []" by (simp add: entries_bounded_def MAX_CONTAINER_ENTRIES_def)
  from assms show ?thesis
    by (auto simp: parse_container_def NO_CONTAINER_def Let_def bindS_Inr none split: if_splits prod.splits option.splits sum.splits
        dest!: inspect_container_bounds)
qed

text \<open>What is said of one resource: itself, and a container only where its format is unknown.\<close>

definition resource_examined :: "disc_resource \<Rightarrow> resource_result \<Rightarrow> bool" where
  "resource_examined r u \<longleftrightarrow>
     gr_path (ru_resource u) = dz_path r \<and> gr_size (ru_resource u) = dz_size r \<and>
     gr_embedded_count (ru_resource u) = blen (ru_embedded u) \<and>
     gr_container_entry_count (ru_resource u) = blen (kr_entries (ru_container u)) \<and>
     entries_bounded r (kr_entries (ru_container u)) \<and>
     (kf_format (gr_fields (ru_resource u)) \<noteq> ''unknown'' \<longrightarrow> kr_parser (ru_container u) = None)"

lemma examine_container_bounds:
  assumes "examine_container h dest parsers r path s es fs = (Inr c, fs')"
  shows "entries_bounded r (kr_entries c) \<and>
    (kf_format (known_file_fields (sd_loose s)) \<noteq> ''unknown'' \<longrightarrow> kr_parser c = None)"
proof (cases "kf_format (known_file_fields (sd_loose s)) = ''unknown''")
  case True
  obtain prof ws where prof: "profile_resource h fs r path es = (prof, ws)" by fastforce
  from assms True prof obtain k where
    k: "parse_container h dest parsers r path (sd_prefix s) fs = (Inr k, fs')" and c: "kr_entries c = kr_entries k"
    by (auto simp: examine_container_def bindS_Inr)
  from parse_container_bounds [OF k] c True show ?thesis by simp
next
  case False
  have "entries_bounded r []" by (simp add: entries_bounded_def MAX_CONTAINER_ENTRIES_def)
  with assms False show ?thesis by (auto simp: examine_container_def NO_CONTAINER_def)
qed

lemma analyze_resource_examined:
  assumes "analyze_resource h dest parsers (r, path) fs = (Inr u, fs')"
  shows "resource_examined r u"
proof -
  let ?s = "scan_resource h fs r path"
  from assms obtain es ws fs1 c where
    c: "examine_container h dest parsers r path ?s es fs1 = (Inr c, fs')" and
    u: "dz_path r = gr_path (ru_resource u)" "dz_size r = gr_size (ru_resource u)"
       "gr_fields (ru_resource u) = known_file_fields (sd_loose ?s)" "gr_embedded_count (ru_resource u) = blen es"
       "ru_embedded u = es" "ru_container u = c" "gr_container_entry_count (ru_resource u) = blen (kr_entries c)"
    by (auto simp: analyze_resource_def Let_def bindS_Inr split: prod.splits)
  with examine_container_bounds [OF c] show ?thesis by (simp add: resource_examined_def)
qed

lemma analyzed_resources:
  "mapS (analyze_resource h dest parsers) resolved fs = (Inr found, fs') \<Longrightarrow>
     list_all2 resource_examined (map fst resolved) found"
proof (induction resolved arbitrary: fs found)
  case (Cons x resolved)
  obtain r path where x: "x = (r, path)" by (cases x)
  from Cons show ?case by (auto simp: x action_Inr dest: analyze_resource_examined)
qed simp

lemma resource_analysis_examined:
  assumes "analyze_game_resources h source_name dest resources parsers fs = (Inr a, fs')"
  shows "\<exists>found. a = collect_analysis source_name found \<and>
    list_all2 resource_examined (sort_key (\<lambda>r. casefold (dz_path r)) resources) found"
proof -
  let ?ordered = "sort_key (\<lambda>r. casefold (dz_path r)) resources"
  from assms obtain resolved found fs1 where
    resolved: "mapE (\<lambda>r. bindE (safe_resource_target h dest (dz_output_path r)) (\<lambda>path. Inr (r, path))) ?ordered = Inr resolved"
    and found: "mapS (analyze_resource h dest parsers) resolved fs = (Inr found, fs1)" and a: "a = collect_analysis source_name found"
    by (auto simp: analyze_game_resources_def Let_def action_Inr)
  have "map fst resolved = rs" if "mapE (\<lambda>r. bindE (safe_resource_target h dest (dz_output_path r)) (\<lambda>path. Inr (r, path))) rs = Inr resolved"
    for rs resolved
    using that by (induction rs arbitrary: resolved) (auto simp: bindE_Inr_iff)
  from analyzed_resources [OF found] this [OF resolved] a show ?thesis by auto
qed

text \<open>
  Property C17. A resource analysis is about exactly the resources it was given, in order. What a parser lists for a
  container is bounded: every entry that is extracted is a range of the container, there are at most 4096, and
  together they are no larger than the container; no parser is asked about a file of a known format.
\<close>

theorem container_entries_are_bounded:
  "analyze_game_resources h source_name dest resources parsers fs = (Inr a, fs') \<Longrightarrow>
     \<exists>found. a = collect_analysis source_name found \<and>
       list_all2 resource_examined (sort_key (\<lambda>r. casefold (dz_path r)) resources) found"
  by (rule resource_analysis_examined)

text \<open>A prefix counted in integers, which evaluates without a unary bound.\<close>

fun take_int :: "int \<Rightarrow> 'a list \<Rightarrow> 'a list" where
  "take_int n [] = []"
| "take_int n (x # xs) = (if n \<le> 0 then [] else x # take_int (n - 1) xs)"

lemma take_int: "take_int n xs = take (nat n) xs"
proof (induction xs arbitrary: n)
  case (Cons x xs)
  then show ?case by (cases "nat n") (auto simp: nat_diff_distrib)
qed simp

lemma profile_container_candidate_code [code]:
  "profile_container_candidate log2 content path embedded_count bounded_embedded_bytes =
     (let sample = take_int 65536 content; prefix = take PREFIX_FINGERPRINT_BYTES sample;
          (key, suffix, _) = family_key path prefix
      in \<lparr> cp_path = path, cp_size = blen content, cp_suffix = suffix, cp_prefix_hex = bytes_hex prefix,
           cp_prefix_ascii = ascii_view prefix, cp_sample_entropy = shannon_entropy log2 sample,
           cp_embedded_count = max 0 embedded_count, cp_bounded_embedded_bytes = max 0 bounded_embedded_bytes,
           cp_family_key = key \<rparr>)"
  by (simp add: profile_container_candidate_def take_int ENTROPY_SAMPLE_BYTES_def)

definition sample_resource_host :: resource_host where
  "sample_resource_host =
     \<lparr> mh_environ = (\<lambda>_. None), mh_which = (\<lambda>_. None), mh_resolve = (\<lambda>p. p), mh_is_dir = (\<lambda>_. False),
       mh_python = ''py'', mh_temporary = ''/tmp'', mh_writable = (\<lambda>_. True), mh_split_words = (\<lambda>s. Some [s]),
       mh_build = (\<lambda>_ _ fs. (Exited 0, fs)), mh_repr = (\<lambda>s. s), mh_differ = (\<lambda>_ _ _ _. (Exited 0, [])),
       mh_loads = (\<lambda>_. None), mh_dumps = (\<lambda>_. [0x7B]), mh_toml = (\<lambda>_ _. None), dk_symlink = (\<lambda>_. False),
       dk_tree = (\<lambda>_. []), dk_iso = None, dk_print = (\<lambda>_. ''error''), gk_os_error = (\<lambda>_. ''error''), gk_log2 = (\<lambda>q. 0),
       gk_show_score = (\<lambda>_. ''score'') \<rparr>"

definition sample_parser :: container_parser where
  "sample_parser =
     \<lparr> kp_name = ''pack'', kp_probe = (\<lambda>_ _. Probe_Scored (Finite_Score 1)),
       kp_inspect = (\<lambda>_ _. Inr \<lparr> ki_format_name = ''pack'', ki_entries =
         [\<lparr> kn_path = ''a'', kn_offset = 0, kn_size = 3, kn_metadata = [] \<rparr>,
          \<lparr> kn_path = ''b'', kn_offset = 2, kn_size = 3, kn_metadata = [] \<rparr>,
          \<lparr> kn_path = ''c'', kn_offset = 0, kn_size = 2, kn_metadata = [] \<rparr>], ki_warnings = [] \<rparr>) \<rparr>"

definition sample_resources :: "(resource_error, resource_analysis) result \<times> file_store" where
  "sample_resources = analyze_game_resources sample_resource_host ''g'' ''/o''
     [\<lparr> dz_path = ''x.pak'', dz_size = 4, dz_output_path = ''resources/files/x.pak'' \<rparr>] [sample_parser]
     (\<lambda>p. if p = ''/o/resources/files/x.pak'' then Some [1, 2, 3, 4] else None)"

theorem container_entries_are_bounded_witness:
  "(\<exists>found. projr (fst sample_resources) = collect_analysis ''g'' found \<and>
     list_all2 resource_examined [\<lparr> dz_path = ''x.pak'', dz_size = 4, dz_output_path = ''resources/files/x.pak'' \<rparr>] found) \<and>
   map gy_inner_path (ga_entries (projr (fst sample_resources))) = [''a''] \<and>
   length (ga_warnings (projr (fst sample_resources))) = 2"
proof -
  have "case fst sample_resources of
      Inr a \<Rightarrow> map gy_inner_path (ga_entries a) = [''a''] \<and> length (ga_warnings a) = 2 | _ \<Rightarrow> False"
    by code_simp
  then obtain a where a: "fst sample_resources = Inr a" "map gy_inner_path (ga_entries a) = [''a'']" "length (ga_warnings a) = 2"
    by (auto split: sum.splits)
  have "analyze_game_resources sample_resource_host ''g'' ''/o''
     [\<lparr> dz_path = ''x.pak'', dz_size = 4, dz_output_path = ''resources/files/x.pak'' \<rparr>] [sample_parser]
     (\<lambda>p. if p = ''/o/resources/files/x.pak'' then Some [1, 2, 3, 4] else None) = (Inr a, snd sample_resources)"
    using a(1) by (simp add: sample_resources_def prod_eq_iff)
  from container_entries_are_bounded [OF this] a show ?thesis by simp
qed

end
