(* ===== verification/Nid_Files.thy ===== *)
theory Nid_Files
  imports Nids Host_Model
begin

text \<open>
  The files of \<open>nids.py\<close>: \<open>load_nid_databases\<close> reads JSON and CSV files into one database, the later
  file wins. The JSON codec, the \<open>csv\<close> module and \<open>str()\<close> of what is not a string are parameters; the
  \<open>csv\<close> module gives the rows of a text and whether it stopped there with an error.
\<close>

datatype nid_file_error =
    Nid_File_Unreadable string
  | Nid_File_Undecodable
  | Nid_File_Not_Json
  | Nid_File_Not_A_List
  | Nid_Record_Not_An_Object nat
  | Nid_File_Format string
  | Nid_Csv_Malformed
  | Nid_Refused nid_error

record nid_codec =
  nc_loads :: "bytes \<Rightarrow> json option"
  nc_rows :: "bytes \<Rightarrow> string list list \<times> bool"
  nc_text :: "json \<Rightarrow> string"

definition refusing :: "(nid_error, 'a) result \<Rightarrow> (nid_file_error, 'a) result" where
  "refusing r = map_sum Nid_Refused id r"

lemma refusing_simps [simp]: "refusing (Inr x) = Inr x" "refusing (Inl e) = Inl (Nid_Refused e)"
  by (simp_all add: refusing_def)

lemma refusing_Inr [simp]: "refusing r = Inr x \<longleftrightarrow> r = Inr x"
  by (cases r) simp_all

text \<open>\<open>str(x)\<close>, and whether \<open>x\<close> counts as true.\<close>

definition json_text :: "nid_codec \<Rightarrow> json \<Rightarrow> string" where
  "json_text c j = (case j of JStr s \<Rightarrow> s | JInt n \<Rightarrow> dec_str n | _ \<Rightarrow> nc_text c j)"

definition json_true :: "json \<Rightarrow> bool" where
  "json_true j =
     (case j of JNull \<Rightarrow> False | JBool b \<Rightarrow> b | JInt n \<Rightarrow> n \<noteq> 0 | JFloat q \<Rightarrow> q \<noteq> 0 | JStr s \<Rightarrow> s \<noteq> []
      | JList xs \<Rightarrow> xs \<noteq> [] | JObj d \<Rightarrow> d \<noteq> [])"

text \<open>\<open>record.get(a, record.get(b, ...))\<close>: the value of the first key that is there.\<close>

definition first_key :: "(string \<times> json) list \<Rightarrow> string list \<Rightarrow> json \<Rightarrow> json" where
  "first_key d names fallback =
     (case List.map_filter (map_of d) names of [] \<Rightarrow> fallback | v # _ \<Rightarrow> v)"

definition nid_of_json :: "nid_codec \<Rightarrow> json \<Rightarrow> nid_value" where
  "nid_of_json c j = (case j of JBool b \<Rightarrow> Nid_Bool b | JInt n \<Rightarrow> Nid_Int n | _ \<Rightarrow> Nid_Text (json_text c j))"

definition kind_name :: "nid_kind \<Rightarrow> string" where
  "kind_name k = (case k of Function \<Rightarrow> ''function'' | Variable \<Rightarrow> ''variable'')"

definition symbol_of_mapping :: "nid_codec \<Rightarrow> (string \<times> json) list \<Rightarrow> string \<Rightarrow> (nid_error, raw_symbol) result" where
  "symbol_of_mapping c d source_default =
     (let source = first_key d [''source''] (JStr source_default) in
      bindE (parse_nid (nid_of_json c (first_key d [''nid'', ''NID''] (JStr [])))) (\<lambda>nid.
      bindE (normalize_kind (json_text c (first_key d [''kind'', ''fun/var'', ''type''] (JStr [])))) (\<lambda>k.
      Inr \<lparr> rw_library = json_text c (first_key d [''library'', ''library_name''] (JStr [])), rw_nid = Nid_Int nid,
            rw_name = json_text c (first_key d [''name''] (JStr [])), rw_kind = kind_name k,
            rw_source = (if json_true source then json_text c source else source_default) \<rparr>)))"

definition symbols_payload :: "json \<Rightarrow> json" where
  "symbols_payload j = (case j of JObj d \<Rightarrow> first_key d [''symbols'', ''nids''] JNull | _ \<Rightarrow> j)"

definition json_record :: "nid_codec \<Rightarrow> string \<Rightarrow> nat \<times> json \<Rightarrow> (nid_file_error, raw_symbol) result" where
  "json_record c file_name item =
     (case snd item of
        JObj d \<Rightarrow> refusing (symbol_of_mapping c d file_name)
      | _ \<Rightarrow> Inl (Nid_Record_Not_An_Object (fst item)))"

definition load_json_symbols :: "nid_codec \<Rightarrow> file_store \<Rightarrow> string \<Rightarrow> (nid_file_error, raw_symbol list) result" where
  "load_json_symbols c fs path =
     (case read_json (nc_loads c) fs path of
        Missing_File \<Rightarrow> Inl (Nid_File_Unreadable path)
      | Undecodable_File \<Rightarrow> Inl Nid_File_Undecodable
      | Unreadable_File \<Rightarrow> Inl Nid_File_Not_Json
      | Json_File j \<Rightarrow>
          (case symbols_payload j of
             JList items \<Rightarrow> mapE (json_record c (path_name path)) (zip [1..<Suc (length items)] items)
           | _ \<Rightarrow> Inl Nid_File_Not_A_List))"

text \<open>The rows are read as they come, so the error of a row comes before the error of a later one.\<close>

definition load_csv_symbols :: "nid_codec \<Rightarrow> file_store \<Rightarrow> string \<Rightarrow> (nid_file_error, raw_symbol list) result" where
  "load_csv_symbols c fs path =
     (case fs path of
        None \<Rightarrow> Inl (Nid_File_Unreadable path)
      | Some bs \<Rightarrow>
          if \<not> utf8_valid bs then Inl Nid_File_Undecodable
          else let (rows, malformed) = nc_rows c bs in
            bindE (refusing (load_csv (path_name path) rows)) (\<lambda>raws.
            if malformed then Inl Nid_Csv_Malformed else Inr raws))"

definition load_database_file :: "nid_codec \<Rightarrow> file_store \<Rightarrow> string \<Rightarrow> (nid_file_error, raw_symbol list) result" where
  "load_database_file c fs path =
     (let suffix = casefold (path_suffix path) in
      if suffix = ''.json'' then load_json_symbols c fs path
      else if suffix = ''.csv'' \<or> suffix = ''.txt'' then load_csv_symbols c fs path
      else Inl (Nid_File_Format path))"

definition add_file :: "nid_codec \<Rightarrow> file_store \<Rightarrow> string \<Rightarrow> nid_database \<Rightarrow> (nid_file_error, nid_database) result" where
  "add_file c fs path db =
     bindE (load_database_file c fs path) (\<lambda>raws. refusing (foldE add_symbol raws db))"

definition load_nid_databases :: "nid_codec \<Rightarrow> file_store \<Rightarrow> string list \<Rightarrow> (nid_file_error, nid_database) result" where
  "load_nid_databases c fs paths = foldE (add_file c fs) paths empty_database"

section \<open>The symbols of all files, in order\<close>

lemma add_file_Inr:
  "add_file c fs path db = Inr db' \<longleftrightarrow> (\<exists>raws. load_database_file c fs path = Inr raws \<and> foldE add_symbol raws db = Inr db')"
  by (auto simp: add_file_def bindE_Inr_iff)

lemma load_nid_databases_flat:
  "load_nid_databases c fs paths = Inr db \<Longrightarrow>
     \<exists>raws. mapE (load_database_file c fs) paths = Inr raws \<and> foldE add_symbol (concat raws) empty_database = Inr db"
proof -
  have "foldE (add_file c fs) paths db0 = Inr db \<Longrightarrow>
      \<exists>raws. mapE (load_database_file c fs) paths = Inr raws \<and> foldE add_symbol (concat raws) db0 = Inr db" for db0
  proof (induction paths arbitrary: db0)
    case (Cons p paths)
    then obtain raws db1 where first: "load_database_file c fs p = Inr raws" "foldE add_symbol raws db0 = Inr db1"
      and rest: "foldE (add_file c fs) paths db1 = Inr db"
      by (auto simp: bindE_Inr_iff add_file_Inr)
    from Cons.IH [OF rest] first show ?case by (auto simp: bindE_Inr_iff foldE_append)
  qed simp
  then show "load_nid_databases c fs paths = Inr db \<Longrightarrow>
     \<exists>raws. mapE (load_database_file c fs) paths = Inr raws \<and> foldE add_symbol (concat raws) empty_database = Inr db"
    by (simp add: load_nid_databases_def)
qed

text \<open>
  What is resolved from several files: the last symbol under the library, kind and NID, in the order of the files
  and of the records in each.
\<close>

lemma later_file_wins:
  assumes "load_nid_databases c fs paths = Inr db" "normalize_kind k = Inr k'" "parse_nid nid = Inr n"
  shows "\<exists>raws ss. mapE (load_database_file c fs) paths = Inr raws \<and> mapE normalize_symbol (concat raws) = Inr ss \<and>
    resolve_nid db lib nid k = Inr (find (\<lambda>s. symbol_key s = (strip lib, k', n)) (rev ss))"
proof -
  from load_nid_databases_flat [OF assms(1)] obtain raws where
    raws: "mapE (load_database_file c fs) paths = Inr raws" and f: "foldE add_symbol (concat raws) empty_database = Inr db"
    by auto
  from fold_add_symbol [OF f] obtain ss where
    ss: "mapE normalize_symbol (concat raws) = Inr ss" "db = fold store_symbol ss empty_database" by auto
  have "map_of (nd_symbols db) (strip lib, k', n) = find (\<lambda>s. symbol_key s = (strip lib, k', n)) (rev ss)"
    by (simp add: ss(2) database.lookup_stores database.lookup_empty split: option.split)
  with assms(2,3) raws ss(1) show ?thesis by (auto simp: resolve_nid_def)
qed

end
