(* ===== verification/Game_Project.thy ===== *)
theory Game_Project
  imports Game_Resources Recovery Placement Project Linker Nid_Files
begin

text \<open>
  \<open>game_project.py\<close>: the project of a whole game. A disc or a directory is scanned and its resources are
  analyzed; every executable is read, recovered when it is encrypted and a backend is given, placed, disassembled
  and made into a project; a module that fails is recorded and does not stop the others; the modules are linked.
  The state is the file store and the configuration of the disassembly engine. The texts of exceptions and
  warnings and the printers of the project files are parameters.
\<close>

record 'v game_world =
  gw_files :: file_store
  gw_engine :: "'v global_config"

datatype game_failure =
    Module_Unreadable string
  | Module_Unwritable string
  | Module_Not_Analyzed analyze_error
  | Module_Not_Recovered recovery_error
  | Module_Not_Placed placement_error
  | Module_Path_Unsafe string
  | Module_Outside_Output string
  | Module_Not_Disassembled disassemble_error
  | Module_Not_Projected project_error
  | Module_Databases nid_file_error

datatype game_error =
    Game_Disc disc_error
  | Game_Resource_Failed resource_error
  | Game_Module_Failed game_failure
  | Game_Not_Placed placement_error
  | Game_Databases nid_file_error
  | Game_Not_Linked nid_error
  | Game_Module_Lost string

record ('c, 'v) game_host = resource_host +
  gh_engine :: "('c, 'v) engine option"
  gh_unicode :: "string \<Rightarrow> bool"
  gh_sha1 :: "bytes \<Rightarrow> string"
  gh_sha256 :: "bytes \<Rightarrow> string"
  gh_render :: "project_content \<Rightarrow> bytes"
  gh_codec :: nid_codec
  gh_failure_text :: "game_failure \<Rightarrow> string"
  gh_analyze_text :: "analyze_warning \<Rightarrow> string"
  gh_link_text :: "link_warning \<Rightarrow> string"

definition game_resource_host :: "('c, 'v) game_host \<Rightarrow> resource_host" where
  "game_resource_host h = resource_host.truncate h"

definition game_disc_host :: "('c, 'v) game_host \<Rightarrow> disc_host" where
  "game_disc_host h = resource_disc_host (game_resource_host h)"

record game_options =
  go_databases :: "string list"
  go_parsers :: "container_parser list"
  go_backends :: "recovery_backend list"
  go_max_output_bytes :: int

section \<open>Records\<close>

type_synonym game_model = "analyze_warning executable_model"

record placement_fields =
  lf_load_address :: int
  lf_placement_kind :: placement_kind
  lf_placement_confidence :: rat
  lf_runtime_address_claim :: bool
  lf_requires_relocation :: bool
  lf_placement_evidence :: "placement_evidence list"

text \<open>The record of a module; the fields of a placement are there together or not at all.\<close>

record game_record =
  gd_path :: string
  gd_extracted_path :: "string option"
  gd_executable_kind :: string
  gd_is_boot :: bool
  gd_status :: string
  gd_module_name :: "string option"
  gd_project_path :: "string option"
  gd_placement :: "placement_fields option"
  gd_function_count :: int
  gd_symbol_count :: int
  gd_reference_count :: int
  gd_string_count :: int
  gd_warnings :: "string list"
  gd_recovery :: "recovery_provenance option"

record game_analysis =
  gz_source_name :: string
  gz_title :: "string option"
  gz_disc_id :: "string option"
  gz_image_format :: string
  gz_boot_path :: "string option"
  gz_modules :: "game_record list"
  gz_links :: "link_warning link_analysis"
  gz_warnings :: "string list"

record game_project_result =
  gq_output_dir :: string
  gq_module_count :: int
  gq_analyzed_count :: int
  gq_needs_decryption_count :: int
  gq_failed_count :: int
  gq_recovered_count :: int
  gq_resource_count :: int
  gq_known_resource_count :: int
  gq_unknown_resource_count :: int
  gq_embedded_resource_count :: int
  gq_container_candidate_count :: int
  gq_container_inspection_count :: int
  gq_container_entry_count :: int

record prepared_module =
  gv_candidate :: game_module
  gv_extracted :: string
  gv_project_root :: string
  gv_model :: game_model
  gv_module_name :: "string option"
  gv_recovery :: "recovery_provenance option"

section \<open>Failures\<close>

text \<open>
  What the handlers of the two passes catch: \<open>ParseError\<close>, \<open>DisassemblyError\<close>, \<open>OSError\<close> and \<open>ValueError\<close>.
  \<open>struct.error\<close>, \<open>KeyError\<close>, \<open>OverflowError\<close> and \<open>csv.Error\<close> are none of them, and a missing engine is raised
  again.
\<close>

definition view_isolated :: "view_error \<Rightarrow> bool" where
  "view_isolated e = (case e of View_key_error _ \<Rightarrow> False | View_overflow \<Rightarrow> False | _ \<Rightarrow> True)"

definition analyze_isolated :: "analyze_error \<Rightarrow> bool" where
  "analyze_isolated e = (case e of Elf_Failed x \<Rightarrow> x \<noteq> Elf_struct_error | Analyze_struct_error \<Rightarrow> False | _ \<Rightarrow> True)"

definition engine_isolated :: "engine_error \<Rightarrow> bool" where
  "engine_isolated e = (e \<noteq> Engine_Unavailable)"

definition disassembly_isolated :: "disassemble_error \<Rightarrow> bool" where
  "disassembly_isolated e =
     (case e of
        Input_Rejected x \<Rightarrow> analyze_isolated x
      | Requires_Decryption \<Rightarrow> True
      | Image_Rejected x \<Rightarrow> x \<noteq> Elf_struct_error
      | View_Rejected x \<Rightarrow> view_isolated x
      | Engine_Error x \<Rightarrow> engine_isolated x)"

definition isolated :: "game_failure \<Rightarrow> bool" where
  "isolated e =
     (case e of
        Module_Not_Analyzed x \<Rightarrow> analyze_isolated x
      | Module_Not_Recovered x \<Rightarrow> x \<noteq> Uncaught_Exception
      | Module_Not_Disassembled x \<Rightarrow> disassembly_isolated x
      | Module_Not_Projected (Module_Rejected x) \<Rightarrow> disassembly_isolated x
      | Module_Not_Projected (Engine_Rejected x) \<Rightarrow> engine_isolated x
      | Module_Databases x \<Rightarrow> x \<noteq> Nid_Csv_Malformed
      | _ \<Rightarrow> True)"

section \<open>Actions on the state\<close>

text \<open>\<open>not xs\<close> of a list, by its constructor: it needs no equality of the elements.\<close>

definition no_items :: "'a list \<Rightarrow> bool" where
  "no_items xs = (case xs of [] \<Rightarrow> True | _ \<Rightarrow> False)"

lemma no_items_iff: "no_items xs \<longleftrightarrow> xs = []"
  by (simp add: no_items_def split: list.splits)

definition on_files :: "(file_store, 'e, 'a) action \<Rightarrow> ('v game_world, 'e, 'a) action" where
  "on_files m w = (case m (gw_files w) of (r, fs) \<Rightarrow> (r, w\<lparr> gw_files := fs \<rparr>))"

definition on_engine :: "('v global_config, 'e, 'a) action \<Rightarrow> ('v game_world, 'e, 'a) action" where
  "on_engine m w = (case m (gw_engine w) of (r, g) \<Rightarrow> (r, w\<lparr> gw_engine := g \<rparr>))"

definition handleS :: "('s, 'e, 'a) action \<Rightarrow> ('e \<Rightarrow> ('s, 'f, 'a) action) \<Rightarrow> ('s, 'f, 'a) action" where
  "handleS m handler s = (case m s of (Inl e, t) \<Rightarrow> handler e t | (Inr x, t) \<Rightarrow> (Inr x, t))"

definition safe_game_target :: "('c, 'v) game_host \<Rightarrow> string \<Rightarrow> string \<Rightarrow> (game_failure, string) result" where
  "safe_game_target h dir path =
     from_option (Module_Path_Unsafe path) (resolved_below (disc_match_host (game_disc_host h)) dir path)"

definition game_display :: "('c, 'v) game_host \<Rightarrow> string \<Rightarrow> string \<Rightarrow> (game_failure, string) result" where
  "game_display h output path = from_option (Module_Outside_Output path) (relative_to path (mh_resolve h output))"

definition read_module :: "string \<Rightarrow> ('v game_world, game_failure, bytes) action" where
  "read_module path =
     bindS (readS (\<lambda>w. gw_files w path)) (\<lambda>content. liftS (from_option (Module_Unreadable path) content))"

definition put_game :: "('c, 'v) game_host \<Rightarrow> string \<Rightarrow> bytes \<Rightarrow> ('v game_world, game_failure, unit) action" where
  "put_game h path content =
     on_files (convertS (\<lambda>_. Module_Unwritable path) (put_bytes (game_disc_host h) path content))"

definition game_document :: "('c, 'v) game_host \<Rightarrow> json \<Rightarrow> bytes" where
  "game_document h j = json_document (disc_match_host (game_disc_host h)) j"

definition model_name :: "game_model \<Rightarrow> string option" where
  "model_name m =
     (case xm_module_info m of
        Some mi \<Rightarrow> if strip (mi_name mi) \<noteq> [] then Some (strip (mi_name mi)) else
          (case xm_container_header m of
             Some ch \<Rightarrow> if strip (ch_module_name ch) \<noteq> [] then Some (strip (ch_module_name ch)) else None | None \<Rightarrow> None)
      | None \<Rightarrow>
          (case xm_container_header m of
             Some ch \<Rightarrow> if strip (ch_module_name ch) \<noteq> [] then Some (strip (ch_module_name ch)) else None | None \<Rightarrow> None))"

section \<open>Documents\<close>

definition provenance_json :: "recovery_provenance \<Rightarrow> json" where
  "provenance_json p =
     JObj [(''outcome'', JStr (rp_outcome p)), (''original_sha256'', json_of_option JStr (rp_original_sha256 p)),
       (''recovered_sha256'', json_of_option JStr (rp_recovered_sha256 p)),
       (''recovery_backend'', json_of_option JStr (rp_recovery_backend p)),
       (''backend_version'', json_of_option JStr (rp_backend_version p)),
       (''verification'', json_of_option JStr (rp_verification p)), (''warnings'', texts_json (rp_warnings p))]"

fun placement_kind_text :: "placement_kind \<Rightarrow> string" where
  "placement_kind_text Fixed_Kind = ''fixed''"
| "placement_kind_text Boot_Kind = ''boot_inferred''"
| "placement_kind_text Analysis_Kind = ''analysis''"

fun evidence_text :: "placement_evidence \<Rightarrow> string" where
  "evidence_text Fixed_Addresses =
     ''ET_EXEC carries fixed PT_LOAD virtual addresses, so no PSP relocation placement is required.''"
| "evidence_text Boot_First_Allocation =
     ''Relocatable boot module uses the PSP low-allocation path; user memory starts at 0x08800000 and the initial 0x4000 bytes are reserved, making 0x08804000 the first default allocation.''"
| "evidence_text (Boot_Aligned_Allocation address) =
     ''Relocatable boot module uses the PSP low-allocation path; the first default allocation is 0x08804000 and the strictest PT_LOAD alignment moves the selected base to '' @
     ''0x'' @ hex_upper 8 address @ ''.''"
| "evidence_text Additional_Boot =
     ''Only one boot module can receive the PSP default boot-placement claim; this additional boot-marked image uses a deterministic analysis-only placement.''"
| "evidence_text Secondary_Analysis_Only =
     ''Secondary PRX runtime load order and allocation direction/options are not encoded on disc; this deterministic low-memory placement is for analysis only.''"

definition placement_json :: "module_placement \<Rightarrow> json" where
  "placement_json p =
     JObj [(''path'', JStr (mp_path p)), (''load_address'', JInt (mp_load_address p)),
       (''original_image_base'', JInt (mp_original_image_base p)), (''image_size'', JInt (mp_image_size p)),
       (''image_end'', JInt (mp_image_end p)), (''alignment'', JInt (mp_alignment p)),
       (''placement_kind'', JStr (placement_kind_text (mp_placement_kind p))),
       (''placement_confidence'', JFloat (mp_placement_confidence p)),
       (''runtime_address_claim'', JBool (mp_runtime_address_claim p)),
       (''requires_relocation'', JBool (mp_requires_relocation p)),
       (''placement_evidence'', texts_json (map evidence_text (mp_placement_evidence p)))]"

definition direction_text :: "link_direction \<Rightarrow> string" where
  "direction_text d = (case d of Export_Direction \<Rightarrow> ''export'' | Import_Direction \<Rightarrow> ''import'')"

definition resolution_json :: "nid_resolution \<Rightarrow> json" where
  "resolution_json r =
     JObj [(''module'', JStr (nr_module r)), (''library'', JStr (nr_library r)), (''nid'', JInt (nr_nid r)),
       (''name'', JStr (nr_name r)), (''kind'', JStr (kind_name (nr_kind r))), (''address'', JInt (nr_address r)),
       (''direction'', JStr (direction_text (nr_direction r))), (''source'', JStr (nr_source r))]"

definition link_json :: "module_link \<Rightarrow> json" where
  "link_json l =
     JObj [(''importing_module'', JStr (ml_importing_module l)), (''exporting_module'', JStr (ml_exporting_module l)),
       (''library'', JStr (ml_library l)), (''nid'', JInt (ml_nid l)), (''name'', JStr (ml_name l)),
       (''kind'', JStr (kind_name (ml_kind l))), (''import_address'', JInt (ml_import_address l)),
       (''export_address'', JInt (ml_export_address l)), (''name_source'', JStr (ml_name_source l))]"

definition propagated_json :: "propagated_symbol \<Rightarrow> json" where
  "propagated_json p =
     JObj [(''module'', JStr (pg_module p)), (''address'', JInt (pg_address p)), (''name'', JStr (pg_name p)),
       (''kind'', JStr (kind_name (pg_kind p))), (''library'', JStr (pg_library p)), (''nid'', JInt (pg_nid p)),
       (''source'', JStr (pg_source p)), (''confidence'', JFloat (pg_confidence p))]"

definition links_json :: "('c, 'v) game_host \<Rightarrow> link_warning link_analysis \<Rightarrow> json" where
  "links_json h a =
     JObj [(''modules'', texts_json (la_modules a)), (''resolutions'', JList (map resolution_json (la_resolutions a))),
       (''links'', JList (map link_json (la_links a))),
       (''propagated_symbols'', JList (map propagated_json (la_propagated_symbols a))),
       (''warnings'', texts_json (map (gh_link_text h) (la_warnings a)))]"

definition record_json :: "game_record \<Rightarrow> json" where
  "record_json r =
     (let field = (\<lambda>f. json_of_option f (gd_placement r)) in
      JObj [(''path'', JStr (gd_path r)), (''extracted_path'', json_of_option JStr (gd_extracted_path r)),
        (''executable_kind'', JStr (gd_executable_kind r)), (''is_boot'', JBool (gd_is_boot r)),
        (''status'', JStr (gd_status r)), (''module_name'', json_of_option JStr (gd_module_name r)),
        (''project_path'', json_of_option JStr (gd_project_path r)),
        (''load_address'', field (\<lambda>p. JInt (lf_load_address p))),
        (''placement_kind'', field (\<lambda>p. JStr (placement_kind_text (lf_placement_kind p)))),
        (''placement_confidence'', field (\<lambda>p. JFloat (lf_placement_confidence p))),
        (''runtime_address_claim'', field (\<lambda>p. JBool (lf_runtime_address_claim p))),
        (''requires_relocation'', field (\<lambda>p. JBool (lf_requires_relocation p))),
        (''placement_evidence'', texts_json (case gd_placement r of None \<Rightarrow> [] | Some p \<Rightarrow> map evidence_text (lf_placement_evidence p))),
        (''function_count'', JInt (gd_function_count r)), (''symbol_count'', JInt (gd_symbol_count r)),
        (''reference_count'', JInt (gd_reference_count r)), (''string_count'', JInt (gd_string_count r)),
        (''warnings'', texts_json (gd_warnings r)), (''recovery'', json_of_option provenance_json (gd_recovery r))])"

definition game_analysis_json :: "('c, 'v) game_host \<Rightarrow> game_analysis \<Rightarrow> json" where
  "game_analysis_json h a =
     JObj [(''source_name'', JStr (gz_source_name a)), (''title'', json_of_option JStr (gz_title a)),
       (''disc_id'', json_of_option JStr (gz_disc_id a)), (''image_format'', JStr (gz_image_format a)),
       (''boot_path'', json_of_option JStr (gz_boot_path a)), (''modules'', JList (map record_json (gz_modules a))),
       (''links'', links_json h (gz_links a)), (''warnings'', texts_json (gz_warnings a))]"

section \<open>The first pass: reading and recovering\<close>

text \<open>What the handler of a module sees of the variables of its body.\<close>

record module_progress =
  gp_model :: "game_model option"
  gp_extracted :: string
  gp_recovery :: "recovery_provenance option"

definition at_step :: "module_progress \<Rightarrow> ('s, game_failure, 'a) action \<Rightarrow> ('s, game_failure \<times> module_progress, 'a) action" where
  "at_step p m = convertS (\<lambda>e. (e, p)) m"

definition plain_record :: "game_module \<Rightarrow> string option \<Rightarrow> string \<Rightarrow> game_record" where
  "plain_record c extracted status =
     \<lparr> gd_path = gm_path c, gd_extracted_path = extracted, gd_executable_kind = gm_executable_kind c,
       gd_is_boot = gm_is_boot c, gd_status = status, gd_module_name = None, gd_project_path = None, gd_placement = None,
       gd_function_count = 0, gd_symbol_count = 0, gd_reference_count = 0, gd_string_count = 0, gd_warnings = [],
       gd_recovery = None \<rparr>"

definition waiting_record :: "('c, 'v) game_host \<Rightarrow> game_module \<Rightarrow> string \<Rightarrow> game_model \<Rightarrow> string list \<Rightarrow> recovery_provenance option \<Rightarrow> game_record" where
  "waiting_record h c extracted m found prov =
     (plain_record c (Some extracted) ''needs_decryption'')
       \<lparr> gd_module_name := model_name m, gd_warnings := map (gh_analyze_text h) (xm_warnings m) @ found, gd_recovery := prov \<rparr>"

definition failed_record :: "('c, 'v) game_host \<Rightarrow> game_module \<Rightarrow> string \<Rightarrow> string option \<Rightarrow> game_failure \<Rightarrow> recovery_provenance option \<Rightarrow> game_record" where
  "failed_record h c extracted name e prov =
     (plain_record c (Some extracted) ''failed'')
       \<lparr> gd_module_name := name, gd_warnings := [gh_failure_text h e], gd_recovery := prov \<rparr>"

definition no_path_record :: "game_module \<Rightarrow> game_record" where
  "no_path_record c =
     (plain_record c None ''failed'')\<lparr> gd_warnings := [''Phase 7A did not provide an extracted module path''] \<rparr>"

definition or_else :: "string option \<Rightarrow> string option \<Rightarrow> string option" where
  "or_else a b = (case a of Some s \<Rightarrow> Some s | None \<Rightarrow> b)"

text \<open>An encrypted module: its record, or the recovered model with its name, written to its own files.\<close>

definition write_recovered ::
    "('c, 'v) game_host \<Rightarrow> string \<Rightarrow> game_module \<Rightarrow> string \<Rightarrow> recovery_result \<Rightarrow>
       ('v game_world, game_failure \<times> module_progress, module_progress) action" where
  "write_recovered h output c extracted r =
     (let p = \<lparr> gp_model = Some (rr_model r), gp_extracted = extracted, gp_recovery = Some (rr_provenance r) \<rparr> in
      bindS (at_step p (liftS (safe_game_target h (path_join output ''recovered'') (gm_path c)))) (\<lambda>target.
      let q = p\<lparr> gp_extracted := target \<rparr> in
      thenS (at_step q (put_game h target (rr_data r)))
        (thenS (at_step q (put_game h (target @ ''.recovery.json'') (game_document h (provenance_json (rr_provenance r)))))
          (returnS q))))"

definition recover_module ::
    "('c, 'v) game_host \<Rightarrow> game_options \<Rightarrow> string \<Rightarrow> game_module \<Rightarrow> string \<Rightarrow> game_model \<Rightarrow>
       ('v game_world, game_failure \<times> module_progress, game_record + module_progress \<times> game_model \<times> string option) action" where
  "recover_module h opts output c extracted m =
     (let p = \<lparr> gp_model = Some m, gp_extracted = extracted, gp_recovery = None \<rparr> in
      if no_items (go_backends opts) then
        bindS (at_step p (liftS (game_display h output extracted))) (\<lambda>shown.
        returnS (Inl (waiting_record h c shown m [] None)))
      else
        bindS (at_step p (read_module extracted)) (\<lambda>content.
        case recover_bytes (gh_sha256 h) (gk_show_score h) (go_backends opts) (go_max_output_bytes opts) content of
          Inl (Recovery_Error kind prov) \<Rightarrow>
            bindS (at_step p (liftS (game_display h output extracted))) (\<lambda>shown.
            returnS (Inl (waiting_record h c shown m
              [''recovery attempted and failed: '' @ gh_failure_text h (Module_Not_Recovered (Recovery_Error kind prov))] prov)))
        | Inl e \<Rightarrow> raiseS (Module_Not_Recovered e, p)
        | Inr r \<Rightarrow>
            bindS (write_recovered h output c extracted r) (\<lambda>q.
            returnS (Inr (q, rr_model r, or_else (model_name (rr_model r)) (model_name m))))))"

datatype settled = Settled game_record | Ready prepared_module

definition placement_input_of :: "game_module \<Rightarrow> game_model \<Rightarrow> analyze_warning placement_input" where
  "placement_input_of c m = \<lparr> pi_path = gm_path c, pi_is_boot = gm_is_boot c, pi_model = m \<rparr>"

text \<open>Planning always returns (\<open>plan_returns_lemma\<close>), so its result can be taken.\<close>

definition plan_of :: "analyze_warning placement_input list \<Rightarrow> (placement_error, module_placement list) result" where
  "plan_of inputs = the (plan_module_placements inputs)"

definition prepare_module ::
    "('c, 'v) game_host \<Rightarrow> game_options \<Rightarrow> string \<Rightarrow> game_module \<Rightarrow> string \<Rightarrow> string \<Rightarrow>
       ('v game_world, game_failure \<times> module_progress, settled) action" where
  "prepare_module h opts output c extracted project_root =
     bindS (at_step \<lparr> gp_model = None, gp_extracted = extracted, gp_recovery = None \<rparr>
       (bindS (read_module extracted) (\<lambda>content. liftS (map_sum Module_Not_Analyzed id (analyze_bytes content extracted))))) (\<lambda>m.
     bindS (if xm_needs_decryption m then recover_module h opts output c extracted m
            else returnS (Inr (\<lparr> gp_model = Some m, gp_extracted = extracted, gp_recovery = None \<rparr>, m, model_name m))) (\<lambda>step.
     case step of
       Inl r \<Rightarrow> returnS (Settled r)
     | Inr (p, model, name) \<Rightarrow>
         thenS (at_step p (liftS (map_sum Module_Not_Placed id (plan_of [placement_input_of c model]))))
           (returnS (Ready \<lparr> gv_candidate = c, gv_extracted = gp_extracted p, gv_project_root = project_root,
              gv_model = model, gv_module_name = name, gv_recovery = gp_recovery p \<rparr>))))"

definition first_pass ::
    "('c, 'v) game_host \<Rightarrow> game_options \<Rightarrow> string \<Rightarrow> game_module \<Rightarrow> ('v game_world, game_failure, settled) action" where
  "first_pass h opts output c =
     (case gm_output_path c of
        None \<Rightarrow> returnS (Settled (no_path_record c))
      | Some path \<Rightarrow>
          bindS (liftS (safe_game_target h output path)) (\<lambda>extracted.
          bindS (liftS (safe_game_target h (path_join output ''projects'') (gm_path c))) (\<lambda>project_root.
          handleS (prepare_module h opts output c extracted project_root) (\<lambda>(e, p).
            if isolated e then
              bindS (liftS (game_display h output (gp_extracted p))) (\<lambda>shown.
              returnS (Settled (failed_record h c shown (Option.bind (gp_model p) model_name) e (gp_recovery p))))
            else raiseS e))))"

section \<open>The second pass: disassembly and project\<close>

definition fields_of :: "module_placement \<Rightarrow> placement_fields" where
  "fields_of p =
     \<lparr> lf_load_address = mp_load_address p, lf_placement_kind = mp_placement_kind p,
       lf_placement_confidence = mp_placement_confidence p, lf_runtime_address_claim = mp_runtime_address_claim p,
       lf_requires_relocation = mp_requires_relocation p, lf_placement_evidence = mp_placement_evidence p \<rparr>"

definition load_option :: "module_placement \<Rightarrow> int option" where
  "load_option p = (if mp_requires_relocation p then Some (mp_load_address p) else None)"

definition disassemble_module :: "('c, 'v) game_host \<Rightarrow> string \<Rightarrow> int option \<Rightarrow> ('v game_world, game_failure, disassembly_result) action" where
  "disassemble_module h path load_address =
     bindS (read_module path) (\<lambda>content.
     on_engine (convertS Module_Not_Disassembled (disassemble_bytes (gh_unicode h) (gh_engine h) content path load_address)))"

text \<open>The databases as the generator of a project reads them: only when some are given.\<close>

definition databases_of :: "('c, 'v) game_host \<Rightarrow> file_store \<Rightarrow> string list \<Rightarrow> (nid_file_error, nid_database) result" where
  "databases_of h fs paths = load_nid_databases (gh_codec h) (\<lambda>p. fs (mh_resolve h p)) paths"

definition project_database :: "string list \<Rightarrow> (nid_file_error, nid_database) result \<Rightarrow> nid_database option option" where
  "project_database paths loaded =
     (if paths = [] then None else Some (case loaded of Inl _ \<Rightarrow> None | Inr db \<Rightarrow> Some db))"

definition project_failure :: "(nid_file_error, nid_database) result \<Rightarrow> project_error \<Rightarrow> game_failure" where
  "project_failure loaded e =
     (case (e, loaded) of (Databases_Rejected, Inl x) \<Rightarrow> Module_Databases x | _ \<Rightarrow> Module_Not_Projected e)"

definition generate_module_project ::
    "('c, 'v) game_host \<Rightarrow> game_options \<Rightarrow> string \<Rightarrow> string \<Rightarrow> int option \<Rightarrow> ('v game_world, game_failure, unit) action" where
  "generate_module_project h opts path project_root load_address =
     bindS (read_module path) (\<lambda>content.
     bindS (readS (\<lambda>w. databases_of h (gw_files w) (go_databases opts))) (\<lambda>loaded.
     bindS (on_engine (convertS (project_failure loaded)
       (generate_project (gh_unicode h) (gh_engine h) (gh_sha1 h) (project_database (go_databases opts) loaded) content path
          load_address))) (\<lambda>project.
     thenS (mapS (\<lambda>(name, document). put_game h (mh_resolve h (path_join project_root name)) (gh_render h document))
         (pj_files project))
       (returnS ()))))"

definition relocated_link_model :: "prepared_module \<Rightarrow> module_placement \<Rightarrow> ('v game_world, game_failure, game_model) action" where
  "relocated_link_model v p =
     (if \<not> mp_requires_relocation p then returnS (gv_model v)
      else
        bindS (read_module (gv_extracted v)) (\<lambda>content.
        bindS (liftS (map_sum (\<lambda>e. Module_Not_Disassembled (Image_Rejected e)) id (parse_elf32 content))) (\<lambda>elf.
        bindS (liftS (map_sum (\<lambda>e. Module_Not_Disassembled (View_Rejected e)) id
          (build_relocated_load_view content elf (gv_model v) (mp_load_address p)))) (\<lambda>view.
        returnS (lv_model view)))))"

definition analyzed_record :: "('c, 'v) game_host \<Rightarrow> prepared_module \<Rightarrow> module_placement \<Rightarrow> disassembly_result \<Rightarrow> string \<Rightarrow> string \<Rightarrow> game_record" where
  "analyzed_record h v p d shown project =
     \<lparr> gd_path = gm_path (gv_candidate v), gd_extracted_path = Some shown,
       gd_executable_kind = gm_executable_kind (gv_candidate v), gd_is_boot = gm_is_boot (gv_candidate v),
       gd_status = (if gv_recovery v \<noteq> None then ''analyzed_recovered'' else ''analyzed''),
       gd_module_name = gv_module_name v, gd_project_path = Some project, gd_placement = Some (fields_of p),
       gd_function_count = blen (ds_functions d), gd_symbol_count = blen (ds_symbols d),
       gd_reference_count = blen (ds_references d), gd_string_count = blen (ds_strings d),
       gd_warnings = map (gh_analyze_text h) (xm_warnings (gv_model v)) @ ds_warnings d, gd_recovery = gv_recovery v \<rparr>"

type_synonym unit_of_game = "analyze_warning link_unit"

definition analyze_module ::
    "('c, 'v) game_host \<Rightarrow> game_options \<Rightarrow> string \<Rightarrow> module_placement \<Rightarrow> prepared_module \<Rightarrow>
       ('v game_world, game_failure, game_record \<times> unit_of_game option) action" where
  "analyze_module h opts output p v =
     bindS (disassemble_module h (gv_extracted v) (load_option p)) (\<lambda>d.
     thenS (generate_module_project h opts (gv_extracted v) (gv_project_root v) (load_option p))
       (bindS (relocated_link_model v p) (\<lambda>link_model.
        bindS (liftS (game_display h output (gv_extracted v))) (\<lambda>shown.
        bindS (liftS (game_display h output (gv_project_root v))) (\<lambda>project.
        returnS (analyzed_record h v p d shown project,
                 Some \<lparr> lu_model = link_model, lu_disassembly = Some d \<rparr>))))))"

definition second_pass ::
    "('c, 'v) game_host \<Rightarrow> game_options \<Rightarrow> string \<Rightarrow> module_placement \<Rightarrow> prepared_module \<Rightarrow>
       ('v game_world, game_failure, game_record \<times> unit_of_game option) action" where
  "second_pass h opts output p v =
     handleS (analyze_module h opts output p v) (\<lambda>e.
       if isolated e then
         bindS (liftS (game_display h output (gv_extracted v))) (\<lambda>shown.
         returnS ((failed_record h (gv_candidate v) shown (gv_module_name v) e (gv_recovery v))
                    \<lparr> gd_placement := Some (fields_of p) \<rparr>, None))
       else raiseS e)"

section \<open>The modules of a game\<close>

text \<open>A dictionary over paths: what is set last is found.\<close>

definition by_path :: "(string \<times> 'a) list \<Rightarrow> string \<Rightarrow> 'a option" where
  "by_path entries = map_of (rev entries)"

definition settled_records :: "settled list \<Rightarrow> game_record list" where
  "settled_records outcomes = List.map_filter (\<lambda>x. case x of Settled r \<Rightarrow> Some r | Ready _ \<Rightarrow> None) outcomes"

definition ready_modules :: "settled list \<Rightarrow> prepared_module list" where
  "ready_modules outcomes = List.map_filter (\<lambda>x. case x of Ready v \<Rightarrow> Some v | Settled _ \<Rightarrow> None) outcomes"

definition placements_of :: "prepared_module list \<Rightarrow> (placement_error, module_placement list) result" where
  "placements_of vs =
     (if no_items vs then Inr [] else plan_of (map (\<lambda>v. placement_input_of (gv_candidate v) (gv_model v)) vs))"

definition placed_pass ::
    "('c, 'v) game_host \<Rightarrow> game_options \<Rightarrow> string \<Rightarrow> module_placement list \<Rightarrow> prepared_module \<Rightarrow>
       ('v game_world, game_error, game_record \<times> unit_of_game option) action" where
  "placed_pass h opts output placements v =
     bindS (liftS (from_option (Game_Module_Lost (gm_path (gv_candidate v)))
       (by_path (map (\<lambda>p. (mp_path p, p)) placements) (gm_path (gv_candidate v))))) (\<lambda>p.
     convertS Game_Module_Failed (second_pass h opts output p v))"

record game_modules =
  gg_records :: "game_record list"
  gg_placements :: "module_placement list"
  gg_units :: "unit_of_game list"

definition analyze_modules ::
    "('c, 'v) game_host \<Rightarrow> game_options \<Rightarrow> string \<Rightarrow> game_module list \<Rightarrow> ('v game_world, game_error, game_modules) action" where
  "analyze_modules h opts output candidates =
     bindS (convertS Game_Module_Failed (mapS (first_pass h opts output) candidates)) (\<lambda>outcomes.
     bindS (convertS Game_Not_Placed (liftS (placements_of (ready_modules outcomes)))) (\<lambda>placements.
     bindS (mapS (placed_pass h opts output placements)
       (sort_key (\<lambda>v. casefold (gm_path (gv_candidate v))) (ready_modules outcomes))) (\<lambda>finished.
     bindS (liftS (mapE (\<lambda>c. from_option (Game_Module_Lost (gm_path c))
       (by_path (map (\<lambda>r. (gd_path r, r)) (settled_records outcomes @ map fst finished)) (gm_path c))) candidates)) (\<lambda>records.
     returnS \<lparr> gg_records = records, gg_placements = placements, gg_units = List.map_filter snd finished \<rparr>))))"

section \<open>The project of a game\<close>

definition scan_game ::
    "('c, 'v) game_host \<Rightarrow> string \<Rightarrow> string \<Rightarrow> (file_store, disc_error, disc_manifest \<times> disc_resource list) action" where
  "scan_game h source output =
     (let d = game_disc_host h in
      if mh_is_dir h source then
        bindS (scan_game_directory d source (Some output)) (\<lambda>m.
        bindS (extract_directory_resources d source output (Some m)) (\<lambda>rs. returnS (m, rs)))
      else
        bindS (scan_game_disc d source (Some output)) (\<lambda>m.
        bindS (extract_disc_resources d source output (Some m)) (\<lambda>rs. returnS (m, rs))))"

definition game_candidates :: "disc_manifest \<Rightarrow> game_module list" where
  "game_candidates m = sort_key (\<lambda>c. casefold (gm_path c)) (dm_modules m)"

definition game_analysis_of ::
    "('c, 'v) game_host \<Rightarrow> string \<Rightarrow> disc_manifest \<Rightarrow> game_record list \<Rightarrow> link_warning link_analysis \<Rightarrow> game_analysis" where
  "game_analysis_of h source m records links =
     \<lparr> gz_source_name = source, gz_title = dm_title m, gz_disc_id = dm_disc_id m, gz_image_format = dm_image_format m,
       gz_boot_path = dm_boot_path m, gz_modules = records, gz_links = links,
       gz_warnings = map (warning_text (game_disc_host h)) (dm_warnings m) \<rparr>"

definition status_count :: "game_record list \<Rightarrow> string \<Rightarrow> int" where
  "status_count records status = blen (filter (\<lambda>r. gd_status r = status) records)"

definition game_result_of :: "string \<Rightarrow> game_record list \<Rightarrow> resource_analysis \<Rightarrow> game_project_result" where
  "game_result_of output records a =
     (let known = blen (filter (\<lambda>r. kf_format (gr_fields r) \<noteq> ''unknown'') (ga_resources a)) in
      \<lparr> gq_output_dir = output, gq_module_count = blen records, gq_analyzed_count = status_count records ''analyzed'',
        gq_needs_decryption_count = status_count records ''needs_decryption'',
        gq_failed_count = status_count records ''failed'', gq_recovered_count = status_count records ''analyzed_recovered'',
        gq_resource_count = blen (ga_resources a), gq_known_resource_count = known,
        gq_unknown_resource_count = blen (ga_resources a) - known, gq_embedded_resource_count = blen (ga_embedded a),
        gq_container_candidate_count = blen (ga_candidates a), gq_container_inspection_count = blen (ga_inspections a),
        gq_container_entry_count = blen (ga_entries a) \<rparr>)"

definition game_documents :: "('c, 'v) game_host \<Rightarrow> game_analysis \<Rightarrow> module_placement list \<Rightarrow> (string \<times> json) list" where
  "game_documents h a placements =
     [(''metadata/game_analysis.json'', game_analysis_json h a), (''metadata/module_links.json'', links_json h (gz_links a)),
      (''metadata/propagated_symbols.json'', JList (map propagated_json (la_propagated_symbols (gz_links a)))),
      (''metadata/module_placements.json'', JList (map placement_json placements))]"

definition write_game_document ::
    "('c, 'v) game_host \<Rightarrow> string \<Rightarrow> string \<times> json \<Rightarrow> ('v game_world, game_error, unit) action" where
  "write_game_document h output named =
     convertS Game_Module_Failed
       (put_game h (mh_resolve h (path_join output (fst named))) (game_document h (snd named)))"

definition generate_game_project ::
    "('c, 'v) game_host \<Rightarrow> game_options \<Rightarrow> string \<Rightarrow> string \<Rightarrow> ('v game_world, game_error, game_project_result) action" where
  "generate_game_project h opts source output =
     bindS (on_files (convertS Game_Disc (scan_game h source output))) (\<lambda>(m, resources).
     bindS (on_files (convertS Game_Resource_Failed
       (analyze_game_resources (game_resource_host h) source output resources (go_parsers opts)))) (\<lambda>found.
     bindS (analyze_modules h opts output (game_candidates m)) (\<lambda>g.
     bindS (readS (\<lambda>w. databases_of h (gw_files w) (go_databases opts))) (\<lambda>loaded.
     bindS (liftS (map_sum Game_Databases id loaded)) (\<lambda>db.
     bindS (liftS (map_sum Game_Not_Linked id (link_modules (gg_units g) db))) (\<lambda>links.
     thenS (mapS (write_game_document h output)
         (game_documents h (game_analysis_of h source m (gg_records g) links) (gg_placements g)))
       (returnS (game_result_of output (gg_records g) found))))))))"

section \<open>Every module is accounted for\<close>

lemma handleS_Inr:
  "handleS m k s = (Inr y, u) \<longleftrightarrow> m s = (Inr y, u) \<or> (\<exists>e t. m s = (Inl e, t) \<and> k e t = (Inr y, u))"
  by (auto simp: handleS_def split: prod.splits sum.splits)

lemma handleS_Inl:
  "handleS m k s = (Inl f, u) \<longleftrightarrow> (\<exists>e t. m s = (Inl e, t) \<and> k e t = (Inl f, u))"
  by (auto simp: handleS_def split: prod.splits sum.splits)

lemma at_step_Inr [simp]: "at_step p m s = (Inr y, u) \<longleftrightarrow> m s = (Inr y, u)"
  by (simp add: at_step_def convertS_Inr)

lemma on_engine_Inr:
  "on_engine m w = (Inr y, u) \<longleftrightarrow> (\<exists>g. m (gw_engine w) = (Inr y, g) \<and> u = w\<lparr> gw_engine := g \<rparr>)"
  by (auto simp: on_engine_def split: prod.splits)

lemma on_files_Inr:
  "on_files m w = (Inr y, u) \<longleftrightarrow> (\<exists>fs. m (gw_files w) = (Inr y, fs) \<and> u = w\<lparr> gw_files := fs \<rparr>)"
  by (auto simp: on_files_def split: prod.splits)

text \<open>What a record says of its candidate, and of a module that did not get as far as a placement.\<close>

definition record_about :: "game_module \<Rightarrow> game_record \<Rightarrow> bool" where
  "record_about c r \<longleftrightarrow>
     gd_path r = gm_path c \<and> gd_executable_kind r = gm_executable_kind c \<and> gd_is_boot r = gm_is_boot c"

definition not_analyzed :: "game_record \<Rightarrow> bool" where
  "not_analyzed r \<longleftrightarrow>
     gd_project_path r = None \<and> gd_function_count r = 0 \<and> gd_symbol_count r = 0 \<and> gd_reference_count r = 0 \<and>
     gd_string_count r = 0"

definition recovery_verified :: "recovery_provenance option \<Rightarrow> bool" where
  "recovery_verified prov \<longleftrightarrow> (case prov of None \<Rightarrow> True | Some p \<Rightarrow> rp_outcome p = ''verified'')"

definition settled_ok :: "game_module \<Rightarrow> settled \<Rightarrow> bool" where
  "settled_ok c x \<longleftrightarrow>
     (case x of
        Settled r \<Rightarrow> record_about c r \<and> not_analyzed r \<and> gd_placement r = None \<and> gd_status r \<in> {''failed'', ''needs_decryption''}
      | Ready v \<Rightarrow> gv_candidate v = c \<and> recovery_verified (gv_recovery v))"

lemma plain_record_about [simp]:
  "gd_path (plain_record c x s) = gm_path c" "gd_executable_kind (plain_record c x s) = gm_executable_kind c"
  "gd_is_boot (plain_record c x s) = gm_is_boot c" "gd_status (plain_record c x s) = s" "gd_placement (plain_record c x s) = None"
  "gd_project_path (plain_record c x s) = None" "gd_function_count (plain_record c x s) = 0"
  "gd_symbol_count (plain_record c x s) = 0" "gd_reference_count (plain_record c x s) = 0" "gd_string_count (plain_record c x s) = 0"
  by (simp_all add: plain_record_def)

lemma settled_records_ok [simp]:
  "settled_ok c (Settled (waiting_record h c s m found prov))"
  "settled_ok c (Settled (failed_record h c s name e prov))"
  "settled_ok c (Settled (no_path_record c))"
  by (simp_all add: settled_ok_def waiting_record_def failed_record_def no_path_record_def record_about_def not_analyzed_def)

lemma write_recovered_Inr:
  "write_recovered h output c extracted r w = (Inr q, w') \<Longrightarrow> gp_recovery q = Some (rr_provenance r)"
  by (auto simp: write_recovered_def Let_def action_Inr)

lemma recover_module_Inr:
  assumes "recover_module h opts output c extracted m w = (Inr x, w')"
  shows "case x of Inl r \<Rightarrow> settled_ok c (Settled r) | Inr (p, _, _) \<Rightarrow> recovery_verified (gp_recovery p)"
proof (cases "no_items (go_backends opts)")
  case True
  with assms show ?thesis by (auto simp: recover_module_def Let_def action_Inr)
next
  case False
  let ?p = "\<lparr> gp_model = Some m, gp_extracted = extracted, gp_recovery = None \<rparr>"
  from assms False obtain content w1 where
    run: "(case recover_bytes (gh_sha256 h) (gk_show_score h) (go_backends opts) (go_max_output_bytes opts) content of
          Inl (Recovery_Error kind prov) \<Rightarrow>
            bindS (at_step ?p (liftS (game_display h output extracted))) (\<lambda>shown.
            returnS (Inl (waiting_record h c shown m
              [''recovery attempted and failed: '' @ gh_failure_text h (Module_Not_Recovered (Recovery_Error kind prov))] prov)))
        | Inl e \<Rightarrow> raiseS (Module_Not_Recovered e, ?p)
        | Inr r \<Rightarrow>
            bindS (write_recovered h output c extracted r) (\<lambda>q.
            returnS (Inr (q, rr_model r, or_else (model_name (rr_model r)) (model_name m))))) w1 = (Inr x, w')"
    by (auto simp: recover_module_def Let_def action_Inr)
  show ?thesis
  proof (cases "recover_bytes (gh_sha256 h) (gk_show_score h) (go_backends opts) (go_max_output_bytes opts) content")
    case (Inl e)
    with run show ?thesis by (cases e) (auto simp: action_Inr)
  next
    case (Inr r)
    from recover_bytes_verified [OF Inr] have "rp_outcome (rr_provenance r) = ''verified''" by (simp add: recovered_ok_def)
    with run Inr show ?thesis by (auto simp: action_Inr recovery_verified_def dest: write_recovered_Inr)
  qed
qed

lemma prepare_module_Inr:
  assumes "prepare_module h opts output c extracted project_root w = (Inr x, w')"
  shows "settled_ok c x"
proof -
  from assms obtain m w1 step w2 where
    step: "(if xm_needs_decryption m then recover_module h opts output c extracted m
       else returnS (Inr (\<lparr> gp_model = Some m, gp_extracted = extracted, gp_recovery = None \<rparr>, m, model_name m))) w1 = (Inr step, w2)"
    and rest: "(case step of
       Inl r \<Rightarrow> returnS (Settled r)
     | Inr (p, model, name) \<Rightarrow>
         thenS (at_step p (liftS (map_sum Module_Not_Placed id (plan_of [placement_input_of c model]))))
           (returnS (Ready \<lparr> gv_candidate = c, gv_extracted = gp_extracted p, gv_project_root = project_root,
              gv_model = model, gv_module_name = name, gv_recovery = gp_recovery p \<rparr>))) w2 = (Inr x, w')"
    by (auto simp: prepare_module_def action_Inr)
  have "case step of Inl r \<Rightarrow> settled_ok c (Settled r) | Inr (p, _, _) \<Rightarrow> recovery_verified (gp_recovery p)"
    using step by (auto simp: recovery_verified_def dest: recover_module_Inr split: if_splits)
  with rest show ?thesis by (cases step) (auto simp: action_Inr settled_ok_def split: prod.splits)
qed

lemma first_pass_Inr:
  assumes "first_pass h opts output c w = (Inr x, w')"
  shows "settled_ok c x"
proof (cases "gm_output_path c")
  case None
  with assms show ?thesis by (auto simp: first_pass_def)
next
  case (Some path)
  with assms show ?thesis
    by (auto simp: first_pass_def action_Inr handleS_Inr dest: prepare_module_Inr split: if_splits prod.splits)
qed

text \<open>The record of an analyzed module: its placement is the planned one and its counts are of its disassembly there.\<close>

definition counts_disassembled :: "('c, 'v) game_host \<Rightarrow> module_placement \<Rightarrow> game_record \<Rightarrow> bool" where
  "counts_disassembled h p r \<longleftrightarrow>
     (\<exists>content path g d g'. disassemble_bytes (gh_unicode h) (gh_engine h) content path (load_option p) g = (Inr d, g') \<and>
        gd_function_count r = blen (ds_functions d) \<and> gd_symbol_count r = blen (ds_symbols d) \<and>
        gd_reference_count r = blen (ds_references d) \<and> gd_string_count r = blen (ds_strings d))"

definition analysis_grounded :: "('c, 'v) game_host \<Rightarrow> module_placement \<Rightarrow> game_record \<Rightarrow> bool" where
  "analysis_grounded h p r \<longleftrightarrow>
     gd_placement r = Some (fields_of p) \<and>
     counts_disassembled h p r \<and>
     gd_status r = (if gd_recovery r = None then ''analyzed'' else ''analyzed_recovered'') \<and>
     recovery_verified (gd_recovery r)"

definition finished_ok :: "('c, 'v) game_host \<Rightarrow> module_placement \<Rightarrow> game_module \<Rightarrow> game_record \<Rightarrow> bool" where
  "finished_ok h p c r \<longleftrightarrow> record_about c r \<and>
     (if gd_status r = ''failed'' then not_analyzed r \<and> gd_placement r = Some (fields_of p) else analysis_grounded h p r)"

lemma analyze_module_Inr:
  assumes "analyze_module h opts output p v w = (Inr (r, u), w')" "recovery_verified (gv_recovery v)"
  shows "finished_ok h p (gv_candidate v) r"
proof -
  from assms(1) obtain d w1 shown proj where
    d: "disassemble_module h (gv_extracted v) (load_option p) w = (Inr d, w1)" and r: "r = analyzed_record h v p d shown proj"
    by (auto simp: analyze_module_def action_Inr)
  from d obtain content g g' where
    "disassemble_bytes (gh_unicode h) (gh_engine h) content (gv_extracted v) (load_option p) g = (Inr d, g')"
    by (auto simp: disassemble_module_def action_Inr on_engine_Inr convertS_Inr)
  then have "counts_disassembled h p r"
    unfolding counts_disassembled_def
    by (intro exI [of _ content] exI [of _ "gv_extracted v"] exI [of _ g] exI [of _ d] exI [of _ g'])
      (simp add: r analyzed_record_def)
  with assms(2) show ?thesis
    by (auto simp: r finished_ok_def analysis_grounded_def analyzed_record_def record_about_def)
qed

lemma second_pass_Inr:
  assumes "second_pass h opts output p v w = (Inr (r, u), w')" "recovery_verified (gv_recovery v)"
  shows "finished_ok h p (gv_candidate v) r"
proof -
  have "finished_ok h p (gv_candidate v)
      ((failed_record h (gv_candidate v) s (gv_module_name v) e (gv_recovery v))\<lparr> gd_placement := Some (fields_of p) \<rparr>)" for s e
    by (simp add: finished_ok_def failed_record_def record_about_def not_analyzed_def)
  with assms show ?thesis
    by (auto simp: second_pass_def handleS_Inr action_Inr dest: analyze_module_Inr split: if_splits)
qed


lemma map_filter_settled:
  "settled_records [] = []" "settled_records (Settled r # xs) = r # settled_records xs" "settled_records (Ready v # xs) = settled_records xs"
  "ready_modules [] = []" "ready_modules (Settled r # xs) = ready_modules xs" "ready_modules (Ready v # xs) = v # ready_modules xs"
  by (simp_all add: settled_records_def ready_modules_def)

lemma first_passes:
  assumes "mapS (first_pass h opts output) cs w = (Inr xs, w')"
  shows "list_all2 settled_ok cs xs"
  using assms
proof (induction cs arbitrary: w xs)
  case (Cons c cs)
  then show ?case by (auto simp: action_Inr dest: first_pass_Inr)
qed simp

lemma settled_members:
  "list_all2 settled_ok cs xs \<Longrightarrow> v \<in> set (ready_modules xs) \<Longrightarrow> gv_candidate v \<in> set cs \<and> recovery_verified (gv_recovery v)"
  "list_all2 settled_ok cs xs \<Longrightarrow> r \<in> set (settled_records xs) \<Longrightarrow> \<exists>c \<in> set cs. settled_ok c (Settled r)"
proof (induction cs xs rule: list_all2_induct)
  case (Cons c cs x xs)
  { case 1 with Cons show ?case by (cases x) (auto simp: map_filter_settled settled_ok_def) }
  { case 2 with Cons show ?case by (cases x) (auto simp: map_filter_settled settled_ok_def) }
qed (simp_all add: map_filter_settled)

text \<open>A record that is right for one of the candidates, under a plan.\<close>

definition record_right :: "('c, 'v) game_host \<Rightarrow> game_module list \<Rightarrow> module_placement list \<Rightarrow> game_record \<Rightarrow> bool" where
  "record_right h cs placements r \<longleftrightarrow>
     (\<exists>c \<in> set cs. settled_ok c (Settled r) \<or>
        (\<exists>p. by_path (map (\<lambda>p. (mp_path p, p)) placements) (gm_path c) = Some p \<and> finished_ok h p c r))"

lemma placed_pass_Inr:
  "placed_pass h opts output placements v w = (Inr y, w') \<longleftrightarrow>
     (\<exists>p. by_path (map (\<lambda>p. (mp_path p, p)) placements) (gm_path (gv_candidate v)) = Some p \<and>
        second_pass h opts output p v w = (Inr y, w'))"
  by (auto simp: placed_pass_def action_Inr convertS_Inr)

lemma second_passes:
  assumes "mapS (placed_pass h opts output placements) vs w = (Inr fs, w')"
    and "\<forall>v \<in> set vs. gv_candidate v \<in> set cs \<and> recovery_verified (gv_recovery v)"
  shows "\<forall>r \<in> set (map fst fs). record_right h cs placements r"
  using assms
proof (induction vs arbitrary: w fs)
  case (Cons v vs)
  from Cons.prems(1) obtain r u w1 rest p where
    p: "by_path (map (\<lambda>p. (mp_path p, p)) placements) (gm_path (gv_candidate v)) = Some p"
    and one: "second_pass h opts output p v w = (Inr (r, u), w1)" and fs: "fs = (r, u) # rest"
    and rest: "mapS (placed_pass h opts output placements) vs w1 = (Inr rest, w')"
    by (auto simp: placed_pass_Inr action_Inr)
  have "finished_ok h p (gv_candidate v) r" using second_pass_Inr [OF one] Cons.prems(2) by simp
  with p Cons.prems(2) have "record_right h cs placements r" by (auto simp: record_right_def)
  with Cons.IH [OF rest] Cons.prems(2) fs show ?case by simp
qed simp

lemma by_path_Some: "by_path (map (\<lambda>x. (key x, x)) xs) k = Some x \<Longrightarrow> x \<in> set xs \<and> key x = k"
  unfolding by_path_def by (auto dest!: map_of_SomeD)

text \<open>What is true of the records of a run: one for each candidate, under its path, and right.\<close>

definition modules_accounted :: "('c, 'v) game_host \<Rightarrow> game_module list \<Rightarrow> game_modules \<Rightarrow> bool" where
  "modules_accounted h cs g \<longleftrightarrow>
     map gd_path (gg_records g) = map gm_path cs \<and> (\<forall>r \<in> set (gg_records g). record_right h cs (gg_placements g) r)"

lemma collected_records:
  assumes "mapE (\<lambda>c. from_option (Game_Module_Lost (gm_path c)) (by_path (map (\<lambda>r. (gd_path r, r)) rs) (gm_path c))) cs = Inr records"
  shows "map gd_path records = map gm_path cs \<and> set records \<subseteq> set rs"
  using assms
proof (induction cs arbitrary: records)
  case (Cons c cs)
  then obtain r rest where r: "by_path (map (\<lambda>r. (gd_path r, r)) rs) (gm_path c) = Some r" and records: "records = r # rest"
    and rest: "mapE (\<lambda>c. from_option (Game_Module_Lost (gm_path c)) (by_path (map (\<lambda>r. (gd_path r, r)) rs) (gm_path c))) cs = Inr rest"
    by (auto simp: bindE_Inr_iff)
  from Cons.IH [OF rest] by_path_Some [OF r] records show ?case by simp
qed simp

lemma analyze_modules_accounted:
  assumes "analyze_modules h opts output cs w = (Inr g, w')"
  shows "modules_accounted h cs g"
proof -
  from assms obtain xs w1 placements fs w2 records where
    xs: "mapS (first_pass h opts output) cs w = (Inr xs, w1)"
    and fs: "mapS (placed_pass h opts output placements)
       (sort_key (\<lambda>v. casefold (gm_path (gv_candidate v))) (ready_modules xs)) w1 = (Inr fs, w2)"
    and records: "mapE (\<lambda>c. from_option (Game_Module_Lost (gm_path c))
       (by_path (map (\<lambda>r. (gd_path r, r)) (settled_records xs @ map fst fs)) (gm_path c))) cs = Inr records"
    and g: "g = \<lparr> gg_records = records, gg_placements = placements, gg_units = List.map_filter snd fs \<rparr>"
    by (auto simp: analyze_modules_def action_Inr convertS_Inr)
  let ?all = "settled_records xs @ map fst fs"
  have "record_right h cs placements r" if "r \<in> set (settled_records xs)" for r
    using settled_members(2) [OF first_passes [OF xs] that] unfolding record_right_def by blast
  moreover have "\<forall>r \<in> set (map fst fs). record_right h cs placements r"
    by (rule second_passes [OF fs]) (use settled_members(1) [OF first_passes [OF xs]] in simp)
  ultimately have "\<forall>r \<in> set ?all. record_right h cs placements r" by auto
  moreover have "map gd_path records = map gm_path cs \<and> set records \<subseteq> set ?all" using collected_records [OF records] .
  ultimately show ?thesis using records by (auto simp: modules_accounted_def g)
qed

lemma record_right_status:
  "record_right h cs placements r \<Longrightarrow> gd_status r \<in> {''analyzed'', ''analyzed_recovered'', ''needs_decryption'', ''failed''}"
  by (auto simp: record_right_def settled_ok_def finished_ok_def analysis_grounded_def split: if_splits)

lemma status_counts_add_up:
  assumes "\<forall>r \<in> set rs. gd_status r \<in> {''analyzed'', ''analyzed_recovered'', ''needs_decryption'', ''failed''}"
  shows "blen rs = status_count rs ''analyzed'' + status_count rs ''analyzed_recovered'' +
    status_count rs ''needs_decryption'' + status_count rs ''failed''"
  using assms by (induction rs) (auto simp: status_count_def)

definition game_accounted :: "('c, 'v) game_host \<Rightarrow> string \<Rightarrow> string \<Rightarrow> game_project_result \<Rightarrow> bool" where
  "game_accounted h source output res \<longleftrightarrow>
     (\<exists>fs fs' m resources g found.
        scan_game h source output fs = (Inr (m, resources), fs') \<and> modules_accounted h (game_candidates m) g \<and>
        res = game_result_of output (gg_records g) found \<and> gq_module_count res = blen (dm_modules m) \<and>
        gq_module_count res = gq_analyzed_count res + gq_recovered_count res + gq_needs_decryption_count res + gq_failed_count res)"

lemma generated_game_accounted:
  assumes "generate_game_project h opts source output w = (Inr res, w')"
  shows "game_accounted h source output res"
proof -
  from assms obtain fs' m resources g found w1 w2 where
    scan: "scan_game h source output (gw_files w) = (Inr (m, resources), fs')"
    and g: "analyze_modules h opts output (game_candidates m) w1 = (Inr g, w2)"
    and res: "res = game_result_of output (gg_records g) found"
    by (auto simp: generate_game_project_def action_Inr on_files_Inr convertS_Inr)
  from analyze_modules_accounted [OF g] have acc: "modules_accounted h (game_candidates m) g" .
  then have "length (gg_records g) = length (game_candidates m)"
    by (metis length_map modules_accounted_def)
  then have n: "gq_module_count res = blen (dm_modules m)" by (simp add: res game_result_of_def Let_def game_candidates_def)
  have "\<forall>r \<in> set (gg_records g). gd_status r \<in> {''analyzed'', ''analyzed_recovered'', ''needs_decryption'', ''failed''}"
    using acc record_right_status unfolding modules_accounted_def by blast
  from status_counts_add_up [OF this]
  have "gq_module_count res = gq_analyzed_count res + gq_recovered_count res + gq_needs_decryption_count res + gq_failed_count res"
    by (simp add: res game_result_of_def Let_def)
  with scan acc res n show ?thesis unfolding game_accounted_def by blast
qed

section \<open>A failing module stops nothing\<close>

text \<open>
  What stops the passes: an exception the handlers do not catch, a path that leaves the output, or a plan of all
  modules that fails. A candidate without a record or a placement is not among them.
\<close>

definition stops_game :: "game_error \<Rightarrow> bool" where
  "stops_game e \<longleftrightarrow>
     (case e of
        Game_Module_Failed (Module_Path_Unsafe _) \<Rightarrow> True
      | Game_Module_Failed (Module_Outside_Output _) \<Rightarrow> True
      | Game_Module_Failed f \<Rightarrow> \<not> isolated f
      | Game_Not_Placed _ \<Rightarrow> True
      | _ \<Rightarrow> False)"

lemma bindS_Inl:
  "bindS m f s = (Inl e, u) \<longleftrightarrow> m s = (Inl e, u) \<or> (\<exists>x t. m s = (Inr x, t) \<and> f x t = (Inl e, u))"
  by (auto simp: bindS_def split: prod.splits sum.splits)

lemma convertS_Inl: "convertS f m s = (Inl e, u) \<longleftrightarrow> (\<exists>x. m s = (Inl x, u) \<and> e = f x)"
  by (auto simp: convertS_def split: prod.splits sum.splits)

lemma from_option_Inl [simp]: "from_option err x = Inl e \<longleftrightarrow> x = None \<and> e = err"
  by (cases x) (auto simp: from_option_def)

lemma mapS_Inl:
  "mapS f xs s = (Inl e, u) \<Longrightarrow> \<exists>x \<in> set xs. \<exists>s'. f x s' = (Inl e, u)"
  by (induction xs arbitrary: s) (auto simp: bindS_Inl)

text \<open>A body under the handler raises what the handler does not catch, or what it raises itself.\<close>

definition stops_module :: "game_failure \<Rightarrow> bool" where
  "stops_module f \<longleftrightarrow> stops_game (Game_Module_Failed f)"

lemma stops_module_cases [simp]:
  "stops_module (Module_Path_Unsafe p)" "stops_module (Module_Outside_Output p)"
  by (simp_all add: stops_module_def stops_game_def)

lemma not_isolated_stops: "\<not> isolated f \<Longrightarrow> stops_module f"
  by (auto simp: stops_module_def stops_game_def split: game_failure.splits)

lemma first_pass_Inl:
  assumes "first_pass h opts output c w = (Inl f, w')"
  shows "stops_module f"
  using assms not_isolated_stops
  by (auto simp: first_pass_def bindS_Inl handleS_Inl safe_game_target_def game_display_def split: option.splits if_splits)

lemma second_pass_Inl:
  assumes "second_pass h opts output p v w = (Inl f, w')"
  shows "stops_module f"
  using assms not_isolated_stops
  by (auto simp: second_pass_def bindS_Inl handleS_Inl game_display_def split: if_splits)

lemma by_path_None: "by_path (map (\<lambda>x. (key x, x)) xs) k = None \<longleftrightarrow> k \<notin> key ` set xs"
  by (force simp: by_path_def map_of_eq_None_iff)

lemma placements_cover:
  assumes "placements_of vs = Inr placements" "v \<in> set vs"
  shows "gm_path (gv_candidate v) \<in> mp_path ` set placements"
proof -
  let ?inputs = "map (\<lambda>v. placement_input_of (gv_candidate v) (gv_model v)) vs"
  from assms(2) have "vs \<noteq> []" by auto
  with assms(1) have "the (plan_module_placements ?inputs) = Inr placements" by (simp add: placements_of_def plan_of_def no_items_iff)
  with plan_returns_lemma [of ?inputs] have plan: "plan_module_placements ?inputs = Some (Inr placements)" by auto
  have "placement_input_of (gv_candidate v) (gv_model v) \<in> set ?inputs" using assms(2) by simp
  from plan_covers [OF plan this] show ?thesis by (force simp: placement_input_of_def)
qed

lemma placed_pass_Inl:
  assumes "placed_pass h opts output placements v w = (Inl e, w')" "gm_path (gv_candidate v) \<in> mp_path ` set placements"
  shows "stops_game e"
proof -
  from assms(2) obtain p where "by_path (map (\<lambda>p. (mp_path p, p)) placements) (gm_path (gv_candidate v)) = Some p"
    using by_path_None [of mp_path placements "gm_path (gv_candidate v)"] by fastforce
  with assms(1) obtain f where "second_pass h opts output p v w = (Inl f, w')" "e = Game_Module_Failed f"
    by (auto simp: placed_pass_def bindS_Inl convertS_Inl)
  with second_pass_Inl show ?thesis by (fastforce simp: stops_module_def)
qed

lemma finished_paths:
  "mapS (placed_pass h opts output placements) vs w = (Inr fs, w') \<Longrightarrow>
   \<forall>v \<in> set vs. recovery_verified (gv_recovery v) \<Longrightarrow>
     gd_path ` fst ` set fs = (\<lambda>v. gm_path (gv_candidate v)) ` set vs"
proof (induction vs arbitrary: w fs)
  case (Cons v vs)
  from Cons.prems(1) obtain r u w1 rest p where one: "second_pass h opts output p v w = (Inr (r, u), w1)"
    and fs: "fs = (r, u) # rest" and rest: "mapS (placed_pass h opts output placements) vs w1 = (Inr rest, w')"
    by (auto simp: placed_pass_Inr action_Inr)
  have "gd_path r = gm_path (gv_candidate v)"
    using second_pass_Inr [OF one] Cons.prems(2) by (simp add: finished_ok_def record_about_def)
  with Cons.IH [OF rest] Cons.prems(2) fs show ?case by simp
qed simp

lemma settled_cover:
  "list_all2 settled_ok cs xs \<Longrightarrow> c \<in> set cs \<Longrightarrow>
     gm_path c \<in> gd_path ` set (settled_records xs) \<or> (\<exists>v \<in> set (ready_modules xs). gv_candidate v = c)"
proof (induction cs xs rule: list_all2_induct)
  case (Cons c' cs x xs)
  then show ?case by (cases x) (auto simp: map_filter_settled settled_ok_def record_about_def)
qed simp

lemma mapE_Inl: "mapE f xs = Inl e \<Longrightarrow> \<exists>x \<in> set xs. f x = Inl e"
  by (induction xs) (auto simp: bindE_def split: sum.splits)

lemma analyze_modules_stops:
  assumes "analyze_modules h opts output cs w = (Inl e, w')"
  shows "stops_game e"
proof (cases "mapS (first_pass h opts output) cs w")
  case (Pair r w1)
  show ?thesis
  proof (cases r)
    case (Inl f)
    with assms Pair have "e = Game_Module_Failed f" by (auto simp: analyze_modules_def bindS_Inl convertS_Inl convertS_Inr)
    moreover have "stops_module f" using mapS_Inl [of "first_pass h opts output"] first_pass_Inl Pair Inl by blast
    ultimately show ?thesis by (simp add: stops_module_def)
  next
    case (Inr xs)
    with Pair have xs: "list_all2 settled_ok cs xs" using first_passes by blast
    let ?vs = "sort_key (\<lambda>v. casefold (gm_path (gv_candidate v))) (ready_modules xs)"
    show ?thesis
    proof (cases "placements_of (ready_modules xs)")
      case (Inl f)
      with assms Pair Inr have "e = Game_Not_Placed f"
        by (auto simp: analyze_modules_def bindS_Inl convertS_Inl convertS_Inr)
      then show ?thesis by (simp add: stops_game_def)
    next
      case (Inr placements)
      have cover: "\<forall>v \<in> set ?vs. gm_path (gv_candidate v) \<in> mp_path ` set placements"
        using placements_cover [OF Inr] by simp
      obtain q w2 where q: "mapS (placed_pass h opts output placements) ?vs w1 = (q, w2)" by fastforce
      show ?thesis
      proof (cases q)
        case (Inl f)
        with assms Pair \<open>r = Inr xs\<close> Inr q have "e = f"
          by (auto simp: analyze_modules_def bindS_Inl convertS_Inl convertS_Inr)
        moreover obtain v s where "v \<in> set ?vs" "placed_pass h opts output placements v s = (Inl f, w2)"
          using mapS_Inl [OF q [unfolded Inl]] by blast
        ultimately show ?thesis using placed_pass_Inl cover by blast
      next
        case fs: (Inr fs)
        let ?all = "settled_records xs @ map fst fs"
        from assms Pair \<open>r = Inr xs\<close> Inr q fs have
          "mapE (\<lambda>c. from_option (Game_Module_Lost (gm_path c)) (by_path (map (\<lambda>r. (gd_path r, r)) ?all) (gm_path c))) cs = Inl e"
          by (auto simp: analyze_modules_def bindS_Inl convertS_Inl convertS_Inr)
        then obtain c where c: "c \<in> set cs" and none: "by_path (map (\<lambda>r. (gd_path r, r)) ?all) (gm_path c) = None"
          using mapE_Inl by fastforce
        have paths: "gd_path ` fst ` set fs = (\<lambda>v. gm_path (gv_candidate v)) ` set ?vs"
          by (rule finished_paths [OF q [unfolded fs]]) (use settled_members(1) [OF xs] in simp)
        have "gm_path c \<in> gd_path ` set (settled_records xs) \<or> gm_path c \<in> gd_path ` fst ` set fs"
          unfolding paths using settled_cover [OF xs c] by auto
        then have "gm_path c \<in> gd_path ` set ?all" by (simp add: image_Un)
        with none by_path_None [of gd_path ?all "gm_path c"] show ?thesis by blast
      qed
    qed
  qed
qed

section \<open>The theorems on sample games\<close>


definition sample_game_volume :: iso_volume where
  "sample_game_volume =
     \<lparr> iv_walk = ([(''/'', [''A.PRX;1'']), (''/PSP_GAME/SYSDIR'', [''EBOOT.BIN;1''])], None),
       iv_length = (\<lambda>p. Inr 5),
       iv_member = (\<lambda>p. Inr ([0x7F, 0x45, 0x4C, 0x46, 1], None)) \<rparr>"

definition sample_game_host :: "(unit, nat) game_host" where
  "sample_game_host =
     \<lparr> mh_environ = (\<lambda>_. None), mh_which = (\<lambda>_. None), mh_resolve = (\<lambda>p. p), mh_is_dir = (\<lambda>_. False),
       mh_python = ''py'', mh_temporary = ''/tmp'', mh_writable = (\<lambda>_. True), mh_split_words = (\<lambda>s. Some [s]),
       mh_build = (\<lambda>_ _ fs. (Exited 0, fs)), mh_repr = (\<lambda>s. s), mh_differ = (\<lambda>_ _ _ _. (Exited 0, [])),
       mh_loads = (\<lambda>_. None), mh_dumps = (\<lambda>_. [0x7B]), mh_toml = (\<lambda>_ _. None), dk_symlink = (\<lambda>_. False),
       dk_tree = (\<lambda>_. []), dk_iso = Some (\<lambda>_. Inr sample_game_volume), dk_print = (\<lambda>_. ''error''),
       gk_os_error = (\<lambda>_. ''error''), gk_log2 = (\<lambda>q. 0), gk_show_score = (\<lambda>_. ''score''), gh_engine = None,
       gh_unicode = (\<lambda>_. True), gh_sha1 = (\<lambda>_. ''00''), gh_sha256 = (\<lambda>_. ''00''), gh_render = (\<lambda>_. []),
       gh_codec = \<lparr> nc_loads = (\<lambda>_. None), nc_rows = (\<lambda>_. ([], False)), nc_text = (\<lambda>_. []) \<rparr>,
       gh_failure_text = (\<lambda>_. ''error''), gh_analyze_text = (\<lambda>_. ''encrypted''), gh_link_text = (\<lambda>_. []) \<rparr>"

definition sample_game_options :: game_options where
  "sample_game_options = \<lparr> go_databases = [], go_parsers = [], go_backends = [], go_max_output_bytes = 1000 \<rparr>"

definition sample_game_world :: "nat game_world" where
  "sample_game_world = \<lparr> gw_files = sample_disc_store, gw_engine = \<lparr> gc_endian = 0, gc_abi = 0 \<rparr> \<rparr>"

text \<open>The run, evaluated up to the second pass, which has nothing to do here.\<close>

definition sample_records :: "game_module list \<Rightarrow> settled list \<Rightarrow> (game_error, game_record list) result" where
  "sample_records cs xs = mapE (\<lambda>c. from_option (Game_Module_Lost (gm_path c))
     (by_path (map (\<lambda>r. (gd_path r, r)) (settled_records xs)) (gm_path c))) cs"

definition returns :: "('e, 'a) result \<times> 's \<Rightarrow> ('a \<Rightarrow> 's \<Rightarrow> bool) \<Rightarrow> bool" where
  "returns x P = (case x of (r, w) \<Rightarrow> (case r of Inr y \<Rightarrow> P y w | Inl _ \<Rightarrow> False))"

lemma returns_iff: "returns x P \<longleftrightarrow> (\<exists>y w. x = (Inr y, w) \<and> P y w)"
  by (auto simp: returns_def split: prod.splits sum.splits)

definition sample_first_passes :: bool where
  "sample_first_passes =
     returns (on_files (convertS Game_Disc (scan_game sample_game_host ''/game.cso'' ''/out'')) sample_game_world) (\<lambda>d w1.
     returns (on_files (convertS Game_Resource_Failed
       (analyze_game_resources (game_resource_host sample_game_host) ''/game.cso'' ''/out'' (snd d) [])) w1) (\<lambda>found w2.
     returns (mapS (first_pass sample_game_host sample_game_options ''/out'') (game_candidates (fst d)) w2) (\<lambda>xs w3.
       no_items (ready_modules xs) \<and>
       returns (sample_records (game_candidates (fst d)) xs, ()) (\<lambda>rs _. map gd_status rs = [''failed'', ''failed'']))))"

lemma sample_first_passes: sample_first_passes
  by code_simp

lemma sample_documents_written:
  "\<exists>w'. mapS (write_game_document sample_game_host ''/out'') docs w = (Inr (map (\<lambda>_. ()) docs), w')"
proof (induction docs arbitrary: w)
  case (Cons d docs)
  obtain w1 where "write_game_document sample_game_host ''/out'' d w = (Inr (), w1)"
    by (simp add: write_game_document_def put_game_def on_files_def convertS_def put_bytes_def game_disc_host_def
        resource_disc_host_def game_resource_host_def disc_host.defs resource_host.defs sample_game_host_def)
  with Cons.IH [of w1] show ?case by (auto simp: bindS_def)
qed simp

lemma sample_links: "\<exists>links. link_modules ([] :: unit_of_game list) empty_database = Inr links"
  by (simp add: link_modules_def all_entries_def Let_def split: prod.splits)

lemma sample_game_runs:
  "\<exists>res w'. generate_game_project sample_game_host sample_game_options ''/game.cso'' ''/out'' sample_game_world = (Inr res, w') \<and>
     gq_module_count res = 2 \<and> gq_failed_count res = 2"
proof -
  from sample_first_passes obtain m resources w1 found w2 xs w3 rs where
    scan: "on_files (convertS Game_Disc (scan_game sample_game_host ''/game.cso'' ''/out'')) sample_game_world = (Inr (m, resources), w1)"
    and found: "on_files (convertS Game_Resource_Failed
       (analyze_game_resources (game_resource_host sample_game_host) ''/game.cso'' ''/out'' resources [])) w1 = (Inr found, w2)"
    and xs: "mapS (first_pass sample_game_host sample_game_options ''/out'') (game_candidates m) w2 = (Inr xs, w3)"
    and ready: "ready_modules xs = []" and rs: "sample_records (game_candidates m) xs = Inr rs"
    and failed: "map gd_status rs = [''failed'', ''failed'']"
    unfolding sample_first_passes_def returns_iff no_items_iff by force
  from sample_links obtain links where links: "link_modules ([] :: unit_of_game list) empty_database = Inr links" by blast
  have run: "analyze_modules sample_game_host sample_game_options ''/out'' (game_candidates m) w2 =
      (Inr \<lparr> gg_records = rs, gg_placements = [], gg_units = [] \<rparr>, w3)"
    using xs ready rs
    by (simp add: analyze_modules_def bindS_def convertS_def placements_of_def no_items_iff sample_records_def
        List.map_filter_def)
  let ?docs = "game_documents sample_game_host (game_analysis_of sample_game_host ''/game.cso'' m rs links) []"
  obtain w4 where docs: "mapS (write_game_document sample_game_host ''/out'') ?docs w3 = (Inr (map (\<lambda>_. ()) ?docs), w4)"
    using sample_documents_written by blast
  have databases: "databases_of sample_game_host fs (go_databases sample_game_options) = Inr empty_database" for fs
    by (simp add: databases_of_def load_nid_databases_def sample_game_options_def)
  have parsers: "go_parsers sample_game_options = []" by (simp add: sample_game_options_def)
  have "generate_game_project sample_game_host sample_game_options ''/game.cso'' ''/out'' sample_game_world =
      (Inr (game_result_of ''/out'' rs found), w4)"
    by (simp add: generate_game_project_def bindS_def thenS_def scan found run databases links docs parsers)
  moreover from failed have "length rs = 2" "length (filter (\<lambda>r. gd_status r = ''failed'') rs) = 2"
    by (auto simp: Cons_eq_map_conv)
  ultimately show ?thesis by (simp add: game_result_of_def status_count_def Let_def)
qed



definition sample_candidate :: game_module where
  "sample_candidate =
     \<lparr> gm_path = ''A.PRX'', gm_size = 84, gm_executable_kind = ''elf'', gm_output_path = Some ''../A.PRX'', gm_is_boot = False \<rparr>"


text \<open>
  The plan of each module alone is checked before it takes part in the plan of all: two modules can pass the check
  and still leave no plan for both, which is not isolated.
\<close>

definition large_module :: "string \<Rightarrow> unit placement_input" where
  "large_module path = \<lparr> pi_path = path, pi_is_boot = False, pi_model = sample_module 0xFFA0 0 0x80000000 0x10 \<rparr>"

lemma plans_alone_but_not_together:
  "\<not> isl (the (plan_module_placements [large_module ''a''])) \<and> \<not> isl (the (plan_module_placements [large_module ''b''])) \<and>
   plan_module_placements [large_module ''a'', large_module ''b''] = Some (Inl No_Range_Remains)"
  by code_simp

text \<open>The \<open>KeyError\<close> of a load view is not one of the exceptions that are caught.\<close>

lemma view_crash_stops_game: "stops_game (Game_Module_Failed (Module_Not_Disassembled (View_Rejected (View_key_error n))))"
  by (simp add: stops_game_def isolated_def disassembly_isolated_def view_isolated_def)


end
