(* ===== verification/Game_Workspace.thy ===== *)
theory Game_Workspace
  imports Game_Project Decompilation_Store
begin

text \<open>
  \<open>workspace.py\<close>: the workspace of a game. It is prepared from a disc or a directory as a manifest of the
  hashed files; an analysis checks the manifest and the source against it, and is reused as long as the source, the
  databases and the recovery are the same. Times of modification and the compact JSON printer are parameters.
\<close>

section \<open>Data\<close>

datatype workspace_error =
    Workspace_Source_Missing string
  | Workspace_Source_Unsupported string
  | Not_An_Extracted_Source string
  | Link_In_Source string
  | Unsafe_Logical_Path string
  | No_Source_Files
  | Workspace_Disc disc_error
  | Manifest_Lost_File string
  | Hashing_Failed
  | Metadata_Missing string
  | Metadata_Invalid string
  | Metadata_Undecodable string
  | Invalid_Workspace_Schema
  | Unsupported_Workspace_Schema json
  | Invalid_File_Records
  | Path_Not_A_Text
  | Identity_Mismatch
  | Invalid_Local_Schema
  | Local_Kind_Mismatch
  | Local_Path_Missing
  | Workspace_Source_Gone string
  | Snapshot_Invalid
  | Source_Changed
  | Database_Unreadable string
  | Summary_Missing
  | Summary_Invalid string
  | Analysis_Tree_Is_Link string
  | Workspace_Unwritable string
  | Workspace_Analysis_Failed game_error
  | States_Crash

record ('c, 'v) workspace_host = "('c, 'v) game_host" +
  wh_version :: "string option"
  wh_mtime :: "string \<Rightarrow> int"
  wh_compact :: "json \<Rightarrow> bytes"

definition workspace_game_host :: "('c, 'v) workspace_host \<Rightarrow> ('c, 'v) game_host" where
  "workspace_game_host h = game_host.truncate h"

definition workspace_disc_host :: "('c, 'v) workspace_host \<Rightarrow> disc_host" where
  "workspace_disc_host h = game_disc_host (workspace_game_host h)"

definition WORKSPACE_SCHEMA_VERSION :: int where "WORKSPACE_SCHEMA_VERSION = 1"
definition ANALYSIS_SCHEMA_VERSION :: int where "ANALYSIS_SCHEMA_VERSION = 2"
definition LOCAL_FILE :: string where "LOCAL_FILE = ''.pspdisasm-local.json''"
definition FILES_MANIFEST :: string where "FILES_MANIFEST = ''manifests/files.json''"
definition WORKSPACE_FILE :: string where "WORKSPACE_FILE = ''workspace.json''"
definition ANALYSIS_STATE :: string where "ANALYSIS_STATE = ''analysis/state.json''"

text \<open>The fields of a record that was loaded are whatever values the file has; only the path is used as a text.\<close>

record workspace_file =
  wl_path :: string
  wl_size :: json
  wl_sha256 :: json
  wl_source_kind :: json
  wl_classification :: json
  wl_executable_kind :: json
  wl_analysis_state :: json
  wl_analysis_version :: json

record workspace_manifest =
  wm_schema_version :: int
  wm_toolkit_version :: string
  wm_source_kind :: string
  wm_source_name :: string
  wm_source_identity :: string
  wm_files :: "workspace_file list"

record workspace_analysis =
  wr_workspace_dir :: string
  wr_analysis_dir :: string
  wr_analysis_key :: string
  wr_reused :: bool
  wr_game_project :: game_project_result

definition toolkit_version :: "('c, 'v) workspace_host \<Rightarrow> string" where
  "toolkit_version h = (case wh_version h of Some v \<Rightarrow> v | None \<Rightarrow> ''0.9.0'')"

section \<open>Logical paths\<close>

definition safe_logical_path :: "string \<Rightarrow> (workspace_error, string) result" where
  "safe_logical_path path =
     (let turned = map (\<lambda>c. if c = CHR 0x5C then CHR ''/'' else c) path in
      if path = [] \<or> path_escapes turned \<or> path_parts turned = [] then Inl (Unsafe_Logical_Path path)
      else Inr (join_with ''/'' (path_parts turned)))"

definition directory_classification :: "string \<Rightarrow> string \<Rightarrow> string" where
  "directory_classification path kind =
     (let folded = casefold path in
      if folded \<in> {''psp_game/sysdir/eboot.bin'', ''psp_game/sysdir/boot.bin''} then ''boot''
      else if folded = ''umd_data.bin'' \<or> ends_with folded ''/param.sfo'' \<or>
              folded \<in> {''psp_game/icon0.png'', ''psp_game/pic0.png'', ''psp_game/pic1.png''} then ''metadata''
      else if ends_with folded ''.prx'' \<or> kind \<noteq> ''unknown'' then ''module''
      else ''resource'')"

definition workspace_file_of :: "('c, 'v) workspace_host \<Rightarrow> string \<Rightarrow> int \<Rightarrow> bytes \<Rightarrow> string \<Rightarrow> string \<Rightarrow> string \<Rightarrow> workspace_file" where
  "workspace_file_of h path n content kind classification executable_kind =
     \<lparr> wl_path = path, wl_size = JInt n, wl_sha256 = JStr (gh_sha256 h content), wl_source_kind = JStr kind,
       wl_classification = JStr classification, wl_executable_kind = JStr executable_kind,
       wl_analysis_state = JStr ''pending'', wl_analysis_version = JInt ANALYSIS_SCHEMA_VERSION \<rparr>"

section \<open>The files of a source\<close>

text \<open>The regular files below a directory, in the order of the walk: the logical path, the path and the content.\<close>

definition walked_entry :: "('c, 'v) workspace_host \<Rightarrow> file_store \<Rightarrow> string \<Rightarrow> string \<Rightarrow> (workspace_error, (string \<times> string \<times> bytes) option) result" where
  "walked_entry h fs source relative =
     (let candidate = path_join source relative in
      if dk_symlink h candidate then Inl (Link_In_Source candidate)
      else case fs (mh_resolve h candidate) of
             None \<Rightarrow> Inr None
           | Some content \<Rightarrow> bindE (safe_logical_path relative) (\<lambda>logical. Inr (Some (logical, candidate, content))))"

definition walked_directory :: "('c, 'v) workspace_host \<Rightarrow> file_store \<Rightarrow> string \<Rightarrow> (workspace_error, (string \<times> string \<times> bytes) list) result" where
  "walked_directory h fs source =
     bindE (mapE (walked_entry h fs source) (sort_key (\<lambda>relative. casefold (path_join source relative)) (dk_tree h source)))
       (\<lambda>found. Inr (List.map_filter id found))"

definition stat_fields :: "('c, 'v) workspace_host \<Rightarrow> string \<Rightarrow> bytes \<Rightarrow> (string \<times> json) list" where
  "stat_fields h path content =
     [(''size'', JInt (blen content)), (''mtime_ns'', JInt (wh_mtime h (mh_resolve h path)))]"

definition snapshot_fields :: "('c, 'v) workspace_host \<Rightarrow> string \<times> string \<times> bytes \<Rightarrow> (string \<times> json) list" where
  "snapshot_fields h entry =
     (case entry of (logical, path, content) \<Rightarrow> (''path'', JStr logical) # stat_fields h path content)"

definition directory_record :: "('c, 'v) workspace_host \<Rightarrow> string \<times> string \<times> bytes \<Rightarrow> workspace_file" where
  "directory_record h entry =
     (case entry of (logical, path, content) \<Rightarrow>
        let kind = executable_kind_of (take 4 content) in
        workspace_file_of h logical (blen content) content ''directory'' (directory_classification logical kind) kind)"

definition directory_entries :: "('c, 'v) workspace_host \<Rightarrow> file_store \<Rightarrow> string \<Rightarrow> (workspace_error, workspace_file list \<times> json) result" where
  "directory_entries h fs source =
     (if \<not> mh_is_dir h source then Inl (Not_An_Extracted_Source source)
      else
        bindE (walked_directory h fs source) (\<lambda>found.
        let ordered = sort_key (\<lambda>e. casefold (fst e)) found in
        if no_items found then Inl No_Source_Files
        else Inr (map (directory_record h) ordered, JList (map (\<lambda>e. JObj (snapshot_fields h e)) ordered))))"

text \<open>Errors of the hashing of a disc: the errors of a stream are raised again, any other exception is wrapped.\<close>

definition hash_error :: "iso_failure \<Rightarrow> workspace_error" where
  "hash_error f =
     (case f of
        Stream_Error e \<Rightarrow> if stream_parse_error e \<or> e = Lz4_Unavailable then Workspace_Disc (Stream_Failed e) else Hashing_Failed
      | Iso_Exception _ \<Rightarrow> Hashing_Failed)"

definition stream_error :: "disc_error \<Rightarrow> workspace_error" where
  "stream_error e = (case e of Stream_Failed x \<Rightarrow> hash_error (Stream_Error x) | _ \<Rightarrow> Hashing_Failed)"

definition iso_logical_path :: "string \<Rightarrow> (workspace_error, string) result" where
  "iso_logical_path physical = safe_logical_path (logical_path physical)"

definition walked_members :: "iso_volume \<Rightarrow> (workspace_error, (string \<times> string) list) result" where
  "walked_members v =
     (case iv_walk v of
        (dirs, failure) \<Rightarrow>
          bindE (mapE (\<lambda>physical. bindE (iso_logical_path physical) (\<lambda>logical. Inr (logical, physical)))
            (concat (map (\<lambda>(dir, names). map (physical_path dir) names) dirs))) (\<lambda>members.
          case failure of Some f \<Rightarrow> Inl (hash_error f) | None \<Rightarrow> Inr (sort_key (\<lambda>e. casefold (fst e)) members)))"

definition hashed_member :: "('c, 'v) workspace_host \<Rightarrow> disc_manifest \<Rightarrow> iso_volume \<Rightarrow> string \<times> string \<Rightarrow> (workspace_error, workspace_file) result" where
  "hashed_member h m v entry =
     bindE (from_option (Manifest_Lost_File (fst entry))
       (map_of (rev (map (\<lambda>f. (casefold (df_path f), f)) (dm_files m))) (casefold (fst entry)))) (\<lambda>f.
     bindE (map_sum hash_error id (read_member v (snd entry))) (\<lambda>content.
     Inr (workspace_file_of h (fst entry) (df_size f) content (dm_image_format m) (df_classification f) (df_executable_kind f))))"

definition disc_entries ::
    "('c, 'v) workspace_host \<Rightarrow> file_store \<Rightarrow> string \<Rightarrow> (workspace_error, workspace_file list \<times> json \<times> disc_manifest) result" where
  "disc_entries h fs source =
     bindE (map_sum Workspace_Disc id (fst (scan_game_disc (workspace_disc_host h) source None fs))) (\<lambda>m.
     bindE (from_option (Workspace_Disc Pycdlib_Missing) (dk_iso h)) (\<lambda>library.
     bindE (map_sum stream_error id (open_disc_stream (workspace_disc_host h) fs source)) (\<lambda>(format, stream).
     bindE (map_sum hash_error id (library stream)) (\<lambda>v.
     bindE (walked_members v) (\<lambda>members.
     bindE (mapE (hashed_member h m v) members) (\<lambda>records.
     bindE (from_option (Workspace_Source_Gone source) (fs (mh_resolve h source))) (\<lambda>content.
     Inr (records, JObj (stat_fields h source content), m))))))))"

text \<open>The kind of the source, the records of its files and the snapshot it is compared with later.\<close>

definition source_entries ::
    "('c, 'v) workspace_host \<Rightarrow> file_store \<Rightarrow> string \<Rightarrow> (workspace_error, string \<times> workspace_file list \<times> json) result" where
  "source_entries h fs source =
     (if \<not> path_exists (disc_match_host (workspace_disc_host h)) fs source then Inl (Workspace_Source_Missing source)
      else if mh_is_dir h source then
        bindE (directory_entries h fs source) (\<lambda>(records, snapshot). Inr (''directory'', records, snapshot))
      else if fs (mh_resolve h source) \<noteq> None then
        bindE (disc_entries h fs source) (\<lambda>(records, snapshot, m). Inr (dm_image_format m, records, snapshot))
      else Inl (Workspace_Source_Unsupported source))"

section \<open>Preparing a workspace\<close>

definition identity_json :: "workspace_file \<Rightarrow> json" where
  "identity_json r =
     JObj [(''path'', JStr (wl_path r)), (''size'', wl_size r), (''sha256'', wl_sha256 r), (''source_kind'', wl_source_kind r),
       (''classification'', wl_classification r), (''executable_kind'', wl_executable_kind r)]"

definition source_identity :: "('c, 'v) workspace_host \<Rightarrow> workspace_file list \<Rightarrow> string" where
  "source_identity h records =
     gh_sha256 h (wh_compact h (JList (map identity_json (sort_key (\<lambda>r. casefold (wl_path r)) records))))"

definition portable_json :: "workspace_manifest \<Rightarrow> json" where
  "portable_json m =
     JObj [(''schema_version'', JInt (wm_schema_version m)), (''toolkit_version'', JStr (wm_toolkit_version m)),
       (''source_kind'', JStr (wm_source_kind m)), (''source_name'', JStr (wm_source_name m)),
       (''source_identity'', JStr (wm_source_identity m)), (''files_manifest'', JStr FILES_MANIFEST)]"

definition workspace_file_json :: "workspace_file \<Rightarrow> json" where
  "workspace_file_json r =
     JObj [(''path'', JStr (wl_path r)), (''size'', wl_size r), (''sha256'', wl_sha256 r), (''source_kind'', wl_source_kind r),
       (''classification'', wl_classification r), (''executable_kind'', wl_executable_kind r),
       (''analysis_state'', wl_analysis_state r), (''analysis_version'', wl_analysis_version r)]"

definition files_json :: "workspace_file list \<Rightarrow> json" where
  "files_json records = JList (map workspace_file_json records)"

definition local_json :: "('c, 'v) workspace_host \<Rightarrow> string \<Rightarrow> string \<Rightarrow> json \<Rightarrow> json" where
  "local_json h kind source snapshot =
     JObj [(''schema_version'', JInt WORKSPACE_SCHEMA_VERSION), (''source_kind'', JStr kind),
       (''source_path'', JStr (mh_resolve h source)), (''snapshot'', snapshot)]"

definition workspace_path :: "('c, 'v) workspace_host \<Rightarrow> string \<Rightarrow> string \<Rightarrow> string" where
  "workspace_path h workspace name = mh_resolve h (path_join workspace name)"

definition put_document :: "('c, 'v) workspace_host \<Rightarrow> string \<Rightarrow> string \<Rightarrow> json \<Rightarrow> (file_store, workspace_error, unit) action" where
  "put_document h workspace name j =
     convertS (\<lambda>_. Workspace_Unwritable name)
       (put_bytes (workspace_disc_host h) (workspace_path h workspace name)
         (json_document (disc_match_host (workspace_disc_host h)) j))"

definition manifest_of_source :: "('c, 'v) workspace_host \<Rightarrow> string \<Rightarrow> string \<Rightarrow> workspace_file list \<Rightarrow> workspace_manifest" where
  "manifest_of_source h source kind records =
     \<lparr> wm_schema_version = WORKSPACE_SCHEMA_VERSION, wm_toolkit_version = toolkit_version h, wm_source_kind = kind,
       wm_source_name = path_name source, wm_source_identity = source_identity h records, wm_files = records \<rparr>"

definition write_workspace :: "('c, 'v) workspace_host \<Rightarrow> workspace_manifest \<Rightarrow> string \<Rightarrow> string \<Rightarrow> json \<Rightarrow> (file_store, workspace_error, unit) action" where
  "write_workspace h m workspace source snapshot =
     thenS (put_document h workspace WORKSPACE_FILE (portable_json m))
       (thenS (put_document h workspace FILES_MANIFEST (files_json (wm_files m)))
         (put_document h workspace LOCAL_FILE (local_json h (wm_source_kind m) source snapshot)))"

definition prepare_game_workspace ::
    "('c, 'v) workspace_host \<Rightarrow> string \<Rightarrow> string \<Rightarrow> (file_store, workspace_error, workspace_manifest) action" where
  "prepare_game_workspace h source workspace =
     bindS (readS (\<lambda>fs. source_entries h fs source)) (\<lambda>found.
     bindS (liftS found) (\<lambda>(kind, records, snapshot).
     let m = manifest_of_source h source kind records in
     thenS (write_workspace h m workspace source snapshot) (returnS m)))"

section \<open>Loading a workspace\<close>

definition load_document :: "('c, 'v) workspace_host \<Rightarrow> file_store \<Rightarrow> string \<Rightarrow> string \<Rightarrow> (workspace_error, json) result" where
  "load_document h fs workspace name =
     (case read_json (mh_loads h) fs (workspace_path h workspace name) of
        Missing_File \<Rightarrow> Inl (Metadata_Missing name)
      | Unreadable_File \<Rightarrow> Inl (Metadata_Invalid name)
      | Undecodable_File \<Rightarrow> Inl (Metadata_Undecodable name)
      | Json_File j \<Rightarrow> Inr j)"

text \<open>\<open>WorkspaceFileRecord(**record)\<close>: no other keyword, and none of the first five missing.\<close>

definition NEEDED_FIELDS :: "string list" where
  "NEEDED_FIELDS = [''path'', ''size'', ''sha256'', ''source_kind'', ''classification'']"

definition DEFAULT_FIELDS :: "(string \<times> json) list" where
  "DEFAULT_FIELDS =
     [(''executable_kind'', JStr ''unknown''), (''analysis_state'', JStr ''pending''),
      (''analysis_version'', JInt ANALYSIS_SCHEMA_VERSION)]"

definition record_keywords :: "(string \<times> json) list \<Rightarrow> bool" where
  "record_keywords d \<longleftrightarrow>
     list_all (\<lambda>k. k \<in> set NEEDED_FIELDS \<union> fst ` set DEFAULT_FIELDS) (map fst d) \<and>
     list_all (\<lambda>k. k \<in> fst ` set d) NEEDED_FIELDS"

definition field_or_default :: "(string \<times> json) list \<Rightarrow> string \<Rightarrow> json" where
  "field_or_default d key = (case map_of d key of Some v \<Rightarrow> v | None \<Rightarrow> json_get DEFAULT_FIELDS key)"

text \<open>A path that is no text raises when the records are sorted.\<close>

definition workspace_file_of_json :: "(string \<times> json) list \<Rightarrow> (workspace_error, workspace_file) result" where
  "workspace_file_of_json d =
     bindE (from_option Path_Not_A_Text (json_str (json_get d ''path''))) (\<lambda>path.
     Inr \<lparr> wl_path = path, wl_size = json_get d ''size'', wl_sha256 = json_get d ''sha256'',
           wl_source_kind = json_get d ''source_kind'', wl_classification = json_get d ''classification'',
           wl_executable_kind = field_or_default d ''executable_kind'', wl_analysis_state = field_or_default d ''analysis_state'',
           wl_analysis_version = field_or_default d ''analysis_version'' \<rparr>)"

definition portable_text :: "('c, 'v) workspace_host \<Rightarrow> (string \<times> json) list \<Rightarrow> string \<Rightarrow> (workspace_error, string) result" where
  "portable_text h d key = map_sum id (json_text (gh_codec h)) (json_key Invalid_Workspace_Schema d key)"

definition load_game_workspace :: "('c, 'v) workspace_host \<Rightarrow> file_store \<Rightarrow> string \<Rightarrow> (workspace_error, workspace_manifest) result" where
  "load_game_workspace h fs workspace =
     bindE (load_document h fs workspace WORKSPACE_FILE) (\<lambda>portable.
     bindE (load_document h fs workspace FILES_MANIFEST) (\<lambda>files.
     bindE (from_option Invalid_Workspace_Schema (json_obj portable)) (\<lambda>d.
     bindE (from_option Invalid_Workspace_Schema (json_list files)) (\<lambda>items.
     bindE (ensure (json_equals_int (json_get d ''schema_version'') WORKSPACE_SCHEMA_VERSION)
       (Unsupported_Workspace_Schema (json_get d ''schema_version''))) (\<lambda>_.
     let objects = List.map_filter json_obj items in
     bindE (ensure (list_all record_keywords objects) Invalid_Workspace_Schema) (\<lambda>_.
     bindE (portable_text h d ''toolkit_version'') (\<lambda>version.
     bindE (portable_text h d ''source_kind'') (\<lambda>kind.
     bindE (portable_text h d ''source_name'') (\<lambda>source_name.
     bindE (portable_text h d ''source_identity'') (\<lambda>identity.
     bindE (ensure (length objects = length items) Invalid_File_Records) (\<lambda>_.
     bindE (mapE workspace_file_of_json objects) (\<lambda>records.
     bindE (ensure (source_identity h records = identity) Identity_Mismatch) (\<lambda>_.
     Inr \<lparr> wm_schema_version = WORKSPACE_SCHEMA_VERSION, wm_toolkit_version = version, wm_source_kind = kind,
           wm_source_name = source_name, wm_source_identity = identity, wm_files = records \<rparr>)))))))))))))"

definition load_local_source ::
    "('c, 'v) workspace_host \<Rightarrow> file_store \<Rightarrow> string \<Rightarrow> workspace_manifest \<Rightarrow> (workspace_error, string \<times> json) result" where
  "load_local_source h fs workspace m =
     bindE (load_document h fs workspace LOCAL_FILE) (\<lambda>payload.
     bindE (from_option Invalid_Local_Schema (json_obj payload)) (\<lambda>d.
     bindE (ensure (json_equals_int (json_get d ''schema_version'') WORKSPACE_SCHEMA_VERSION) Invalid_Local_Schema) (\<lambda>_.
     bindE (ensure (json_get d ''source_kind'' = JStr (wm_source_kind m)) Local_Kind_Mismatch) (\<lambda>_.
     bindE (from_option Local_Path_Missing (json_str (json_get d ''source_path''))) (\<lambda>source.
     bindE (ensure (source \<noteq> []) Local_Path_Missing) (\<lambda>_.
     bindE (ensure (path_exists (disc_match_host (workspace_disc_host h)) fs source) (Workspace_Source_Gone source)) (\<lambda>_.
     Inr (source, json_get d ''snapshot''))))))))"

text \<open>Equality of a dictionary of texts and integers with a loaded value.\<close>

definition same_value :: "json \<Rightarrow> json \<Rightarrow> bool" where
  "same_value v w = (case v of JInt n \<Rightarrow> json_equals_int w n | _ \<Rightarrow> w = v)"

definition same_dict :: "(string \<times> json) list \<Rightarrow> json \<Rightarrow> bool" where
  "same_dict d j =
     (case j of
        JObj e \<Rightarrow> fst ` set e = fst ` set d \<and> list_all (\<lambda>(k, v). same_value v (json_get e k)) d
      | _ \<Rightarrow> False)"

text \<open>The current snapshot of a directory is in the order of the walk; a source that is no file any more has changed.\<close>

definition validate_snapshot ::
    "('c, 'v) workspace_host \<Rightarrow> file_store \<Rightarrow> string \<Rightarrow> string \<Rightarrow> json \<Rightarrow> (workspace_error, unit) result" where
  "validate_snapshot h fs source kind snapshot =
     (if kind = ''directory'' then
        bindE (from_option Snapshot_Invalid (json_list snapshot)) (\<lambda>kept.
        bindE (walked_directory h fs source) (\<lambda>found.
        ensure (list_all2 same_dict (map (snapshot_fields h) found) kept) Source_Changed))
      else
        bindE (from_option Snapshot_Invalid (json_obj snapshot)) (\<lambda>d.
        bindE (from_option Source_Changed (fs (mh_resolve h source))) (\<lambda>content.
        ensure (same_dict (stat_fields h source content) snapshot) Source_Changed)))"

section \<open>Analysis\<close>

definition database_identity :: "('c, 'v) workspace_host \<Rightarrow> file_store \<Rightarrow> string \<Rightarrow> (workspace_error, json) result" where
  "database_identity h fs path =
     bindE (from_option (Database_Unreadable path) (fs (mh_resolve h path))) (\<lambda>content.
     Inr (JObj [(''size'', JInt (blen content)), (''sha256'', JStr (gh_sha256 h content))]))"

definition analysis_key ::
    "('c, 'v) workspace_host \<Rightarrow> file_store \<Rightarrow> workspace_manifest \<Rightarrow> game_options \<Rightarrow> (workspace_error, string) result" where
  "analysis_key h fs m opts =
     bindE (mapE (database_identity h fs) (go_databases opts)) (\<lambda>databases.
     Inr (gh_sha256 h (wh_compact h (JObj
       [(''source_identity'', JStr (wm_source_identity m)), (''analysis_schema_version'', JInt ANALYSIS_SCHEMA_VERSION),
        (''toolkit_version'', JStr (toolkit_version h)), (''nid_databases'', JList databases),
        (''recovery_backends'', JList (map (\<lambda>b. JStr (rb_name b)) (go_backends opts))),
        (''recovery_max_output_bytes'', JInt (go_max_output_bytes opts))]))))"

definition analysis_dir :: "string \<Rightarrow> string" where
  "analysis_dir workspace = path_join workspace ''analysis''"

definition game_dir :: "string \<Rightarrow> string" where
  "game_dir workspace = path_join (analysis_dir workspace) ''game_project''"

definition summary_json :: "game_project_result \<Rightarrow> json" where
  "summary_json r =
     JObj [(''module_count'', JInt (gq_module_count r)), (''analyzed_count'', JInt (gq_analyzed_count r)),
       (''needs_decryption_count'', JInt (gq_needs_decryption_count r)), (''failed_count'', JInt (gq_failed_count r)),
       (''recovered_count'', JInt (gq_recovered_count r)), (''resource_count'', JInt (gq_resource_count r)),
       (''known_resource_count'', JInt (gq_known_resource_count r)),
       (''unknown_resource_count'', JInt (gq_unknown_resource_count r)),
       (''embedded_resource_count'', JInt (gq_embedded_resource_count r)),
       (''container_candidate_count'', JInt (gq_container_candidate_count r)),
       (''container_inspection_count'', JInt (gq_container_inspection_count r)),
       (''container_entry_count'', JInt (gq_container_entry_count r))]"

definition summary_number :: "(string \<times> json) list \<Rightarrow> string \<Rightarrow> (workspace_error, int) result" where
  "summary_number d key = from_option (Summary_Invalid key) (json_int (json_get d key))"

definition state_to_game_project :: "string \<Rightarrow> (string \<times> json) list \<Rightarrow> (workspace_error, game_project_result) result" where
  "state_to_game_project workspace state =
     bindE (from_option Summary_Missing (json_obj (json_get state ''game_project''))) (\<lambda>d.
     bindE (summary_number d ''module_count'') (\<lambda>modules.
     bindE (summary_number d ''analyzed_count'') (\<lambda>analyzed.
     bindE (summary_number d ''needs_decryption_count'') (\<lambda>encrypted.
     bindE (summary_number d ''failed_count'') (\<lambda>failed.
     bindE (summary_number d ''recovered_count'') (\<lambda>recovered.
     bindE (summary_number d ''resource_count'') (\<lambda>resources.
     bindE (summary_number d ''known_resource_count'') (\<lambda>known.
     bindE (summary_number d ''unknown_resource_count'') (\<lambda>unknown.
     bindE (summary_number d ''embedded_resource_count'') (\<lambda>embedded.
     bindE (summary_number d ''container_candidate_count'') (\<lambda>candidates.
     bindE (summary_number d ''container_inspection_count'') (\<lambda>inspections.
     bindE (summary_number d ''container_entry_count'') (\<lambda>entries.
     Inr \<lparr> gq_output_dir = game_dir workspace, gq_module_count = modules, gq_analyzed_count = analyzed,
           gq_needs_decryption_count = encrypted, gq_failed_count = failed, gq_recovered_count = recovered,
           gq_resource_count = resources, gq_known_resource_count = known, gq_unknown_resource_count = unknown,
           gq_embedded_resource_count = embedded, gq_container_candidate_count = candidates,
           gq_container_inspection_count = inspections, gq_container_entry_count = entries \<rparr>)))))))))))))"

text \<open>
  The states of the files after an analysis, from the reports it wrote: a report that is missing, no JSON or no
  dictionary gives none.
\<close>

definition reported_states :: "string \<Rightarrow> ((string \<times> json) list \<Rightarrow> string) \<Rightarrow> json_file \<Rightarrow> (workspace_error, (string \<times> string) list) result" where
  "reported_states key status report =
     (case report of
        Undecodable_File \<Rightarrow> Inl States_Crash
      | Json_File (JObj d) \<Rightarrow>
          bindE (map_sum (\<lambda>_. States_Crash) id (list_items d key)) (\<lambda>items.
          Inr (List.map_filter (\<lambda>item. case item of
                 JObj r \<Rightarrow> map_option (\<lambda>path. (casefold path, status r)) (json_str (json_get r ''path''))
               | _ \<Rightarrow> None) items))
      | _ \<Rightarrow> Inr [])"

definition module_status :: "('c, 'v) workspace_host \<Rightarrow> (string \<times> json) list \<Rightarrow> string" where
  "module_status h r =
     (case map_of r ''status'' of None \<Rightarrow> ''analyzed'' | Some v \<Rightarrow> json_text (gh_codec h) v)"

definition report_at :: "('c, 'v) workspace_host \<Rightarrow> file_store \<Rightarrow> string \<Rightarrow> string \<Rightarrow> json_file" where
  "report_at h fs workspace name = read_json (mh_loads h) fs (mh_resolve h (path_join (game_dir workspace) name))"

definition with_state :: "(string \<times> string) list \<Rightarrow> workspace_file \<Rightarrow> workspace_file" where
  "with_state states r =
     (case map_of (rev states) (casefold (wl_path r)) of None \<Rightarrow> r | Some s \<Rightarrow> r\<lparr> wl_analysis_state := JStr s \<rparr>)"

definition update_analysis_states ::
    "('c, 'v) workspace_host \<Rightarrow> string \<Rightarrow> workspace_manifest \<Rightarrow> (file_store, workspace_error, unit) action" where
  "update_analysis_states h workspace m =
     bindS (readS (\<lambda>fs. reported_states ''modules'' (module_status h) (report_at h fs workspace ''metadata/game_analysis.json'')))
       (\<lambda>found.
     bindS (liftS found) (\<lambda>modules.
     bindS (readS (\<lambda>fs. reported_states ''resources'' (\<lambda>_. ''analyzed'') (report_at h fs workspace ''metadata/game_resources.json'')))
       (\<lambda>found.
     bindS (liftS found) (\<lambda>resources.
     put_document h workspace FILES_MANIFEST (files_json (map (with_state (modules @ resources)) (wm_files m)))))))"

text \<open>The checks before an analysis, and the result of an earlier one with the same key.\<close>

definition checked_workspace ::
    "('c, 'v) workspace_host \<Rightarrow> file_store \<Rightarrow> game_options \<Rightarrow> string \<Rightarrow>
       (workspace_error, workspace_manifest \<times> string \<times> string) result" where
  "checked_workspace h fs opts workspace =
     bindE (load_game_workspace h fs workspace) (\<lambda>m.
     bindE (load_local_source h fs workspace m) (\<lambda>(source, snapshot).
     bindE (validate_snapshot h fs source (wm_source_kind m) snapshot) (\<lambda>_.
     bindE (analysis_key h fs m opts) (\<lambda>key. Inr (m, source, key)))))"

definition earlier_analysis ::
    "('c, 'v) workspace_host \<Rightarrow> file_store \<Rightarrow> string \<Rightarrow> string \<Rightarrow> (workspace_error, game_project_result option) result" where
  "earlier_analysis h fs workspace key =
     (if path_exists (disc_match_host (workspace_disc_host h)) fs (path_join workspace ANALYSIS_STATE) \<and>
         fs (mh_resolve h (path_join (game_dir workspace) ''metadata/game_analysis.json'')) \<noteq> None
      then
        bindE (load_document h fs workspace ANALYSIS_STATE) (\<lambda>j.
        case j of
          JObj state \<Rightarrow>
            if json_get state ''analysis_key'' = JStr key then map_sum id Some (state_to_game_project workspace state)
            else Inr None
        | _ \<Rightarrow> Inr None)
      else Inr None)"

definition remove_tree :: "('c, 'v) workspace_host \<Rightarrow> string \<Rightarrow> (file_store, workspace_error, unit) action" where
  "remove_tree h dir =
     (if dk_symlink h dir then raiseS (Analysis_Tree_Is_Link dir)
      else updateS (\<lambda>fs p. if relative_to p (mh_resolve h dir) = None then fs p else None))"

definition state_document :: "workspace_manifest \<Rightarrow> string \<Rightarrow> game_project_result \<Rightarrow> json" where
  "state_document m key r =
     JObj [(''schema_version'', JInt ANALYSIS_SCHEMA_VERSION), (''analysis_key'', JStr key),
       (''source_identity'', JStr (wm_source_identity m)), (''game_project'', summary_json r)]"

definition workspace_result :: "string \<Rightarrow> string \<Rightarrow> bool \<Rightarrow> game_project_result \<Rightarrow> workspace_analysis" where
  "workspace_result workspace key reused r =
     \<lparr> wr_workspace_dir = workspace, wr_analysis_dir = analysis_dir workspace, wr_analysis_key = key, wr_reused = reused,
       wr_game_project = r \<rparr>"

definition analyze_game_workspace ::
    "('c, 'v) workspace_host \<Rightarrow> game_options \<Rightarrow> string \<Rightarrow> ('v game_world, workspace_error, workspace_analysis) action" where
  "analyze_game_workspace h opts workspace =
     bindS (readS (\<lambda>w. checked_workspace h (gw_files w) opts workspace)) (\<lambda>checked.
     bindS (liftS checked) (\<lambda>(m, source, key).
     bindS (readS (\<lambda>w. earlier_analysis h (gw_files w) workspace key)) (\<lambda>found.
     bindS (liftS found) (\<lambda>earlier.
     case earlier of
       Some r \<Rightarrow> returnS (workspace_result workspace key True r)
     | None \<Rightarrow>
         thenS (on_files (remove_tree h (game_dir workspace)))
           (bindS (convertS Workspace_Analysis_Failed
              (generate_game_project (workspace_game_host h) (opts\<lparr> go_parsers := [] \<rparr>) source (game_dir workspace))) (\<lambda>r.
            thenS (on_files (update_analysis_states h workspace m))
              (thenS (on_files (put_document h workspace ANALYSIS_STATE (state_document m key r)))
                (returnS (workspace_result workspace key False r)))))))))"

section \<open>A prepared workspace is loaded\<close>

text \<open>The documents of a workspace are in three files, and the codec reads back what it prints of them.\<close>

definition workspace_codec :: "('c, 'v) workspace_host \<Rightarrow> string \<Rightarrow> workspace_manifest \<Rightarrow> bool" where
  "workspace_codec h workspace m \<longleftrightarrow>
     distinct (map (workspace_path h workspace) [WORKSPACE_FILE, FILES_MANIFEST, LOCAL_FILE]) \<and>
     codec_ok (mh_loads h) (mh_dumps h) (portable_json m) \<and>
     codec_ok (mh_loads h) (mh_dumps h) (files_json (wm_files m))"

definition document_at :: "('c, 'v) workspace_host \<Rightarrow> string \<Rightarrow> string \<Rightarrow> json \<Rightarrow> file_store \<Rightarrow> bool" where
  "document_at h workspace name j fs \<longleftrightarrow> fs (workspace_path h workspace name) = Some (mh_dumps h j @ [0x0A])"

lemma workspace_hosts [simp]:
  "mh_resolve (workspace_disc_host h) = mh_resolve h" "mh_writable (workspace_disc_host h) = mh_writable h"
  "mh_dumps (disc_match_host (workspace_disc_host h)) = mh_dumps h"
  "mh_resolve (disc_match_host (workspace_disc_host h)) = mh_resolve h"
  by (simp_all add: workspace_disc_host_def workspace_game_host_def game_disc_host_def game_resource_host_def
    resource_disc_host_def disc_match_host_def match_host.truncate_def disc_host.truncate_def resource_host.truncate_def
    game_host.truncate_def)

lemma put_document_Inr:
  "put_document h workspace name j fs = (Inr u, fs') \<longleftrightarrow>
     mh_writable h (workspace_path h workspace name) \<and>
     fs' = fs(workspace_path h workspace name \<mapsto> mh_dumps h j @ [0x0A])"
  by (auto simp: put_document_def convertS_def put_bytes_def json_document_def)

lemma document_at_loads:
  assumes "document_at h workspace name j fs" "codec_ok (mh_loads h) (mh_dumps h) j"
  shows "load_document h fs workspace name = Inr (sort_json j)"
  using assms by (simp add: document_at_def codec_ok_def load_document_def read_json_def)

text \<open>A record whose fields are texts and numbers, which sorting leaves alone.\<close>

definition plain_file :: "workspace_file \<Rightarrow> bool" where
  "plain_file r \<longleftrightarrow>
     list_all (\<lambda>v. sort_json v = v) [wl_size r, wl_sha256 r, wl_source_kind r, wl_classification r, wl_executable_kind r,
       wl_analysis_state r, wl_analysis_version r]"

lemma workspace_file_of_plain: "plain_file (workspace_file_of h path n content kind classification executable_kind)"
  by (simp add: plain_file_def workspace_file_of_def)

text \<open>The dictionary of a record, whatever the order of its keys, is the record.\<close>

definition sorted_fields :: "workspace_file \<Rightarrow> (string \<times> json) list" where
  "sorted_fields r = the (json_obj (sort_json (workspace_file_json r)))"

lemma sorted_fields:
  assumes "plain_file r"
  shows "sort_json (workspace_file_json r) = JObj (sorted_fields r)"
    and "record_keywords (sorted_fields r)" "workspace_file_of_json (sorted_fields r) = Inr r"
proof -
  let ?d = "[(''path'', JStr (wl_path r)), (''size'', wl_size r), (''sha256'', wl_sha256 r), (''source_kind'', wl_source_kind r),
       (''classification'', wl_classification r), (''executable_kind'', wl_executable_kind r),
       (''analysis_state'', wl_analysis_state r), (''analysis_version'', wl_analysis_version r)]"
  show "sort_json (workspace_file_json r) = JObj (sorted_fields r)"
    by (simp add: workspace_file_json_def sorted_fields_def del: sort_key_simps)
  have "map (\<lambda>(k, v). (k, sort_json v)) ?d = ?d"
    using assms by (simp add: plain_file_def)
  then have fields: "sorted_fields r = sort_key fst ?d"
    unfolding sorted_fields_def workspace_file_json_def by (simp del: list.map)
  then have "set (sorted_fields r) = set ?d" by (simp only: set_sort)
  moreover have "list_all (\<lambda>k. k \<in> set NEEDED_FIELDS \<union> fst ` set DEFAULT_FIELDS) (map fst ?d) \<and>
     list_all (\<lambda>k. k \<in> fst ` set ?d) NEEDED_FIELDS"
    by (simp add: NEEDED_FIELDS_def DEFAULT_FIELDS_def)
  ultimately show "record_keywords (sorted_fields r)"
    by (simp add: record_keywords_def list_all_iff)
  have "map_of (sorted_fields r) k = map_of ?d k" for k by (simp only: fields map_of_sort_key)
  then show "workspace_file_of_json (sorted_fields r) = Inr r"
    by (simp add: workspace_file_of_json_def json_get_def field_or_default_def from_option_def bindE_def)
qed

lemma loaded_files:
  assumes "list_all plain_file records"
  shows "sort_json (files_json records) = JList (map (\<lambda>r. JObj (sorted_fields r)) records)"
    "List.map_filter json_obj (map (\<lambda>r. JObj (sorted_fields r)) records) = map sorted_fields records"
    "list_all record_keywords (map sorted_fields records)"
    "mapE workspace_file_of_json (map sorted_fields records) = Inr records"
  using assms sorted_fields
  by (induction records) (auto simp: files_json_def map_filter_def)

lemma portable_fields:
  "json_obj (sort_json (portable_json m)) = Some (the (json_obj (sort_json (portable_json m))))"
  "map_of (the (json_obj (sort_json (portable_json m)))) k =
     map_of [(''schema_version'', JInt (wm_schema_version m)), (''toolkit_version'', JStr (wm_toolkit_version m)),
       (''source_kind'', JStr (wm_source_kind m)), (''source_name'', JStr (wm_source_name m)),
       (''source_identity'', JStr (wm_source_identity m)), (''files_manifest'', JStr FILES_MANIFEST)] k"
  unfolding portable_json_def by (simp_all add: map_of_sorted_object del: sort_key_simps list.map)

text \<open>What a workspace must be on disk to be loaded as the manifest.\<close>

lemma written_workspace_loads:
  assumes "document_at h workspace WORKSPACE_FILE (portable_json m) fs" "document_at h workspace FILES_MANIFEST (files_json (wm_files m)) fs"
    and "workspace_codec h workspace m" "list_all plain_file (wm_files m)"
    and "wm_schema_version m = WORKSPACE_SCHEMA_VERSION" "wm_source_identity m = source_identity h (wm_files m)"
  shows "load_game_workspace h fs workspace = Inr m"
proof -
  have "load_document h fs workspace WORKSPACE_FILE = Inr (sort_json (portable_json m))"
    "load_document h fs workspace FILES_MANIFEST = Inr (JList (map (\<lambda>r. JObj (sorted_fields r)) (wm_files m)))"
    using document_at_loads [OF assms(1)] document_at_loads [OF assms(2)] assms(3) loaded_files(1) [OF assms(4)]
    by (simp_all add: workspace_codec_def)
  moreover obtain d where "json_obj (sort_json (portable_json m)) = Some d"
    and "\<And>k. map_of d k = map_of [(''schema_version'', JInt (wm_schema_version m)), (''toolkit_version'', JStr (wm_toolkit_version m)),
       (''source_kind'', JStr (wm_source_kind m)), (''source_name'', JStr (wm_source_name m)),
       (''source_identity'', JStr (wm_source_identity m)), (''files_manifest'', JStr FILES_MANIFEST)] k"
    using portable_fields by blast
  ultimately show ?thesis
    using loaded_files(2-4) [OF assms(4)] assms(5,6)
    by (simp add: load_game_workspace_def bindE_def from_option_def json_get_def ensure_def portable_text_def json_key_def
      json_text_def Let_def)
qed

lemma walked_plain:
  assumes "source_entries h fs source = Inr (kind, records, snapshot)"
  shows "list_all plain_file records"
  using assms
  by (auto simp: source_entries_def directory_entries_def disc_entries_def bindE_Inr_iff Let_def list_all_iff directory_record_def
    hashed_member_def workspace_file_of_plain split: if_splits prod.splits dest!: mapE_set)

lemma prepared_loads:
  assumes "prepare_game_workspace h source workspace fs = (Inr m, fs')" "workspace_codec h workspace m"
  shows "load_game_workspace h fs' workspace = Inr m"
proof -
  obtain kind records snapshot where found: "source_entries h fs source = Inr (kind, records, snapshot)"
    and m: "m = manifest_of_source h source kind records"
    and "write_workspace h m workspace source snapshot fs = (Inr (), fs')"
    using assms(1) by (auto simp: prepare_game_workspace_def action_Inr Let_def split: prod.splits)
  then have "document_at h workspace WORKSPACE_FILE (portable_json m) fs'"
    "document_at h workspace FILES_MANIFEST (files_json (wm_files m)) fs'"
    using assms(2) by (auto simp: write_workspace_def action_Inr put_document_Inr document_at_def workspace_codec_def)
  then show ?thesis
    using walked_plain [OF found] by (intro written_workspace_loads assms(2)) (simp_all add: m manifest_of_source_def)
qed

text \<open>
  Property C40. A workspace that was prepared is loaded: the manifest comes back with every record, and its identity is the one that is
  recomputed from them.
\<close>

theorem prepared_workspace_is_loaded:
  "prepare_game_workspace h source workspace fs = (Inr m, fs') \<Longrightarrow> workspace_codec h workspace m \<Longrightarrow>
     load_game_workspace h fs' workspace = Inr m"
  by (rule prepared_loads)

text \<open>The identity of a source does not see the states of its files, so an analysis that updates them keeps it.\<close>

lemma sort_key_map_through: "sort_key f (map g xs) = map g (sort_key (\<lambda>x. f (g x)) xs)"
proof -
  have "insort_key f (g x) (map g ys) = map g (insort_key (\<lambda>x. f (g x)) x ys)" for x ys
    by (induction ys) auto
  then show ?thesis by (induction xs) simp_all
qed

lemma with_state_identity: "source_identity h (map (with_state states) records) = source_identity h records"
proof -
  have same: "identity_json (with_state states r) = identity_json r" "wl_path (with_state states r) = wl_path r" for r
    by (simp_all add: with_state_def identity_json_def split: option.splits)
  show ?thesis by (simp add: source_identity_def sort_key_map_through comp_def same)
qed

section \<open>A reused analysis is current\<close>

definition analysis_current ::
    "('c, 'v) workspace_host \<Rightarrow> file_store \<Rightarrow> game_options \<Rightarrow> string \<Rightarrow> workspace_analysis \<Rightarrow> bool" where
  "analysis_current h fs opts workspace r \<longleftrightarrow>
     (\<exists>m source snapshot.
        load_game_workspace h fs workspace = Inr m \<and> source_identity h (wm_files m) = wm_source_identity m \<and>
        load_local_source h fs workspace m = Inr (source, snapshot) \<and>
        validate_snapshot h fs source (wm_source_kind m) snapshot = Inr () \<and>
        analysis_key h fs m opts = Inr (wr_analysis_key r))"

definition analysis_kept :: "('c, 'v) workspace_host \<Rightarrow> file_store \<Rightarrow> string \<Rightarrow> workspace_analysis \<Rightarrow> bool" where
  "analysis_kept h fs workspace r \<longleftrightarrow>
     fs (mh_resolve h (path_join (game_dir workspace) ''metadata/game_analysis.json'')) \<noteq> None \<and>
     (\<exists>state. load_document h fs workspace ANALYSIS_STATE = Inr (JObj state) \<and>
        json_get state ''analysis_key'' = JStr (wr_analysis_key r) \<and>
        state_to_game_project workspace state = Inr (wr_game_project r))"

text \<open>An analysis that was made is recorded under its key, with the identity of the manifest it was made for.\<close>

definition analysis_recorded ::
    "('c, 'v) workspace_host \<Rightarrow> file_store \<Rightarrow> string \<Rightarrow> workspace_analysis \<Rightarrow> file_store \<Rightarrow> bool" where
  "analysis_recorded h before workspace r fs \<longleftrightarrow>
     (\<exists>m. load_game_workspace h before workspace = Inr m \<and> document_at h workspace ANALYSIS_STATE (state_document m (wr_analysis_key r) (wr_game_project r)) fs)"

definition analyzed_well ::
    "('c, 'v) workspace_host \<Rightarrow> game_options \<Rightarrow> string \<Rightarrow> 'v game_world \<Rightarrow> workspace_analysis \<Rightarrow> 'v game_world \<Rightarrow> bool" where
  "analyzed_well h opts workspace w r w' \<longleftrightarrow>
     analysis_current h (gw_files w) opts workspace r \<and>
     (if wr_reused r then w' = w \<and> analysis_kept h (gw_files w) workspace r
      else analysis_recorded h (gw_files w) workspace r (gw_files w'))"

lemma loaded_identity: "load_game_workspace h fs workspace = Inr m \<Longrightarrow> source_identity h (wm_files m) = wm_source_identity m"
  by (auto simp: load_game_workspace_def bindE_Inr_iff Let_def)

lemma earlier_analysis_Some:
  "earlier_analysis h fs workspace key = Inr (Some r) \<Longrightarrow>
     analysis_kept h fs workspace (workspace_result workspace key True r)"
proof -
  assume found: "earlier_analysis h fs workspace key = Inr (Some r)"
  have unmapped: "map_sum id Some x = Inr (Some r) \<longleftrightarrow> x = Inr r" for x :: "(workspace_error, game_project_result) result"
    by (cases x) simp_all
  from found obtain j where report: "fs (mh_resolve h (path_join (game_dir workspace) ''metadata/game_analysis.json'')) \<noteq> None"
    and state: "load_document h fs workspace ANALYSIS_STATE = Inr j"
    and kept: "(case j of
          JObj state \<Rightarrow>
            if json_get state ''analysis_key'' = JStr key then map_sum id Some (state_to_game_project workspace state)
            else Inr None
        | _ \<Rightarrow> Inr None) = Inr (Some r)"
    by (auto simp: earlier_analysis_def bindE_Inr_iff split: if_splits)
  from kept obtain d where "j = JObj d" "json_get d ''analysis_key'' = JStr key" "state_to_game_project workspace d = Inr r"
    by (cases j) (auto simp: unmapped split: if_splits)
  with report state show ?thesis by (simp add: analysis_kept_def workspace_result_def)
qed

lemma workspace_analyzed_well:
  assumes "analyze_game_workspace h opts workspace w = (Inr r, w')"
  shows "analyzed_well h opts workspace w r w'"
proof -
  from assms obtain m source key earlier where
    checked: "checked_workspace h (gw_files w) opts workspace = Inr (m, source, key)"
    and earlier: "earlier_analysis h (gw_files w) workspace key = Inr earlier"
    and rest: "(case earlier of
       Some r \<Rightarrow> returnS (workspace_result workspace key True r)
     | None \<Rightarrow>
         thenS (on_files (remove_tree h (game_dir workspace)))
           (bindS (convertS Workspace_Analysis_Failed
              (generate_game_project (workspace_game_host h) (opts\<lparr> go_parsers := [] \<rparr>) source (game_dir workspace))) (\<lambda>r.
            thenS (on_files (update_analysis_states h workspace m))
              (thenS (on_files (put_document h workspace ANALYSIS_STATE (state_document m key r)))
                (returnS (workspace_result workspace key False r)))))) w = (Inr r, w')"
    by (auto simp: analyze_game_workspace_def action_Inr split: prod.splits)
  from checked have current: "analysis_current h (gw_files w) opts workspace (workspace_result workspace key b x)" for b x
    by (auto simp: checked_workspace_def bindE_Inr_iff analysis_current_def workspace_result_def loaded_identity)
  show ?thesis
  proof (cases earlier)
    case (Some x)
    with rest earlier current earlier_analysis_Some show ?thesis
      by (auto simp: analyzed_well_def workspace_result_def)
  next
    case None
    from rest [unfolded None option.case] obtain x fs1 where
      put: "put_document h workspace ANALYSIS_STATE (state_document m key x) fs1 = (Inr (), gw_files w')"
      and r: "r = workspace_result workspace key False x"
      by (auto simp: action_Inr thenS_def bindS_Inr on_files_Inr)
    from checked have "load_game_workspace h (gw_files w) workspace = Inr m"
      by (auto simp: checked_workspace_def bindE_Inr_iff)
    with put r current show ?thesis
      by (auto simp: analyzed_well_def analysis_recorded_def put_document_Inr document_at_def workspace_result_def)
  qed
qed


section \<open>A sample workspace\<close>

definition sample_workspace_file :: workspace_file where
  "sample_workspace_file =
     \<lparr> wl_path = ''a.bin'', wl_size = JInt 2, wl_sha256 = JStr ''00'', wl_source_kind = JStr ''directory'',
       wl_classification = JStr ''resource'', wl_executable_kind = JStr ''unknown'', wl_analysis_state = JStr ''pending'',
       wl_analysis_version = JInt 2 \<rparr>"

definition sample_manifest :: workspace_manifest where
  "sample_manifest =
     \<lparr> wm_schema_version = 1, wm_toolkit_version = ''0.9.0'', wm_source_kind = ''directory'', wm_source_name = ''s'',
       wm_source_identity = ''00'', wm_files = [sample_workspace_file] \<rparr>"

definition sample_summary :: game_project_result where
  "sample_summary =
     \<lparr> gq_output_dir = ''/w/analysis/game_project'', gq_module_count = 1, gq_analyzed_count = 0, gq_needs_decryption_count = 0,
       gq_failed_count = 1, gq_recovered_count = 0, gq_resource_count = 0, gq_known_resource_count = 0,
       gq_unknown_resource_count = 0, gq_embedded_resource_count = 0, gq_container_candidate_count = 0,
       gq_container_inspection_count = 0, gq_container_entry_count = 0 \<rparr>"

definition sample_snapshot :: json where
  "sample_snapshot = JList [JObj [(''path'', JStr ''a.bin''), (''size'', JInt 2), (''mtime_ns'', JInt 7)]]"

text \<open>A codec of four documents: each is printed as one byte.\<close>

definition sample_documents :: "(nat \<times> json) list" where
  "sample_documents =
     [(1, files_json [sample_workspace_file]), (2, portable_json sample_manifest),
      (3, JObj [(''schema_version'', JInt 1), (''source_kind'', JStr ''directory''), (''source_path'', JStr ''/s''),
                (''snapshot'', sample_snapshot)]),
      (4, state_document sample_manifest ''00'' sample_summary)]"

definition sample_workspace_loads :: "bytes \<Rightarrow> json option" where
  "sample_workspace_loads bs =
     (case bs of [b, _] \<Rightarrow> map_option sort_json (map_of sample_documents (unat b)) | _ \<Rightarrow> None)"

definition sample_workspace_dumps :: "json \<Rightarrow> bytes" where
  "sample_workspace_dumps j =
     (case find (\<lambda>e. snd e = j) sample_documents of Some (n, _) \<Rightarrow> [of_nat n] | None \<Rightarrow> [0])"

definition sample_workspace_host :: "(unit, nat) workspace_host" where
  "sample_workspace_host =
     \<lparr> mh_environ = (\<lambda>_. None), mh_which = (\<lambda>_. None), mh_resolve = (\<lambda>p. p), mh_is_dir = (\<lambda>p. p = ''/s''),
       mh_python = ''py'', mh_temporary = ''/tmp'', mh_writable = (\<lambda>_. True), mh_split_words = (\<lambda>s. Some [s]),
       mh_build = (\<lambda>_ _ fs. (Exited 0, fs)), mh_repr = (\<lambda>s. s), mh_differ = (\<lambda>_ _ _ _. (Exited 0, [])),
       mh_loads = sample_workspace_loads, mh_dumps = sample_workspace_dumps, mh_toml = (\<lambda>_ _. None), dk_symlink = (\<lambda>_. False),
       dk_tree = (\<lambda>_. [''a.bin'']), dk_iso = None, dk_print = (\<lambda>_. ''error''),
       gk_os_error = (\<lambda>_. ''error''), gk_log2 = (\<lambda>q. 0), gk_show_score = (\<lambda>_. ''score''), gh_engine = None,
       gh_unicode = (\<lambda>_. True), gh_sha1 = (\<lambda>_. ''00''), gh_sha256 = (\<lambda>_. ''00''), gh_render = (\<lambda>_. []),
       gh_codec = \<lparr> nc_loads = (\<lambda>_. None), nc_rows = (\<lambda>_. ([], False)), nc_text = (\<lambda>_. []) \<rparr>,
       gh_failure_text = (\<lambda>_. ''error''), gh_analyze_text = (\<lambda>_. ''encrypted''), gh_link_text = (\<lambda>_. []),
       wh_version = None, wh_mtime = (\<lambda>_. 7), wh_compact = (\<lambda>_. []) \<rparr>"

definition sample_source :: file_store where
  "sample_source p = (if p = ''/s/a.bin'' then Some [1, 2] else None)"

lemma sample_source_entries:
  "source_entries sample_workspace_host sample_source ''/s'' = Inr (''directory'', [sample_workspace_file], sample_snapshot)"
proof -
  have "case directory_entries sample_workspace_host sample_source ''/s'' of
      Inr (records, snapshot) \<Rightarrow> records = [sample_workspace_file] \<and> snapshot = sample_snapshot | Inl _ \<Rightarrow> False"
    by code_simp
  then have "directory_entries sample_workspace_host sample_source ''/s'' = Inr ([sample_workspace_file], sample_snapshot)"
    by (auto split: sum.splits)
  then show ?thesis
    by (simp add: source_entries_def path_exists_def workspace_disc_host_def workspace_game_host_def game_disc_host_def
      game_resource_host_def resource_disc_host_def disc_match_host_def sample_workspace_host_def match_host.defs disc_host.defs
      resource_host.defs game_host.defs)
qed

lemma sample_manifest_of_source:
  "manifest_of_source sample_workspace_host ''/s'' ''directory'' [sample_workspace_file] = sample_manifest"
  by (simp add: manifest_of_source_def sample_manifest_def toolkit_version_def source_identity_def sample_workspace_host_def
    WORKSPACE_SCHEMA_VERSION_def) code_simp

lemma sample_workspace_codec: "workspace_codec sample_workspace_host ''/w'' sample_manifest"
proof -
  have "list_all (\<lambda>j. sample_workspace_loads (sample_workspace_dumps j @ [0x0A]) = Some (sort_json j) \<and>
      utf8_valid (sample_workspace_dumps j @ [0x0A])) [portable_json sample_manifest, files_json [sample_workspace_file]]"
    by code_simp
  moreover have "distinct (map (workspace_path sample_workspace_host ''/w'') [WORKSPACE_FILE, FILES_MANIFEST, LOCAL_FILE])"
    by (simp add: workspace_path_def sample_workspace_host_def WORKSPACE_FILE_def FILES_MANIFEST_def LOCAL_FILE_def path_join_def
      path_absolute_def)
  ultimately show ?thesis
    by (simp add: workspace_codec_def codec_ok_def sample_workspace_host_def sample_manifest_def)
qed

lemma sample_prepares:
  "\<exists>fs'. prepare_game_workspace sample_workspace_host ''/s'' ''/w'' sample_source = (Inr sample_manifest, fs')"
proof -
  have put: "put_document sample_workspace_host ''/w'' name j fs =
      (Inr (), fs(workspace_path sample_workspace_host ''/w'' name \<mapsto> mh_dumps sample_workspace_host j @ [0x0A]))" for name j fs
    by (simp add: put_document_Inr) (simp add: sample_workspace_host_def)
  show ?thesis
    by (simp add: prepare_game_workspace_def sample_source_entries bindS_def thenS_def write_workspace_def put
      sample_manifest_of_source Let_def)
qed

theorem prepared_workspace_is_loaded_witness:
  "\<exists>fs'. prepare_game_workspace sample_workspace_host ''/s'' ''/w'' sample_source = (Inr sample_manifest, fs') \<and>
     load_game_workspace sample_workspace_host fs' ''/w'' = Inr sample_manifest"
  using sample_prepares prepared_workspace_is_loaded [OF _ sample_workspace_codec] by blast

text \<open>The same workspace after an analysis.\<close>

definition sample_workspace_store :: file_store where
  "sample_workspace_store p =
     map_of [(''/s/a.bin'', [1, 2]), (''/w/manifests/files.json'', [1, 10]), (''/w/workspace.json'', [2, 10]),
       (''/w/.pspdisasm-local.json'', [3, 10]), (''/w/analysis/state.json'', [4, 10]),
       (''/w/analysis/game_project/metadata/game_analysis.json'', [])] p"

definition sample_workspace_world :: "nat game_world" where
  "sample_workspace_world = \<lparr> gw_files = sample_workspace_store, gw_engine = \<lparr> gc_endian = 0, gc_abi = 0 \<rparr> \<rparr>"

lemma sample_reuses:
  "analyze_game_workspace sample_workspace_host sample_game_options ''/w'' sample_workspace_world =
     (Inr (workspace_result ''/w'' ''00'' True sample_summary), sample_workspace_world)"
proof -
  have "case checked_workspace sample_workspace_host sample_workspace_store sample_game_options ''/w'' of
      Inr (m, source, key) \<Rightarrow> key = ''00'' | Inl _ \<Rightarrow> False"
    by code_simp
  then obtain m source where "checked_workspace sample_workspace_host sample_workspace_store sample_game_options ''/w'' =
      Inr (m, source, ''00'')"
    by (auto split: sum.splits)
  moreover have "case earlier_analysis sample_workspace_host sample_workspace_store ''/w'' ''00'' of
      Inr (Some r) \<Rightarrow> r = sample_summary | _ \<Rightarrow> False"
    by code_simp
  then have "earlier_analysis sample_workspace_host sample_workspace_store ''/w'' ''00'' = Inr (Some sample_summary)"
    by (auto split: sum.splits option.splits)
  ultimately show ?thesis
    by (simp add: analyze_game_workspace_def bindS_def sample_workspace_world_def)
qed


section \<open>Sources and keys\<close>

text \<open>
  The snapshot that is kept is in the order of the logical paths, the one it is compared with in the order of the walk: with a backslash in
  a name they can differ, and a source that has not changed is refused.
\<close>

definition backslash_host :: "(unit, nat) workspace_host" where
  "backslash_host = sample_workspace_host\<lparr> dk_tree := (\<lambda>_. [''a0'', ''a'' @ [CHR 0x5C] @ ''b'']) \<rparr>"

lemma unchanged_source_is_refused:
  "(case directory_entries backslash_host (\<lambda>p. Some [1]) ''/s'' of
      Inr (records, snapshot) \<Rightarrow>
        (case validate_snapshot backslash_host (\<lambda>p. Some [1]) ''/s'' ''directory'' snapshot of
           Inl Source_Changed \<Rightarrow> True | _ \<Rightarrow> False)
    | Inl _ \<Rightarrow> False)"
  by code_simp

text \<open>
  The key has the contents of the databases but not their names, and the name decides how a database is read: an analysis
  made with a database is reused for a copy of it under a name that cannot be read.
\<close>

lemma analysis_key_ignores_names:
  assumes "fs (mh_resolve h p) = Some content" "fs (mh_resolve h q) = Some content"
  shows "analysis_key h fs m (opts\<lparr> go_databases := [p] \<rparr>) = analysis_key h fs m (opts\<lparr> go_databases := [q] \<rparr>)"
  using assms by (simp add: analysis_key_def database_identity_def from_option_def bindE_def)

end
