(* ===== verification/Analysis_Pack.thy ===== *)
theory Analysis_Pack
  imports Game_Workspace
begin

text \<open>
  \<open>analysis_pack.py\<close>: a bounded archive of what an analyzed workspace knows about one module, function or resource:
  the JSON evidence and ranges of bytes that are checked against the manifest. The archive format is a
  parameter; sizes of the manifest are integers, as its preparation writes them.
\<close>

section \<open>Errors and artifacts\<close>

datatype pack_error =
    Unsafe_Pack_Path string
  | Pack_Document_Missing string
  | Pack_Document_Invalid string
  | Pack_Document_Undecodable string
  | Source_Not_Unique string
  | Not_Analyzed_Yet
  | Invalid_Module_Schema
  | Module_Not_Unique string
  | Ambiguous_Function_Pack
  | Invalid_Resource_Schema
  | Resource_Not_Unique string
  | Bytes_Unreadable
  | Provenance_Mismatch string
  | Over_Pack_Budget string
  | Invalid_Byte_Range
  | Incomplete_Read
  | Duplicate_Artifact string
  | No_Module_Project
  | Module_Project_Missing
  | No_Byte_Provenance
  | Bytes_Missing
  | Invalid_Functions
  | Pack_Function_Not_Unique string
  | Unmappable_Function
  | Invalid_Function_Record
  | Unbacked_Function
  | Function_Outside_Module
  | Manifest_Over_Budget
  | Output_Symlink string
  | Output_Is_Directory string
  | Pack_Unwritable string
  | Budget_Not_Positive
  | Invalid_Context_Size
  | Mixed_Selectors
  | No_Selector
  | Pack_Workspace_Failed workspace_error
  | Size_Not_An_Integer

type_synonym artifact = "string \<times> bytes"

record ('c, 'v) pack_host = "('c, 'v) workspace_host" +
  pk_archive :: "artifact list \<Rightarrow> bytes"

record pack_result =
  pr_output_path :: string
  pr_selector_kind :: string
  pr_selector_value :: string
  pr_artifact_count :: int
  pr_total_bytes :: int
  pr_manifest_sha256 :: string

record pack_request =
  pq_module :: "string option"
  pq_function :: "string option"
  pq_resource :: "string option"
  pq_max_bytes :: int
  pq_context_bytes :: int

definition pack_workspace_host :: "('c, 'v) pack_host \<Rightarrow> ('c, 'v) workspace_host" where
  "pack_workspace_host h = workspace_host.truncate h"

definition OPTIONAL_ARTIFACTS :: "string list" where
  "OPTIONAL_ARTIFACTS = [''evidence/module.bin'', ''evidence/resource.bin'']"

definition canonical_json :: "('c, 'v) pack_host \<Rightarrow> json \<Rightarrow> bytes" where
  "canonical_json h j = mh_dumps h j @ [0x0A]"

section \<open>Paths and documents\<close>

definition pack_logical_path :: "string \<Rightarrow> (pack_error, string) result" where
  "pack_logical_path path = map_sum (\<lambda>_. Unsafe_Pack_Path path) id (safe_logical_path path)"

definition safe_child :: "('c, 'v) pack_host \<Rightarrow> string \<Rightarrow> string \<Rightarrow> (pack_error, string) result" where
  "safe_child h dir relative =
     bindE (pack_logical_path relative) (\<lambda>logical.
     from_option (Unsafe_Pack_Path relative)
       (resolved_below (disc_match_host (workspace_disc_host (pack_workspace_host h))) dir logical))"

definition file_at :: "('c, 'v) pack_host \<Rightarrow> file_store \<Rightarrow> string \<Rightarrow> bytes option" where
  "file_at h fs path = fs (mh_resolve h path)"

definition load_pack_json :: "('c, 'v) pack_host \<Rightarrow> file_store \<Rightarrow> string \<Rightarrow> string \<Rightarrow> (pack_error, json) result" where
  "load_pack_json h fs path label =
     (case read_json (mh_loads h) fs (mh_resolve h path) of
        Missing_File \<Rightarrow> Inl (Pack_Document_Missing label)
      | Unreadable_File \<Rightarrow> Inl (Pack_Document_Invalid label)
      | Undecodable_File \<Rightarrow> Inl (Pack_Document_Undecodable label)
      | Json_File j \<Rightarrow> Inr j)"

text \<open>\<open>text.replace(old, new)\<close> for an old text that is not empty.\<close>

fun replace_text :: "string \<Rightarrow> string \<Rightarrow> string \<Rightarrow> string" where
  "replace_text old new [] = []"
| "replace_text old new (c # cs) =
     (if old \<noteq> [] \<and> take (length old) (c # cs) = old then new @ replace_text old new (drop (length old - 1) cs)
      else c # replace_text old new cs)"

fun portable :: "string \<Rightarrow> string \<Rightarrow> json \<Rightarrow> json" where
  "portable source dir (JList xs) = JList (map (portable source dir) xs)"
| "portable source dir (JObj d) =
     JObj (map (\<lambda>(k, v). (k, if k = ''source_name'' \<and> json_str v \<noteq> None then JStr source else portable source dir v)) d)"
| "portable source dir (JStr s) = JStr (replace_text dir ''<workspace>'' s)"
| "portable source dir j = j"

section \<open>Records\<close>

definition with_path :: "string \<Rightarrow> json \<Rightarrow> bool" where
  "with_path selected item \<longleftrightarrow>
     (case item of
        JObj d \<Rightarrow> (case json_get d ''path'' of JStr p \<Rightarrow> casefold p = casefold selected | _ \<Rightarrow> False)
      | _ \<Rightarrow> False)"

definition only :: "'e \<Rightarrow> 'a list \<Rightarrow> ('e, 'a) result" where
  "only err xs = (case xs of [x] \<Rightarrow> Inr x | _ \<Rightarrow> Inl err)"

definition find_workspace_file :: "workspace_manifest \<Rightarrow> string \<Rightarrow> (pack_error, workspace_file) result" where
  "find_workspace_file m path =
     bindE (pack_logical_path path) (\<lambda>selected.
     only (Source_Not_Unique path) (filter (\<lambda>r. casefold (wl_path r) = casefold selected) (wm_files m)))"

definition pack_analysis_root :: "('c, 'v) pack_host \<Rightarrow> file_store \<Rightarrow> string \<Rightarrow> (pack_error, string) result" where
  "pack_analysis_root h fs workspace =
     (let dir = path_join workspace ''analysis/game_project'' in
      if file_at h fs (path_join dir ''metadata/game_analysis.json'') = None then Inl Not_Analyzed_Yet else Inr dir)"

definition listed :: "'e \<Rightarrow> json \<Rightarrow> string \<Rightarrow> ('e, json list) result" where
  "listed err j key = bindE (from_option err (json_obj j)) (\<lambda>d. from_option err (json_list (json_get d key)))"

definition analyzed_modules :: "('c, 'v) pack_host \<Rightarrow> file_store \<Rightarrow> string \<Rightarrow> (pack_error, json list) result" where
  "analyzed_modules h fs analysis =
     bindE (load_pack_json h fs (path_join analysis ''metadata/game_analysis.json'') ''game analysis'') (\<lambda>payload.
     listed Invalid_Module_Schema payload ''modules'')"

definition object_of :: "json \<Rightarrow> (string \<times> json) list" where
  "object_of j = (case j of JObj d \<Rightarrow> d | _ \<Rightarrow> [])"

definition module_record :: "('c, 'v) pack_host \<Rightarrow> file_store \<Rightarrow> string \<Rightarrow> string \<Rightarrow> (pack_error, (string \<times> json) list) result" where
  "module_record h fs analysis path =
     bindE (pack_logical_path path) (\<lambda>selected.
     bindE (analyzed_modules h fs analysis) (\<lambda>records.
     map_sum id object_of (only (Module_Not_Unique path) (filter (with_path selected) records))))"

definition single_analyzed_module :: "('c, 'v) pack_host \<Rightarrow> file_store \<Rightarrow> string \<Rightarrow> (pack_error, (string \<times> json) list) result" where
  "single_analyzed_module h fs analysis =
     bindE (analyzed_modules h fs analysis) (\<lambda>records.
     only Ambiguous_Function_Pack (filter (\<lambda>d. json_get d ''status'' = JStr ''analyzed'' \<and> json_str (json_get d ''path'') \<noteq> None \<and>
       json_str (json_get d ''project_path'') \<noteq> None) (List.map_filter json_obj records)))"

definition resource_record_at :: "('c, 'v) pack_host \<Rightarrow> file_store \<Rightarrow> string \<Rightarrow> string \<Rightarrow> (pack_error, (string \<times> json) list) result" where
  "resource_record_at h fs analysis path =
     bindE (pack_logical_path path) (\<lambda>selected.
     bindE (load_pack_json h fs (path_join analysis ''metadata/game_resources.json'') ''resource analysis'') (\<lambda>payload.
     bindE (listed Invalid_Resource_Schema payload ''resources'') (\<lambda>records.
     map_sum id object_of (only (Resource_Not_Unique path) (filter (with_path selected) records)))))"

section \<open>Bytes with their provenance\<close>

definition verify_source_file :: "('c, 'v) pack_host \<Rightarrow> file_store \<Rightarrow> workspace_file \<Rightarrow> string \<Rightarrow> (pack_error, unit) result" where
  "verify_source_file h fs r path =
     bindE (from_option Bytes_Unreadable (file_at h fs path)) (\<lambda>content.
     ensure (json_equals_int (wl_size r) (blen content) \<and> wl_sha256 r = JStr (gh_sha256 h content))
       (Provenance_Mismatch (wl_path r)))"

definition read_small_file :: "('c, 'v) pack_host \<Rightarrow> file_store \<Rightarrow> string \<Rightarrow> int \<Rightarrow> string \<Rightarrow> (pack_error, bytes) result" where
  "read_small_file h fs path max_bytes label =
     bindE (from_option Bytes_Unreadable (file_at h fs path)) (\<lambda>content.
     if blen content > max_bytes then Inl (Over_Pack_Budget label) else Inr content)"

definition read_slice :: "('c, 'v) pack_host \<Rightarrow> file_store \<Rightarrow> string \<Rightarrow> int \<Rightarrow> int \<Rightarrow> (pack_error, bytes) result" where
  "read_slice h fs path offset n =
     (if offset < 0 \<or> n < 0 then Inl Invalid_Byte_Range
      else
        bindE (from_option Bytes_Unreadable (file_at h fs path)) (\<lambda>content.
        let data = py_slice content offset (offset + n) in
        if blen data \<noteq> n then Inl Incomplete_Read else Inr data))"

definition artifact_bytes :: "artifact list \<Rightarrow> int" where
  "artifact_bytes artifacts = sum_list (map (\<lambda>a. blen (snd a)) artifacts)"

definition append_artifact :: "int \<Rightarrow> string \<Rightarrow> bytes \<Rightarrow> artifact list \<Rightarrow> (pack_error, artifact list) result" where
  "append_artifact max_bytes path data artifacts =
     bindE (pack_logical_path path) (\<lambda>logical.
     if logical \<in> set (map fst artifacts) then Inl (Duplicate_Artifact logical)
     else if artifact_bytes artifacts + blen data > max_bytes then Inl (Over_Pack_Budget logical)
     else Inr (artifacts @ [(logical, data)]))"

definition append_json :: "('c, 'v) pack_host \<Rightarrow> int \<Rightarrow> string \<Rightarrow> json \<Rightarrow> artifact list \<Rightarrow> (pack_error, artifact list) result" where
  "append_json h max_bytes path j = append_artifact max_bytes path (canonical_json h j)"

definition append_optional_full_file ::
    "('c, 'v) pack_host \<Rightarrow> file_store \<Rightarrow> int \<Rightarrow> string \<Rightarrow> string \<Rightarrow> string \<Rightarrow> artifact list \<Rightarrow> (pack_error, artifact list) result" where
  "append_optional_full_file h fs max_bytes path source label artifacts =
     bindE (from_option Bytes_Unreadable (file_at h fs source)) (\<lambda>content.
     let remaining = max_bytes - artifact_bytes artifacts in
     if blen content > remaining then Inr artifacts
     else bindE (read_small_file h fs source remaining label) (\<lambda>data. append_artifact max_bytes path data artifacts))"

definition text_field :: "'e \<Rightarrow> (string \<times> json) list \<Rightarrow> string \<Rightarrow> ('e, string) result" where
  "text_field err d key = (case json_get d key of JStr s \<Rightarrow> if s = [] then Inl err else Inr s | _ \<Rightarrow> Inl err)"

definition project_dir :: "('c, 'v) pack_host \<Rightarrow> string \<Rightarrow> (string \<times> json) list \<Rightarrow> (pack_error, string) result" where
  "project_dir h analysis d =
     bindE (text_field No_Module_Project d ''project_path'') (\<lambda>relative.
     bindE (safe_child h analysis relative) (\<lambda>project.
     if mh_is_dir h project then Inr project else Inl Module_Project_Missing))"

definition extracted_bytes_path :: "('c, 'v) pack_host \<Rightarrow> file_store \<Rightarrow> string \<Rightarrow> (string \<times> json) list \<Rightarrow> (pack_error, string) result" where
  "extracted_bytes_path h fs analysis d =
     bindE (text_field No_Byte_Provenance d ''extracted_path'') (\<lambda>relative.
     bindE (safe_child h analysis relative) (\<lambda>path.
     if file_at h fs path = None then Inl Bytes_Missing else Inr path))"

definition integer_size :: "workspace_file \<Rightarrow> (pack_error, int) result" where
  "integer_size r = from_option Size_Not_An_Integer (json_int (wl_size r))"

section \<open>The artifacts of a module\<close>

definition METADATA_FILES :: "string list" where
  "METADATA_FILES =
     [''executable.json'', ''disassembly.json'', ''advanced.json'', ''data_typing.json'', ''asset_discovery.json'',
      ''functions.json'', ''symbols.json'', ''references.json'', ''strings.json'']"

definition append_metadata ::
    "('c, 'v) pack_host \<Rightarrow> file_store \<Rightarrow> string \<Rightarrow> workspace_file \<Rightarrow> string \<Rightarrow> int \<Rightarrow> string \<Rightarrow> artifact list \<Rightarrow>
       (pack_error, artifact list) result" where
  "append_metadata h fs workspace r project max_bytes name artifacts =
     (let path = path_join project (''metadata/'' @ name) in
      if file_at h fs path = None then Inr artifacts
      else
        bindE (load_pack_json h fs path name) (\<lambda>j.
        append_json h max_bytes (''metadata/'' @ name) (portable (wl_path r) (mh_resolve h workspace) j) artifacts))"

definition module_artifacts ::
    "('c, 'v) pack_host \<Rightarrow> file_store \<Rightarrow> string \<Rightarrow> string \<Rightarrow> workspace_file \<Rightarrow> (string \<times> json) list \<Rightarrow> int \<Rightarrow>
       (pack_error, artifact list) result" where
  "module_artifacts h fs analysis workspace r d max_bytes =
     bindE (append_json h max_bytes ''evidence/module.json'' (JObj d) []) (\<lambda>first.
     bindE (project_dir h analysis d) (\<lambda>project.
     bindE (foldE (append_metadata h fs workspace r project max_bytes) METADATA_FILES first) (\<lambda>artifacts.
     bindE (extracted_bytes_path h fs analysis d) (\<lambda>path.
     bindE (verify_source_file h fs r path) (\<lambda>_.
     append_optional_full_file h fs max_bytes ''evidence/module.bin'' path ''selected module'' artifacts)))))"

section \<open>The artifacts of a function\<close>

definition select_function :: "json \<Rightarrow> string \<Rightarrow> (pack_error, (string \<times> json) list) result" where
  "select_function functions selector =
     bindE (from_option Invalid_Functions (json_list functions)) (\<lambda>records.
     let address = py_int_auto selector in
     only (Pack_Function_Not_Unique selector)
       (filter (\<lambda>d. json_get d ''name'' = JStr selector \<or>
            (case address of None \<Rightarrow> False | Some n \<Rightarrow> json_equals_int (json_get d ''address'') n))
         (List.map_filter json_obj records)))"

text \<open>An integer field within the function.\<close>

definition falls_within :: "(string \<times> json) list \<Rightarrow> string \<Rightarrow> int \<Rightarrow> int \<Rightarrow> bool" where
  "falls_within d key first stop \<longleftrightarrow> (case json_int (json_get d key) of None \<Rightarrow> False | Some n \<Rightarrow> first \<le> n \<and> n < stop)"

definition section_range :: "(string \<times> json) list \<Rightarrow> (int \<times> int \<times> int) option" where
  "section_range d =
     (case (json_int (json_get d ''addr''), json_int (json_get d ''offset''), json_int (json_get d ''size'')) of
        (Some a, Some off, Some n) \<Rightarrow> Some (a, off, n)
      | _ \<Rightarrow> None)"

definition function_file_range ::
    "('c, 'v) pack_host \<Rightarrow> file_store \<Rightarrow> string \<Rightarrow> int \<Rightarrow> (string \<times> json) list \<Rightarrow> (pack_error, int \<times> int) result" where
  "function_file_range h fs project module_size f =
     bindE (load_pack_json h fs (path_join project ''metadata/executable.json'') ''executable metadata'') (\<lambda>executable.
     bindE (listed Unmappable_Function executable ''sections'') (\<lambda>sections.
     bindE (from_option Invalid_Function_Record (json_int (json_get f ''address''))) (\<lambda>address.
     bindE (from_option Invalid_Function_Record (json_int (json_get f ''size''))) (\<lambda>n.
     bindE (ensure (0 \<le> n) Invalid_Function_Record) (\<lambda>_.
     bindE (from_option Unbacked_Function
       (find (\<lambda>(a, off, k). a \<le> address \<and> address < a + k)
         (List.map_filter (\<lambda>item. Option.bind (json_obj item) section_range) sections))) (\<lambda>(a, off, k).
     let offset = off + (address - a) in
     if offset < 0 \<or> offset + n > module_size then Inl Function_Outside_Module else Inr (offset, offset + n)))))))"

definition function_context_range ::
    "('c, 'v) pack_host \<Rightarrow> file_store \<Rightarrow> string \<Rightarrow> int \<Rightarrow> (string \<times> json) list \<Rightarrow> int \<Rightarrow> (pack_error, int \<times> int) result" where
  "function_context_range h fs project module_size f context_bytes =
     bindE (function_file_range h fs project module_size f) (\<lambda>(first, stop).
     Inr (max 0 (first - context_bytes), min module_size (stop + context_bytes)))"

definition related_records :: "json \<Rightarrow> ((string \<times> json) list \<Rightarrow> bool) \<Rightarrow> json" where
  "related_records j wanted =
     (case j of
        JList xs \<Rightarrow> JList (filter (\<lambda>item. case item of JObj d \<Rightarrow> wanted d | _ \<Rightarrow> False) xs)
      | _ \<Rightarrow> JList [])"

text \<open>Two names are compared as JSON values; texts are what a generated project has.\<close>

definition append_call_graph ::
    "('c, 'v) pack_host \<Rightarrow> file_store \<Rightarrow> string \<Rightarrow> json \<Rightarrow> int \<Rightarrow> int \<Rightarrow> int \<Rightarrow> artifact list \<Rightarrow> (pack_error, artifact list) result" where
  "append_call_graph h fs project name first stop max_bytes artifacts =
     (let path = path_join project ''metadata/callgraph.json'' in
      bindE (if file_at h fs path = None then Inr (JList []) else load_pack_json h fs path ''call graph'') (\<lambda>graph.
      append_json h max_bytes ''evidence/callgraph.json''
        (related_records graph (\<lambda>d. json_get d ''source_function'' = name \<or> json_get d ''target_function'' = name \<or>
           falls_within d ''source_address'' first stop \<or> falls_within d ''target_address'' first stop)) artifacts))"

definition append_context ::
    "('c, 'v) pack_host \<Rightarrow> file_store \<Rightarrow> string \<Rightarrow> string \<Rightarrow> workspace_file \<Rightarrow> (string \<times> json) list \<Rightarrow> int \<Rightarrow> int \<Rightarrow> artifact list \<Rightarrow>
       (pack_error, artifact list) result" where
  "append_context h fs path project r f max_bytes context_bytes artifacts =
     bindE (integer_size r) (\<lambda>module_size.
     bindE (function_context_range h fs project module_size f context_bytes) (\<lambda>(first, stop).
     bindE (read_slice h fs path first (stop - first)) (\<lambda>context.
     bindE (append_artifact max_bytes ''evidence/context.bin'' context artifacts) (\<lambda>artifacts.
     append_json h max_bytes ''evidence/context.json''
       (JObj [(''parent_path'', JStr (wl_path r)), (''parent_sha256'', wl_sha256 r), (''file_offset'', JInt first),
              (''size'', JInt (blen context))]) artifacts))))"

definition function_artifacts ::
    "('c, 'v) pack_host \<Rightarrow> file_store \<Rightarrow> string \<Rightarrow> workspace_file \<Rightarrow> (string \<times> json) list \<Rightarrow> string \<Rightarrow> int \<Rightarrow> int \<Rightarrow>
       (pack_error, artifact list \<times> (string \<times> json) list) result" where
  "function_artifacts h fs analysis r d selector max_bytes context_bytes =
     bindE (project_dir h analysis d) (\<lambda>project.
     bindE (load_pack_json h fs (path_join project ''metadata/functions.json'') ''function metadata'') (\<lambda>functions.
     bindE (select_function functions selector) (\<lambda>f.
     bindE (from_option Invalid_Function_Record (json_int (json_get f ''address''))) (\<lambda>address.
     bindE (from_option Invalid_Function_Record (json_int (json_get f ''size''))) (\<lambda>n.
     bindE (append_json h max_bytes ''evidence/function.json'' (JObj f) []) (\<lambda>artifacts.
     bindE (append_json h max_bytes ''evidence/instructions.json''
       (case json_get f ''instructions'' of JList xs \<Rightarrow> JList xs | _ \<Rightarrow> JList []) artifacts) (\<lambda>artifacts.
     bindE (load_pack_json h fs (path_join project ''metadata/references.json'') ''reference metadata'') (\<lambda>references.
     bindE (append_json h max_bytes ''evidence/references.json''
       (related_records references (\<lambda>d. falls_within d ''source_address'' address (address + n) \<or>
          falls_within d ''target_address'' address (address + n))) artifacts) (\<lambda>artifacts.
     bindE (append_call_graph h fs project (json_get f ''name'') address (address + n) max_bytes artifacts) (\<lambda>artifacts.
     bindE (extracted_bytes_path h fs analysis d) (\<lambda>path.
     bindE (verify_source_file h fs r path) (\<lambda>_.
     bindE (append_context h fs path project r f max_bytes context_bytes artifacts) (\<lambda>artifacts.
     Inr (artifacts, f))))))))))))))"

section \<open>The artifacts of a resource\<close>

definition append_related ::
    "('c, 'v) pack_host \<Rightarrow> file_store \<Rightarrow> string \<Rightarrow> workspace_file \<Rightarrow> int \<Rightarrow> string \<times> string \<Rightarrow> artifact list \<Rightarrow>
       (pack_error, artifact list) result" where
  "append_related h fs analysis r max_bytes names artifacts =
     (let path = path_join analysis (''metadata/'' @ fst names) in
      if file_at h fs path = None then Inr artifacts
      else
        bindE (load_pack_json h fs path (fst names)) (\<lambda>j.
        append_json h max_bytes (''evidence/'' @ snd names @ ''.json'')
          (related_records j (\<lambda>d. case json_get d ''parent_path'' of JStr p \<Rightarrow> casefold p = casefold (wl_path r) | _ \<Rightarrow> False))
          artifacts))"

definition resource_artifacts ::
    "('c, 'v) pack_host \<Rightarrow> file_store \<Rightarrow> string \<Rightarrow> workspace_file \<Rightarrow> (string \<times> json) list \<Rightarrow> int \<Rightarrow> int \<Rightarrow>
       (pack_error, artifact list) result" where
  "resource_artifacts h fs analysis r d max_bytes context_bytes =
     bindE (append_json h max_bytes ''evidence/resource.json'' (JObj d) []) (\<lambda>artifacts.
     bindE (extracted_bytes_path h fs analysis d) (\<lambda>path.
     bindE (verify_source_file h fs r path) (\<lambda>_.
     bindE (integer_size r) (\<lambda>n.
     bindE (read_slice h fs path 0 (min context_bytes n)) (\<lambda>sample.
     bindE (append_artifact max_bytes ''evidence/resource-sample.bin'' sample artifacts) (\<lambda>artifacts.
     bindE (append_optional_full_file h fs max_bytes ''evidence/resource.bin'' path ''selected resource'' artifacts) (\<lambda>artifacts.
     foldE (append_related h fs analysis r max_bytes)
       [(''embedded_resources.json'', ''embedded''), (''container_inspections.json'', ''containers'')] artifacts)))))))"

section \<open>The manifest and the archive\<close>

definition artifact_manifest :: "('c, 'v) pack_host \<Rightarrow> artifact list \<Rightarrow> json" where
  "artifact_manifest h artifacts =
     JList (map (\<lambda>(path, data). JObj [(''path'', JStr path), (''size'', JInt (blen data)), (''sha256'', JStr (gh_sha256 h data))])
       (sort_key fst artifacts))"

definition pack_manifest :: "('c, 'v) pack_host \<Rightarrow> workspace_manifest \<Rightarrow> workspace_file \<Rightarrow> string \<Rightarrow> string \<Rightarrow> artifact list \<Rightarrow> json" where
  "pack_manifest h m r kind value artifacts =
     JObj [(''schema_version'', JInt 1), (''source_identity'', JStr (wm_source_identity m)),
       (''selector'', JObj [(''kind'', JStr kind), (''value'', JStr value)]),
       (''source'', JObj [(''path'', JStr (wl_path r)), (''size'', wl_size r), (''sha256'', wl_sha256 r)]),
       (''artifacts'', artifact_manifest h artifacts)]"

text \<open>The last of the optional artifacts is given up, as long as there is one and the manifest does not fit.\<close>

definition without_optional :: "artifact list \<Rightarrow> artifact list option" where
  "without_optional artifacts =
     (let after = takeWhile (\<lambda>a. fst a \<notin> set OPTIONAL_ARTIFACTS) (rev artifacts) in
      if length after = length artifacts then None
      else Some (take (length artifacts - length after - 1) artifacts @ rev after))"

lemma without_optional_shorter: "without_optional xs = Some ys \<Longrightarrow> length ys < length xs"
  using length_takeWhile_le [of "\<lambda>a. fst a \<notin> set OPTIONAL_ARTIFACTS" "rev xs"]
  by (auto simp: without_optional_def Let_def split: if_splits)

function fit_manifest_budget :: "(artifact list \<Rightarrow> bytes) \<Rightarrow> int \<Rightarrow> artifact list \<Rightarrow> (pack_error, artifact list \<times> bytes) result" where
  "fit_manifest_budget print max_bytes artifacts =
     (let manifest = print artifacts in
      if artifact_bytes artifacts + blen manifest \<le> max_bytes then Inr (artifacts, manifest)
      else case without_optional artifacts of
             None \<Rightarrow> Inl Manifest_Over_Budget
           | Some fewer \<Rightarrow> fit_manifest_budget print max_bytes fewer)"
  by pat_completeness auto
termination by (relation "measure (\<lambda>(p, m, xs). length xs)") (auto dest: without_optional_shorter)

declare fit_manifest_budget.simps [simp del]

definition output_chain :: "string \<Rightarrow> string list" where
  "output_chain output =
     (if path_absolute output then source_chain ''/'' (path_parts output)
      else map (\<lambda>k. join_with ''/'' (take k (path_parts output))) (rev [1..<Suc (length (path_parts output))]) @ [''.''])"

definition write_pack :: "('c, 'v) pack_host \<Rightarrow> string \<Rightarrow> artifact list \<Rightarrow> bytes \<Rightarrow> (file_store, pack_error, unit) action" where
  "write_pack h output artifacts manifest =
     (case find (dk_symlink h) (output_chain output) of
        Some link \<Rightarrow> raiseS (Output_Symlink link)
      | None \<Rightarrow>
          if mh_is_dir h output then raiseS (Output_Is_Directory output)
          else
            convertS (\<lambda>_. Pack_Unwritable output)
              (put_bytes (workspace_disc_host (pack_workspace_host h)) (mh_resolve h output)
                (pk_archive h (sort_key fst artifacts @ [(''pack-manifest.json'', manifest)]))))"

section \<open>Creating a pack\<close>

definition check_request :: "pack_request \<Rightarrow> (pack_error, unit) result" where
  "check_request q =
     (if pq_max_bytes q \<le> 0 then Inl Budget_Not_Positive
      else if pq_context_bytes q < 0 \<or> pq_context_bytes q > pq_max_bytes q then Inl Invalid_Context_Size
      else if pq_resource q \<noteq> None \<and> (pq_module q \<noteq> None \<or> pq_function q \<noteq> None) then Inl Mixed_Selectors
      else if pq_module q = None \<and> pq_function q = None \<and> pq_resource q = None then Inl No_Selector
      else Inr ())"

definition selected_module ::
    "('c, 'v) pack_host \<Rightarrow> file_store \<Rightarrow> workspace_manifest \<Rightarrow> string \<Rightarrow> string option \<Rightarrow>
       (pack_error, workspace_file \<times> (string \<times> json) list) result" where
  "selected_module h fs m analysis selector =
     (case selector of
        None \<Rightarrow>
          bindE (single_analyzed_module h fs analysis) (\<lambda>d.
          bindE (from_option Ambiguous_Function_Pack (json_str (json_get d ''path''))) (\<lambda>path.
          bindE (find_workspace_file m path) (\<lambda>r. Inr (r, d))))
      | Some path \<Rightarrow>
          bindE (find_workspace_file m path) (\<lambda>r.
          bindE (module_record h fs analysis (wl_path r)) (\<lambda>d. Inr (r, d))))"

definition selected_name :: "('c, 'v) pack_host \<Rightarrow> (string \<times> json) list \<Rightarrow> string \<Rightarrow> string" where
  "selected_name h f selector =
     (case json_get f ''name'' of JNull \<Rightarrow> selector | j \<Rightarrow> json_text (gh_codec h) j)"

text \<open>The source file, the kind and value of the selector, and the artifacts before the manifest.\<close>

definition selected_artifacts ::
    "('c, 'v) pack_host \<Rightarrow> file_store \<Rightarrow> workspace_manifest \<Rightarrow> string \<Rightarrow> string \<Rightarrow> pack_request \<Rightarrow>
       (pack_error, workspace_file \<times> string \<times> string \<times> artifact list) result" where
  "selected_artifacts h fs m analysis workspace q =
     (case pq_resource q of
        Some path \<Rightarrow>
          bindE (find_workspace_file m path) (\<lambda>r.
          bindE (resource_record_at h fs analysis (wl_path r)) (\<lambda>d.
          bindE (resource_artifacts h fs analysis r d (pq_max_bytes q) (pq_context_bytes q)) (\<lambda>artifacts.
          Inr (r, ''resource'', wl_path r, artifacts))))
      | None \<Rightarrow>
          bindE (selected_module h fs m analysis (pq_module q)) (\<lambda>(r, d).
          case pq_function q of
            None \<Rightarrow>
              bindE (module_artifacts h fs analysis workspace r d (pq_max_bytes q)) (\<lambda>artifacts.
              Inr (r, ''module'', wl_path r, artifacts))
          | Some selector \<Rightarrow>
              bindE (function_artifacts h fs analysis r d selector (pq_max_bytes q) (pq_context_bytes q)) (\<lambda>(artifacts, f).
              Inr (r, ''function'', selected_name h f selector, artifacts))))"

definition pack_contents ::
    "('c, 'v) pack_host \<Rightarrow> file_store \<Rightarrow> string \<Rightarrow> pack_request \<Rightarrow>
       (pack_error, workspace_file \<times> string \<times> string \<times> artifact list \<times> bytes) result" where
  "pack_contents h fs workspace q =
     bindE (check_request q) (\<lambda>_.
     bindE (map_sum Pack_Workspace_Failed id (load_game_workspace (pack_workspace_host h) fs workspace)) (\<lambda>m.
     bindE (pack_analysis_root h fs workspace) (\<lambda>analysis.
     bindE (selected_artifacts h fs m analysis workspace q) (\<lambda>(r, kind, value, artifacts).
     bindE (fit_manifest_budget (\<lambda>xs. canonical_json h (pack_manifest h m r kind value xs)) (pq_max_bytes q) artifacts)
       (\<lambda>(kept, manifest). Inr (r, kind, value, kept, manifest))))))"

definition create_analysis_pack ::
    "('c, 'v) pack_host \<Rightarrow> string \<Rightarrow> string \<Rightarrow> pack_request \<Rightarrow> (file_store, pack_error, pack_result) action" where
  "create_analysis_pack h workspace output q =
     bindS (readS (\<lambda>fs. pack_contents h fs workspace q)) (\<lambda>found.
     bindS (liftS found) (\<lambda>(r, kind, value, artifacts, manifest).
     thenS (write_pack h output artifacts manifest)
       (returnS \<lparr> pr_output_path = output, pr_selector_kind = kind, pr_selector_value = value,
          pr_artifact_count = blen artifacts, pr_total_bytes = artifact_bytes artifacts,
          pr_manifest_sha256 = gh_sha256 h manifest \<rparr>)))"

section \<open>Packs are bounded and grounded\<close>

definition PACK_PATHS :: "string list" where
  "PACK_PATHS =
     map (\<lambda>name. ''metadata/'' @ name) METADATA_FILES @
     [''evidence/module.json'', ''evidence/module.bin'', ''evidence/function.json'', ''evidence/instructions.json'',
      ''evidence/references.json'', ''evidence/callgraph.json'', ''evidence/context.bin'', ''evidence/context.json'',
      ''evidence/resource.json'', ''evidence/resource-sample.bin'', ''evidence/resource.bin'', ''evidence/embedded.json'',
      ''evidence/containers.json'']"

definition FULL_PATHS :: "string list" where
  "FULL_PATHS = [''evidence/module.bin'', ''evidence/resource.bin'']"

definition BYTE_PATHS :: "string list" where
  "BYTE_PATHS = ''evidence/context.bin'' # ''evidence/resource-sample.bin'' # FULL_PATHS"

text \<open>A file of the analysis that is the source file of the manifest, by size and hash.\<close>

definition verified_content :: "('c, 'v) pack_host \<Rightarrow> file_store \<Rightarrow> workspace_file \<Rightarrow> bytes \<Rightarrow> bool" where
  "verified_content h fs r content \<longleftrightarrow>
     (\<exists>path. file_at h fs path = Some content) \<and> json_equals_int (wl_size r) (blen content) \<and>
     wl_sha256 r = JStr (gh_sha256 h content)"

definition grounded :: "('c, 'v) pack_host \<Rightarrow> file_store \<Rightarrow> workspace_file \<Rightarrow> artifact \<Rightarrow> bool" where
  "grounded h fs r a \<longleftrightarrow>
     (fst a \<in> set BYTE_PATHS \<longrightarrow>
        (\<exists>content first stop. verified_content h fs r content \<and> snd a = py_slice content first stop \<and>
           (fst a \<in> set FULL_PATHS \<longrightarrow> snd a = content)))"

text \<open>The context of a function is a range of the file that holds the range of the function.\<close>

definition context_of_function :: "('c, 'v) pack_host \<Rightarrow> file_store \<Rightarrow> workspace_file \<Rightarrow> artifact list \<Rightarrow> bool" where
  "context_of_function h fs r artifacts \<longleftrightarrow>
     (\<forall>d. (''evidence/context.bin'', d) \<in> set artifacts \<longrightarrow>
        (\<exists>content project f first stop a b.
           verified_content h fs r content \<and> (''evidence/function.json'', canonical_json h (JObj f)) \<in> set artifacts \<and>
           function_file_range h fs project (blen content) f = Inr (first, stop) \<and>
           0 \<le> a \<and> a \<le> first \<and> stop \<le> b \<and> b \<le> blen content \<and> d = py_slice content a b))"

definition artifacts_ok :: "('c, 'v) pack_host \<Rightarrow> file_store \<Rightarrow> workspace_file \<Rightarrow> int \<Rightarrow> artifact list \<Rightarrow> bool" where
  "artifacts_ok h fs r max_bytes artifacts \<longleftrightarrow>
     distinct (map fst artifacts) \<and> set (map fst artifacts) \<subseteq> set PACK_PATHS \<and> artifact_bytes artifacts \<le> max_bytes \<and>
     list_all (grounded h fs r) artifacts"

lemma pack_paths_logical:
  assumes "p \<in> set PACK_PATHS"
  shows "pack_logical_path p = Inr p"
proof -
  have "list_all (\<lambda>p. case pack_logical_path p of Inr q \<Rightarrow> q = p | Inl _ \<Rightarrow> False) PACK_PATHS" by code_simp
  with assms have "case pack_logical_path p of Inr q \<Rightarrow> q = p | Inl _ \<Rightarrow> False" by (simp only: list_all_iff)
  then show ?thesis by (cases "pack_logical_path p") simp_all
qed

lemma append_artifact_ok:
  assumes "append_artifact max_bytes p d xs = Inr ys" "p \<in> set PACK_PATHS" "artifacts_ok h fs r max_bytes xs" "grounded h fs r (p, d)"
  shows "artifacts_ok h fs r max_bytes ys" "ys = xs @ [(p, d)]"
  using assms
  by (auto simp: append_artifact_def pack_paths_logical bindE_def artifacts_ok_def artifact_bytes_def image_subset_iff
    split: if_splits)

lemma grounded_json [simp]: "p \<notin> set BYTE_PATHS \<Longrightarrow> grounded h fs r (p, d)"
  by (simp add: grounded_def)

lemma append_json_ok:
  assumes "append_json h max_bytes p j xs = Inr ys" "artifacts_ok h fs r max_bytes xs" "p \<in> set PACK_PATHS" "p \<notin> set BYTE_PATHS"
  shows "artifacts_ok h fs r max_bytes ys" "ys = xs @ [(p, canonical_json h j)]"
  using append_artifact_ok [OF assms(1) [unfolded append_json_def] assms(3,2)] assms(4) by simp_all

lemma verify_source_file_Inr:
  "verify_source_file h fs r path = Inr u \<Longrightarrow> \<exists>content. file_at h fs path = Some content \<and> verified_content h fs r content"
  by (auto simp: verify_source_file_def bindE_Inr_iff verified_content_def)

lemma append_optional_ok:
  assumes "append_optional_full_file h fs max_bytes p path label xs = Inr ys" "artifacts_ok h fs r max_bytes xs"
    and "p \<in> set FULL_PATHS" "file_at h fs path = Some content" "verified_content h fs r content"
  shows "artifacts_ok h fs r max_bytes ys" "ys = xs \<or> ys = xs @ [(p, content)]"
proof -
  have "p \<in> set PACK_PATHS" using assms(3) by (auto simp: FULL_PATHS_def PACK_PATHS_def)
  moreover have "grounded h fs r (p, content)"
    unfolding grounded_def using assms(5) py_slice_self [of content] by (metis fst_conv snd_conv)
  moreover from assms(1,4) have "ys = xs \<or> append_artifact max_bytes p content xs = Inr ys"
    by (auto simp: append_optional_full_file_def read_small_file_def bindE_def from_option_def Let_def split: if_splits)
  ultimately show "artifacts_ok h fs r max_bytes ys" "ys = xs \<or> ys = xs @ [(p, content)]"
    using append_artifact_ok [of max_bytes p content xs ys h fs r] assms(2) by auto
qed

lemma read_slice_Inr:
  "read_slice h fs path first n = Inr d \<longleftrightarrow>
     0 \<le> first \<and> 0 \<le> n \<and> (\<exists>content. file_at h fs path = Some content \<and> d = py_slice content first (first + n) \<and> blen d = n)"
  by (auto simp: read_slice_def bindE_Inr_iff Let_def)

lemma no_context:
  "''evidence/context.bin'' \<notin> set (map fst xs) \<Longrightarrow> context_of_function h fs r xs"
  by (force simp: context_of_function_def)

lemma metadata_paths:
  "name \<in> set METADATA_FILES \<Longrightarrow>
     ''metadata/'' @ name \<in> set PACK_PATHS \<and> ''metadata/'' @ name \<notin> set BYTE_PATHS \<and> ''metadata/'' @ name \<noteq> ''evidence/context.bin''"
  by (auto simp: PACK_PATHS_def BYTE_PATHS_def FULL_PATHS_def)

lemma named_paths [simp]:
  "''evidence/module.json'' \<in> set PACK_PATHS" "''evidence/module.json'' \<notin> set BYTE_PATHS"
  "''evidence/function.json'' \<in> set PACK_PATHS" "''evidence/function.json'' \<notin> set BYTE_PATHS"
  "''evidence/instructions.json'' \<in> set PACK_PATHS" "''evidence/instructions.json'' \<notin> set BYTE_PATHS"
  "''evidence/references.json'' \<in> set PACK_PATHS" "''evidence/references.json'' \<notin> set BYTE_PATHS"
  "''evidence/callgraph.json'' \<in> set PACK_PATHS" "''evidence/callgraph.json'' \<notin> set BYTE_PATHS"
  "''evidence/context.json'' \<in> set PACK_PATHS" "''evidence/context.json'' \<notin> set BYTE_PATHS"
  "''evidence/resource.json'' \<in> set PACK_PATHS" "''evidence/resource.json'' \<notin> set BYTE_PATHS"
  "''evidence/embedded.json'' \<in> set PACK_PATHS" "''evidence/embedded.json'' \<notin> set BYTE_PATHS"
  "''evidence/containers.json'' \<in> set PACK_PATHS" "''evidence/containers.json'' \<notin> set BYTE_PATHS"
  "''evidence/context.bin'' \<in> set PACK_PATHS" "''evidence/resource-sample.bin'' \<in> set PACK_PATHS"
  "''evidence/module.bin'' \<in> set FULL_PATHS" "''evidence/resource.bin'' \<in> set FULL_PATHS"
  "''evidence/context.bin'' \<notin> set FULL_PATHS" "''evidence/resource-sample.bin'' \<notin> set FULL_PATHS"
  by (simp_all add: PACK_PATHS_def BYTE_PATHS_def FULL_PATHS_def)

text \<open>What the artifacts of any selection are; the path of a context is only in those of a function.\<close>

definition selection_ok :: "('c, 'v) pack_host \<Rightarrow> file_store \<Rightarrow> workspace_file \<Rightarrow> int \<Rightarrow> artifact list \<Rightarrow> bool" where
  "selection_ok h fs r max_bytes xs \<longleftrightarrow> artifacts_ok h fs r max_bytes xs \<and> context_of_function h fs r xs"

lemma empty_ok: "0 \<le> max_bytes \<Longrightarrow> artifacts_ok h fs r max_bytes []"
  by (simp add: artifacts_ok_def artifact_bytes_def)

lemma append_metadata_ok:
  assumes "append_metadata h fs workspace r project max_bytes name xs = Inr ys" "name \<in> set METADATA_FILES"
    and "artifacts_ok h fs r max_bytes xs \<and> ''evidence/context.bin'' \<notin> set (map fst xs)"
  shows "artifacts_ok h fs r max_bytes ys \<and> ''evidence/context.bin'' \<notin> set (map fst ys)"
proof (cases "ys = xs")
  case False
  then obtain j where j: "append_json h max_bytes (''metadata/'' @ name) j xs = Inr ys"
    using assms(1) by (auto simp: append_metadata_def bindE_Inr_iff Let_def split: if_splits)
  from append_json_ok [OF j] metadata_paths [OF assms(2)] assms(3) show ?thesis by auto
qed (use assms(3) in simp)

lemma module_artifacts_ok:
  assumes "module_artifacts h fs analysis workspace r d max_bytes = Inr xs" "0 \<le> max_bytes"
  shows "selection_ok h fs r max_bytes xs"
proof -
  from assms(1) obtain start project mid path where
    start: "append_json h max_bytes ''evidence/module.json'' (JObj d) [] = Inr start"
    and mid: "foldE (append_metadata h fs workspace r project max_bytes) METADATA_FILES start = Inr mid"
    and verified: "verify_source_file h fs r path = Inr ()"
    and stop: "append_optional_full_file h fs max_bytes ''evidence/module.bin'' path ''selected module'' mid = Inr xs"
    by (auto simp: module_artifacts_def bindE_Inr_iff)
  have "artifacts_ok h fs r max_bytes start \<and> ''evidence/context.bin'' \<notin> set (map fst start)"
    using append_json_ok [OF start empty_ok [OF assms(2), of h fs r]] by auto
  from foldE_invariant [where P = "\<lambda>xs. artifacts_ok h fs r max_bytes xs \<and> ''evidence/context.bin'' \<notin> set (map fst xs)", OF mid this]
    append_metadata_ok [of h fs workspace r project max_bytes]
  have "artifacts_ok h fs r max_bytes mid \<and> ''evidence/context.bin'' \<notin> set (map fst mid)" by blast
  moreover from verify_source_file_Inr [OF verified] obtain content where
    content: "file_at h fs path = Some content" "verified_content h fs r content" by blast
  ultimately have "artifacts_ok h fs r max_bytes xs" "''evidence/context.bin'' \<notin> set (map fst xs)"
    using append_optional_ok [OF stop _ _ content] by auto
  then show ?thesis by (simp add: selection_ok_def no_context del: list.set_map)
qed

lemma append_related_ok:
  assumes "append_related h fs analysis r max_bytes names xs = Inr ys"
    and "names \<in> set [(''embedded_resources.json'', ''embedded''), (''container_inspections.json'', ''containers'')]"
    and "artifacts_ok h fs r max_bytes xs \<and> ''evidence/context.bin'' \<notin> set (map fst xs)"
  shows "artifacts_ok h fs r max_bytes ys \<and> ''evidence/context.bin'' \<notin> set (map fst ys)"
proof (cases "ys = xs")
  case False
  then obtain j where j: "append_json h max_bytes (''evidence/'' @ snd names @ ''.json'') j xs = Inr ys"
    using assms(1) by (auto simp: append_related_def bindE_Inr_iff Let_def split: if_splits)
  from assms(2) have "''evidence/'' @ snd names @ ''.json'' = ''evidence/embedded.json'' \<or>
      ''evidence/'' @ snd names @ ''.json'' = ''evidence/containers.json''" by auto
  with append_json_ok [OF j] assms(3) show ?thesis by auto
qed (use assms(3) in simp)

lemma resource_artifacts_ok:
  assumes "resource_artifacts h fs analysis r d max_bytes context_bytes = Inr xs" "0 \<le> max_bytes"
  shows "selection_ok h fs r max_bytes xs"
proof -
  from assms(1) obtain a0 path n sample a1 a2 where
    a0: "append_json h max_bytes ''evidence/resource.json'' (JObj d) [] = Inr a0"
    and verified: "verify_source_file h fs r path = Inr ()"
    and sample: "read_slice h fs path 0 (min context_bytes n) = Inr sample"
    and a1: "append_artifact max_bytes ''evidence/resource-sample.bin'' sample a0 = Inr a1"
    and a2: "append_optional_full_file h fs max_bytes ''evidence/resource.bin'' path ''selected resource'' a1 = Inr a2"
    and xs: "foldE (append_related h fs analysis r max_bytes)
       [(''embedded_resources.json'', ''embedded''), (''container_inspections.json'', ''containers'')] a2 = Inr xs"
    by (auto simp: resource_artifacts_def bindE_Inr_iff simp del: foldE.simps)
  from verify_source_file_Inr [OF verified] obtain content where
    content: "file_at h fs path = Some content" "verified_content h fs r content" by blast
  have first: "artifacts_ok h fs r max_bytes a0" "a0 = [(''evidence/resource.json'', canonical_json h (JObj d))]"
    using append_json_ok [OF a0 empty_ok [OF assms(2), of h fs r]] by auto
  have "grounded h fs r (''evidence/resource-sample.bin'', sample)"
    using sample content by (auto simp: read_slice_Inr grounded_def)
  from append_artifact_ok [OF a1 _ first(1) this] first(2)
  have "artifacts_ok h fs r max_bytes a1" "''evidence/context.bin'' \<notin> set (map fst a1)" by auto
  then have "artifacts_ok h fs r max_bytes a2 \<and> ''evidence/context.bin'' \<notin> set (map fst a2)"
    using append_optional_ok [OF a2 _ _ content] by auto
  from foldE_invariant [where P = "\<lambda>xs. artifacts_ok h fs r max_bytes xs \<and> ''evidence/context.bin'' \<notin> set (map fst xs)", OF xs this]
    append_related_ok [of h fs analysis r max_bytes]
  have "artifacts_ok h fs r max_bytes xs \<and> ''evidence/context.bin'' \<notin> set (map fst xs)" by blast
  then show ?thesis by (auto simp: selection_ok_def intro: no_context)
qed

lemma function_file_range_bounds:
  "function_file_range h fs project n f = Inr (first, stop) \<Longrightarrow> 0 \<le> first \<and> first \<le> stop \<and> stop \<le> n"
  by (auto simp: function_file_range_def bindE_Inr_iff Let_def split: if_splits prod.splits)

lemma integer_size_content:
  "integer_size r = Inr n \<Longrightarrow> verified_content h fs r content \<Longrightarrow> n = blen content"
  by (cases "wl_size r") (auto simp: integer_size_def verified_content_def)

lemma append_context_ok:
  assumes "append_context h fs path project r f max_bytes context_bytes xs = Inr ys" "artifacts_ok h fs r max_bytes xs"
    and "(''evidence/function.json'', canonical_json h (JObj f)) \<in> set xs" "''evidence/context.bin'' \<notin> set (map fst xs)"
    and "file_at h fs path = Some content" "verified_content h fs r content" "0 \<le> context_bytes"
  shows "selection_ok h fs r max_bytes ys"
proof -
  from assms(1) obtain n first stop bytes_read mid where n: "integer_size r = Inr n"
    and range: "function_file_range h fs project n f = Inr (first, stop)"
    and bytes_read: "read_slice h fs path (max 0 (first - context_bytes))
        (min n (stop + context_bytes) - max 0 (first - context_bytes)) = Inr bytes_read"
    and mid: "append_artifact max_bytes ''evidence/context.bin'' bytes_read xs = Inr mid"
    and ys: "\<exists>j. append_json h max_bytes ''evidence/context.json'' j mid = Inr ys"
    by (auto simp: append_context_def function_context_range_def bindE_Inr_iff split: prod.splits) blast
  note bounds = function_file_range_bounds [OF range]
  have n_eq: "n = blen content" by (rule integer_size_content [OF n assms(6)])
  let ?a = "max 0 (first - context_bytes)" and ?b = "min n (stop + context_bytes)"
  have slice: "bytes_read = py_slice content ?a ?b" using bytes_read assms(5) by (auto simp: read_slice_Inr)
  have "grounded h fs r (''evidence/context.bin'', bytes_read)"
    using slice assms(6) by (auto simp: grounded_def)
  from append_artifact_ok [OF mid _ assms(2) this]
  have mid_ok: "artifacts_ok h fs r max_bytes mid" "mid = xs @ [(''evidence/context.bin'', bytes_read)]" by simp_all
  from ys obtain j where j: "append_json h max_bytes ''evidence/context.json'' j mid = Inr ys" by blast
  note ok = append_json_ok(1) [OF j mid_ok(1), simplified] and eq = append_json_ok(2) [OF j mid_ok(1), simplified]
  have "context_of_function h fs r ys"
    unfolding context_of_function_def
  proof (intro allI impI)
    fix d assume "(''evidence/context.bin'', d) \<in> set ys"
    then have "d = bytes_read" using assms(4) by (force simp: eq mid_ok(2))
    then show "\<exists>content project f first stop a b.
           verified_content h fs r content \<and> (''evidence/function.json'', canonical_json h (JObj f)) \<in> set ys \<and>
           function_file_range h fs project (blen content) f = Inr (first, stop) \<and>
           0 \<le> a \<and> a \<le> first \<and> stop \<le> b \<and> b \<le> blen content \<and> d = py_slice content a b"
      using assms(3,6,7) range bounds slice
      by (intro exI [of _ content] exI [of _ project] exI [of _ f] exI [of _ first] exI [of _ stop] exI [of _ ?a] exI [of _ ?b])
        (auto simp: n_eq eq mid_ok(2))
  qed
  with ok show ?thesis by (simp add: selection_ok_def)
qed

lemma function_artifacts_ok:
  assumes "function_artifacts h fs analysis r d selector max_bytes context_bytes = Inr (xs, f)" "0 \<le> max_bytes" "0 \<le> context_bytes"
  shows "selection_ok h fs r max_bytes xs"
proof -
  from assms(1) obtain project path j1 j2 j3 a0 a1 a2 a3 where
    a0: "append_json h max_bytes ''evidence/function.json'' (JObj f) [] = Inr a0"
    and a1: "append_json h max_bytes ''evidence/instructions.json'' j1 a0 = Inr a1"
    and a2: "append_json h max_bytes ''evidence/references.json'' j2 a1 = Inr a2"
    and a3: "append_json h max_bytes ''evidence/callgraph.json'' j3 a2 = Inr a3"
    and verified: "verify_source_file h fs r path = Inr ()"
    and xs: "append_context h fs path project r f max_bytes context_bytes a3 = Inr xs"
    by (auto simp: function_artifacts_def append_call_graph_def bindE_Inr_iff Let_def)
  note s0 = append_json_ok [OF a0 empty_ok [OF assms(2), of h fs r], simplified]
  note s1 = append_json_ok [OF a1 s0(1), simplified]
  note s2 = append_json_ok [OF a2 s1(1), simplified]
  note s3 = append_json_ok [OF a3 s2(1), simplified]
  from verify_source_file_Inr [OF verified] obtain content where
    "file_at h fs path = Some content" "verified_content h fs r content" by blast
  then show ?thesis
    using append_context_ok [OF xs s3(1)] assms(3) s0(2) s1(2) s2(2) s3(2) by simp
qed

lemma only_Inr: "only e xs = Inr x \<longleftrightarrow> xs = [x]"
  by (auto simp: only_def split: list.splits)

lemma find_workspace_file_Inr: "find_workspace_file m path = Inr r \<Longrightarrow> r \<in> set (wm_files m)"
proof -
  assume "find_workspace_file m path = Inr r"
  then obtain selected where "filter (\<lambda>r. casefold (wl_path r) = casefold selected) (wm_files m) = [r]"
    by (auto simp: find_workspace_file_def only_Inr bindE_Inr_iff)
  then show ?thesis by (metis filter_is_subset list.set_intros(1) subsetD)
qed

lemma selected_module_Inr: "selected_module h fs m analysis selector = Inr (r, d) \<Longrightarrow> r \<in> set (wm_files m)"
  by (auto simp: selected_module_def bindE_Inr_iff find_workspace_file_Inr split: option.splits)

lemma selected_artifacts_ok:
  assumes "selected_artifacts h fs m analysis workspace q = Inr (r, kind, value, xs)" "check_request q = Inr ()"
  shows "r \<in> set (wm_files m) \<and> selection_ok h fs r (pq_max_bytes q) xs"
proof -
  have budget: "0 \<le> pq_max_bytes q" "0 \<le> pq_context_bytes q"
    using assms(2) by (auto simp: check_request_def split: if_splits)
  show ?thesis
    using assms(1) budget
    by (auto simp: selected_artifacts_def bindE_Inr_iff split: option.splits prod.splits
      intro: module_artifacts_ok resource_artifacts_ok function_artifacts_ok
      dest: find_workspace_file_Inr selected_module_Inr)
qed

text \<open>Giving up an optional artifact keeps the others, and never the function or its context.\<close>

lemma without_optional_parts:
  assumes "without_optional xs = Some ys"
  shows "\<exists>before a after. xs = before @ a # after \<and> ys = before @ after \<and> fst a \<in> set OPTIONAL_ARTIFACTS"
proof -
  let ?k = "takeWhile (\<lambda>a. fst a \<notin> set OPTIONAL_ARTIFACTS) (rev xs)"
  from assms have ys: "ys = take (length xs - length ?k - 1) xs @ rev ?k" and short: "length ?k \<noteq> length xs"
    by (auto simp: without_optional_def Let_def split: if_splits)
  define rest where "rest = dropWhile (\<lambda>a. fst a \<notin> set OPTIONAL_ARTIFACTS) (rev xs)"
  have split: "rev xs = ?k @ rest" by (simp add: rest_def)
  with short have "rest \<noteq> []" by (metis append.right_neutral length_rev)
  then obtain a more where rest: "rest = a # more" by (cases rest) auto
  then have "fst a \<in> set OPTIONAL_ARTIFACTS"
    using hd_dropWhile [of "\<lambda>a. fst a \<notin> set OPTIONAL_ARTIFACTS" "rev xs"] by (simp add: rest_def)
  moreover have xs: "xs = rev more @ a # rev ?k"
    using arg_cong [OF split, of rev] rest by simp
  moreover have "take (length xs - length ?k - 1) xs = rev more"
  proof -
    have "length xs - length ?k - 1 = length more" using arg_cong [OF xs, of length] by simp
    then show ?thesis by (subst xs) simp
  qed
  ultimately show ?thesis using ys by metis
qed

lemma without_optional_ok:
  assumes "without_optional xs = Some ys" "selection_ok h fs r max_bytes xs"
  shows "selection_ok h fs r max_bytes ys"
proof -
  from without_optional_parts [OF assms(1)] obtain before a after where
    xs: "xs = before @ a # after" and ys: "ys = before @ after" and optional: "fst a \<in> set OPTIONAL_ARTIFACTS" by blast
  have "artifact_bytes ys \<le> artifact_bytes xs" by (simp add: xs ys artifact_bytes_def)
  with assms(2) have "artifacts_ok h fs r max_bytes ys"
    by (auto simp: selection_ok_def artifacts_ok_def xs ys)
  moreover have "e \<in> set ys" if "e \<in> set xs" "fst e \<notin> set OPTIONAL_ARTIFACTS" for e
    using that optional by (auto simp: xs ys)
  then have function_kept: "(''evidence/function.json'', d) \<in> set ys" if "(''evidence/function.json'', d) \<in> set xs" for d
    using that by (simp add: OPTIONAL_ARTIFACTS_def)
  have "set ys \<subseteq> set xs" by (auto simp: xs ys)
  with function_kept assms(2) have "context_of_function h fs r ys"
    unfolding selection_ok_def context_of_function_def by (meson subsetD)
  ultimately show ?thesis by (simp add: selection_ok_def)
qed

lemma fit_manifest_budget_ok:
  assumes "fit_manifest_budget print max_bytes xs = Inr (ys, manifest)" "selection_ok h fs r max_bytes xs"
  shows "selection_ok h fs r max_bytes ys \<and> manifest = print ys \<and> artifact_bytes ys + blen manifest \<le> max_bytes"
  using assms
proof (induction print max_bytes xs rule: fit_manifest_budget.induct)
  case (1 print max_bytes xs)
  show ?case
  proof (cases "artifact_bytes xs + blen (print xs) \<le> max_bytes")
    case True
    with 1 show ?thesis by (auto simp: fit_manifest_budget.simps [of print max_bytes xs] Let_def)
  next
    case False
    with 1(2) obtain fewer where fewer: "without_optional xs = Some fewer" "fit_manifest_budget print max_bytes fewer = Inr (ys, manifest)"
      by (auto simp: fit_manifest_budget.simps [of print max_bytes xs] Let_def split: option.splits)
    from 1(1) [OF refl False fewer(1)] fewer(2) without_optional_ok [OF fewer(1) 1(3)] show ?thesis by blast
  qed
qed

lemma map_sum_id_Inr: "map_sum f id x = Inr y \<longleftrightarrow> x = Inr y"
  by (cases x) simp_all

definition pack_sound ::
    "('c, 'v) pack_host \<Rightarrow> string \<Rightarrow> string \<Rightarrow> pack_request \<Rightarrow> file_store \<Rightarrow> pack_result \<Rightarrow> file_store \<Rightarrow> bool" where
  "pack_sound h workspace output q fs res fs' \<longleftrightarrow>
     (\<exists>m r xs manifest.
        load_game_workspace (pack_workspace_host h) fs workspace = Inr m \<and> r \<in> set (wm_files m) \<and>
        manifest = canonical_json h (pack_manifest h m r (pr_selector_kind res) (pr_selector_value res) xs) \<and>
        distinct (map fst xs) \<and> set (map fst xs) \<subseteq> set PACK_PATHS \<and>
        artifact_bytes xs + blen manifest \<le> pq_max_bytes q \<and>
        list_all (grounded h fs r) xs \<and> context_of_function h fs r xs \<and>
        pr_artifact_count res = blen xs \<and> pr_total_bytes res = artifact_bytes xs \<and>
        pr_manifest_sha256 res = gh_sha256 h manifest \<and> \<not> list_ex (dk_symlink h) (output_chain output) \<and>
        fs' = fs(mh_resolve h output \<mapsto> pk_archive h (sort_key fst xs @ [(''pack-manifest.json'', manifest)])))"

lemma write_pack_Inr:
  "write_pack h output xs manifest fs = (Inr u, fs') \<Longrightarrow>
     \<not> list_ex (dk_symlink h) (output_chain output) \<and>
     fs' = fs(mh_resolve h output \<mapsto> pk_archive h (sort_key fst xs @ [(''pack-manifest.json'', manifest)]))"
  by (auto simp: write_pack_def convertS_def put_bytes_def find_None_iff list_ex_iff split: option.splits if_splits)

lemma created_pack_sound:
  assumes "create_analysis_pack h workspace output q fs = (Inr res, fs')"
  shows "pack_sound h workspace output q fs res fs'"
proof -
  from assms obtain r kind chosen xs manifest where
    contents: "pack_contents h fs workspace q = Inr (r, kind, chosen, xs, manifest)"
    and written: "write_pack h output xs manifest fs = (Inr (), fs')"
    and res: "res = \<lparr> pr_output_path = output, pr_selector_kind = kind, pr_selector_value = chosen,
          pr_artifact_count = blen xs, pr_total_bytes = artifact_bytes xs, pr_manifest_sha256 = gh_sha256 h manifest \<rparr>"
    by (auto simp: create_analysis_pack_def action_Inr split: prod.splits)
  moreover from contents obtain m analysis before where
    check: "check_request q = Inr ()" and m: "load_game_workspace (pack_workspace_host h) fs workspace = Inr m"
    and selected: "selected_artifacts h fs m analysis workspace q = Inr (r, kind, chosen, before)"
    and fit: "fit_manifest_budget (\<lambda>xs. canonical_json h (pack_manifest h m r kind chosen xs)) (pq_max_bytes q) before = Inr (xs, manifest)"
    by (auto simp: pack_contents_def bindE_Inr_iff map_sum_id_Inr split: prod.splits)
  note ok = selected_artifacts_ok [OF selected check]
  note kept = fit_manifest_budget_ok [OF fit conjunct2 [OF ok]]
  ultimately show ?thesis
    using m ok kept write_pack_Inr [OF written]
    unfolding pack_sound_def selection_ok_def artifacts_ok_def
    by (intro exI [of _ m] exI [of _ r] exI [of _ xs] exI [of _ manifest]) simp
qed


section \<open>A sample pack\<close>

text \<open>The workspace of before with the report of one resource, and its bytes.\<close>

definition sample_pack_loads :: "bytes \<Rightarrow> json option" where
  "sample_pack_loads bs =
     (if bs = [5, 10]
      then Some (JObj [(''resources'', JList [JObj [(''path'', JStr ''a.bin''), (''extracted_path'', JStr ''resources/files/a.bin'')]])])
      else sample_workspace_loads bs)"

definition sample_pack_host :: "(unit, nat) pack_host" where
  "sample_pack_host =
     \<lparr> mh_environ = (\<lambda>_. None), mh_which = (\<lambda>_. None), mh_resolve = (\<lambda>p. p), mh_is_dir = (\<lambda>p. p = ''/s''),
       mh_python = ''py'', mh_temporary = ''/tmp'', mh_writable = (\<lambda>_. True), mh_split_words = (\<lambda>s. Some [s]),
       mh_build = (\<lambda>_ _ fs. (Exited 0, fs)), mh_repr = (\<lambda>s. s), mh_differ = (\<lambda>_ _ _ _. (Exited 0, [])),
       mh_loads = sample_pack_loads, mh_dumps = sample_workspace_dumps, mh_toml = (\<lambda>_ _. None), dk_symlink = (\<lambda>_. False),
       dk_tree = (\<lambda>_. [''a.bin'']), dk_iso = None, dk_print = (\<lambda>_. ''error''),
       gk_os_error = (\<lambda>_. ''error''), gk_log2 = (\<lambda>q. 0), gk_show_score = (\<lambda>_. ''score''), gh_engine = None,
       gh_unicode = (\<lambda>_. True), gh_sha1 = (\<lambda>_. ''00''), gh_sha256 = (\<lambda>_. ''00''), gh_render = (\<lambda>_. []),
       gh_codec = \<lparr> nc_loads = (\<lambda>_. None), nc_rows = (\<lambda>_. ([], False)), nc_text = (\<lambda>_. []) \<rparr>,
       gh_failure_text = (\<lambda>_. ''error''), gh_analyze_text = (\<lambda>_. ''encrypted''), gh_link_text = (\<lambda>_. []),
       wh_version = None, wh_mtime = (\<lambda>_. 7), wh_compact = (\<lambda>_. []), pk_archive = (\<lambda>xs. concat (map snd xs)) \<rparr>"

definition sample_pack_store :: file_store where
  "sample_pack_store p =
     map_of [(''/w/manifests/files.json'', [1, 10]), (''/w/workspace.json'', [2, 10]),
       (''/w/analysis/game_project/metadata/game_analysis.json'', []),
       (''/w/analysis/game_project/metadata/game_resources.json'', [5, 10]),
       (''/w/analysis/game_project/resources/files/a.bin'', [1, 2])] p"

text \<open>A budget of seven bytes: the report, the sample and the manifest take six, and the whole file is given up.\<close>

definition sample_pack_request :: pack_request where
  "sample_pack_request =
     \<lparr> pq_module = None, pq_function = None, pq_resource = Some ''a.bin'', pq_max_bytes = 7, pq_context_bytes = 4 \<rparr>"

definition sample_pack :: "(pack_error, pack_result) result \<times> file_store" where
  "sample_pack = create_analysis_pack sample_pack_host ''/w'' ''/a.zip'' sample_pack_request sample_pack_store"


section \<open>Modules that cannot be packed, and what is not portable\<close>

text \<open>
  The extracted path of a recovered module is that of its recovered bytes, the hash of the manifest is that of the encrypted
  ones: such a module is never packed.
\<close>

lemma recovered_module_is_refused:
  assumes "extracted_bytes_path h fs analysis d = Inr path" "file_at h fs path = Some recovered"
    and "wl_sha256 r = JStr (gh_sha256 h original)" "gh_sha256 h recovered \<noteq> gh_sha256 h original"
  shows "module_artifacts h fs analysis workspace r d max_bytes \<noteq> Inr xs"
proof -
  have "verify_source_file h fs r path \<noteq> Inr u" for u
    using assms(2-4) by (auto simp: verify_source_file_def bindE_Inr_iff)
  with assms(1) show ?thesis by (auto simp: module_artifacts_def bindE_Inr_iff)
qed

text \<open>Local paths are taken out of the metadata files of a module only: its own record is packed as it is.\<close>

lemma module_record_is_packed_unchanged:
  assumes "module_artifacts h fs analysis workspace r d max_bytes = Inr xs"
  shows "(''evidence/module.json'', canonical_json h (JObj d)) \<in> set xs"
proof -
  let ?P = "\<lambda>xs. (''evidence/module.json'', canonical_json h (JObj d)) \<in> set xs"
  have grows: "?P xs \<Longrightarrow> append_artifact m p b xs = Inr ys \<Longrightarrow> ?P ys" for m p b xs ys
    by (auto simp: append_artifact_def bindE_Inr_iff split: if_splits)
  from assms obtain start project mid path where
    start: "append_json h max_bytes ''evidence/module.json'' (JObj d) [] = Inr start"
    and mid: "foldE (append_metadata h fs workspace r project max_bytes) METADATA_FILES start = Inr mid"
    and full: "append_optional_full_file h fs max_bytes ''evidence/module.bin'' path ''selected module'' mid = Inr xs"
    by (auto simp: module_artifacts_def bindE_Inr_iff)
  have "?P start"
    using start by (auto simp: append_json_def append_artifact_def pack_paths_logical bindE_def split: if_splits)
  moreover have "?P ys" if "append_metadata h fs workspace r project max_bytes name xs = Inr ys" "?P xs" for name xs ys
    using that grows by (auto simp: append_metadata_def append_json_def bindE_Inr_iff Let_def split: if_splits)
  ultimately have "?P mid" using foldE_invariant [where P = ?P, OF mid] by blast
  with full grows show ?thesis
    by (auto simp: append_optional_full_file_def bindE_Inr_iff Let_def split: if_splits)
qed

end
