(* ===== verification/Loaded_Image.thy ===== *)
theory Loaded_Image
  imports Disassembler
begin

text \<open>
  The type of a loaded image: the parser and the relocated load view keep every field within the width
  it has in the file format.
\<close>

lemma mapE_covers: "mapE f xs = Inr ys \<Longrightarrow> x \<in> set xs \<Longrightarrow> \<exists>y. f x = Inr y"
  unfolding mapE_Inr_iff in_set_conv_nth by blast

section \<open>A loaded image is well typed\<close>

text \<open>
  The widths of the fields, which the unbounded integers of the model do not have: half words and words of the
  header, words of the segments and sections, the index of a header its position, the kind of a section the one of
  its type and flags. Only a loadable segment without memory may have moved out of the address space.
\<close>

definition half :: "int \<Rightarrow> bool" where
  "half v \<longleftrightarrow> 0 \<le> v \<and> v < 65536"

definition full :: "int \<Rightarrow> bool" where
  "full v \<longleftrightarrow> 0 \<le> v \<and> v < 4294967296"

definition header_typed :: "elf_header \<Rightarrow> bool" where
  "header_typed h \<longleftrightarrow>
     list_all half [eh_file_type h, eh_machine h, eh_ehsize h, eh_phentsize h, eh_phnum h, eh_shentsize h, eh_shnum h,
       eh_shstrndx h] \<and>
     list_all full [eh_version h, eh_entry h, eh_phoff h, eh_shoff h, eh_flags h]"

definition segment_typed :: "program_header \<Rightarrow> bool" where
  "segment_typed s \<longleftrightarrow>
     list_all full [ph_type s, ph_offset s, ph_filesz s, ph_memsz s, ph_flags s, ph_align s] \<and>
     (ph_type s = PT_LOAD \<and> ph_memsz s = 0 \<or> full (ph_vaddr s) \<and> full (ph_paddr s))"

definition section_typed :: "elf_section \<Rightarrow> bool" where
  "section_typed s \<longleftrightarrow>
     list_all full [se_type s, se_flags s, se_addr s, se_offset s, se_size s, se_link s, se_info s, se_addralign s, se_entsize s] \<and>
     se_kind s = section_kind_of (se_type s) (se_flags s)"

definition image_typed :: "elf_image \<Rightarrow> bool" where
  "image_typed elf \<longleftrightarrow>
     header_typed (el_header elf) \<and>
     list_all segment_typed (el_program_headers elf) \<and> list_all section_typed (el_sections elf) \<and>
     map ph_index (el_program_headers elf) = map int [0..<nat (eh_phnum (el_header elf))] \<and>
     map se_index (el_sections elf) = map int [0..<nat (eh_shnum (el_header elf))] \<and>
     elf_wf elf"

lemma full_read [simp]: "0 \<le> off \<Longrightarrow> full (read_int e xs off 4)"
  by (simp add: full_def read_int_u32)

lemma half_read [simp]: "0 \<le> off \<Longrightarrow> half (read_int e xs off 2)"
  by (simp add: half_def read_int_u16)

lemma full_constants [simp]: "full 0" "full SHT_NOBITS"
  by (simp_all add: full_def SHT_NOBITS_def)

lemma header_of_bytes_typed: "header_typed (header_of_bytes e raw)"
  by (simp add: header_typed_def header_of_bytes_def)

lemma parse_program_header_typed: "parse_program_header e data h i = Inr ph \<Longrightarrow> segment_typed ph"
  by (auto simp: parse_program_header_def bindE_Inr_iff Let_def program_header_of_def segment_typed_def u32_fields_nth
      split: if_splits)

lemma parse_raw_section_typed: "parse_raw_section e data h i = Inr v \<Longrightarrow> section_typed (section_of shstr k v)"
  by (auto simp: parse_raw_section_def bindE_Inr_iff Let_def section_of_def section_typed_def u32_fields_nth split: if_splits)

lemma indices_of:
  assumes "blen xs = n" "\<And>i. i < length xs \<Longrightarrow> f (xs ! i) = int i"
  shows "map f xs = map int [0..<nat n]"
  using assms by (auto intro: nth_equalityI)

lemma parse_elf32_typed:
  assumes "parse_elf32 data = Inr elf"
  shows "image_typed elf"
proof -
  from assms obtain e raw phs raws shstr where
    h: "el_header elf = header_of_bytes e raw"
    and phs: "mapE (parse_program_header e data (el_header elf)) [0..<nat (eh_phnum (el_header elf))] = Inr phs"
    and raws: "mapE (parse_raw_section e data (el_header elf)) [0..<nat (eh_shnum (el_header elf))] = Inr raws"
    and eqs: "el_program_headers elf = phs"
      "el_sections elf = map (\<lambda>i. section_of shstr i (raws ! i)) [0..<length raws]"
    by (rule parse_elf32_parts)
  have "list_all segment_typed phs"
    using mapE_set [OF phs] by (auto simp: list_all_iff dest: parse_program_header_typed)
  moreover have "section_typed (section_of shstr i (raws ! i))" if "i < length raws" for i
    using mapE_set [OF raws] nth_mem [OF that] parse_raw_section_typed by metis
  moreover note indices_of [OF parse_elf32_counts(1) [OF assms] parse_elf32_counts(3) [OF assms]]
    indices_of [OF parse_elf32_counts(2) [OF assms] parse_elf32_counts(4) [OF assms]]
  ultimately show ?thesis
    using header_of_bytes_typed parse_elf32_wf [OF assms] by (simp add: image_typed_def eqs h list_all_iff)
qed

lemma validated_segment:
  assumes "validate_rebased_layout elf d = Inr ()" "s \<in> set (loaded_segments elf)"
  shows "0 \<le> ph_vaddr s + d \<and> ph_vaddr s + d + ph_memsz s \<le> 4294967296 \<and> full (ph_paddr s + d) \<and> full (ph_vaddr s + d)"
proof -
  from assms have "validate_segment d s = Inr ()"
    by (auto simp: validate_rebased_layout_def bindE_Inr_iff dest: mapE_covers)
  then show ?thesis
    by (auto simp: validate_segment_def require_u32_range_def require_u32_address_def UINT32_LIMIT_def UINT32_MAX_def
        bindE_Inr_iff full_def split: if_splits)
qed

lemma validated_section:
  assumes "validate_rebased_layout elf d = Inr ()" "s \<in> set (el_sections elf)" "allocated_section s"
  shows "full (se_addr s + d)"
proof -
  from assms have "validate_section d s = Inr ()"
    by (auto simp: validate_rebased_layout_def bindE_Inr_iff dest: mapE_covers)
  with assms(3) show ?thesis
    by (auto simp: validate_section_def require_u32_range_def require_u32_address_def UINT32_LIMIT_def UINT32_MAX_def
        bindE_Inr_iff full_def split: if_splits)
qed

lemma rebased_segment_typed:
  assumes "validate_rebased_layout elf d = Inr ()" "s \<in> set (el_program_headers elf)" "segment_typed s"
  shows "segment_typed (rebase_segment d s)"
proof (cases "ph_type s = PT_LOAD \<and> ph_memsz s > 0")
  case True
  with assms(2) have "s \<in> set (loaded_segments elf)" by (simp add: loaded_segments_def)
  from validated_segment [OF assms(1) this] True assms(3) show ?thesis
    by (simp add: segment_typed_def rebase_segment_def)
next
  case False
  with assms(3) show ?thesis by (auto simp: segment_typed_def rebase_segment_def full_def)
qed

lemma rebase_elf_typed:
  assumes typed: "image_typed elf" and valid: "validate_rebased_layout elf d = Inr ()"
    and bytes: "length patched = length (el_raw_data elf)"
  shows "image_typed (rebase_elf elf patched d)"
proof -
  have "full (eh_entry (el_header elf) + d)" if "s \<in> set (loaded_segments elf)" "contains_address s (eh_entry (el_header elf))" for s
    using validated_segment [OF valid that(1)] that(2) by (auto simp: contains_address_def full_def)
  then have "header_typed (el_header (rebase_elf elf patched d))"
    using typed by (auto simp: rebase_elf_def Let_def image_typed_def header_typed_def list_ex_iff)
  moreover have "list_all segment_typed (el_program_headers (rebase_elf elf patched d))"
    using typed rebased_segment_typed [OF valid] by (auto simp: rebase_elf_def Let_def image_typed_def list_all_iff)
  moreover have "section_typed (rebase_section d s)" if "s \<in> set (el_sections elf)" for s
    using typed that validated_section [OF valid that]
    by (auto simp: image_typed_def list_all_iff section_typed_def rebase_section_def)
  then have "list_all section_typed (el_sections (rebase_elf elf patched d))"
    by (simp add: rebase_elf_def Let_def list_all_iff)
  moreover have "map ph_index (map (rebase_segment d) phs) = map ph_index phs" for phs
    by (simp add: rebase_segment_def)
  moreover have "map se_index (map (rebase_section d) ss) = map se_index ss" for ss
    by (simp add: rebase_section_def)
  moreover have "elf_wf (rebase_elf elf patched d)"
    using rebase_elf_wf [OF _ bytes] typed by (simp add: image_typed_def)
  ultimately show ?thesis
    using typed by (simp add: image_typed_def rebase_elf_def Let_def del: map_map)
qed

lemma load_module_typed:
  assumes "load_module data nm la = Inr (elf, m)"
  shows "image_typed elf"
proof -
  from assms obtain m0 elf0 where elf0: "parse_elf32 data = Inr elf0"
    and placed: "(case la of None \<Rightarrow> Inr (elf0, m0)
       | Some address \<Rightarrow> (case build_relocated_load_view data elf0 m0 address of
            Inl e \<Rightarrow> Inl (View_Rejected e) | Inr view \<Rightarrow> Inr (lv_elf view, lv_model view))) = Inr (elf, m)"
    by (auto simp: load_module_def split: sum.splits if_splits)
  have raw: "el_raw_data elf0 = data" using elf0 by (rule parse_elf32_parts)
  show ?thesis
  proof (cases la)
    case None
    with placed parse_elf32_typed [OF elf0] show ?thesis by simp
  next
    case (Some address)
    with placed obtain view where view: "build_relocated_load_view data elf0 m0 address = Inr view" "elf = lv_elf view"
      by (auto split: sum.splits)
    have bytes: "length (el_raw_data elf) = length data"
      using apply_relocations_facts(1) [OF load_view_bytes [OF view(1)]] view(2) by simp
    obtain patched where "lv_elf view = rebase_elf elf0 patched (lv_address_delta view)"
      and valid: "validate_rebased_layout elf0 (lv_address_delta view) = Inr ()"
      using build_view_parts [OF view(1)] by metis
    with view(2) have image: "elf = rebase_elf elf0 patched (lv_address_delta view)" by simp
    with bytes raw have "length patched = length (el_raw_data elf0)" by (simp add: rebase_elf_def Let_def)
    from rebase_elf_typed [OF parse_elf32_typed [OF elf0] valid this] image show ?thesis by simp
  qed
qed



text \<open>
  The layout check covers the loadable segments with memory, but every loadable segment is moved: one without memory can
  end below address 0, or above the address space.
\<close>

lemma empty_segment_leaves_address_space:
  "(let load = sample_elf\<lparr> el_program_headers := [(hd (el_program_headers sample_elf))\<lparr> ph_memsz := 0, ph_vaddr := 0x10, ph_paddr := 0x10 \<rparr>,
        hd (el_program_headers sample_elf)] \<rparr> in
    validate_rebased_layout load (- 0x1000) = Inr () \<and>
    map ph_vaddr (el_program_headers (rebase_elf load (el_raw_data load) (- 0x1000))) = [- 0xFF0, 0])"
  by code_simp

end
