(* ===== verification/Spec2Isabelle.thy ===== *)
theory Spec2Isabelle
  imports Analyzer Sfo Load_View Placement Cso_Image Containers Project Recovery Matcher Runtime_Session Reconciliation
    Queue Analysis_Pack Loaded_Image
begin

text \<open>
  A verification development of the PSP disassembly tool (\<open>src/src/pspdisasm\<close>): a program that parses
  executables of the PlayStation Portable, relocates, disassembles and types them, makes buildable projects of them, compares
  rebuilt functions with the original, observes a running game through a debugger, and orchestrates all this for the modules and
  resources of a whole game disc.

  \<^bold>\<open>How the parts interact.\<close> \<open>analyze_bytes\<close> detects the input and runs the container, ELF and PRX parsers, which gives the
  executable model. \<open>build_relocated_load_view\<close> moves model and image to a load address; \<open>disassemble_bytes\<close> runs the engine over
  either. \<open>generate_project\<close> adds assets, data types, call edges and symbols to a disassembly. \<open>generate_game_project\<close> scans a disc or a
  directory, analyzes its resources, recovers encrypted modules, plans their placements, makes a project of each and links
  them; a workspace keeps its result for an unchanged source, and a pack takes what it knows about one part. The decompilation orchestrator takes functions of the projects from its queue, runs the decompiler and the
  compilers, has the matcher compare the objects and records attempts in state files. The debugger session collects observations of a running
  game, which are reconciled with the static addresses and kept as evidence that the queue and its reports show.

  \<^bold>\<open>Conventions.\<close> A Python \<open>int\<close> is an \<open>int\<close>, \<open>bytes\<close> a list of 8-bit words, a text the list of its UTF-8 bytes, a float a rational;
  every exception a component raises is a constructor of its error type, also the ones the code does not mean to raise
  (\<open>struct.error\<close>, \<open>KeyError\<close>, \<open>AttributeError\<close>, \<open>UnicodeDecodeError\<close>). A fallible function returns a sum; code with effects is an action that
  returns a result and the state it leaves, also when it raises. \<open>sorted\<close> is \<open>sort_key\<close>, which is stable too; a dictionary is an association list
  in insertion order. Files are a map from resolved paths to contents; directories are implicit.

  \<^bold>\<open>Theories, in the order of the imports.\<close>
  \<^item> \<open>Py_Prelude\<close>, \<open>Effects\<close>, \<open>Json\<close>, \<open>Host_Model\<close>, \<open>File_Names\<close>, \<open>Csv_Text\<close>: what the program uses of Python: slices, \<open>struct\<close>, masks, UTF-8, dictionaries,
    loops that raise, actions and their invariants (\<open>preserves_intros\<close>), JSON values, paths, processes, file names, CSV rows.
  \<^item> \<open>Psp_Model\<close> (\<open>model.py\<close>, \<open>detect.py\<close>): the records of an executable. \<open>Elf_Parser\<close> (\<open>elf32.py\<close>): every offset of a parsed image lies in the file.
    \<open>Psp_Header\<close> (\<open>psp_container.py\<close>): round trip with the header format. \<open>Sfo\<close> (\<open>sfo.py\<close>): entries are ranges of the file.
  \<^item> \<open>Prx_Reloc2\<close> (\<open>prxreloc2.py\<close>): the compact relocation stream addresses words of segments; relocating a word is an action of addresses.
    \<open>Prx\<close> (\<open>prx.py\<close>): the walks of exports, imports and relocations. \<open>Analyzer\<close> (\<open>analyzer.py\<close>): their composition never unpacks past the input.
  \<^item> \<open>Load_View\<close> (\<open>load_view.py\<close>): a view changes the words its relocations name, each as the relocation says. \<open>Loaded_Image\<close>: every field of a loaded
    image is a value of its width. \<open>Placement\<close> (\<open>placement.py\<close>): the search ends with the first fit, secondary modules meet no other module.
  \<^item> \<open>Cso_Image\<close> (\<open>disc_image.py\<close>): every read of a compressed image is a slice of one fixed sequence, whatever the cache holds; a refinement over an inductive
    set of reachable readers. \<open>Disc\<close> (\<open>disc.py\<close>): scanning and extracting write only below the output, and every executable is extracted with its content.
  \<^item> \<open>Selection\<close>, \<open>Recovery\<close> (\<open>recovery.py\<close>), \<open>Containers\<close> (\<open>resource_containers.py\<close>): the choice of the best probe, and that only verified output is recovered.
  \<^item> \<open>Nids\<close>, \<open>Nid_Files\<close> (\<open>nids.py\<close>), \<open>Linker\<close> (\<open>linker.py\<close>): the later symbol wins; a link is the one provider in another module.
  \<^item> \<open>Resource_Formats\<close> (\<open>resource_formats.py\<close>): the scan reports exactly the detectable resources. \<open>Game_Resources\<close> (\<open>game_resources.py\<close>): what a container parser
    lists is bounded and confined.
  \<^item> \<open>Spim_Engine\<close> (\<open>engines/spim.py\<close>), \<open>Disassembler\<close>, \<open>Advanced\<close>, \<open>Asset_Discovery\<close>, \<open>Data_Typing\<close>, \<open>Project\<close>: what is reported is in the loaded image; a project holds its bytes.
  \<^item> \<open>Matcher\<close> (\<open>matcher.py\<close>): the synthesized reference object parses back as the function. \<open>Decompiler\<close>, \<open>Toolchain\<close>, \<open>Decompilation_Store\<close>, \<open>Orchestrator\<close>, \<open>Queue\<close>
    (\<open>decompiler.py\<close>, \<open>decompile/\<close>): recorded matches are real, states survive saving, a queue is prioritized, conflicting evidence is shown.
  \<^item> \<open>Debugger_Frames\<close>, \<open>Debugger_Transport\<close>, \<open>Runtime_Session\<close>, \<open>Runtime_Model\<close>, \<open>Runtime_Modules\<close>, \<open>Reconciliation\<close>, \<open>Evidence_Store\<close> (\<open>runtime/\<close>): frames and requests,
    bounded queues in every reachable client, breakpoints that are removed, addresses that are claimed only when proven, evidence that survives saving.
  \<^item> \<open>Game_Project\<close> (\<open>game_project.py\<close>), \<open>Game_Workspace\<close> (\<open>workspace.py\<close>), \<open>Analysis_Pack\<close> (\<open>analysis_pack.py\<close>): every module is accounted for, failures are isolated, an analysis is
    reused only for the same source and options, a pack fits its budget and its bytes are those of the verified source.

  \<^bold>\<open>Interfaces.\<close> Where several operations share a contract it is a locale that is interpreted on the model in the theory of its provider, and the properties rest
  on its facts: the patches of words (\<open>word_patches\<close> in \<open>Load_View\<close>), the turns of a table (\<open>table_turn\<close> in \<open>Prx\<close>), the blocks under a
  reader (\<open>block_sequence\<close> in \<open>Cso_Image\<close>), the placement loops (\<open>placement_loop\<close>), the store of symbols (\<open>symbol_store\<close> in \<open>Nids\<close>) and the toolchains (\<open>build_toolchain\<close>).

  \<^bold>\<open>Bounds.\<close> No recursion uses fuel where the code has none: loops are structural or end by a measure, and the one that may not end by its form
  (the search of \<open>Placement\<close>) is a partial function that is proved to return. The socket of the debugger delivers a finite list of fragments. Case folding and stripping are the ASCII
  ones; texts that differ only in other cases are different for the model.

  \<^bold>\<open>Parameters\<close>, which stand for code that is not part of the repository: zlib and LZ4; the ISO 9660 library; the JSON, TOML, YAML and CSV codecs; SHA-1 and SHA-256;
  the logarithm; Unicode tables; processes, environment and resolution of paths; the disassembly engine; container parsers and recovery backends; the texts of exceptions; modification times.
  A codec is assumed to read back what it prints only in hypotheses of round trips, about the documents at hand.

  \<^bold>\<open>Not modelled.\<close> The command line (\<open>cli.py\<close>) parses arguments and prints results. \<open>runtime/bundle.py\<close> checks an installation of the emulator: hashes of
  files and three options of its configuration. The package files re-export names. Of the debugger session, the launch of the process is given as its polls and waits.
  Values of the wrong type in a state that only the program writes are outside the model where the code would carry them along without looking at them.

  \<^bold>\<open>Findings.\<close> Where the code does something else than it means to, a lemma shows it on a concrete input: among them \<open>load_view_zero_memory_target_key_error\<close>, \<open>empty_segment_leaves_address_space\<close>,
  \<open>resolution_identity_ignores_kind\<close>, \<open>module_labels_collide\<close>, \<open>failed_open_leaves_socket_open\<close>, \<open>assembly_files_collide\<close>, \<open>state_files_collide\<close>, \<open>versions_collide\<close>,
  \<open>plans_alone_but_not_together\<close>, \<open>view_crash_stops_game\<close>, \<open>unchanged_source_is_refused\<close>, \<open>analysis_key_ignores_names\<close>, \<open>recovered_module_is_refused\<close>.
\<close>

end
